(* ===== verification/Prelude.thy ===== *)
theory Prelude
  imports
    Main
    "HOL-Library.Char_ord"
    "HOL-Library.List_Lexorder"
    "HOL-Library.Finite_Map"
    "HOL-Library.State_Monad"
begin

text \<open>
  Shared ground of the development.

  Effects.  Everything the operator reaches outside its own process (the Kubernetes API
  server, the Azure Resource Manager, the clock, the event recorder) is a function of an
  abstract world \<open>'w\<close>.  A Go function that performs such calls is a value of the library's
  state monad over \<open>'w\<close>; a Go function returning \<open>(T, error)\<close> has the result type
  \<open>'e + 'a\<close>, \<open>Inl\<close> for a non-nil error.  \<open>io_try\<close> is the idiom
  \<open>x, err := f(); if err != nil { return ..., err }\<close>.

  The second half models the parts of Go's standard library the sources use on byte strings
  (\<open>strings\<close>, \<open>strconv\<close>, the \<open>fmt\<close> verbs) and on maps (\<open>maps\<close>).  A Go map is a finite map,
  so a nil map and an empty map are the same value; every use of a nil check in the
  sources agrees on the two.
\<close>

named_theorems const_defs \<open>definitions of the string and number constants of the sources\<close>
named_theorems run_simps \<open>rules that evaluate a monadic run\<close>

type_synonym ('w, 'e, 'a) eio = "('w, 'e + 'a) state"

section \<open>The error-returning state monad\<close>

definition io_return :: "'a \<Rightarrow> ('w, 'e, 'a) eio" where
  "io_return a = State_Monad.return (Inr a)"

definition io_fail :: "'e \<Rightarrow> ('w, 'e, 'a) eio" where
  "io_fail e = State_Monad.return (Inl e)"

definition io_try :: "('w, 'e, 'a) eio \<Rightarrow> ('a \<Rightarrow> ('w, 'e, 'b) eio) \<Rightarrow> ('w, 'e, 'b) eio" where
  "io_try m k = State_Monad.bind m
     (\<lambda>r. case r of Inl e \<Rightarrow> io_fail e | Inr a \<Rightarrow> k a)"

text \<open>\<open>io_of\<close> embeds a pure result, \<open>io_map_err\<close> rewrites the error of a call.\<close>

definition io_of :: "'e + 'a \<Rightarrow> ('w, 'e, 'a) eio" where
  "io_of r = State_Monad.return r"

definition io_map_err :: "('e \<Rightarrow> 'f) \<Rightarrow> ('w, 'e, 'a) eio \<Rightarrow> ('w, 'f, 'a) eio" where
  "io_map_err f m = State_Monad.bind m
     (\<lambda>r. State_Monad.return (case r of Inl e \<Rightarrow> Inl (f e) | Inr a \<Rightarrow> Inr a))"

lemma run_io_return [simp, run_simps]: "run_state (io_return a) w = (Inr a, w)"
  by (simp add: io_return_def)

lemma run_io_fail [simp, run_simps]: "run_state (io_fail e) w = (Inl e, w)"
  by (simp add: io_fail_def)

lemma run_io_of [simp, run_simps]: "run_state (io_of r) w = (r, w)"
  by (simp add: io_of_def)

lemma run_io_try [run_simps]:
  "run_state (io_try m k) w =
     (case run_state m w of (Inl e, w') \<Rightarrow> (Inl e, w') | (Inr a, w') \<Rightarrow> run_state (k a) w')"
  by (auto simp: io_try_def split: prod.splits sum.splits)

lemma run_io_map_err [run_simps]:
  "run_state (io_map_err f m) w =
     (case run_state m w of (Inl e, w') \<Rightarrow> (Inl (f e), w') | (Inr a, w') \<Rightarrow> (Inr a, w'))"
  by (auto simp: io_map_err_def split: prod.splits sum.splits)

lemma run_state_State [simp, run_simps]: "run_state (State f) w = f w"
  by simp

declare run_state_bind [run_simps] run_state_return [run_simps]

lemma run_io_try_Inr:
  "run_state m w = (Inr a, w') \<Longrightarrow> run_state (io_try m k) w = run_state (k a) w'"
  by (simp add: run_io_try)

lemma run_io_try_Inl:
  "run_state m w = (Inl e, w') \<Longrightarrow> run_state (io_try m k) w = (Inl e, w')"
  by (simp add: run_io_try)

lemma run_io_map_err_Inr:
  "run_state m w = (Inr a, w') \<Longrightarrow> run_state (io_map_err f m) w = (Inr a, w')"
  by (simp add: run_io_map_err)

lemma run_io_map_err_Inl:
  "run_state m w = (Inl e, w') \<Longrightarrow> run_state (io_map_err f m) w = (Inl (f e), w')"
  by (simp add: run_io_map_err)

lemma run_bind_eq:
  "run_state m w = (a, w') \<Longrightarrow> run_state (State_Monad.bind m f) w = run_state (f a) w'"
  by simp

lemma io_try_InrE:
  assumes "run_state (io_try m k) w = (Inr b, w')"
  obtains a w1 where "run_state m w = (Inr a, w1)" and "run_state (k a) w1 = (Inr b, w')"
  using assms by (auto simp: run_io_try split: prod.splits sum.splits)

lemma io_map_err_InrE:
  assumes "run_state (io_map_err f m) w = (Inr b, w')"
  obtains "run_state m w = (Inr b, w')"
  using assms by (auto simp: run_io_map_err split: prod.splits sum.splits)

lemma run_map_state [run_simps]:
  "run_state (map_state f m) w = (case run_state m w of (a, w') \<Rightarrow> (f a, w'))"
  by (cases m) (simp add: split_beta map_prod_def)

section \<open>Relations between the world before and after a run\<close>

text \<open>
  \<open>preserves I m\<close>: running \<open>m\<close> keeps the predicate \<open>I\<close> on worlds.  With \<open>I\<close> arbitrary and
  only some calls assumed to keep it, this says that \<open>m\<close> performs no other call.
\<close>

definition preserves :: "('w \<Rightarrow> bool) \<Rightarrow> ('w, 'a) state \<Rightarrow> bool" where
  "preserves I m \<longleftrightarrow> (\<forall>w. I w \<longrightarrow> I (snd (run_state m w)))"

named_theorems preserves_intros \<open>compositional rules for preserves\<close>

lemma preservesD: "preserves I m \<Longrightarrow> I w \<Longrightarrow> run_state m w = (a, w') \<Longrightarrow> I w'"
  by (auto simp: preserves_def dest: spec[where x = w])

lemma preserves_return [preserves_intros, intro!]: "preserves I (State_Monad.return a)"
  by (simp add: preserves_def)

lemma preserves_io_return [preserves_intros, intro!]: "preserves I (io_return a)"
  by (simp add: preserves_def)

lemma preserves_io_fail [preserves_intros, intro!]: "preserves I (io_fail a)"
  by (simp add: preserves_def)

lemma preserves_io_of [preserves_intros, intro!]: "preserves I (io_of r)"
  by (simp add: preserves_def)

lemma preserves_bind [preserves_intros]:
  assumes "preserves I m" and "\<And>a. preserves I (f a)"
  shows "preserves I (State_Monad.bind m f)"
  unfolding preserves_def
proof (intro allI impI)
  fix w assume "I w"
  obtain a w' where m: "run_state m w = (a, w')" by fastforce
  with assms(1) \<open>I w\<close> have "I w'" by (rule preservesD)
  with assms(2)[of a] show "I (snd (run_state (State_Monad.bind m f) w))"
    by (simp add: m preserves_def)
qed

lemma preserves_io_try [preserves_intros]:
  "preserves I m \<Longrightarrow> (\<And>a. preserves I (k a)) \<Longrightarrow> preserves I (io_try m k)"
  unfolding io_try_def by (rule preserves_bind) (auto split: sum.splits)

lemma preserves_io_map_err [preserves_intros]:
  "preserves I m \<Longrightarrow> preserves I (io_map_err f m)"
  unfolding io_map_err_def by (rule preserves_bind) auto

lemma preserves_if [preserves_intros]:
  "(b \<Longrightarrow> preserves I m) \<Longrightarrow> (\<not> b \<Longrightarrow> preserves I n) \<Longrightarrow> preserves I (if b then m else n)"
  by simp

lemma preserves_option [preserves_intros]:
  "(x = None \<Longrightarrow> preserves I m) \<Longrightarrow> (\<And>a. x = Some a \<Longrightarrow> preserves I (f a)) \<Longrightarrow>
     preserves I (case x of None \<Rightarrow> m | Some a \<Rightarrow> f a)"
  by (cases x) auto

lemma preserves_sum [preserves_intros]:
  "(\<And>e. x = Inl e \<Longrightarrow> preserves I (f e)) \<Longrightarrow> (\<And>a. x = Inr a \<Longrightarrow> preserves I (g a)) \<Longrightarrow>
     preserves I (case x of Inl e \<Rightarrow> f e | Inr a \<Rightarrow> g a)"
  by (cases x) auto

lemma preserves_prod [preserves_intros]:
  "(\<And>a b. x = (a, b) \<Longrightarrow> preserves I (f a b)) \<Longrightarrow> preserves I (case x of (a, b) \<Rightarrow> f a b)"
  by (cases x) auto

lemma preserves_Let [preserves_intros]:
  "(\<And>x. x = a \<Longrightarrow> preserves I (f x)) \<Longrightarrow> preserves I (let x = a in f x)"
  by simp

section \<open>Finite maps as Go maps\<close>

type_synonym string_map = "(string, string) fmap"

text \<open>\<open>m[key]\<close> of a \<open>map[string]string\<close>: the zero value when the key is absent.\<close>

definition map_get :: "string_map \<Rightarrow> string \<Rightarrow> string" where
  "map_get m k = (case fmlookup m k of None \<Rightarrow> '''' | Some v \<Rightarrow> v)"

lemma map_get_empty [simp]: "map_get fmempty k = ''''"
  by (simp add: map_get_def)

lemma map_get_upd [simp]: "map_get (fmupd k v m) k' = (if k = k' then v else map_get m k')"
  by (simp add: map_get_def)

lemma map_get_add:
  "map_get (m ++\<^sub>f n) k = (if k |\<in>| fmdom n then map_get n k else map_get m k)"
  by (simp add: map_get_def)

lemma map_get_Some: "fmlookup m k = Some v \<Longrightarrow> map_get m k = v"
  by (simp add: map_get_def)

lemma fmlookup_drop_neq [simp]: "a \<noteq> b \<Longrightarrow> fmlookup (fmdrop a m) b = fmlookup m b"
  by simp

section \<open>Byte strings\<close>

abbreviation byte_of :: "char \<Rightarrow> nat" where
  "byte_of c \<equiv> of_char c"

text \<open>
  \<open>strings.ToLower\<close>, \<open>strings.EqualFold\<close>, \<open>strings.TrimSpace\<close> and \<open>strings.TrimRight\<close> on
  ASCII.  Bytes from 128 on are left alone: Go also folds and trims some non-ASCII code
  points, which none of the names handled here may contain.
\<close>

definition lower_char :: "char \<Rightarrow> char" where
  "lower_char c = (if 65 \<le> byte_of c \<and> byte_of c \<le> 90 then char_of (byte_of c + 32) else c)"

definition to_lower :: "string \<Rightarrow> string" where
  "to_lower s = map lower_char s"

definition equal_fold :: "string \<Rightarrow> string \<Rightarrow> bool" where
  "equal_fold s t \<longleftrightarrow> to_lower s = to_lower t"

definition is_space :: "char \<Rightarrow> bool" where
  "is_space c \<longleftrightarrow> byte_of c = 32 \<or> (9 \<le> byte_of c \<and> byte_of c \<le> 13)"

definition trim_space :: "string \<Rightarrow> string" where
  "trim_space s = rev (dropWhile is_space (rev (dropWhile is_space s)))"

definition trim_right :: "string \<Rightarrow> char \<Rightarrow> string" where
  "trim_right s c = rev (dropWhile (\<lambda>x. x = c) (rev s))"

lemma byte_of_lt [simp]: "byte_of c < 256"
  by simp

lemma byte_of_lower_char:
  "byte_of (lower_char c) = (if 65 \<le> byte_of c \<and> byte_of c \<le> 90 then byte_of c + 32 else byte_of c)"
  by (simp add: lower_char_def)

lemma lower_char_idem [simp]: "lower_char (lower_char c) = lower_char c"
  using byte_of_lower_char[of c] by (simp add: lower_char_def)

lemma to_lower_idem [simp]: "to_lower (to_lower s) = to_lower s"
  by (simp add: to_lower_def o_def)

lemma to_lower_Nil_iff [simp]: "to_lower s = [] \<longleftrightarrow> s = []" "[] = to_lower s \<longleftrightarrow> s = []"
  by (auto simp: to_lower_def)

lemma length_to_lower [simp]: "length (to_lower s) = length s"
  by (simp add: to_lower_def)

lemma equal_fold_refl [simp, intro!]: "equal_fold s s"
  by (simp add: equal_fold_def)

lemma equal_fold_sym: "equal_fold s t \<longleftrightarrow> equal_fold t s"
  by (auto simp: equal_fold_def)

lemma equal_fold_trans: "equal_fold s t \<Longrightarrow> equal_fold t u \<Longrightarrow> equal_fold s u"
  by (simp add: equal_fold_def)

lemma equal_fold_Nil [simp]: "equal_fold [] t \<longleftrightarrow> t = []" "equal_fold s [] \<longleftrightarrow> s = []"
  by (auto simp: equal_fold_def to_lower_def)

lemma trim_space_idem [simp]: "trim_space (trim_space s) = trim_space s"
proof -
  define u where "u = dropWhile is_space s"
  define v where "v = rev (dropWhile is_space (rev u))"
  have v_prefix: "\<exists>z. u = v @ z"
    by (metis v_def rev_append rev_rev_ident takeWhile_dropWhile_id)
  have hd_u: "u \<noteq> [] \<Longrightarrow> \<not> is_space (hd u)"
    unfolding u_def by (rule hd_dropWhile)
  have "v \<noteq> [] \<Longrightarrow> \<not> is_space (hd v)"
    using v_prefix hd_u by (metis append_is_Nil_conv hd_append2)
  then have drop_v: "dropWhile is_space v = v"
    by (cases v) auto
  have "dropWhile is_space (rev v) = rev v"
    unfolding v_def by (simp add: dropWhile_idem)
  with drop_v show ?thesis
    by (simp add: trim_space_def u_def[symmetric] v_def[symmetric])
qed

text \<open>\<open>strings.Join\<close> and the \<open>fmt\<close> verbs \<open>%d\<close>, \<open>%t\<close>, \<open>%q\<close> and \<open>%v\<close> of a string list.\<close>

fun join :: "string \<Rightarrow> string list \<Rightarrow> string" where
  "join sep [] = ''''"
| "join sep [x] = x"
| "join sep (x # xs) = x @ sep @ join sep xs"

definition digit :: "nat \<Rightarrow> char" where
  "digit n = char_of (48 + n)"

fun fmt_d :: "nat \<Rightarrow> string" where
  "fmt_d n = (if n < 10 then [digit n] else fmt_d (n div 10) @ [digit (n mod 10)])"

declare fmt_d.simps [simp del]

definition fmt_t :: "bool \<Rightarrow> string" where
  "fmt_t b = (if b then ''true'' else ''false'')"

definition fmt_v_strings :: "string list \<Rightarrow> string" where
  "fmt_v_strings xs = ''['' @ join '' '' xs @ '']''"

definition hex_digit :: "nat \<Rightarrow> char" where
  "hex_digit n = (if n < 10 then char_of (48 + n) else char_of (87 + n))"

text \<open>
  \<open>strconv.Quote\<close> on ASCII: the escapes of Go string literals, two hexadecimal digits for
  other control bytes.  Bytes from 128 on are copied.
\<close>

definition quote_char :: "char \<Rightarrow> string" where
  "quote_char c =
     (let n = byte_of c in
      if n = 34 then [char_of (92::nat), c]
      else if n = 92 then [c, c]
      else if n = 7 then [char_of (92::nat), CHR ''a'']
      else if n = 8 then [char_of (92::nat), CHR ''b'']
      else if n = 9 then [char_of (92::nat), CHR ''t'']
      else if n = 10 then [char_of (92::nat), CHR ''n'']
      else if n = 11 then [char_of (92::nat), CHR ''v'']
      else if n = 12 then [char_of (92::nat), CHR ''f'']
      else if n = 13 then [char_of (92::nat), CHR ''r'']
      else if n < 32 \<or> n = 127
        then [char_of (92::nat), CHR ''x'', hex_digit (n div 16), hex_digit (n mod 16)]
      else [c])"

definition fmt_q :: "string \<Rightarrow> string" where
  "fmt_q s = [char_of (34::nat)] @ concat (map quote_char s) @ [char_of (34::nat)]"

text \<open>ASCII classes used by the regular expressions of the sources.\<close>

definition is_digit :: "char \<Rightarrow> bool" where
  "is_digit c \<longleftrightarrow> 48 \<le> byte_of c \<and> byte_of c \<le> 57"

definition is_upper :: "char \<Rightarrow> bool" where
  "is_upper c \<longleftrightarrow> 65 \<le> byte_of c \<and> byte_of c \<le> 90"

definition is_lower :: "char \<Rightarrow> bool" where
  "is_lower c \<longleftrightarrow> 97 \<le> byte_of c \<and> byte_of c \<le> 122"

definition is_alnum :: "char \<Rightarrow> bool" where
  "is_alnum c \<longleftrightarrow> is_digit c \<or> is_upper c \<or> is_lower c"

definition is_hex :: "char \<Rightarrow> bool" where
  "is_hex c \<longleftrightarrow> is_digit c \<or> (65 \<le> byte_of c \<and> byte_of c \<le> 70)
     \<or> (97 \<le> byte_of c \<and> byte_of c \<le> 102)"

lemmas char_class_defs =
  is_digit_def is_upper_def is_lower_def is_alnum_def is_hex_def is_space_def

lemma is_hex_lower [simp]: "is_hex (lower_char c) \<longleftrightarrow> is_hex c"
  by (auto simp: is_hex_def is_digit_def byte_of_lower_char)

lemma is_space_lower [simp]: "is_space (lower_char c) \<longleftrightarrow> is_space c"
  by (auto simp: is_space_def byte_of_lower_char)

end
