(* ===== verification/Errors.thy ===== *)
theory Errors
  imports Prelude
begin

text \<open>
  Go error values.  Errors that come from outside the repository (the Azure SDK, the
  Kubernetes client, the operating system) are values of \<open>ext_error\<close>: the repository
  inspects nothing of them but the status code of an Azure \<open>ResponseError\<close> and, through
  library predicates passed as parameters, the kind of a Kubernetes status error.  Because
  \<open>ext_error\<close> is a type of its own, no external call can return one of the operator's own
  error types.

  \<open>go_error\<close> adds the operator's types of internal/workloadidentity/manager.go,
  internal/workloadidentity/recovery.go and internal/controller/workloadidentity_controller.go,
  plain errors, and \<open>WrapError p e\<close> for \<open>fmt.Errorf("p: %w", e)\<close>.  \<open>errors.As\<close> is a search
  along the wrapping chain.
\<close>

section \<open>Error values\<close>

datatype ext_error =
    ResponseError (resp_status: nat) (resp_text: string)
  | StatusError (status_code: nat) (status_reason: string) (status_text: string)
  | OtherError (other_text: string)

fun ext_error_text :: "ext_error \<Rightarrow> string" where
  "ext_error_text (ResponseError c m) = m"
| "ext_error_text (StatusError c r m) = m"
| "ext_error_text (OtherError m) = m"

record RecoveryRequiredEvidence =
  rre_PreviousWorkloadIdentityUID :: string

datatype go_error =
    External ext_error
  | ErrorString string
  | WrapError string go_error
  | ConflictError string string "RecoveryRequiredEvidence option"
  | RecoveryBlockedError string string
  | ServiceAccountConflictError string string

fun Error :: "go_error \<Rightarrow> string" where
  "Error (External e) = ext_error_text e"
| "Error (ErrorString m) = m"
| "Error (WrapError p e) = p @ '': '' @ Error e"
| "Error (ConflictError reason message r) = (if message \<noteq> '''' then message else reason)"
| "Error (RecoveryBlockedError reason message) = (if message \<noteq> '''' then message else reason)"
| "Error (ServiceAccountConflictError message ownerUID) = message"

type_synonym ('w, 'a) io = "('w, go_error, 'a) eio"
type_synonym ('w, 'a) ext_io = "('w, ext_error, 'a) eio"

text \<open>A call that leaves the process, with its error as a Go error value.\<close>

definition external :: "('w, 'a) ext_io \<Rightarrow> ('w, 'a) io" where
  "external m = io_map_err External m"

definition errorf_wrap :: "string \<Rightarrow> ('w, 'a) io \<Rightarrow> ('w, 'a) io" where
  "errorf_wrap p m = io_map_err (WrapError p) m"

lemma run_external [run_simps]:
  "run_state (external m) w =
     (case run_state m w of (Inl e, w') \<Rightarrow> (Inl (External e), w') | (Inr a, w') \<Rightarrow> (Inr a, w'))"
  by (simp add: external_def run_io_map_err)

lemma run_errorf_wrap [run_simps]:
  "run_state (errorf_wrap p m) w =
     (case run_state m w of (Inl e, w') \<Rightarrow> (Inl (WrapError p e), w') | (Inr a, w') \<Rightarrow> (Inr a, w'))"
  by (simp add: errorf_wrap_def run_io_map_err)

lemma preserves_external [preserves_intros]: "preserves I m \<Longrightarrow> preserves I (external m)"
  unfolding external_def by (rule preserves_io_map_err)

lemma preserves_errorf_wrap [preserves_intros]: "preserves I m \<Longrightarrow> preserves I (errorf_wrap p m)"
  unfolding errorf_wrap_def by (rule preserves_io_map_err)

text \<open>The value of a Go run-time panic on a nil pointer; the callers rule it out before they reach it.\<close>

definition nil_dereference :: go_error where
  "nil_dereference =
     ErrorString ''runtime error: invalid memory address or nil pointer dereference''"

section \<open>internal/workloadidentity/manager.go\<close>

definition ReasonAzureResourceOwnershipConflict :: string where
  "ReasonAzureResourceOwnershipConflict = ''AzureResourceOwnershipConflict''"

definition ReasonFederatedIdentityCredentialConflict :: string where
  "ReasonFederatedIdentityCredentialConflict = ''FederatedIdentityCredentialConflict''"

definition ReasonRecoveryInProgress :: string where
  "ReasonRecoveryInProgress = ''RecoveryInProgress''"

definition ReasonRecoveryRequired :: string where
  "ReasonRecoveryRequired = ''RecoveryRequired''"

lemmas reason_defs [const_defs] =
  ReasonAzureResourceOwnershipConflict_def ReasonFederatedIdentityCredentialConflict_def
  ReasonRecoveryInProgress_def ReasonRecoveryRequired_def

lemma reasons_distinct [simp]:
  "ReasonRecoveryInProgress \<noteq> ReasonRecoveryRequired"
  "ReasonRecoveryRequired \<noteq> ReasonRecoveryInProgress"
  "ReasonAzureResourceOwnershipConflict \<noteq> ReasonRecoveryRequired"
  "ReasonAzureResourceOwnershipConflict \<noteq> ReasonRecoveryInProgress"
  "ReasonRecoveryRequired \<noteq> ReasonAzureResourceOwnershipConflict"
  "ReasonRecoveryInProgress \<noteq> ReasonAzureResourceOwnershipConflict"
  "ReasonRecoveryInProgress \<noteq> ''''" "ReasonRecoveryRequired \<noteq> ''''"
  by (simp_all add: const_defs)

definition NewConflictError :: "string \<Rightarrow> string \<Rightarrow> go_error" where
  "NewConflictError reason message = ConflictError reason message None"

definition NewRecoveryRequiredError :: "string \<Rightarrow> string \<Rightarrow> go_error" where
  "NewRecoveryRequiredError message previousWorkloadIdentityUID =
     ConflictError ReasonRecoveryRequired message
       (Some \<lparr> rre_PreviousWorkloadIdentityUID = previousWorkloadIdentityUID \<rparr>)"

text \<open>
  \<open>ConflictReason\<close> and \<open>RecoveryRequiredDetails\<close> return Go's \<open>(value, ok)\<close> pairs, as options.
\<close>

fun ConflictReason :: "go_error \<Rightarrow> string option" where
  "ConflictReason (ConflictError reason message r) = Some reason"
| "ConflictReason (WrapError p e) = ConflictReason e"
| "ConflictReason _ = None"

fun RecoveryRequiredDetails :: "go_error \<Rightarrow> RecoveryRequiredEvidence option" where
  "RecoveryRequiredDetails (ConflictError reason message r) = r"
| "RecoveryRequiredDetails (WrapError p e) = RecoveryRequiredDetails e"
| "RecoveryRequiredDetails _ = None"

section \<open>internal/workloadidentity/recovery.go\<close>

definition NewRecoveryBlockedError :: "string \<Rightarrow> string \<Rightarrow> go_error" where
  "NewRecoveryBlockedError reason message = RecoveryBlockedError reason message"

fun RecoveryBlockedReason :: "go_error \<Rightarrow> string option" where
  "RecoveryBlockedReason (RecoveryBlockedError reason message) = Some reason"
| "RecoveryBlockedReason (WrapError p e) = RecoveryBlockedReason e"
| "RecoveryBlockedReason _ = None"

section \<open>Conflicts and wrapping\<close>

text \<open>An error that carries recovery evidence is a conflict for the reason \<open>RecoveryRequired\<close>.\<close>

fun recovery_evidence_consistent :: "go_error \<Rightarrow> bool" where
  "recovery_evidence_consistent (ConflictError reason message r) =
     (r \<noteq> None \<longleftrightarrow> reason = ReasonRecoveryRequired)"
| "recovery_evidence_consistent (WrapError p e) = recovery_evidence_consistent e"
| "recovery_evidence_consistent _ = True"

lemma recovery_evidence_consistentD:
  "recovery_evidence_consistent e \<Longrightarrow>
     RecoveryRequiredDetails e \<noteq> None \<longleftrightarrow> ConflictReason e = Some ReasonRecoveryRequired"
  by (induction e) auto

lemma recovery_evidence_consistent_New [simp]:
  "recovery_evidence_consistent (NewRecoveryRequiredError m u)"
  "reason \<noteq> ReasonRecoveryRequired \<Longrightarrow> recovery_evidence_consistent (NewConflictError reason m)"
  "recovery_evidence_consistent (NewRecoveryBlockedError reason m)"
  by (simp_all add: NewRecoveryRequiredError_def NewConflictError_def NewRecoveryBlockedError_def)

lemma error_kinds_New [simp]:
  "ConflictReason (NewConflictError reason m) = Some reason"
  "RecoveryRequiredDetails (NewConflictError reason m) = None"
  "ConflictReason (NewRecoveryRequiredError m u) = Some ReasonRecoveryRequired"
  "RecoveryRequiredDetails (NewRecoveryRequiredError m u) =
     Some \<lparr> rre_PreviousWorkloadIdentityUID = u \<rparr>"
  "RecoveryBlockedReason (NewRecoveryBlockedError reason m) = Some reason"
  "RecoveryBlockedReason (NewConflictError reason m) = None"
  "RecoveryBlockedReason (NewRecoveryRequiredError m u) = None"
  "ConflictReason (NewRecoveryBlockedError reason m) = None"
  "RecoveryRequiredDetails (NewRecoveryBlockedError reason m) = None"
  by (simp_all add: NewConflictError_def NewRecoveryRequiredError_def NewRecoveryBlockedError_def)

end
