(* ===== verification/Api_Types.thy ===== *)
theory Api_Types
  imports Errors
begin

text \<open>
  The API objects of api/v1alpha1: specification and status of the three custom resources,
  and the Kubernetes objects the reconcilers read and write, cut down to the fields the
  sources use.  Go string types (\<open>DeletionPolicy\<close>, \<open>ServiceAccountProvenance\<close>,
  \<open>SigningKeyState\<close>, UIDs) stay strings with named constants; a pointer field is an option;
  times are integer instants with 0 for Go's zero time.
\<close>

type_synonym time = int

section \<open>Metadata and conditions\<close>

record NamespacedName =
  nn_Namespace :: string
  nn_Name :: string

definition NamespacedName_String :: "NamespacedName \<Rightarrow> string" where
  "NamespacedName_String k = nn_Namespace k @ ''/'' @ nn_Name k"

record ObjectMeta =
  Name :: string
  Namespace :: string
  UID :: string
  ResourceVersion :: string
  Generation :: int
  CreationTimestamp :: time
  DeletionTimestamp :: "time option"
  Finalizers :: "string list"
  Labels :: string_map
  Annotations :: string_map

text \<open>\<open>DeletionTimestamp.IsZero()\<close>: nil, or the zero time.\<close>

definition deletion_is_zero :: "ObjectMeta \<Rightarrow> bool" where
  "deletion_is_zero m \<longleftrightarrow> (case DeletionTimestamp m of None \<Rightarrow> True | Some t \<Rightarrow> t = 0)"

record Condition =
  c_Type :: string
  c_Status :: string
  c_ObservedGeneration :: int
  c_Reason :: string
  c_Message :: string

definition ConditionTrue :: string where "ConditionTrue = ''True''"
definition ConditionFalse :: string where "ConditionFalse = ''False''"

declare ConditionTrue_def [const_defs] ConditionFalse_def [const_defs]

lemma ConditionTrue_neq_False [simp]:
  "ConditionTrue \<noteq> ConditionFalse" "ConditionFalse \<noteq> ConditionTrue"
  by (simp_all add: const_defs)

section \<open>api/v1alpha1/oidcissuer_types.go\<close>

type_synonym DeletionPolicy = string

definition DeletionPolicyRetain :: DeletionPolicy where
  "DeletionPolicyRetain = ''Retain''"

definition DeletionPolicyDelete :: DeletionPolicy where
  "DeletionPolicyDelete = ''Delete''"

definition OIDCIssuerConditionReady :: string where
  "OIDCIssuerConditionReady = ''Ready''"

type_synonym SigningKeyState = string

definition SigningKeyStateActive :: SigningKeyState where
  "SigningKeyStateActive = ''Active''"

definition SigningKeyStateRetiring :: SigningKeyState where
  "SigningKeyStateRetiring = ''Retiring''"

definition OIDCIssuerName :: string where
  "OIDCIssuerName = ''default''"

declare DeletionPolicyRetain_def [const_defs] DeletionPolicyDelete_def [const_defs]
  OIDCIssuerConditionReady_def [const_defs] SigningKeyStateActive_def [const_defs]
  SigningKeyStateRetiring_def [const_defs] OIDCIssuerName_def [const_defs]

record AzureOIDCIssuerConfig =
  StorageAccountName :: string
  BlobContainerName :: string

record SecretKeyReference =
  skr_Name :: string
  skr_Namespace :: string
  skr_Key :: string

record SigningKeySource =
  SecretRef :: SecretKeyReference
  RetiringSecretRef :: "SecretKeyReference option"

record OpenShiftOIDCIssuerConfig =
  UpdateServiceAccountIssuer :: bool

record OIDCIssuerSpec =
  ois_Azure :: AzureOIDCIssuerConfig
  ois_SigningKey :: SigningKeySource
  ois_OpenShift :: "OpenShiftOIDCIssuerConfig option"
  ois_DeletionPolicy :: DeletionPolicy

record AzureResource =
  ar_ID :: string
  ar_Kind :: string

record SigningKeyStatus =
  sks_KID :: string
  sks_Algorithm :: string
  sks_State :: SigningKeyState

record OIDCIssuerStatus =
  oi_IssuerURL :: string
  oi_ObservedGeneration :: int
  oi_LastReconciledTime :: "time option"
  oi_AzureResources :: "AzureResource list"
  oi_SigningKeys :: "SigningKeyStatus list"
  oi_PreviousServiceAccountIssuer :: "string option"
  oi_Conditions :: "Condition list"

record OIDCIssuer =
  oi_Meta :: ObjectMeta
  oi_Spec :: OIDCIssuerSpec
  oi_Status :: OIDCIssuerStatus

section \<open>api/v1alpha1/workloadidentity_types.go\<close>

definition WorkloadIdentityConditionReady :: string where
  "WorkloadIdentityConditionReady = ''Ready''"

type_synonym ServiceAccountProvenance = string

definition ServiceAccountProvenanceCreated :: ServiceAccountProvenance where
  "ServiceAccountProvenanceCreated = ''Created''"

definition ServiceAccountProvenanceAdopted :: ServiceAccountProvenance where
  "ServiceAccountProvenanceAdopted = ''Adopted''"

declare WorkloadIdentityConditionReady_def [const_defs]
  ServiceAccountProvenanceCreated_def [const_defs] ServiceAccountProvenanceAdopted_def [const_defs]

lemma provenance_distinct [simp]:
  "ServiceAccountProvenanceCreated \<noteq> ServiceAccountProvenanceAdopted"
  "ServiceAccountProvenanceAdopted \<noteq> ServiceAccountProvenanceCreated"
  "ServiceAccountProvenanceCreated \<noteq> ''''" "ServiceAccountProvenanceAdopted \<noteq> ''''"
  by (simp_all add: const_defs)

record AzureWorkloadIdentityConfig =
  UserAssignedIdentityName :: string
  FederatedIdentityCredentialName :: string

record ServiceAccountReference =
  sar_Name :: string

record WorkloadIdentitySpec =
  wis_Azure :: AzureWorkloadIdentityConfig
  wis_ServiceAccount :: ServiceAccountReference
  wis_DeletionPolicy :: DeletionPolicy

record WorkloadIdentityRecoveryRequiredStatus =
  rrs_PreviousWorkloadIdentityUID :: string

record WorkloadIdentityStatus =
  wi_ClientID :: string
  wi_PrincipalID :: string
  wi_TenantID :: string
  wi_IssuerURL :: string
  wi_Subject :: string
  wi_ServiceAccountUID :: string
  wi_ServiceAccountProvenance :: ServiceAccountProvenance
  wi_Recovery :: "WorkloadIdentityRecoveryRequiredStatus option"
  wi_ObservedGeneration :: int
  wi_LastReconciledTime :: "time option"
  wi_AzureResources :: "AzureResource list"
  wi_Conditions :: "Condition list"

record WorkloadIdentity =
  wi_Meta :: ObjectMeta
  wi_Spec :: WorkloadIdentitySpec
  wi_Status :: WorkloadIdentityStatus

abbreviation wi_UID :: "WorkloadIdentity \<Rightarrow> string" where
  "wi_UID i \<equiv> UID (wi_Meta i)"

abbreviation wi_name :: "WorkloadIdentity \<Rightarrow> string" where
  "wi_name i \<equiv> Name (wi_Meta i)"

abbreviation wi_namespace :: "WorkloadIdentity \<Rightarrow> string" where
  "wi_namespace i \<equiv> Namespace (wi_Meta i)"

section \<open>api/v1alpha1/workloadidentityrecovery_types.go\<close>

definition RecoveryConditionComplete :: string where
  "RecoveryConditionComplete = ''Complete''"

definition RecoveryConditionProgressing :: string where
  "RecoveryConditionProgressing = ''Progressing''"

definition RecoveryConditionBlocked :: string where
  "RecoveryConditionBlocked = ''Blocked''"

definition RecoveryConditionFailed :: string where
  "RecoveryConditionFailed = ''Failed''"

lemmas recovery_condition_defs [const_defs] =
  RecoveryConditionComplete_def RecoveryConditionProgressing_def
  RecoveryConditionBlocked_def RecoveryConditionFailed_def

lemma recovery_conditions_distinct [simp]:
  "RecoveryConditionComplete \<noteq> RecoveryConditionProgressing"
  "RecoveryConditionComplete \<noteq> RecoveryConditionBlocked"
  "RecoveryConditionComplete \<noteq> RecoveryConditionFailed"
  "RecoveryConditionProgressing \<noteq> RecoveryConditionComplete"
  "RecoveryConditionProgressing \<noteq> RecoveryConditionBlocked"
  "RecoveryConditionProgressing \<noteq> RecoveryConditionFailed"
  "RecoveryConditionBlocked \<noteq> RecoveryConditionComplete"
  "RecoveryConditionBlocked \<noteq> RecoveryConditionProgressing"
  "RecoveryConditionBlocked \<noteq> RecoveryConditionFailed"
  "RecoveryConditionFailed \<noteq> RecoveryConditionComplete"
  "RecoveryConditionFailed \<noteq> RecoveryConditionProgressing"
  "RecoveryConditionFailed \<noteq> RecoveryConditionBlocked"
  by (simp_all add: const_defs)

record WorkloadIdentityRecoveryReference =
  ref_Namespace :: string
  ref_Name :: string
  ref_UID :: string

record WorkloadIdentityRecoverySpec =
  rs_WorkloadIdentityRef :: WorkloadIdentityRecoveryReference
  rs_PreviousWorkloadIdentityUID :: string

record RecoveryUserAssignedIdentity =
  rui_ID :: string
  rui_ClientID :: string
  rui_PrincipalID :: string
  rui_TenantID :: string

record RecoveryFederatedIdentityCredential =
  rfic_Issuer :: string
  rfic_Subject :: string
  rfic_Audiences :: "string list"

record WorkloadIdentityRecoveryPlan =
  plan_UserAssignedIdentity :: RecoveryUserAssignedIdentity
  plan_FederatedIdentityCredential :: RecoveryFederatedIdentityCredential

record WorkloadIdentityRecoveryStatus =
  r_ObservedGeneration :: int
  r_LastAttemptTime :: "time option"
  r_StartedTime :: "time option"
  r_CompletedTime :: "time option"
  r_MutationStarted :: bool
  r_CommitVerified :: bool
  r_Plan :: "WorkloadIdentityRecoveryPlan option"
  r_Conditions :: "Condition list"

record WorkloadIdentityRecovery =
  r_Meta :: ObjectMeta
  r_Spec :: WorkloadIdentityRecoverySpec
  r_Status :: WorkloadIdentityRecoveryStatus

abbreviation r_UID :: "WorkloadIdentityRecovery \<Rightarrow> string" where
  "r_UID r \<equiv> UID (r_Meta r)"

abbreviation r_SourceUID :: "WorkloadIdentityRecovery \<Rightarrow> string" where
  "r_SourceUID r \<equiv> rs_PreviousWorkloadIdentityUID (r_Spec r)"

abbreviation r_Ref :: "WorkloadIdentityRecovery \<Rightarrow> WorkloadIdentityRecoveryReference" where
  "r_Ref r \<equiv> rs_WorkloadIdentityRef (r_Spec r)"

section \<open>Core objects the operator reads and writes\<close>

record ServiceAccount =
  sa_Meta :: ObjectMeta

abbreviation sa_Labels :: "ServiceAccount \<Rightarrow> string_map" where
  "sa_Labels s \<equiv> Labels (sa_Meta s)"

abbreviation sa_Annotations :: "ServiceAccount \<Rightarrow> string_map" where
  "sa_Annotations s \<equiv> Annotations (sa_Meta s)"

record Secret =
  secret_Data :: "(string, string) fmap"

definition object_key :: "ObjectMeta \<Rightarrow> NamespacedName" where
  "object_key m = \<lparr> nn_Namespace = Namespace m, nn_Name = Name m \<rparr>"

end
