(* ===== verification/Digest.thy ===== *)
theory Digest
  imports Prelude "HOL-Library.Word"
begin

unbundle bit_operations_syntax

text \<open>
  The two hash functions of Go's standard library that the operator calls:
  \<open>crypto/sha256\<close> (FIPS 180-4), for the logical identity key, and \<open>hash/fnv\<close>'s 32-bit FNV-1a,
  for the refresh jitter.  Both are executable, on machine words of 32 bits.
\<close>

type_synonym u32 = "32 word"
type_synonym u64 = "64 word"

section \<open>FNV-1a\<close>

definition fnv1a_step :: "u32 \<Rightarrow> char \<Rightarrow> u32" where
  "fnv1a_step h c = (h XOR of_char c) * 16777619"

definition fnv32a :: "string \<Rightarrow> u32" where
  "fnv32a s = foldl fnv1a_step 2166136261 s"

section \<open>SHA-256\<close>

definition sha256_K :: "u32 list" where
  "sha256_K =
    [1116352408, 1899447441, 3049323471, 3921009573, 961987163, 1508970993, 2453635748,
     2870763221, 3624381080, 310598401, 607225278, 1426881987, 1925078388, 2162078206,
     2614888103, 3248222580, 3835390401, 4022224774, 264347078, 604807628, 770255983,
     1249150122, 1555081692, 1996064986, 2554220882, 2821834349, 2952996808, 3210313671,
     3336571891, 3584528711, 113926993, 338241895, 666307205, 773529912, 1294757372,
     1396182291, 1695183700, 1986661051, 2177026350, 2456956037, 2730485921, 2820302411,
     3259730800, 3345764771, 3516065817, 3600352804, 4094571909, 275423344, 430227734,
     506948616, 659060556, 883997877, 958139571, 1322822218, 1537002063, 1747873779,
     1955562222, 2024104815, 2227730452, 2361852424, 2428436474, 2756734187, 3204031479,
     3329325298]"

definition sha256_init :: "u32 list" where
  "sha256_init =
    [1779033703, 3144134277, 1013904242, 2773480762, 1359893119, 2600822924, 528734635,
     1541459225]"

definition rotr :: "nat \<Rightarrow> u32 \<Rightarrow> u32" where
  "rotr n x = drop_bit n x OR push_bit (32 - n) x"

definition small_sigma0 :: "u32 \<Rightarrow> u32" where
  "small_sigma0 x = rotr 7 x XOR rotr 18 x XOR drop_bit 3 x"

definition small_sigma1 :: "u32 \<Rightarrow> u32" where
  "small_sigma1 x = rotr 17 x XOR rotr 19 x XOR drop_bit 10 x"

definition big_sigma0 :: "u32 \<Rightarrow> u32" where
  "big_sigma0 x = rotr 2 x XOR rotr 13 x XOR rotr 22 x"

definition big_sigma1 :: "u32 \<Rightarrow> u32" where
  "big_sigma1 x = rotr 6 x XOR rotr 11 x XOR rotr 25 x"

text \<open>
  The message schedule: from the first 16 words, 48 more; the list grows at its end.
\<close>

fun sha256_extend :: "nat \<Rightarrow> u32 list \<Rightarrow> u32 list" where
  "sha256_extend 0 ws = ws"
| "sha256_extend (Suc n) ws =
     (let i = length ws;
          w = small_sigma1 (ws ! (i - 2)) + ws ! (i - 7) + small_sigma0 (ws ! (i - 15)) + ws ! (i - 16)
      in sha256_extend n (ws @ [w]))"

fun sha256_rounds :: "u32 list \<Rightarrow> (u32 \<times> u32) list \<Rightarrow> u32 list" where
  "sha256_rounds [a, b, c, d, e, f, g, h] ((k, w) # kws) =
     (let t1 = h + big_sigma1 e + ((e AND f) XOR (NOT e AND g)) + k + w;
          t2 = big_sigma0 a + ((a AND b) XOR (a AND c) XOR (b AND c))
      in sha256_rounds [t1 + t2, a, b, c, d + t1, e, f, g] kws)"
| "sha256_rounds st _ = st"

definition sha256_block :: "u32 list \<Rightarrow> u32 list \<Rightarrow> u32 list" where
  "sha256_block st ws = map2 (+) st (sha256_rounds st (zip sha256_K (sha256_extend 48 ws)))"

text \<open>Big-endian bytes of a word, and back.\<close>

type_synonym u8 = "8 word"

definition u32_bytes :: "u32 \<Rightarrow> u8 list" where
  "u32_bytes x = [ucast (drop_bit 24 x), ucast (drop_bit 16 x), ucast (drop_bit 8 x), ucast x]"

fun be_words :: "u8 list \<Rightarrow> u32 list" where
  "be_words (a # b # c # d # bs) =
     (push_bit 24 (ucast a) OR push_bit 16 (ucast b) OR push_bit 8 (ucast c) OR ucast d) # be_words bs"
| "be_words _ = []"

text \<open>
  Padding: a 1 bit, zeros up to 56 modulo 64, then the length in bits on 8 bytes.
\<close>

definition sha256_pad :: "u8 list \<Rightarrow> u8 list" where
  "sha256_pad bs =
     (let bits = word_of_nat (length bs) * 8 :: u64
      in bs @ [128] @ replicate ((119 - length bs mod 64) mod 64) 0
           @ u32_bytes (ucast (drop_bit 32 bits)) @ u32_bytes (ucast bits))"

fun sha256_blocks :: "u32 list \<Rightarrow> nat \<Rightarrow> u32 list \<Rightarrow> u32 list" where
  "sha256_blocks st 0 ws = st"
| "sha256_blocks st (Suc n) ws = sha256_blocks (sha256_block st (take 16 ws)) n (drop 16 ws)"

text \<open>\<open>sha256.Sum256\<close>: 32 bytes.\<close>

definition sha256 :: "string \<Rightarrow> u8 list" where
  "sha256 s =
     (let ws = be_words (sha256_pad (map of_char s))
      in concat (map u32_bytes (sha256_blocks sha256_init (length ws div 16) ws)))"

text \<open>\<open>hex.EncodeToString\<close>.\<close>

definition hex_encode :: "u8 list \<Rightarrow> string" where
  "hex_encode bs = concat (map (\<lambda>b. [hex_digit (unat (drop_bit 4 b)), hex_digit (unat (b AND 15))]) bs)"

lemma length_u32_bytes [simp]: "length (u32_bytes x) = 4"
  by (simp add: u32_bytes_def)

lemma length_hex_encode [simp]: "length (hex_encode bs) = 2 * length bs"
  by (induction bs) (auto simp: hex_encode_def)

lemma length_sha256_extend [simp]: "length (sha256_extend n ws) = n + length ws"
  by (induction n ws rule: sha256_extend.induct) (auto simp: Let_def)

lemma length_sha256_rounds [simp]: "length (sha256_rounds st kws) = length st"
  by (induction st kws rule: sha256_rounds.induct) (auto simp: Let_def)

lemma length_sha256_block: "length (sha256_block st ws) = length st"
  by (simp add: sha256_block_def)

lemma length_sha256_blocks [simp]: "length (sha256_blocks st n ws) = length st"
  by (induction st n ws rule: sha256_blocks.induct) (auto simp: length_sha256_block)

lemma length_sha256 [simp]: "length (sha256 s) = 32"
proof -
  have "length (concat (map u32_bytes ws)) = 4 * length ws" for ws :: "u32 list"
    by (induction ws) auto
  then show ?thesis
    by (simp add: sha256_def Let_def) (simp add: sha256_init_def)
qed

end
