(* ===== verification/Naming.thy ===== *)
theory Naming
  imports Api_Types Digest "HOL-Library.Multiset"
begin

text \<open>
  internal/workloadidentity/naming.go and references.go: the logical identity key, the
  managed identity name rule, and the stable references shown when a deletion is blocked.
\<close>

section \<open>naming.go\<close>

definition maxUserAssignedIdentityNameLength :: nat where
  "maxUserAssignedIdentityNameLength = 128"

definition LogicalIdentityKey :: "string \<Rightarrow> string \<Rightarrow> string" where
  "LogicalIdentityKey namespace name = hex_encode (sha256 (namespace @ ''/'' @ name))"

text \<open>The pattern \<open>^[A-Za-z0-9][A-Za-z0-9_-]*$\<close>; \<open>_\<close> is byte 95 and \<open>-\<close> is byte 45.\<close>

definition userAssignedIdentityNamePattern :: "string \<Rightarrow> bool" where
  "userAssignedIdentityNamePattern s \<longleftrightarrow>
     (case s of [] \<Rightarrow> False
      | c # cs \<Rightarrow> is_alnum c \<and> list_all (\<lambda>c. is_alnum c \<or> byte_of c = 95 \<or> byte_of c = 45) cs)"

definition ValidateUserAssignedIdentityName :: "string \<Rightarrow> go_error option" where
  "ValidateUserAssignedIdentityName name =
     (if length name < 3 \<or> length name > maxUserAssignedIdentityNameLength
      then Some (ErrorString (''user assigned identity name must contain between 3 and ''
             @ fmt_d maxUserAssignedIdentityNameLength @ '' characters''))
      else if \<not> userAssignedIdentityNamePattern name
      then Some (ErrorString ''user assigned identity name must contain only alphanumeric characters, hyphens, and underscores and must start with an alphanumeric character'')
      else None)"

lemma length_LogicalIdentityKey [simp]: "length (LogicalIdentityKey namespace name) = 64"
  by (simp add: LogicalIdentityKey_def)

lemma LogicalIdentityKey_nonempty [simp]: "LogicalIdentityKey namespace name \<noteq> ''''"
  using length_LogicalIdentityKey[of namespace name] by (metis list.size(3) zero_neq_numeral)

lemma ValidateUserAssignedIdentityName_None:
  "ValidateUserAssignedIdentityName name = None \<longleftrightarrow>
     3 \<le> length name \<and> length name \<le> 128 \<and> userAssignedIdentityNamePattern name"
  by (auto simp: ValidateUserAssignedIdentityName_def maxUserAssignedIdentityNameLength_def)

text \<open>
  The text hashed for the key determines namespace and name when the namespace holds no
  slash (a Kubernetes namespace is a DNS label), so two logical identities share a key only
  by a collision of the hash.
\<close>

lemma slash_split_unique:
  assumes "CHR ''/'' \<notin> set a" and "CHR ''/'' \<notin> set b" and "a @ CHR ''/'' # x = b @ CHR ''/'' # y"
  shows "a = b \<and> x = y"
  using assms
proof (induction a arbitrary: b)
  case Nil
  then show ?case by (cases b) auto
next
  case (Cons c a)
  then show ?case by (cases b) auto
qed

section \<open>references.go\<close>

definition reference_of :: "WorkloadIdentity \<Rightarrow> string" where
  "reference_of identity = wi_namespace identity @ ''/'' @ wi_name identity"

definition ResourceReferences :: "WorkloadIdentity list \<Rightarrow> int \<Rightarrow> string list" where
  "ResourceReferences identities limit =
     (let references = sort (map reference_of identities)
      in if limit \<le> 0 \<or> int (length references) \<le> limit then references
         else let remaining = length references - nat limit
              in take (nat limit) references @ [''and '' @ fmt_d remaining @ '' more''])"

definition DeletionBlockedMessage :: "WorkloadIdentity list \<Rightarrow> int \<Rightarrow> string" where
  "DeletionBlockedMessage identities limit =
     ''OIDCIssuer deletion is blocked by '' @ fmt_d (length identities)
       @ '' WorkloadIdentity resource(s): '' @ join '', '' (ResourceReferences identities limit)"

lemma ResourceReferences_all:
  "limit \<le> 0 \<or> int (length identities) \<le> limit \<Longrightarrow>
     ResourceReferences identities limit = sort (map reference_of identities)"
  by (auto simp: ResourceReferences_def)

lemma ResourceReferences_length:
  "0 < limit \<Longrightarrow> int (length (ResourceReferences identities limit)) \<le> limit + 1"
  by (auto simp: ResourceReferences_def Let_def)

lemma ResourceReferences_perm:
  assumes "mset (map reference_of identities) = mset (map reference_of identities')"
  shows "ResourceReferences identities limit = ResourceReferences identities' limit"
proof -
  have "sort (map reference_of identities) = sort (map reference_of identities')"
    by (rule properties_for_sort) (use assms[symmetric] in simp_all)
  then show ?thesis by (simp add: ResourceReferences_def)
qed

end
