(* ===== verification/Kube.thy ===== *)
theory Kube
  imports Naming
begin

text \<open>
  What the reconcilers use of Kubernetes, none of which is code of the repository.

  \<open>k8s_lib\<close> holds the pure functions of \<open>k8s.io/apimachinery\<close> and \<open>controller-runtime\<close> the
  sources call (status conditions, finalizers, \<open>IsNotFound\<close>); \<open>k8s_lib_laws\<close> is their documented
  behaviour.  \<open>Reader\<close> and \<open>Cluster\<close> hold the clients: every call is a function of the world
  with no assumption on it, so another client of the API server may act between two calls.
  \<open>std_lib\<close> is one instance of the library, for the witnesses.
\<close>

section \<open>Library functions\<close>

record k8s_lib =
  IsNotFound :: "ext_error \<Rightarrow> bool"
  FindStatusCondition :: "Condition list \<Rightarrow> string \<Rightarrow> Condition option"
  SetStatusCondition :: "Condition list \<Rightarrow> Condition \<Rightarrow> Condition list"
  RemoveStatusCondition :: "Condition list \<Rightarrow> string \<Rightarrow> Condition list"
  IsStatusConditionTrue :: "Condition list \<Rightarrow> string \<Rightarrow> bool"
  ContainsFinalizer :: "string list \<Rightarrow> string \<Rightarrow> bool"
  AddFinalizer :: "string list \<Rightarrow> string \<Rightarrow> string list"
  RemoveFinalizer :: "string list \<Rightarrow> string \<Rightarrow> string list"

text \<open>\<open>apierrors.IsNotFound\<close> looks along the wrapping chain of an error.\<close>

fun error_IsNotFound :: "k8s_lib \<Rightarrow> go_error \<Rightarrow> bool" where
  "error_IsNotFound L (External e) = IsNotFound L e"
| "error_IsNotFound L (WrapError p e) = error_IsNotFound L e"
| "error_IsNotFound L _ = False"

definition condition_laws :: "k8s_lib \<Rightarrow> bool" where
  "condition_laws L \<longleftrightarrow>
     (\<forall>cs c. FindStatusCondition L (SetStatusCondition L cs c) (c_Type c) = Some c) \<and>
     (\<forall>cs c t. t \<noteq> c_Type c \<longrightarrow>
        FindStatusCondition L (SetStatusCondition L cs c) t = FindStatusCondition L cs t) \<and>
     (\<forall>cs t. FindStatusCondition L (RemoveStatusCondition L cs t) t = None) \<and>
     (\<forall>cs t u. t \<noteq> u \<longrightarrow>
        FindStatusCondition L (RemoveStatusCondition L cs u) t = FindStatusCondition L cs t) \<and>
     (\<forall>cs t. IsStatusConditionTrue L cs t \<longleftrightarrow>
        (case FindStatusCondition L cs t of None \<Rightarrow> False | Some c \<Rightarrow> c_Status c = ConditionTrue))"

definition finalizer_laws :: "k8s_lib \<Rightarrow> bool" where
  "finalizer_laws L \<longleftrightarrow>
     (\<forall>fs f g. ContainsFinalizer L (AddFinalizer L fs f) g \<longleftrightarrow> g = f \<or> ContainsFinalizer L fs g) \<and>
     (\<forall>fs f g. ContainsFinalizer L (RemoveFinalizer L fs f) g \<longleftrightarrow>
        g \<noteq> f \<and> ContainsFinalizer L fs g)"

definition k8s_lib_laws :: "k8s_lib \<Rightarrow> bool" where
  "k8s_lib_laws L \<longleftrightarrow> condition_laws L \<and> finalizer_laws L"

lemma find_set_same:
  "condition_laws L \<Longrightarrow> c_Type c = t \<Longrightarrow>
     FindStatusCondition L (SetStatusCondition L cs c) t = Some c"
  by (auto simp: condition_laws_def)

lemma find_set_other:
  "condition_laws L \<Longrightarrow> t \<noteq> c_Type c \<Longrightarrow>
     FindStatusCondition L (SetStatusCondition L cs c) t = FindStatusCondition L cs t"
  by (auto simp: condition_laws_def)

lemma find_remove_same:
  "condition_laws L \<Longrightarrow> FindStatusCondition L (RemoveStatusCondition L cs t) t = None"
  by (auto simp: condition_laws_def)

lemma find_remove_other:
  "condition_laws L \<Longrightarrow> t \<noteq> u \<Longrightarrow>
     FindStatusCondition L (RemoveStatusCondition L cs u) t = FindStatusCondition L cs t"
  by (auto simp: condition_laws_def)

lemma condition_true_iff:
  "condition_laws L \<Longrightarrow> IsStatusConditionTrue L cs t \<longleftrightarrow>
     (case FindStatusCondition L cs t of None \<Rightarrow> False | Some c \<Rightarrow> c_Status c = ConditionTrue)"
  by (auto simp: condition_laws_def)

lemmas condition_law_simps =
  find_set_same find_set_other find_remove_same find_remove_other condition_true_iff

section \<open>Clients\<close>

record 'w Reader =
  GetWorkloadIdentity :: "NamespacedName \<Rightarrow> ('w, WorkloadIdentity) ext_io"
  ListWorkloadIdentities :: "('w, WorkloadIdentity list) ext_io"
  ListWorkloadIdentitiesMatching ::
    "string \<Rightarrow> string \<Rightarrow> string \<Rightarrow> ('w, WorkloadIdentity list) ext_io"
  GetOIDCIssuer :: "string \<Rightarrow> ('w, OIDCIssuer) ext_io"
  GetServiceAccount :: "NamespacedName \<Rightarrow> ('w, ServiceAccount) ext_io"
  GetWorkloadIdentityRecovery :: "NamespacedName \<Rightarrow> ('w, WorkloadIdentityRecovery) ext_io"
  ListWorkloadIdentityRecoveries :: "('w, WorkloadIdentityRecovery list) ext_io"
  ListWorkloadIdentityRecoveriesMatching ::
    "string \<Rightarrow> string \<Rightarrow> ('w, WorkloadIdentityRecovery list) ext_io"
  GetSecret :: "NamespacedName \<Rightarrow> ('w, Secret) ext_io"

text \<open>\<open>client.MergeFrom(original)\<close>, and the variant that also sends the resource version.\<close>

datatype 'a Patch = MergeFrom 'a | MergeFromWithOptimisticLock 'a

record 'w Cluster =
  ClusterReader :: "'w Reader"
  Now :: "('w, time) state"
  UpdateWorkloadIdentity :: "WorkloadIdentity \<Rightarrow> ('w, WorkloadIdentity) ext_io"
  PatchWorkloadIdentityStatus ::
    "WorkloadIdentity \<Rightarrow> WorkloadIdentity Patch \<Rightarrow> ('w, WorkloadIdentity) ext_io"
  UpdateOIDCIssuer :: "OIDCIssuer \<Rightarrow> ('w, OIDCIssuer) ext_io"
  PatchOIDCIssuerStatus :: "OIDCIssuer \<Rightarrow> OIDCIssuer Patch \<Rightarrow> ('w, OIDCIssuer) ext_io"
  UpdateWorkloadIdentityRecovery ::
    "WorkloadIdentityRecovery \<Rightarrow> ('w, WorkloadIdentityRecovery) ext_io"
  PatchWorkloadIdentityRecoveryStatus ::
    "WorkloadIdentityRecovery \<Rightarrow> WorkloadIdentityRecovery Patch \<Rightarrow> ('w, WorkloadIdentityRecovery) ext_io"
  CreateServiceAccount :: "ServiceAccount \<Rightarrow> ('w, ServiceAccount) ext_io"
  PatchServiceAccount ::
    "ServiceAccount \<Rightarrow> ServiceAccount Patch \<Rightarrow> ('w, ServiceAccount) ext_io"
  DeleteServiceAccount :: "ServiceAccount \<Rightarrow> ('w, unit) ext_io"

section \<open>Results and the reconcile context\<close>

record ctrl_Result =
  Requeue :: bool
  RequeueAfter :: int

definition empty_Result :: ctrl_Result where
  "empty_Result = \<lparr> Requeue = False, RequeueAfter = 0 \<rparr>"

definition requeue_now :: ctrl_Result where
  "requeue_now = \<lparr> Requeue = True, RequeueAfter = 0 \<rparr>"

definition requeue_after :: "int \<Rightarrow> ctrl_Result" where
  "requeue_after d = \<lparr> Requeue = False, RequeueAfter = d \<rparr>"

definition second :: int where "second = 1000000000"
definition minute :: int where "minute = 60 * second"

text \<open>
  A reconcile call sees the world and the outcome cell that the tracing wrapper of
  internal/telemetry may have put in its context (\<open>None\<close> when it has not).
\<close>

record 'w ctx =
  world :: 'w
  outcome :: "string option"

definition in_world :: "('w, 'a) state \<Rightarrow> ('w ctx, 'a) state" where
  "in_world m = State (\<lambda>c. case run_state m (world c) of (a, w') \<Rightarrow> (a, c\<lparr>world := w'\<rparr>))"

definition SetReconcileOutcome :: "string \<Rightarrow> ('w ctx, unit) state" where
  "SetReconcileOutcome s = State (\<lambda>c. ((), c\<lparr>outcome := map_option (\<lambda>_. s) (outcome c)\<rparr>))"

type_synonym 'w reconcile = "('w ctx, ctrl_Result \<times> go_error option) state"

definition done_with :: "ctrl_Result \<Rightarrow> 'w reconcile" where
  "done_with r = State_Monad.return (r, None)"

definition failed_with :: "go_error \<Rightarrow> 'w reconcile" where
  "failed_with e = State_Monad.return (empty_Result, Some e)"

text \<open>
  \<open>and_then m k\<close>: the call \<open>m\<close>, whose error ends the reconcile with an empty result.
  \<open>result_of r m\<close> is \<open>return r, m()\<close>: Go evaluates both, so an error of \<open>m\<close> keeps \<open>r\<close>.
\<close>

definition and_then :: "('w, 'a) io \<Rightarrow> ('a \<Rightarrow> 'w reconcile) \<Rightarrow> 'w reconcile" where
  "and_then m k = State_Monad.bind (in_world m)
     (\<lambda>r. case r of Inl e \<Rightarrow> failed_with e | Inr a \<Rightarrow> k a)"

definition result_of :: "ctrl_Result \<Rightarrow> ('w, 'a) io \<Rightarrow> 'w reconcile" where
  "result_of r m = State_Monad.bind (in_world m)
     (\<lambda>x. State_Monad.return (r, case x of Inl e \<Rightarrow> Some e | Inr a \<Rightarrow> None))"

lemma run_in_world [run_simps]:
  "run_state (in_world m) c = (case run_state m (world c) of (a, w') \<Rightarrow> (a, c\<lparr>world := w'\<rparr>))"
  by (simp add: in_world_def)

lemma run_SetReconcileOutcome [simp, run_simps]:
  "run_state (SetReconcileOutcome s) c = ((), c\<lparr>outcome := map_option (\<lambda>_. s) (outcome c)\<rparr>)"
  by (simp add: SetReconcileOutcome_def)

lemma run_done_with [simp, run_simps]: "run_state (done_with r) c = ((r, None), c)"
  by (simp add: done_with_def)

lemma run_failed_with [simp, run_simps]: "run_state (failed_with e) c = ((empty_Result, Some e), c)"
  by (simp add: failed_with_def)

lemma run_and_then [run_simps]:
  "run_state (and_then m k) c =
     (case run_state m (world c) of
        (Inl e, w') \<Rightarrow> ((empty_Result, Some e), c\<lparr>world := w'\<rparr>)
      | (Inr a, w') \<Rightarrow> run_state (k a) (c\<lparr>world := w'\<rparr>))"
  by (auto simp: and_then_def run_in_world split: prod.splits sum.splits)

lemma run_result_of [run_simps]:
  "run_state (result_of r m) c =
     (case run_state m (world c) of
        (Inl e, w') \<Rightarrow> ((r, Some e), c\<lparr>world := w'\<rparr>)
      | (Inr a, w') \<Rightarrow> ((r, None), c\<lparr>world := w'\<rparr>))"
  by (auto simp: result_of_def run_in_world split: prod.splits sum.splits)

lemma preserves_in_world [preserves_intros]:
  "preserves I m \<Longrightarrow> preserves (\<lambda>c. I (world c)) (in_world m)"
  by (auto simp: preserves_def run_in_world split: prod.splits dest: preservesD)

lemma preserves_SetReconcileOutcome [preserves_intros]:
  "preserves (\<lambda>c. I (world c)) (SetReconcileOutcome s)"
  by (simp add: preserves_def)

lemma preserves_done_with [preserves_intros]: "preserves I (done_with r)"
  by (simp add: preserves_def)

lemma preserves_failed_with [preserves_intros]: "preserves I (failed_with e)"
  by (simp add: preserves_def)

lemma preserves_and_then [preserves_intros]:
  "preserves I m \<Longrightarrow> (\<And>a. preserves (\<lambda>c. I (world c)) (k a)) \<Longrightarrow>
     preserves (\<lambda>c. I (world c)) (and_then m k)"
  unfolding and_then_def
  by (rule preserves_bind, rule preserves_in_world) (auto intro: preserves_intros)

lemma preserves_result_of [preserves_intros]:
  "preserves I m \<Longrightarrow> preserves (\<lambda>c. I (world c)) (result_of r m)"
  unfolding result_of_def
  by (rule preserves_bind, rule preserves_in_world) (auto intro: preserves_intros)

section \<open>One instance of the library\<close>

definition std_find :: "Condition list \<Rightarrow> string \<Rightarrow> Condition option" where
  "std_find cs t = find (\<lambda>c. c_Type c = t) cs"

fun std_set :: "Condition list \<Rightarrow> Condition \<Rightarrow> Condition list" where
  "std_set [] c = [c]"
| "std_set (d # ds) c = (if c_Type d = c_Type c then c # ds else d # std_set ds c)"

definition std_lib :: k8s_lib where
  "std_lib = \<lparr>
     IsNotFound = (\<lambda>e. case e of StatusError c r m \<Rightarrow> r = ''NotFound'' | _ \<Rightarrow> False),
     FindStatusCondition = std_find,
     SetStatusCondition = std_set,
     RemoveStatusCondition = (\<lambda>cs t. filter (\<lambda>c. c_Type c \<noteq> t) cs),
     IsStatusConditionTrue = (\<lambda>cs t. case std_find cs t of None \<Rightarrow> False
                                       | Some c \<Rightarrow> c_Status c = ConditionTrue),
     ContainsFinalizer = (\<lambda>fs f. f \<in> set fs),
     AddFinalizer = (\<lambda>fs f. if f \<in> set fs then fs else fs @ [f]),
     RemoveFinalizer = (\<lambda>fs f. filter (\<lambda>g. g \<noteq> f) fs) \<rparr>"

lemma std_find_set:
  "std_find (std_set cs c) t = (if t = c_Type c then Some c else std_find cs t)"
  by (induction cs c rule: std_set.induct) (auto simp: std_find_def)

lemma std_find_filter:
  "std_find (filter (\<lambda>c. c_Type c \<noteq> u) cs) t = (if t = u then None else std_find cs t)"
  by (induction cs) (auto simp: std_find_def)

lemma std_lib_laws: "k8s_lib_laws std_lib"
  by (auto simp: k8s_lib_laws_def condition_laws_def finalizer_laws_def std_lib_def
      std_find_set std_find_filter)

end
