(* ===== verification/Azure_Scope.thy ===== *)
theory Azure_Scope
  imports Kube
begin

text \<open>
  internal/azure/ownership.go, scope.go and scope_anchor.go: the ownership tags, the
  installation's Azure scope with its validation and durable anchor, and the shared resource
  group.  A tag map is a Go \<open>map[string]*string\<close>: a finite map to optional strings, \<open>Some None\<close>
  being a key with a nil pointer.  The resource group client is a parameter.
\<close>

section \<open>ownership.go\<close>

type_synonym tags = "(string, string option) fmap"

definition createdByOperatorTag :: string where "createdByOperatorTag = ''created-by-operator''"
definition managedByTag :: string where "managedByTag = ''managed-by''"
definition operatorAPIGroupTag :: string where "operatorAPIGroupTag = ''operator-api-group''"
definition operatorAPIGroupValue :: string where
  "operatorAPIGroupValue = ''workloadidentity.azure.micosolutions.se''"
definition operatorCreatedTagValue :: string where "operatorCreatedTagValue = ''true''"
definition operatorName :: string where "operatorName = ''azure-workload-identity-operator''"

lemmas ownership_const_defs [const_defs] =
  createdByOperatorTag_def managedByTag_def operatorAPIGroupTag_def operatorAPIGroupValue_def
  operatorCreatedTagValue_def operatorName_def

definition operatorOwnershipTags :: "string \<Rightarrow> string \<Rightarrow> bool \<Rightarrow> tags" where
  "operatorOwnershipTags uidTagKey uid createdByOperator =
     fmupd operatorAPIGroupTag (Some operatorAPIGroupValue)
      (fmupd createdByOperatorTag (Some (fmt_t createdByOperator))
       (fmupd uidTagKey (Some uid)
        (fmupd managedByTag (Some operatorName) fmempty)))"

definition mergeTags :: "tags \<Rightarrow> tags \<Rightarrow> tags" where
  "mergeTags existing desired = existing ++\<^sub>f desired"

text \<open>\<open>existing[key]\<close> dereferenced: nil for a missing key and for a nil pointer.\<close>

definition tag_pointer :: "tags \<Rightarrow> string \<Rightarrow> string option" where
  "tag_pointer t key = (case fmlookup t key of None \<Rightarrow> None | Some p \<Rightarrow> p)"

definition hasTags :: "tags \<Rightarrow> tags \<Rightarrow> bool" where
  "hasTags existing desired \<longleftrightarrow>
     fBall (fmdom desired)
       (\<lambda>key. \<not> (tag_pointer existing key = None \<or> tag_pointer desired key = None
                 \<or> tag_pointer existing key \<noteq> tag_pointer desired key))"

definition wasOperatorCreatedResource :: "tags \<Rightarrow> tags \<Rightarrow> bool" where
  "wasOperatorCreatedResource existing createdTags \<longleftrightarrow>
     (if tag_pointer existing createdByOperatorTag = None
         \<or> tag_pointer existing createdByOperatorTag \<noteq> Some operatorCreatedTagValue
      then False else hasTags existing createdTags)"

fun isResponseStatus :: "go_error \<Rightarrow> nat \<Rightarrow> bool" where
  "isResponseStatus (External (ResponseError c m)) statusCode \<longleftrightarrow> c = statusCode"
| "isResponseStatus (WrapError p e) statusCode \<longleftrightarrow> isResponseStatus e statusCode"
| "isResponseStatus _ statusCode \<longleftrightarrow> False"

definition isNotFound :: "ext_error \<Rightarrow> bool" where
  "isNotFound e \<longleftrightarrow> isResponseStatus (External e) 404"

lemma tag_pointer_upd [simp]:
  "tag_pointer (fmupd k v t) k' = (if k = k' then v else tag_pointer t k')"
  by (simp add: tag_pointer_def)

lemma tag_pointer_empty [simp]: "tag_pointer fmempty k = None"
  by (simp add: tag_pointer_def)

lemma tag_pointer_drop [simp]:
  "tag_pointer (fmdrop k t) k' = (if k = k' then None else tag_pointer t k')"
  by (simp add: tag_pointer_def)

lemma tag_pointer_merge [simp]:
  "tag_pointer (mergeTags t d) k = (if k |\<in>| fmdom d then tag_pointer d k else tag_pointer t k)"
  by (simp add: tag_pointer_def mergeTags_def)

lemma mergeTags_empty [simp]: "mergeTags t fmempty = t"
  by (simp add: mergeTags_def)

lemma hasTags_iff:
  "hasTags t d \<longleftrightarrow>
     fBall (fmdom d) (\<lambda>k. tag_pointer d k \<noteq> None \<and> tag_pointer t k = tag_pointer d k)"
  unfolding hasTags_def by (intro fBall_cong) auto

lemma hasTags_upd:
  "hasTags t (fmupd k (Some v) d) \<longleftrightarrow>
     tag_pointer t k = Some v \<and> fBall (fmdom d)
       (\<lambda>k'. k' = k \<or> (tag_pointer d k' \<noteq> None \<and> tag_pointer t k' = tag_pointer d k'))"
  by (auto simp: hasTags_iff)

lemma hasTags_ownership:
  assumes "uidKey \<notin> {managedByTag, createdByOperatorTag, operatorAPIGroupTag}"
  shows "hasTags t (operatorOwnershipTags uidKey uid created) \<longleftrightarrow>
     tag_pointer t managedByTag = Some operatorName \<and>
     tag_pointer t uidKey = Some uid \<and>
     tag_pointer t createdByOperatorTag = Some (fmt_t created) \<and>
     tag_pointer t operatorAPIGroupTag = Some operatorAPIGroupValue"
proof -
  have "managedByTag \<noteq> createdByOperatorTag" "managedByTag \<noteq> operatorAPIGroupTag"
    "createdByOperatorTag \<noteq> operatorAPIGroupTag"
    by (simp_all add: const_defs)
  with assms show ?thesis
    by (auto simp: hasTags_iff operatorOwnershipTags_def)
qed

section \<open>scope.go\<close>

definition azureSubscriptionIDPattern :: "string \<Rightarrow> bool" where
  "azureSubscriptionIDPattern s \<longleftrightarrow> length s = 36 \<and>
     list_all (\<lambda>(i, c). if i \<in> {8, 13, 18, 23} then c = CHR ''-'' else is_hex c) (enumerate 0 s)"

text \<open>\<open>[A-Za-z0-9_().-]\<close>: bytes 95, 40, 41, 46 and 45 beside the alphanumerics.\<close>

definition resource_group_char :: "char \<Rightarrow> bool" where
  "resource_group_char c \<longleftrightarrow> is_alnum c \<or> byte_of c \<in> {95, 40, 41, 46, 45}"

definition azureResourceGroupPattern :: "string \<Rightarrow> bool" where
  "azureResourceGroupPattern s \<longleftrightarrow>
     s \<noteq> [] \<and> list_all resource_group_char s \<and> byte_of (last s) \<noteq> 46"

record Scope =
  subscriptionID :: string
  resourceGroupName :: string
  location :: string

definition Scope_Validate :: "Scope \<Rightarrow> go_error option" where
  "Scope_Validate s =
     (if \<not> azureSubscriptionIDPattern (subscriptionID s)
      then Some (ErrorString ''azure subscriptionId must be a UUID'')
      else if length (resourceGroupName s) < 1 \<or> length (resourceGroupName s) > 90
              \<or> \<not> azureResourceGroupPattern (resourceGroupName s)
      then Some (ErrorString ''azure resourceGroupName must be a valid Azure resource group name of at most 90 characters'')
      else if trim_space (location s) = ''''
      then Some (ErrorString ''azure location is required'')
      else None)"

definition NewScope :: "string \<Rightarrow> string \<Rightarrow> string \<Rightarrow> go_error + Scope" where
  "NewScope sub rg loc =
     (let scope = \<lparr> subscriptionID = to_lower (trim_space sub),
                    resourceGroupName = trim_space rg,
                    location = to_lower (trim_space loc) \<rparr>
      in case Scope_Validate scope of Some err \<Rightarrow> Inl err | None \<Rightarrow> Inr scope)"

record ResourceGroup =
  rg_ID :: "string option"
  rg_Location :: "string option"

record 'w resourceGroupsClient =
  rg_Get :: "string \<Rightarrow> ('w, ResourceGroup) ext_io"
  rg_CreateOrUpdate :: "string \<Rightarrow> ResourceGroup \<Rightarrow> ('w, ResourceGroup) ext_io"

definition ensureResourceGroup ::
  "'w resourceGroupsClient \<Rightarrow> Scope \<Rightarrow> ('w, ResourceGroup) io" where
  "ensureResourceGroup client scope =
     State_Monad.bind (rg_Get client (resourceGroupName scope)) (\<lambda>r. case r of
       Inl err \<Rightarrow>
         if isNotFound err
         then errorf_wrap ''create resource group''
                (external (rg_CreateOrUpdate client (resourceGroupName scope)
                   \<lparr> rg_ID = None, rg_Location = Some (location scope) \<rparr>))
         else io_fail (WrapError ''get resource group'' (External err))
     | Inr resourceGroup \<Rightarrow> io_return resourceGroup)"

section \<open>scope\_anchor.go\<close>

definition subscriptionIDAnchorKey :: string where "subscriptionIDAnchorKey = ''subscriptionId''"
definition resourceGroupNameAnchorKey :: string where
  "resourceGroupNameAnchorKey = ''resourceGroupName''"
definition locationAnchorKey :: string where "locationAnchorKey = ''location''"

declare subscriptionIDAnchorKey_def [const_defs] resourceGroupNameAnchorKey_def [const_defs]
  locationAnchorKey_def [const_defs]

definition scopeMismatchField :: "Scope \<Rightarrow> Scope \<Rightarrow> string" where
  "scopeMismatchField configured anchored =
     (if subscriptionID configured \<noteq> subscriptionID anchored then subscriptionIDAnchorKey
      else if \<not> equal_fold (resourceGroupName configured) (resourceGroupName anchored)
      then resourceGroupNameAnchorKey
      else if location configured \<noteq> location anchored then locationAnchorKey
      else '''')"

text \<open>
  \<open>read_file directory key\<close> stands for \<open>os.ReadFile(filepath.Join(directory, key))\<close>.
\<close>

type_synonym 'w read_file = "string \<Rightarrow> string \<Rightarrow> ('w, string) ext_io"

definition read_anchor_key :: "'w read_file \<Rightarrow> string \<Rightarrow> string \<Rightarrow> ('w, string) io" where
  "read_anchor_key read_file directory key =
     errorf_wrap (''read Azure startup scope '' @ key) (external (read_file directory key))"

definition readScopeAnchor :: "'w read_file \<Rightarrow> string \<Rightarrow> ('w, Scope) io" where
  "readScopeAnchor read_file directory =
     (if directory = '''' then io_fail (ErrorString ''azure startup scope directory is required'')
      else io_try (read_anchor_key read_file directory subscriptionIDAnchorKey) (\<lambda>sub.
           io_try (read_anchor_key read_file directory resourceGroupNameAnchorKey) (\<lambda>rg.
           io_try (read_anchor_key read_file directory locationAnchorKey) (\<lambda>loc.
             errorf_wrap ''parse Azure startup scope'' (io_of (NewScope sub rg loc))))))"

definition ValidateScopeAnchor :: "'w read_file \<Rightarrow> Scope \<Rightarrow> string \<Rightarrow> ('w, unit) io" where
  "ValidateScopeAnchor read_file configured directory =
     io_try (readScopeAnchor read_file directory) (\<lambda>anchored.
       let field = scopeMismatchField configured anchored in
       if field \<noteq> ''''
       then io_fail (ErrorString (''configured Azure scope '' @ field
                       @ '' does not match the retained startup scope''))
       else io_return ())"

section \<open>Normalisation and the anchor\<close>

lemma dropWhile_space_lower: "dropWhile is_space (to_lower s) = to_lower (dropWhile is_space s)"
  by (simp add: to_lower_def dropWhile_map o_def)

lemma trim_space_lower: "trim_space (to_lower s) = to_lower (trim_space s)"
  by (simp add: trim_space_def dropWhile_space_lower) (simp add: to_lower_def rev_map dropWhile_map o_def)

lemma NewScope_Inr:
  "NewScope sub rg loc = Inr s \<Longrightarrow>
     s = \<lparr> subscriptionID = to_lower (trim_space sub), resourceGroupName = trim_space rg,
           location = to_lower (trim_space loc) \<rparr> \<and> Scope_Validate s = None"
  by (auto simp: NewScope_def Let_def split: option.splits)

lemma NewScope_fixpoint:
  assumes "NewScope sub rg loc = Inr s"
  shows "NewScope (subscriptionID s) (resourceGroupName s) (location s) = Inr s"
proof -
  note s = NewScope_Inr[OF assms]
  then show ?thesis
    by (auto simp: NewScope_def Let_def trim_space_lower)
qed

lemma scopeMismatchField_Nil:
  "scopeMismatchField c a = '''' \<longleftrightarrow>
     subscriptionID c = subscriptionID a \<and>
     equal_fold (resourceGroupName c) (resourceGroupName a) \<and>
     location c = location a"
  by (auto simp: scopeMismatchField_def const_defs)

lemma ensureResourceGroup_found:
  "run_state (rg_Get client (resourceGroupName scope)) w = (Inr g, w') \<Longrightarrow>
     run_state (ensureResourceGroup client scope) w = (Inr g, w')"
  by (simp add: ensureResourceGroup_def)

lemma ensureResourceGroup_error:
  "run_state (ensureResourceGroup client scope) w = (Inl e, w') \<Longrightarrow>
     ConflictReason e = None \<and> RecoveryRequiredDetails e = None \<and> RecoveryBlockedReason e = None"
  by (auto simp: ensureResourceGroup_def run_simps split: prod.splits sum.splits if_splits)

end
