(* ===== verification/Azure_Identity.thy ===== *)
theory Azure_Identity
  imports Azure_Scope
begin

text \<open>
  internal/azure/workload_identity.go and federated_identity_credentials.go: the identity
  manager that creates, checks and deletes the user-assigned managed identity (UAMI) of a
  WorkloadIdentity and its federated credential, and detects that recovery is needed.  The
  \<open>armmsi\<close> clients are parameters (\<open>identityClients\<close>); the SDK's list pager is a tree of
  pages, so listing ends.
\<close>

section \<open>SDK data\<close>

record IdentityProperties =
  ip_ClientID :: "string option"
  ip_PrincipalID :: "string option"
  ip_TenantID :: "string option"

record Identity =
  id_ID :: "string option"
  id_Location :: "string option"
  id_Tags :: tags
  id_Properties :: "IdentityProperties option"

record FICProperties =
  ficp_Issuer :: "string option"
  ficp_Subject :: "string option"
  ficp_Audiences :: "string option list"

record FederatedIdentityCredential =
  fic_ID :: "string option"
  fic_Name :: "string option"
  fic_Properties :: "FICProperties option"

datatype 'w Pager =
  Pager (More: bool)
    (NextPage: "('w, ext_error + FederatedIdentityCredential option list \<times> 'w Pager) state")

record 'w userAssignedIdentitiesClient =
  ui_Get :: "string \<Rightarrow> string \<Rightarrow> ('w, Identity) ext_io"
  ui_CreateOrUpdate :: "string \<Rightarrow> string \<Rightarrow> Identity \<Rightarrow> ('w, Identity) ext_io"
  ui_Update :: "string \<Rightarrow> string \<Rightarrow> tags \<Rightarrow> ('w, Identity) ext_io"
  ui_Delete :: "string \<Rightarrow> string \<Rightarrow> ('w, unit) ext_io"

record 'w federatedIdentityCredentialsClient =
  fic_Get :: "string \<Rightarrow> string \<Rightarrow> string \<Rightarrow> ('w, FederatedIdentityCredential) ext_io"
  fic_CreateOrUpdate ::
    "string \<Rightarrow> string \<Rightarrow> string \<Rightarrow> FederatedIdentityCredential \<Rightarrow> ('w, FederatedIdentityCredential) ext_io"
  fic_NewListPager :: "string \<Rightarrow> string \<Rightarrow> 'w Pager"

section \<open>federated\_identity\_credentials.go\<close>

primrec list_pages :: "'w Pager \<Rightarrow> FederatedIdentityCredential list \<Rightarrow>
    ('w, FederatedIdentityCredential list) io" where
  "list_pages (Pager has_more fetch) = (\<lambda>credentials.
     if \<not> has_more then io_return credentials
     else State_Monad.bind (map_state (map_sum id (map_prod id list_pages)) fetch) (\<lambda>r. case r of
       Inl err \<Rightarrow> io_fail (WrapError ''list federated identity credentials'' (External err))
     | Inr (page, rest) \<Rightarrow> rest (credentials @ List.map_filter id page)))"

definition fic_List :: "'w federatedIdentityCredentialsClient \<Rightarrow> string \<Rightarrow> string \<Rightarrow>
    ('w, FederatedIdentityCredential list) io" where
  "fic_List client resourceGroup identityName =
     list_pages (fic_NewListPager client resourceGroup identityName) []"

section \<open>Constants and small helpers\<close>

definition azureADTokenExchangeAudience :: string where
  "azureADTokenExchangeAudience = ''api://AzureADTokenExchange''"
definition azureResourceKindResourceGroup :: string where
  "azureResourceKindResourceGroup = ''ResourceGroup''"
definition azureResourceKindUserAssignedIdentity :: string where
  "azureResourceKindUserAssignedIdentity = ''UserAssignedIdentity''"
definition azureResourceKindFederatedIdentityCredential :: string where
  "azureResourceKindFederatedIdentityCredential = ''FederatedIdentityCredential''"
definition workloadIdentityKeyTag :: string where
  "workloadIdentityKeyTag = ''workload-identity-key''"
definition workloadIdentityUIDTag :: string where
  "workloadIdentityUIDTag = ''workload-identity-uid''"
definition workloadIdentityRecoveryUIDTag :: string where
  "workloadIdentityRecoveryUIDTag = ''workload-identity-recovery-uid''"
definition workloadIdentityRecoveryTargetUIDTag :: string where
  "workloadIdentityRecoveryTargetUIDTag = ''workload-identity-recovery-target-uid''"
definition workloadIdentityLastRecoveryUIDTag :: string where
  "workloadIdentityLastRecoveryUIDTag = ''workload-identity-last-recovery-uid''"

lemmas azure_const_defs [const_defs] =
  azureADTokenExchangeAudience_def azureResourceKindResourceGroup_def
  azureResourceKindUserAssignedIdentity_def azureResourceKindFederatedIdentityCredential_def
  workloadIdentityKeyTag_def workloadIdentityUIDTag_def workloadIdentityRecoveryUIDTag_def
  workloadIdentityRecoveryTargetUIDTag_def workloadIdentityLastRecoveryUIDTag_def

definition stringValue :: "string option \<Rightarrow> string" where
  "stringValue s = (case s of None \<Rightarrow> '''' | Some v \<Rightarrow> v)"

definition stringValues :: "string option list \<Rightarrow> string list" where
  "stringValues values = map stringValue values"

definition tagValue :: "tags \<Rightarrow> string \<Rightarrow> string" where
  "tagValue t key = stringValue (tag_pointer t key)"

definition userAssignedIdentityName :: "WorkloadIdentity \<Rightarrow> string" where
  "userAssignedIdentityName identity = UserAssignedIdentityName (wis_Azure (wi_Spec identity))"

definition desiredUserAssignedIdentityID :: "Scope \<Rightarrow> WorkloadIdentity \<Rightarrow> string" where
  "desiredUserAssignedIdentityID scope identity =
     ''/subscriptions/'' @ subscriptionID scope @ ''/resourceGroups/'' @ resourceGroupName scope
       @ ''/providers/Microsoft.ManagedIdentity/userAssignedIdentities/''
       @ userAssignedIdentityName identity"

definition recordedAzureResourceID :: "WorkloadIdentity \<Rightarrow> string \<Rightarrow> string option" where
  "recordedAzureResourceID identity kind =
     map_option ar_ID (find (\<lambda>resource. ar_Kind resource = kind) (wi_AzureResources (wi_Status identity)))"

definition userAssignedIdentityOwnershipConflict :: "string \<Rightarrow> go_error" where
  "userAssignedIdentityOwnershipConflict resourceID =
     NewConflictError ReasonAzureResourceOwnershipConflict
       (azureResourceKindUserAssignedIdentity @ '' ''
          @ fmt_q (if resourceID = '''' then ''<unknown>'' else resourceID)
          @ '' is not owned by this WorkloadIdentity'')"

definition workloadIdentityTags :: "WorkloadIdentity \<Rightarrow> tags" where
  "workloadIdentityTags identity =
     fmupd workloadIdentityKeyTag (Some (LogicalIdentityKey (wi_namespace identity) (wi_name identity)))
       (operatorOwnershipTags workloadIdentityUIDTag (wi_UID identity) True)"

section \<open>Ownership of the managed identity\<close>

definition validateUserAssignedIdentityOwnership ::
  "WorkloadIdentity \<Rightarrow> Identity \<Rightarrow> go_error option" where
  "validateUserAssignedIdentityOwnership identity current =
     (let expected = workloadIdentityTags identity;
          logicalKey = tagValue (id_Tags current) workloadIdentityKeyTag;
          currentUID = tagValue (id_Tags current) workloadIdentityUIDTag;
          recoveryUID = tagValue (id_Tags current) workloadIdentityRecoveryUIDTag;
          recoveryTargetUID = tagValue (id_Tags current) workloadIdentityRecoveryTargetUIDTag;
          sourceOwnershipTags = operatorOwnershipTags workloadIdentityUIDTag currentUID True
      in if recoveryUID \<noteq> '''' \<or> recoveryTargetUID \<noteq> ''''
         then if recoveryUID = '''' \<or> recoveryTargetUID = ''''
              then Some (userAssignedIdentityOwnershipConflict (stringValue (id_ID current)))
              else Some (NewConflictError ReasonRecoveryInProgress
                     (''UserAssignedIdentity '' @ fmt_q (userAssignedIdentityName identity)
                        @ '' is being recovered for WorkloadIdentity UID '' @ fmt_q recoveryTargetUID))
         else if logicalKey = tagValue expected workloadIdentityKeyTag
              \<and> currentUID \<noteq> '''' \<and> currentUID \<noteq> wi_UID identity
              \<and> hasTags (id_Tags current) sourceOwnershipTags
         then Some (NewRecoveryRequiredError
                (''UserAssignedIdentity '' @ fmt_q (userAssignedIdentityName identity)
                   @ '' belongs to an earlier instance of WorkloadIdentity ''
                   @ wi_namespace identity @ ''/'' @ wi_name identity @ ''; recovery is required'')
                currentUID)
         else if \<not> hasTags (id_Tags current) expected
         then Some (userAssignedIdentityOwnershipConflict (stringValue (id_ID current)))
         else None)"

section \<open>Federated credentials\<close>

definition desiredFederatedIdentityCredential ::
  "string \<Rightarrow> string \<Rightarrow> FederatedIdentityCredential" where
  "desiredFederatedIdentityCredential issuerURL subject =
     \<lparr> fic_ID = None, fic_Name = None,
       fic_Properties = Some \<lparr> ficp_Issuer = Some issuerURL, ficp_Subject = Some subject,
                               ficp_Audiences = [Some azureADTokenExchangeAudience] \<rparr> \<rparr>"

definition validateFederatedIdentityCredential ::
  "string \<Rightarrow> FederatedIdentityCredential \<Rightarrow> FederatedIdentityCredential \<Rightarrow> go_error option" where
  "validateFederatedIdentityCredential name existing desired =
     (case (fic_Properties existing, fic_Properties desired) of
        (Some e, Some d) \<Rightarrow>
          let existingIssuer = stringValue (ficp_Issuer e);
              desiredIssuer = stringValue (ficp_Issuer d);
              existingSubject = stringValue (ficp_Subject e);
              desiredSubject = stringValue (ficp_Subject d);
              existingAudiences = stringValues (ficp_Audiences e);
              desiredAudiences = stringValues (ficp_Audiences d)
          in if existingIssuer = desiredIssuer \<and> existingSubject = desiredSubject
                \<and> existingAudiences = desiredAudiences
             then None
             else Some (NewConflictError ReasonFederatedIdentityCredentialConflict
               (''federated identity credential '' @ fmt_q name @ '' has issuer '' @ fmt_q existingIssuer
                  @ '', subject '' @ fmt_q existingSubject @ '', and audiences ''
                  @ fmt_v_strings existingAudiences @ ''; expected issuer '' @ fmt_q desiredIssuer
                  @ '', subject '' @ fmt_q desiredSubject @ '', and audiences ''
                  @ fmt_v_strings desiredAudiences))
      | _ \<Rightarrow> Some (NewConflictError ReasonFederatedIdentityCredentialConflict
               (''federated identity credential '' @ fmt_q name
                  @ '' does not contain a complete trust tuple'')))"

section \<open>The clients\<close>

record 'w identityClients =
  ic_scope :: Scope
  ic_resourceGroups :: "'w resourceGroupsClient"
  ic_identities :: "'w userAssignedIdentitiesClient"
  ic_federatedCredentials :: "'w federatedIdentityCredentialsClient"

text \<open>
  The SDK's client constructors, by subscription and (opaque) credential; a nil credential
  is \<open>None\<close>.  The tracing provider only decorates the clients and is left out.
\<close>

type_synonym TokenCredential = string

record 'w armSDK =
  NewResourceGroupsClient :: "string \<Rightarrow> TokenCredential \<Rightarrow> ext_error + 'w resourceGroupsClient"
  NewUserAssignedIdentitiesClient ::
    "string \<Rightarrow> TokenCredential \<Rightarrow> ext_error + 'w userAssignedIdentitiesClient"
  NewFederatedIdentityCredentialsClient ::
    "string \<Rightarrow> TokenCredential \<Rightarrow> ext_error + 'w federatedIdentityCredentialsClient"

definition newIdentityClients ::
  "'w armSDK \<Rightarrow> Scope \<Rightarrow> TokenCredential option \<Rightarrow> go_error + 'w identityClients" where
  "newIdentityClients sdk scope credential =
     (case credential of None \<Rightarrow> Inl (ErrorString ''azure credential is required'')
      | Some cred \<Rightarrow>
        (case Scope_Validate scope of
           Some err \<Rightarrow> Inl (WrapError ''validate Azure scope'' err)
         | None \<Rightarrow>
           (case NewResourceGroupsClient sdk (subscriptionID scope) cred of
              Inl err \<Rightarrow> Inl (WrapError ''create resource groups client'' (External err))
            | Inr resourceGroups \<Rightarrow>
           (case NewUserAssignedIdentitiesClient sdk (subscriptionID scope) cred of
              Inl err \<Rightarrow> Inl (WrapError ''create user assigned identities client'' (External err))
            | Inr identities \<Rightarrow>
           (case NewFederatedIdentityCredentialsClient sdk (subscriptionID scope) cred of
              Inl err \<Rightarrow> Inl (WrapError ''create federated identity credentials client'' (External err))
            | Inr federatedCredentials \<Rightarrow>
                Inr \<lparr> ic_scope = scope, ic_resourceGroups = resourceGroups,
                      ic_identities = identities,
                      ic_federatedCredentials = federatedCredentials \<rparr>)))))"

section \<open>Ensure\<close>

record ManagedIdentity =
  mi_ClientID :: string
  mi_PrincipalID :: string
  mi_TenantID :: string
  mi_AzureResources :: "AzureResource list"

definition resource_entry :: "string option \<Rightarrow> string \<Rightarrow> AzureResource list" where
  "resource_entry resourceID kind =
     (case resourceID of None \<Rightarrow> [] | Some i \<Rightarrow> [\<lparr> ar_ID = i, ar_Kind = kind \<rparr>])"

text \<open>The identity's recorded resource ID, when it names the identity that is missing.\<close>

definition recorded_missing_identity :: "Scope \<Rightarrow> WorkloadIdentity \<Rightarrow> string option" where
  "recorded_missing_identity scope identity =
     (case recordedAzureResourceID identity azureResourceKindUserAssignedIdentity of
        None \<Rightarrow> None
      | Some recordedID \<Rightarrow>
          if equal_fold recordedID (desiredUserAssignedIdentityID scope identity)
          then Some recordedID else None)"

definition get_or_create_identity ::
  "'w identityClients \<Rightarrow> WorkloadIdentity \<Rightarrow> ('w, Identity) io" where
  "get_or_create_identity c identity =
     (let name = userAssignedIdentityName identity; rg = resourceGroupName (ic_scope c) in
      State_Monad.bind (ui_Get (ic_identities c) rg name) (\<lambda>r. case r of
        Inr response \<Rightarrow> io_return response
      | Inl err \<Rightarrow>
          if isNotFound err then
            (case recorded_missing_identity (ic_scope c) identity of
               Some recordedID \<Rightarrow> io_fail (userAssignedIdentityOwnershipConflict recordedID)
             | None \<Rightarrow>
                 errorf_wrap ''create user assigned identity''
                   (external (ui_CreateOrUpdate (ic_identities c) rg name
                      \<lparr> id_ID = None, id_Location = Some (location (ic_scope c)),
                        id_Tags = workloadIdentityTags identity, id_Properties = None \<rparr>)))
          else io_fail (WrapError ''get user assigned identity'' (External err))))"

definition ensureUserAssignedIdentity ::
  "'w identityClients \<Rightarrow> WorkloadIdentity \<Rightarrow> ('w, AzureResource list \<times> Identity) io" where
  "ensureUserAssignedIdentity c identity =
     (case ValidateUserAssignedIdentityName (userAssignedIdentityName identity) of
        Some err \<Rightarrow> io_fail (WrapError ''validate user assigned identity name'' err)
      | None \<Rightarrow>
        io_try (ensureResourceGroup (ic_resourceGroups c) (ic_scope c)) (\<lambda>resourceGroup.
        io_try (get_or_create_identity c identity) (\<lambda>response.
          case validateUserAssignedIdentityOwnership identity response of
            Some err \<Rightarrow> io_fail err
          | None \<Rightarrow> io_return
              (resource_entry (rg_ID resourceGroup) azureResourceKindResourceGroup
                 @ resource_entry (id_ID response) azureResourceKindUserAssignedIdentity,
               response))))"

definition reconcile_credential ::
  "'w identityClients \<Rightarrow> WorkloadIdentity \<Rightarrow> string \<Rightarrow> string \<Rightarrow> string \<Rightarrow>
     ('w, FederatedIdentityCredential) io" where
  "reconcile_credential c identity issuerURL subject op =
     (let identityName = userAssignedIdentityName identity;
          credentialName = FederatedIdentityCredentialName (wis_Azure (wi_Spec identity));
          desired = desiredFederatedIdentityCredential issuerURL subject
      in io_try (errorf_wrap (op @ '' federated identity credential'')
               (external (fic_CreateOrUpdate (ic_federatedCredentials c)
                  (resourceGroupName (ic_scope c)) identityName credentialName desired)))
         (\<lambda>reconciled.
            case validateFederatedIdentityCredential credentialName reconciled desired of
              Some validationErr \<Rightarrow>
                io_fail (WrapError ''verify reconciled federated identity credential'' validationErr)
            | None \<Rightarrow> io_return reconciled))"

definition ensureFederatedIdentityCredential ::
  "'w identityClients \<Rightarrow> WorkloadIdentity \<Rightarrow> string \<Rightarrow> string \<Rightarrow>
     ('w, FederatedIdentityCredential) io" where
  "ensureFederatedIdentityCredential c identity issuerURL subject =
     (let identityName = userAssignedIdentityName identity;
          credentialName = FederatedIdentityCredentialName (wis_Azure (wi_Spec identity));
          desired = desiredFederatedIdentityCredential issuerURL subject
      in State_Monad.bind
           (fic_Get (ic_federatedCredentials c) (resourceGroupName (ic_scope c)) identityName credentialName)
           (\<lambda>r. case r of
              Inr existing \<Rightarrow>
                if validateFederatedIdentityCredential credentialName existing desired = None
                then io_return existing
                else reconcile_credential c identity issuerURL subject ''repair''
            | Inl err \<Rightarrow>
                if isNotFound err then reconcile_credential c identity issuerURL subject ''create''
                else io_fail (WrapError ''get federated identity credential'' (External err))))"

definition identity_property ::
  "(IdentityProperties \<Rightarrow> string option) \<Rightarrow> Identity \<Rightarrow> string" where
  "identity_property f i = (case id_Properties i of None \<Rightarrow> '''' | Some p \<Rightarrow> stringValue (f p))"

definition ensure ::
  "'w identityClients \<Rightarrow> WorkloadIdentity \<Rightarrow> string \<Rightarrow> string \<Rightarrow> ('w, ManagedIdentity) io" where
  "ensure c identity issuerURL subject =
     io_try (ensureUserAssignedIdentity c identity) (\<lambda>(resources, managedIdentity).
     io_try (ensureFederatedIdentityCredential c identity issuerURL subject) (\<lambda>credential.
       io_return
         \<lparr> mi_ClientID = identity_property ip_ClientID managedIdentity,
           mi_PrincipalID = identity_property ip_PrincipalID managedIdentity,
           mi_TenantID = identity_property ip_TenantID managedIdentity,
           mi_AzureResources = resources
             @ resource_entry (fic_ID credential) azureResourceKindFederatedIdentityCredential \<rparr>))"

section \<open>Delete and recovery detection\<close>

definition delete_identity :: "'w identityClients \<Rightarrow> WorkloadIdentity \<Rightarrow> ('w, unit) io" where
  "delete_identity c identity =
     (let name = userAssignedIdentityName identity; rg = resourceGroupName (ic_scope c) in
      case ValidateUserAssignedIdentityName name of Some err \<Rightarrow> io_return ()
      | None \<Rightarrow>
        State_Monad.bind (ui_Get (ic_identities c) rg name) (\<lambda>r. case r of
          Inl err \<Rightarrow>
            if isNotFound err then io_return ()
            else io_fail (WrapError ''get user assigned identity before delete'' (External err))
        | Inr uami \<Rightarrow>
            (case validateUserAssignedIdentityOwnership identity uami of
               Some err \<Rightarrow> io_fail err
             | None \<Rightarrow>
                 State_Monad.bind (ui_Delete (ic_identities c) rg name) (\<lambda>d. case d of
                   Inl err \<Rightarrow>
                     if isNotFound err then io_return ()
                     else io_fail (WrapError ''delete user assigned identity'' (External err))
                 | Inr u \<Rightarrow> io_return ()))))"

definition detectRecovery ::
  "'w identityClients \<Rightarrow> WorkloadIdentity \<Rightarrow> ('w, RecoveryRequiredEvidence) io" where
  "detectRecovery c identity =
     (let name = userAssignedIdentityName identity in
      case ValidateUserAssignedIdentityName name of
        Some err \<Rightarrow> io_fail (WrapError ''validate user assigned identity name'' err)
      | None \<Rightarrow>
        io_try (errorf_wrap ''get user assigned identity for recovery detection''
                  (external (ui_Get (ic_identities c) (resourceGroupName (ic_scope c)) name)))
          (\<lambda>response.
             if \<not> equal_fold (stringValue (id_ID response))
                    (desiredUserAssignedIdentityID (ic_scope c) identity)
             then io_fail (userAssignedIdentityOwnershipConflict (stringValue (id_ID response)))
             else case validateUserAssignedIdentityOwnership identity response of
               Some err \<Rightarrow>
                 (case RecoveryRequiredDetails err of
                    Some recovery \<Rightarrow> io_return recovery
                  | None \<Rightarrow> io_fail err)
             | None \<Rightarrow> io_fail (NewConflictError ReasonAzureResourceOwnershipConflict
                        (''UserAssignedIdentity '' @ fmt_q name @ '' does not require recovery''))))"

section \<open>The manager\<close>

record WorkloadIdentityManager =
  wim_Credential :: "TokenCredential option"
  wim_Scope :: Scope

definition with_clients ::
  "'w armSDK \<Rightarrow> WorkloadIdentityManager \<Rightarrow> ('w identityClients \<Rightarrow> ('w, 'a) io) \<Rightarrow> ('w, 'a) io" where
  "with_clients sdk m f =
     (case newIdentityClients sdk (wim_Scope m) (wim_Credential m) of
        Inl err \<Rightarrow> io_fail err
      | Inr c \<Rightarrow> f c)"

definition Manager_Ensure :: "'w armSDK \<Rightarrow> WorkloadIdentityManager \<Rightarrow> WorkloadIdentity \<Rightarrow>
    string \<Rightarrow> string \<Rightarrow> ('w, ManagedIdentity) io" where
  "Manager_Ensure sdk m identity issuerURL subject =
     with_clients sdk m (\<lambda>c. ensure c identity issuerURL subject)"

definition Manager_Delete ::
  "'w armSDK \<Rightarrow> WorkloadIdentityManager \<Rightarrow> WorkloadIdentity \<Rightarrow> ('w, unit) io" where
  "Manager_Delete sdk m identity = with_clients sdk m (\<lambda>c. delete_identity c identity)"

definition Manager_DetectRecovery :: "'w armSDK \<Rightarrow> WorkloadIdentityManager \<Rightarrow> WorkloadIdentity \<Rightarrow>
    ('w, RecoveryRequiredEvidence) io" where
  "Manager_DetectRecovery sdk m identity = with_clients sdk m (\<lambda>c. detectRecovery c identity)"

section \<open>Tag keys\<close>

lemma tag_keys_distinct [simp]:
  "workloadIdentityUIDTag \<noteq> managedByTag" "workloadIdentityUIDTag \<noteq> createdByOperatorTag"
  "workloadIdentityUIDTag \<noteq> operatorAPIGroupTag" "managedByTag \<noteq> workloadIdentityUIDTag"
  "createdByOperatorTag \<noteq> workloadIdentityUIDTag" "operatorAPIGroupTag \<noteq> workloadIdentityUIDTag"
  "workloadIdentityKeyTag \<noteq> managedByTag" "workloadIdentityKeyTag \<noteq> createdByOperatorTag"
  "workloadIdentityKeyTag \<noteq> operatorAPIGroupTag" "workloadIdentityKeyTag \<noteq> workloadIdentityUIDTag"
  "managedByTag \<noteq> workloadIdentityKeyTag" "createdByOperatorTag \<noteq> workloadIdentityKeyTag"
  "operatorAPIGroupTag \<noteq> workloadIdentityKeyTag" "workloadIdentityUIDTag \<noteq> workloadIdentityKeyTag"
  by (simp_all add: const_defs)

lemma recovery_tag_keys_distinct [simp]:
  "workloadIdentityRecoveryUIDTag \<noteq> workloadIdentityRecoveryTargetUIDTag"
  "workloadIdentityRecoveryTargetUIDTag \<noteq> workloadIdentityRecoveryUIDTag"
  "workloadIdentityLastRecoveryUIDTag \<noteq> workloadIdentityRecoveryUIDTag"
  "workloadIdentityLastRecoveryUIDTag \<noteq> workloadIdentityRecoveryTargetUIDTag"
  "workloadIdentityRecoveryUIDTag \<noteq> workloadIdentityLastRecoveryUIDTag"
  "workloadIdentityRecoveryTargetUIDTag \<noteq> workloadIdentityLastRecoveryUIDTag"
  "k \<in> {workloadIdentityRecoveryUIDTag, workloadIdentityRecoveryTargetUIDTag,
          workloadIdentityLastRecoveryUIDTag} \<Longrightarrow>
     k \<notin> {workloadIdentityKeyTag, workloadIdentityUIDTag, managedByTag, createdByOperatorTag,
           operatorAPIGroupTag}"
  by (auto simp: const_defs)

lemma recovery_tag_keys_foreign [simp]:
  "workloadIdentityRecoveryUIDTag \<noteq> workloadIdentityUIDTag"
  "workloadIdentityRecoveryTargetUIDTag \<noteq> workloadIdentityUIDTag"
  "workloadIdentityLastRecoveryUIDTag \<noteq> workloadIdentityUIDTag"
  "workloadIdentityUIDTag \<noteq> workloadIdentityRecoveryUIDTag"
  "workloadIdentityUIDTag \<noteq> workloadIdentityRecoveryTargetUIDTag"
  "workloadIdentityUIDTag \<noteq> workloadIdentityLastRecoveryUIDTag"
  "workloadIdentityRecoveryUIDTag \<noteq> workloadIdentityKeyTag"
  "workloadIdentityRecoveryTargetUIDTag \<noteq> workloadIdentityKeyTag"
  "workloadIdentityLastRecoveryUIDTag \<noteq> workloadIdentityKeyTag"
  "workloadIdentityRecoveryUIDTag \<noteq> managedByTag"
  "workloadIdentityRecoveryTargetUIDTag \<noteq> managedByTag"
  "workloadIdentityLastRecoveryUIDTag \<noteq> managedByTag"
  "workloadIdentityRecoveryUIDTag \<noteq> createdByOperatorTag"
  "workloadIdentityRecoveryTargetUIDTag \<noteq> createdByOperatorTag"
  "workloadIdentityLastRecoveryUIDTag \<noteq> createdByOperatorTag"
  "workloadIdentityRecoveryUIDTag \<noteq> operatorAPIGroupTag"
  "workloadIdentityRecoveryTargetUIDTag \<noteq> operatorAPIGroupTag"
  "workloadIdentityLastRecoveryUIDTag \<noteq> operatorAPIGroupTag"
  by (simp_all add: const_defs)

lemmas recovery_tag_keys_foreign_sym [simp] = recovery_tag_keys_foreign[THEN not_sym]

lemma tagValue_upd [simp]:
  "tagValue (fmupd k v t) k' = (if k = k' then stringValue v else tagValue t k')"
  by (simp add: tagValue_def)

lemma tagValue_drop [simp]: "tagValue (fmdrop k t) k' = (if k = k' then '''' else tagValue t k')"
  by (simp add: tagValue_def stringValue_def)

lemma stringValue_simps [simp]: "stringValue None = ''''" "stringValue (Some v) = v"
  by (simp_all add: stringValue_def)

lemma tagValue_empty [simp]: "tagValue fmempty k = ''''"
  by (simp add: tagValue_def)

lemma tagValue_pointer: "tag_pointer t k = Some v \<Longrightarrow> tagValue t k = v"
  by (simp add: tagValue_def)

text \<open>
  \<open>operator_tags t uid\<close>: the four tags every identity of the operator carries, for the owner
  \<open>uid\<close>; \<open>fenced t\<close>: a recovery tag is set.
\<close>

definition operator_tags :: "tags \<Rightarrow> string \<Rightarrow> bool" where
  "operator_tags t uid \<longleftrightarrow>
     tag_pointer t managedByTag = Some operatorName \<and>
     tag_pointer t workloadIdentityUIDTag = Some uid \<and>
     tag_pointer t createdByOperatorTag = Some ''true'' \<and>
     tag_pointer t operatorAPIGroupTag = Some operatorAPIGroupValue"

definition fenced :: "tags \<Rightarrow> bool" where
  "fenced t \<longleftrightarrow> tagValue t workloadIdentityRecoveryUIDTag \<noteq> '''' \<or>
     tagValue t workloadIdentityRecoveryTargetUIDTag \<noteq> ''''"

lemma hasTags_operator_tags:
  "hasTags t (operatorOwnershipTags workloadIdentityUIDTag uid True) \<longleftrightarrow> operator_tags t uid"
  by (simp add: hasTags_ownership operator_tags_def fmt_t_def)

lemma hasTags_identity_tags:
  "hasTags t (fmupd workloadIdentityKeyTag (Some key)
       (operatorOwnershipTags workloadIdentityUIDTag uid True)) \<longleftrightarrow>
     tag_pointer t workloadIdentityKeyTag = Some key \<and> operator_tags t uid"
proof -
  let ?own = "operatorOwnershipTags workloadIdentityUIDTag uid True"
  have "workloadIdentityKeyTag |\<notin>| fmdom ?own"
    by (simp add: operatorOwnershipTags_def)
  then have "hasTags t (fmupd workloadIdentityKeyTag (Some key) ?own) \<longleftrightarrow>
      tag_pointer t workloadIdentityKeyTag = Some key \<and> hasTags t ?own"
    by (auto simp: hasTags_iff)
  then show ?thesis by (simp add: hasTags_operator_tags)
qed

lemma hasTags_workloadIdentityTags:
  "hasTags t (workloadIdentityTags identity) \<longleftrightarrow>
     tag_pointer t workloadIdentityKeyTag
       = Some (LogicalIdentityKey (wi_namespace identity) (wi_name identity)) \<and>
     operator_tags t (wi_UID identity)"
  by (simp add: workloadIdentityTags_def hasTags_identity_tags)

lemma operator_tags_uid: "operator_tags t uid \<Longrightarrow> tagValue t workloadIdentityUIDTag = uid"
  by (simp add: operator_tags_def tagValue_def)

lemma operator_tags_workloadIdentityTags [simp]:
  "operator_tags (workloadIdentityTags identity) (wi_UID identity)"
  "\<not> fenced (workloadIdentityTags identity)"
  "tag_pointer (workloadIdentityTags identity) workloadIdentityKeyTag
     = Some (LogicalIdentityKey (wi_namespace identity) (wi_name identity))"
  by (simp_all add: workloadIdentityTags_def operatorOwnershipTags_def operator_tags_def fenced_def
      fmt_t_def) (simp_all add: const_defs)

lemma expected_key [simp]:
  "tagValue (workloadIdentityTags identity) workloadIdentityKeyTag
     = LogicalIdentityKey (wi_namespace identity) (wi_name identity)"
  by (rule tagValue_pointer) simp

section \<open>Outcomes of the ownership check\<close>

lemma validate_None_iff:
  "validateUserAssignedIdentityOwnership identity current = None \<longleftrightarrow>
     \<not> fenced (id_Tags current) \<and> hasTags (id_Tags current) (workloadIdentityTags identity)"
  by (auto simp: validateUserAssignedIdentityOwnership_def Let_def fenced_def
      hasTags_workloadIdentityTags hasTags_operator_tags dest: operator_tags_uid)

lemma validate_error_kinds:
  "validateUserAssignedIdentityOwnership identity current = Some err \<Longrightarrow>
     recovery_evidence_consistent err \<and> RecoveryBlockedReason err = None \<and>
     ConflictReason err \<noteq> None"
  by (auto simp: validateUserAssignedIdentityOwnership_def Let_def
      userAssignedIdentityOwnershipConflict_def split: if_splits)

lemma validate_recovery_iff:
  "map_option RecoveryRequiredDetails (validateUserAssignedIdentityOwnership identity current)
       = Some (Some evidence) \<longleftrightarrow>
     \<not> fenced (id_Tags current) \<and>
     tagValue (id_Tags current) workloadIdentityKeyTag
       = LogicalIdentityKey (wi_namespace identity) (wi_name identity) \<and>
     rre_PreviousWorkloadIdentityUID evidence \<noteq> '''' \<and>
     rre_PreviousWorkloadIdentityUID evidence \<noteq> wi_UID identity \<and>
     operator_tags (id_Tags current) (rre_PreviousWorkloadIdentityUID evidence)"
  by (cases evidence) (auto simp: validateUserAssignedIdentityOwnership_def Let_def fenced_def
      hasTags_operator_tags userAssignedIdentityOwnershipConflict_def dest: operator_tags_uid)

lemma validate_created:
  "id_Tags current = workloadIdentityTags identity \<Longrightarrow>
     validateUserAssignedIdentityOwnership identity current = None"
  by (simp add: validate_None_iff hasTags_workloadIdentityTags)

lemma validate_fic_iff:
  "validateFederatedIdentityCredential name existing
       (desiredFederatedIdentityCredential issuerURL subject) = None \<longleftrightarrow>
     (case fic_Properties existing of None \<Rightarrow> False
      | Some p \<Rightarrow> stringValue (ficp_Issuer p) = issuerURL \<and>
                  stringValue (ficp_Subject p) = subject \<and>
                  stringValues (ficp_Audiences p) = [azureADTokenExchangeAudience])"
  by (auto simp: validateFederatedIdentityCredential_def desiredFederatedIdentityCredential_def
      stringValues_def Let_def split: option.splits)

end
