(* ===== verification/Azure_Recovery.thy ===== *)
theory Azure_Recovery
  imports Azure_Identity
begin

text \<open>
  internal/azure/workload_identity_recovery.go: the recovery manager, which moves the managed
  identity of a lost WorkloadIdentity to its successor.  Progress is kept in the tags of the
  identity; every operation reads the identity, derives the stage from the tags, and writes
  tags or the federated credential only in the stage it belongs to.
\<close>

section \<open>Stages\<close>

definition recoveryReasonFederatedIdentityCredentialAmbiguous :: string where
  "recoveryReasonFederatedIdentityCredentialAmbiguous = ''FederatedIdentityCredentialAmbiguous''"
definition recoveryReasonRecoveryMarkerConflict :: string where
  "recoveryReasonRecoveryMarkerConflict = ''RecoveryMarkerConflict''"
definition recoveryReasonUserAssignedIdentityConflict :: string where
  "recoveryReasonUserAssignedIdentityConflict = ''UserAssignedIdentityConflict''"
definition recoveryReasonUserAssignedIdentityNotFound :: string where
  "recoveryReasonUserAssignedIdentityNotFound = ''UserAssignedIdentityNotFound''"

lemmas azure_recovery_reason_defs [const_defs] =
  recoveryReasonFederatedIdentityCredentialAmbiguous_def recoveryReasonRecoveryMarkerConflict_def
  recoveryReasonUserAssignedIdentityConflict_def recoveryReasonUserAssignedIdentityNotFound_def

datatype identityRecoveryStage =
    recoveryStageNotStarted
  | recoveryStageInProgress
  | recoveryStageCommittedFenced
  | recoveryStageComplete

definition recoveryStage ::
  "WorkloadIdentityRecovery \<Rightarrow> WorkloadIdentity \<Rightarrow> Identity \<Rightarrow> go_error + identityRecoveryStage" where
  "recoveryStage recovery identity uami =
     (let ownerUID = tagValue (id_Tags uami) workloadIdentityUIDTag;
          recoveryUID = tagValue (id_Tags uami) workloadIdentityRecoveryUIDTag;
          targetUID = tagValue (id_Tags uami) workloadIdentityRecoveryTargetUIDTag;
          lastRecoveryUID = tagValue (id_Tags uami) workloadIdentityLastRecoveryUIDTag;
          sourceUID = r_SourceUID recovery;
          currentUID = wi_UID identity
      in if ownerUID = currentUID \<and> recoveryUID = '''' \<and> targetUID = ''''
            \<and> lastRecoveryUID = r_UID recovery
         then Inr recoveryStageComplete
         else if ownerUID = currentUID \<and> recoveryUID = r_UID recovery
            \<and> targetUID = currentUID \<and> lastRecoveryUID = r_UID recovery
         then Inr recoveryStageCommittedFenced
         else if ownerUID = sourceUID \<and> recoveryUID = r_UID recovery \<and> targetUID = currentUID
         then Inr recoveryStageInProgress
         else if ownerUID = sourceUID \<and> recoveryUID = '''' \<and> targetUID = ''''
         then Inr recoveryStageNotStarted
         else Inl (NewRecoveryBlockedError recoveryReasonRecoveryMarkerConflict
                (''UserAssignedIdentity '' @ fmt_q (userAssignedIdentityName identity)
                   @ '' has owner UID '' @ fmt_q ownerUID @ '', recovery UID '' @ fmt_q recoveryUID
                   @ '', target UID '' @ fmt_q targetUID @ '', and last recovery UID ''
                   @ fmt_q lastRecoveryUID)))"

definition recoveryMarkerNotActive :: go_error where
  "recoveryMarkerNotActive =
     NewRecoveryBlockedError recoveryReasonRecoveryMarkerConflict
       ''UserAssignedIdentity recovery marker is not active''"

section \<open>Reading the identity\<close>

definition getRecoveryUserAssignedIdentity ::
  "'w identityClients \<Rightarrow> WorkloadIdentity \<Rightarrow> ('w, Identity) io" where
  "getRecoveryUserAssignedIdentity c identity =
     (let name = userAssignedIdentityName identity in
      State_Monad.bind (ui_Get (ic_identities c) (resourceGroupName (ic_scope c)) name) (\<lambda>r. case r of
        Inl err \<Rightarrow>
          if isNotFound err
          then io_fail (NewRecoveryBlockedError recoveryReasonUserAssignedIdentityNotFound
                 (''UserAssignedIdentity '' @ fmt_q name @ '' was not found''))
          else io_fail (WrapError ''get user assigned identity for recovery'' (External err))
      | Inr response \<Rightarrow>
          let expectedID = desiredUserAssignedIdentityID (ic_scope c) identity;
              currentOwnerUID = tagValue (id_Tags response) workloadIdentityUIDTag;
              expectedTags = fmupd workloadIdentityKeyTag
                (Some (LogicalIdentityKey (wi_namespace identity) (wi_name identity)))
                (operatorOwnershipTags workloadIdentityUIDTag currentOwnerUID True)
          in if \<not> equal_fold (stringValue (id_ID response)) expectedID
             then io_fail (NewRecoveryBlockedError recoveryReasonUserAssignedIdentityConflict
                    (''UserAssignedIdentity '' @ fmt_q name @ '' has resource ID ''
                       @ fmt_q (stringValue (id_ID response)) @ ''; expected '' @ fmt_q expectedID))
             else if \<not> hasTags (id_Tags response) expectedTags
             then io_fail (NewRecoveryBlockedError recoveryReasonUserAssignedIdentityConflict
                    (''UserAssignedIdentity '' @ fmt_q name
                       @ '' does not contain exact operator ownership tags''))
             else if id_Properties response = None
                \<or> identity_property ip_ClientID response = ''''
                \<or> identity_property ip_PrincipalID response = ''''
                \<or> identity_property ip_TenantID response = ''''
             then io_fail (NewRecoveryBlockedError recoveryReasonUserAssignedIdentityConflict
                    (''UserAssignedIdentity '' @ fmt_q name
                       @ '' does not contain complete Azure identity properties''))
             else io_return response))"

definition recoveryUserAssignedIdentity ::
  "Identity \<Rightarrow> go_error + RecoveryUserAssignedIdentity" where
  "recoveryUserAssignedIdentity identity =
     (case id_Properties identity of
        None \<Rightarrow> Inl nil_dereference
      | Some p \<Rightarrow> Inr \<lparr> rui_ID = stringValue (id_ID identity),
                        rui_ClientID = stringValue (ip_ClientID p),
                        rui_PrincipalID = stringValue (ip_PrincipalID p),
                        rui_TenantID = stringValue (ip_TenantID p) \<rparr>)"

definition validateRecoveryIdentityPlan ::
  "Identity \<Rightarrow> WorkloadIdentityRecoveryPlan option \<Rightarrow> go_error option" where
  "validateRecoveryIdentityPlan current plan =
     (case plan of
        None \<Rightarrow> Some (NewRecoveryBlockedError recoveryReasonUserAssignedIdentityConflict
                        ''Recovery plan is missing'')
      | Some p \<Rightarrow>
          let expected = plan_UserAssignedIdentity p;
              changed = NewRecoveryBlockedError recoveryReasonUserAssignedIdentityConflict
                ''UserAssignedIdentity properties changed after recovery preflight''
          in if \<not> equal_fold (stringValue (id_ID current)) (rui_ID expected) then Some changed
             else (case id_Properties current of
                 None \<Rightarrow> Some nil_dereference
               | Some props \<Rightarrow>
                   if stringValue (ip_ClientID props) \<noteq> rui_ClientID expected
                      \<or> stringValue (ip_PrincipalID props) \<noteq> rui_PrincipalID expected
                      \<or> stringValue (ip_TenantID props) \<noteq> rui_TenantID expected
                   then Some changed else None))"

section \<open>Federated credential sets\<close>

definition stringPointers :: "string list \<Rightarrow> string option list" where
  "stringPointers values = map Some values"

definition desiredFederatedIdentityCredentialID :: "Scope \<Rightarrow> WorkloadIdentity \<Rightarrow> string" where
  "desiredFederatedIdentityCredentialID scope identity =
     desiredUserAssignedIdentityID scope identity @ ''/federatedIdentityCredentials/''
       @ FederatedIdentityCredentialName (wis_Azure (wi_Spec identity))"

definition desiredRecoveryFederatedIdentityCredential ::
  "WorkloadIdentityRecoveryPlan \<Rightarrow> FederatedIdentityCredential" where
  "desiredRecoveryFederatedIdentityCredential plan =
     (let desired = plan_FederatedIdentityCredential plan in
      \<lparr> fic_ID = None, fic_Name = None,
        fic_Properties = Some \<lparr> ficp_Issuer = Some (rfic_Issuer desired),
                                ficp_Subject = Some (rfic_Subject desired),
                                ficp_Audiences = stringPointers (rfic_Audiences desired) \<rparr> \<rparr>)"

definition validateFederatedIdentityCredentialLocation ::
  "FederatedIdentityCredential \<Rightarrow> string \<Rightarrow> string \<Rightarrow> go_error option" where
  "validateFederatedIdentityCredentialLocation credential expectedName expectedID =
     (if \<not> equal_fold (stringValue (fic_Name credential)) expectedName
         \<or> \<not> equal_fold (stringValue (fic_ID credential)) expectedID
      then Some (NewRecoveryBlockedError recoveryReasonFederatedIdentityCredentialAmbiguous
             (''FederatedIdentityCredential has name '' @ fmt_q (stringValue (fic_Name credential))
                @ '' and resource ID '' @ fmt_q (stringValue (fic_ID credential))
                @ ''; expected name '' @ fmt_q expectedName
                @ '' and resource ID '' @ fmt_q expectedID))
      else None)"

definition validateRecoverableFederatedIdentityCredentialSet ::
  "Scope \<Rightarrow> WorkloadIdentity \<Rightarrow> FederatedIdentityCredential list \<Rightarrow> go_error option" where
  "validateRecoverableFederatedIdentityCredentialSet scope identity credentials =
     (if length credentials > 1
      then Some (NewRecoveryBlockedError recoveryReasonFederatedIdentityCredentialAmbiguous
             (''UserAssignedIdentity '' @ fmt_q (userAssignedIdentityName identity)
                @ '' contains '' @ fmt_d (length credentials)
                @ '' federated identity credentials; recovery requires zero or one''))
      else case credentials of
        [] \<Rightarrow> None
      | credential # _ \<Rightarrow>
          validateFederatedIdentityCredentialLocation credential
            (FederatedIdentityCredentialName (wis_Azure (wi_Spec identity)))
            (desiredFederatedIdentityCredentialID scope identity))"

definition validateExactFederatedIdentityCredentialSet ::
  "FederatedIdentityCredential list \<Rightarrow> string \<Rightarrow> string \<Rightarrow> FederatedIdentityCredential \<Rightarrow>
     go_error option" where
  "validateExactFederatedIdentityCredentialSet credentials expectedName expectedID expected =
     (case credentials of
        [current] \<Rightarrow>
          (case validateFederatedIdentityCredentialLocation current expectedName expectedID of
             Some err \<Rightarrow> Some err
           | None \<Rightarrow>
             (case validateFederatedIdentityCredential expectedName current expected of
                Some err \<Rightarrow>
                  Some (NewRecoveryBlockedError recoveryReasonFederatedIdentityCredentialAmbiguous
                    (''FederatedIdentityCredential tuple changed: '' @ Error err))
              | None \<Rightarrow> None))
      | _ \<Rightarrow> Some (NewRecoveryBlockedError recoveryReasonFederatedIdentityCredentialAmbiguous
               (''Recovery requires exactly one federated identity credential, found ''
                  @ fmt_d (length credentials))))"

definition validateCommittedFederatedIdentityCredential ::
  "'w identityClients \<Rightarrow> WorkloadIdentity \<Rightarrow> WorkloadIdentityRecoveryPlan \<Rightarrow> string \<Rightarrow>
     ('w, unit) io" where
  "validateCommittedFederatedIdentityCredential c identity plan operation =
     io_try (errorf_wrap (''list federated identity credentials '' @ operation)
               (fic_List (ic_federatedCredentials c) (resourceGroupName (ic_scope c))
                  (userAssignedIdentityName identity)))
       (\<lambda>credentials.
          case validateExactFederatedIdentityCredentialSet credentials
                 (FederatedIdentityCredentialName (wis_Azure (wi_Spec identity)))
                 (desiredFederatedIdentityCredentialID (ic_scope c) identity)
                 (desiredRecoveryFederatedIdentityCredential plan) of
            Some err \<Rightarrow> io_fail err
          | None \<Rightarrow> io_return ())"

section \<open>Writing and verifying the tags\<close>

definition updateRecoveryTags ::
  "'w identityClients \<Rightarrow> WorkloadIdentity \<Rightarrow> tags \<Rightarrow> ('w, unit) io" where
  "updateRecoveryTags c identity t =
     io_try (external (ui_Update (ic_identities c) (resourceGroupName (ic_scope c))
                         (userAssignedIdentityName identity) t))
       (\<lambda>_. io_return ())"

definition verifyRecoveryStage ::
  "'w identityClients \<Rightarrow> WorkloadIdentityRecovery \<Rightarrow> WorkloadIdentity \<Rightarrow>
     WorkloadIdentityRecoveryPlan option \<Rightarrow> identityRecoveryStage \<Rightarrow> string \<Rightarrow> ('w, unit) io" where
  "verifyRecoveryStage c recovery identity plan expected operation =
     io_try (getRecoveryUserAssignedIdentity c identity) (\<lambda>verified.
     io_try (errorf_wrap operation (io_of (recoveryStage recovery identity verified))) (\<lambda>stage.
       if stage \<noteq> expected
       then io_fail (NewRecoveryBlockedError recoveryReasonRecoveryMarkerConflict
              (operation @ '' did not reach the expected Azure recovery stage''))
       else case validateRecoveryIdentityPlan verified plan of
              Some err \<Rightarrow> io_fail err
            | None \<Rightarrow> io_return ()))"

section \<open>The recovery manager\<close>

record 'w RecoveryManager =
  wrm_Credential :: "TokenCredential option"
  wrm_Scope :: Scope
  wrm_clientsFactory :: "(go_error + 'w identityClients) option"

definition recovery_clients ::
  "'w armSDK \<Rightarrow> 'w RecoveryManager \<Rightarrow> go_error + 'w identityClients" where
  "recovery_clients sdk m =
     (case wrm_clientsFactory m of
        Some r \<Rightarrow> r
      | None \<Rightarrow> newIdentityClients sdk (wrm_Scope m) (wrm_Credential m))"

definition loadAndValidateRecoveryState ::
  "'w armSDK \<Rightarrow> 'w RecoveryManager \<Rightarrow> WorkloadIdentityRecovery \<Rightarrow> WorkloadIdentity \<Rightarrow>
     WorkloadIdentityRecoveryPlan option \<Rightarrow>
     ('w, 'w identityClients \<times> Identity \<times> identityRecoveryStage) io" where
  "loadAndValidateRecoveryState sdk m recovery identity plan =
     io_try (io_of (recovery_clients sdk m)) (\<lambda>clients.
     io_try (getRecoveryUserAssignedIdentity clients identity) (\<lambda>uami.
     io_try (io_of (recoveryStage recovery identity uami)) (\<lambda>stage.
       case validateRecoveryIdentityPlan uami plan of
         Some err \<Rightarrow> io_fail err
       | None \<Rightarrow> io_return (clients, uami, stage))))"

definition with_plan ::
  "WorkloadIdentityRecoveryPlan option \<Rightarrow> (WorkloadIdentityRecoveryPlan \<Rightarrow> ('w, 'a) io) \<Rightarrow> ('w, 'a) io"
where
  "with_plan plan f = (case plan of None \<Rightarrow> io_fail nil_dereference | Some p \<Rightarrow> f p)"

definition Inspect ::
  "'w armSDK \<Rightarrow> 'w RecoveryManager \<Rightarrow> WorkloadIdentityRecovery \<Rightarrow> WorkloadIdentity \<Rightarrow>
     string \<Rightarrow> string \<Rightarrow> ('w, WorkloadIdentityRecoveryPlan) io" where
  "Inspect sdk m recovery identity issuerURL subject =
     io_try (io_of (recovery_clients sdk m)) (\<lambda>clients.
     io_try (getRecoveryUserAssignedIdentity clients identity) (\<lambda>uami.
     io_try (io_of (recoveryStage recovery identity uami)) (\<lambda>_.
     io_try (fic_List (ic_federatedCredentials clients) (resourceGroupName (ic_scope clients))
               (userAssignedIdentityName identity)) (\<lambda>credentials.
       case validateRecoverableFederatedIdentityCredentialSet (ic_scope clients) identity credentials of
         Some err \<Rightarrow> io_fail err
       | None \<Rightarrow>
           io_try (io_of (recoveryUserAssignedIdentity uami)) (\<lambda>user.
             io_return
               \<lparr> plan_UserAssignedIdentity = user,
                 plan_FederatedIdentityCredential =
                   \<lparr> rfic_Issuer = issuerURL, rfic_Subject = subject,
                     rfic_Audiences = [azureADTokenExchangeAudience] \<rparr> \<rparr>)))))"

definition MarkInProgress ::
  "'w armSDK \<Rightarrow> 'w RecoveryManager \<Rightarrow> WorkloadIdentityRecovery \<Rightarrow> WorkloadIdentity \<Rightarrow>
     WorkloadIdentityRecoveryPlan option \<Rightarrow> ('w, unit) io" where
  "MarkInProgress sdk m recovery identity plan =
     io_try (loadAndValidateRecoveryState sdk m recovery identity plan) (\<lambda>(clients, uami, stage).
       if stage \<noteq> recoveryStageNotStarted then io_return ()
       else io_try (errorf_wrap ''mark user assigned identity recovery in progress''
              (updateRecoveryTags clients identity
                 (mergeTags (id_Tags uami)
                    (fmupd workloadIdentityRecoveryUIDTag (Some (r_UID recovery))
                      (fmupd workloadIdentityRecoveryTargetUIDTag (Some (wi_UID identity)) fmempty)))))
            (\<lambda>_. verifyRecoveryStage clients recovery identity plan recoveryStageInProgress
                    ''verify user assigned identity recovery marker''))"

definition EnsureFederatedIdentityCredential ::
  "'w armSDK \<Rightarrow> 'w RecoveryManager \<Rightarrow> WorkloadIdentityRecovery \<Rightarrow> WorkloadIdentity \<Rightarrow>
     WorkloadIdentityRecoveryPlan option \<Rightarrow> ('w, unit) io" where
  "EnsureFederatedIdentityCredential sdk m recovery identity plan =
     io_try (loadAndValidateRecoveryState sdk m recovery identity plan) (\<lambda>(clients, uami, stage).
       if stage = recoveryStageNotStarted then io_fail recoveryMarkerNotActive
       else with_plan plan (\<lambda>p.
         if stage = recoveryStageInProgress
         then io_try (errorf_wrap ''recover federated identity credential''
                (external (fic_CreateOrUpdate (ic_federatedCredentials clients)
                   (resourceGroupName (ic_scope clients)) (userAssignedIdentityName identity)
                   (FederatedIdentityCredentialName (wis_Azure (wi_Spec identity)))
                   (desiredRecoveryFederatedIdentityCredential p))))
              (\<lambda>_. validateCommittedFederatedIdentityCredential clients identity p
                      ''after recovery repair'')
         else validateCommittedFederatedIdentityCredential clients identity p
                ''after recovery repair''))"

definition Commit ::
  "'w armSDK \<Rightarrow> 'w RecoveryManager \<Rightarrow> WorkloadIdentityRecovery \<Rightarrow> WorkloadIdentity \<Rightarrow>
     WorkloadIdentityRecoveryPlan option \<Rightarrow> ('w, unit) io" where
  "Commit sdk m recovery identity plan =
     io_try (loadAndValidateRecoveryState sdk m recovery identity plan) (\<lambda>(clients, uami, stage).
       if stage = recoveryStageNotStarted then io_fail recoveryMarkerNotActive
       else with_plan plan (\<lambda>p.
         io_try (validateCommittedFederatedIdentityCredential clients identity p
                   ''before recovery commit'') (\<lambda>_.
           if stage = recoveryStageCommittedFenced \<or> stage = recoveryStageComplete
           then io_return ()
           else io_try (errorf_wrap ''commit user assigned identity recovery''
                  (updateRecoveryTags clients identity
                     (mergeTags (id_Tags uami)
                        (fmupd workloadIdentityUIDTag (Some (wi_UID identity))
                          (fmupd workloadIdentityLastRecoveryUIDTag (Some (r_UID recovery)) fmempty)))))
                (\<lambda>_. io_try (verifyRecoveryStage clients recovery identity plan
                               recoveryStageCommittedFenced
                               ''verify user assigned identity recovery commit'')
                        (\<lambda>_. validateCommittedFederatedIdentityCredential clients identity p
                                ''after recovery commit'')))))"

definition Finalize ::
  "'w armSDK \<Rightarrow> 'w RecoveryManager \<Rightarrow> WorkloadIdentityRecovery \<Rightarrow> WorkloadIdentity \<Rightarrow>
     WorkloadIdentityRecoveryPlan option \<Rightarrow> ('w, unit) io" where
  "Finalize sdk m recovery identity plan =
     io_try (loadAndValidateRecoveryState sdk m recovery identity plan) (\<lambda>(clients, uami, stage).
       if stage \<noteq> recoveryStageCommittedFenced \<and> stage \<noteq> recoveryStageComplete
       then io_fail (NewRecoveryBlockedError recoveryReasonRecoveryMarkerConflict
              ''UserAssignedIdentity ownership is not committed'')
       else with_plan plan (\<lambda>p.
         io_try (validateCommittedFederatedIdentityCredential clients identity p
                   ''before recovery finalization'') (\<lambda>_.
           if stage = recoveryStageComplete then io_return ()
           else io_try (errorf_wrap ''finalize user assigned identity recovery''
                  (updateRecoveryTags clients identity
                     (fmdrop workloadIdentityRecoveryTargetUIDTag
                        (fmdrop workloadIdentityRecoveryUIDTag
                           (mergeTags (id_Tags uami) fmempty)))))
                (\<lambda>_. io_try (verifyRecoveryStage clients recovery identity plan
                               recoveryStageComplete
                               ''verify user assigned identity recovery finalization'')
                        (\<lambda>_. validateCommittedFederatedIdentityCredential clients identity p
                                ''after recovery finalization'')))))"

end
