(* ===== verification/Arm_Store.thy ===== *)
theory Arm_Store
  imports Azure_Recovery
begin

text \<open>
  The Azure Resource Manager as the identity clients rely on it.  \<open>arm_state\<close> is the part of
  Azure the clients can see: the managed identities and, under each, its federated
  credentials.  \<open>arm_laws view c\<close> is the documented behaviour of the clients over any world
  with a view on such a state: reads report what is stored and change nothing, a write that
  succeeds is applied to the addressed resource alone, and a write that fails was applied
  fully or not at all.  Resource groups and identities are keyed by their names as written and IDs are echoed as
  written: Azure ignores case in both, so the laws describe installations that spell each name in one way.
  \<open>arm_available\<close> says in addition that no call fails for a reason of
  its own.  \<open>mem_clients\<close> is an in-memory instance of both, for the witnesses.
\<close>

section \<open>State and laws\<close>

type_synonym arm_key = "string \<times> string"

record arm_state =
  identities :: "arm_key \<Rightarrow> Identity option"
  credentials :: "arm_key \<Rightarrow> FederatedIdentityCredential list"

definition set_tags :: "arm_key \<Rightarrow> tags \<Rightarrow> arm_state \<Rightarrow> arm_state" where
  "set_tags k t s = s\<lparr>identities := (identities s)
     (k := map_option (\<lambda>i. i\<lparr>id_Tags := t\<rparr>) (identities s k))\<rparr>"

definition put_identity :: "arm_key \<Rightarrow> Identity \<Rightarrow> arm_state \<Rightarrow> arm_state" where
  "put_identity k i s = s\<lparr>identities := (identities s)(k := Some i)\<rparr>"

definition drop_identity :: "arm_key \<Rightarrow> arm_state \<Rightarrow> arm_state" where
  "drop_identity k s = s\<lparr>identities := (identities s)(k := None),
     credentials := (credentials s)(k := [])\<rparr>"

definition named :: "string \<Rightarrow> FederatedIdentityCredential \<Rightarrow> bool" where
  "named n f \<longleftrightarrow> equal_fold (stringValue (fic_Name f)) n"

text \<open>Credentials are addressed by name without regard to case.\<close>

definition put_credential ::
  "arm_key \<Rightarrow> FederatedIdentityCredential \<Rightarrow> arm_state \<Rightarrow> arm_state" where
  "put_credential k f s = s\<lparr>credentials := (credentials s)
     (k := f # filter (\<lambda>g. \<not> named (stringValue (fic_Name f)) g) (credentials s k))\<rparr>"

text \<open>
  \<open>reads view m P\<close>: the call leaves the view alone and its result satisfies \<open>P\<close>;
  \<open>writes view m P\<close>: \<open>P\<close> relates the view before, the result and the view after.
\<close>

definition reads :: "('w \<Rightarrow> 's) \<Rightarrow> ('w, 'r) state \<Rightarrow> ('s \<Rightarrow> 'r \<Rightarrow> bool) \<Rightarrow> bool" where
  "reads view m P \<longleftrightarrow> (\<forall>w. view (snd (run_state m w)) = view w \<and> P (view w) (fst (run_state m w)))"

definition writes :: "('w \<Rightarrow> 's) \<Rightarrow> ('w, 'r) state \<Rightarrow> ('s \<Rightarrow> 'r \<Rightarrow> 's \<Rightarrow> bool) \<Rightarrow> bool" where
  "writes view m P \<longleftrightarrow> (\<forall>w. P (view w) (fst (run_state m w)) (view (snd (run_state m w))))"

text \<open>\<open>serves view s p cs\<close>: in state \<open>s\<close> the pager \<open>p\<close> delivers the credentials \<open>cs\<close>.\<close>

inductive serves ::
  "('w \<Rightarrow> 's) \<Rightarrow> 's \<Rightarrow> 'w Pager \<Rightarrow> FederatedIdentityCredential list \<Rightarrow> bool"
  for view :: "'w \<Rightarrow> 's" and s :: 's where
  last_page: "serves view s (Pager False m) []"
| next_page:
    "(\<And>w. view w = s \<Longrightarrow> view (snd (run_state m w)) = s) \<Longrightarrow>
     (\<And>w page rest. view w = s \<Longrightarrow> fst (run_state m w) = Inr (page, rest) \<Longrightarrow>
        \<exists>cs'. cs = List.map_filter id page @ cs' \<and> serves view s rest cs') \<Longrightarrow>
     serves view s (Pager True m) cs"

definition identity_laws :: "('w \<Rightarrow> arm_state) \<Rightarrow> 'w userAssignedIdentitiesClient \<Rightarrow> bool" where
  "identity_laws view ids \<longleftrightarrow>
     (\<forall>rg n. reads view (ui_Get ids rg n) (\<lambda>s r. case r of
        Inr i \<Rightarrow> identities s (rg, n) = Some i
      | Inl e \<Rightarrow> isNotFound e \<longrightarrow> identities s (rg, n) = None)) \<and>
     (\<forall>rg n t. writes view (ui_Update ids rg n t) (\<lambda>s r s'. case r of
        Inr i \<Rightarrow> identities s (rg, n) \<noteq> None \<and> s' = set_tags (rg, n) t s
      | Inl e \<Rightarrow> s' = s \<or> s' = set_tags (rg, n) t s)) \<and>
     (\<forall>rg n d. writes view (ui_CreateOrUpdate ids rg n d) (\<lambda>s r s'. case r of
        Inr i \<Rightarrow> id_Tags i = id_Tags d \<and> s' = put_identity (rg, n) i s
      | Inl e \<Rightarrow> s' = s \<or> (\<exists>i. id_Tags i = id_Tags d \<and> s' = put_identity (rg, n) i s))) \<and>
     (\<forall>rg n. writes view (ui_Delete ids rg n) (\<lambda>s r s'. case r of
        Inr u \<Rightarrow> s' = drop_identity (rg, n) s
      | Inl e \<Rightarrow> s' = s \<or> s' = drop_identity (rg, n) s))"

definition credential_laws ::
  "('w \<Rightarrow> arm_state) \<Rightarrow> Scope \<Rightarrow> 'w federatedIdentityCredentialsClient \<Rightarrow> bool" where
  "credential_laws view scope fics \<longleftrightarrow>
     (\<forall>rg n f. reads view (fic_Get fics rg n f) (\<lambda>s r. case r of
        Inr x \<Rightarrow> find (named f) (credentials s (rg, n)) = Some x
      | Inl e \<Rightarrow> isNotFound e \<longrightarrow> find (named f) (credentials s (rg, n)) = None)) \<and>
     (\<forall>rg n f d. writes view (fic_CreateOrUpdate fics rg n f d) (\<lambda>s r s'. case r of
        Inr x \<Rightarrow> fic_Properties x = fic_Properties d \<and> named f x \<and>
           fic_ID x = Some (''/subscriptions/'' @ subscriptionID scope @ ''/resourceGroups/'' @ rg
             @ ''/providers/Microsoft.ManagedIdentity/userAssignedIdentities/'' @ n
             @ ''/federatedIdentityCredentials/'' @ f) \<and>
           s' = put_credential (rg, n) x s
      | Inl e \<Rightarrow> s' = s \<or> (\<exists>x. s' = put_credential (rg, n) x s))) \<and>
     (\<forall>s rg n. serves view s (fic_NewListPager fics rg n) (credentials s (rg, n)))"

definition arm_laws :: "('w \<Rightarrow> arm_state) \<Rightarrow> 'w identityClients \<Rightarrow> bool" where
  "arm_laws view c \<longleftrightarrow>
     identity_laws view (ic_identities c) \<and>
     credential_laws view (ic_scope c) (ic_federatedCredentials c)"

section \<open>Availability\<close>

inductive responsive :: "('w \<Rightarrow> 's) \<Rightarrow> 's \<Rightarrow> 'w Pager \<Rightarrow> bool"
  for view :: "'w \<Rightarrow> 's" and s :: 's where
  responsive_last: "responsive view s (Pager False m)"
| responsive_next:
    "(\<And>w. view w = s \<Longrightarrow> \<exists>page rest. fst (run_state m w) = Inr (page, rest) \<and> responsive view s rest)
       \<Longrightarrow> responsive view s (Pager True m)"

definition succeeds_in :: "('w \<Rightarrow> 's) \<Rightarrow> ('s \<Rightarrow> bool) \<Rightarrow> ('w, 'e + 'a) state \<Rightarrow> bool" where
  "succeeds_in view P m \<longleftrightarrow> (\<forall>w. P (view w) \<longrightarrow> (\<exists>a. fst (run_state m w) = Inr a))"

definition arm_available :: "('w \<Rightarrow> arm_state) \<Rightarrow> 'w identityClients \<Rightarrow> bool" where
  "arm_available view c \<longleftrightarrow>
     (\<forall>rg n. succeeds_in view (\<lambda>s. identities s (rg, n) \<noteq> None) (ui_Get (ic_identities c) rg n)) \<and>
     (\<forall>rg n t. succeeds_in view (\<lambda>s. identities s (rg, n) \<noteq> None)
        (ui_Update (ic_identities c) rg n t)) \<and>
     (\<forall>rg n f. succeeds_in view (\<lambda>s. find (named f) (credentials s (rg, n)) \<noteq> None)
        (fic_Get (ic_federatedCredentials c) rg n f)) \<and>
     (\<forall>rg n f d. succeeds_in view (\<lambda>s. identities s (rg, n) \<noteq> None)
        (fic_CreateOrUpdate (ic_federatedCredentials c) rg n f d)) \<and>
     (\<forall>s rg n. responsive view s (fic_NewListPager (ic_federatedCredentials c) rg n))"

section \<open>Consequences of the laws\<close>

lemma readsD:
  "reads view m P \<Longrightarrow> run_state m w = (r, w') \<Longrightarrow> view w' = view w \<and> P (view w) r"
  by (auto simp: reads_def dest: spec[where x = w])

lemma writesD: "writes view m P \<Longrightarrow> run_state m w = (r, w') \<Longrightarrow> P (view w) r (view w')"
  by (auto simp: writes_def dest: spec[where x = w])

lemma succeeds_inD:
  "succeeds_in view P m \<Longrightarrow> P (view w) \<Longrightarrow> run_state m w = (r, w') \<Longrightarrow> \<exists>a. r = Inr a"
  by (auto simp: succeeds_in_def dest: spec[where x = w])

lemma identities_set_tags [simp]:
  "identities (set_tags k t s) k' =
     (if k' = k then map_option (\<lambda>i. i\<lparr>id_Tags := t\<rparr>) (identities s k) else identities s k')"
  "credentials (set_tags k t s) = credentials s"
  by (simp_all add: set_tags_def)

lemma identities_put_credential [simp]:
  "identities (put_credential k f s) = identities s"
  "credentials (put_credential k f s) k' =
     (if k' = k then f # filter (\<lambda>g. \<not> named (stringValue (fic_Name f)) g) (credentials s k)
      else credentials s k')"
  by (simp_all add: put_credential_def)

lemma list_pages_last [simp]: "list_pages (Pager False m) acc = io_return acc"
  by simp

lemma run_list_pages:
  "run_state (list_pages (Pager True m) acc) w =
     (case run_state m w of
        (Inl e, w') \<Rightarrow> (Inl (WrapError ''list federated identity credentials'' (External e)), w')
      | (Inr (page, rest), w') \<Rightarrow>
          run_state (list_pages rest (acc @ List.map_filter id page)) w')"
  by (auto simp: run_map_state split: prod.splits sum.splits)

lemma in_set_state: "run_state m w = (r, w') \<Longrightarrow> r \<in> set_state m"
  by (rule state.set_sel[of "(r, w')"]) (auto intro: range_eqI[of _ _ w])

lemma list_pages_serves:
  assumes "serves view s p cs" and "view w = s"
  shows "view (snd (run_state (list_pages p acc) w)) = s \<and>
    (\<forall>r. fst (run_state (list_pages p acc) w) = Inr r \<longrightarrow> r = acc @ cs)"
  using assms
proof (induction p arbitrary: cs acc w)
  case (Pager has_more fetch)
  show ?case
  proof (cases has_more)
    case False
    then show ?thesis using Pager.prems by (auto elim: serves.cases)
  next
    case True
    obtain r w1 where run: "run_state fetch w = (r, w1)" by fastforce
    from Pager.prems True have keep: "view w1 = s"
      by (auto elim!: serves.cases simp: run dest: spec[where x = w])
    show ?thesis
    proof (cases r)
      case (Inl e)
      then show ?thesis using True by (simp add: run_list_pages run keep del: list_pages.simps)
    next
      case (Inr pr)
      obtain page rest where pr: "pr = (page, rest)" by fastforce
      obtain cs' where cs': "cs = List.map_filter id page @ cs'" "serves view s rest cs'"
        using Pager.prems True Inr pr run by (auto elim!: serves.cases) (metis fst_conv)
      have IH: "view (snd (run_state (list_pages rest (acc @ List.map_filter id page)) w1)) = s \<and>
        (\<forall>r. fst (run_state (list_pages rest (acc @ List.map_filter id page)) w1) = Inr r
           \<longrightarrow> r = (acc @ List.map_filter id page) @ cs')"
        using Pager.IH[OF in_set_state[OF run], of pr rest cs' w1 "acc @ List.map_filter id page"]
          cs'(2) keep by (simp add: Inr pr)
      then show ?thesis using True cs'(1) by (simp add: run_list_pages run Inr pr del: list_pages.simps)
    qed
  qed
qed

lemma list_pages_responsive:
  assumes "responsive view s p" and "serves view s p cs" and "view w = s"
  shows "\<exists>w'. run_state (list_pages p acc) w = (Inr (acc @ cs), w') \<and> view w' = s"
  using assms
proof (induction arbitrary: cs acc w rule: responsive.induct)
  case (responsive_last m)
  then show ?case by (auto elim: serves.cases)
next
  case (responsive_next m)
  obtain page rest w1 where run: "run_state m w = (Inr (page, rest), w1)"
    and rest: "\<And>cs acc w. serves view s rest cs \<Longrightarrow> view w = s \<Longrightarrow>
      \<exists>w'. run_state (list_pages rest acc) w = (Inr (acc @ cs), w') \<and> view w' = s"
    using responsive_next.IH[OF responsive_next.prems(2)] by (metis prod.collapse)
  have keep: "view w1 = s"
    using responsive_next.prems by (auto elim!: serves.cases simp: run dest: spec[where x = w])
  obtain cs' where cs': "cs = List.map_filter id page @ cs'" "serves view s rest cs'"
    using responsive_next.prems run by (auto elim!: serves.cases) (metis fst_conv)
  show ?case
    using rest[OF cs'(2) keep, of "acc @ List.map_filter id page"]
    by (simp add: run_list_pages run cs'(1) del: list_pages.simps)
qed

lemma arm_get:
  assumes "arm_laws view c" and "run_state (ui_Get (ic_identities c) rg n) w = (r, w')"
  shows "view w' = view w"
    and "r = Inr i \<Longrightarrow> identities (view w) (rg, n) = Some i"
    and "r = Inl e \<Longrightarrow> isNotFound e \<Longrightarrow> identities (view w) (rg, n) = None"
proof -
  have "reads view (ui_Get (ic_identities c) rg n) (\<lambda>s r. case r of
        Inr i \<Rightarrow> identities s (rg, n) = Some i
      | Inl e \<Rightarrow> isNotFound e \<longrightarrow> identities s (rg, n) = None)"
    using assms(1) by (simp add: arm_laws_def identity_laws_def)
  from readsD[OF this assms(2)] show "view w' = view w"
    and "r = Inr i \<Longrightarrow> identities (view w) (rg, n) = Some i"
    and "r = Inl e \<Longrightarrow> isNotFound e \<Longrightarrow> identities (view w) (rg, n) = None"
    by auto
qed

lemma arm_update:
  assumes "arm_laws view c" and "run_state (ui_Update (ic_identities c) rg n t) w = (r, w')"
  shows "r = Inr i \<Longrightarrow> view w' = set_tags (rg, n) t (view w)"
    and "view w' = view w \<or> view w' = set_tags (rg, n) t (view w)"
proof -
  have "writes view (ui_Update (ic_identities c) rg n t) (\<lambda>s r s'. case r of
        Inr i \<Rightarrow> identities s (rg, n) \<noteq> None \<and> s' = set_tags (rg, n) t s
      | Inl e \<Rightarrow> s' = s \<or> s' = set_tags (rg, n) t s)"
    using assms(1) by (simp add: arm_laws_def identity_laws_def)
  from writesD[OF this assms(2)]
  show "r = Inr i \<Longrightarrow> view w' = set_tags (rg, n) t (view w)"
    and "view w' = view w \<or> view w' = set_tags (rg, n) t (view w)"
    by (auto split: sum.splits)
qed

lemma arm_get_credential:
  assumes "arm_laws view c" and "run_state (fic_Get (ic_federatedCredentials c) rg n f) w = (r, w')"
  shows "view w' = view w"
    and "r = Inr x \<Longrightarrow> find (named f) (credentials (view w) (rg, n)) = Some x"
    and "r = Inl e \<Longrightarrow> isNotFound e \<Longrightarrow> find (named f) (credentials (view w) (rg, n)) = None"
proof -
  have "reads view (fic_Get (ic_federatedCredentials c) rg n f) (\<lambda>s r. case r of
        Inr x \<Rightarrow> find (named f) (credentials s (rg, n)) = Some x
      | Inl e \<Rightarrow> isNotFound e \<longrightarrow> find (named f) (credentials s (rg, n)) = None)"
    using assms(1) unfolding arm_laws_def credential_laws_def by blast
  from readsD[OF this assms(2)] show "view w' = view w"
    and "r = Inr x \<Longrightarrow> find (named f) (credentials (view w) (rg, n)) = Some x"
    and "r = Inl e \<Longrightarrow> isNotFound e \<Longrightarrow> find (named f) (credentials (view w) (rg, n)) = None"
    by auto
qed

lemma arm_put_credential:
  assumes "arm_laws view c"
    and "run_state (fic_CreateOrUpdate (ic_federatedCredentials c) rg n f d) w = (r, w')"
  shows "identities (view w') = identities (view w)"
    and "r = Inr x \<Longrightarrow> fic_Properties x = fic_Properties d \<and> named f x \<and>
      fic_ID x = Some (''/subscriptions/'' @ subscriptionID (ic_scope c) @ ''/resourceGroups/'' @ rg
        @ ''/providers/Microsoft.ManagedIdentity/userAssignedIdentities/'' @ n
        @ ''/federatedIdentityCredentials/'' @ f) \<and>
      view w' = put_credential (rg, n) x (view w)"
proof -
  have "writes view (fic_CreateOrUpdate (ic_federatedCredentials c) rg n f d) (\<lambda>s r s'. case r of
        Inr x \<Rightarrow> fic_Properties x = fic_Properties d \<and> named f x \<and>
           fic_ID x = Some (''/subscriptions/'' @ subscriptionID (ic_scope c) @ ''/resourceGroups/'' @ rg
             @ ''/providers/Microsoft.ManagedIdentity/userAssignedIdentities/'' @ n
             @ ''/federatedIdentityCredentials/'' @ f) \<and>
           s' = put_credential (rg, n) x s
      | Inl e \<Rightarrow> s' = s \<or> (\<exists>x. s' = put_credential (rg, n) x s))"
    using assms(1) by (simp add: arm_laws_def credential_laws_def)
  from writesD[OF this assms(2)]
  show "identities (view w') = identities (view w)"
    and "r = Inr x \<Longrightarrow> fic_Properties x = fic_Properties d \<and> named f x \<and>
      fic_ID x = Some (''/subscriptions/'' @ subscriptionID (ic_scope c) @ ''/resourceGroups/'' @ rg
        @ ''/providers/Microsoft.ManagedIdentity/userAssignedIdentities/'' @ n
        @ ''/federatedIdentityCredentials/'' @ f) \<and>
      view w' = put_credential (rg, n) x (view w)"
    by (auto split: sum.splits)
qed

lemma arm_list:
  assumes "arm_laws view c" and "run_state (fic_List (ic_federatedCredentials c) rg n) w = (r, w')"
  shows "view w' = view w" and "r = Inr cs \<Longrightarrow> cs = credentials (view w) (rg, n)"
proof -
  have "serves view (view w) (fic_NewListPager (ic_federatedCredentials c) rg n)
      (credentials (view w) (rg, n))"
    using assms(1) by (simp add: arm_laws_def credential_laws_def)
  from list_pages_serves[OF this refl, of "[]"] assms(2)
  show "view w' = view w" and "r = Inr cs \<Longrightarrow> cs = credentials (view w) (rg, n)"
    by (auto simp: fic_List_def)
qed

section \<open>The laws of an available store, as runs\<close>

lemma available_get:
  assumes "arm_laws view c" and "arm_available view c" and "identities (view w) (rg, n) = Some i"
  obtains w' where "run_state (ui_Get (ic_identities c) rg n) w = (Inr i, w')" and "view w' = view w"
proof -
  obtain r w' where run: "run_state (ui_Get (ic_identities c) rg n) w = (r, w')" by fastforce
  have "succeeds_in view (\<lambda>s. identities s (rg, n) \<noteq> None) (ui_Get (ic_identities c) rg n)"
    using assms(2) by (simp add: arm_available_def)
  then obtain j where "r = Inr j"
    using assms(3) run by (auto simp: succeeds_in_def dest: spec[where x = w])
  with arm_get[OF assms(1) run] assms(3) run that show thesis by auto
qed

lemma available_update:
  assumes "arm_laws view c" and "arm_available view c" and "identities (view w) (rg, n) \<noteq> None"
  obtains j w' where "run_state (ui_Update (ic_identities c) rg n t) w = (Inr j, w')"
    and "view w' = set_tags (rg, n) t (view w)"
proof -
  obtain r w' where run: "run_state (ui_Update (ic_identities c) rg n t) w = (r, w')" by fastforce
  have "succeeds_in view (\<lambda>s. identities s (rg, n) \<noteq> None) (ui_Update (ic_identities c) rg n t)"
    using assms(2) by (simp add: arm_available_def)
  then obtain j where "r = Inr j"
    using assms(3) run by (auto simp: succeeds_in_def dest: spec[where x = w])
  with arm_update[OF assms(1) run] run that show thesis by auto
qed

lemma available_put_credential:
  assumes "arm_laws view c" and "arm_available view c" and "identities (view w) (rg, n) \<noteq> None"
  obtains x w' where
    "run_state (fic_CreateOrUpdate (ic_federatedCredentials c) rg n f d) w = (Inr x, w')"
proof -
  obtain r w' where run:
    "run_state (fic_CreateOrUpdate (ic_federatedCredentials c) rg n f d) w = (r, w')" by fastforce
  have "succeeds_in view (\<lambda>s. identities s (rg, n) \<noteq> None)
      (fic_CreateOrUpdate (ic_federatedCredentials c) rg n f d)"
    using assms(2) by (simp add: arm_available_def)
  then obtain j where "r = Inr j"
    using assms(3) run by (auto simp: succeeds_in_def dest: spec[where x = w])
  with run that show thesis by auto
qed

lemma available_list:
  assumes "arm_laws view c" and "arm_available view c"
  obtains w' where "run_state (fic_List (ic_federatedCredentials c) rg n) w
      = (Inr (credentials (view w) (rg, n)), w')" and "view w' = view w"
proof -
  have "responsive view (view w) (fic_NewListPager (ic_federatedCredentials c) rg n)"
    using assms(2) by (simp add: arm_available_def)
  moreover have "serves view (view w) (fic_NewListPager (ic_federatedCredentials c) rg n)
      (credentials (view w) (rg, n))"
    using assms(1) by (simp add: arm_laws_def credential_laws_def)
  ultimately show thesis
    using list_pages_responsive[of view "view w" _ _ w "[]"] that by (fastforce simp: fic_List_def)
qed

section \<open>An in-memory instance\<close>

definition not_found :: ext_error where
  "not_found = ResponseError 404 ''NotFound''"

lemma isNotFound_not_found [simp]: "isNotFound not_found"
  by (simp add: isNotFound_def not_found_def)

definition mem_identity_id :: "Scope \<Rightarrow> string \<Rightarrow> string \<Rightarrow> string" where
  "mem_identity_id scope rg n =
     ''/subscriptions/'' @ subscriptionID scope @ ''/resourceGroups/'' @ rg
       @ ''/providers/Microsoft.ManagedIdentity/userAssignedIdentities/'' @ n"

definition mem_created :: "Scope \<Rightarrow> string \<Rightarrow> string \<Rightarrow> Identity \<Rightarrow> Identity" where
  "mem_created scope rg n d =
     d\<lparr> id_ID := Some (mem_identity_id scope rg n),
        id_Properties := Some \<lparr> ip_ClientID = Some ''client'', ip_PrincipalID = Some ''principal'',
                                ip_TenantID = Some ''tenant'' \<rparr> \<rparr>"

definition mem_identities :: "Scope \<Rightarrow> arm_state userAssignedIdentitiesClient" where
  "mem_identities scope = \<lparr>
     ui_Get = (\<lambda>rg n. State (\<lambda>s. (case identities s (rg, n) of
        None \<Rightarrow> Inl not_found | Some i \<Rightarrow> Inr i, s))),
     ui_CreateOrUpdate = (\<lambda>rg n d. State (\<lambda>s.
        (Inr (mem_created scope rg n d), put_identity (rg, n) (mem_created scope rg n d) s))),
     ui_Update = (\<lambda>rg n t. State (\<lambda>s. case identities s (rg, n) of
        None \<Rightarrow> (Inl not_found, s) | Some i \<Rightarrow> (Inr (i\<lparr>id_Tags := t\<rparr>), set_tags (rg, n) t s))),
     ui_Delete = (\<lambda>rg n. State (\<lambda>s. (Inr (), drop_identity (rg, n) s))) \<rparr>"

definition mem_stored :: "Scope \<Rightarrow> string \<Rightarrow> string \<Rightarrow> string \<Rightarrow> FederatedIdentityCredential \<Rightarrow>
    FederatedIdentityCredential" where
  "mem_stored scope rg n f d =
     d\<lparr> fic_Name := Some f,
        fic_ID := Some (mem_identity_id scope rg n @ ''/federatedIdentityCredentials/'' @ f) \<rparr>"

definition mem_credentials :: "Scope \<Rightarrow> arm_state federatedIdentityCredentialsClient" where
  "mem_credentials scope = \<lparr>
     fic_Get = (\<lambda>rg n f. State (\<lambda>s. (case find (named f) (credentials s (rg, n)) of
        None \<Rightarrow> Inl not_found | Some x \<Rightarrow> Inr x, s))),
     fic_CreateOrUpdate = (\<lambda>rg n f d. State (\<lambda>s.
        (Inr (mem_stored scope rg n f d), put_credential (rg, n) (mem_stored scope rg n f d) s))),
     fic_NewListPager = (\<lambda>rg n. Pager True (State (\<lambda>s.
        (Inr (map Some (credentials s (rg, n)), Pager False (State (\<lambda>s. (Inl not_found, s)))), s)))) \<rparr>"

definition mem_groups :: "Scope \<Rightarrow> arm_state resourceGroupsClient" where
  "mem_groups scope = \<lparr>
     rg_Get = (\<lambda>rg. State (\<lambda>s. (Inr \<lparr> rg_ID = Some rg, rg_Location = Some (location scope) \<rparr>, s))),
     rg_CreateOrUpdate = (\<lambda>rg d. State (\<lambda>s. (Inr d, s))) \<rparr>"

definition mem_clients :: "Scope \<Rightarrow> arm_state identityClients" where
  "mem_clients scope = \<lparr> ic_scope = scope, ic_resourceGroups = mem_groups scope,
     ic_identities = mem_identities scope, ic_federatedCredentials = mem_credentials scope \<rparr>"

lemma mem_clients_simps [simp]:
  "ic_scope (mem_clients scope) = scope"
  "ic_resourceGroups (mem_clients scope) = mem_groups scope"
  "ic_identities (mem_clients scope) = mem_identities scope"
  "ic_federatedCredentials (mem_clients scope) = mem_credentials scope"
  by (simp_all add: mem_clients_def)

lemma find_named_Some: "find (named f) xs = Some x \<Longrightarrow> x \<in> set xs \<and> named f x"
  by (induction xs) (auto split: if_splits)

lemma find_named_None: "find (named f) xs = None \<Longrightarrow> \<forall>x \<in> set xs. \<not> named f x"
  by (auto simp: find_None_iff)

lemma mem_identity_laws: "identity_laws (\<lambda>s. s) (mem_identities scope)"
  by (auto simp: identity_laws_def reads_def writes_def mem_identities_def mem_created_def
      split: option.splits)

lemma mem_pages: "List.map_filter id (map Some xs) = xs"
  by (induction xs) (simp_all add: List.map_filter_simps)

lemma mem_credential_laws: "credential_laws (\<lambda>s. s) scope (mem_credentials scope)"
proof -
  have "serves (\<lambda>s. s) s (fic_NewListPager (mem_credentials scope) rg n) (credentials s (rg, n))"
    for s rg n
    by (auto simp: mem_credentials_def mem_pages intro!: serves.intros)
  then show ?thesis
    by (auto simp: credential_laws_def reads_def writes_def mem_credentials_def mem_stored_def
        named_def mem_identity_id_def split: option.splits)
qed

lemma mem_arm_laws: "arm_laws (\<lambda>s. s) (mem_clients scope)"
  by (simp add: arm_laws_def mem_identity_laws mem_credential_laws)

lemma mem_arm_available: "arm_available (\<lambda>s. s) (mem_clients scope)"
  by (auto simp: arm_available_def succeeds_in_def mem_identities_def mem_credentials_def
      intro!: responsive.intros split: option.splits)

end
