(* ===== verification/Recovery_Protocol.thy ===== *)
theory Recovery_Protocol
  imports Arm_Store
begin

text \<open>
  What the recovery manager promises, over any Azure store that satisfies \<open>arm_laws\<close>.

  The abstract protocol is the step relation \<open>recovery_step\<close> on the four stages.  The
  operations of Azure\_Recovery refine it: whatever a call returns, and in whatever order calls
  are made, the stage read back from the tags moves along the relation or stays.  The fence
  (the two recovery tags) keeps the ordinary identity manager out while it is set.  In an
  available store the four operations in order take the identity to its successor.
\<close>

section \<open>The abstract machine\<close>

fun stage_rank :: "identityRecoveryStage \<Rightarrow> nat" where
  "stage_rank recoveryStageNotStarted = 0"
| "stage_rank recoveryStageInProgress = 1"
| "stage_rank recoveryStageCommittedFenced = 2"
| "stage_rank recoveryStageComplete = 3"

lemma stage_rank_inj: "stage_rank s = stage_rank s' \<Longrightarrow> s = s'"
  by (cases s; cases s') auto

instantiation identityRecoveryStage :: linorder
begin

definition less_eq_identityRecoveryStage :: "identityRecoveryStage \<Rightarrow> identityRecoveryStage \<Rightarrow> bool"
  where "s \<le> s' \<longleftrightarrow> stage_rank s \<le> stage_rank s'"

definition less_identityRecoveryStage :: "identityRecoveryStage \<Rightarrow> identityRecoveryStage \<Rightarrow> bool"
  where "s < s' \<longleftrightarrow> stage_rank s < stage_rank s'"

instance
  by standard (auto simp: less_eq_identityRecoveryStage_def less_identityRecoveryStage_def
      dest: stage_rank_inj)

end

lemmas stage_order_defs = less_eq_identityRecoveryStage_def less_identityRecoveryStage_def

inductive recovery_step :: "identityRecoveryStage \<Rightarrow> identityRecoveryStage \<Rightarrow> bool" where
  mark: "recovery_step recoveryStageNotStarted recoveryStageInProgress"
| commit: "recovery_step recoveryStageInProgress recoveryStageCommittedFenced"
| finalize: "recovery_step recoveryStageCommittedFenced recoveryStageComplete"

inductive_simps recovery_step_iff: "recovery_step s s'"

lemma recovery_step_less: "recovery_step s s' \<Longrightarrow> s < s'"
  by (auto simp: stage_order_defs recovery_step_iff)

lemma recovery_steps_mono: "recovery_step\<^sup>*\<^sup>* s s' \<Longrightarrow> s \<le> s'"
  by (induction rule: rtranclp_induct) (auto dest: recovery_step_less less_imp_le order_trans)

section \<open>Stages and tags\<close>

text \<open>The object UIDs of a recovery: assigned by the API server, source and target distinct.\<close>

definition recovery_target :: "WorkloadIdentityRecovery \<Rightarrow> WorkloadIdentity \<Rightarrow> bool" where
  "recovery_target r i \<longleftrightarrow> r_UID r \<noteq> '''' \<and> wi_UID i \<noteq> '''' \<and> wi_UID i \<noteq> r_SourceUID r"

abbreviation mark_tags :: "WorkloadIdentityRecovery \<Rightarrow> WorkloadIdentity \<Rightarrow> tags \<Rightarrow> tags" where
  "mark_tags r i t \<equiv> mergeTags t
     (fmupd workloadIdentityRecoveryUIDTag (Some (r_UID r))
       (fmupd workloadIdentityRecoveryTargetUIDTag (Some (wi_UID i)) fmempty))"

abbreviation commit_tags :: "WorkloadIdentityRecovery \<Rightarrow> WorkloadIdentity \<Rightarrow> tags \<Rightarrow> tags" where
  "commit_tags r i t \<equiv> mergeTags t
     (fmupd workloadIdentityUIDTag (Some (wi_UID i))
       (fmupd workloadIdentityLastRecoveryUIDTag (Some (r_UID r)) fmempty))"

abbreviation finalize_tags :: "tags \<Rightarrow> tags" where
  "finalize_tags t \<equiv> fmdrop workloadIdentityRecoveryTargetUIDTag
     (fmdrop workloadIdentityRecoveryUIDTag (mergeTags t fmempty))"

lemma tagValue_mark [simp]:
  "tagValue (mark_tags r i t) k =
     (if k = workloadIdentityRecoveryUIDTag then r_UID r
      else if k = workloadIdentityRecoveryTargetUIDTag then wi_UID i else tagValue t k)"
  by (simp add: tagValue_def)

lemma tagValue_commit [simp]:
  "tagValue (commit_tags r i t) k =
     (if k = workloadIdentityUIDTag then wi_UID i
      else if k = workloadIdentityLastRecoveryUIDTag then r_UID r else tagValue t k)"
  by (simp add: tagValue_def)

lemma stage_NotStarted_iff:
  "recovery_target r i \<Longrightarrow> recoveryStage r i u = Inr recoveryStageNotStarted \<longleftrightarrow>
     tagValue (id_Tags u) workloadIdentityUIDTag = r_SourceUID r \<and> \<not> fenced (id_Tags u)"
  by (auto simp: recoveryStage_def Let_def recovery_target_def fenced_def)

lemma stage_InProgress_iff:
  "recovery_target r i \<Longrightarrow> recoveryStage r i u = Inr recoveryStageInProgress \<longleftrightarrow>
     tagValue (id_Tags u) workloadIdentityUIDTag = r_SourceUID r \<and>
     tagValue (id_Tags u) workloadIdentityRecoveryUIDTag = r_UID r \<and>
     tagValue (id_Tags u) workloadIdentityRecoveryTargetUIDTag = wi_UID i"
  by (auto simp: recoveryStage_def Let_def recovery_target_def fenced_def)

lemma stage_CommittedFenced_iff:
  "recovery_target r i \<Longrightarrow> recoveryStage r i u = Inr recoveryStageCommittedFenced \<longleftrightarrow>
     tagValue (id_Tags u) workloadIdentityUIDTag = wi_UID i \<and>
     tagValue (id_Tags u) workloadIdentityRecoveryUIDTag = r_UID r \<and>
     tagValue (id_Tags u) workloadIdentityRecoveryTargetUIDTag = wi_UID i \<and>
     tagValue (id_Tags u) workloadIdentityLastRecoveryUIDTag = r_UID r"
  by (auto simp: recoveryStage_def Let_def recovery_target_def fenced_def)

lemma stage_Complete_iff:
  "recovery_target r i \<Longrightarrow> recoveryStage r i u = Inr recoveryStageComplete \<longleftrightarrow>
     tagValue (id_Tags u) workloadIdentityUIDTag = wi_UID i \<and> \<not> fenced (id_Tags u) \<and>
     tagValue (id_Tags u) workloadIdentityLastRecoveryUIDTag = r_UID r"
  by (auto simp: recoveryStage_def Let_def recovery_target_def fenced_def)

lemma recoveryStage_Inl:
  "recoveryStage r i u = Inl e \<Longrightarrow>
     RecoveryBlockedReason e = Some recoveryReasonRecoveryMarkerConflict"
  by (auto simp: recoveryStage_def Let_def split: if_splits)

lemmas stage_iffs =
  stage_NotStarted_iff stage_InProgress_iff stage_CommittedFenced_iff stage_Complete_iff

lemma stage_after_mark:
  "recovery_target r i \<Longrightarrow> recoveryStage r i u = Inr recoveryStageNotStarted \<Longrightarrow>
     recoveryStage r i (u\<lparr>id_Tags := mark_tags r i (id_Tags u)\<rparr>) = Inr recoveryStageInProgress"
  by (simp add: stage_iffs)

lemma stage_after_commit:
  "recovery_target r i \<Longrightarrow> recoveryStage r i u = Inr recoveryStageInProgress \<Longrightarrow>
     recoveryStage r i (u\<lparr>id_Tags := commit_tags r i (id_Tags u)\<rparr>) = Inr recoveryStageCommittedFenced"
  by (simp add: stage_iffs)

lemma stage_after_finalize:
  "recovery_target r i \<Longrightarrow> recoveryStage r i u = Inr recoveryStageCommittedFenced \<Longrightarrow>
     recoveryStage r i (u\<lparr>id_Tags := finalize_tags (id_Tags u)\<rparr>) = Inr recoveryStageComplete"
  by (simp add: stage_iffs fenced_def)

section \<open>Runs of the common prefix\<close>

definition identity_key :: "'w identityClients \<Rightarrow> WorkloadIdentity \<Rightarrow> arm_key" where
  "identity_key c i = (resourceGroupName (ic_scope c), userAssignedIdentityName i)"

definition recoverable :: "Scope \<Rightarrow> WorkloadIdentity \<Rightarrow> Identity \<Rightarrow> bool" where
  "recoverable scope i u \<longleftrightarrow>
     equal_fold (stringValue (id_ID u)) (desiredUserAssignedIdentityID scope i) \<and>
     tag_pointer (id_Tags u) workloadIdentityKeyTag
       = Some (LogicalIdentityKey (wi_namespace i) (wi_name i)) \<and>
     operator_tags (id_Tags u) (tagValue (id_Tags u) workloadIdentityUIDTag) \<and>
     identity_property ip_ClientID u \<noteq> '''' \<and> identity_property ip_PrincipalID u \<noteq> '''' \<and>
     identity_property ip_TenantID u \<noteq> ''''"

lemma recoverable_properties: "recoverable scope i u \<Longrightarrow> id_Properties u \<noteq> None"
  by (auto simp: recoverable_def identity_property_def split: option.splits)

lemma run_getRecovery:
  assumes "run_state (ui_Get (ic_identities c) (resourceGroupName (ic_scope c))
      (userAssignedIdentityName i)) w = (r, w')"
  shows "snd (run_state (getRecoveryUserAssignedIdentity c i) w) = w'"
    and "fst (run_state (getRecoveryUserAssignedIdentity c i) w) = Inr u \<longleftrightarrow>
      r = Inr u \<and> recoverable (ic_scope c) i u"
  using assms by (auto simp: getRecoveryUserAssignedIdentity_def Let_def recoverable_def
      hasTags_identity_tags identity_property_def split: sum.splits option.splits)

lemma getRecovery_InrD:
  assumes "run_state (getRecoveryUserAssignedIdentity c i) w = (Inr u, w')"
  shows "run_state (ui_Get (ic_identities c) (resourceGroupName (ic_scope c))
      (userAssignedIdentityName i)) w = (Inr u, w') \<and> recoverable (ic_scope c) i u"
proof -
  obtain r w1 where get: "run_state (ui_Get (ic_identities c) (resourceGroupName (ic_scope c))
      (userAssignedIdentityName i)) w = (r, w1)" by fastforce
  from run_getRecovery(1)[OF get] run_getRecovery(2)[OF get, of u] assms get show ?thesis by simp
qed

lemma getRecovery_view:
  assumes "arm_laws view c"
  shows "view (snd (run_state (getRecoveryUserAssignedIdentity c i) w)) = view w"
proof -
  obtain r w1 where get: "run_state (ui_Get (ic_identities c) (resourceGroupName (ic_scope c))
      (userAssignedIdentityName i)) w = (r, w1)" by fastforce
  with arm_get(1)[OF assms get] run_getRecovery(1)[OF get] show ?thesis by simp
qed

lemma load_view:
  assumes "recovery_clients sdk m = Inr c" and "arm_laws view c"
  shows "view (snd (run_state (loadAndValidateRecoveryState sdk m r i plan) w)) = view w"
proof -
  obtain x w1 where run: "run_state (getRecoveryUserAssignedIdentity c i) w = (x, w1)" by fastforce
  have "view w1 = view w" using getRecovery_view[OF assms(2), of i w] run by simp
  then show ?thesis
    by (simp add: loadAndValidateRecoveryState_def run_simps assms(1) run split: sum.splits option.splits)
qed

lemma load_InrD:
  assumes "run_state (loadAndValidateRecoveryState sdk m r i plan) w = (Inr (c, u, s), w')"
  shows "recovery_clients sdk m = Inr c"
    and "run_state (getRecoveryUserAssignedIdentity c i) w = (Inr u, w')"
    and "recoveryStage r i u = Inr s" and "validateRecoveryIdentityPlan u plan = None"
  using assms unfolding loadAndValidateRecoveryState_def
  by (auto elim!: io_try_InrE split: option.splits)

lemma plan_present: "validateRecoveryIdentityPlan u plan = None \<Longrightarrow> \<exists>p. plan = Some p"
  by (auto simp: validateRecoveryIdentityPlan_def split: option.splits)

section \<open>What each operation does to the store\<close>

lemma preserves_view_get:
  "arm_laws view c \<Longrightarrow> preserves (\<lambda>w. view w = v) (getRecoveryUserAssignedIdentity c i)"
  by (simp add: preserves_def getRecovery_view)

lemma preserves_view_verify:
  "arm_laws view c \<Longrightarrow> preserves (\<lambda>w. view w = v) (verifyRecoveryStage c r i plan s op)"
  unfolding verifyRecoveryStage_def
  by (intro preserves_intros preserves_view_get) auto

lemma preserves_view_list:
  "arm_laws view c \<Longrightarrow> preserves (\<lambda>w. view w = v) (fic_List (ic_federatedCredentials c) rg n)"
  unfolding preserves_def by (metis arm_list(1) prod.collapse)

lemma preserves_view_committed:
  "arm_laws view c \<Longrightarrow>
     preserves (\<lambda>w. view w = v) (validateCommittedFederatedIdentityCredential c i p op)"
  unfolding validateCommittedFederatedIdentityCredential_def
  by (intro preserves_intros preserves_view_list) auto

lemma preserves_snd: "preserves (\<lambda>w. view w = view w0) m \<Longrightarrow> view w = view w0 \<Longrightarrow>
    view (snd (run_state m w)) = view w0"
  by (simp add: preserves_def)

definition exact_credentials ::
  "'w identityClients \<Rightarrow> WorkloadIdentity \<Rightarrow> WorkloadIdentityRecoveryPlan \<Rightarrow>
     FederatedIdentityCredential list \<Rightarrow> bool" where
  "exact_credentials c i p cs \<longleftrightarrow>
     validateExactFederatedIdentityCredentialSet cs
       (FederatedIdentityCredentialName (wis_Azure (wi_Spec i)))
       (desiredFederatedIdentityCredentialID (ic_scope c) i)
       (desiredRecoveryFederatedIdentityCredential p) = None"

lemma committed_InrD:
  assumes "arm_laws view c"
    and "run_state (validateCommittedFederatedIdentityCredential c i p op) w = (Inr u, w')"
  shows "exact_credentials c i p (credentials (view w) (identity_key c i)) \<and> view w' = view w"
proof -
  obtain cs w1 where list: "run_state (fic_List (ic_federatedCredentials c)
      (resourceGroupName (ic_scope c)) (userAssignedIdentityName i)) w = (Inr cs, w1)"
    and "exact_credentials c i p cs" and "w' = w1"
    using assms(2) unfolding validateCommittedFederatedIdentityCredential_def errorf_wrap_def
    by (auto elim!: io_try_InrE io_map_err_InrE simp: exact_credentials_def split: option.splits)
  with arm_list[OF assms(1) list] show ?thesis by (auto simp: identity_key_def)
qed

lemma update_tags:
  assumes "arm_laws view c" and "run_state (updateRecoveryTags c i t) w = (res, w')"
  shows "view w' = view w \<or> view w' = set_tags (identity_key c i) t (view w)"
    and "res = Inr x \<Longrightarrow> view w' = set_tags (identity_key c i) t (view w)"
proof -
  obtain q w1 where run: "run_state (ui_Update (ic_identities c) (resourceGroupName (ic_scope c))
      (userAssignedIdentityName i) t) w = (q, w1)" by fastforce
  with assms(2) have "w' = w1" "\<And>x. res = Inr x \<Longrightarrow> \<exists>j. q = Inr j"
    by (auto simp: updateRecoveryTags_def run_simps split: sum.splits)
  with arm_update[OF assms(1) run]
  show "view w' = view w \<or> view w' = set_tags (identity_key c i) t (view w)"
    and "res = Inr x \<Longrightarrow> view w' = set_tags (identity_key c i) t (view w)"
    by (auto simp: identity_key_def)
qed

text \<open>The identity an operation has loaded is the stored one.\<close>

lemma load_stored:
  assumes "recovery_clients sdk m = Inr c" and "arm_laws view c"
    and "run_state (loadAndValidateRecoveryState sdk m r i plan) w = (Inr (c', u, s), w')"
  shows "c' = c \<and> view w' = view w \<and> identities (view w) (identity_key c i) = Some u \<and>
    recoverable (ic_scope c) i u \<and> recoveryStage r i u = Inr s \<and> (\<exists>p. plan = Some p)"
proof -
  note load = load_InrD[OF assms(3)]
  from load(1) assms(1) have c: "c' = c" by simp
  note get = conjunct1[OF getRecovery_InrD[OF load(2)[unfolded c]]]
  have "identities (view w) (identity_key c i) = Some u"
    using arm_get(2)[OF assms(2) get] by (simp add: identity_key_def)
  then show ?thesis
    using c load(3) plan_present[OF load(4)] getRecovery_InrD[OF load(2)[unfolded c]]
      arm_get(1)[OF assms(2) get] by simp
qed

text \<open>
  \<open>tag_write r i s f v v'\<close>: the identity was in stage \<open>s\<close> and its tags, and nothing else,
  were rewritten by \<open>f\<close>.
\<close>

definition tag_write ::
  "WorkloadIdentityRecovery \<Rightarrow> WorkloadIdentity \<Rightarrow> arm_key \<Rightarrow> identityRecoveryStage \<Rightarrow>
     (tags \<Rightarrow> tags) \<Rightarrow> arm_state \<Rightarrow> arm_state \<Rightarrow> bool" where
  "tag_write r i k s f v v' \<longleftrightarrow>
     (\<exists>u. identities v k = Some u \<and> recoveryStage r i u = Inr s \<and>
          v' = set_tags k (f (id_Tags u)) v)"

text \<open>A tag write followed by calls that only read.\<close>

lemma write_then_read:
  assumes "arm_laws view c"
    and "run_state (io_try (errorf_wrap op (updateRecoveryTags c i t)) k) w = (res, w')"
    and "\<And>v x. preserves (\<lambda>w. view w = v) (k x)"
  shows "view w' = view w \<or> view w' = set_tags (identity_key c i) t (view w)"
proof -
  obtain q w2 where upd: "run_state (updateRecoveryTags c i t) w = (q, w2)" by fastforce
  have "view w' = view w2"
  proof (cases q)
    case (Inl e)
    then show ?thesis using assms(2) upd by (simp add: run_simps)
  next
    case (Inr x)
    then have "run_state (k x) w2 = (res, w')" using assms(2) upd by (simp add: run_simps)
    then show ?thesis using preservesD[OF assms(3)[of "view w2" x] refl] by blast
  qed
  with update_tags(1)[OF assms(1) upd] show ?thesis by simp
qed

text \<open>An operation that starts with the common prefix, by the outcome of the prefix.\<close>

lemma after_load:
  assumes "recovery_clients sdk m = Inr c" and "arm_laws view c"
    and "run_state (io_try (loadAndValidateRecoveryState sdk m r i plan) k) w = (res, w')"
  obtains (failed) "view w' = view w" and "\<exists>e. res = Inl e"
    | (loaded) u s p w1 where "view w1 = view w"
        and "identities (view w) (identity_key c i) = Some u" and "recoverable (ic_scope c) i u"
        and "recoveryStage r i u = Inr s" and "plan = Some p"
        and "run_state (k (c, u, s)) w1 = (res, w')"
proof -
  obtain x w1 where load: "run_state (loadAndValidateRecoveryState sdk m r i plan) w = (x, w1)"
    by fastforce
  show thesis
  proof (cases x)
    case (Inl e)
    then show thesis
      using assms(3) load_view[OF assms(1,2), of r i plan w] load
      by (intro failed) (auto simp: run_io_try)
  next
    case (Inr y)
    obtain u s where x: "x = Inr (c, u, s)"
      using Inr load_stored[OF assms(1,2)] load by (cases y) auto
    then show thesis
      using load_stored[OF assms(1,2) load[unfolded x]] load assms(3) loaded
      by (auto simp: run_io_try)
  qed
qed

lemma MarkInProgress_effect:
  assumes "recovery_clients sdk m = Inr c" and "arm_laws view c"
    and "run_state (MarkInProgress sdk m r i plan) w = (res, w')"
  shows "view w' = view w \<or>
    tag_write r i (identity_key c i) recoveryStageNotStarted (mark_tags r i) (view w) (view w')"
  using assms(3) unfolding MarkInProgress_def
proof (cases rule: after_load[OF assms(1,2), consumes 1, case_names failed loaded])
  case (loaded u s p w1)
  then show ?thesis
    using write_then_read[OF assms(2) _ preserves_view_verify[OF assms(2)]]
    by (fastforce simp: tag_write_def split: if_splits)
qed simp

lemma EnsureFederatedIdentityCredential_effect:
  assumes "recovery_clients sdk m = Inr c" and "arm_laws view c"
    and "run_state (EnsureFederatedIdentityCredential sdk m r i plan) w = (res, w')"
  shows "identities (view w') = identities (view w)"
  using assms(3) unfolding EnsureFederatedIdentityCredential_def
proof (cases rule: after_load[OF assms(1,2), consumes 1, case_names failed loaded])
  case (loaded u s p w1)
  define put where "put = fic_CreateOrUpdate (ic_federatedCredentials c)
    (resourceGroupName (ic_scope c)) (userAssignedIdentityName i)
    (FederatedIdentityCredentialName (wis_Azure (wi_Spec i)))
    (desiredRecoveryFederatedIdentityCredential p)"
  obtain q w2 where upd: "run_state put w1 = (q, w2)" by fastforce
  have put_view: "identities (view w2) = identities (view w1)"
    using arm_put_credential(1)[OF assms(2) upd[unfolded put_def]] .
  have check: "view w' = view w3" if "run_state (validateCommittedFederatedIdentityCredential c i p
      ''after recovery repair'') w3 = (res, w')" for w3
    using preservesD[OF preserves_view_committed[OF assms(2)] refl that] .
  from loaded upd put_view check[of w1] check[of w2] show ?thesis
    by (auto simp: with_plan_def put_def[symmetric] run_simps split: if_splits sum.splits)
qed simp

lemma Commit_effect:
  assumes "recovery_clients sdk m = Inr c" and "arm_laws view c"
    and "run_state (Commit sdk m r i (Some p)) w = (res, w')"
  shows "view w' = view w \<or>
    (exact_credentials c i p (credentials (view w) (identity_key c i)) \<and>
     tag_write r i (identity_key c i) recoveryStageInProgress (commit_tags r i) (view w) (view w'))"
  using assms(3) unfolding Commit_def
proof (cases rule: after_load[OF assms(1,2), consumes 1, case_names failed loaded])
  case (loaded u s p' w1)
  show ?thesis
  proof (cases "s = recoveryStageNotStarted")
    case False
    obtain q w2 where chk: "run_state (validateCommittedFederatedIdentityCredential c i p
        ''before recovery commit'') w1 = (q, w2)" by fastforce
    have w2: "view w2 = view w1"
      using preservesD[OF preserves_view_committed[OF assms(2)] refl chk] .
    show ?thesis
    proof (cases q)
      case (Inl e)
      then show ?thesis using loaded w2 chk False by (simp add: with_plan_def run_io_try)
    next
      case (Inr x)
      note exact = committed_InrD[OF assms(2) chk[unfolded Inr]]
      show ?thesis
      proof (cases "s = recoveryStageInProgress")
        case True
        have "view w' = view w2 \<or> view w' = set_tags (identity_key c i) (commit_tags r i (id_Tags u)) (view w2)"
          by (rule write_then_read[OF assms(2)])
            (use loaded True chk Inr in \<open>auto simp: with_plan_def run_io_try
               intro!: preserves_intros preserves_view_verify preserves_view_committed assms(2)\<close>)
        then show ?thesis using exact loaded True w2 by (auto simp: tag_write_def)
      next
        case False2: False
        then show ?thesis using loaded w2 chk Inr False
          by (cases s) (simp_all add: with_plan_def run_io_try)
      qed
    qed
  qed (use loaded in simp)
qed simp

lemma Finalize_effect:
  assumes "recovery_clients sdk m = Inr c" and "arm_laws view c"
    and "run_state (Finalize sdk m r i (Some p)) w = (res, w')"
  shows "view w' = view w \<or>
    (exact_credentials c i p (credentials (view w) (identity_key c i)) \<and>
     tag_write r i (identity_key c i) recoveryStageCommittedFenced finalize_tags (view w) (view w'))"
  using assms(3) unfolding Finalize_def
proof (cases rule: after_load[OF assms(1,2), consumes 1, case_names failed loaded])
  case (loaded u s p' w1)
  obtain q w2 where chk: "run_state (validateCommittedFederatedIdentityCredential c i p
      ''before recovery finalization'') w1 = (q, w2)" by fastforce
  have w2: "view w2 = view w1"
    using preservesD[OF preserves_view_committed[OF assms(2)] refl chk] .
  consider (early) "s \<noteq> recoveryStageCommittedFenced" | (bad) e where "q = Inl e"
    | (go) "s = recoveryStageCommittedFenced" "q = Inr ()" by (cases q) auto
  then show ?thesis
  proof cases
    case early
    then show ?thesis using loaded w2 chk
      by (cases s; cases q) (auto simp: with_plan_def run_io_try)
  next
    case bad
    then show ?thesis using loaded w2 chk
      by (cases s) (auto simp: with_plan_def run_io_try)
  next
    case go
    note exact = committed_InrD[OF assms(2) chk[unfolded go(2)]]
    have "view w' = view w2 \<or> view w' = set_tags (identity_key c i) (finalize_tags (id_Tags u)) (view w2)"
      by (rule write_then_read[OF assms(2)])
        (use loaded go chk in \<open>auto simp: with_plan_def run_io_try
           intro!: preserves_intros preserves_view_verify preserves_view_committed assms(2)\<close>)
    then show ?thesis using exact loaded go w2 by (auto simp: tag_write_def)
  qed
qed simp

section \<open>Refinement of the abstract machine\<close>

definition view_stage ::
  "WorkloadIdentityRecovery \<Rightarrow> WorkloadIdentity \<Rightarrow> arm_key \<Rightarrow> arm_state \<Rightarrow> identityRecoveryStage option"
where
  "view_stage r i k v =
     (case identities v k of None \<Rightarrow> None
      | Some u \<Rightarrow> (case recoveryStage r i u of Inl e \<Rightarrow> None | Inr s \<Rightarrow> Some s))"

datatype recovery_op = OpMark | OpEnsure | OpCommit | OpFinalize

fun recovery_operation ::
  "'w armSDK \<Rightarrow> 'w RecoveryManager \<Rightarrow> WorkloadIdentityRecovery \<Rightarrow> WorkloadIdentity \<Rightarrow>
     WorkloadIdentityRecoveryPlan option \<Rightarrow> recovery_op \<Rightarrow> ('w, unit) io" where
  "recovery_operation sdk m r i plan OpMark = MarkInProgress sdk m r i plan"
| "recovery_operation sdk m r i plan OpEnsure = EnsureFederatedIdentityCredential sdk m r i plan"
| "recovery_operation sdk m r i plan OpCommit = Commit sdk m r i plan"
| "recovery_operation sdk m r i plan OpFinalize = Finalize sdk m r i plan"

text \<open>Any sequence of calls, each result ignored: retries, crashes and reordering.\<close>

primrec run_operations ::
  "'w armSDK \<Rightarrow> 'w RecoveryManager \<Rightarrow> WorkloadIdentityRecovery \<Rightarrow> WorkloadIdentity \<Rightarrow>
     WorkloadIdentityRecoveryPlan option \<Rightarrow> recovery_op list \<Rightarrow> 'w \<Rightarrow> 'w" where
  "run_operations sdk m r i plan [] w = w"
| "run_operations sdk m r i plan (op # ops) w =
     run_operations sdk m r i plan ops (snd (run_state (recovery_operation sdk m r i plan op) w))"

text \<open>A tag write that is a step of the machine.\<close>

definition stage_write ::
  "WorkloadIdentityRecovery \<Rightarrow> WorkloadIdentity \<Rightarrow> arm_key \<Rightarrow> arm_state \<Rightarrow> arm_state \<Rightarrow> bool" where
  "stage_write r i k v v' \<longleftrightarrow>
     (\<exists>s s' f. recovery_step s s' \<and> tag_write r i k s f v v' \<and>
       (\<forall>u. recoveryStage r i u = Inr s \<longrightarrow>
          recoveryStage r i (u\<lparr>id_Tags := f (id_Tags u)\<rparr>) = Inr s'))"

lemma stage_writeI:
  "recovery_target r i \<Longrightarrow> tag_write r i k recoveryStageNotStarted (mark_tags r i) v v' \<Longrightarrow>
     stage_write r i k v v'"
  "recovery_target r i \<Longrightarrow> tag_write r i k recoveryStageInProgress (commit_tags r i) v v' \<Longrightarrow>
     stage_write r i k v v'"
  "recovery_target r i \<Longrightarrow> tag_write r i k recoveryStageCommittedFenced finalize_tags v v' \<Longrightarrow>
     stage_write r i k v v'"
  unfolding stage_write_def
  by (blast intro: recovery_step.intros stage_after_mark stage_after_commit stage_after_finalize)+

lemma stage_writeD:
  assumes "stage_write r i k v v'"
  shows "\<exists>s s'. recovery_step s s' \<and> view_stage r i k v = Some s \<and> view_stage r i k v' = Some s'"
    and "k' \<noteq> k \<Longrightarrow> identities v' k' = identities v k'"
  using assms by (auto simp: stage_write_def tag_write_def view_stage_def)

lemma no_plan_effect:
  assumes "recovery_clients sdk m = Inr c" and "arm_laws view c"
    and "run_state (recovery_operation sdk m r i None op) w = (res, w')"
  shows "view w' = view w"
proof -
  have *: "view w' = view w"
    if "run_state (io_try (loadAndValidateRecoveryState sdk m r i None) k) w = (res, w')" for k
    using that
    by (cases rule: after_load[OF assms(1,2)]) auto
  from assms(3) show ?thesis
    by (cases op) (auto simp: MarkInProgress_def EnsureFederatedIdentityCredential_def Commit_def
        Finalize_def dest: *)
qed

lemma operation_effect:
  assumes "recovery_clients sdk m = Inr c" and "arm_laws view c" and "recovery_target r i"
    and "run_state (recovery_operation sdk m r i plan op) w = (res, w')"
  shows "identities (view w') = identities (view w) \<or>
    stage_write r i (identity_key c i) (view w) (view w')"
proof (cases plan)
  case None
  then show ?thesis using no_plan_effect[OF assms(1,2)] assms(4) by auto
next
  case (Some p)
  note steps = stage_writeI[OF assms(3)]
  show ?thesis
  proof (cases op)
    case OpMark
    with assms(4) show ?thesis
      using MarkInProgress_effect[OF assms(1,2), of r i plan w res w'] steps(1) by fastforce
  next
    case OpEnsure
    with assms(4) show ?thesis
      using EnsureFederatedIdentityCredential_effect[OF assms(1,2), of r i plan w res w'] by simp
  next
    case OpCommit
    with assms(4) Some have "run_state (Commit sdk m r i (Some p)) w = (res, w')" by simp
    from Commit_effect[OF assms(1,2) this] steps(2) show ?thesis by metis
  next
    case OpFinalize
    with assms(4) Some have "run_state (Finalize sdk m r i (Some p)) w = (res, w')" by simp
    from Finalize_effect[OF assms(1,2) this] steps(3) show ?thesis by metis
  qed
qed

lemma operation_stage:
  assumes "recovery_clients sdk m = Inr c" and "arm_laws view c" and "recovery_target r i"
    and "run_state (recovery_operation sdk m r i plan op) w = (res, w')"
  shows "view_stage r i (identity_key c i) (view w') = view_stage r i (identity_key c i) (view w) \<or>
      (\<exists>s s'. recovery_step s s' \<and> view_stage r i (identity_key c i) (view w) = Some s \<and>
          view_stage r i (identity_key c i) (view w') = Some s')"
    and "k \<noteq> identity_key c i \<Longrightarrow> identities (view w') k = identities (view w) k"
proof -
  from operation_effect[OF assms]
  show "view_stage r i (identity_key c i) (view w') = view_stage r i (identity_key c i) (view w) \<or>
      (\<exists>s s'. recovery_step s s' \<and> view_stage r i (identity_key c i) (view w) = Some s \<and>
          view_stage r i (identity_key c i) (view w') = Some s')"
    using stage_writeD(1) by (metis view_stage_def)
  from operation_effect[OF assms]
  show "k \<noteq> identity_key c i \<Longrightarrow> identities (view w') k = identities (view w) k"
    using stage_writeD(2) by metis
qed

section \<open>Success of an operation\<close>

lemma verify_InrD:
  assumes "arm_laws view c" and "run_state (verifyRecoveryStage c r i plan s op) w = (Inr x, w')"
  shows "view_stage r i (identity_key c i) (view w) = Some s \<and> view w' = view w"
proof -
  obtain u w1 where get: "run_state (getRecoveryUserAssignedIdentity c i) w = (Inr u, w1)"
    and s: "recoveryStage r i u = Inr s" and "w' = w1"
    using assms(2) unfolding verifyRecoveryStage_def errorf_wrap_def
    by (auto elim!: io_try_InrE io_map_err_InrE split: option.splits if_splits)
  have "identities (view w) (identity_key c i) = Some u" "view w1 = view w"
    using arm_get[OF assms(1) conjunct1[OF getRecovery_InrD[OF get]]] by (simp_all add: identity_key_def)
  with s \<open>w' = w1\<close> show ?thesis by (simp add: view_stage_def)
qed

lemma Commit_InrD:
  assumes "recovery_clients sdk m = Inr c" and "arm_laws view c"
    and "run_state (Commit sdk m r i (Some p)) w = (Inr x, w')"
  shows "(view_stage r i (identity_key c i) (view w') = Some recoveryStageCommittedFenced \<or>
      view_stage r i (identity_key c i) (view w') = Some recoveryStageComplete) \<and>
    exact_credentials c i p (credentials (view w') (identity_key c i))"
  using assms(3) unfolding Commit_def
proof (cases rule: after_load[OF assms(1,2), consumes 1, case_names failed loaded])
  case (loaded u s p' w1)
  have st: "view_stage r i (identity_key c i) (view w1) = Some s"
    using loaded by (simp add: view_stage_def)
  obtain y w2 where chk: "run_state (validateCommittedFederatedIdentityCredential c i p
        ''before recovery commit'') w1 = (Inr y, w2)" and "s \<noteq> recoveryStageNotStarted"
    using loaded by (auto simp: with_plan_def elim!: io_try_InrE split: if_splits)
  note exact = committed_InrD[OF assms(2) chk]
  show ?thesis
  proof (cases "s = recoveryStageInProgress")
    case True
    with loaded chk obtain w3 w4 y z where
      "run_state (verifyRecoveryStage c r i (Some p) recoveryStageCommittedFenced
         ''verify user assigned identity recovery commit'') w3 = (Inr z, w4)"
      "run_state (validateCommittedFederatedIdentityCredential c i p ''after recovery commit'') w4
         = (Inr y, w')"
      by (auto simp: with_plan_def run_io_try_Inr elim!: io_try_InrE)
    with verify_InrD[OF assms(2)] committed_InrD[OF assms(2)] show ?thesis by fastforce
  next
    case False
    then show ?thesis
      using loaded st exact chk \<open>s \<noteq> recoveryStageNotStarted\<close>
      by (cases s) (auto simp: with_plan_def run_io_try_Inr)
  qed
qed simp

lemma Finalize_InrD:
  assumes "recovery_clients sdk m = Inr c" and "arm_laws view c"
    and "run_state (Finalize sdk m r i (Some p)) w = (Inr x, w')"
  shows "view_stage r i (identity_key c i) (view w') = Some recoveryStageComplete \<and>
    exact_credentials c i p (credentials (view w') (identity_key c i))"
  using assms(3) unfolding Finalize_def
proof (cases rule: after_load[OF assms(1,2), consumes 1, case_names failed loaded])
  case (loaded u s p' w1)
  have st: "view_stage r i (identity_key c i) (view w1) = Some s"
    using loaded by (simp add: view_stage_def)
  obtain y w2 where chk: "run_state (validateCommittedFederatedIdentityCredential c i p
        ''before recovery finalization'') w1 = (Inr y, w2)"
      and s: "s = recoveryStageCommittedFenced \<or> s = recoveryStageComplete"
    using loaded by (auto simp: with_plan_def elim!: io_try_InrE split: if_splits)
  note exact = committed_InrD[OF assms(2) chk]
  from s show ?thesis
  proof
    assume "s = recoveryStageCommittedFenced"
    with loaded chk obtain w3 w4 y z where
      "run_state (verifyRecoveryStage c r i (Some p) recoveryStageComplete
         ''verify user assigned identity recovery finalization'') w3 = (Inr z, w4)"
      "run_state (validateCommittedFederatedIdentityCredential c i p
         ''after recovery finalization'') w4 = (Inr y, w')"
      by (auto simp: with_plan_def run_io_try_Inr elim!: io_try_InrE)
    with verify_InrD[OF assms(2)] committed_InrD[OF assms(2)] show ?thesis by fastforce
  next
    assume "s = recoveryStageComplete"
    then show ?thesis
      using loaded st exact chk by (auto simp: with_plan_def run_io_try_Inr)
  qed
qed simp

section \<open>Progress in an available store\<close>

lemma recoverable_mark:
  "recoverable scope i u \<Longrightarrow> recoverable scope i (u\<lparr>id_Tags := mark_tags r i (id_Tags u)\<rparr>)"
  by (simp add: recoverable_def operator_tags_def identity_property_def)

lemma recoverable_commit:
  "recoverable scope i u \<Longrightarrow> recoverable scope i (u\<lparr>id_Tags := commit_tags r i (id_Tags u)\<rparr>)"
  by (simp add: recoverable_def operator_tags_def identity_property_def)

lemma recoverable_finalize:
  "recoverable scope i u \<Longrightarrow> recoverable scope i (u\<lparr>id_Tags := finalize_tags (id_Tags u)\<rparr>)"
  by (simp add: recoverable_def operator_tags_def identity_property_def)

lemma plan_ignores_tags [simp]:
  "validateRecoveryIdentityPlan (u\<lparr>id_Tags := t\<rparr>) plan = validateRecoveryIdentityPlan u plan"
  by (cases plan; cases "id_Properties u") (simp_all add: validateRecoveryIdentityPlan_def Let_def)

text \<open>
  \<open>live_store\<close>: a working Azure behind the manager; \<open>ready\<close>: the stored identity \<open>u\<close> is in
  stage \<open>s\<close> and matches the plan.
\<close>

definition live_store ::
  "'w armSDK \<Rightarrow> 'w RecoveryManager \<Rightarrow> ('w \<Rightarrow> arm_state) \<Rightarrow> 'w identityClients \<Rightarrow> bool" where
  "live_store sdk m view c \<longleftrightarrow>
     recovery_clients sdk m = Inr c \<and> arm_laws view c \<and> arm_available view c"

definition ready ::
  "'w identityClients \<Rightarrow> WorkloadIdentityRecovery \<Rightarrow> WorkloadIdentity \<Rightarrow>
     WorkloadIdentityRecoveryPlan \<Rightarrow> Identity \<Rightarrow> identityRecoveryStage \<Rightarrow> arm_state \<Rightarrow> bool" where
  "ready c r i p u s v \<longleftrightarrow>
     identities v (identity_key c i) = Some u \<and> recoverable (ic_scope c) i u \<and>
     recoveryStage r i u = Inr s \<and> validateRecoveryIdentityPlan u (Some p) = None"

lemma live_getRecovery:
  assumes "live_store sdk m view c" and "identities (view w) (identity_key c i) = Some u"
    and "recoverable (ic_scope c) i u"
  obtains w' where "run_state (getRecoveryUserAssignedIdentity c i) w = (Inr u, w')"
    and "view w' = view w"
proof -
  obtain w' where get: "run_state (ui_Get (ic_identities c) (resourceGroupName (ic_scope c))
      (userAssignedIdentityName i)) w = (Inr u, w')" and "view w' = view w"
    using assms available_get by (metis live_store_def identity_key_def)
  with run_getRecovery(1)[OF get] run_getRecovery(2)[OF get, of u] assms(3) that
  show thesis by (metis prod.collapse)
qed

lemma live_load:
  assumes "live_store sdk m view c" and "ready c r i p u s (view w)"
  obtains w' where
    "run_state (loadAndValidateRecoveryState sdk m r i (Some p)) w = (Inr (c, u, s), w')"
    and "view w' = view w"
proof -
  from assms(2) obtain w' where "run_state (getRecoveryUserAssignedIdentity c i) w = (Inr u, w')"
    and "view w' = view w"
    using live_getRecovery[OF assms(1), of w i u] by (auto simp: ready_def)
  with assms that show thesis
    by (auto simp: loadAndValidateRecoveryState_def run_simps ready_def live_store_def)
qed

lemma live_verify:
  assumes "live_store sdk m view c" and "ready c r i p u s (view w)"
  obtains w' where "run_state (verifyRecoveryStage c r i (Some p) s op) w = (Inr (), w')"
    and "view w' = view w"
proof -
  from assms(2) obtain w' where "run_state (getRecoveryUserAssignedIdentity c i) w = (Inr u, w')"
    and "view w' = view w"
    using live_getRecovery[OF assms(1), of w i u] by (auto simp: ready_def)
  with assms that show thesis
    by (auto simp: verifyRecoveryStage_def run_simps ready_def)
qed

lemma live_committed:
  assumes "live_store sdk m view c"
    and "exact_credentials c i p (credentials (view w) (identity_key c i))"
  obtains w' where "run_state (validateCommittedFederatedIdentityCredential c i p op) w = (Inr (), w')"
    and "view w' = view w"
proof -
  obtain w' where "run_state (fic_List (ic_federatedCredentials c) (resourceGroupName (ic_scope c))
      (userAssignedIdentityName i)) w = (Inr (credentials (view w) (identity_key c i)), w')"
    and "view w' = view w"
    using assms(1) available_list by (metis live_store_def identity_key_def)
  with assms(2) that show thesis
    by (auto simp: validateCommittedFederatedIdentityCredential_def exact_credentials_def run_simps)
qed

lemma live_update:
  assumes "live_store sdk m view c" and "identities (view w) (identity_key c i) = Some u"
  obtains w' where "run_state (updateRecoveryTags c i t) w = (Inr (), w')"
    and "view w' = set_tags (identity_key c i) t (view w)"
proof -
  obtain j w' where "run_state (ui_Update (ic_identities c) (resourceGroupName (ic_scope c))
      (userAssignedIdentityName i) t) w = (Inr j, w')"
    and "view w' = set_tags (identity_key c i) t (view w)"
    using assms available_update by (metis live_store_def identity_key_def option.distinct(1))
  with that show thesis by (simp add: updateRecoveryTags_def run_simps)
qed

lemma ready_set_tags:
  assumes "ready c r i p u s v" and "recoverable (ic_scope c) i (u\<lparr>id_Tags := t\<rparr>)"
    and "recoveryStage r i (u\<lparr>id_Tags := t\<rparr>) = Inr s'"
  shows "ready c r i p (u\<lparr>id_Tags := t\<rparr>) s' (set_tags (identity_key c i) t v)"
  using assms by (simp add: ready_def)

lemma live_MarkInProgress:
  assumes "live_store sdk m view c" and "recovery_target r i"
    and "ready c r i p u recoveryStageNotStarted (view w)"
  obtains w' where "run_state (MarkInProgress sdk m r i (Some p)) w = (Inr (), w')"
    and "view w' = set_tags (identity_key c i) (mark_tags r i (id_Tags u)) (view w)"
    and "ready c r i p (u\<lparr>id_Tags := mark_tags r i (id_Tags u)\<rparr>) recoveryStageInProgress (view w')"
proof -
  obtain w1 where load: "run_state (loadAndValidateRecoveryState sdk m r i (Some p)) w
      = (Inr (c, u, recoveryStageNotStarted), w1)" and w1: "view w1 = view w"
    using live_load[OF assms(1,3)] by blast
  obtain w2 where upd: "run_state (updateRecoveryTags c i (mark_tags r i (id_Tags u))) w1 = (Inr (), w2)"
    and w2: "view w2 = set_tags (identity_key c i) (mark_tags r i (id_Tags u)) (view w1)"
    using live_update[OF assms(1), of w1 i u] assms(3) w1 by (auto simp: ready_def)
  have ready: "ready c r i p (u\<lparr>id_Tags := mark_tags r i (id_Tags u)\<rparr>) recoveryStageInProgress (view w2)"
    unfolding w2 w1
    by (rule ready_set_tags[OF assms(3)])
      (use assms(2,3) in \<open>auto simp: ready_def intro: recoverable_mark stage_after_mark\<close>)
  obtain w3 where "run_state (verifyRecoveryStage c r i (Some p) recoveryStageInProgress
      ''verify user assigned identity recovery marker'') w2 = (Inr (), w3)" and "view w3 = view w2"
    using live_verify[OF assms(1) ready] by blast
  with load upd w1 w2 ready that show thesis
    by (simp add: MarkInProgress_def run_simps)
qed

text \<open>A credential set the preflight accepts is exact after one write of the desired credential.\<close>

lemma exact_after_put:
  assumes "validateRecoverableFederatedIdentityCredentialSet (ic_scope c) i cs = None"
    and "fic_Properties x = fic_Properties (desiredRecoveryFederatedIdentityCredential p)"
    and "named (FederatedIdentityCredentialName (wis_Azure (wi_Spec i))) x"
    and "fic_ID x = Some (desiredFederatedIdentityCredentialID (ic_scope c) i)"
  shows "exact_credentials c i p (x # filter (\<lambda>g. \<not> named (stringValue (fic_Name x)) g) cs)"
proof -
  have none: "filter (\<lambda>g. \<not> named (stringValue (fic_Name x)) g) cs = []"
  proof (cases cs)
    case (Cons y ys)
    with assms(1) have "ys = []" "named (FederatedIdentityCredentialName (wis_Azure (wi_Spec i))) y"
      by (auto simp: validateRecoverableFederatedIdentityCredentialSet_def named_def
          validateFederatedIdentityCredentialLocation_def split: if_splits list.splits)
    then show ?thesis
      using assms(3) Cons by (auto simp: named_def intro: equal_fold_trans equal_fold_sym[THEN iffD1])
  qed simp
  have "validateFederatedIdentityCredential n x (desiredRecoveryFederatedIdentityCredential p) = None" for n
    using assms(2) by (simp add: validateFederatedIdentityCredential_def Let_def
        desiredRecoveryFederatedIdentityCredential_def)
  then show ?thesis
    unfolding none using assms(3,4) by (simp add: exact_credentials_def named_def
        validateExactFederatedIdentityCredentialSet_def validateFederatedIdentityCredentialLocation_def)
qed

lemma live_EnsureFederatedIdentityCredential:
  assumes "live_store sdk m view c" and "ready c r i p u recoveryStageInProgress (view w)"
    and "validateRecoverableFederatedIdentityCredentialSet (ic_scope c) i
           (credentials (view w) (identity_key c i)) = None"
  obtains w' where "run_state (EnsureFederatedIdentityCredential sdk m r i (Some p)) w = (Inr (), w')"
    and "identities (view w') = identities (view w)"
    and "exact_credentials c i p (credentials (view w') (identity_key c i))"
proof -
  obtain w1 where load: "run_state (loadAndValidateRecoveryState sdk m r i (Some p)) w
      = (Inr (c, u, recoveryStageInProgress), w1)" and w1: "view w1 = view w"
    using live_load[OF assms(1,2)] by blast
  have laws: "arm_laws view c" and avail: "arm_available view c"
    using assms(1) by (simp_all add: live_store_def)
  have stored: "identities (view w1) (resourceGroupName (ic_scope c), userAssignedIdentityName i) \<noteq> None"
    using assms(2) w1 by (simp add: ready_def identity_key_def)
  obtain x w2 where put: "run_state (fic_CreateOrUpdate (ic_federatedCredentials c)
      (resourceGroupName (ic_scope c)) (userAssignedIdentityName i)
      (FederatedIdentityCredentialName (wis_Azure (wi_Spec i)))
      (desiredRecoveryFederatedIdentityCredential p)) w1 = (Inr x, w2)"
    by (rule available_put_credential[OF laws avail stored])
  have x: "fic_Properties x = fic_Properties (desiredRecoveryFederatedIdentityCredential p)"
    "named (FederatedIdentityCredentialName (wis_Azure (wi_Spec i))) x"
    "fic_ID x = Some (desiredFederatedIdentityCredentialID (ic_scope c) i)"
    "view w2 = put_credential (identity_key c i) x (view w1)"
    using arm_put_credential(2)[OF laws put refl]
    by (simp_all only: identity_key_def desiredFederatedIdentityCredentialID_def
        desiredUserAssignedIdentityID_def append_assoc)
  have exact: "exact_credentials c i p (credentials (view w2) (identity_key c i))"
    using exact_after_put[OF assms(3) x(1-3)] by (simp add: x(4) w1)
  obtain w3 where "run_state (validateCommittedFederatedIdentityCredential c i p
      ''after recovery repair'') w2 = (Inr (), w3)" and "view w3 = view w2"
    using live_committed[OF assms(1) exact] by blast
  with load put exact x(4) w1 that show thesis
    by (simp add: EnsureFederatedIdentityCredential_def with_plan_def run_simps)
qed

lemma live_Commit:
  assumes "live_store sdk m view c" and "recovery_target r i"
    and "ready c r i p u recoveryStageInProgress (view w)"
    and "exact_credentials c i p (credentials (view w) (identity_key c i))"
  obtains w' where "run_state (Commit sdk m r i (Some p)) w = (Inr (), w')"
    and "view w' = set_tags (identity_key c i) (commit_tags r i (id_Tags u)) (view w)"
    and "ready c r i p (u\<lparr>id_Tags := commit_tags r i (id_Tags u)\<rparr>) recoveryStageCommittedFenced (view w')"
proof -
  obtain w1 where load: "run_state (loadAndValidateRecoveryState sdk m r i (Some p)) w
      = (Inr (c, u, recoveryStageInProgress), w1)" and w1: "view w1 = view w"
    using live_load[OF assms(1,3)] by blast
  obtain w2 where pre: "run_state (validateCommittedFederatedIdentityCredential c i p
      ''before recovery commit'') w1 = (Inr (), w2)" and w2: "view w2 = view w"
    using live_committed[OF assms(1), of i p w1] assms(4) w1 by metis
  obtain w3 where upd: "run_state (updateRecoveryTags c i (commit_tags r i (id_Tags u))) w2 = (Inr (), w3)"
    and w3: "view w3 = set_tags (identity_key c i) (commit_tags r i (id_Tags u)) (view w)"
    using live_update[OF assms(1), of w2 i u] assms(3) w2 by (metis ready_def)
  have ready: "ready c r i p (u\<lparr>id_Tags := commit_tags r i (id_Tags u)\<rparr>)
      recoveryStageCommittedFenced (view w3)"
    unfolding w3
    by (rule ready_set_tags[OF assms(3)])
      (use assms(2,3) in \<open>auto simp: ready_def intro: recoverable_commit stage_after_commit\<close>)
  obtain w4 where ver: "run_state (verifyRecoveryStage c r i (Some p) recoveryStageCommittedFenced
      ''verify user assigned identity recovery commit'') w3 = (Inr (), w4)" and w4: "view w4 = view w3"
    using live_verify[OF assms(1) ready] by blast
  obtain w5 where post: "run_state (validateCommittedFederatedIdentityCredential c i p
      ''after recovery commit'') w4 = (Inr (), w5)" and w5: "view w5 = view w4"
    using live_committed[OF assms(1), of i p w4] assms(4) w3 w4 by (metis identities_set_tags(2))
  show thesis
    using load pre upd ver post w3 w4 w5 ready
    by (intro that[of w5]) (simp_all add: Commit_def with_plan_def run_simps)
qed

lemma live_Finalize:
  assumes "live_store sdk m view c" and "recovery_target r i"
    and "ready c r i p u recoveryStageCommittedFenced (view w)"
    and "exact_credentials c i p (credentials (view w) (identity_key c i))"
  obtains w' where "run_state (Finalize sdk m r i (Some p)) w = (Inr (), w')"
    and "view w' = set_tags (identity_key c i) (finalize_tags (id_Tags u)) (view w)"
    and "ready c r i p (u\<lparr>id_Tags := finalize_tags (id_Tags u)\<rparr>) recoveryStageComplete (view w')"
proof -
  obtain w1 where load: "run_state (loadAndValidateRecoveryState sdk m r i (Some p)) w
      = (Inr (c, u, recoveryStageCommittedFenced), w1)" and w1: "view w1 = view w"
    using live_load[OF assms(1,3)] by blast
  obtain w2 where pre: "run_state (validateCommittedFederatedIdentityCredential c i p
      ''before recovery finalization'') w1 = (Inr (), w2)" and w2: "view w2 = view w"
    using live_committed[OF assms(1), of i p w1] assms(4) w1 by metis
  obtain w3 where upd: "run_state (updateRecoveryTags c i (finalize_tags (id_Tags u))) w2 = (Inr (), w3)"
    and w3: "view w3 = set_tags (identity_key c i) (finalize_tags (id_Tags u)) (view w)"
    using live_update[OF assms(1), of w2 i u] assms(3) w2 by (metis ready_def)
  have ready: "ready c r i p (u\<lparr>id_Tags := finalize_tags (id_Tags u)\<rparr>)
      recoveryStageComplete (view w3)"
    unfolding w3
    by (rule ready_set_tags[OF assms(3)], insert assms(3) stage_after_finalize[OF assms(2)])
      (simp_all only: ready_def recoverable_finalize)
  obtain w4 where ver: "run_state (verifyRecoveryStage c r i (Some p) recoveryStageComplete
      ''verify user assigned identity recovery finalization'') w3 = (Inr (), w4)" and w4: "view w4 = view w3"
    using live_verify[OF assms(1) ready] by blast
  obtain w5 where post: "run_state (validateCommittedFederatedIdentityCredential c i p
      ''after recovery finalization'') w4 = (Inr (), w5)" and w5: "view w5 = view w4"
    using live_committed[OF assms(1), of i p w4] assms(4) w3 w4 by (metis identities_set_tags(2))
  show thesis
    using load pre upd ver post w3 w4 w5 ready
    by (intro that[of w5]) (simp_all add: Finalize_def with_plan_def run_simps)
qed

text \<open>Operations in a stage they have nothing left to do in.\<close>

lemma live_MarkInProgress_later:
  assumes "live_store sdk m view c" and "ready c r i p u s (view w)" and "s \<noteq> recoveryStageNotStarted"
  obtains w' where "run_state (MarkInProgress sdk m r i (Some p)) w = (Inr (), w')"
    and "view w' = view w"
proof -
  obtain w1 where "run_state (loadAndValidateRecoveryState sdk m r i (Some p)) w = (Inr (c, u, s), w1)"
    and "view w1 = view w"
    using live_load[OF assms(1,2)] by blast
  with assms(3) that show thesis by (simp add: MarkInProgress_def run_simps)
qed

lemma live_checked_later:
  assumes "live_store sdk m view c" and "ready c r i p u s (view w)"
    and "s = recoveryStageCommittedFenced \<or> s = recoveryStageComplete"
    and "exact_credentials c i p (credentials (view w) (identity_key c i))"
  shows "\<exists>w'. run_state (EnsureFederatedIdentityCredential sdk m r i (Some p)) w = (Inr (), w') \<and>
      view w' = view w"
    and "\<exists>w'. run_state (Commit sdk m r i (Some p)) w = (Inr (), w') \<and> view w' = view w"
    and "s = recoveryStageComplete \<Longrightarrow>
      \<exists>w'. run_state (Finalize sdk m r i (Some p)) w = (Inr (), w') \<and> view w' = view w"
proof -
  obtain w1 where load: "run_state (loadAndValidateRecoveryState sdk m r i (Some p)) w
      = (Inr (c, u, s), w1)" and w1: "view w1 = view w"
    using live_load[OF assms(1,2)] by blast
  have check: "\<exists>w'. run_state (validateCommittedFederatedIdentityCredential c i p op) w1 = (Inr (), w') \<and>
      view w' = view w" for op
    using live_committed[OF assms(1), of i p w1 op] assms(4) w1 by metis
  show "\<exists>w'. run_state (EnsureFederatedIdentityCredential sdk m r i (Some p)) w = (Inr (), w') \<and>
      view w' = view w"
    using load check[of "''after recovery repair''"] assms(3)
    by (auto simp: EnsureFederatedIdentityCredential_def with_plan_def run_io_try)
  show "\<exists>w'. run_state (Commit sdk m r i (Some p)) w = (Inr (), w') \<and> view w' = view w"
    using load check[of "''before recovery commit''"] assms(3)
    by (auto simp: Commit_def with_plan_def run_io_try)
  show "s = recoveryStageComplete \<Longrightarrow>
      \<exists>w'. run_state (Finalize sdk m r i (Some p)) w = (Inr (), w') \<and> view w' = view w"
    using load check[of "''before recovery finalization''"]
    by (auto simp: Finalize_def with_plan_def run_io_try)
qed

text \<open>The sequence the controller runs, each step only after the success of the one before.\<close>

definition recovery_sequence ::
  "'w armSDK \<Rightarrow> 'w RecoveryManager \<Rightarrow> WorkloadIdentityRecovery \<Rightarrow> WorkloadIdentity \<Rightarrow>
     WorkloadIdentityRecoveryPlan option \<Rightarrow> ('w, unit) io" where
  "recovery_sequence sdk m r i plan =
     io_try (MarkInProgress sdk m r i plan) (\<lambda>_.
     io_try (EnsureFederatedIdentityCredential sdk m r i plan) (\<lambda>_.
     io_try (Commit sdk m r i plan) (\<lambda>_. Finalize sdk m r i plan)))"

text \<open>The credentials a recovery in stage \<open>s\<close> may find.\<close>

definition credentials_fit ::
  "'w identityClients \<Rightarrow> WorkloadIdentity \<Rightarrow> WorkloadIdentityRecoveryPlan \<Rightarrow>
     identityRecoveryStage \<Rightarrow> FederatedIdentityCredential list \<Rightarrow> bool" where
  "credentials_fit c i p s cs \<longleftrightarrow>
     (if s \<le> recoveryStageInProgress
      then validateRecoverableFederatedIdentityCredentialSet (ic_scope c) i cs = None
      else exact_credentials c i p cs)"

definition recovered ::
  "'w identityClients \<Rightarrow> WorkloadIdentityRecovery \<Rightarrow> WorkloadIdentity \<Rightarrow>
     WorkloadIdentityRecoveryPlan \<Rightarrow> arm_state \<Rightarrow> bool" where
  "recovered c r i p v \<longleftrightarrow>
     (\<exists>u. ready c r i p u recoveryStageComplete v) \<and>
     exact_credentials c i p (credentials v (identity_key c i))"

lemma resume_Finalize:
  assumes "live_store sdk m view c" and "recovery_target r i" and "ready c r i p u s (view w)"
    and "exact_credentials c i p (credentials (view w) (identity_key c i))"
    and "s = recoveryStageCommittedFenced \<or> s = recoveryStageComplete"
  shows "\<exists>w'. run_state (Finalize sdk m r i (Some p)) w = (Inr (), w') \<and> recovered c r i p (view w')"
  using assms(5)
proof
  assume "s = recoveryStageCommittedFenced"
  with live_Finalize[OF assms(1,2) _ assms(4)] assms(3) obtain w' where
    "run_state (Finalize sdk m r i (Some p)) w = (Inr (), w')"
    "view w' = set_tags (identity_key c i) (finalize_tags (id_Tags u)) (view w)"
    "ready c r i p (u\<lparr>id_Tags := finalize_tags (id_Tags u)\<rparr>) recoveryStageComplete (view w')" by metis
  then show ?thesis using assms(4) unfolding recovered_def by (metis identities_set_tags(2))
next
  assume "s = recoveryStageComplete"
  with live_checked_later(3)[OF assms(1,3,5,4)] assms(3,4) show ?thesis
    unfolding recovered_def by metis
qed

lemma resume_Commit:
  assumes "live_store sdk m view c" and "recovery_target r i" and "ready c r i p u s (view w)"
    and "exact_credentials c i p (credentials (view w) (identity_key c i))"
    and "s \<noteq> recoveryStageNotStarted"
  shows "\<exists>w'. run_state (io_try (Commit sdk m r i (Some p)) (\<lambda>_. Finalize sdk m r i (Some p))) w
      = (Inr (), w') \<and> recovered c r i p (view w')"
proof (cases "s = recoveryStageInProgress")
  case True
  with live_Commit[OF assms(1,2) _ assms(4)] assms(3) obtain w1 where
    run: "run_state (Commit sdk m r i (Some p)) w = (Inr (), w1)" and
    w1: "view w1 = set_tags (identity_key c i) (commit_tags r i (id_Tags u)) (view w)" and
    rdy: "ready c r i p (u\<lparr>id_Tags := commit_tags r i (id_Tags u)\<rparr>) recoveryStageCommittedFenced (view w1)"
    by metis
  have "exact_credentials c i p (credentials (view w1) (identity_key c i))"
    using assms(4) by (simp add: w1)
  from resume_Finalize[OF assms(1,2) rdy this] run show ?thesis by (simp add: run_io_try)
next
  case False
  with assms(5) have s: "s = recoveryStageCommittedFenced \<or> s = recoveryStageComplete" by (cases s) auto
  obtain w1 where "run_state (Commit sdk m r i (Some p)) w = (Inr (), w1)" "view w1 = view w"
    using live_checked_later(2)[OF assms(1,3) s assms(4)] by blast
  with resume_Finalize[OF assms(1,2), of p u s w1] assms(3,4) s show ?thesis by (simp add: run_io_try)
qed

lemma resume_Ensure:
  assumes "live_store sdk m view c" and "recovery_target r i" and "ready c r i p u s (view w)"
    and "credentials_fit c i p s (credentials (view w) (identity_key c i))"
    and "s \<noteq> recoveryStageNotStarted"
  shows "\<exists>w'. run_state (io_try (EnsureFederatedIdentityCredential sdk m r i (Some p)) (\<lambda>_.
      io_try (Commit sdk m r i (Some p)) (\<lambda>_. Finalize sdk m r i (Some p)))) w
      = (Inr (), w') \<and> recovered c r i p (view w')"
proof (cases "s = recoveryStageInProgress")
  case True
  with assms(3,4) live_EnsureFederatedIdentityCredential[OF assms(1), of r i p u w] obtain w1 where
    run: "run_state (EnsureFederatedIdentityCredential sdk m r i (Some p)) w = (Inr (), w1)" and
    w1: "identities (view w1) = identities (view w)" and
    exact: "exact_credentials c i p (credentials (view w1) (identity_key c i))"
    by (auto simp: credentials_fit_def)
  have "ready c r i p u s (view w1)" using assms(3) by (simp add: ready_def w1)
  from resume_Commit[OF assms(1,2) this exact assms(5)] run show ?thesis by (simp add: run_io_try)
next
  case False
  with assms(4,5) have s: "s = recoveryStageCommittedFenced \<or> s = recoveryStageComplete"
    and exact: "exact_credentials c i p (credentials (view w) (identity_key c i))"
    by (cases s; simp add: credentials_fit_def stage_order_defs)+
  obtain w1 where "run_state (EnsureFederatedIdentityCredential sdk m r i (Some p)) w = (Inr (), w1)"
    "view w1 = view w"
    using live_checked_later(1)[OF assms(1,3) s exact] by blast
  with resume_Commit[OF assms(1,2), of p u s w1] assms(3,5) exact show ?thesis by (simp add: run_io_try)
qed

lemma resume_sequence:
  assumes "live_store sdk m view c" and "recovery_target r i" and "ready c r i p u s (view w)"
    and "credentials_fit c i p s (credentials (view w) (identity_key c i))"
  shows "\<exists>w'. run_state (recovery_sequence sdk m r i (Some p)) w = (Inr (), w') \<and>
    recovered c r i p (view w')"
proof (cases "s = recoveryStageNotStarted")
  case True
  with live_MarkInProgress[OF assms(1,2)] assms(3) obtain w1 where
    run: "run_state (MarkInProgress sdk m r i (Some p)) w = (Inr (), w1)" and
    w1: "view w1 = set_tags (identity_key c i) (mark_tags r i (id_Tags u)) (view w)" and
    rdy: "ready c r i p (u\<lparr>id_Tags := mark_tags r i (id_Tags u)\<rparr>) recoveryStageInProgress (view w1)"
    by metis
  have "credentials_fit c i p recoveryStageInProgress (credentials (view w1) (identity_key c i))"
    using assms(4) True by (simp add: w1 credentials_fit_def stage_order_defs)
  from resume_Ensure[OF assms(1,2) rdy this] run show ?thesis
    by (simp add: recovery_sequence_def run_io_try)
next
  case False
  obtain w1 where "run_state (MarkInProgress sdk m r i (Some p)) w = (Inr (), w1)" "view w1 = view w"
    using live_MarkInProgress_later[OF assms(1,3) False] by blast
  with resume_Ensure[OF assms(1,2), of p u s w1] assms(3,4) False show ?thesis
    by (simp add: recovery_sequence_def run_io_try)
qed

lemma Inspect_InrD:
  assumes "recovery_clients sdk m = Inr c" and "arm_laws view c"
    and "run_state (Inspect sdk m r i issuerURL subject) w = (Inr p, w')"
  shows "\<exists>u s. ready c r i p u s (view w) \<and> view w' = view w \<and>
    validateRecoverableFederatedIdentityCredentialSet (ic_scope c) i
      (credentials (view w) (identity_key c i)) = None \<and>
    plan_FederatedIdentityCredential p =
      \<lparr> rfic_Issuer = issuerURL, rfic_Subject = subject,
        rfic_Audiences = [azureADTokenExchangeAudience] \<rparr>"
proof -
  obtain u s cs user w1 where
    get: "run_state (getRecoveryUserAssignedIdentity c i) w = (Inr u, w1)" and
    s: "recoveryStage r i u = Inr s" and
    list: "run_state (fic_List (ic_federatedCredentials c) (resourceGroupName (ic_scope c))
      (userAssignedIdentityName i)) w1 = (Inr cs, w')" and
    cs: "validateRecoverableFederatedIdentityCredentialSet (ic_scope c) i cs = None" and
    user: "recoveryUserAssignedIdentity u = Inr user" and
    p: "p = \<lparr> plan_UserAssignedIdentity = user, plan_FederatedIdentityCredential =
      \<lparr> rfic_Issuer = issuerURL, rfic_Subject = subject,
        rfic_Audiences = [azureADTokenExchangeAudience] \<rparr> \<rparr>"
    using assms(1,3) unfolding Inspect_def
    by (auto elim!: io_try_InrE split: option.splits)
  note stored = getRecovery_InrD[OF get]
  have "validateRecoveryIdentityPlan u (Some p) = None"
    using user by (auto simp: p validateRecoveryIdentityPlan_def recoveryUserAssignedIdentity_def
        split: option.splits)
  with s p cs stored arm_get[OF assms(2) conjunct1[OF stored]] arm_list[OF assms(2) list]
  show ?thesis by (auto simp: ready_def identity_key_def)
qed

end
