(* ===== verification/Recovery_Properties.thy ===== *)
theory Recovery_Properties
  imports Recovery_Protocol
begin

text \<open>
  The properties of the Azure side of a recovery, each with a witness on the in-memory store.
\<close>

section \<open>A concrete recovery\<close>

definition demo_scope :: Scope where
  "demo_scope = \<lparr> subscriptionID = ''sub'', resourceGroupName = ''rg'', location = ''eastus'' \<rparr>"

definition demo_meta :: "string \<Rightarrow> string \<Rightarrow> string \<Rightarrow> ObjectMeta" where
  "demo_meta ns n uid = \<lparr> Name = n, Namespace = ns, UID = uid, ResourceVersion = ''1'',
     Generation = 1, CreationTimestamp = 10, DeletionTimestamp = None, Finalizers = [],
     Labels = fmempty, Annotations = fmempty \<rparr>"

definition demo_identity :: WorkloadIdentity where
  "demo_identity = \<lparr> wi_Meta = demo_meta ''ns'' ''app'' ''target'',
     wi_Spec = \<lparr> wis_Azure = \<lparr> UserAssignedIdentityName = ''app-identity'',
                               FederatedIdentityCredentialName = ''app-fic'' \<rparr>,
                 wis_ServiceAccount = \<lparr> sar_Name = ''app'' \<rparr>,
                 wis_DeletionPolicy = DeletionPolicyDelete \<rparr>,
     wi_Status = \<lparr> wi_ClientID = '''', wi_PrincipalID = '''', wi_TenantID = '''', wi_IssuerURL = '''',
       wi_Subject = '''', wi_ServiceAccountUID = '''', wi_ServiceAccountProvenance = '''',
       wi_Recovery = None, wi_ObservedGeneration = 0, wi_LastReconciledTime = None,
       wi_AzureResources = [], wi_Conditions = [] \<rparr> \<rparr>"

definition demo_recovery :: WorkloadIdentityRecovery where
  "demo_recovery = \<lparr> r_Meta = demo_meta ''ns'' ''recover-app'' ''recovery'',
     r_Spec = \<lparr> rs_WorkloadIdentityRef = \<lparr> ref_Namespace = ''ns'', ref_Name = ''app'', ref_UID = ''target'' \<rparr>,
                rs_PreviousWorkloadIdentityUID = ''source'' \<rparr>,
     r_Status = \<lparr> r_ObservedGeneration = 0, r_LastAttemptTime = None, r_StartedTime = None,
       r_CompletedTime = None, r_MutationStarted = False, r_CommitVerified = False, r_Plan = None,
       r_Conditions = [] \<rparr> \<rparr>"

definition demo_uami :: Identity where
  "demo_uami = \<lparr> id_ID = Some (desiredUserAssignedIdentityID demo_scope demo_identity),
     id_Location = Some ''eastus'',
     id_Tags = fmupd workloadIdentityKeyTag (Some (LogicalIdentityKey ''ns'' ''app''))
                 (operatorOwnershipTags workloadIdentityUIDTag ''source'' True),
     id_Properties = Some \<lparr> ip_ClientID = Some ''client'', ip_PrincipalID = Some ''principal'',
                            ip_TenantID = Some ''tenant'' \<rparr> \<rparr>"

definition demo_store :: arm_state where
  "demo_store = \<lparr> identities = (\<lambda>k. if k = (''rg'', ''app-identity'') then Some demo_uami else None),
     credentials = (\<lambda>k. []) \<rparr>"

definition demo_plan :: WorkloadIdentityRecoveryPlan where
  "demo_plan = \<lparr> plan_UserAssignedIdentity =
       \<lparr> rui_ID = desiredUserAssignedIdentityID demo_scope demo_identity, rui_ClientID = ''client'',
         rui_PrincipalID = ''principal'', rui_TenantID = ''tenant'' \<rparr>,
     plan_FederatedIdentityCredential =
       \<lparr> rfic_Issuer = ''https://issuer'', rfic_Subject = ''system:serviceaccount:ns:app'',
         rfic_Audiences = [azureADTokenExchangeAudience] \<rparr> \<rparr>"

definition demo_manager :: "arm_state RecoveryManager" where
  "demo_manager = \<lparr> wrm_Credential = None, wrm_Scope = demo_scope,
     wrm_clientsFactory = Some (Inr (mem_clients demo_scope)) \<rparr>"

definition demo_sdk :: "arm_state armSDK" where
  "demo_sdk = \<lparr> NewResourceGroupsClient = (\<lambda>s c. Inr (mem_groups demo_scope)),
     NewUserAssignedIdentitiesClient = (\<lambda>s c. Inr (mem_identities demo_scope)),
     NewFederatedIdentityCredentialsClient = (\<lambda>s c. Inr (mem_credentials demo_scope)) \<rparr>"

lemma demo_names [simp]:
  "wi_UID demo_identity = ''target''" "wi_namespace demo_identity = ''ns''"
  "wi_name demo_identity = ''app''" "userAssignedIdentityName demo_identity = ''app-identity''"
  "r_UID demo_recovery = ''recovery''" "r_SourceUID demo_recovery = ''source''"
  "resourceGroupName demo_scope = ''rg''"
  by (simp_all add: demo_identity_def demo_recovery_def demo_scope_def demo_meta_def
      userAssignedIdentityName_def)

lemma demo_clients: "recovery_clients demo_sdk demo_manager = Inr (mem_clients demo_scope)"
  by (simp add: recovery_clients_def demo_manager_def)

lemma demo_target: "recovery_target demo_recovery demo_identity"
  by (simp add: recovery_target_def)

lemma demo_live: "live_store demo_sdk demo_manager (\<lambda>s. s) (mem_clients demo_scope)"
  by (simp add: live_store_def demo_clients mem_arm_laws mem_arm_available)

lemma demo_key: "identity_key (mem_clients demo_scope) demo_identity = (''rg'', ''app-identity'')"
  by (simp add: identity_key_def)

lemma demo_tags [simp]:
  "tagValue (id_Tags demo_uami) workloadIdentityUIDTag = ''source''"
  "tagValue (id_Tags demo_uami) workloadIdentityRecoveryUIDTag = ''''"
  "tagValue (id_Tags demo_uami) workloadIdentityRecoveryTargetUIDTag = ''''"
  "\<not> fenced (id_Tags demo_uami)"
  by (simp_all add: demo_uami_def operatorOwnershipTags_def fenced_def)

lemma demo_recoverable: "recoverable demo_scope demo_identity demo_uami"
  by (simp add: recoverable_def) (simp add: demo_uami_def operatorOwnershipTags_def operator_tags_def
      identity_property_def fmt_t_def, simp add: const_defs)

lemma demo_stage: "recoveryStage demo_recovery demo_identity demo_uami = Inr recoveryStageNotStarted"
  by (simp add: stage_NotStarted_iff[OF demo_target])

lemma demo_ready: "ready (mem_clients demo_scope) demo_recovery demo_identity demo_plan demo_uami
    recoveryStageNotStarted demo_store"
proof -
  have "validateRecoveryIdentityPlan demo_uami (Some demo_plan) = None"
    by (simp add: validateRecoveryIdentityPlan_def demo_uami_def demo_plan_def)
  then show ?thesis
    by (simp add: ready_def demo_key demo_recoverable demo_stage) (simp add: demo_store_def)
qed

lemma demo_Inspect:
  "run_state (Inspect demo_sdk demo_manager demo_recovery demo_identity ''https://issuer''
     ''system:serviceaccount:ns:app'') demo_store = (Inr demo_plan, demo_store)"
proof -
  obtain w1 where get: "run_state (getRecoveryUserAssignedIdentity (mem_clients demo_scope) demo_identity)
      demo_store = (Inr demo_uami, w1)" and w1: "w1 = demo_store"
    using live_getRecovery[OF demo_live, of demo_store demo_identity demo_uami] demo_ready
    by (auto simp: ready_def)
  have "run_state (fic_List (ic_federatedCredentials (mem_clients demo_scope)) ''rg'' ''app-identity'')
      demo_store = (Inr [], demo_store)"
    using available_list[OF mem_arm_laws mem_arm_available] by (metis arm_state.select_convs(2) demo_store_def)
  moreover have "recoveryUserAssignedIdentity demo_uami = Inr (plan_UserAssignedIdentity demo_plan)"
    by (simp add: recoveryUserAssignedIdentity_def demo_uami_def demo_plan_def)
  ultimately show ?thesis
    using get w1 by (simp add: Inspect_def demo_clients run_simps demo_stage
        validateRecoverableFederatedIdentityCredentialSet_def) (simp add: demo_plan_def)
qed

section \<open>Order of the stages\<close>

lemma run_operations_stage:
  assumes "recovery_clients sdk m = Inr c" and "arm_laws view c" and "recovery_target r i"
  shows "rel_option (recovery_step\<^sup>*\<^sup>*) (view_stage r i (identity_key c i) (view w))
      (view_stage r i (identity_key c i) (view (run_operations sdk m r i plan ops w))) \<and>
    (\<forall>k. k \<noteq> identity_key c i \<longrightarrow>
       identities (view (run_operations sdk m r i plan ops w)) k = identities (view w) k)"
proof (induction ops arbitrary: w)
  case Nil
  then show ?case by (simp add: option.rel_refl)
next
  case (Cons op ops)
  obtain res w1 where run: "run_state (recovery_operation sdk m r i plan op) w = (res, w1)" by fastforce
  note step = operation_stage[OF assms run]
  from step(1) have "rel_option (recovery_step\<^sup>*\<^sup>*) (view_stage r i (identity_key c i) (view w))
      (view_stage r i (identity_key c i) (view w1))"
    by (auto simp: option.rel_refl)
  moreover have "rel_option (recovery_step\<^sup>*\<^sup>*) a b \<Longrightarrow> rel_option (recovery_step\<^sup>*\<^sup>*) b d \<Longrightarrow>
      rel_option (recovery_step\<^sup>*\<^sup>*) a d" for a b d
    by (cases a; cases b; cases d) auto
  ultimately show ?case using Cons[of w1] step(2) run by auto
qed

text \<open>C1. Whatever calls of the four recovery operations are made, in whatever order, with
  whatever results (failed writes that were or were not applied, retries, crashes), the recovery
  stage stored in Azure only moves forward along the steps NotStarted, InProgress,
  CommittedFenced, Complete, an identity outside the protocol stays outside, and no other
  managed identity is touched.\<close>

theorem recovery_never_regresses:
  assumes "recovery_clients sdk m = Inr c" and "arm_laws view c" and "recovery_target r i"
  shows "rel_option (\<lambda>s s'. recovery_step\<^sup>*\<^sup>* s s' \<and> s \<le> s')
      (view_stage r i (identity_key c i) (view w))
      (view_stage r i (identity_key c i) (view (run_operations sdk m r i plan ops w))) \<and>
    (\<forall>k. k \<noteq> identity_key c i \<longrightarrow>
       identities (view (run_operations sdk m r i plan ops w)) k = identities (view w) k)"
proof -
  have "rel_option (\<lambda>s s'. recovery_step\<^sup>*\<^sup>* s s' \<and> s \<le> s') x y"
    if "rel_option (recovery_step\<^sup>*\<^sup>*) x y" for x y
    using that recovery_steps_mono by (auto intro: option.rel_mono_strong)
  with run_operations_stage[OF assms] show ?thesis by blast
qed

lemma recovery_never_regresses_witness:
  "rel_option (\<lambda>s s'. recovery_step\<^sup>*\<^sup>* s s' \<and> s \<le> s') (Some recoveryStageNotStarted)
     (view_stage demo_recovery demo_identity (''rg'', ''app-identity'')
       (run_operations demo_sdk demo_manager demo_recovery demo_identity (Some demo_plan)
          [OpFinalize, OpMark, OpMark, OpCommit, OpEnsure] demo_store))"
proof -
  have "view_stage demo_recovery demo_identity (''rg'', ''app-identity'') demo_store
      = Some recoveryStageNotStarted"
    by (simp add: view_stage_def demo_store_def demo_stage)
  then show ?thesis
    using recovery_never_regresses[OF demo_clients mem_arm_laws demo_target, of demo_store
        "Some demo_plan" "[OpFinalize, OpMark, OpMark, OpCommit, OpEnsure]"]
    by (simp only: demo_key)
qed

section \<open>Completion\<close>

text \<open>C2. Against a working Azure, a preflight that accepts the identity in a stage before the
  commit is followed by success: the sequence mark, ensure credential, commit, finalize returns
  without error and leaves the identity complete, owned by the new WorkloadIdentity under the
  ordinary ownership check, with the planned federated credential as its only one.\<close>

theorem accepted_recovery_completes:
  assumes "live_store sdk m view c" and "recovery_target r i"
    and "run_state (Inspect sdk m r i issuerURL subject) w = (Inr p, w1)"
    and "view_stage r i (identity_key c i) (view w) \<in>
      {Some recoveryStageNotStarted, Some recoveryStageInProgress}"
  shows "\<exists>w2 u f. run_state (recovery_sequence sdk m r i (Some p)) w1 = (Inr (), w2) \<and>
    identities (view w2) (identity_key c i) = Some u \<and>
    validateUserAssignedIdentityOwnership i u = None \<and>
    credentials (view w2) (identity_key c i) = [f] \<and>
    validateFederatedIdentityCredential (FederatedIdentityCredentialName (wis_Azure (wi_Spec i))) f
      (desiredFederatedIdentityCredential issuerURL subject) = None"
proof -
  have clients: "recovery_clients sdk m = Inr c" and laws: "arm_laws view c"
    using assms(1) by (simp_all add: live_store_def)
  from Inspect_InrD[OF clients laws assms(3)] obtain u s where
    rdy: "ready c r i p u s (view w1)" and keep: "view w1 = view w" and
    cs: "validateRecoverableFederatedIdentityCredentialSet (ic_scope c) i
      (credentials (view w1) (identity_key c i)) = None" and
    plan: "plan_FederatedIdentityCredential p = \<lparr> rfic_Issuer = issuerURL, rfic_Subject = subject,
      rfic_Audiences = [azureADTokenExchangeAudience] \<rparr>" by metis
  have "s = recoveryStageNotStarted \<or> s = recoveryStageInProgress"
    using assms(4) rdy keep by (auto simp: ready_def view_stage_def)
  then have fit: "credentials_fit c i p s (credentials (view w1) (identity_key c i))"
    using cs by (auto simp: credentials_fit_def stage_order_defs)
  obtain w2 u' where run: "run_state (recovery_sequence sdk m r i (Some p)) w1 = (Inr (), w2)"
    and fin: "ready c r i p u' recoveryStageComplete (view w2)"
    and exact: "exact_credentials c i p (credentials (view w2) (identity_key c i))"
    using resume_sequence[OF assms(1,2) rdy fit] unfolding recovered_def by blast
  have complete: "tagValue (id_Tags u') workloadIdentityUIDTag = wi_UID i \<and> \<not> fenced (id_Tags u')"
    using fin stage_Complete_iff[OF assms(2)] by (simp add: ready_def)
  have "recoverable (ic_scope c) i u'" using fin by (simp add: ready_def)
  with complete have "validateUserAssignedIdentityOwnership i u' = None"
    by (simp only: validate_None_iff hasTags_workloadIdentityTags recoverable_def) auto
  moreover have "desiredRecoveryFederatedIdentityCredential p
      = desiredFederatedIdentityCredential issuerURL subject"
    by (simp add: desiredRecoveryFederatedIdentityCredential_def plan stringPointers_def
        desiredFederatedIdentityCredential_def)
  ultimately show ?thesis
    using run fin exact by (auto simp: ready_def exact_credentials_def
        validateExactFederatedIdentityCredentialSet_def split: list.splits option.splits)
qed

lemma accepted_recovery_completes_witness:
  "\<exists>w2 u f. run_state (recovery_sequence demo_sdk demo_manager demo_recovery demo_identity
        (Some demo_plan)) demo_store = (Inr (), w2) \<and>
     identities w2 (identity_key (mem_clients demo_scope) demo_identity) = Some u \<and>
     validateUserAssignedIdentityOwnership demo_identity u = None \<and>
     credentials w2 (identity_key (mem_clients demo_scope) demo_identity) = [f] \<and>
     validateFederatedIdentityCredential
       (FederatedIdentityCredentialName (wis_Azure (wi_Spec demo_identity))) f
       (desiredFederatedIdentityCredential ''https://issuer'' ''system:serviceaccount:ns:app'') = None"
  by (rule accepted_recovery_completes[OF demo_live demo_target demo_Inspect])
    (simp add: demo_key view_stage_def demo_store_def demo_stage)

text \<open>C3. A recovery interrupted at any stage is resumed: from a stored identity in any of the
  four stages that still matches the plan and carries the credentials of that stage, running the
  whole sequence again succeeds and ends complete, so a retry after a crash between two calls
  loses nothing.\<close>

theorem interrupted_recovery_resumes:
  assumes "live_store sdk m view c" and "recovery_target r i" and "ready c r i p u s (view w)"
    and "credentials_fit c i p s (credentials (view w) (identity_key c i))"
  shows "\<exists>w'. run_state (recovery_sequence sdk m r i (Some p)) w = (Inr (), w') \<and>
    recovered c r i p (view w')"
  using assms by (rule resume_sequence)

lemma interrupted_recovery_resumes_witness:
  "\<exists>w'. run_state (recovery_sequence demo_sdk demo_manager demo_recovery demo_identity
      (Some demo_plan)) demo_store = (Inr (), w') \<and>
    recovered (mem_clients demo_scope) demo_recovery demo_identity demo_plan w'"
  by (rule interrupted_recovery_resumes[OF demo_live demo_target demo_ready])
    (simp add: credentials_fit_def stage_order_defs demo_store_def
      validateRecoverableFederatedIdentityCredentialSet_def)

section \<open>Guards of the commit\<close>

text \<open>C4. Ownership changes hands only under the fence and with the exact credential in place:
  if a commit changes Azure at all, then the identity was marked for this recovery and target,
  the identity's only federated credential had the planned name, resource ID, issuer, subject and
  audiences, and the change is exactly the two tags written by the commit.\<close>

theorem commit_changes_only_fenced_identity:
  assumes "recovery_clients sdk m = Inr c" and "arm_laws view c" and "recovery_target r i"
    and "run_state (Commit sdk m r i (Some p)) w = (res, w')" and "view w' \<noteq> view w"
  shows "\<exists>u. identities (view w) (identity_key c i) = Some u \<and>
    tagValue (id_Tags u) workloadIdentityRecoveryUIDTag = r_UID r \<and>
    tagValue (id_Tags u) workloadIdentityRecoveryTargetUIDTag = wi_UID i \<and>
    validateExactFederatedIdentityCredentialSet (credentials (view w) (identity_key c i))
      (FederatedIdentityCredentialName (wis_Azure (wi_Spec i)))
      (desiredFederatedIdentityCredentialID (ic_scope c) i)
      (desiredRecoveryFederatedIdentityCredential p) = None \<and>
    view w' = set_tags (identity_key c i) (mergeTags (id_Tags u)
      (fmupd workloadIdentityUIDTag (Some (wi_UID i))
        (fmupd workloadIdentityLastRecoveryUIDTag (Some (r_UID r)) fmempty))) (view w)"
  using Commit_effect[OF assms(1,2,4)] assms(3,5)
  by (auto simp: tag_write_def exact_credentials_def stage_InProgress_iff)

text \<open>The demonstration run up to each of the later stages.\<close>

lemma demo_committable:
  obtains w :: arm_state and u where
    "ready (mem_clients demo_scope) demo_recovery demo_identity demo_plan u recoveryStageInProgress w"
    and "exact_credentials (mem_clients demo_scope) demo_identity demo_plan
      (credentials w (''rg'', ''app-identity''))"
proof -
  obtain w1 where rdy: "ready (mem_clients demo_scope) demo_recovery demo_identity demo_plan
      (demo_uami\<lparr>id_Tags := mark_tags demo_recovery demo_identity (id_Tags demo_uami)\<rparr>)
      recoveryStageInProgress w1"
    and w1: "w1 = set_tags (''rg'', ''app-identity'')
      (mark_tags demo_recovery demo_identity (id_Tags demo_uami)) demo_store"
    using live_MarkInProgress[OF demo_live demo_target demo_ready] unfolding demo_key by metis
  have "credentials w1 (''rg'', ''app-identity'') = []" by (simp add: w1 demo_store_def)
  then have fit: "validateRecoverableFederatedIdentityCredentialSet (ic_scope (mem_clients demo_scope))
      demo_identity (credentials w1 (identity_key (mem_clients demo_scope) demo_identity)) = None"
    by (simp add: demo_key validateRecoverableFederatedIdentityCredentialSet_def)
  obtain w2 :: arm_state where "identities w2 = identities w1"
    and "exact_credentials (mem_clients demo_scope) demo_identity demo_plan
      (credentials w2 (''rg'', ''app-identity''))"
    by (rule live_EnsureFederatedIdentityCredential[OF demo_live rdy fit]) (simp add: demo_key)
  moreover from this(1) rdy have "ready (mem_clients demo_scope) demo_recovery demo_identity demo_plan
      (demo_uami\<lparr>id_Tags := mark_tags demo_recovery demo_identity (id_Tags demo_uami)\<rparr>)
      recoveryStageInProgress w2"
    by (simp only: ready_def)
  ultimately show thesis using that by blast
qed

lemma demo_commit_run:
  obtains w w' u where "run_state (Commit demo_sdk demo_manager demo_recovery demo_identity
      (Some demo_plan)) w = (Inr (), w')" and "w' \<noteq> w"
    and "ready (mem_clients demo_scope) demo_recovery demo_identity demo_plan u
      recoveryStageCommittedFenced w'"
    and "exact_credentials (mem_clients demo_scope) demo_identity demo_plan
      (credentials w' (''rg'', ''app-identity''))"
proof -
  obtain w u where rdy: "ready (mem_clients demo_scope) demo_recovery demo_identity demo_plan u
      recoveryStageInProgress w"
    and exact: "exact_credentials (mem_clients demo_scope) demo_identity demo_plan
      (credentials w (''rg'', ''app-identity''))"
    using demo_committable by blast
  obtain w' where run: "run_state (Commit demo_sdk demo_manager demo_recovery demo_identity
      (Some demo_plan)) w = (Inr (), w')"
    and w': "w' = set_tags (''rg'', ''app-identity'')
      (commit_tags demo_recovery demo_identity (id_Tags u)) w"
    and rdy': "ready (mem_clients demo_scope) demo_recovery demo_identity demo_plan
      (u\<lparr>id_Tags := commit_tags demo_recovery demo_identity (id_Tags u)\<rparr>)
      recoveryStageCommittedFenced w'"
    using live_Commit[OF demo_live demo_target rdy] exact unfolding demo_key by metis
  have "view_stage demo_recovery demo_identity (''rg'', ''app-identity'') w = Some recoveryStageInProgress"
    "view_stage demo_recovery demo_identity (''rg'', ''app-identity'') w' = Some recoveryStageCommittedFenced"
    using rdy rdy' by (simp_all only: ready_def view_stage_def demo_key option.case sum.case)
  then have "w' \<noteq> w" by auto
  with run w' rdy' exact that show thesis by simp
qed

lemma commit_changes_only_fenced_identity_witness:
  "\<exists>w w' u. w' \<noteq> w \<and> identities w (identity_key (mem_clients demo_scope) demo_identity) = Some u \<and>
     tagValue (id_Tags u) workloadIdentityRecoveryUIDTag = r_UID demo_recovery \<and>
     view_stage demo_recovery demo_identity (''rg'', ''app-identity'') w' = Some recoveryStageCommittedFenced"
proof -
  obtain w w' u where run: "run_state (Commit demo_sdk demo_manager demo_recovery demo_identity
      (Some demo_plan)) w = (Inr (), w')" and "w' \<noteq> w"
    and "ready (mem_clients demo_scope) demo_recovery demo_identity demo_plan u
      recoveryStageCommittedFenced w'"
    using demo_commit_run by metis
  then have "view_stage demo_recovery demo_identity (''rg'', ''app-identity'') w'
      = Some recoveryStageCommittedFenced"
    by (simp only: ready_def view_stage_def demo_key option.case sum.case)
  with commit_changes_only_fenced_identity[OF demo_clients mem_arm_laws demo_target run \<open>w' \<noteq> w\<close>]
    \<open>w' \<noteq> w\<close> show ?thesis by blast
qed

text \<open>C5. The fence falls only at the end: whatever a finalize call returns, it changes Azure only
  when the identity is already committed to the target and its exact credential is in place, and
  when it succeeds the identity is complete and passes the ordinary ownership check of the new
  WorkloadIdentity.\<close>

theorem finalize_only_after_commit:
  assumes "recovery_clients sdk m = Inr c" and "arm_laws view c" and "recovery_target r i"
    and "run_state (Finalize sdk m r i (Some p)) w = (res, w')"
  shows "(view w' = view w \<or>
      view_stage r i (identity_key c i) (view w) = Some recoveryStageCommittedFenced \<and>
      exact_credentials c i p (credentials (view w) (identity_key c i)) \<and>
      view_stage r i (identity_key c i) (view w') = Some recoveryStageComplete) \<and>
    (res = Inr () \<longrightarrow> (\<exists>u. identities (view w') (identity_key c i) = Some u \<and>
      recoveryStage r i u = Inr recoveryStageComplete \<and>
      exact_credentials c i p (credentials (view w') (identity_key c i))))"
proof -
  have "view w' = view w \<or>
      view_stage r i (identity_key c i) (view w) = Some recoveryStageCommittedFenced \<and>
      exact_credentials c i p (credentials (view w) (identity_key c i)) \<and>
      view_stage r i (identity_key c i) (view w') = Some recoveryStageComplete"
    using Finalize_effect[OF assms(1,2,4)] stage_after_finalize[OF assms(3)]
    by (auto simp: tag_write_def view_stage_def simp del: mergeTags_empty)
  moreover have "res = Inr () \<longrightarrow> (\<exists>u. identities (view w') (identity_key c i) = Some u \<and>
      recoveryStage r i u = Inr recoveryStageComplete \<and>
      exact_credentials c i p (credentials (view w') (identity_key c i)))"
    using Finalize_InrD[OF assms(1,2), of r i p w "()" w'] assms(4)
    by (auto simp: view_stage_def split: option.splits sum.splits)
  ultimately show ?thesis by blast
qed

lemma finalize_only_after_commit_witness:
  "\<exists>(w' :: arm_state) u. identities w' (identity_key (mem_clients demo_scope) demo_identity) = Some u \<and>
     recoveryStage demo_recovery demo_identity u = Inr recoveryStageComplete"
proof -
  obtain w u where "ready (mem_clients demo_scope) demo_recovery demo_identity demo_plan u
      recoveryStageCommittedFenced w"
    and "exact_credentials (mem_clients demo_scope) demo_identity demo_plan
      (credentials w (''rg'', ''app-identity''))"
    using demo_commit_run by metis
  then obtain w' where "run_state (Finalize demo_sdk demo_manager demo_recovery demo_identity
      (Some demo_plan)) w = (Inr (), w')"
    using resume_Finalize[OF demo_live demo_target] unfolding demo_key by blast
  from finalize_only_after_commit[OF demo_clients mem_arm_laws demo_target this, THEN conjunct2]
  show ?thesis by auto
qed

section \<open>The fence\<close>

text \<open>A recovery that finds the identity held or completed by another one is blocked.\<close>

lemma second_recovery_blocked:
  assumes "recovery_target r i" and "recovery_target r' i'" and "r_UID r' \<noteq> r_UID r"
    and "recoveryStage r i u \<in> {Inr recoveryStageInProgress, Inr recoveryStageCommittedFenced} \<or>
         recoveryStage r i u = Inr recoveryStageComplete \<and> r_SourceUID r' \<noteq> wi_UID i"
  shows "\<exists>err. recoveryStage r' i' u = Inl err \<and>
    RecoveryBlockedReason err = Some recoveryReasonRecoveryMarkerConflict"
proof -
  consider (held) "tagValue (id_Tags u) workloadIdentityRecoveryUIDTag = r_UID r"
    | (over) "tagValue (id_Tags u) workloadIdentityUIDTag \<noteq> r_SourceUID r'" "\<not> fenced (id_Tags u)"
        "tagValue (id_Tags u) workloadIdentityLastRecoveryUIDTag = r_UID r"
    using assms(4) by (auto simp: stage_iffs[OF assms(1)])
  then have "recoveryStage r' i' u \<noteq> Inr s" for s
  proof cases
    case held
    then show ?thesis using assms(1-3) by (cases s)
      (auto simp: stage_iffs[OF assms(2)] fenced_def recovery_target_def)
  next
    case over
    then show ?thesis using assms(1-3) by (cases s)
      (auto simp: stage_iffs[OF assms(2)] fenced_def recovery_target_def)
  qed
  then obtain err where "recoveryStage r' i' u = Inl err"
    by (cases "recoveryStage r' i' u") auto
  with recoveryStage_Inl show ?thesis by blast
qed

text \<open>C6. Until a recovery is finalized, nobody else owns the identity.  For a stored identity in
  the stages InProgress or CommittedFenced, the ownership check that guards the ordinary ensure and
  delete fails for every WorkloadIdentity, the new owner included, with the reason
  RecoveryInProgress and without recovery evidence; and every other recovery object finds the
  identity blocked, whatever its source and target, so all its operations fail without changing it.\<close>

theorem fence_excludes_every_owner:
  assumes "recovery_target r i"
    and "recoveryStage r i u \<in> {Inr recoveryStageInProgress, Inr recoveryStageCommittedFenced}"
  shows "(\<exists>err. validateUserAssignedIdentityOwnership j u = Some err \<and>
      ConflictReason err = Some ReasonRecoveryInProgress \<and> RecoveryRequiredDetails err = None) \<and>
    (recovery_target r' i' \<and> r_UID r' \<noteq> r_UID r \<longrightarrow>
      (\<exists>err. recoveryStage r' i' u = Inl err \<and>
         RecoveryBlockedReason err = Some recoveryReasonRecoveryMarkerConflict))"
proof
  show "\<exists>err. validateUserAssignedIdentityOwnership j u = Some err \<and>
      ConflictReason err = Some ReasonRecoveryInProgress \<and> RecoveryRequiredDetails err = None"
    using assms by (auto simp: validateUserAssignedIdentityOwnership_def Let_def stage_iffs recovery_target_def)
qed (use second_recovery_blocked[OF assms(1)] assms(2) in blast)

lemma fence_excludes_every_owner_witness:
  "\<exists>u err err'. validateUserAssignedIdentityOwnership demo_identity u = Some err \<and>
     ConflictReason err = Some ReasonRecoveryInProgress \<and>
     recoveryStage (demo_recovery\<lparr>r_Meta := demo_meta ''ns'' ''other'' ''other''\<rparr>) demo_identity u = Inl err'"
proof -
  let ?r = "demo_recovery\<lparr>r_Meta := demo_meta ''ns'' ''other'' ''other''\<rparr>"
  have target: "recovery_target ?r demo_identity"
    using demo_target by (simp add: recovery_target_def demo_meta_def)
  have other: "r_UID ?r \<noteq> r_UID demo_recovery" by (simp add: demo_meta_def)
  obtain w u where "ready (mem_clients demo_scope) demo_recovery demo_identity demo_plan u
      recoveryStageInProgress w"
    using demo_committable by blast
  then have "recoveryStage demo_recovery demo_identity u
      \<in> {Inr recoveryStageInProgress, Inr recoveryStageCommittedFenced}"
    by (simp add: ready_def)
  from fence_excludes_every_owner[OF demo_target this, of demo_identity ?r demo_identity] target other
  show ?thesis by blast
qed

end
