(* ===== verification/Identity_Properties.thy ===== *)
theory Identity_Properties
  imports Recovery_Properties
begin

text \<open>
  Properties of the identity manager of Azure\_Identity: what the ownership check accepts, that
  ensure and delete never touch an identity they do not own, and what a successful ensure leaves
  in a store that satisfies the laws of Arm\_Store.
\<close>

section \<open>The ownership check\<close>

text \<open>The ownership check accepts exactly the unfenced identities that carry the operator's
  tags with this WorkloadIdentity's logical key and UID; two WorkloadIdentities accepted for one
  identity therefore have the same UID and the same logical key.  It offers recovery exactly for an
  unfenced identity with this logical key that the operator created for another, non-empty UID, and
  the evidence names that UID.\<close>

lemma ownership_check_exact:
  "(validateUserAssignedIdentityOwnership i u = None \<longleftrightarrow>
      tagValue (id_Tags u) workloadIdentityRecoveryUIDTag = '''' \<and>
      tagValue (id_Tags u) workloadIdentityRecoveryTargetUIDTag = '''' \<and>
      tag_pointer (id_Tags u) workloadIdentityKeyTag
        = Some (LogicalIdentityKey (wi_namespace i) (wi_name i)) \<and>
      tag_pointer (id_Tags u) workloadIdentityUIDTag = Some (wi_UID i) \<and>
      tag_pointer (id_Tags u) managedByTag = Some ''azure-workload-identity-operator'' \<and>
      tag_pointer (id_Tags u) createdByOperatorTag = Some ''true'' \<and>
      tag_pointer (id_Tags u) operatorAPIGroupTag = Some ''workloadidentity.azure.micosolutions.se'') \<and>
   ((\<exists>err. validateUserAssignedIdentityOwnership i u = Some err \<and>
       RecoveryRequiredDetails err = Some evidence) \<longleftrightarrow>
      \<not> fenced (id_Tags u) \<and>
      tagValue (id_Tags u) workloadIdentityKeyTag = LogicalIdentityKey (wi_namespace i) (wi_name i) \<and>
      rre_PreviousWorkloadIdentityUID evidence \<notin> {'''', wi_UID i} \<and>
      operator_tags (id_Tags u) (rre_PreviousWorkloadIdentityUID evidence))"
proof
  show "validateUserAssignedIdentityOwnership i u = None \<longleftrightarrow>
      tagValue (id_Tags u) workloadIdentityRecoveryUIDTag = '''' \<and>
      tagValue (id_Tags u) workloadIdentityRecoveryTargetUIDTag = '''' \<and>
      tag_pointer (id_Tags u) workloadIdentityKeyTag
        = Some (LogicalIdentityKey (wi_namespace i) (wi_name i)) \<and>
      tag_pointer (id_Tags u) workloadIdentityUIDTag = Some (wi_UID i) \<and>
      tag_pointer (id_Tags u) managedByTag = Some ''azure-workload-identity-operator'' \<and>
      tag_pointer (id_Tags u) createdByOperatorTag = Some ''true'' \<and>
      tag_pointer (id_Tags u) operatorAPIGroupTag = Some ''workloadidentity.azure.micosolutions.se''"
    by (auto simp: validate_None_iff fenced_def hasTags_workloadIdentityTags operator_tags_def
        operatorName_def operatorAPIGroupValue_def)
qed (use validate_recovery_iff[of i u evidence] in \<open>auto simp: map_option_case split: option.splits\<close>)

section \<open>Demonstration runs\<close>

lemma demo_name_valid [simp]: "ValidateUserAssignedIdentityName ''app-identity'' = None"
  by (simp add: ValidateUserAssignedIdentityName_None userAssignedIdentityNamePattern_def
      char_class_defs is_alnum_def)

definition empty_store :: arm_state where
  "empty_store = \<lparr> identities = (\<lambda>k. None), credentials = (\<lambda>k. []) \<rparr>"

lemma demo_group: "run_state (rg_Get (mem_groups demo_scope) n) s
    = (Inr \<lparr> rg_ID = Some n, rg_Location = Some ''eastus'' \<rparr>, s)"
  by (simp add: mem_groups_def demo_scope_def)

lemma demo_foreign: "\<exists>err. validateUserAssignedIdentityOwnership demo_identity demo_uami = Some err"
  using demo_recoverable
  by (cases "validateUserAssignedIdentityOwnership demo_identity demo_uami")
    (auto simp: validate_None_iff hasTags_workloadIdentityTags dest: operator_tags_uid)

lemma demo_get: "run_state (ui_Get (mem_identities demo_scope) ''rg'' ''app-identity'')
    demo_store = (Inr demo_uami, demo_store)"
  by (simp add: mem_identities_def demo_store_def)

lemma demo_missing: "run_state (ui_Get (mem_identities demo_scope) ''rg'' ''app-identity'')
    empty_store = (Inl not_found, empty_store)"
  by (simp add: mem_identities_def empty_store_def)

lemma demo_unrecorded: "recorded_missing_identity demo_scope demo_identity = None"
  by (simp add: recorded_missing_identity_def recordedAzureResourceID_def) (simp add: demo_identity_def)

definition recorded_identity :: WorkloadIdentity where
  "recorded_identity = demo_identity\<lparr>wi_Status := (wi_Status demo_identity)
     \<lparr>wi_AzureResources := [\<lparr> ar_ID = desiredUserAssignedIdentityID demo_scope demo_identity,
        ar_Kind = azureResourceKindUserAssignedIdentity \<rparr>]\<rparr>\<rparr>"

section \<open>Ensure and delete stop at a foreign identity\<close>

text \<open>C7. When the identity found in Azure fails the ownership check, ensure and delete return
  the check's error in the world right after the read: no write, no credential call, no deletion
  follows, whatever the clients do.\<close>

theorem foreign_identity_untouched:
  assumes "ValidateUserAssignedIdentityName (userAssignedIdentityName i) = None"
    and "run_state (rg_Get (ic_resourceGroups c) (resourceGroupName (ic_scope c))) w = (Inr g, w1)"
    and "run_state (ui_Get (ic_identities c) (resourceGroupName (ic_scope c))
           (userAssignedIdentityName i)) w1 = (Inr u, w2)"
    and "validateUserAssignedIdentityOwnership i u = Some err"
  shows "run_state (ensure c i issuerURL subject) w = (Inl err, w2) \<and>
    run_state (delete_identity c i) w1 = (Inl err, w2)"
  using assms
  by (simp add: ensure_def ensureUserAssignedIdentity_def get_or_create_identity_def
      delete_identity_def Let_def run_io_try ensureResourceGroup_found)

lemma foreign_identity_untouched_witness:
  "\<exists>err. run_state (ensure (mem_clients demo_scope) demo_identity ''issuer'' ''subject'') demo_store
       = (Inl err, demo_store) \<and>
     run_state (delete_identity (mem_clients demo_scope) demo_identity) demo_store = (Inl err, demo_store)"
proof -
  obtain err where "validateUserAssignedIdentityOwnership demo_identity demo_uami = Some err"
    using demo_foreign by blast
  from foreign_identity_untouched[OF _ _ _ this, where c = "mem_clients demo_scope" and w = demo_store
      and ?w1.0 = demo_store and ?w2.0 = demo_store
      and g = "\<lparr> rg_ID = Some ''rg'', rg_Location = Some ''eastus'' \<rparr>"]
  show ?thesis by (auto simp: demo_group demo_get)
qed

text \<open>C8. An identity that the status records but Azure no longer has is not created again:
  ensure reports an ownership conflict and stops after the read.\<close>

theorem recorded_identity_not_recreated:
  assumes "ValidateUserAssignedIdentityName (userAssignedIdentityName i) = None"
    and "run_state (rg_Get (ic_resourceGroups c) (resourceGroupName (ic_scope c))) w = (Inr g, w1)"
    and "run_state (ui_Get (ic_identities c) (resourceGroupName (ic_scope c))
           (userAssignedIdentityName i)) w1 = (Inl e, w2)" and "isNotFound e"
    and "recordedAzureResourceID i azureResourceKindUserAssignedIdentity = Some recorded"
    and "equal_fold recorded (desiredUserAssignedIdentityID (ic_scope c) i)"
  shows "run_state (ensure c i issuerURL subject) w
    = (Inl (userAssignedIdentityOwnershipConflict recorded), w2)"
  using assms
  by (simp add: ensure_def ensureUserAssignedIdentity_def get_or_create_identity_def
      recorded_missing_identity_def Let_def run_io_try ensureResourceGroup_found)

lemma recorded_identity_not_recreated_witness:
  "\<exists>recorded. run_state (ensure (mem_clients demo_scope) recorded_identity ''issuer'' ''subject'')
       empty_store = (Inl (userAssignedIdentityOwnershipConflict recorded), empty_store)"
proof -
  have names: "userAssignedIdentityName recorded_identity = ''app-identity''"
    by (simp add: recorded_identity_def userAssignedIdentityName_def demo_identity_def)
  have desired: "desiredUserAssignedIdentityID demo_scope recorded_identity
      = desiredUserAssignedIdentityID demo_scope demo_identity"
    by (simp only: desiredUserAssignedIdentityID_def names demo_names)
  have recorded: "recordedAzureResourceID recorded_identity azureResourceKindUserAssignedIdentity
      = Some (desiredUserAssignedIdentityID demo_scope demo_identity)"
    by (simp add: recordedAzureResourceID_def recorded_identity_def)
  from recorded_identity_not_recreated[OF _ _ _ _ this, where c = "mem_clients demo_scope"
      and w = empty_store and ?w1.0 = empty_store and ?w2.0 = empty_store and e = not_found
      and g = "\<lparr> rg_ID = Some ''rg'', rg_Location = Some ''eastus'' \<rparr>"]
  show ?thesis by (auto simp: names desired demo_group demo_missing)
qed

section \<open>Ensure over a store\<close>

definition groups_neutral :: "('w \<Rightarrow> arm_state) \<Rightarrow> 'w resourceGroupsClient \<Rightarrow> bool" where
  "groups_neutral view g \<longleftrightarrow>
     (\<forall>n v. preserves (\<lambda>w. view w = v) (rg_Get g n)) \<and>
     (\<forall>n d v. preserves (\<lambda>w. view w = v) (rg_CreateOrUpdate g n d))"

lemma ensureResourceGroup_view:
  assumes "groups_neutral view g" and "run_state (ensureResourceGroup g scope) w = (r, w')"
  shows "view w' = view w"
proof -
  have "preserves (\<lambda>x. view x = view w) (ensureResourceGroup g scope)"
    unfolding ensureResourceGroup_def using assms(1)
    by (intro preserves_intros) (auto simp: groups_neutral_def intro!: preserves_intros)
  from preservesD[OF this refl assms(2)] show ?thesis .
qed

lemma get_or_create_InrD:
  assumes "arm_laws view c" and "run_state (get_or_create_identity c i) w = (Inr u, w')"
  shows "(view w' = view w \<and> identities (view w) (identity_key c i) = Some u) \<or>
    (identities (view w) (identity_key c i) = None \<and> id_Tags u = workloadIdentityTags i \<and>
     view w' = put_identity (identity_key c i) u (view w))"
proof -
  let ?rg = "resourceGroupName (ic_scope c)" and ?n = "userAssignedIdentityName i"
  obtain r w1 where get: "run_state (ui_Get (ic_identities c) ?rg ?n) w = (r, w1)" by fastforce
  note law = arm_get[OF assms(1) get]
  show ?thesis
  proof (cases r)
    case (Inr j)
    then show ?thesis using assms(2) get law by (auto simp: get_or_create_identity_def identity_key_def Let_def)
  next
    case (Inl e)
    define d where "d = \<lparr> id_ID = None, id_Location = Some (location (ic_scope c)),
      id_Tags = workloadIdentityTags i, id_Properties = None \<rparr>"
    from Inl assms(2) get have nf: "isNotFound e"
      and put: "run_state (ui_CreateOrUpdate (ic_identities c) ?rg ?n d) w1 = (Inr u, w')"
      by (auto simp: get_or_create_identity_def d_def errorf_wrap_def external_def Let_def
          elim!: io_map_err_InrE split: if_splits option.splits)
    have "writes view (ui_CreateOrUpdate (ic_identities c) ?rg ?n d) (\<lambda>s r s'. case r of
        Inr i \<Rightarrow> id_Tags i = id_Tags d \<and> s' = put_identity (?rg, ?n) i s
      | Inl e \<Rightarrow> s' = s \<or> (\<exists>i. id_Tags i = id_Tags d \<and> s' = put_identity (?rg, ?n) i s))"
      using assms(1) by (simp add: arm_laws_def identity_laws_def)
    from writesD[OF this put] nf Inl law show ?thesis by (simp add: identity_key_def d_def)
  qed
qed

lemma ensureFIC_InrD:
  assumes "arm_laws view c"
    and "run_state (ensureFederatedIdentityCredential c i issuerURL subject) w = (Inr f, w')"
  shows "identities (view w') = identities (view w) \<and>
    find (named (FederatedIdentityCredentialName (wis_Azure (wi_Spec i))))
      (credentials (view w') (identity_key c i)) = Some f \<and>
    validateFederatedIdentityCredential (FederatedIdentityCredentialName (wis_Azure (wi_Spec i))) f
      (desiredFederatedIdentityCredential issuerURL subject) = None \<and>
    (view w' = view w \<or> (\<exists>x. view w' = put_credential (identity_key c i) x (view w)))"
proof -
  let ?rg = "resourceGroupName (ic_scope c)" and ?n = "userAssignedIdentityName i"
    and ?f = "FederatedIdentityCredentialName (wis_Azure (wi_Spec i))"
    and ?d = "desiredFederatedIdentityCredential issuerURL subject"
  obtain r w1 where get: "run_state (fic_Get (ic_federatedCredentials c) ?rg ?n ?f) w = (r, w1)"
    by fastforce
  note law = arm_get_credential[OF assms(1) get]
  consider (kept) "r = Inr f" "w' = w1" "validateFederatedIdentityCredential ?f f ?d = None"
    | (put) "run_state (fic_CreateOrUpdate (ic_federatedCredentials c) ?rg ?n ?f ?d) w1 = (Inr f, w')"
        "validateFederatedIdentityCredential ?f f ?d = None"
    using assms(2) get
    by (auto simp: ensureFederatedIdentityCredential_def reconcile_credential_def Let_def
        errorf_wrap_def external_def elim!: io_try_InrE io_map_err_InrE
        split: sum.splits if_splits option.splits)
  then show ?thesis
  proof cases
    case kept
    then show ?thesis using law by (simp add: identity_key_def)
  next
    case put
    from arm_put_credential[OF assms(1) put(1)] law put(2) show ?thesis
      by (auto simp: identity_key_def)
  qed
qed

lemma ensureUAI_InrD:
  assumes "arm_laws view c" and "groups_neutral view (ic_resourceGroups c)"
    and "run_state (ensureUserAssignedIdentity c i) w = (Inr (rs, u), w')"
  shows "((view w' = view w \<and> identities (view w) (identity_key c i) = Some u) \<or>
      (identities (view w) (identity_key c i) = None \<and>
       view w' = put_identity (identity_key c i) u (view w))) \<and>
    validateUserAssignedIdentityOwnership i u = None \<and>
    ValidateUserAssignedIdentityName (userAssignedIdentityName i) = None"
proof -
  obtain g w1 where group: "run_state (ensureResourceGroup (ic_resourceGroups c) (ic_scope c)) w = (Inr g, w1)"
    and get: "run_state (get_or_create_identity c i) w1 = (Inr u, w')"
    and own: "validateUserAssignedIdentityOwnership i u = None"
    and name: "ValidateUserAssignedIdentityName (userAssignedIdentityName i) = None"
    using assms(3) unfolding ensureUserAssignedIdentity_def
    by (auto elim!: io_try_InrE split: option.splits)
  from ensureResourceGroup_view[OF assms(2) group] get_or_create_InrD[OF assms(1) get] own name
  show ?thesis by auto
qed

lemma identities_put_identity [simp]:
  "identities (put_identity k u s) k' = (if k' = k then Some u else identities s k')"
  "credentials (put_identity k u s) = credentials s"
  by (simp_all add: put_identity_def)

lemma ensure_InrD:
  assumes "arm_laws view c" and "groups_neutral view (ic_resourceGroups c)"
    and "run_state (ensure c i issuerURL subject) w = (Inr mi, w')"
  obtains rs u f w1 where "run_state (ensureUserAssignedIdentity c i) w = (Inr (rs, u), w1)"
    and "run_state (ensureFederatedIdentityCredential c i issuerURL subject) w1 = (Inr f, w')"
    and "mi_ClientID mi = identity_property ip_ClientID u"
    and "mi_PrincipalID mi = identity_property ip_PrincipalID u"
    and "mi_TenantID mi = identity_property ip_TenantID u"
  using assms(3) unfolding ensure_def by (auto elim!: io_try_InrE)

text \<open>C9. A successful ensure leaves, under the resource's key, an identity that passes the
  ownership check (the one it found, or one created where none was stored) and, under the
  configured name, a federated credential with the requested issuer, subject and audience; the
  returned IDs are those of that identity, and no other identity or credential list changed.\<close>

theorem ensure_establishes_trust:
  assumes "arm_laws view c" and "groups_neutral view (ic_resourceGroups c)"
    and "run_state (ensure c i issuerURL subject) w = (Inr mi, w')"
  shows "\<exists>u f. identities (view w') (identity_key c i) = Some u \<and>
    identities (view w) (identity_key c i) \<in> {None, Some u} \<and>
    validateUserAssignedIdentityOwnership i u = None \<and>
    find (named (FederatedIdentityCredentialName (wis_Azure (wi_Spec i))))
      (credentials (view w') (identity_key c i)) = Some f \<and>
    validateFederatedIdentityCredential (FederatedIdentityCredentialName (wis_Azure (wi_Spec i))) f
      (desiredFederatedIdentityCredential issuerURL subject) = None \<and>
    mi_ClientID mi = identity_property ip_ClientID u \<and>
    mi_PrincipalID mi = identity_property ip_PrincipalID u \<and>
    mi_TenantID mi = identity_property ip_TenantID u \<and>
    (\<forall>k. k \<noteq> identity_key c i \<longrightarrow>
       identities (view w') k = identities (view w) k \<and>
       credentials (view w') k = credentials (view w) k)"
proof -
  obtain rs u f w1 where 1: "run_state (ensureUserAssignedIdentity c i) w = (Inr (rs, u), w1)"
    and 2: "run_state (ensureFederatedIdentityCredential c i issuerURL subject) w1 = (Inr f, w')"
    and ids: "mi_ClientID mi = identity_property ip_ClientID u"
      "mi_PrincipalID mi = identity_property ip_PrincipalID u"
      "mi_TenantID mi = identity_property ip_TenantID u"
    using ensure_InrD[OF assms] by metis
  from ensureUAI_InrD[OF assms(1,2) 1] ensureFIC_InrD[OF assms(1) 2] ids show ?thesis
    by (intro exI[of _ u] exI[of _ f]) auto
qed

lemma demo_groups_neutral: "groups_neutral (\<lambda>s. s) (ic_resourceGroups (mem_clients demo_scope))"
  by (simp add: groups_neutral_def mem_groups_def preserves_def)

lemma demo_ensure:
  "\<exists>mi w'. run_state (ensure (mem_clients demo_scope) demo_identity ''https://issuer'' ''subject'')
     empty_store = (Inr mi, w')"
proof -
  have own: "validateUserAssignedIdentityOwnership demo_identity (mem_created demo_scope ''rg'' n
      \<lparr> id_ID = None, id_Location = l, id_Tags = workloadIdentityTags demo_identity,
        id_Properties = None \<rparr>) = None" for n l
    by (rule validate_created) (simp add: mem_created_def)
  have fic: "validateFederatedIdentityCredential n (mem_stored demo_scope rg i f
      (desiredFederatedIdentityCredential issuer subj)) (desiredFederatedIdentityCredential issuer subj)
      = None" for n rg i f issuer subj
    by (simp add: validate_fic_iff)
      (simp add: mem_stored_def desiredFederatedIdentityCredential_def stringValues_def)
  let ?i = "mem_created demo_scope ''rg'' ''app-identity'' \<lparr> id_ID = None, id_Location = Some ''eastus'',
    id_Tags = workloadIdentityTags demo_identity, id_Properties = None \<rparr>"
  let ?s = "put_identity (''rg'', ''app-identity'') ?i empty_store"
  let ?f = "FederatedIdentityCredentialName (wis_Azure (wi_Spec demo_identity))"
  have put: "run_state (ui_CreateOrUpdate (mem_identities demo_scope) ''rg'' ''app-identity''
      \<lparr> id_ID = None, id_Location = Some (location demo_scope),
        id_Tags = workloadIdentityTags demo_identity, id_Properties = None \<rparr>) empty_store = (Inr ?i, ?s)"
    by (simp add: mem_identities_def demo_scope_def)
  have uai: "\<exists>rs. run_state (ensureUserAssignedIdentity (mem_clients demo_scope) demo_identity) empty_store
      = (Inr (rs, ?i), ?s)"
    by (simp add: ensureUserAssignedIdentity_def get_or_create_identity_def Let_def run_simps
        ensureResourceGroup_def demo_group demo_missing demo_unrecorded own put)
  have get: "run_state (fic_Get (mem_credentials demo_scope) ''rg'' ''app-identity'' ?f) ?s
      = (Inl not_found, ?s)"
    by (simp add: mem_credentials_def empty_store_def)
  have "\<exists>f w'. run_state (ensureFederatedIdentityCredential (mem_clients demo_scope) demo_identity
      ''https://issuer'' ''subject'') ?s = (Inr f, w')"
    by (simp add: ensureFederatedIdentityCredential_def reconcile_credential_def Let_def run_simps get)
      (simp add: mem_credentials_def fic)
  with uai show ?thesis by (auto simp: ensure_def run_io_try)
qed

lemma ensure_establishes_trust_witness:
  "\<exists>(w' :: arm_state) u. identities w' (identity_key (mem_clients demo_scope) demo_identity) = Some u \<and>
     validateUserAssignedIdentityOwnership demo_identity u = None"
proof -
  obtain mi w' where "run_state (ensure (mem_clients demo_scope) demo_identity ''https://issuer''
      ''subject'') empty_store = (Inr mi, w')"
    using demo_ensure by blast
  from ensure_establishes_trust[OF mem_arm_laws demo_groups_neutral this] show ?thesis by blast
qed

definition groups_available :: "'w resourceGroupsClient \<Rightarrow> bool" where
  "groups_available g \<longleftrightarrow> (\<forall>n w. \<exists>x. fst (run_state (rg_Get g n) w) = Inr x)"

text \<open>C10. Ensure is idempotent: after a successful ensure, running it again with the same
  arguments against an available Azure succeeds, returns the same identity IDs and writes
  nothing.\<close>

theorem ensure_idempotent:
  assumes "arm_laws view c" and "groups_neutral view (ic_resourceGroups c)"
    and "arm_available view c" and "groups_available (ic_resourceGroups c)"
    and "run_state (ensure c i issuerURL subject) w = (Inr mi, w')"
  shows "\<exists>mi' w''. run_state (ensure c i issuerURL subject) w' = (Inr mi', w'') \<and>
    view w'' = view w' \<and> mi_ClientID mi' = mi_ClientID mi \<and>
    mi_PrincipalID mi' = mi_PrincipalID mi \<and> mi_TenantID mi' = mi_TenantID mi"
proof -
  let ?rg = "resourceGroupName (ic_scope c)" and ?n = "userAssignedIdentityName i"
    and ?f = "FederatedIdentityCredentialName (wis_Azure (wi_Spec i))"
  obtain rs u f w1 where 1: "run_state (ensureUserAssignedIdentity c i) w = (Inr (rs, u), w1)"
    and 2: "run_state (ensureFederatedIdentityCredential c i issuerURL subject) w1 = (Inr f, w')"
    and ids: "mi_ClientID mi = identity_property ip_ClientID u"
      "mi_PrincipalID mi = identity_property ip_PrincipalID u"
      "mi_TenantID mi = identity_property ip_TenantID u"
    using ensure_InrD[OF assms(1,2,5)] by metis
  note uai = ensureUAI_InrD[OF assms(1,2) 1] and fic = ensureFIC_InrD[OF assms(1) 2]
  obtain g w2 where group: "run_state (rg_Get (ic_resourceGroups c) ?rg) w' = (Inr g, w2)"
    using assms(4) by (metis groups_available_def prod.collapse)
  have "preserves (\<lambda>x. view x = view w') (rg_Get (ic_resourceGroups c) ?rg)"
    using assms(2) by (simp add: groups_neutral_def)
  from preservesD[OF this refl group] have w2: "view w2 = view w'" .
  have "identities (view w2) (?rg, ?n) = Some u" using uai fic w2 by (auto simp: identity_key_def)
  then obtain w3 where get: "run_state (ui_Get (ic_identities c) ?rg ?n) w2 = (Inr u, w3)"
    and w3: "view w3 = view w'"
    using available_get[OF assms(1,3)] w2 by metis
  obtain r w4 where fget: "run_state (fic_Get (ic_federatedCredentials c) ?rg ?n ?f) w3 = (r, w4)"
    by fastforce
  have "find (named ?f) (credentials (view w3) (?rg, ?n)) = Some f"
    using fic w3 by (simp add: identity_key_def)
  moreover have "succeeds_in view (\<lambda>s. find (named ?f) (credentials s (?rg, ?n)) \<noteq> None)
      (fic_Get (ic_federatedCredentials c) ?rg ?n ?f)"
    using assms(3) by (simp add: arm_available_def)
  ultimately obtain x where "r = Inr x"
    using succeeds_inD[OF _ _ fget] by blast
  with fic w3 arm_get_credential(1,2)[OF assms(1) fget] have "r = Inr f" and "view w4 = view w'"
    by (simp_all add: identity_key_def)
  then have "run_state (ensure c i issuerURL subject) w' = (Inr
      \<lparr> mi_ClientID = identity_property ip_ClientID u,
        mi_PrincipalID = identity_property ip_PrincipalID u,
        mi_TenantID = identity_property ip_TenantID u,
        mi_AzureResources = (resource_entry (rg_ID g) azureResourceKindResourceGroup
          @ resource_entry (id_ID u) azureResourceKindUserAssignedIdentity)
          @ resource_entry (fic_ID f) azureResourceKindFederatedIdentityCredential \<rparr>, w4)"
    using uai fic group get fget
    by (simp add: ensure_def ensureUserAssignedIdentity_def get_or_create_identity_def
        ensureFederatedIdentityCredential_def Let_def run_io_try ensureResourceGroup_found)
  with ids \<open>view w4 = view w'\<close> show ?thesis by simp
qed

lemma ensure_idempotent_witness:
  "\<exists>(w' :: arm_state) mi'. run_state (ensure (mem_clients demo_scope) demo_identity ''https://issuer''
     ''subject'') w' = (Inr mi', w')"
proof -
  obtain mi w' where run: "run_state (ensure (mem_clients demo_scope) demo_identity ''https://issuer''
      ''subject'') empty_store = (Inr mi, w')"
    using demo_ensure by blast
  have "groups_available (ic_resourceGroups (mem_clients demo_scope))"
    by (simp add: groups_available_def demo_group)
  from ensure_idempotent[OF mem_arm_laws demo_groups_neutral mem_arm_available this run]
  show ?thesis by blast
qed

text \<open>C11. Delete removes nothing but its own identity: whatever it returns, Azure is unchanged
  or an identity that passed the ownership check was removed together with its credentials.\<close>

theorem delete_only_owned:
  assumes "arm_laws view c" and "run_state (delete_identity c i) w = (res, w')"
  shows "view w' = view w \<or>
    (\<exists>u. identities (view w) (identity_key c i) = Some u \<and>
       validateUserAssignedIdentityOwnership i u = None \<and>
       view w' = drop_identity (identity_key c i) (view w))"
proof -
  let ?rg = "resourceGroupName (ic_scope c)" and ?n = "userAssignedIdentityName i"
  obtain r w1 where get: "run_state (ui_Get (ic_identities c) ?rg ?n) w = (r, w1)" by fastforce
  obtain q w2 where del: "run_state (ui_Delete (ic_identities c) ?rg ?n) w1 = (q, w2)" by fastforce
  have "writes view (ui_Delete (ic_identities c) ?rg ?n) (\<lambda>s r s'. case r of
        Inr u \<Rightarrow> s' = drop_identity (?rg, ?n) s
      | Inl e \<Rightarrow> s' = s \<or> s' = drop_identity (?rg, ?n) s)"
    using assms(1) by (simp add: arm_laws_def identity_laws_def)
  from writesD[OF this del] have "view w2 = view w1 \<or> view w2 = drop_identity (?rg, ?n) (view w1)"
    by (auto split: sum.splits)
  with arm_get[OF assms(1) get] assms(2) get del show ?thesis
    by (auto simp: delete_identity_def Let_def identity_key_def
        split: option.splits sum.splits if_splits)
qed

lemma delete_only_owned_witness:
  "\<exists>res w'. run_state (delete_identity (mem_clients demo_scope) demo_identity) demo_store = (res, w') \<and>
     (w' = demo_store \<or> (\<exists>u. validateUserAssignedIdentityOwnership demo_identity u = None))"
proof -
  obtain res w' where run:
    "run_state (delete_identity (mem_clients demo_scope) demo_identity) demo_store = (res, w')"
    by fastforce
  from delete_only_owned[OF mem_arm_laws run] run show ?thesis by blast
qed

end
