(* ===== verification/Service_Accounts.thy ===== *)
theory Service_Accounts
  imports Kube Azure_Identity
begin

text \<open>
  The ServiceAccount rules of internal/controller/workloadidentity\_controller.go, shared by the
  WorkloadIdentity and the recovery reconcilers: the labels and annotations the operator sets,
  who owns a ServiceAccount, how it came to be managed (created or adopted), and the readiness of
  the OIDC issuer.
\<close>

section \<open>Constants\<close>

definition serviceAccountUseLabel :: string where
  "serviceAccountUseLabel = ''azure.workload.identity/use''"
definition serviceAccountClientID :: string where
  "serviceAccountClientID = ''azure.workload.identity/client-id''"
definition serviceAccountTenantID :: string where
  "serviceAccountTenantID = ''azure.workload.identity/tenant-id''"
definition serviceAccountManagedBy :: string where
  "serviceAccountManagedBy = ''workloadidentity.azure.micosolutions.se/managed-by''"
definition serviceAccountUID :: string where
  "serviceAccountUID = ''workloadidentity.azure.micosolutions.se/workload-identity-uid''"
definition serviceAccountCreatedBy :: string where
  "serviceAccountCreatedBy = ''workloadidentity.azure.micosolutions.se/created-by-operator''"
definition serviceAccountManagerName :: string where
  "serviceAccountManagerName = ''azure-workload-identity-operator''"
definition trueValue :: string where "trueValue = ''true''"

lemmas service_account_const_defs [const_defs] =
  serviceAccountUseLabel_def serviceAccountClientID_def serviceAccountTenantID_def
  serviceAccountManagedBy_def serviceAccountUID_def serviceAccountCreatedBy_def
  serviceAccountManagerName_def trueValue_def

lemma service_account_keys_distinct [simp]:
  "serviceAccountUseLabel \<noteq> serviceAccountManagedBy" "serviceAccountUseLabel \<noteq> serviceAccountUID"
  "serviceAccountUseLabel \<noteq> serviceAccountCreatedBy" "serviceAccountManagedBy \<noteq> serviceAccountUID"
  "serviceAccountManagedBy \<noteq> serviceAccountCreatedBy" "serviceAccountUID \<noteq> serviceAccountCreatedBy"
  "serviceAccountClientID \<noteq> serviceAccountTenantID"
  by (simp_all add: const_defs)

lemmas service_account_keys_distinct_sym [simp] = service_account_keys_distinct[THEN not_sym]

section \<open>Keys and desired metadata\<close>

definition serviceAccountKey :: "WorkloadIdentity \<Rightarrow> NamespacedName" where
  "serviceAccountKey identity =
     \<lparr> nn_Namespace = wi_namespace identity, nn_Name = sar_Name (wis_ServiceAccount (wi_Spec identity)) \<rparr>"

definition serviceAccountSubject :: "WorkloadIdentity \<Rightarrow> string" where
  "serviceAccountSubject identity =
     (let key = serviceAccountKey identity
      in ''system:serviceaccount:'' @ nn_Namespace key @ '':'' @ nn_Name key)"

definition desiredServiceAccountLabels :: "WorkloadIdentity \<Rightarrow> bool \<Rightarrow> string_map" where
  "desiredServiceAccountLabels identity createdByOperator =
     fmupd serviceAccountCreatedBy (fmt_t createdByOperator)
      (fmupd serviceAccountUID (wi_UID identity)
       (fmupd serviceAccountManagedBy serviceAccountManagerName
        (fmupd serviceAccountUseLabel trueValue fmempty)))"

definition desiredServiceAccountAnnotations :: "ManagedIdentity \<Rightarrow> string_map" where
  "desiredServiceAccountAnnotations managed =
     (let annotations = fmupd serviceAccountClientID (mi_ClientID managed) fmempty
      in if mi_TenantID managed \<noteq> ''''
         then fmupd serviceAccountTenantID (mi_TenantID managed) annotations
         else annotations)"

definition mergeStringMap :: "string_map \<Rightarrow> string_map \<Rightarrow> string_map" where
  "mergeStringMap existing desired = existing ++\<^sub>f desired"

section \<open>Conflicts\<close>

definition newServiceAccountConflict :: "string \<Rightarrow> go_error" where
  "newServiceAccountConflict message = ServiceAccountConflictError message ''''"

definition newServiceAccountOwnerConflict :: "string \<Rightarrow> string \<Rightarrow> go_error" where
  "newServiceAccountOwnerConflict ownerUID message = ServiceAccountConflictError message ownerUID"

fun isServiceAccountConflict :: "go_error \<Rightarrow> bool" where
  "isServiceAccountConflict (ServiceAccountConflictError message ownerUID) = True"
| "isServiceAccountConflict (WrapError p e) = isServiceAccountConflict e"
| "isServiceAccountConflict _ = False"

fun serviceAccountConflictOwnerUID :: "go_error \<Rightarrow> string option" where
  "serviceAccountConflictOwnerUID (ServiceAccountConflictError message ownerUID) =
     (if ownerUID = '''' then None else Some ownerUID)"
| "serviceAccountConflictOwnerUID (WrapError p e) = serviceAccountConflictOwnerUID e"
| "serviceAccountConflictOwnerUID _ = None"

section \<open>Ownership\<close>

definition sa_key_string :: "ServiceAccount \<Rightarrow> string" where
  "sa_key_string serviceAccount = NamespacedName_String (object_key (sa_Meta serviceAccount))"

definition validateServiceAccountOwnership ::
  "WorkloadIdentity \<Rightarrow> ServiceAccount \<Rightarrow> go_error option" where
  "validateServiceAccountOwnership identity serviceAccount =
     (let ownerUID = map_get (sa_Labels serviceAccount) serviceAccountUID in
      if ownerUID \<noteq> '''' \<and> ownerUID \<noteq> wi_UID identity
      then Some (newServiceAccountOwnerConflict ownerUID
             (''ServiceAccount '' @ fmt_q (sa_key_string serviceAccount)
                @ '' is already managed by another WorkloadIdentity''))
      else if map_get (sa_Labels serviceAccount) serviceAccountManagedBy = serviceAccountManagerName
              \<and> ownerUID = ''''
      then Some (newServiceAccountConflict
             (''ServiceAccount '' @ fmt_q (sa_key_string serviceAccount)
                @ '' is managed by this operator but does not declare a WorkloadIdentity owner''))
      else None)"

definition validateUnownedServiceAccountAnnotations :: "ServiceAccount \<Rightarrow> go_error option" where
  "validateUnownedServiceAccountAnnotations serviceAccount =
     (let clientID = map_get (sa_Annotations serviceAccount) serviceAccountClientID;
          tenantID = map_get (sa_Annotations serviceAccount) serviceAccountTenantID in
      if clientID \<noteq> ''''
      then Some (newServiceAccountConflict
             (''ServiceAccount '' @ fmt_q (sa_key_string serviceAccount)
                @ '' is already annotated for Azure client ID '' @ fmt_q clientID))
      else if tenantID \<noteq> ''''
      then Some (newServiceAccountConflict
             (''ServiceAccount '' @ fmt_q (sa_key_string serviceAccount)
                @ '' is already annotated for Azure tenant ID '' @ fmt_q tenantID))
      else None)"

definition serviceAccountOwnedBy :: "WorkloadIdentity \<Rightarrow> ServiceAccount \<Rightarrow> bool" where
  "serviceAccountOwnedBy identity serviceAccount \<longleftrightarrow>
     map_get (sa_Labels serviceAccount) serviceAccountUID = wi_UID identity"

section \<open>Provenance\<close>

definition serviceAccountStatusMatchesConfiguredName :: "WorkloadIdentity \<Rightarrow> bool" where
  "serviceAccountStatusMatchesConfiguredName identity \<longleftrightarrow>
     wi_Subject (wi_Status identity) \<noteq> '''' \<and>
     wi_Subject (wi_Status identity) = serviceAccountSubject identity"

definition persistedServiceAccountProvenance ::
  "WorkloadIdentity \<Rightarrow> ServiceAccountProvenance option" where
  "persistedServiceAccountProvenance identity =
     (if \<not> serviceAccountStatusMatchesConfiguredName identity then None
      else let provenance = wi_ServiceAccountProvenance (wi_Status identity) in
        if provenance = ServiceAccountProvenanceCreated \<or> provenance = ServiceAccountProvenanceAdopted
        then Some provenance else None)"

definition serviceAccountProvenanceFromLabels ::
  "WorkloadIdentity \<Rightarrow> ServiceAccount \<Rightarrow> ServiceAccountProvenance" where
  "serviceAccountProvenanceFromLabels identity serviceAccount =
     (if map_get (sa_Labels serviceAccount) serviceAccountCreatedBy = trueValue
         \<and> serviceAccountOwnedBy identity serviceAccount
      then ServiceAccountProvenanceCreated else ServiceAccountProvenanceAdopted)"

section \<open>The issuer\<close>

definition isOIDCIssuerReady :: "k8s_lib \<Rightarrow> OIDCIssuer \<Rightarrow> bool" where
  "isOIDCIssuerReady L issuer \<longleftrightarrow>
     (case FindStatusCondition L (oi_Conditions (oi_Status issuer)) OIDCIssuerConditionReady of
        None \<Rightarrow> False
      | Some condition \<Rightarrow> c_Status condition = ConditionTrue)
     \<and> oi_IssuerURL (oi_Status issuer) \<noteq> ''''"

definition issuer_key :: NamespacedName where
  "issuer_key = \<lparr> nn_Namespace = '''', nn_Name = OIDCIssuerName \<rparr>"

section \<open>Consequences\<close>

lemma map_get_merge [simp]:
  "map_get (mergeStringMap m d) k = (if k |\<in>| fmdom d then map_get d k else map_get m k)"
  by (simp add: mergeStringMap_def map_get_add)

lemma dom_desired_labels [simp]:
  "fmdom (desiredServiceAccountLabels i b) =
     {|serviceAccountUseLabel, serviceAccountManagedBy, serviceAccountUID, serviceAccountCreatedBy|}"
  by (auto simp: desiredServiceAccountLabels_def)

lemma desired_label_values [simp]:
  "map_get (desiredServiceAccountLabels i b) serviceAccountUID = wi_UID i"
  "map_get (desiredServiceAccountLabels i b) serviceAccountManagedBy = serviceAccountManagerName"
  "map_get (desiredServiceAccountLabels i b) serviceAccountUseLabel = trueValue"
  "map_get (desiredServiceAccountLabels i b) serviceAccountCreatedBy = fmt_t b"
  by (simp_all add: desiredServiceAccountLabels_def)

lemma ownership_None_iff:
  "validateServiceAccountOwnership i s = None \<longleftrightarrow>
     (map_get (sa_Labels s) serviceAccountUID = '''' \<and>
        map_get (sa_Labels s) serviceAccountManagedBy \<noteq> serviceAccountManagerName) \<or>
     (map_get (sa_Labels s) serviceAccountUID \<noteq> '''' \<and>
        map_get (sa_Labels s) serviceAccountUID = wi_UID i)"
  by (auto simp: validateServiceAccountOwnership_def Let_def)

lemma unowned_None_iff:
  "validateUnownedServiceAccountAnnotations s = None \<longleftrightarrow>
     map_get (sa_Annotations s) serviceAccountClientID = '''' \<and>
     map_get (sa_Annotations s) serviceAccountTenantID = ''''"
  by (auto simp: validateUnownedServiceAccountAnnotations_def Let_def)

lemma persisted_provenance_cases:
  "persistedServiceAccountProvenance i = Some p \<Longrightarrow>
     p = ServiceAccountProvenanceCreated \<or> p = ServiceAccountProvenanceAdopted"
  by (auto simp: persistedServiceAccountProvenance_def Let_def split: if_splits)

lemma sa_conflict_kinds [simp]:
  "ConflictReason (newServiceAccountConflict m) = None"
  "ConflictReason (newServiceAccountOwnerConflict u m) = None"
  "RecoveryBlockedReason (newServiceAccountConflict m) = None"
  "RecoveryBlockedReason (newServiceAccountOwnerConflict u m) = None"
  "isServiceAccountConflict (newServiceAccountConflict m)"
  "isServiceAccountConflict (newServiceAccountOwnerConflict u m)"
  "serviceAccountConflictOwnerUID (newServiceAccountConflict m) = None"
  "serviceAccountConflictOwnerUID (newServiceAccountOwnerConflict u m)
     = (if u = '''' then None else Some u)"
  by (simp_all add: newServiceAccountConflict_def newServiceAccountOwnerConflict_def)

end
