(* ===== verification/Recovery_Controller.thy ===== *)
theory Recovery_Controller
  imports Service_Accounts
begin

text \<open>
  internal/controller/workloadidentityrecovery\_{status,target,serviceaccount,controller}.go: the
  reconciler of WorkloadIdentityRecovery.  The recovery object it mutates in memory is threaded
  through: a \<open>recovery_run\<close> ends with the object, the result and the error.  The Azure side is
  the interface \<open>recovery_manager\<close> (internal/workloadidentity/recovery.go), a record of
  functions; a nil manager or reader is \<open>None\<close>.
\<close>

section \<open>The reconciler\<close>

record 'w recovery_manager =
  rm_Inspect :: "WorkloadIdentityRecovery \<Rightarrow> WorkloadIdentity \<Rightarrow> string \<Rightarrow> string \<Rightarrow>
    ('w, WorkloadIdentityRecoveryPlan) io"
  rm_MarkInProgress :: "WorkloadIdentityRecovery \<Rightarrow> WorkloadIdentity \<Rightarrow>
    WorkloadIdentityRecoveryPlan option \<Rightarrow> ('w, unit) io"
  rm_EnsureFederatedIdentityCredential :: "WorkloadIdentityRecovery \<Rightarrow> WorkloadIdentity \<Rightarrow>
    WorkloadIdentityRecoveryPlan option \<Rightarrow> ('w, unit) io"
  rm_Commit :: "WorkloadIdentityRecovery \<Rightarrow> WorkloadIdentity \<Rightarrow>
    WorkloadIdentityRecoveryPlan option \<Rightarrow> ('w, unit) io"
  rm_Finalize :: "WorkloadIdentityRecovery \<Rightarrow> WorkloadIdentity \<Rightarrow>
    WorkloadIdentityRecoveryPlan option \<Rightarrow> ('w, unit) io"

record 'w RecoveryReconciler =
  rr_Client :: "'w Cluster"
  rr_APIReader :: "'w Reader option"
  rr_Manager :: "'w recovery_manager option"

definition workloadIdentityRecoveryFinalizer :: string where
  "workloadIdentityRecoveryFinalizer = ''workloadidentity.azure.micosolutions.se/recovery-finalizer''"
definition recoveryRetryInterval :: int where "recoveryRetryInterval = 30 * second"
definition recoveryReasonCompleted :: string where "recoveryReasonCompleted = ''RecoveryCompleted''"
definition recoveryReasonCancelled :: string where "recoveryReasonCancelled = ''RecoveryCancelled''"
definition recoveryReasonCommitVerified :: string where "recoveryReasonCommitVerified = ''CommitVerified''"
definition recoveryReasonDuplicate :: string where "recoveryReasonDuplicate = ''DuplicateRecovery''"
definition recoveryReasonFailed :: string where "recoveryReasonFailed = ''RecoveryFailed''"
definition recoveryReasonManagerNotConfigured :: string where
  "recoveryReasonManagerNotConfigured = ''ManagerNotConfigured''"
definition recoveryReasonOIDCIssuerNotReady :: string where
  "recoveryReasonOIDCIssuerNotReady = ''OIDCIssuerNotReady''"
definition recoveryReasonPlanMissing :: string where "recoveryReasonPlanMissing = ''RecoveryPlanMissing''"
definition recoveryReasonServiceAccount :: string where
  "recoveryReasonServiceAccount = ''ServiceAccountConflict''"
definition recoveryReasonTargetChanged :: string where "recoveryReasonTargetChanged = ''TargetChanged''"
definition recoveryReasonTargetNotFound :: string where "recoveryReasonTargetNotFound = ''TargetNotFound''"

lemmas recovery_reason_defs [const_defs] =
  recoveryReasonCompleted_def recoveryReasonCancelled_def recoveryReasonCommitVerified_def
  recoveryReasonDuplicate_def recoveryReasonFailed_def recoveryReasonManagerNotConfigured_def
  recoveryReasonOIDCIssuerNotReady_def recoveryReasonPlanMissing_def recoveryReasonServiceAccount_def
  recoveryReasonTargetChanged_def recoveryReasonTargetNotFound_def

text \<open>\<open>recoveryReader\<close>: the uncached reader when there is one.\<close>

definition recoveryReader :: "'w RecoveryReconciler \<Rightarrow> 'w Reader" where
  "recoveryReader r = (case rr_APIReader r of Some reader \<Rightarrow> reader | None \<Rightarrow> ClusterReader (rr_Client r))"

section \<open>Runs that carry the recovery object\<close>

type_synonym 'w recovery_run =
  "('w ctx, WorkloadIdentityRecovery \<times> ctrl_Result \<times> go_error option) state"

definition run_done :: "WorkloadIdentityRecovery \<Rightarrow> ctrl_Result \<Rightarrow> 'w recovery_run" where
  "run_done recovery r = State_Monad.return (recovery, r, None)"

definition run_failed :: "WorkloadIdentityRecovery \<Rightarrow> go_error \<Rightarrow> 'w recovery_run" where
  "run_failed recovery e = State_Monad.return (recovery, empty_Result, Some e)"

text \<open>\<open>run_try recovery m k\<close>: \<open>if err := m(); err != nil { return ctrl.Result{}, err }\<close>.
  \<open>run_with m h k\<close> hands the error to \<open>h\<close>.  \<open>run_apart recovery m\<close> runs \<open>m\<close> on another object:
  the caller's own is unchanged.\<close>

definition run_with ::
  "('w, 'a) io \<Rightarrow> (go_error \<Rightarrow> 'w recovery_run) \<Rightarrow> ('a \<Rightarrow> 'w recovery_run) \<Rightarrow> 'w recovery_run" where
  "run_with m h k = State_Monad.bind (in_world m) (\<lambda>r. case r of Inl e \<Rightarrow> h e | Inr a \<Rightarrow> k a)"

definition run_try ::
  "WorkloadIdentityRecovery \<Rightarrow> ('w, 'a) io \<Rightarrow> ('a \<Rightarrow> 'w recovery_run) \<Rightarrow> 'w recovery_run" where
  "run_try recovery m k = run_with m (run_failed recovery) k"

definition run_apart :: "WorkloadIdentityRecovery \<Rightarrow> 'w recovery_run \<Rightarrow> 'w recovery_run" where
  "run_apart recovery m = State_Monad.bind m (\<lambda>(_, r). State_Monad.return (recovery, r))"

lemma run_run_done [simp, run_simps]: "run_state (run_done rec r) c = ((rec, r, None), c)"
  by (simp add: run_done_def)

lemma run_run_failed [simp, run_simps]:
  "run_state (run_failed rec e) c = ((rec, empty_Result, Some e), c)"
  by (simp add: run_failed_def)

lemma run_run_with [run_simps]:
  "run_state (run_with m h k) c =
     (case run_state m (world c) of
        (Inl e, w') \<Rightarrow> run_state (h e) (c\<lparr>world := w'\<rparr>)
      | (Inr a, w') \<Rightarrow> run_state (k a) (c\<lparr>world := w'\<rparr>))"
  by (auto simp: run_with_def run_in_world split: prod.splits sum.splits)

lemma run_run_try [run_simps]:
  "run_state (run_try rec m k) c =
     (case run_state m (world c) of
        (Inl e, w') \<Rightarrow> ((rec, empty_Result, Some e), c\<lparr>world := w'\<rparr>)
      | (Inr a, w') \<Rightarrow> run_state (k a) (c\<lparr>world := w'\<rparr>))"
  by (auto simp: run_try_def run_run_with split: prod.splits sum.splits)

lemma run_run_apart [run_simps]:
  "run_state (run_apart rec m) c = (case run_state m c of ((_, r), c') \<Rightarrow> ((rec, r), c'))"
  by (auto simp: run_apart_def split: prod.splits)

lemma preserves_run_done [preserves_intros]: "preserves I (run_done rec r)"
  by (simp add: preserves_def)

lemma preserves_run_failed [preserves_intros]: "preserves I (run_failed rec e)"
  by (simp add: preserves_def)

lemma preserves_run_with [preserves_intros]:
  "preserves I m \<Longrightarrow> (\<And>e. preserves (\<lambda>c. I (world c)) (h e)) \<Longrightarrow>
     (\<And>a. preserves (\<lambda>c. I (world c)) (k a)) \<Longrightarrow> preserves (\<lambda>c. I (world c)) (run_with m h k)"
  unfolding run_with_def
  by (rule preserves_bind, rule preserves_in_world) (auto intro: preserves_intros)

lemma preserves_run_try [preserves_intros]:
  "preserves I m \<Longrightarrow> (\<And>a. preserves (\<lambda>c. I (world c)) (k a)) \<Longrightarrow>
     preserves (\<lambda>c. I (world c)) (run_try rec m k)"
  unfolding run_try_def by (intro preserves_intros)

lemma preserves_run_apart [preserves_intros]: "preserves I m \<Longrightarrow> preserves I (run_apart rec m)"
  unfolding run_apart_def by (intro preserves_intros)

section \<open>Status updates (workloadidentityrecovery\_status.go)\<close>

definition setRecoveryCondition :: "k8s_lib \<Rightarrow> string \<Rightarrow> string \<Rightarrow> string \<Rightarrow> string \<Rightarrow> int \<Rightarrow>
    WorkloadIdentityRecoveryStatus \<Rightarrow> WorkloadIdentityRecoveryStatus" where
  "setRecoveryCondition L conditionType conditionStatus reason message generation status =
     status\<lparr>r_Conditions := SetStatusCondition L (r_Conditions status)
       \<lparr> c_Type = conditionType, c_Status = conditionStatus, c_ObservedGeneration = generation,
         c_Reason = reason, c_Message = message \<rparr>\<rparr>"

definition clearRecoveryCondition ::
  "k8s_lib \<Rightarrow> string \<Rightarrow> WorkloadIdentityRecoveryStatus \<Rightarrow> WorkloadIdentityRecoveryStatus" where
  "clearRecoveryCondition L conditionType status =
     status\<lparr>r_Conditions := RemoveStatusCondition L (r_Conditions status) conditionType\<rparr>"

definition patchRecoveryStatus ::
  "'w RecoveryReconciler \<Rightarrow> WorkloadIdentityRecovery \<Rightarrow>
     (WorkloadIdentityRecoveryStatus \<Rightarrow> ('w, WorkloadIdentityRecoveryStatus) state) \<Rightarrow>
     ('w, WorkloadIdentityRecovery) io" where
  "patchRecoveryStatus r recovery mutate =
     io_try (external (GetWorkloadIdentityRecovery (ClusterReader (rr_Client r))
               (object_key (r_Meta recovery)))) (\<lambda>current.
     State_Monad.bind (Now (rr_Client r)) (\<lambda>now.
     State_Monad.bind (mutate ((r_Status current)
          \<lparr>r_ObservedGeneration := Generation (r_Meta current), r_LastAttemptTime := Some now\<rparr>))
       (\<lambda>status.
     io_try (external (PatchWorkloadIdentityRecoveryStatus (rr_Client r)
               (current\<lparr>r_Status := status\<rparr>) (MergeFrom current))) (\<lambda>patched.
       io_return (recovery\<lparr>r_Status := r_Status patched\<rparr>)))))"

definition block_status :: "k8s_lib \<Rightarrow> string \<Rightarrow> string \<Rightarrow> int \<Rightarrow>
    WorkloadIdentityRecoveryStatus \<Rightarrow> WorkloadIdentityRecoveryStatus" where
  "block_status L reason message generation status =
     clearRecoveryCondition L RecoveryConditionFailed
      (clearRecoveryCondition L RecoveryConditionComplete
       (setRecoveryCondition L RecoveryConditionProgressing ConditionFalse reason message generation
        (setRecoveryCondition L RecoveryConditionBlocked ConditionTrue reason message generation status)))"

definition block ::
  "k8s_lib \<Rightarrow> 'w RecoveryReconciler \<Rightarrow> WorkloadIdentityRecovery \<Rightarrow> string \<Rightarrow> string \<Rightarrow> 'w recovery_run" where
  "block L r recovery reason message =
     run_try recovery (patchRecoveryStatus r recovery
       (\<lambda>status. State_Monad.return
          (block_status L reason message (Generation (r_Meta recovery)) status)))
     (\<lambda>recovery. State_Monad.bind (SetReconcileOutcome ''blocked'')
        (\<lambda>_. run_done recovery (requeue_after recoveryRetryInterval)))"

definition fail_status :: "k8s_lib \<Rightarrow> string \<Rightarrow> string \<Rightarrow> int \<Rightarrow>
    WorkloadIdentityRecoveryStatus \<Rightarrow> WorkloadIdentityRecoveryStatus" where
  "fail_status L reason message generation status =
     clearRecoveryCondition L RecoveryConditionComplete
      (clearRecoveryCondition L RecoveryConditionBlocked
       (setRecoveryCondition L RecoveryConditionProgressing ConditionFalse recoveryReasonFailed message
          generation
        (setRecoveryCondition L RecoveryConditionFailed ConditionTrue reason message generation status)))"

definition fail ::
  "k8s_lib \<Rightarrow> 'w RecoveryReconciler \<Rightarrow> WorkloadIdentityRecovery \<Rightarrow> string \<Rightarrow> string \<Rightarrow> 'w recovery_run" where
  "fail L r recovery reason message =
     run_try recovery (patchRecoveryStatus r recovery
       (\<lambda>status. State_Monad.return
          (fail_status L reason message (Generation (r_Meta recovery)) status)))
     (\<lambda>recovery. run_done recovery empty_Result)"

definition handleRecoveryError ::
  "k8s_lib \<Rightarrow> 'w RecoveryReconciler \<Rightarrow> WorkloadIdentityRecovery \<Rightarrow> go_error \<Rightarrow> 'w recovery_run" where
  "handleRecoveryError L r recovery err =
     (case RecoveryBlockedReason err of
        Some reason \<Rightarrow> block L r recovery reason (Error err)
      | None \<Rightarrow> run_failed recovery err)"

section \<open>The target (workloadidentityrecovery\_target.go)\<close>

definition getCurrentTarget ::
  "'w RecoveryReconciler \<Rightarrow> WorkloadIdentityRecovery \<Rightarrow> ('w, WorkloadIdentity) io" where
  "getCurrentTarget r recovery =
     external (GetWorkloadIdentity (ClusterReader (rr_Client r))
       \<lparr> nn_Namespace = ref_Namespace (r_Ref recovery), nn_Name = ref_Name (r_Ref recovery) \<rparr>)"

definition validateRecoveryControllerTarget ::
  "k8s_lib \<Rightarrow> WorkloadIdentityRecovery \<Rightarrow> WorkloadIdentity \<Rightarrow> go_error option" where
  "validateRecoveryControllerTarget L recovery identity =
     (if wi_UID identity \<noteq> ref_UID (r_Ref recovery)
      then Some (ErrorString (''target WorkloadIdentity UID is '' @ fmt_q (wi_UID identity)
             @ '', expected '' @ fmt_q (ref_UID (r_Ref recovery))))
      else if r_SourceUID recovery = wi_UID identity
      then Some (ErrorString ''previous WorkloadIdentity UID must differ from the current UID'')
      else if (case wi_Recovery (wi_Status identity) of None \<Rightarrow> True
               | Some rec \<Rightarrow> rrs_PreviousWorkloadIdentityUID rec \<noteq> r_SourceUID recovery)
      then Some (ErrorString ''target WorkloadIdentity recovery evidence changed'')
      else case FindStatusCondition L (wi_Conditions (wi_Status identity)) WorkloadIdentityConditionReady of
        None \<Rightarrow> Some (ErrorString ''target WorkloadIdentity is not in an active recovery state'')
      | Some ready \<Rightarrow>
        if c_Status ready \<noteq> ConditionFalse
        then Some (ErrorString ''target WorkloadIdentity is not in an active recovery state'')
        else if r_MutationStarted (r_Status recovery)
        then (if c_Reason ready \<noteq> ReasonRecoveryInProgress
              then Some (ErrorString ''target WorkloadIdentity is not in RecoveryInProgress state'')
              else None)
        else if c_Reason ready = ReasonRecoveryInProgress then None
        else if \<not> deletion_is_zero (wi_Meta identity)
        then Some (ErrorString ''target WorkloadIdentity is being deleted'')
        else if c_ObservedGeneration ready \<noteq> Generation (wi_Meta identity)
                \<or> c_Reason ready \<noteq> ReasonRecoveryRequired
        then Some (ErrorString ''target WorkloadIdentity is not in current-generation recovery state'')
        else None)"

definition recoveryPrecedes :: "WorkloadIdentityRecovery \<Rightarrow> WorkloadIdentityRecovery \<Rightarrow> bool" where
  "recoveryPrecedes left right \<longleftrightarrow>
     (if CreationTimestamp (r_Meta left) < CreationTimestamp (r_Meta right) then True
      else if CreationTimestamp (r_Meta right) < CreationTimestamp (r_Meta left) then False
      else if r_UID left \<noteq> r_UID right then r_UID left < r_UID right
      else Name (r_Meta left) < Name (r_Meta right))"

definition prefer_recovery ::
  "WorkloadIdentityRecovery \<Rightarrow> WorkloadIdentityRecovery option \<Rightarrow> WorkloadIdentityRecovery option" where
  "prefer_recovery candidate best =
     (case best of
        None \<Rightarrow> Some candidate
      | Some b \<Rightarrow> if recoveryPrecedes candidate b then Some candidate else Some b)"

text \<open>One pass of the loop over the listed recoveries: the incumbent and the winner so far.\<close>

definition winner_step ::
  "WorkloadIdentityRecovery \<Rightarrow> WorkloadIdentityRecovery \<Rightarrow>
     WorkloadIdentityRecovery option \<times> WorkloadIdentityRecovery option \<Rightarrow>
     WorkloadIdentityRecovery option \<times> WorkloadIdentityRecovery option" where
  "winner_step recovery candidate best =
     (let (incumbent, winner) = best in
      if r_SourceUID candidate \<noteq> r_SourceUID recovery then (incumbent, winner)
      else (if r_MutationStarted (r_Status candidate) \<or> r_CommitVerified (r_Status candidate)
            then prefer_recovery candidate incumbent else incumbent,
            prefer_recovery candidate winner))"

definition select_winner ::
  "WorkloadIdentityRecovery \<Rightarrow> WorkloadIdentityRecovery list \<Rightarrow> WorkloadIdentityRecovery option" where
  "select_winner recovery items =
     (let (incumbent, winner) = fold (winner_step recovery) items (None, None);
          winner' = (case incumbent of Some i \<Rightarrow> Some i | None \<Rightarrow> winner)
      in case winner' of
           None \<Rightarrow> None
         | Some x \<Rightarrow> if r_UID x = r_UID recovery then None else Some x)"

definition recoveryWinnerForSource ::
  "'w RecoveryReconciler \<Rightarrow> WorkloadIdentityRecovery \<Rightarrow> ('w, WorkloadIdentityRecovery option) io" where
  "recoveryWinnerForSource r recovery =
     io_try (errorf_wrap ''list WorkloadIdentityRecoveries for previous UID''
               (external (ListWorkloadIdentityRecoveries (recoveryReader r))))
       (\<lambda>items. io_return (select_winner recovery items))"

definition patchTargetRecoveryCondition ::
  "k8s_lib \<Rightarrow> 'w RecoveryReconciler \<Rightarrow> WorkloadIdentityRecovery \<Rightarrow> NamespacedName \<Rightarrow> string list \<Rightarrow>
     string \<Rightarrow> string \<Rightarrow> ('w, unit) io" where
  "patchTargetRecoveryCondition L r recovery target fromReasons reason message =
     State_Monad.bind (GetWorkloadIdentity (recoveryReader r) target) (\<lambda>got. case got of
       Inl err \<Rightarrow> if IsNotFound L err then io_return () else io_fail (External err)
     | Inr current \<Rightarrow>
         if wi_UID current \<noteq> ref_UID (r_Ref recovery)
            \<or> (case wi_Recovery (wi_Status current) of None \<Rightarrow> True
                | Some rec \<Rightarrow> rrs_PreviousWorkloadIdentityUID rec \<noteq> r_SourceUID recovery)
         then io_return ()
         else (case FindStatusCondition L (wi_Conditions (wi_Status current))
                      WorkloadIdentityConditionReady of
             None \<Rightarrow> io_return ()
           | Some ready \<Rightarrow>
               if c_Status ready \<noteq> ConditionFalse \<or> c_Reason ready \<notin> set fromReasons
               then io_return ()
               else io_try (external (PatchWorkloadIdentityStatus (rr_Client r)
                      (current\<lparr>wi_Status := (wi_Status current)
                         \<lparr>wi_Conditions := SetStatusCondition L (wi_Conditions (wi_Status current))
                            \<lparr> c_Type = WorkloadIdentityConditionReady, c_Status = ConditionFalse,
                              c_ObservedGeneration = Generation (wi_Meta current),
                              c_Reason = reason, c_Message = message \<rparr>\<rparr>\<rparr>)
                      (MergeFrom current))) (\<lambda>_. io_return ())))"

definition recoveryTargetFromReference :: "WorkloadIdentityRecovery \<Rightarrow> NamespacedName" where
  "recoveryTargetFromReference recovery =
     \<lparr> nn_Namespace = ref_Namespace (r_Ref recovery), nn_Name = ref_Name (r_Ref recovery) \<rparr>"

definition markTargetRecoveryInProgress ::
  "k8s_lib \<Rightarrow> 'w RecoveryReconciler \<Rightarrow> WorkloadIdentityRecovery \<Rightarrow> WorkloadIdentity \<Rightarrow> ('w, unit) io" where
  "markTargetRecoveryInProgress L r recovery identity =
     patchTargetRecoveryCondition L r recovery (object_key (wi_Meta identity))
       [ReasonRecoveryRequired, ReasonRecoveryInProgress] ReasonRecoveryInProgress
       ''Controlled recovery is in progress''"

definition releaseCompletedTarget ::
  "k8s_lib \<Rightarrow> 'w RecoveryReconciler \<Rightarrow> WorkloadIdentityRecovery \<Rightarrow> ('w, unit) io" where
  "releaseCompletedTarget L r recovery =
     patchTargetRecoveryCondition L r recovery (recoveryTargetFromReference recovery)
       [ReasonRecoveryInProgress] recoveryReasonCompleted
       ''Controlled recovery completed; normal reconciliation will resume''"

definition releaseCancelledTarget ::
  "k8s_lib \<Rightarrow> 'w RecoveryReconciler \<Rightarrow> WorkloadIdentityRecovery \<Rightarrow> ('w, unit) io" where
  "releaseCancelledTarget L r recovery =
     patchTargetRecoveryCondition L r recovery (recoveryTargetFromReference recovery)
       [ReasonRecoveryInProgress] recoveryReasonCancelled
       ''Controlled recovery was cancelled before mutation''"

section \<open>The ServiceAccount (workloadidentityrecovery\_serviceaccount.go)\<close>

definition validateRecoverableServiceAccount ::
  "WorkloadIdentityRecovery \<Rightarrow> WorkloadIdentity \<Rightarrow> ServiceAccount \<Rightarrow> go_error option" where
  "validateRecoverableServiceAccount recovery identity serviceAccount =
     (let ownerUID = map_get (sa_Labels serviceAccount) serviceAccountUID;
          name = fmt_q (sa_key_string serviceAccount) in
      if ownerUID = r_SourceUID recovery
      then (if map_get (sa_Labels serviceAccount) serviceAccountManagedBy \<noteq> serviceAccountManagerName
            then Some (NewRecoveryBlockedError recoveryReasonServiceAccount
                   (''ServiceAccount '' @ name @ '' has source ownership without the operator marker''))
            else None)
      else if ownerUID = ''''
      then (if map_get (sa_Labels serviceAccount) serviceAccountManagedBy \<noteq> ''''
               \<or> map_get (sa_Labels serviceAccount) serviceAccountCreatedBy \<noteq> ''''
            then Some (NewRecoveryBlockedError recoveryReasonServiceAccount
                   (''ServiceAccount '' @ name @ '' has ambiguous operator ownership markers''))
            else case validateUnownedServiceAccountAnnotations serviceAccount of
                   Some err \<Rightarrow> Some (NewRecoveryBlockedError recoveryReasonServiceAccount (Error err))
                 | None \<Rightarrow> None)
      else if ownerUID = wi_UID identity then None
      else Some (NewRecoveryBlockedError recoveryReasonServiceAccount
             (''ServiceAccount '' @ name @ '' belongs to WorkloadIdentity UID '' @ fmt_q ownerUID)))"

definition validateRecoveryServiceAccount ::
  "k8s_lib \<Rightarrow> 'w RecoveryReconciler \<Rightarrow> WorkloadIdentityRecovery \<Rightarrow> WorkloadIdentity \<Rightarrow> ('w, unit) io"
where
  "validateRecoveryServiceAccount L r recovery identity =
     State_Monad.bind (GetServiceAccount (recoveryReader r) (serviceAccountKey identity)) (\<lambda>got.
       case got of
         Inl err \<Rightarrow> if IsNotFound L err then io_return () else io_fail (External err)
       | Inr serviceAccount \<Rightarrow>
           (case validateRecoverableServiceAccount recovery identity serviceAccount of
              Some err \<Rightarrow> io_fail err
            | None \<Rightarrow> io_return ()))"

definition recoveryServiceAccountFieldsMatch ::
  "ServiceAccount \<Rightarrow> WorkloadIdentity \<Rightarrow> WorkloadIdentityRecoveryPlan \<Rightarrow> bool" where
  "recoveryServiceAccountFieldsMatch serviceAccount identity plan \<longleftrightarrow>
     map_get (sa_Labels serviceAccount) serviceAccountUseLabel = trueValue \<and>
     map_get (sa_Labels serviceAccount) serviceAccountManagedBy = serviceAccountManagerName \<and>
     map_get (sa_Labels serviceAccount) serviceAccountUID = wi_UID identity \<and>
     map_get (sa_Annotations serviceAccount) serviceAccountClientID
       = rui_ClientID (plan_UserAssignedIdentity plan) \<and>
     map_get (sa_Annotations serviceAccount) serviceAccountTenantID
       = rui_TenantID (plan_UserAssignedIdentity plan)"

definition transferred_metadata ::
  "WorkloadIdentity \<Rightarrow> WorkloadIdentityRecoveryPlan \<Rightarrow> ServiceAccount \<Rightarrow> ServiceAccount" where
  "transferred_metadata identity plan serviceAccount =
     serviceAccount\<lparr>sa_Meta := (sa_Meta serviceAccount)
       \<lparr>Labels := fmupd serviceAccountUID (wi_UID identity)
          (fmupd serviceAccountManagedBy serviceAccountManagerName
            (fmupd serviceAccountUseLabel trueValue (sa_Labels serviceAccount))),
        Annotations := fmupd serviceAccountTenantID (rui_TenantID (plan_UserAssignedIdentity plan))
          (fmupd serviceAccountClientID (rui_ClientID (plan_UserAssignedIdentity plan))
            (sa_Annotations serviceAccount))\<rparr>\<rparr>"

definition verify_transferred ::
  "'w Reader \<Rightarrow> WorkloadIdentity \<Rightarrow> WorkloadIdentityRecoveryPlan \<Rightarrow> ServiceAccount \<Rightarrow> ('w, string) io"
where
  "verify_transferred reader identity plan serviceAccount =
     io_try (external (GetServiceAccount reader (serviceAccountKey identity))) (\<lambda>verified.
       if UID (sa_Meta verified) \<noteq> UID (sa_Meta serviceAccount)
          \<or> \<not> recoveryServiceAccountFieldsMatch verified identity plan
       then io_fail (NewRecoveryBlockedError recoveryReasonServiceAccount
              ''ServiceAccount recovery transfer could not be read-verified'')
       else io_return (UID (sa_Meta verified)))"

definition transferRecoveryServiceAccount ::
  "k8s_lib \<Rightarrow> 'w RecoveryReconciler \<Rightarrow> WorkloadIdentityRecovery \<Rightarrow> WorkloadIdentity \<Rightarrow>
     WorkloadIdentityRecoveryPlan option \<Rightarrow> ('w, string) io" where
  "transferRecoveryServiceAccount L r recovery identity plan =
     (let reader = recoveryReader r in
      State_Monad.bind (GetServiceAccount reader (serviceAccountKey identity)) (\<lambda>got. case got of
        Inl err \<Rightarrow> if IsNotFound L err then io_return '''' else io_fail (External err)
      | Inr original \<Rightarrow>
          (case validateRecoverableServiceAccount recovery identity original of
             Some err \<Rightarrow> io_fail err
           | None \<Rightarrow>
             (case plan of
                None \<Rightarrow> io_fail nil_dereference
              | Some p \<Rightarrow>
                  let serviceAccount = transferred_metadata identity p original in
                  if sa_Labels original \<noteq> sa_Labels serviceAccount
                     \<or> sa_Annotations original \<noteq> sa_Annotations serviceAccount
                  then io_try (external (PatchServiceAccount (rr_Client r) serviceAccount
                         (MergeFromWithOptimisticLock original)))
                       (\<lambda>patched. verify_transferred reader identity p patched)
                  else verify_transferred reader identity p serviceAccount))))"

definition verifyRecoveryServiceAccountForCommit ::
  "k8s_lib \<Rightarrow> 'w Reader \<Rightarrow> WorkloadIdentity \<Rightarrow> WorkloadIdentityRecoveryPlan option \<Rightarrow> string \<Rightarrow>
     ('w, unit) io" where
  "verifyRecoveryServiceAccountForCommit L reader identity plan expectedUID =
     State_Monad.bind (GetServiceAccount reader (serviceAccountKey identity)) (\<lambda>got. case got of
       Inl err \<Rightarrow>
         if IsNotFound L err \<and> expectedUID = '''' then io_return () else io_fail (External err)
     | Inr serviceAccount \<Rightarrow>
         if expectedUID = ''''
         then io_fail (NewRecoveryBlockedError recoveryReasonServiceAccount
                ''ServiceAccount appeared immediately before recovery commit; retrying transfer'')
         else if UID (sa_Meta serviceAccount) \<noteq> expectedUID
         then io_fail (NewRecoveryBlockedError recoveryReasonServiceAccount
                ''ServiceAccount changed after recovery transfer'')
         else (case plan of
             None \<Rightarrow> io_fail nil_dereference
           | Some p \<Rightarrow>
               if \<not> recoveryServiceAccountFieldsMatch serviceAccount identity p
               then io_fail (NewRecoveryBlockedError recoveryReasonServiceAccount
                      ''ServiceAccount changed after recovery transfer'')
               else io_return ()))"

section \<open>The reconciler's steps (workloadidentityrecovery\_controller.go)\<close>

definition recoveryIsComplete :: "k8s_lib \<Rightarrow> WorkloadIdentityRecovery \<Rightarrow> bool" where
  "recoveryIsComplete L recovery \<longleftrightarrow>
     IsStatusConditionTrue L (r_Conditions (r_Status recovery)) RecoveryConditionComplete"

definition recoveryIsFailed :: "k8s_lib \<Rightarrow> WorkloadIdentityRecovery \<Rightarrow> bool" where
  "recoveryIsFailed L recovery \<longleftrightarrow>
     IsStatusConditionTrue L (r_Conditions (r_Status recovery)) RecoveryConditionFailed"

definition recoveryIsTerminal :: "k8s_lib \<Rightarrow> WorkloadIdentityRecovery \<Rightarrow> bool" where
  "recoveryIsTerminal L recovery \<longleftrightarrow> recoveryIsComplete L recovery \<or> recoveryIsFailed L recovery"

definition preflight_status :: "k8s_lib \<Rightarrow> WorkloadIdentityRecoveryPlan \<Rightarrow> int \<Rightarrow>
    WorkloadIdentityRecoveryStatus \<Rightarrow> WorkloadIdentityRecoveryStatus" where
  "preflight_status L plan generation status =
     clearRecoveryCondition L RecoveryConditionBlocked
      (setRecoveryCondition L RecoveryConditionProgressing ConditionTrue ''PreflightComplete''
         ''Recovery preflight completed without external mutation'' generation
         (status\<lparr>r_Plan := Some plan\<rparr>))"

definition preflightRecovery ::
  "k8s_lib \<Rightarrow> 'w RecoveryReconciler \<Rightarrow> 'w recovery_manager \<Rightarrow> WorkloadIdentityRecovery \<Rightarrow>
     WorkloadIdentity \<Rightarrow> 'w recovery_run" where
  "preflightRecovery L r m recovery identity =
     run_with (external (GetOIDCIssuer (ClusterReader (rr_Client r)) OIDCIssuerName))
       (\<lambda>err. if error_IsNotFound L err
              then block L r recovery recoveryReasonOIDCIssuerNotReady ''OIDCIssuer was not found''
              else run_failed recovery err)
       (\<lambda>issuer.
         if \<not> isOIDCIssuerReady L issuer
         then block L r recovery recoveryReasonOIDCIssuerNotReady ''OIDCIssuer is not ready''
         else run_with (rm_Inspect m recovery identity (oi_IssuerURL (oi_Status issuer))
                          (serviceAccountSubject identity))
           (handleRecoveryError L r recovery)
           (\<lambda>plan. run_with (validateRecoveryServiceAccount L r recovery identity)
             (handleRecoveryError L r recovery)
             (\<lambda>_. run_try recovery (patchRecoveryStatus r recovery
                (\<lambda>status. State_Monad.return
                   (preflight_status L plan (Generation (r_Meta recovery)) status)))
                (\<lambda>recovery. run_done recovery requeue_now))))"

definition start_status :: "k8s_lib \<Rightarrow> time \<Rightarrow> int \<Rightarrow>
    WorkloadIdentityRecoveryStatus \<Rightarrow> WorkloadIdentityRecoveryStatus" where
  "start_status L now generation status =
     clearRecoveryCondition L RecoveryConditionBlocked
      (setRecoveryCondition L RecoveryConditionProgressing ConditionTrue ''RecoveryStarted''
         ''Forward-only recovery started'' generation
         (status\<lparr>r_MutationStarted := True, r_StartedTime := Some now\<rparr>))"

definition startRecovery ::
  "k8s_lib \<Rightarrow> 'w RecoveryReconciler \<Rightarrow> WorkloadIdentityRecovery \<Rightarrow> WorkloadIdentity \<Rightarrow>
     'w recovery_run" where
  "startRecovery L r recovery identity =
     run_try recovery (recoveryWinnerForSource r recovery) (\<lambda>winner. case winner of
       Some x \<Rightarrow> fail L r recovery recoveryReasonDuplicate
         (''WorkloadIdentityRecovery '' @ fmt_q (Name (r_Meta x))
            @ '' already owns recovery for previous WorkloadIdentity UID ''
            @ fmt_q (r_SourceUID recovery))
     | None \<Rightarrow>
       run_try recovery (markTargetRecoveryInProgress L r recovery identity) (\<lambda>_.
       run_try recovery (patchRecoveryStatus r recovery
         (\<lambda>status. State_Monad.bind (Now (rr_Client r))
            (\<lambda>now. State_Monad.return
               (start_status L now (Generation (r_Meta recovery)) status))))
         (\<lambda>recovery. run_done recovery requeue_now)))"

definition commit_verified_status :: "k8s_lib \<Rightarrow> int \<Rightarrow>
    WorkloadIdentityRecoveryStatus \<Rightarrow> WorkloadIdentityRecoveryStatus" where
  "commit_verified_status L generation status =
     clearRecoveryCondition L RecoveryConditionFailed
      (clearRecoveryCondition L RecoveryConditionComplete
       (clearRecoveryCondition L RecoveryConditionBlocked
        (setRecoveryCondition L RecoveryConditionProgressing ConditionTrue recoveryReasonCommitVerified
           ''Azure ownership commit was read-verified; finalizing recovery fence'' generation
           (status\<lparr>r_CommitVerified := True\<rparr>))))"

definition recordRecoveryCommitVerified ::
  "k8s_lib \<Rightarrow> 'w RecoveryReconciler \<Rightarrow> WorkloadIdentityRecovery \<Rightarrow> 'w recovery_run" where
  "recordRecoveryCommitVerified L r recovery =
     run_try recovery (patchRecoveryStatus r recovery
       (\<lambda>status. State_Monad.return
          (commit_verified_status L (Generation (r_Meta recovery)) status)))
       (\<lambda>recovery. run_done recovery requeue_now)"

text \<open>
  The commit works on freshly read copies: what it writes into the copy of the recovery stays
  there, the caller's object is not changed.
\<close>

definition commitRecovery ::
  "k8s_lib \<Rightarrow> 'w RecoveryReconciler \<Rightarrow> 'w recovery_manager \<Rightarrow> WorkloadIdentityRecovery \<Rightarrow>
     WorkloadIdentity \<Rightarrow> string \<Rightarrow> 'w recovery_run" where
  "commitRecovery L r m recovery identity saUID =
     (let reader = recoveryReader r in
      run_try recovery (external (GetWorkloadIdentityRecovery reader (object_key (r_Meta recovery))))
        (\<lambda>currentRecovery.
          if r_UID currentRecovery \<noteq> r_UID recovery
          then run_failed recovery
                 (ErrorString ''WorkloadIdentityRecovery instance changed before commit'')
          else run_apart recovery
            (run_with (external (GetWorkloadIdentity reader (object_key (wi_Meta identity))))
              (handleRecoveryError L r currentRecovery)
              (\<lambda>currentIdentity.
                case validateRecoveryControllerTarget L currentRecovery currentIdentity of
                  Some err \<Rightarrow> block L r currentRecovery recoveryReasonTargetChanged (Error err)
                | None \<Rightarrow>
                    run_with (verifyRecoveryServiceAccountForCommit L reader currentIdentity
                                (r_Plan (r_Status currentRecovery)) saUID)
                      (handleRecoveryError L r currentRecovery)
                      (\<lambda>_. run_with (rm_Commit m currentRecovery currentIdentity
                                       (r_Plan (r_Status currentRecovery)))
                         (handleRecoveryError L r currentRecovery)
                         (\<lambda>_. recordRecoveryCommitVerified L r currentRecovery))))))"

definition advanceRecovery ::
  "k8s_lib \<Rightarrow> 'w RecoveryReconciler \<Rightarrow> 'w recovery_manager \<Rightarrow> WorkloadIdentityRecovery \<Rightarrow>
     WorkloadIdentity \<Rightarrow> 'w recovery_run" where
  "advanceRecovery L r m recovery identity =
     (let plan = r_Plan (r_Status recovery) in
      run_with (rm_MarkInProgress m recovery identity plan) (handleRecoveryError L r recovery) (\<lambda>_.
      run_with (rm_EnsureFederatedIdentityCredential m recovery identity plan)
        (handleRecoveryError L r recovery) (\<lambda>_.
      run_with (transferRecoveryServiceAccount L r recovery identity plan)
        (handleRecoveryError L r recovery) (\<lambda>saUID.
      commitRecovery L r m recovery identity saUID))))"

definition complete_status :: "k8s_lib \<Rightarrow> time \<Rightarrow> int \<Rightarrow>
    WorkloadIdentityRecoveryStatus \<Rightarrow> WorkloadIdentityRecoveryStatus" where
  "complete_status L now generation status =
     clearRecoveryCondition L RecoveryConditionFailed
      (clearRecoveryCondition L RecoveryConditionBlocked
       (setRecoveryCondition L RecoveryConditionProgressing ConditionFalse recoveryReasonCompleted
          ''Recovery is complete'' generation
        (setRecoveryCondition L RecoveryConditionComplete ConditionTrue recoveryReasonCompleted
           ''Forward recovery completed and the Azure fence was cleared'' generation
           (status\<lparr>r_CompletedTime := Some now\<rparr>))))"

definition finalizeRecovery ::
  "k8s_lib \<Rightarrow> 'w RecoveryReconciler \<Rightarrow> 'w recovery_manager \<Rightarrow> WorkloadIdentityRecovery \<Rightarrow>
     WorkloadIdentity \<Rightarrow> 'w recovery_run" where
  "finalizeRecovery L r m recovery identity =
     run_with (rm_Finalize m recovery identity (r_Plan (r_Status recovery)))
       (handleRecoveryError L r recovery) (\<lambda>_.
     run_try recovery (patchRecoveryStatus r recovery
       (\<lambda>status. State_Monad.bind (Now (rr_Client r))
          (\<lambda>now. State_Monad.return
             (complete_status L now (Generation (r_Meta recovery)) status))))
       (\<lambda>recovery. run_done recovery requeue_now))"

definition forward_from_target ::
  "k8s_lib \<Rightarrow> 'w RecoveryReconciler \<Rightarrow> 'w recovery_manager \<Rightarrow> WorkloadIdentityRecovery \<Rightarrow>
     WorkloadIdentity \<Rightarrow> 'w recovery_run" where
  "forward_from_target L r m recovery identity =
     (case validateRecoveryControllerTarget L recovery identity of
        Some err \<Rightarrow>
          if r_MutationStarted (r_Status recovery)
          then block L r recovery recoveryReasonTargetChanged (Error err)
          else fail L r recovery recoveryReasonTargetChanged (Error err)
      | None \<Rightarrow>
          if r_CommitVerified (r_Status recovery)
          then (if r_Plan (r_Status recovery) = None
                then block L r recovery recoveryReasonPlanMissing ''Recovery plan is missing after commit''
                else finalizeRecovery L r m recovery identity)
          else if r_Plan (r_Status recovery) = None
          then (if r_MutationStarted (r_Status recovery)
                then block L r recovery recoveryReasonPlanMissing
                       ''Recovery plan is missing after mutation started''
                else preflightRecovery L r m recovery identity)
          else if \<not> r_MutationStarted (r_Status recovery)
          then startRecovery L r recovery identity
          else advanceRecovery L r m recovery identity)"

definition reconcileForward ::
  "k8s_lib \<Rightarrow> 'w RecoveryReconciler \<Rightarrow> 'w recovery_manager \<Rightarrow> WorkloadIdentityRecovery \<Rightarrow>
     'w recovery_run" where
  "reconcileForward L r m recovery =
     run_with (getCurrentTarget r recovery)
       (\<lambda>err. if error_IsNotFound L err
              then (if r_MutationStarted (r_Status recovery)
                    then block L r recovery recoveryReasonTargetNotFound
                           ''Target WorkloadIdentity must be restored so forward recovery can finish''
                    else fail L r recovery recoveryReasonTargetNotFound (Error err))
              else run_failed recovery err)
       (forward_from_target L r m recovery)"

definition removeRecoveryFinalizer ::
  "k8s_lib \<Rightarrow> 'w RecoveryReconciler \<Rightarrow> WorkloadIdentityRecovery \<Rightarrow> ('w, unit) io" where
  "removeRecoveryFinalizer L r recovery =
     State_Monad.bind (GetWorkloadIdentityRecovery (ClusterReader (rr_Client r))
         (object_key (r_Meta recovery))) (\<lambda>got. case got of
       Inl err \<Rightarrow> if IsNotFound L err then io_return () else io_fail (External err)
     | Inr current \<Rightarrow>
         io_try (external (UpdateWorkloadIdentityRecovery (rr_Client r)
           (current\<lparr>r_Meta := (r_Meta current)
              \<lparr>Finalizers := RemoveFinalizer L (Finalizers (r_Meta current))
                 workloadIdentityRecoveryFinalizer\<rparr>\<rparr>))) (\<lambda>_. io_return ()))"

text \<open>\<open>return ctrl.Result{}, m()\<close>.\<close>

definition run_last :: "WorkloadIdentityRecovery \<Rightarrow> ('w, unit) io \<Rightarrow> 'w recovery_run" where
  "run_last recovery m = run_try recovery m (\<lambda>_. run_done recovery empty_Result)"

definition Recovery_reconcileDelete ::
  "k8s_lib \<Rightarrow> 'w RecoveryReconciler \<Rightarrow> WorkloadIdentityRecovery \<Rightarrow> 'w recovery_run" where
  "Recovery_reconcileDelete L r recovery =
     (if \<not> ContainsFinalizer L (Finalizers (r_Meta recovery)) workloadIdentityRecoveryFinalizer
      then run_done recovery empty_Result
      else if \<not> r_MutationStarted (r_Status recovery)
      then run_try recovery (recoveryWinnerForSource r recovery) (\<lambda>winner.
             if winner = None
             then run_try recovery (releaseCancelledTarget L r recovery)
                    (\<lambda>_. run_last recovery (removeRecoveryFinalizer L r recovery))
             else run_last recovery (removeRecoveryFinalizer L r recovery))
      else if recoveryIsComplete L recovery
      then run_try recovery (releaseCompletedTarget L r recovery)
             (\<lambda>_. run_last recovery (removeRecoveryFinalizer L r recovery))
      else (case rr_Manager r of
          None \<Rightarrow> block L r recovery recoveryReasonManagerNotConfigured
                    ''Azure recovery manager is not configured''
        | Some m \<Rightarrow>
            State_Monad.bind (reconcileForward L r m recovery) (\<lambda>(recovery, result, err).
              if err \<noteq> None then State_Monad.return (recovery, result, err)
              else if recoveryIsComplete L recovery
              then run_try recovery (releaseCompletedTarget L r recovery)
                     (\<lambda>_. run_last recovery (removeRecoveryFinalizer L r recovery))
              else State_Monad.return (recovery, result, None))))"

definition reconcile_existing_recovery ::
  "k8s_lib \<Rightarrow> 'w RecoveryReconciler \<Rightarrow> WorkloadIdentityRecovery \<Rightarrow> 'w recovery_run" where
  "reconcile_existing_recovery L r recovery =
     (if \<not> deletion_is_zero (r_Meta recovery) then Recovery_reconcileDelete L r recovery
      else if \<not> ContainsFinalizer L (Finalizers (r_Meta recovery)) workloadIdentityRecoveryFinalizer
      then run_try recovery (external (UpdateWorkloadIdentityRecovery (rr_Client r)
             (recovery\<lparr>r_Meta := (r_Meta recovery)
                \<lparr>Finalizers := AddFinalizer L (Finalizers (r_Meta recovery))
                   workloadIdentityRecoveryFinalizer\<rparr>\<rparr>)))
             (\<lambda>updated. run_done updated requeue_now)
      else if recoveryIsComplete L recovery
      then State_Monad.bind (SetReconcileOutcome ''noop'')
             (\<lambda>_. run_last recovery (releaseCompletedTarget L r recovery))
      else if recoveryIsFailed L recovery
      then State_Monad.bind (SetReconcileOutcome ''noop'') (\<lambda>_. run_done recovery empty_Result)
      else (case rr_Manager r of
          None \<Rightarrow> block L r recovery recoveryReasonManagerNotConfigured
                    ''Azure recovery manager is not configured''
        | Some m \<Rightarrow> reconcileForward L r m recovery))"

definition Recovery_Reconcile ::
  "k8s_lib \<Rightarrow> 'w RecoveryReconciler \<Rightarrow> NamespacedName \<Rightarrow> 'w reconcile" where
  "Recovery_Reconcile L r request =
     State_Monad.bind (in_world (GetWorkloadIdentityRecovery (ClusterReader (rr_Client r)) request))
       (\<lambda>got. case got of
          Inl err \<Rightarrow>
            if IsNotFound L err
            then State_Monad.bind (SetReconcileOutcome ''noop'') (\<lambda>_. done_with empty_Result)
            else failed_with (External err)
        | Inr recovery \<Rightarrow> map_state snd (reconcile_existing_recovery L r recovery))"

section \<open>Watches\<close>

definition recoveriesForWorkloadIdentity ::
  "k8s_lib \<Rightarrow> 'w RecoveryReconciler \<Rightarrow> ObjectMeta \<Rightarrow> string \<Rightarrow> ('w, NamespacedName list) state" where
  "recoveriesForWorkloadIdentity L r object_meta index =
     (let targetKey = object_key object_meta in
      State_Monad.bind (ListWorkloadIdentityRecoveriesMatching (ClusterReader (rr_Client r)) index
          (NamespacedName_String targetKey)) (\<lambda>got. State_Monad.return (case got of
        Inl err \<Rightarrow> []
      | Inr items \<Rightarrow>
          map (\<lambda>recovery. \<lparr> nn_Namespace = '''', nn_Name = Name (r_Meta recovery) \<rparr>)
            (filter (\<lambda>recovery. deletion_is_zero (r_Meta recovery) \<and> \<not> recoveryIsTerminal L recovery
                \<and> ref_Namespace (r_Ref recovery) = nn_Namespace targetKey
                \<and> ref_Name (r_Ref recovery) = nn_Name targetKey) items))))"

definition activeRecoveryTargetIndexValues ::
  "k8s_lib \<Rightarrow> WorkloadIdentityRecovery \<Rightarrow> string list" where
  "activeRecoveryTargetIndexValues L recovery =
     (if \<not> deletion_is_zero (r_Meta recovery) \<or> recoveryIsTerminal L recovery then []
      else [NamespacedName_String (recoveryTargetFromReference recovery)])"

end
