(* ===== verification/Recovery_Election.thy ===== *)
theory Recovery_Election
  imports Recovery_Controller
begin

text \<open>
  Which of several WorkloadIdentityRecovery objects for one source may act:
  \<open>recoveryPrecedes\<close> is the order of a linear rank, and \<open>select_winner\<close> lets exactly one UID
  through.
\<close>

section \<open>The rank of a recovery\<close>

datatype recovery_rank = Rank (rank_time: time) (rank_uid: string) (rank_name: string)

instantiation recovery_rank :: linorder
begin

definition less_recovery_rank :: "recovery_rank \<Rightarrow> recovery_rank \<Rightarrow> bool" where
  "a < b \<longleftrightarrow> rank_time a < rank_time b \<or> rank_time a = rank_time b \<and>
     (rank_uid a < rank_uid b \<or> rank_uid a = rank_uid b \<and> rank_name a < rank_name b)"

definition less_eq_recovery_rank :: "recovery_rank \<Rightarrow> recovery_rank \<Rightarrow> bool" where
  "(a :: recovery_rank) \<le> b \<longleftrightarrow> a < b \<or> a = b"

instance
proof
  fix x y z :: recovery_rank
  show "x < y \<longleftrightarrow> x \<le> y \<and> \<not> y \<le> x"
    by (cases x; cases y) (auto simp: less_recovery_rank_def less_eq_recovery_rank_def)
  show "x \<le> x" by (simp add: less_eq_recovery_rank_def)
  show "x \<le> y \<Longrightarrow> y \<le> z \<Longrightarrow> x \<le> z"
    by (cases x; cases y; cases z) (auto simp: less_recovery_rank_def less_eq_recovery_rank_def)
  show "x \<le> y \<Longrightarrow> y \<le> x \<Longrightarrow> x = y"
    by (cases x; cases y) (auto simp: less_recovery_rank_def less_eq_recovery_rank_def)
  show "x \<le> y \<or> y \<le> x"
    by (cases x; cases y) (auto simp: less_recovery_rank_def less_eq_recovery_rank_def)
qed

end

definition rank_of :: "WorkloadIdentityRecovery \<Rightarrow> recovery_rank" where
  "rank_of r = Rank (CreationTimestamp (r_Meta r)) (r_UID r) (Name (r_Meta r))"

text \<open>The precedence of recoveries is the strict order of their rank (creation time, then UID,
  then name), hence irreflexive, transitive and total on recoveries of different UID: the switch
  of \<open>recoveryPrecedes\<close> never leaves two objects with different UIDs undecided.\<close>

lemma recoveryPrecedes_rank:
  "recoveryPrecedes l r \<longleftrightarrow> rank_of l < rank_of r"
  by (auto simp: recoveryPrecedes_def rank_of_def less_recovery_rank_def)

lemma precedes_rank: "recoveryPrecedes l r \<longleftrightarrow> rank_of l < rank_of r"
  by (auto simp: recoveryPrecedes_def rank_of_def less_recovery_rank_def)

section \<open>The best of a list\<close>

definition best_recovery :: "WorkloadIdentityRecovery list \<Rightarrow> WorkloadIdentityRecovery option" where
  "best_recovery xs = fold prefer_recovery xs None"

lemma fold_prefer_Some:
  "\<exists>b. fold prefer_recovery xs (Some a) = Some b \<and> b \<in> insert a (set xs) \<and>
     (\<forall>x \<in> insert a (set xs). rank_of b \<le> rank_of x)"
proof (induction xs arbitrary: a)
  case Nil
  then show ?case by simp
next
  case (Cons y ys)
  let ?a = "if recoveryPrecedes y a then y else a"
  obtain b where b: "fold prefer_recovery ys (Some ?a) = Some b" "b \<in> insert ?a (set ys)"
    "\<forall>x \<in> insert ?a (set ys). rank_of b \<le> rank_of x"
    using Cons by blast
  have "rank_of b \<le> rank_of y \<and> rank_of b \<le> rank_of a"
    using b(3) by (auto simp: precedes_rank split: if_splits)
  moreover have "prefer_recovery y (Some a) = Some ?a" by (simp add: prefer_recovery_def)
  ultimately show ?case using b by (auto split: if_splits)
qed

lemma best_recovery_None [simp]: "best_recovery xs = None \<longleftrightarrow> xs = []"
proof (cases xs)
  case (Cons y ys)
  then show ?thesis using fold_prefer_Some[of ys y]
    by (auto simp: best_recovery_def prefer_recovery_def)
qed (simp add: best_recovery_def)

lemma best_recovery_Nil [simp]: "best_recovery [] = None"
  by simp

lemma best_recovery_Some:
  assumes "best_recovery xs = Some b"
  shows "b \<in> set xs" and "x \<in> set xs \<Longrightarrow> rank_of b \<le> rank_of x"
proof -
  obtain y ys where xs: "xs = y # ys" using assms by (cases xs) (auto simp: best_recovery_def)
  then have "fold prefer_recovery ys (Some y) = Some b"
    using assms by (simp add: best_recovery_def prefer_recovery_def)
  with fold_prefer_Some[of ys y] xs show "b \<in> set xs" and "x \<in> set xs \<Longrightarrow> rank_of b \<le> rank_of x"
    by auto
qed

section \<open>The selection\<close>

definition contenders :: "string \<Rightarrow> WorkloadIdentityRecovery list \<Rightarrow> WorkloadIdentityRecovery list" where
  "contenders source items = filter (\<lambda>x. r_SourceUID x = source) items"

definition has_started :: "WorkloadIdentityRecovery \<Rightarrow> bool" where
  "has_started x \<longleftrightarrow> r_MutationStarted (r_Status x) \<or> r_CommitVerified (r_Status x)"

text \<open>The elected recovery of a source: the best started one, or the best of all.\<close>

definition elected :: "string \<Rightarrow> WorkloadIdentityRecovery list \<Rightarrow> WorkloadIdentityRecovery option" where
  "elected source items =
     (case best_recovery (filter has_started (contenders source items)) of
        Some x \<Rightarrow> Some x
      | None \<Rightarrow> best_recovery (contenders source items))"

lemma fold_winner_step:
  "fold (winner_step r) items (a, b) =
     (fold prefer_recovery (filter has_started (contenders (r_SourceUID r) items)) a,
      fold prefer_recovery (contenders (r_SourceUID r) items) b)"
  by (induction items arbitrary: a b) (auto simp: winner_step_def contenders_def has_started_def)

lemma select_winner_elected:
  "select_winner r items =
     (case elected (r_SourceUID r) items of
        None \<Rightarrow> None
      | Some x \<Rightarrow> if r_UID x = r_UID r then None else Some x)"
  by (auto simp: select_winner_def fold_winner_step elected_def best_recovery_def Let_def
      split: option.splits)

lemma elected_Some:
  assumes "elected source items = Some x"
  shows "x \<in> set items" and "r_SourceUID x = source"
    and "has_started x \<or> (\<forall>y \<in> set items. r_SourceUID y = source \<longrightarrow> \<not> has_started y)"
    and "y \<in> set items \<Longrightarrow> r_SourceUID y = source \<Longrightarrow> has_started y \<or> \<not> has_started x \<Longrightarrow>
      rank_of x \<le> rank_of y"
proof -
  have "x \<in> set items \<and> r_SourceUID x = source \<and>
    (has_started x \<or> (\<forall>y \<in> set items. r_SourceUID y = source \<longrightarrow> \<not> has_started y)) \<and>
    (\<forall>y \<in> set items. r_SourceUID y = source \<longrightarrow> has_started y \<or> \<not> has_started x \<longrightarrow>
      rank_of x \<le> rank_of y)"
  proof (cases "best_recovery (filter has_started (contenders source items))")
    case None
    then have "\<forall>y \<in> set items. r_SourceUID y = source \<longrightarrow> \<not> has_started y"
      by (auto simp: contenders_def filter_empty_conv)
    moreover have "best_recovery (contenders source items) = Some x"
      using None assms by (simp only: elected_def option.case)
    ultimately show ?thesis
      using best_recovery_Some[of "contenders source items" x] by (auto simp: contenders_def)
  next
    case (Some b)
    with assms best_recovery_Some[OF Some] show ?thesis
      by (auto simp: elected_def contenders_def)
  qed
  then show "x \<in> set items" and "r_SourceUID x = source"
    and "has_started x \<or> (\<forall>y \<in> set items. r_SourceUID y = source \<longrightarrow> \<not> has_started y)"
    and "y \<in> set items \<Longrightarrow> r_SourceUID y = source \<Longrightarrow> has_started y \<or> \<not> has_started x \<Longrightarrow>
      rank_of x \<le> rank_of y"
    by blast+
qed

lemma elected_exists: "r \<in> set items \<Longrightarrow> \<exists>x. elected (r_SourceUID r) items = Some x"
proof -
  assume "r \<in> set items"
  then have "best_recovery (contenders (r_SourceUID r) items) \<noteq> None"
    by (auto simp: contenders_def filter_empty_conv)
  then show ?thesis
    by (cases "best_recovery (filter has_started (contenders (r_SourceUID r) items))")
      (auto simp only: elected_def option.case not_None_eq)
qed

text \<open>C18. Among the listed recoveries of one source exactly one UID is allowed to start (the
  others are told to fail as duplicates): that of a recovery that already mutates Azure when there
  is one, otherwise of the first created; and no recovery of that class precedes it.\<close>

theorem one_recovery_per_source:
  assumes "r \<in> set items"
  shows "\<exists>x \<in> set items. r_SourceUID x = r_SourceUID r \<and>
    (\<forall>y \<in> set items. r_SourceUID y = r_SourceUID r \<longrightarrow>
       (select_winner y items = None \<longleftrightarrow> r_UID y = r_UID x) \<and>
       (has_started y \<longrightarrow> has_started x) \<and>
       (has_started y = has_started x \<longrightarrow> \<not> recoveryPrecedes y x))"
proof -
  obtain x where x: "elected (r_SourceUID r) items = Some x"
    using elected_exists[OF assms] by blast
  have "(select_winner y items = None \<longleftrightarrow> r_UID y = r_UID x) \<and>
       (has_started y \<longrightarrow> has_started x) \<and>
       (has_started y = has_started x \<longrightarrow> \<not> recoveryPrecedes y x)"
    if "y \<in> set items" and "r_SourceUID y = r_SourceUID r" for y
    using elected_Some(3,4)[OF x] that x
    by (auto simp: select_winner_elected precedes_rank not_less)
  with elected_Some(1,2)[OF x] show ?thesis by blast
qed

text \<open>Two recoveries of one source: the younger one has already started.\<close>

definition contender :: "string \<Rightarrow> time \<Rightarrow> bool \<Rightarrow> WorkloadIdentityRecovery" where
  "contender uid created started = \<lparr>
     r_Meta = \<lparr> Name = uid, Namespace = '''', UID = uid, ResourceVersion = '''', Generation = 1,
       CreationTimestamp = created, DeletionTimestamp = None, Finalizers = [], Labels = fmempty,
       Annotations = fmempty \<rparr>,
     r_Spec = \<lparr> rs_WorkloadIdentityRef = \<lparr> ref_Namespace = ''ns'', ref_Name = ''app'', ref_UID = ''t'' \<rparr>,
                rs_PreviousWorkloadIdentityUID = ''source'' \<rparr>,
     r_Status = \<lparr> r_ObservedGeneration = 0, r_LastAttemptTime = None, r_StartedTime = None,
       r_CompletedTime = None, r_MutationStarted = started, r_CommitVerified = False, r_Plan = None,
       r_Conditions = [] \<rparr> \<rparr>"

lemma one_recovery_per_source_witness:
  "select_winner (contender ''b'' 2 True) [contender ''a'' 1 False, contender ''b'' 2 True] = None \<and>
   select_winner (contender ''a'' 1 False) [contender ''a'' 1 False, contender ''b'' 2 True] \<noteq> None"
  using one_recovery_per_source[of "contender ''a'' 1 False"
      "[contender ''a'' 1 False, contender ''b'' 2 True]"]
  by (simp add: contender_def has_started_def)

end
