(* ===== verification/Kube_Effects.thy ===== *)
theory Kube_Effects
  imports Kube
begin

text \<open>
  Which calls a reconciler makes.  A predicate \<open>I\<close> on worlds that every call of a group keeps
  (\<open>reader_keeps\<close>, \<open>cluster_keeps\<close>) is kept by any run that makes no call outside the group;
  since \<open>I\<close> is arbitrary, such a lemma bounds what the run does.
\<close>

definition reader_keeps :: "('w \<Rightarrow> bool) \<Rightarrow> 'w Reader \<Rightarrow> bool" where
  "reader_keeps I R \<longleftrightarrow>
     (\<forall>k. preserves I (GetWorkloadIdentity R k)) \<and> preserves I (ListWorkloadIdentities R) \<and>
     (\<forall>a b d. preserves I (ListWorkloadIdentitiesMatching R a b d)) \<and>
     (\<forall>k. preserves I (GetOIDCIssuer R k)) \<and> (\<forall>k. preserves I (GetServiceAccount R k)) \<and>
     (\<forall>k. preserves I (GetWorkloadIdentityRecovery R k)) \<and>
     preserves I (ListWorkloadIdentityRecoveries R) \<and>
     (\<forall>a b. preserves I (ListWorkloadIdentityRecoveriesMatching R a b)) \<and>
     (\<forall>k. preserves I (GetSecret R k))"

lemma reader_keepsD [preserves_intros]:
  "reader_keeps I R \<Longrightarrow> preserves I (GetWorkloadIdentity R k)"
  "reader_keeps I R \<Longrightarrow> preserves I (ListWorkloadIdentities R)"
  "reader_keeps I R \<Longrightarrow> preserves I (ListWorkloadIdentitiesMatching R a b d)"
  "reader_keeps I R \<Longrightarrow> preserves I (GetOIDCIssuer R n)"
  "reader_keeps I R \<Longrightarrow> preserves I (GetServiceAccount R k)"
  "reader_keeps I R \<Longrightarrow> preserves I (GetWorkloadIdentityRecovery R k)"
  "reader_keeps I R \<Longrightarrow> preserves I (ListWorkloadIdentityRecoveries R)"
  "reader_keeps I R \<Longrightarrow> preserves I (ListWorkloadIdentityRecoveriesMatching R a b)"
  "reader_keeps I R \<Longrightarrow> preserves I (GetSecret R k)"
  by (simp_all add: reader_keeps_def)

text \<open>The writes of a cluster client, by the kind of object.\<close>

datatype kube_write =
    UpdatesWorkloadIdentity | PatchesWorkloadIdentityStatus | UpdatesOIDCIssuer
  | PatchesOIDCIssuerStatus | UpdatesRecovery | PatchesRecoveryStatus | CreatesServiceAccount
  | PatchesServiceAccount | DeletesServiceAccount

fun write_keeps :: "('w \<Rightarrow> bool) \<Rightarrow> 'w Cluster \<Rightarrow> kube_write \<Rightarrow> bool" where
  "write_keeps I C UpdatesWorkloadIdentity \<longleftrightarrow> (\<forall>x. preserves I (UpdateWorkloadIdentity C x))"
| "write_keeps I C PatchesWorkloadIdentityStatus \<longleftrightarrow>
     (\<forall>x p. preserves I (PatchWorkloadIdentityStatus C x p))"
| "write_keeps I C UpdatesOIDCIssuer \<longleftrightarrow> (\<forall>x. preserves I (UpdateOIDCIssuer C x))"
| "write_keeps I C PatchesOIDCIssuerStatus \<longleftrightarrow> (\<forall>x p. preserves I (PatchOIDCIssuerStatus C x p))"
| "write_keeps I C UpdatesRecovery \<longleftrightarrow> (\<forall>x. preserves I (UpdateWorkloadIdentityRecovery C x))"
| "write_keeps I C PatchesRecoveryStatus \<longleftrightarrow>
     (\<forall>x p. preserves I (PatchWorkloadIdentityRecoveryStatus C x p))"
| "write_keeps I C CreatesServiceAccount \<longleftrightarrow> (\<forall>x. preserves I (CreateServiceAccount C x))"
| "write_keeps I C PatchesServiceAccount \<longleftrightarrow> (\<forall>x p. preserves I (PatchServiceAccount C x p))"
| "write_keeps I C DeletesServiceAccount \<longleftrightarrow> (\<forall>x. preserves I (DeleteServiceAccount C x))"

definition cluster_keeps :: "('w \<Rightarrow> bool) \<Rightarrow> 'w Cluster \<Rightarrow> kube_write set \<Rightarrow> bool" where
  "cluster_keeps I C W \<longleftrightarrow>
     reader_keeps I (ClusterReader C) \<and> preserves I (Now C) \<and> (\<forall>k \<in> W. write_keeps I C k)"

lemma cluster_keepsD [preserves_intros]:
  "cluster_keeps I C W \<Longrightarrow> reader_keeps I (ClusterReader C)"
  "cluster_keeps I C W \<Longrightarrow> preserves I (Now C)"
  by (simp_all add: cluster_keeps_def)

lemma cluster_keeps_write:
  "cluster_keeps I C W \<Longrightarrow> k \<in> W \<Longrightarrow> write_keeps I C k"
  by (simp add: cluster_keeps_def)

section \<open>Runs that move from one predicate to another\<close>

definition leads :: "('w \<Rightarrow> bool) \<Rightarrow> ('w \<Rightarrow> bool) \<Rightarrow> ('w, 'a) state \<Rightarrow> bool" where
  "leads I J m \<longleftrightarrow> (\<forall>w. I w \<longrightarrow> J (snd (run_state m w)))"

named_theorems leads_intros \<open>compositional rules for leads\<close>

lemma leadsD: "leads I J m \<Longrightarrow> I w \<Longrightarrow> run_state m w = (a, w') \<Longrightarrow> J w'"
  by (auto simp: leads_def dest: spec[where x = w])

lemma leads_same: "leads I I m \<longleftrightarrow> preserves I m"
  by (simp add: leads_def preserves_def)

lemma leads_stay: "preserves I m \<Longrightarrow> I \<le> J \<Longrightarrow> leads I J m"
  by (auto simp: leads_def preserves_def le_fun_def)

lemma leads_pre:
  assumes "preserves I m" and "\<And>a. leads I J (f a)"
  shows "leads I J (State_Monad.bind m f)"
  unfolding leads_def
proof (intro allI impI)
  fix w assume "I w"
  obtain a w' where m: "run_state m w = (a, w')" by fastforce
  with assms(1) \<open>I w\<close> have "I w'" by (rule preservesD)
  with assms(2)[of a] show "J (snd (run_state (State_Monad.bind m f) w))"
    by (simp add: m leads_def)
qed

lemma leads_post:
  assumes "leads I J m" and "\<And>a. preserves J (f a)"
  shows "leads I J (State_Monad.bind m f)"
  unfolding leads_def
proof (intro allI impI)
  fix w assume "I w"
  obtain a w' where m: "run_state m w = (a, w')" by fastforce
  with assms(1) \<open>I w\<close> have "J w'" by (rule leadsD)
  with assms(2)[of a] show "J (snd (run_state (State_Monad.bind m f) w))"
    by (simp add: m preserves_def)
qed

lemma leads_in_world: "leads I J m \<Longrightarrow> leads (\<lambda>c. I (world c)) (\<lambda>c. J (world c)) (in_world m)"
  by (auto simp: leads_def run_in_world split: prod.splits dest: leadsD)

lemma leads_if [leads_intros]:
  "(b \<Longrightarrow> leads I J m) \<Longrightarrow> (\<not> b \<Longrightarrow> leads I J n) \<Longrightarrow> leads I J (if b then m else n)"
  by simp

lemma leads_option [leads_intros]:
  "(x = None \<Longrightarrow> leads I J m) \<Longrightarrow> (\<And>a. x = Some a \<Longrightarrow> leads I J (f a)) \<Longrightarrow>
     leads I J (case x of None \<Rightarrow> m | Some a \<Rightarrow> f a)"
  by (cases x) auto

end
