(* ===== verification/Recovery_Status_Machine.thy ===== *)
theory Recovery_Status_Machine
  imports Recovery_Election Kube_Effects
begin

text \<open>
  The status of a recovery as a state machine.  \<open>recovery_status_step\<close> lists the six status
  writes of the reconciler, \<open>allowed_write\<close> says from which status each may follow.  The
  reconciler makes no other status write; along the machine the progress flags never go back and
  the conditions stay consistent.
\<close>

section \<open>The writes\<close>

datatype status_write =
  WriteBlock | WriteFail | WritePreflight | WriteStart | WriteCommitVerified | WriteComplete

definition stamped :: "int \<Rightarrow> time \<Rightarrow> WorkloadIdentityRecoveryStatus \<Rightarrow> WorkloadIdentityRecoveryStatus"
  where "stamped g t s = s\<lparr>r_ObservedGeneration := g, r_LastAttemptTime := Some t\<rparr>"

inductive recovery_status_step ::
  "k8s_lib \<Rightarrow> status_write \<Rightarrow> WorkloadIdentityRecoveryStatus \<Rightarrow> WorkloadIdentityRecoveryStatus \<Rightarrow> bool"
  for L :: k8s_lib where
  step_block: "recovery_status_step L WriteBlock s (block_status L reason message gen (stamped g t s))"
| step_fail: "recovery_status_step L WriteFail s (fail_status L reason message gen (stamped g t s))"
| step_preflight: "recovery_status_step L WritePreflight s (preflight_status L plan gen (stamped g t s))"
| step_start: "recovery_status_step L WriteStart s (start_status L now gen (stamped g t s))"
| step_commit:
    "recovery_status_step L WriteCommitVerified s (commit_verified_status L gen (stamped g t s))"
| step_complete: "recovery_status_step L WriteComplete s (complete_status L now gen (stamped g t s))"

inductive_cases recovery_status_stepE: "recovery_status_step L k s s'"

definition condition_true :: "k8s_lib \<Rightarrow> string \<Rightarrow> WorkloadIdentityRecoveryStatus \<Rightarrow> bool" where
  "condition_true L t s \<longleftrightarrow> IsStatusConditionTrue L (r_Conditions s) t"

definition allowed_write :: "k8s_lib \<Rightarrow> WorkloadIdentityRecoveryStatus \<Rightarrow> status_write \<Rightarrow> bool" where
  "allowed_write L s k \<longleftrightarrow> \<not> condition_true L RecoveryConditionComplete s \<and>
     (case k of
        WriteBlock \<Rightarrow> True
      | WriteFail \<Rightarrow> \<not> r_MutationStarted s \<and> \<not> condition_true L RecoveryConditionFailed s
      | WritePreflight \<Rightarrow> \<not> r_MutationStarted s \<and> \<not> r_CommitVerified s \<and> r_Plan s = None
          \<and> \<not> condition_true L RecoveryConditionFailed s
      | WriteStart \<Rightarrow> \<not> r_MutationStarted s \<and> \<not> r_CommitVerified s \<and> r_Plan s \<noteq> None
          \<and> \<not> condition_true L RecoveryConditionFailed s
      | WriteCommitVerified \<Rightarrow> r_MutationStarted s \<and> \<not> r_CommitVerified s \<and> r_Plan s \<noteq> None
      | WriteComplete \<Rightarrow> r_CommitVerified s \<and> r_Plan s \<noteq> None)"

definition recovery_machine ::
  "k8s_lib \<Rightarrow> WorkloadIdentityRecoveryStatus \<Rightarrow> WorkloadIdentityRecoveryStatus \<Rightarrow> bool" where
  "recovery_machine L s s' \<longleftrightarrow> (\<exists>k. allowed_write L s k \<and> recovery_status_step L k s s')"

section \<open>Invariants\<close>

lemmas status_update_defs =
  block_status_def fail_status_def preflight_status_def start_status_def commit_verified_status_def
  complete_status_def setRecoveryCondition_def clearRecoveryCondition_def stamped_def

lemma step_flags:
  assumes "recovery_status_step L k s s'"
  shows "r_MutationStarted s' \<longleftrightarrow> r_MutationStarted s \<or> k = WriteStart"
    and "r_CommitVerified s' \<longleftrightarrow> r_CommitVerified s \<or> k = WriteCommitVerified"
    and "k \<noteq> WritePreflight \<Longrightarrow> r_Plan s' = r_Plan s"
    and "k = WritePreflight \<Longrightarrow> r_Plan s' \<noteq> None"
  using assms by (auto elim!: recovery_status_stepE simp: status_update_defs)

lemma condition_true_set:
  "condition_laws L \<Longrightarrow> condition_true L t (setRecoveryCondition L u v r m g s) \<longleftrightarrow>
     (if t = u then v = ConditionTrue else condition_true L t s)"
  by (auto simp: condition_true_def setRecoveryCondition_def condition_law_simps)

lemma condition_true_clear:
  "condition_laws L \<Longrightarrow> condition_true L t (clearRecoveryCondition L u s) \<longleftrightarrow>
     t \<noteq> u \<and> condition_true L t s"
  by (cases "t = u") (auto simp: condition_true_def clearRecoveryCondition_def condition_law_simps)

lemma condition_true_fields [simp]:
  "condition_true L t (stamped g n s) \<longleftrightarrow> condition_true L t s"
  "condition_true L t (s\<lparr>r_Plan := p\<rparr>) \<longleftrightarrow> condition_true L t s"
  "condition_true L t (s\<lparr>r_MutationStarted := b, r_StartedTime := v\<rparr>) \<longleftrightarrow> condition_true L t s"
  "condition_true L t (s\<lparr>r_CommitVerified := b\<rparr>) \<longleftrightarrow> condition_true L t s"
  "condition_true L t (s\<lparr>r_CompletedTime := v\<rparr>) \<longleftrightarrow> condition_true L t s"
  by (simp_all add: condition_true_def stamped_def)

text \<open>What each write leaves of the three terminal conditions.\<close>

definition condition_row ::
  "k8s_lib \<Rightarrow> WorkloadIdentityRecoveryStatus \<Rightarrow> bool \<times> bool \<times> bool" where
  "condition_row L s =
     (condition_true L RecoveryConditionComplete s, condition_true L RecoveryConditionFailed s,
      condition_true L RecoveryConditionBlocked s)"

lemma condition_rows:
  assumes "condition_laws L"
  shows "condition_row L (block_status L reason message g s) = (False, False, True)"
    and "condition_row L (fail_status L reason message g s) = (False, True, False)"
    and "condition_row L (preflight_status L plan g s) =
      (condition_true L RecoveryConditionComplete s, condition_true L RecoveryConditionFailed s, False)"
    and "condition_row L (start_status L now g s) =
      (condition_true L RecoveryConditionComplete s, condition_true L RecoveryConditionFailed s, False)"
    and "condition_row L (commit_verified_status L g s) = (False, False, False)"
    and "condition_row L (complete_status L now g s) = (True, False, False)"
  unfolding condition_row_def block_status_def fail_status_def preflight_status_def start_status_def
    commit_verified_status_def complete_status_def
  by (simp_all only: condition_true_set[OF assms] condition_true_clear[OF assms]
      condition_true_fields recovery_conditions_distinct ConditionTrue_neq_False simp_thms if_True if_False prod.inject)

lemma step_conditions:
  assumes "condition_laws L" and "recovery_status_step L k s s'"
  shows "condition_row L s' =
    (k = WriteComplete \<or> (k \<in> {WritePreflight, WriteStart} \<and> condition_true L RecoveryConditionComplete s),
     k = WriteFail \<or> (k \<in> {WritePreflight, WriteStart} \<and> condition_true L RecoveryConditionFailed s),
     k = WriteBlock)"
  using assms(2) by cases (simp_all add: condition_rows[OF assms(1)])

definition recovery_inv :: "k8s_lib \<Rightarrow> WorkloadIdentityRecoveryStatus \<Rightarrow> bool" where
  "recovery_inv L s \<longleftrightarrow>
     (r_CommitVerified s \<longrightarrow> r_MutationStarted s) \<and>
     (r_MutationStarted s \<longrightarrow> r_Plan s \<noteq> None) \<and>
     (condition_true L RecoveryConditionComplete s \<longrightarrow>
        r_CommitVerified s \<and> \<not> condition_true L RecoveryConditionBlocked s) \<and>
     (condition_true L RecoveryConditionFailed s \<longrightarrow>
        \<not> r_MutationStarted s \<and> \<not> condition_true L RecoveryConditionBlocked s)"

lemma recovery_inv_step:
  assumes "condition_laws L" and "recovery_machine L s s'" and "recovery_inv L s"
  shows "recovery_inv L s'"
proof -
  obtain k where k: "allowed_write L s k" and step: "recovery_status_step L k s s'"
    using assms(2) by (auto simp: recovery_machine_def)
  from step_flags[OF step] step_conditions[OF assms(1) step] k assms(3) show ?thesis
    by (cases k) (auto simp: recovery_inv_def allowed_write_def condition_row_def)
qed

lemma machine_monotone:
  "(recovery_machine L)\<^sup>*\<^sup>* s s' \<Longrightarrow>
     (r_MutationStarted s \<longrightarrow> r_MutationStarted s') \<and> (r_CommitVerified s \<longrightarrow> r_CommitVerified s') \<and>
     (r_Plan s \<noteq> None \<longrightarrow> r_Plan s' = r_Plan s)"
proof (induction rule: rtranclp_induct)
  case (step y z)
  then obtain k where "allowed_write L y k" and st: "recovery_status_step L k y z"
    by (auto simp: recovery_machine_def)
  with step.IH step_flags[OF st] show ?case
    by (cases "k = WritePreflight") (auto simp: allowed_write_def)
qed simp

end
