(* ===== verification/Sim_Cluster.thy ===== *)
theory Sim_Cluster
  imports Kube_Effects Recovery_Properties
begin

text \<open>
  An in-memory cluster for the witnesses: \<open>sim\<close> keeps the objects of each kind in a list, a
  clock, and an Azure store.  \<open>sim_cluster\<close> is an instance of the client interface of Kube on
  it, and \<open>on_azure\<close> runs an Azure call on the store of a \<open>sim\<close>.
\<close>

record sim =
  sim_identities :: "WorkloadIdentity list"
  sim_issuers :: "OIDCIssuer list"
  sim_accounts :: "ServiceAccount list"
  sim_recoveries :: "WorkloadIdentityRecovery list"
  sim_secrets :: "(NamespacedName \<times> Secret) list"
  sim_clock :: time
  sim_azure :: arm_state

definition kube_not_found :: ext_error where
  "kube_not_found = StatusError 404 ''NotFound'' ''not found''"

definition sim_get :: "('x \<Rightarrow> ObjectMeta) \<Rightarrow> (sim \<Rightarrow> 'x list) \<Rightarrow> NamespacedName \<Rightarrow> (sim, 'x) ext_io" where
  "sim_get meta items k = State (\<lambda>w.
     (case find (\<lambda>x. object_key (meta x) = k) (items w) of None \<Rightarrow> Inl kube_not_found | Some x \<Rightarrow> Inr x, w))"

definition sim_list :: "(sim \<Rightarrow> 'x list) \<Rightarrow> ('x \<Rightarrow> bool) \<Rightarrow> (sim, 'x list) ext_io" where
  "sim_list items P = State (\<lambda>w. (Inr (filter P (items w)), w))"

text \<open>A write replaces the stored object of the same key by \<open>f\<close> of it.\<close>

definition replace_all :: "('x \<Rightarrow> ObjectMeta) \<Rightarrow> NamespacedName \<Rightarrow> ('x \<Rightarrow> 'x) \<Rightarrow> 'x list \<Rightarrow> 'x list" where
  "replace_all meta k f xs = map (\<lambda>x. if object_key (meta x) = k then f x else x) xs"

definition sim_write :: "('x \<Rightarrow> ObjectMeta) \<Rightarrow> (sim \<Rightarrow> 'x list) \<Rightarrow> (('x list \<Rightarrow> 'x list) \<Rightarrow> sim \<Rightarrow> sim) \<Rightarrow>
    NamespacedName \<Rightarrow> ('x \<Rightarrow> 'x) \<Rightarrow> (sim, 'x) ext_io" where
  "sim_write meta items upd k f = State (\<lambda>w.
     case find (\<lambda>x. object_key (meta x) = k) (items w) of
       None \<Rightarrow> (Inl kube_not_found, w)
     | Some x \<Rightarrow> (Inr (f x), upd (replace_all meta k f) w))"

text \<open>An object whose last finalizer is removed while it is being deleted is gone.\<close>

definition still_there :: "ObjectMeta \<Rightarrow> bool" where
  "still_there m \<longleftrightarrow> deletion_is_zero m \<or> Finalizers m \<noteq> []"

definition drop_gone :: "('x \<Rightarrow> ObjectMeta) \<Rightarrow> NamespacedName \<Rightarrow> 'x list \<Rightarrow> 'x list" where
  "drop_gone meta k xs = filter (\<lambda>y. object_key (meta y) = k \<longrightarrow> still_there (meta y)) xs"

definition sim_reader :: "sim Reader" where
  "sim_reader = \<lparr>
     GetWorkloadIdentity = sim_get wi_Meta sim_identities,
     ListWorkloadIdentities = sim_list sim_identities (\<lambda>_. True),
     ListWorkloadIdentitiesMatching = (\<lambda>ns index v. sim_list sim_identities
        (\<lambda>x. wi_namespace x = ns \<and> sar_Name (wis_ServiceAccount (wi_Spec x)) = v)),
     GetOIDCIssuer = (\<lambda>n. sim_get oi_Meta sim_issuers \<lparr> nn_Namespace = '''', nn_Name = n \<rparr>),
     GetServiceAccount = sim_get sa_Meta sim_accounts,
     GetWorkloadIdentityRecovery = sim_get r_Meta sim_recoveries,
     ListWorkloadIdentityRecoveries = sim_list sim_recoveries (\<lambda>_. True),
     ListWorkloadIdentityRecoveriesMatching = (\<lambda>index v. sim_list sim_recoveries
        (\<lambda>x. NamespacedName_String \<lparr> nn_Namespace = ref_Namespace (r_Ref x), nn_Name = ref_Name (r_Ref x) \<rparr> = v)),
     GetSecret = (\<lambda>k. State (\<lambda>w. (case map_of (sim_secrets w) k of
        None \<Rightarrow> Inl kube_not_found | Some x \<Rightarrow> Inr x, w))) \<rparr>"

text \<open>An update of a recovery changes neither its UID nor its spec, which its CRD declares immutable.\<close>

definition updated_recovery :: "WorkloadIdentityRecovery \<Rightarrow> WorkloadIdentityRecovery \<Rightarrow> WorkloadIdentityRecovery" where
  "updated_recovery x old =
     x\<lparr>r_Meta := (r_Meta x)\<lparr>UID := r_UID old\<rparr>, r_Spec := r_Spec old, r_Status := r_Status old\<rparr>"

definition sim_cluster :: "sim Cluster" where
  "sim_cluster = \<lparr>
     ClusterReader = sim_reader,
     Now = State (\<lambda>w. (sim_clock w, w\<lparr>sim_clock := sim_clock w + 1\<rparr>)),
     UpdateWorkloadIdentity = (\<lambda>x. sim_write wi_Meta sim_identities
        (\<lambda>f. sim_identities_update (\<lambda>xs. drop_gone wi_Meta (object_key (wi_Meta x)) (f xs)))
        (object_key (wi_Meta x)) (\<lambda>old. x\<lparr>wi_Status := wi_Status old\<rparr>)),
     PatchWorkloadIdentityStatus = (\<lambda>x p. sim_write wi_Meta sim_identities sim_identities_update
        (object_key (wi_Meta x)) (\<lambda>old. old\<lparr>wi_Status := wi_Status x\<rparr>)),
     UpdateOIDCIssuer = (\<lambda>x. sim_write oi_Meta sim_issuers
        (\<lambda>f. sim_issuers_update (\<lambda>xs. drop_gone oi_Meta (object_key (oi_Meta x)) (f xs)))
        (object_key (oi_Meta x)) (\<lambda>old. x\<lparr>oi_Status := oi_Status old\<rparr>)),
     PatchOIDCIssuerStatus = (\<lambda>x p. sim_write oi_Meta sim_issuers sim_issuers_update
        (object_key (oi_Meta x)) (\<lambda>old. old\<lparr>oi_Status := oi_Status x\<rparr>)),
     UpdateWorkloadIdentityRecovery = (\<lambda>x. sim_write r_Meta sim_recoveries
        (\<lambda>f. sim_recoveries_update (\<lambda>xs. drop_gone r_Meta (object_key (r_Meta x)) (f xs)))
        (object_key (r_Meta x)) (updated_recovery x)),
     PatchWorkloadIdentityRecoveryStatus = (\<lambda>x p. sim_write r_Meta sim_recoveries sim_recoveries_update
        (object_key (r_Meta x)) (\<lambda>old. old\<lparr>r_Status := r_Status x\<rparr>)),
     CreateServiceAccount = (\<lambda>x. State (\<lambda>w. (Inr x, w\<lparr>sim_accounts := x # sim_accounts w\<rparr>))),
     PatchServiceAccount = (\<lambda>x p. sim_write sa_Meta sim_accounts sim_accounts_update
        (object_key (sa_Meta x)) (\<lambda>old. x)),
     DeleteServiceAccount = (\<lambda>x. State (\<lambda>w. (Inr (),
        w\<lparr>sim_accounts := filter (\<lambda>y. object_key (sa_Meta y) \<noteq> object_key (sa_Meta x)) (sim_accounts w)\<rparr>))) \<rparr>"

definition on_azure :: "(arm_state, 'a) state \<Rightarrow> (sim, 'a) state" where
  "on_azure m = State (\<lambda>w. case run_state m (sim_azure w) of (a, s) \<Rightarrow> (a, w\<lparr>sim_azure := s\<rparr>))"

lemma run_on_azure [run_simps]:
  "run_state (on_azure m) w = (case run_state m (sim_azure w) of (a, s) \<Rightarrow> (a, w\<lparr>sim_azure := s\<rparr>))"
  by (simp add: on_azure_def)

lemmas sim_defs = sim_cluster_def sim_reader_def sim_get_def sim_list_def sim_write_def

text \<open>A predicate on the Azure store alone is kept by every cluster call.\<close>

lemma sim_reader_azure: "reader_keeps (\<lambda>w. P (sim_azure w)) sim_reader"
  by (auto simp: reader_keeps_def preserves_def sim_reader_def sim_get_def sim_list_def)

lemma sim_write_azure:
  "(\<And>f w. sim_azure (upd f w) = sim_azure w) \<Longrightarrow>
     preserves (\<lambda>w. P (sim_azure w)) (sim_write meta items upd k g)"
  by (auto simp: preserves_def sim_write_def split: option.splits)

lemma sim_cluster_azure: "cluster_keeps (\<lambda>w. P (sim_azure w)) sim_cluster W"
proof -
  have create: "preserves (\<lambda>w. P (sim_azure w)) (CreateServiceAccount sim_cluster x)"
    and delete: "preserves (\<lambda>w. P (sim_azure w)) (DeleteServiceAccount sim_cluster x)" for x
    by (simp_all add: sim_cluster_def preserves_def)
  have "write_keeps (\<lambda>w. P (sim_azure w)) sim_cluster k" for k
    by (cases k) (simp_all add: create delete, simp_all add: sim_cluster_def sim_write_azure)
  moreover have "preserves (\<lambda>w. P (sim_azure w)) (Now sim_cluster)"
    by (simp add: preserves_def sim_cluster_def)
  ultimately show ?thesis
    using sim_reader_azure[of P] by (simp add: cluster_keeps_def) (simp add: sim_cluster_def)
qed

section \<open>The status of the stored recoveries\<close>

definition statuses :: "WorkloadIdentityRecovery list \<Rightarrow> NamespacedName \<Rightarrow>
    WorkloadIdentityRecoveryStatus option" where
  "statuses xs k = map_option r_Status (find (\<lambda>x. object_key (r_Meta x) = k) xs)"

definition sim_recovery :: "sim \<Rightarrow> NamespacedName \<Rightarrow> WorkloadIdentityRecoveryStatus option" where
  "sim_recovery w = statuses (sim_recoveries w)"

lemma sim_reader_recoveries: "reader_keeps (\<lambda>w. Q (sim_recoveries w)) sim_reader"
  by (simp add: reader_keeps_def preserves_def sim_reader_def sim_get_def sim_list_def)

lemma sim_write_recoveries:
  "(\<And>f w. sim_recoveries (upd f w) = sim_recoveries w) \<Longrightarrow>
     preserves (\<lambda>w. Q (sim_recoveries w)) (sim_write meta items upd k g)"
  by (simp add: preserves_def sim_write_def split: option.split)

lemma sim_recovery_untouched:
  "cluster_keeps (\<lambda>w. P (sim_recovery w)) sim_cluster {PatchesWorkloadIdentityStatus, PatchesServiceAccount}"
  "reader_keeps (\<lambda>w. P (sim_recovery w)) sim_reader"
proof -
  have r: "reader_keeps (\<lambda>w. P (sim_recovery w)) sim_reader"
    unfolding sim_recovery_def by (rule sim_reader_recoveries)
  have "write_keeps (\<lambda>w. P (sim_recovery w)) sim_cluster PatchesWorkloadIdentityStatus"
    "write_keeps (\<lambda>w. P (sim_recovery w)) sim_cluster PatchesServiceAccount"
    by (simp_all add: sim_recovery_def sim_cluster_def sim_write_recoveries[where Q = "\<lambda>xs. P (statuses xs)"])
  moreover have "preserves (\<lambda>w. P (sim_recovery w)) (Now sim_cluster)"
    by (simp add: preserves_def sim_cluster_def sim_recovery_def)
  moreover have "ClusterReader sim_cluster = sim_reader"
    by (simp add: sim_cluster_def)
  ultimately show "cluster_keeps (\<lambda>w. P (sim_recovery w)) sim_cluster
      {PatchesWorkloadIdentityStatus, PatchesServiceAccount}"
    using r by (simp add: cluster_keeps_def del: write_keeps.simps)
  show "reader_keeps (\<lambda>w. P (sim_recovery w)) sim_reader" by (rule r)
qed

lemma statuses_replace:
  assumes "\<And>x. object_key (r_Meta x) = k \<Longrightarrow> object_key (r_Meta (f x)) = k"
  shows "statuses (replace_all r_Meta k f xs) j =
    (if j = k then map_option (\<lambda>x. r_Status (f x)) (find (\<lambda>x. object_key (r_Meta x) = k) xs)
     else statuses xs j)"
  using assms by (induction xs) (auto simp: statuses_def replace_all_def)

lemma statuses_patch:
  assumes "find (\<lambda>x. object_key (r_Meta x) = k) xs = Some y"
  shows "statuses (replace_all r_Meta k (\<lambda>old. old\<lparr>r_Status := s\<rparr>) xs) = (statuses xs)(k := Some s)"
  using assms by (auto simp: statuses_replace fun_eq_iff)

lemma find_key: "find (\<lambda>x. object_key (meta x) = k) xs = Some y \<Longrightarrow> object_key (meta y) = k"
  by (induction xs) (auto split: if_splits)

lemma find_updated:
  assumes "object_key (r_Meta z) = k"
  shows "find (\<lambda>x. object_key (r_Meta x) = j) (drop_gone r_Meta k (replace_all r_Meta k (updated_recovery z) xs)) =
    (if j \<noteq> k then find (\<lambda>x. object_key (r_Meta x) = j) xs
     else if still_there (r_Meta z) then map_option (updated_recovery z) (find (\<lambda>x. object_key (r_Meta x) = k) xs)
     else None)"
  using assms
  by (induction xs) (auto simp: drop_gone_def replace_all_def updated_recovery_def still_there_def object_key_def deletion_is_zero_def)

lemma statuses_update:
  assumes "object_key (r_Meta z) = k"
  shows "statuses (drop_gone r_Meta k (replace_all r_Meta k (updated_recovery z) xs)) =
    (if still_there (r_Meta z) then statuses xs else (statuses xs)(k := None))"
  by (auto simp: fun_eq_iff statuses_def find_updated[OF assms] option.map_comp o_def updated_recovery_def)

end
