(* ===== verification/Recovery_Effects.thy ===== *)
theory Recovery_Effects
  imports Recovery_Status_Machine Sim_Cluster
begin

text \<open>
  What one reconcile of a WorkloadIdentityRecovery may do, as a function of the status it starts
  from: which calls of the Azure recovery manager, which writes to the cluster, and which status
  writes.  The bounds are stated for an arbitrary predicate on the world that the permitted calls
  keep.
\<close>

section \<open>Calls of the recovery manager\<close>

datatype manager_call = InspectsAzure | MarksAzure | EnsuresCredential | CommitsAzure | FinalizesAzure

text \<open>
  The arguments a call may have: the recovery with the given UID, a target the controller has just
  validated for it, and the plan recorded in its status.
\<close>

definition valid_call :: "k8s_lib \<Rightarrow> string \<Rightarrow> WorkloadIdentityRecovery \<Rightarrow> WorkloadIdentity \<Rightarrow>
    WorkloadIdentityRecoveryPlan option \<Rightarrow> bool" where
  "valid_call L uid x y p \<longleftrightarrow> r_UID x = uid \<and> validateRecoveryControllerTarget L x y = None \<and>
     p = r_Plan (r_Status x)"

fun manager_keeps :: "k8s_lib \<Rightarrow> string \<Rightarrow> ('w \<Rightarrow> bool) \<Rightarrow> 'w recovery_manager \<Rightarrow> manager_call \<Rightarrow> bool" where
  "manager_keeps L uid I m InspectsAzure \<longleftrightarrow>
     (\<forall>x y u s. valid_call L uid x y (r_Plan (r_Status x)) \<longrightarrow> preserves I (rm_Inspect m x y u s))"
| "manager_keeps L uid I m MarksAzure \<longleftrightarrow>
     (\<forall>x y p. valid_call L uid x y p \<longrightarrow> preserves I (rm_MarkInProgress m x y p))"
| "manager_keeps L uid I m EnsuresCredential \<longleftrightarrow>
     (\<forall>x y p. valid_call L uid x y p \<longrightarrow> preserves I (rm_EnsureFederatedIdentityCredential m x y p))"
| "manager_keeps L uid I m CommitsAzure \<longleftrightarrow>
     (\<forall>x y p. valid_call L uid x y p \<longrightarrow> preserves I (rm_Commit m x y p))"
| "manager_keeps L uid I m FinalizesAzure \<longleftrightarrow>
     (\<forall>x y p. valid_call L uid x y p \<longrightarrow> preserves I (rm_Finalize m x y p))"

definition mutating :: "WorkloadIdentityRecoveryStatus \<Rightarrow> bool" where
  "mutating s \<longleftrightarrow> r_MutationStarted s \<and> \<not> r_CommitVerified s \<and> r_Plan s \<noteq> None"

definition allowed_call :: "WorkloadIdentityRecoveryStatus \<Rightarrow> manager_call \<Rightarrow> bool" where
  "allowed_call s k \<longleftrightarrow>
     (case k of
        InspectsAzure \<Rightarrow> \<not> r_MutationStarted s \<and> \<not> r_CommitVerified s \<and> r_Plan s = None
      | FinalizesAzure \<Rightarrow> r_CommitVerified s \<and> r_Plan s \<noteq> None
      | _ \<Rightarrow> mutating s)"

text \<open>
  Status patches of the kinds permitted from \<open>s\<close>: one of kind \<open>k\<close> leads from \<open>G k\<close> to \<open>J\<close>.  A mutation is a pure
  update or one that stamps the time.
\<close>

definition writes_kind :: "k8s_lib \<Rightarrow> status_write \<Rightarrow>
    (WorkloadIdentityRecoveryStatus \<Rightarrow> WorkloadIdentityRecoveryStatus) \<Rightarrow> bool" where
  "writes_kind L k f \<longleftrightarrow> (\<forall>s g t. recovery_status_step L k s (f (stamped g t s)))"

definition status_patches_lead :: "k8s_lib \<Rightarrow> (status_write \<Rightarrow> 'w \<Rightarrow> bool) \<Rightarrow> ('w \<Rightarrow> bool) \<Rightarrow>
    'w RecoveryReconciler \<Rightarrow> WorkloadIdentityRecoveryStatus \<Rightarrow> bool" where
  "status_patches_lead L G J r s \<longleftrightarrow>
     (\<forall>k recovery. allowed_write L s k \<longrightarrow>
       (\<forall>f. writes_kind L k f \<longrightarrow>
          leads (G k) J (patchRecoveryStatus r recovery (\<lambda>status. State_Monad.return (f status)))) \<and>
       (\<forall>f. (\<forall>now. writes_kind L k (f now)) \<longrightarrow>
          leads (G k) J (patchRecoveryStatus r recovery (\<lambda>status. State_Monad.bind (Now (rr_Client r))
            (\<lambda>now. State_Monad.return (f now status))))))"

text \<open>
  The calls a reconcile from status \<open>s\<close> may make: before the status patch they keep \<open>I\<close>, the patch
  leads to \<open>J\<close>, and what may follow it keeps \<open>J\<close>.
\<close>

definition recovery_effects :: "k8s_lib \<Rightarrow> ('w \<Rightarrow> bool) \<Rightarrow> ('w \<Rightarrow> bool) \<Rightarrow>
    'w RecoveryReconciler \<Rightarrow> string \<Rightarrow> WorkloadIdentityRecoveryStatus \<Rightarrow> bool" where
  "recovery_effects L I J r uid s \<longleftrightarrow>
     I \<le> J \<and>
     cluster_keeps I (rr_Client r)
       ({PatchesWorkloadIdentityStatus} \<union> (if mutating s then {PatchesServiceAccount} else {})) \<and>
     reader_keeps I (recoveryReader r) \<and>
     (\<forall>m k. rr_Manager r = Some m \<longrightarrow> allowed_call s k \<longrightarrow> manager_keeps L uid I m k) \<and>
     status_patches_lead L (\<lambda>_. I) J r s"

lemma recovery_effectsD:
  assumes "recovery_effects L I J r uid s"
  shows "I \<le> J" "reader_keeps I (ClusterReader (rr_Client r))" "reader_keeps I (recoveryReader r)"
    "write_keeps I (rr_Client r) PatchesWorkloadIdentityStatus"
  using assms cluster_keeps_write[of I "rr_Client r" _ PatchesWorkloadIdentityStatus]
  by (auto simp: recovery_effects_def cluster_keeps_def simp del: write_keeps.simps)

lemma manager_call_keeps:
  assumes "recovery_effects L I J r uid s" and "rr_Manager r = Some m"
    and uid: "r_UID x = uid" and valid: "validateRecoveryControllerTarget L x y = None"
  shows "allowed_call s InspectsAzure \<Longrightarrow> preserves I (rm_Inspect m x y u v)"
    and "mutating s \<Longrightarrow> preserves I (rm_MarkInProgress m x y (r_Plan (r_Status x)))"
    and "mutating s \<Longrightarrow> preserves I (rm_EnsureFederatedIdentityCredential m x y (r_Plan (r_Status x)))"
    and "mutating s \<Longrightarrow> preserves I (rm_Commit m x y (r_Plan (r_Status x)))"
    and "allowed_call s FinalizesAzure \<Longrightarrow> preserves I (rm_Finalize m x y (r_Plan (r_Status x)))"
proof -
  have k: "allowed_call s k \<Longrightarrow> manager_keeps L uid I m k" for k
    using assms(1,2) by (auto simp: recovery_effects_def)
  have v: "valid_call L uid x y (r_Plan (r_Status x))"
    using uid valid by (simp add: valid_call_def)
  show "allowed_call s InspectsAzure \<Longrightarrow> preserves I (rm_Inspect m x y u v)"
    and "mutating s \<Longrightarrow> preserves I (rm_MarkInProgress m x y (r_Plan (r_Status x)))"
    and "mutating s \<Longrightarrow> preserves I (rm_EnsureFederatedIdentityCredential m x y (r_Plan (r_Status x)))"
    and "mutating s \<Longrightarrow> preserves I (rm_Commit m x y (r_Plan (r_Status x)))"
    and "allowed_call s FinalizesAzure \<Longrightarrow> preserves I (rm_Finalize m x y (r_Plan (r_Status x)))"
    using k[of InspectsAzure] k[of MarksAzure] k[of EnsuresCredential] k[of CommitsAzure]
      k[of FinalizesAzure] v by (auto simp: allowed_call_def)
qed

text \<open>
  The same bound in finer detail.  \<open>V\<close> holds of the recoveries the reconcile is about; a successful commit
  takes \<open>I\<close> to \<open>C\<close>, a successful finalization takes it to \<open>F\<close>, and only from there may the patches that record
  them lead to \<open>J\<close>.
\<close>

definition grants :: "('w \<Rightarrow> bool) \<Rightarrow> ('w \<Rightarrow> bool) \<Rightarrow> ('w, 'a) io \<Rightarrow> bool" where
  "grants I C m \<longleftrightarrow>
     (\<forall>w x w'. I w \<longrightarrow> run_state m w = (x, w') \<longrightarrow> (case x of Inl e \<Rightarrow> I w' | Inr a \<Rightarrow> C w'))"

lemma grants_same: "preserves I m \<Longrightarrow> grants I I m"
  by (auto simp: grants_def preserves_def split: sum.split)

definition manager_flows :: "k8s_lib \<Rightarrow> (WorkloadIdentityRecovery \<Rightarrow> bool) \<Rightarrow> ('w \<Rightarrow> bool) \<Rightarrow> ('w \<Rightarrow> bool) \<Rightarrow> ('w \<Rightarrow> bool) \<Rightarrow>
    'w recovery_manager \<Rightarrow> WorkloadIdentityRecoveryStatus \<Rightarrow> bool" where
  "manager_flows L V I C F m s \<longleftrightarrow>
     (\<forall>x y p. V x \<and> validateRecoveryControllerTarget L x y = None \<and> p = r_Plan (r_Status x) \<longrightarrow>
        (allowed_call s InspectsAzure \<longrightarrow> (\<forall>u v. preserves I (rm_Inspect m x y u v))) \<and>
        (mutating s \<longrightarrow> preserves I (rm_MarkInProgress m x y p) \<and>
           preserves I (rm_EnsureFederatedIdentityCredential m x y p) \<and> grants I C (rm_Commit m x y p)) \<and>
        (allowed_call s FinalizesAzure \<longrightarrow> grants I F (rm_Finalize m x y p)))"

definition reads_instance :: "(WorkloadIdentityRecovery \<Rightarrow> bool) \<Rightarrow> ('w \<Rightarrow> bool) \<Rightarrow> 'w Reader \<Rightarrow> bool" where
  "reads_instance V I R \<longleftrightarrow>
     (\<forall>y x w w'. V y \<longrightarrow> I w \<longrightarrow> run_state (GetWorkloadIdentityRecovery R (object_key (r_Meta y))) w = (Inr x, w') \<longrightarrow>
        r_UID x = r_UID y \<longrightarrow> V x)"

definition patched_from :: "('w \<Rightarrow> bool) \<Rightarrow> ('w \<Rightarrow> bool) \<Rightarrow> ('w \<Rightarrow> bool) \<Rightarrow> status_write \<Rightarrow> 'w \<Rightarrow> bool" where
  "patched_from I C F k = (case k of WriteCommitVerified \<Rightarrow> C | WriteComplete \<Rightarrow> F | _ \<Rightarrow> I)"

definition recovery_flow :: "k8s_lib \<Rightarrow> (WorkloadIdentityRecovery \<Rightarrow> bool) \<Rightarrow> ('w \<Rightarrow> bool) \<Rightarrow> ('w \<Rightarrow> bool) \<Rightarrow> ('w \<Rightarrow> bool) \<Rightarrow>
    ('w \<Rightarrow> bool) \<Rightarrow> 'w RecoveryReconciler \<Rightarrow> WorkloadIdentityRecoveryStatus \<Rightarrow> bool" where
  "recovery_flow L V I C F J r s \<longleftrightarrow>
     I \<le> J \<and>
     cluster_keeps I (rr_Client r)
       ({PatchesWorkloadIdentityStatus} \<union> (if mutating s then {PatchesServiceAccount} else {})) \<and>
     reader_keeps I (recoveryReader r) \<and> reads_instance V I (recoveryReader r) \<and>
     (\<forall>m. rr_Manager r = Some m \<longrightarrow> manager_flows L V I C F m s) \<and>
     status_patches_lead L (patched_from I C F) J r s"

lemma flow_of_effects:
  assumes eff: "recovery_effects L I J r uid s"
  shows "recovery_flow L (\<lambda>x. r_UID x = uid) I I I J r s"
proof -
  have "manager_flows L (\<lambda>x. r_UID x = uid) I I I m s" if "rr_Manager r = Some m" for m
    using manager_call_keeps[OF eff that] by (simp add: manager_flows_def grants_same)
  moreover have "patched_from I I I = (\<lambda>_. I)"
    by (simp add: fun_eq_iff patched_from_def split: status_write.split)
  ultimately show ?thesis
    using eff by (simp add: recovery_flow_def recovery_effects_def reads_instance_def)
qed

lemma recovery_flowD:
  assumes "recovery_flow L V I C F J r s"
  shows "I \<le> J" "reader_keeps I (ClusterReader (rr_Client r))" "reader_keeps I (recoveryReader r)"
    "write_keeps I (rr_Client r) PatchesWorkloadIdentityStatus"
    "mutating s \<Longrightarrow> preserves I (PatchServiceAccount (rr_Client r) x p)"
  using assms cluster_keeps_write[of I "rr_Client r" _ PatchesWorkloadIdentityStatus]
    cluster_keeps_write[of I "rr_Client r" _ PatchesServiceAccount]
  by (auto simp: recovery_flow_def cluster_keeps_def)

lemma flow_manager:
  assumes "recovery_flow L V I C F J r s" and "rr_Manager r = Some m"
    and "V x" and "validateRecoveryControllerTarget L x y = None"
  shows "allowed_call s InspectsAzure \<Longrightarrow> preserves I (rm_Inspect m x y u v)"
    and "mutating s \<Longrightarrow> preserves I (rm_MarkInProgress m x y (r_Plan (r_Status x)))"
    and "mutating s \<Longrightarrow> preserves I (rm_EnsureFederatedIdentityCredential m x y (r_Plan (r_Status x)))"
    and "mutating s \<Longrightarrow> grants I C (rm_Commit m x y (r_Plan (r_Status x)))"
    and "allowed_call s FinalizesAzure \<Longrightarrow> grants I F (rm_Finalize m x y (r_Plan (r_Status x)))"
  using assms by (simp_all add: recovery_flow_def manager_flows_def)

lemma pure_patch_leads:
  "recovery_flow L V I C F J r s \<Longrightarrow> allowed_write L s k \<Longrightarrow> writes_kind L k f \<Longrightarrow>
     leads (patched_from I C F k) J (patchRecoveryStatus r recovery (\<lambda>status. State_Monad.return (f status)))"
  unfolding recovery_flow_def status_patches_lead_def by blast

lemma timed_patch_leads:
  "recovery_flow L V I C F J r s \<Longrightarrow> allowed_write L s k \<Longrightarrow> (\<And>now. writes_kind L k (f now)) \<Longrightarrow>
     leads (patched_from I C F k) J (patchRecoveryStatus r recovery (\<lambda>status. State_Monad.bind (Now (rr_Client r))
       (\<lambda>now. State_Monad.return (f now status))))"
  unfolding recovery_flow_def status_patches_lead_def by blast

lemma writes_kinds:
  "writes_kind L WriteBlock (block_status L reason message g)"
  "writes_kind L WriteFail (fail_status L reason message g)"
  "writes_kind L WritePreflight (preflight_status L plan g)"
  "writes_kind L WriteStart (start_status L now g)"
  "writes_kind L WriteCommitVerified (commit_verified_status L g)"
  "writes_kind L WriteComplete (complete_status L now g)"
  by (auto simp: writes_kind_def intro: recovery_status_step.intros)

section \<open>Runs\<close>

abbreviation in_ctx :: "('w \<Rightarrow> bool) \<Rightarrow> 'w ctx \<Rightarrow> bool" where
  "in_ctx I \<equiv> \<lambda>c. I (world c)"

lemma leads_run_done [leads_intros]: "I \<le> J \<Longrightarrow> leads (in_ctx I) (in_ctx J) (run_done recovery x)"
  by (rule leads_stay) (auto intro: preserves_intros simp: le_fun_def)

lemma leads_run_failed [leads_intros]: "I \<le> J \<Longrightarrow> leads (in_ctx I) (in_ctx J) (run_failed recovery e)"
  by (rule leads_stay) (auto intro: preserves_intros simp: le_fun_def)

lemma leads_run_with [leads_intros]:
  "preserves I m \<Longrightarrow> (\<And>e. leads (in_ctx I) (in_ctx J) (h e)) \<Longrightarrow>
     (\<And>a. leads (in_ctx I) (in_ctx J) (k a)) \<Longrightarrow> leads (in_ctx I) (in_ctx J) (run_with m h k)"
  unfolding run_with_def by (rule leads_pre, rule preserves_in_world) (auto split: sum.split)

lemma leads_run_try [leads_intros]:
  "I \<le> J \<Longrightarrow> preserves I m \<Longrightarrow> (\<And>a. leads (in_ctx I) (in_ctx J) (k a)) \<Longrightarrow>
     leads (in_ctx I) (in_ctx J) (run_try recovery m k)"
  unfolding run_try_def by (intro leads_intros)

lemma leads_run_apart [leads_intros]:
  "leads (in_ctx I) (in_ctx J) m \<Longrightarrow> leads (in_ctx I) (in_ctx J) (run_apart recovery m)"
  unfolding run_apart_def by (rule leads_post) (auto intro: preserves_intros)

lemma leads_granted:
  assumes "grants I C m" and "\<And>e. leads (in_ctx I) (in_ctx J) (h e)" and "\<And>a. leads (in_ctx C) (in_ctx J) (k a)"
  shows "leads (in_ctx I) (in_ctx J) (run_with m h k)"
  unfolding leads_def
proof (intro allI impI)
  fix c :: "'a ctx" assume c: "I (world c)"
  obtain x w where m: "run_state m (world c) = (x, w)" by fastforce
  show "J (world (snd (run_state (run_with m h k) c)))"
  proof (cases x)
    case (Inl e)
    then have "I (world (c\<lparr>world := w\<rparr>))" using assms(1) m c unfolding grants_def by fastforce
    then show ?thesis using assms(2)[of e] m Inl by (simp add: run_run_with leads_def)
  next
    case (Inr a)
    then have "C (world (c\<lparr>world := w\<rparr>))" using assms(1) m c unfolding grants_def by fastforce
    then show ?thesis using assms(3)[of a] m Inr by (simp add: run_run_with leads_def)
  qed
qed

text \<open>What a successful call tells of its result may be used in what follows.\<close>

lemma leads_run_try_result:
  assumes "I \<le> J" and m: "preserves I m"
    and k: "\<And>a w w'. I w \<Longrightarrow> run_state m w = (Inr a, w') \<Longrightarrow> leads (in_ctx I) (in_ctx J) (k a)"
  shows "leads (in_ctx I) (in_ctx J) (run_try recovery m k)"
  unfolding leads_def
proof (intro allI impI)
  fix c :: "'a ctx" assume c: "I (world c)"
  obtain x w where run: "run_state m (world c) = (x, w)" by fastforce
  then have w: "I (world (c\<lparr>world := w\<rparr>))" using preservesD[OF m c] by simp
  show "J (world (snd (run_state (run_try recovery m k) c)))"
  proof (cases x)
    case (Inl e)
    then show ?thesis using run w assms(1) by (simp add: run_run_try le_fun_def)
  next
    case (Inr a)
    then show ?thesis using k[OF c run[unfolded Inr]] run w by (simp add: run_run_try leads_def)
  qed
qed

text \<open>A patch ends the forward run.\<close>

lemma leads_patched:
  "leads I J m \<Longrightarrow> (\<And>a. preserves (in_ctx J) (k a)) \<Longrightarrow>
     leads (in_ctx I) (in_ctx J) (run_try recovery m k)"
  unfolding run_try_def run_with_def
  by (rule leads_post, rule leads_in_world) (auto intro: preserves_intros split: sum.split)

section \<open>The steps\<close>

lemma patched_from_simps:
  "patched_from I C F WriteBlock = I" "patched_from I C F WriteFail = I" "patched_from I C F WritePreflight = I"
  "patched_from I C F WriteStart = I" "patched_from I C F WriteCommitVerified = C" "patched_from I C F WriteComplete = F"
  by (simp_all add: patched_from_def)

lemma block_leads:
  assumes "recovery_flow L V I C F J r s" and "allowed_write L s WriteBlock"
  shows "leads (in_ctx I) (in_ctx J) (block L r recovery reason message)"
  unfolding block_def
  by (intro leads_patched pure_patch_leads[OF assms, unfolded patched_from_simps] writes_kinds preserves_intros)

lemma fail_leads:
  assumes "recovery_flow L V I C F J r s" and "allowed_write L s WriteFail"
  shows "leads (in_ctx I) (in_ctx J) (fail L r recovery reason message)"
  unfolding fail_def
  by (intro leads_patched pure_patch_leads[OF assms, unfolded patched_from_simps] writes_kinds preserves_intros)

lemma handle_leads:
  assumes "recovery_flow L V I C F J r s" and "allowed_write L s WriteBlock"
  shows "leads (in_ctx I) (in_ctx J) (handleRecoveryError L r recovery err)"
  unfolding handleRecoveryError_def
  by (intro leads_intros block_leads[OF assms] recovery_flowD(1)[OF assms(1)])

lemma target_condition_keeps:
  assumes "reader_keeps I (recoveryReader r)"
    and "write_keeps I (rr_Client r) PatchesWorkloadIdentityStatus"
  shows "preserves I (patchTargetRecoveryCondition L r recovery target fromReasons reason message)"
proof -
  have "preserves I (PatchWorkloadIdentityStatus (rr_Client r) x p)" for x p
    using assms(2) by simp
  then show ?thesis
    unfolding patchTargetRecoveryCondition_def by (intro preserves_intros reader_keepsD[OF assms(1)])
qed

lemma winner_keeps:
  "reader_keeps I (recoveryReader r) \<Longrightarrow> preserves I (recoveryWinnerForSource r recovery)"
  unfolding recoveryWinnerForSource_def by (intro preserves_intros)

lemma preflight_leads:
  assumes eff: "recovery_flow L V I C F J r s" and m: "rr_Manager r = Some m"
    and pre: "allowed_write L s WritePreflight" "allowed_call s InspectsAzure"
    and valid: "V recovery" "validateRecoveryControllerTarget L recovery identity = None"
  shows "leads (in_ctx I) (in_ctx J) (preflightRecovery L r m recovery identity)"
proof -
  have "allowed_write L s WriteBlock"
    using pre by (simp add: allowed_write_def)
  note block = block_leads[OF eff this] handle_leads[OF eff this]
  have "preserves I (validateRecoveryServiceAccount L r recovery identity)"
    unfolding validateRecoveryServiceAccount_def
    by (intro preserves_intros recovery_flowD[OF eff])
  then show ?thesis
    unfolding preflightRecovery_def
    by (intro leads_patched[OF pure_patch_leads[OF eff pre(1) writes_kinds(3), unfolded patched_from_simps]] leads_intros block
        recovery_flowD(1)[OF eff] flow_manager(1)[OF eff m valid pre(2)] preserves_external
        reader_keepsD(4)[OF recovery_flowD(2)[OF eff]] preserves_run_done)
qed

lemma start_leads:
  assumes eff: "recovery_flow L V I C F J r s" and start: "allowed_write L s WriteStart"
  shows "leads (in_ctx I) (in_ctx J) (startRecovery L r recovery identity)"
proof -
  have "allowed_write L s WriteFail"
    using start by (simp add: allowed_write_def)
  note fail = fail_leads[OF eff this]
  show ?thesis
    unfolding startRecovery_def markTargetRecoveryInProgress_def
    by (intro leads_patched[OF timed_patch_leads[OF eff start writes_kinds(4), unfolded patched_from_simps]] leads_intros fail
        winner_keeps target_condition_keeps recovery_flowD[OF eff] preserves_run_done)
qed

lemma commit_leads:
  assumes eff: "recovery_flow L V I C F J r s" and m: "rr_Manager r = Some m"
    and commit: "allowed_write L s WriteCommitVerified" and uid: "V recovery"
  shows "leads (in_ctx I) (in_ctx J) (commitRecovery L r m recovery identity saUID)"
proof -
  have block: "allowed_write L s WriteBlock" and mut: "mutating s"
    using commit by (auto simp: allowed_write_def mutating_def)
  have verify: "preserves I (verifyRecoveryServiceAccountForCommit L (recoveryReader r) x plan u)" for x plan u
    unfolding verifyRecoveryServiceAccountForCommit_def
    by (intro preserves_intros recovery_flowD[OF eff])
  show ?thesis
    unfolding commitRecovery_def Let_def
  proof (rule leads_run_try_result[OF recovery_flowD(1)[OF eff]])
    show "preserves I (external (GetWorkloadIdentityRecovery (recoveryReader r) (object_key (r_Meta recovery))))"
      by (intro preserves_external reader_keepsD recovery_flowD[OF eff])
  next
    fix x w w' assume "I w"
      and "run_state (external (GetWorkloadIdentityRecovery (recoveryReader r) (object_key (r_Meta recovery)))) w = (Inr x, w')"
    then have x: "V x" if "r_UID x = r_UID recovery"
      using eff uid that unfolding recovery_flow_def reads_instance_def
      by (auto simp: run_external split: prod.splits sum.splits)
    note recorded = leads_patched[OF pure_patch_leads[OF eff commit writes_kinds(5), unfolded patched_from_simps]]
    show "leads (in_ctx I) (in_ctx J) (if r_UID x \<noteq> r_UID recovery
        then run_failed recovery (ErrorString ''WorkloadIdentityRecovery instance changed before commit'')
        else run_apart recovery (run_with (external (GetWorkloadIdentity (recoveryReader r) (object_key (wi_Meta identity))))
              (handleRecoveryError L r x)
              (\<lambda>y. case validateRecoveryControllerTarget L x y of
                  None \<Rightarrow> run_with (verifyRecoveryServiceAccountForCommit L (recoveryReader r) y
                                (r_Plan (r_Status x)) saUID)
                      (handleRecoveryError L r x)
                      (\<lambda>_. run_with (rm_Commit m x y (r_Plan (r_Status x)))
                         (handleRecoveryError L r x) (\<lambda>_. recordRecoveryCommitVerified L r x))
                | Some err \<Rightarrow> block L r x recoveryReasonTargetChanged (Error err))))"
      unfolding recordRecoveryCommitVerified_def
      by (intro recorded leads_granted[OF flow_manager(4)[OF eff m x _ mut]] leads_intros
          recovery_flowD(1)[OF eff] handle_leads[OF eff block] block_leads[OF eff block] verify preserves_external
          reader_keepsD[OF recovery_flowD(3)[OF eff]] preserves_run_done) simp_all
  qed
qed

lemma transfer_keeps:
  assumes eff: "recovery_flow L V I C F J r s" and mut: "mutating s"
  shows "preserves I (transferRecoveryServiceAccount L r recovery identity plan)"
  unfolding transferRecoveryServiceAccount_def verify_transferred_def Let_def
  by (intro preserves_intros recovery_flowD[OF eff] mut)

lemma advance_leads:
  assumes eff: "recovery_flow L V I C F J r s" and m: "rr_Manager r = Some m"
    and commit: "allowed_write L s WriteCommitVerified"
    and valid: "V recovery" "validateRecoveryControllerTarget L recovery identity = None"
  shows "leads (in_ctx I) (in_ctx J) (advanceRecovery L r m recovery identity)"
proof -
  have block: "allowed_write L s WriteBlock" and mut: "mutating s"
    using commit by (auto simp: allowed_write_def mutating_def)
  show ?thesis
    unfolding advanceRecovery_def Let_def
    by (intro leads_intros handle_leads[OF eff block] flow_manager(2,3)[OF eff m valid mut]
        transfer_keeps[OF eff mut] commit_leads[OF eff m commit valid(1)])
qed

lemma finalize_leads:
  assumes eff: "recovery_flow L V I C F J r s" and m: "rr_Manager r = Some m"
    and complete: "allowed_write L s WriteComplete"
    and valid: "V recovery" "validateRecoveryControllerTarget L recovery identity = None"
  shows "leads (in_ctx I) (in_ctx J) (finalizeRecovery L r m recovery identity)"
proof -
  have block: "allowed_write L s WriteBlock" and fin: "allowed_call s FinalizesAzure"
    using complete by (auto simp: allowed_write_def allowed_call_def)
  show ?thesis
    unfolding finalizeRecovery_def
    by (intro leads_patched[OF timed_patch_leads[OF eff complete writes_kinds(6), unfolded patched_from_simps]] leads_intros
        leads_granted[OF flow_manager(5)[OF eff m valid fin]] handle_leads[OF eff block] preserves_run_done)
qed

text \<open>What the status of a live recovery allows.\<close>

lemma live_allows:
  assumes "\<not> recoveryIsComplete L recovery"
    and "r_MutationStarted (r_Status recovery) \<or> \<not> recoveryIsFailed L recovery"
  defines "s \<equiv> r_Status recovery"
  shows "allowed_write L s WriteBlock"
    and "\<not> r_MutationStarted s \<Longrightarrow> allowed_write L s WriteFail"
    and "\<not> r_MutationStarted s \<Longrightarrow> \<not> r_CommitVerified s \<Longrightarrow> r_Plan s = None \<Longrightarrow>
      allowed_write L s WritePreflight \<and> allowed_call s InspectsAzure"
    and "\<not> r_MutationStarted s \<Longrightarrow> \<not> r_CommitVerified s \<Longrightarrow> r_Plan s \<noteq> None \<Longrightarrow>
      allowed_write L s WriteStart"
    and "r_MutationStarted s \<Longrightarrow> \<not> r_CommitVerified s \<Longrightarrow> r_Plan s \<noteq> None \<Longrightarrow>
      allowed_write L s WriteCommitVerified"
    and "r_CommitVerified s \<Longrightarrow> r_Plan s \<noteq> None \<Longrightarrow> allowed_write L s WriteComplete"
  using assms by (auto simp: allowed_write_def allowed_call_def condition_true_def
      recoveryIsComplete_def recoveryIsFailed_def)

lemma forward_leads:
  assumes eff: "recovery_flow L V I C F J r (r_Status recovery)" and m: "rr_Manager r = Some m" and about: "V recovery"
    and live: "\<not> recoveryIsComplete L recovery"
      "r_MutationStarted (r_Status recovery) \<or> \<not> recoveryIsFailed L recovery"
  shows "leads (in_ctx I) (in_ctx J) (reconcileForward L r m recovery)"
proof -
  note allows = live_allows[OF live]
  have "leads (in_ctx I) (in_ctx J) (forward_from_target L r m recovery identity)" for identity
    unfolding forward_from_target_def
    by (intro leads_intros block_leads[OF eff] fail_leads[OF eff] preflight_leads[OF eff m]
        start_leads[OF eff] advance_leads[OF eff m] finalize_leads[OF eff m])
      (simp_all add: allows about)
  then show ?thesis
    unfolding reconcileForward_def getCurrentTarget_def
    by (intro leads_intros block_leads[OF eff allows(1)] fail_leads[OF eff allows(2)] preserves_external
        reader_keepsD(1)[OF recovery_flowD(2)[OF eff]] recovery_flowD(1)[OF eff])
qed

section \<open>The whole reconcile\<close>

lemma release_keeps:
  assumes "reader_keeps I (recoveryReader r)"
    and "write_keeps I (rr_Client r) PatchesWorkloadIdentityStatus"
  shows "preserves I (releaseCompletedTarget L r recovery)"
    and "preserves I (releaseCancelledTarget L r recovery)"
  unfolding releaseCompletedTarget_def releaseCancelledTarget_def
  by (rule target_condition_keeps[OF assms])+

lemma remove_finalizer_keeps:
  assumes "reader_keeps I (ClusterReader (rr_Client r))" and "write_keeps I (rr_Client r) UpdatesRecovery"
  shows "preserves I (removeRecoveryFinalizer L r recovery)"
proof -
  have "preserves I (UpdateWorkloadIdentityRecovery (rr_Client r) x)" for x
    using assms(2) by simp
  then show ?thesis
    unfolding removeRecoveryFinalizer_def by (intro preserves_intros reader_keepsD[OF assms(1)])
qed

text \<open>What may happen before and after the forward run: the target is released and the finalizer
  added or removed.\<close>

definition releases_keep :: "('w \<Rightarrow> bool) \<Rightarrow> 'w RecoveryReconciler \<Rightarrow> bool" where
  "releases_keep I r \<longleftrightarrow>
     cluster_keeps I (rr_Client r) {PatchesWorkloadIdentityStatus, UpdatesRecovery} \<and>
     reader_keeps I (recoveryReader r)"

lemma releases_keepD:
  assumes "releases_keep I r"
  shows "preserves I (releaseCompletedTarget L r recovery)"
    and "preserves I (releaseCancelledTarget L r recovery)"
    and "preserves I (removeRecoveryFinalizer L r recovery)"
    and "preserves I (UpdateWorkloadIdentityRecovery (rr_Client r) x)"
  using assms release_keeps[of I r L recovery] remove_finalizer_keeps[of I r L recovery]
    cluster_keeps_write[of I "rr_Client r" _ UpdatesRecovery]
  by (auto simp: releases_keep_def cluster_keeps_def)

lemma reconcile_flows:
  assumes eff: "recovery_flow L V I C F J r (r_Status recovery)" and about: "V recovery"
    and rel: "releases_keep I r" "releases_keep J r"
  shows "leads (in_ctx I) (in_ctx J) (reconcile_existing_recovery L r recovery)"
proof -
  note le = recovery_flowD(1)[OF eff]
  have last: "preserves I m \<Longrightarrow> leads (in_ctx I) (in_ctx J) (run_last x m)" for m x
    unfolding run_last_def by (intro leads_intros le)
  have last': "preserves (in_ctx J) (run_last x (removeRecoveryFinalizer L r x))" for x
    unfolding run_last_def by (intro preserves_intros releases_keepD[OF rel(2)])
  have block: "\<not> recoveryIsComplete L recovery \<Longrightarrow> allowed_write L (r_Status recovery) WriteBlock"
    by (simp add: allowed_write_def condition_true_def recoveryIsComplete_def)
  have after: "preserves (in_ctx J) (case x of (recovery, result, err) \<Rightarrow>
      if err \<noteq> None then State_Monad.return (recovery, result, err)
      else if recoveryIsComplete L recovery
      then run_try recovery (releaseCompletedTarget L r recovery)
             (\<lambda>_. run_last recovery (removeRecoveryFinalizer L r recovery))
      else State_Monad.return (recovery, result, None))" for x
    by (intro preserves_intros last' releases_keepD[OF rel(2)])
  have "leads (in_ctx I) (in_ctx J) (Recovery_reconcileDelete L r recovery)"
    unfolding Recovery_reconcileDelete_def
    by (intro leads_if leads_option leads_post[OF forward_leads[OF eff _ about] after] leads_run_try leads_run_done last le
        winner_keeps recovery_flowD[OF eff] releases_keepD[OF rel(1)] block_leads[OF eff block]) simp_all
  note delete = this
  have noop: "leads (in_ctx I) (in_ctx J) (State_Monad.bind (SetReconcileOutcome o') (\<lambda>_. m))"
    if "leads (in_ctx I) (in_ctx J) m" for o' and m :: "'a recovery_run"
    by (rule leads_pre[OF preserves_SetReconcileOutcome that])
  show ?thesis
    unfolding reconcile_existing_recovery_def
    by (intro delete noop leads_if leads_option leads_run_try leads_run_done last le
        releases_keepD[OF rel(1)] preserves_external block_leads[OF eff block] forward_leads[OF eff _ about]) simp_all
qed

lemma reconcile_leads:
  assumes "recovery_effects L I J r (r_UID recovery) (r_Status recovery)" and "releases_keep I r" and "releases_keep J r"
  shows "leads (in_ctx I) (in_ctx J) (reconcile_existing_recovery L r recovery)"
  by (rule reconcile_flows[OF flow_of_effects[OF assms(1)] refl assms(2,3)])

section \<open>Status patches that a client keeps\<close>

definition status_writes_keep ::
  "k8s_lib \<Rightarrow> ('w \<Rightarrow> bool) \<Rightarrow> 'w Cluster \<Rightarrow> WorkloadIdentityRecoveryStatus \<Rightarrow> bool" where
  "status_writes_keep L I C s \<longleftrightarrow>
     (\<forall>k current s'. allowed_write L s k \<longrightarrow> recovery_status_step L k (r_Status current) s' \<longrightarrow>
        preserves I (PatchWorkloadIdentityRecoveryStatus C (current\<lparr>r_Status := s'\<rparr>) (MergeFrom current)))"

lemma status_writes_keepD:
  "status_writes_keep L I C s \<Longrightarrow> allowed_write L s k \<Longrightarrow> writes_kind L k f \<Longrightarrow>
     preserves I (PatchWorkloadIdentityRecoveryStatus C
       (current\<lparr>r_Status := f ((r_Status current)\<lparr>r_ObservedGeneration := g, r_LastAttemptTime := Some t\<rparr>)\<rparr>)
       (MergeFrom current))"
  unfolding status_writes_keep_def writes_kind_def stamped_def by blast

lemma patch_run_pure:
  "patchRecoveryStatus r recovery (\<lambda>status. State_Monad.return (f status)) =
     io_try (external (GetWorkloadIdentityRecovery (ClusterReader (rr_Client r)) (object_key (r_Meta recovery))))
      (\<lambda>current. State_Monad.bind (Now (rr_Client r)) (\<lambda>t.
       io_try (external (PatchWorkloadIdentityRecoveryStatus (rr_Client r)
           (current\<lparr>r_Status := f ((r_Status current)
              \<lparr>r_ObservedGeneration := Generation (r_Meta current), r_LastAttemptTime := Some t\<rparr>)\<rparr>)
           (MergeFrom current)))
         (\<lambda>patched. io_return (recovery\<lparr>r_Status := r_Status patched\<rparr>))))"
  by (simp add: patchRecoveryStatus_def)

lemma patch_run_timed:
  "patchRecoveryStatus r recovery (\<lambda>status. State_Monad.bind (Now (rr_Client r))
       (\<lambda>now. State_Monad.return (f now status))) =
     io_try (external (GetWorkloadIdentityRecovery (ClusterReader (rr_Client r)) (object_key (r_Meta recovery))))
      (\<lambda>current. State_Monad.bind (Now (rr_Client r)) (\<lambda>t. State_Monad.bind (Now (rr_Client r)) (\<lambda>now.
       io_try (external (PatchWorkloadIdentityRecoveryStatus (rr_Client r)
           (current\<lparr>r_Status := f now ((r_Status current)
              \<lparr>r_ObservedGeneration := Generation (r_Meta current), r_LastAttemptTime := Some t\<rparr>)\<rparr>)
           (MergeFrom current)))
         (\<lambda>patched. io_return (recovery\<lparr>r_Status := r_Status patched\<rparr>)))))"
  by (simp add: patchRecoveryStatus_def)

lemma status_patches_kept:
  assumes "reader_keeps I (ClusterReader (rr_Client r))" and "preserves I (Now (rr_Client r))"
    and keep: "status_writes_keep L I (rr_Client r) s"
  shows "status_patches_lead L (\<lambda>_. I) I r s"
  unfolding status_patches_lead_def leads_same
proof (intro allI impI conjI)
  fix k recovery f assume k: "allowed_write L s k" "writes_kind L k f"
  show "preserves I (patchRecoveryStatus r recovery (\<lambda>status. State_Monad.return (f status)))"
    unfolding patch_run_pure
    by (intro preserves_intros reader_keepsD(6)[OF assms(1)] assms(2) status_writes_keepD[OF keep k])
next
  fix k recovery
  fix f :: "time \<Rightarrow> WorkloadIdentityRecoveryStatus \<Rightarrow> WorkloadIdentityRecoveryStatus"
  assume k: "allowed_write L s k" "\<forall>now. writes_kind L k (f now)"
  note patch = status_writes_keepD[OF keep k(1) spec[OF k(2)]]
  show "preserves I (patchRecoveryStatus r recovery (\<lambda>status. State_Monad.bind (Now (rr_Client r))
       (\<lambda>now. State_Monad.return (f now status))))"
    unfolding patch_run_timed
    by (intro preserves_intros reader_keepsD(6)[OF assms(1)] assms(2) patch)
qed

section \<open>A store of recoveries without other writers\<close>

text \<open>
  \<open>recovery_store view C\<close>: \<open>view w k\<close> is the status stored for the recovery \<open>k\<close>, if it exists.  A
  read reports it (the lag of a cached client behind the server is not modelled) and changes none, the clock changes none, a status merge patch computed from the
  stored status stores the new status or (when it fails) may leave the old one, and an update of
  the metadata leaves the status or (the last finalizer gone) removes the object.
\<close>

type_synonym 'w status_view = "'w \<Rightarrow> NamespacedName \<Rightarrow> WorkloadIdentityRecoveryStatus option"

definition recovery_store :: "'w status_view \<Rightarrow> 'w Cluster \<Rightarrow> bool" where
  "recovery_store view C \<longleftrightarrow>
     (\<forall>k w r w'. run_state (GetWorkloadIdentityRecovery (ClusterReader C) k) w = (r, w') \<longrightarrow>
        view w' = view w \<and> (\<forall>x. r = Inr x \<longrightarrow> object_key (r_Meta x) = k \<and> view w k = Some (r_Status x))) \<and>
     (\<forall>w t w'. run_state (Now C) w = (t, w') \<longrightarrow> view w' = view w) \<and>
     (\<forall>x s' w r w'. run_state (PatchWorkloadIdentityRecoveryStatus C (x\<lparr>r_Status := s'\<rparr>) (MergeFrom x)) w
          = (r, w') \<longrightarrow> view w (object_key (r_Meta x)) = Some (r_Status x) \<longrightarrow>
        view w' = view w \<or> view w' = (view w)(object_key (r_Meta x) := Some s')) \<and>
     (\<forall>x w r w'. run_state (UpdateWorkloadIdentityRecovery C x) w = (r, w') \<longrightarrow>
        view w' = view w \<or> view w' = (view w)(object_key (r_Meta x) := None))"

lemma recovery_storeD:
  assumes "recovery_store view C"
  shows "run_state (GetWorkloadIdentityRecovery (ClusterReader C) k) w = (r, w') \<Longrightarrow>
      view w' = view w \<and> (\<forall>x. r = Inr x \<longrightarrow> object_key (r_Meta x) = k \<and> view w k = Some (r_Status x))"
    and "run_state (Now C) w = (t, w') \<Longrightarrow> view w' = view w"
    and "run_state (PatchWorkloadIdentityRecoveryStatus C (x\<lparr>r_Status := s'\<rparr>) (MergeFrom x)) w = (p, w') \<Longrightarrow>
      view w (object_key (r_Meta x)) = Some (r_Status x) \<Longrightarrow>
      view w' = view w \<or> view w' = (view w)(object_key (r_Meta x) := Some s')"
    and "run_state (UpdateWorkloadIdentityRecovery C x) w = (u, w') \<Longrightarrow>
      view w' = view w \<or> view w' = (view w)(object_key (r_Meta x) := None)"
  using assms unfolding recovery_store_def by blast+

definition status_is :: "'w status_view \<Rightarrow> NamespacedName \<Rightarrow> WorkloadIdentityRecoveryStatus \<Rightarrow> 'w \<Rightarrow> bool" where
  "status_is view k s w \<longleftrightarrow> view w k \<in> {None, Some s}"

definition status_moved :: "k8s_lib \<Rightarrow> 'w status_view \<Rightarrow> NamespacedName \<Rightarrow>
    WorkloadIdentityRecoveryStatus \<Rightarrow> 'w \<Rightarrow> bool" where
  "status_moved L view k s w \<longleftrightarrow> (\<forall>s'. view w k = Some s' \<longrightarrow> s' = s \<or> recovery_machine L s s')"

lemma status_is_moved: "status_is view k s \<le> status_moved L view k s"
  by (auto simp: status_is_def status_moved_def le_fun_def)

lemma update_keeps_status:
  assumes "recovery_store view C"
  shows "write_keeps (status_is view k s) C UpdatesRecovery"
    and "write_keeps (status_moved L view k s) C UpdatesRecovery"
  using recovery_storeD(4)[OF assms]
  by (auto simp: preserves_def status_is_def status_moved_def) (metis fun_upd_apply option.distinct(1) surjective_pairing)+

lemma patch_moves:
  assumes store: "recovery_store view (rr_Client r)" and s: "allowed_write L s k"
    and mut: "\<And>g t v w. \<exists>s' w'. run_state (mutate (stamped g t v)) w = (s', w') \<and>
      recovery_status_step L k v s' \<and> view w' = view w"
  shows "leads (status_is view key s) (status_moved L view key s) (patchRecoveryStatus r recovery mutate)"
  unfolding leads_def
proof (intro allI impI)
  fix w assume w: "status_is view key s w"
  obtain got w1 where get: "run_state (GetWorkloadIdentityRecovery (ClusterReader (rr_Client r))
      (object_key (r_Meta recovery))) w = (got, w1)" by fastforce
  note got = recovery_storeD(1)[OF store get]
  obtain t w2 where now: "run_state (Now (rr_Client r)) w1 = (t, w2)" by fastforce
  note now' = recovery_storeD(2)[OF store now]
  show "status_moved L view key s (snd (run_state (patchRecoveryStatus r recovery mutate) w))"
  proof (cases got)
    case (Inl e)
    then show ?thesis
      using get got w by (auto simp: patchRecoveryStatus_def run_simps status_moved_def status_is_def)
  next
    case (Inr x)
    obtain s' w3 where m: "run_state (mutate (stamped (Generation (r_Meta x)) t (r_Status x))) w2 = (s', w3)"
      and st: "recovery_status_step L k (r_Status x) s'" and w3: "view w3 = view w2"
      using mut by blast
    obtain p w4 where patch: "run_state (PatchWorkloadIdentityRecoveryStatus (rr_Client r)
        (x\<lparr>r_Status := s'\<rparr>) (MergeFrom x)) w3 = (p, w4)" by fastforce
    have view: "view w3 = view w" and x: "view w (object_key (r_Meta x)) = Some (r_Status x)"
      using got now' w3 Inr by auto
    then have "view w4 = view w \<or> view w4 = (view w)(object_key (r_Meta x) := Some s')"
      using recovery_storeD(3)[OF store patch] by simp
    moreover have "recovery_machine L s s'" if "object_key (r_Meta x) = key"
      using st s x w that by (auto simp: recovery_machine_def status_is_def)
    ultimately have "status_moved L view key s w4"
      using w by (auto simp: status_moved_def status_is_def split: if_splits)
    moreover have "snd (run_state (patchRecoveryStatus r recovery mutate) w) = w4"
      using get now m patch Inr
      by (auto simp: patchRecoveryStatus_def run_simps stamped_def split: sum.split)
    ultimately show ?thesis by simp
  qed
qed

lemma status_patches_move:
  assumes store: "recovery_store view (rr_Client r)"
  shows "status_patches_lead L (\<lambda>_. status_is view key s) (status_moved L view key s) r s"
  unfolding status_patches_lead_def
proof (intro allI impI conjI)
  fix k recovery f assume "allowed_write L s k" "writes_kind L k f"
  then show "leads (status_is view key s) (status_moved L view key s)
      (patchRecoveryStatus r recovery (\<lambda>status. State_Monad.return (f status)))"
    by (intro patch_moves[OF store]) (auto simp: writes_kind_def)
next
  fix k recovery
  fix f :: "time \<Rightarrow> WorkloadIdentityRecoveryStatus \<Rightarrow> WorkloadIdentityRecoveryStatus"
  assume k: "allowed_write L s k" "\<forall>now. writes_kind L k (f now)"
  show "leads (status_is view key s) (status_moved L view key s) (patchRecoveryStatus r recovery
      (\<lambda>status. State_Monad.bind (Now (rr_Client r)) (\<lambda>now. State_Monad.return (f now status))))"
  proof (rule patch_moves[OF store k(1)])
    fix g t v w
    obtain n w' where "run_state (Now (rr_Client r)) w = (n, w')" by fastforce
    with k(2) recovery_storeD(2)[OF store this]
    show "\<exists>s' w'. run_state (State_Monad.bind (Now (rr_Client r))
        (\<lambda>now. State_Monad.return (f now (stamped g t v)))) w = (s', w') \<and>
      recovery_status_step L k v s' \<and> view w' = view w"
      by (auto simp: run_simps writes_kind_def)
  qed
qed

end
