(* ===== verification/Recovery_Lifecycle.thy ===== *)
theory Recovery_Lifecycle
  imports Recovery_Effects
begin

text \<open>
  The properties of the recovery reconciler: the bound on its effects, the soundness of the status
  it stores over any sequence of reconciles, and the handling of a deletion.
\<close>

section \<open>A concrete cluster\<close>

definition no_manager :: "sim recovery_manager" where
  "no_manager = \<lparr> rm_Inspect = (\<lambda>x y u s. io_fail nil_dereference),
     rm_MarkInProgress = (\<lambda>x y p. io_fail nil_dereference),
     rm_EnsureFederatedIdentityCredential = (\<lambda>x y p. io_fail nil_dereference),
     rm_Commit = (\<lambda>x y p. io_fail nil_dereference), rm_Finalize = (\<lambda>x y p. io_fail nil_dereference) \<rparr>"

text \<open>The Azure recovery manager of Azure_Recovery behind the controller's interface.\<close>

definition azure_manager :: "arm_state armSDK \<Rightarrow> arm_state RecoveryManager \<Rightarrow> sim recovery_manager" where
  "azure_manager sdk m = \<lparr>
     rm_Inspect = (\<lambda>x y u s. on_azure (Inspect sdk m x y u s)),
     rm_MarkInProgress = (\<lambda>x y p. on_azure (MarkInProgress sdk m x y p)),
     rm_EnsureFederatedIdentityCredential =
       (\<lambda>x y p. on_azure (Azure_Recovery.EnsureFederatedIdentityCredential sdk m x y p)),
     rm_Commit = (\<lambda>x y p. on_azure (Commit sdk m x y p)),
     rm_Finalize = (\<lambda>x y p. on_azure (Finalize sdk m x y p)) \<rparr>"

definition demo_reconciler :: "sim RecoveryReconciler" where
  "demo_reconciler = \<lparr> rr_Client = sim_cluster, rr_APIReader = None,
     rr_Manager = Some (azure_manager demo_sdk demo_manager) \<rparr>"

lemma demo_reconciler_simps [simp]:
  "rr_Client demo_reconciler = sim_cluster" "recoveryReader demo_reconciler = sim_reader"
  "rr_Manager demo_reconciler = Some (azure_manager demo_sdk demo_manager)"
  by (simp_all add: demo_reconciler_def recoveryReader_def sim_cluster_def)

lemma preserves_on_azure:
  "(\<And>a w. P (w\<lparr>sim_azure := a\<rparr>) = P w) \<Longrightarrow> preserves P (on_azure m)"
  by (auto simp: preserves_def run_on_azure split: prod.split)

definition demo_planned :: WorkloadIdentityRecovery where
  "demo_planned = demo_recovery\<lparr>r_Status := (r_Status demo_recovery)\<lparr>r_Plan := Some demo_plan\<rparr>\<rparr>"

section \<open>Effects of one reconcile\<close>

text \<open>
  C15. What one reconcile of a recovery may do is bounded by the status it starts from: the Azure
  manager inspects only before anything has started, marks, ensures and commits only while mutation
  has started with a recorded plan and the commit is not verified, and finalizes only after the
  verified commit, each call for this recovery, with its recorded plan and with a target that has
  just passed validation; ServiceAccounts are patched only in that same window; every status write is one
  the status machine allows.  Whatever keeps a predicate for these calls, for cluster reads, the
  target's status condition and the recovery's finalizer, the reconcile keeps.
\<close>

theorem reconcile_effects_bounded:
  assumes "cluster_keeps I (rr_Client r) ({PatchesWorkloadIdentityStatus, UpdatesRecovery} \<union>
      (if mutating (r_Status recovery) then {PatchesServiceAccount} else {}))"
    and "reader_keeps I (recoveryReader r)"
    and "\<And>m k. rr_Manager r = Some m \<Longrightarrow> allowed_call (r_Status recovery) k \<Longrightarrow>
      manager_keeps L (r_UID recovery) I m k"
    and "status_writes_keep L I (rr_Client r) (r_Status recovery)"
  shows "preserves (in_ctx I) (reconcile_existing_recovery L r recovery)"
proof -
  have reads: "reader_keeps I (ClusterReader (rr_Client r))" "preserves I (Now (rr_Client r))"
    using assms(1) by (simp_all add: cluster_keeps_def)
  have "recovery_effects L I I r (r_UID recovery) (r_Status recovery)"
    using assms(1-3) status_patches_kept[OF reads assms(4)]
    by (auto simp: recovery_effects_def cluster_keeps_def)
  moreover have "releases_keep I r"
    using assms(1,2) by (auto simp: releases_keep_def cluster_keeps_def)
  ultimately show ?thesis
    using reconcile_leads[of L I I r recovery] by (simp add: leads_same)
qed

lemma demo_planned_status:
  "r_MutationStarted (r_Status demo_planned) = False" "r_CommitVerified (r_Status demo_planned) = False"
  "r_Plan (r_Status demo_planned) = Some demo_plan" "\<not> mutating (r_Status demo_planned)"
  by (simp_all add: demo_planned_def demo_recovery_def mutating_def)

theorem reconcile_effects_bounded_witness:
  "preserves (in_ctx (\<lambda>w. sim_azure w = demo_store))
     (reconcile_existing_recovery std_lib demo_reconciler demo_planned)"
proof (rule reconcile_effects_bounded)
  show "cluster_keeps (\<lambda>w. sim_azure w = demo_store) (rr_Client demo_reconciler)
     ({PatchesWorkloadIdentityStatus, UpdatesRecovery} \<union>
      (if mutating (r_Status demo_planned) then {PatchesServiceAccount} else {}))"
    by (simp only: demo_reconciler_simps) (rule sim_cluster_azure[of "\<lambda>a. a = demo_store"])
  show "reader_keeps (\<lambda>w. sim_azure w = demo_store) (recoveryReader demo_reconciler)"
    by (simp only: demo_reconciler_simps) (rule sim_reader_azure[of "\<lambda>a. a = demo_store"])
  show "manager_keeps std_lib (r_UID demo_planned) (\<lambda>w. sim_azure w = demo_store) m k"
    if "allowed_call (r_Status demo_planned) k" for m k
    using that by (cases k) (simp_all add: allowed_call_def demo_planned_status)
  show "status_writes_keep std_lib (\<lambda>w. sim_azure w = demo_store) (rr_Client demo_reconciler)
      (r_Status demo_planned)"
    using cluster_keeps_write[OF sim_cluster_azure, of PatchesRecoveryStatus UNIV "\<lambda>a. a = demo_store"]
    by (simp add: status_writes_keep_def)
qed

section \<open>Status over many reconciles\<close>

text \<open>Calls that leave every recovery's status alone.\<close>

definition status_untouched :: "'w status_view \<Rightarrow> 'w RecoveryReconciler \<Rightarrow> bool" where
  "status_untouched view r \<longleftrightarrow>
     (\<forall>P. cluster_keeps (\<lambda>w. P (view w)) (rr_Client r) {PatchesWorkloadIdentityStatus, PatchesServiceAccount} \<and>
          reader_keeps (\<lambda>w. P (view w)) (recoveryReader r) \<and>
          (\<forall>L uid m k. rr_Manager r = Some m \<longrightarrow> manager_keeps L uid (\<lambda>w. P (view w)) m k))"

lemma status_untouchedD:
  assumes "status_untouched view r"
  shows "cluster_keeps (\<lambda>w. P (view w)) (rr_Client r) {PatchesWorkloadIdentityStatus, PatchesServiceAccount}"
    and "reader_keeps (\<lambda>w. P (view w)) (recoveryReader r)"
    and "rr_Manager r = Some m \<Longrightarrow> manager_keeps L uid (\<lambda>w. P (view w)) m k"
  using assms by (auto simp: status_untouched_def)

lemma reconcile_moves:
  assumes store: "recovery_store view (rr_Client r)" and others: "status_untouched view r"
  shows "leads (in_ctx (status_is view key (r_Status recovery)))
    (in_ctx (status_moved L view key (r_Status recovery))) (reconcile_existing_recovery L r recovery)"
proof -
  let ?s = "r_Status recovery"
  let ?I = "status_is view key ?s" and ?J = "status_moved L view key ?s"
  define PI where "PI v \<longleftrightarrow> v key \<in> {None, Some ?s}" for v :: "NamespacedName \<Rightarrow> WorkloadIdentityRecoveryStatus option"
  define PJ where "PJ v \<longleftrightarrow> (\<forall>s'. v key = Some s' \<longrightarrow> s' = ?s \<or> recovery_machine L ?s s')"
    for v :: "NamespacedName \<Rightarrow> WorkloadIdentityRecoveryStatus option"
  have I: "?I = (\<lambda>w. PI (view w))" and J: "?J = (\<lambda>w. PJ (view w))"
    by (simp_all add: PI_def PJ_def status_is_def status_moved_def fun_eq_iff)
  note keep = status_untouchedD[OF others, where P = PI, folded I]
    status_untouchedD[OF others, where P = PJ, folded J]
  have "recovery_effects L ?I ?J r (r_UID recovery) ?s"
    using keep status_patches_move[OF store, of L key ?s] status_is_moved[of view key ?s L]
    by (auto simp: recovery_effects_def cluster_keeps_def)
  moreover have "releases_keep ?I r" "releases_keep ?J r"
    using keep update_keeps_status[OF store] by (auto simp: releases_keep_def cluster_keeps_def)
  ultimately show ?thesis by (rule reconcile_leads)
qed

text \<open>
  What happens to the recovery \<open>key\<close>: the reconciler runs (with any context and whatever it
  returns), or others act, who may delete the object, create it afresh and do anything else to the
  world but do not write its status.
\<close>

definition fresh_status :: "k8s_lib \<Rightarrow> WorkloadIdentityRecoveryStatus \<Rightarrow> bool" where
  "fresh_status L s \<longleftrightarrow> \<not> r_MutationStarted s \<and> \<not> r_CommitVerified s \<and> (\<forall>t. \<not> condition_true L t s)"

inductive recovery_event ::
  "k8s_lib \<Rightarrow> 'w RecoveryReconciler \<Rightarrow> 'w status_view \<Rightarrow> NamespacedName \<Rightarrow> 'w \<Rightarrow> 'w \<Rightarrow> bool"
  for L :: k8s_lib and r :: "'w RecoveryReconciler" and view :: "'w status_view" and key :: NamespacedName
where
  event_reconcile:
    "run_state (Recovery_Reconcile L r key) \<lparr> world = w, outcome = tracing \<rparr> = (res, c) \<Longrightarrow>
       recovery_event L r view key w (world c)"
| event_other: "view w' key = view w key \<Longrightarrow> recovery_event L r view key w w'"
| event_deleted: "view w' key = None \<Longrightarrow> recovery_event L r view key w w'"
| event_created: "view w key = None \<Longrightarrow> view w' key = Some s \<Longrightarrow> fresh_status L s \<Longrightarrow>
    recovery_event L r view key w w'"

inductive_cases recovery_eventE: "recovery_event L r view key w w'"

definition recovery_ok :: "k8s_lib \<Rightarrow> 'w status_view \<Rightarrow> NamespacedName \<Rightarrow> 'w \<Rightarrow> bool" where
  "recovery_ok L view key w \<longleftrightarrow> (\<forall>s. view w key = Some s \<longrightarrow> recovery_inv L s)"

lemma fresh_inv: "fresh_status L s \<Longrightarrow> recovery_inv L s"
  by (simp add: fresh_status_def recovery_inv_def)

lemma Reconcile_moves:
  assumes store: "recovery_store view (rr_Client r)" and others: "status_untouched view r"
    and run: "run_state (Recovery_Reconcile L r key) \<lparr> world = w, outcome = tracing \<rparr> = (res, c)"
    and s': "view (world c) key = Some s'"
  shows "\<exists>s. view w key = Some s \<and> (s' = s \<or> recovery_machine L s s')"
proof -
  obtain got w1 where get: "run_state (GetWorkloadIdentityRecovery (ClusterReader (rr_Client r)) key) w
      = (got, w1)" by fastforce
  note got = recovery_storeD(1)[OF store get]
  show ?thesis
  proof (cases got)
    case (Inl e)
    then have "world c = w1"
      using run get by (auto simp: Recovery_Reconcile_def run_simps split: if_splits)
    then show ?thesis using got s' by auto
  next
    case (Inr x)
    let ?c = "\<lparr> world = w1, outcome = tracing \<rparr>"
    obtain rec out c' where inner: "run_state (reconcile_existing_recovery L r x) ?c = ((rec, out), c')"
      by (metis surj_pair)
    then have "c' = c"
      using run get Inr by (simp add: Recovery_Reconcile_def run_simps)
    moreover have "status_is view key (r_Status x) w1"
      using got Inr by (simp add: status_is_def)
    ultimately have "status_moved L view key (r_Status x) (world c)"
      using reconcile_moves[OF store others, of key x L] inner
      by (metis (mono_tags, lifting) ctx.select_convs(1) leadsD)
    then show ?thesis using got Inr s' by (auto simp: status_moved_def)
  qed
qed

text \<open>Between two worlds the status of \<open>key\<close> moved by at most one transition of the machine.\<close>

definition status_follows :: "k8s_lib \<Rightarrow> 'w status_view \<Rightarrow> NamespacedName \<Rightarrow> 'w \<Rightarrow> 'w \<Rightarrow> bool" where
  "status_follows L view key w w' \<longleftrightarrow>
     (\<forall>s'. view w' key = Some s' \<longrightarrow> (\<exists>s. view w key = Some s \<and> (s' = s \<or> recovery_machine L s s')))"

text \<open>The invariant holds after every history.\<close>

lemma recovery_ok_always:
  assumes laws: "condition_laws L" and store: "recovery_store view (rr_Client r)" and others: "status_untouched view r"
    and history: "(recovery_event L r view key)\<^sup>*\<^sup>* w w'" and start: "view w key = None"
  shows "recovery_ok L view key w'"
  using history
proof (induction rule: rtranclp_induct)
  case base
  then show ?case using start by (simp add: recovery_ok_def)
next
  case (step y z)
  from step.hyps(2) show ?case
  proof (cases rule: recovery_event.cases)
    case (event_reconcile tracing res c)
    show ?thesis
      unfolding recovery_ok_def
    proof (intro allI impI)
      fix s' assume "view z key = Some s'"
      then obtain s where "view y key = Some s" and "s' = s \<or> recovery_machine L s s'"
        using Reconcile_moves[OF store others] event_reconcile by blast
      with step.IH recovery_inv_step[OF laws] show "recovery_inv L s'"
        by (auto simp: recovery_ok_def)
    qed
  next
    case (event_created s)
    then show ?thesis using fresh_inv by (simp add: recovery_ok_def)
  qed (use step.IH in \<open>simp_all add: recovery_ok_def\<close>)
qed

text \<open>
  C12. The status stored for a recovery is sound at all times and moves only along the recovery state
  machine.  Whatever sequence of reconciles, of deletions and recreations of the object and of other
  activity happens: commit verified implies mutation started, mutation started implies that a plan is
  recorded, Complete implies a verified commit, Failed implies that nothing was mutated, and neither
  Complete nor Failed holds together with Blocked; and whatever reconcile runs next, with any context
  and result, leaves the status alone or makes exactly one transition of \<open>recovery_machine\<close>, that is
  one of the six writes from a status that allows it (none from Complete, a plan only before mutation,
  the start only with a plan, the verified commit only after the start, the completion only after the
  verified commit).  Hypotheses: the controller alone writes the status, and what its client reads is what is
  stored (the effect of a cache that lags behind its own writes is not modelled).
\<close>

theorem recovery_status_sound:
  assumes "condition_laws L" and "recovery_store view (rr_Client r)" and "status_untouched view r"
    and "(recovery_event L r view key)\<^sup>*\<^sup>* w w'" and "view w key = None"
  shows "recovery_ok L view key w' \<and>
    (\<forall>tracing res c. run_state (Recovery_Reconcile L r key) \<lparr> world = w', outcome = tracing \<rparr> = (res, c) \<longrightarrow>
       status_follows L view key w' (world c))"
proof (intro conjI allI impI)
  show "recovery_ok L view key w'" by (rule recovery_ok_always[OF assms])
  show "status_follows L view key w' (world c)"
    if "run_state (Recovery_Reconcile L r key) \<lparr> world = w', outcome = tracing \<rparr> = (res, c)" for tracing res c
    unfolding status_follows_def using Reconcile_moves[OF assms(2,3) that] by blast
qed

lemma sim_store: "recovery_store sim_recovery sim_cluster"
  unfolding recovery_store_def
proof (intro conjI allI impI)
  fix k w r w' assume "run_state (GetWorkloadIdentityRecovery (ClusterReader sim_cluster) k) w = (r, w')"
  then show "sim_recovery w' = sim_recovery w"
    and "\<And>x. r = Inr x \<Longrightarrow> object_key (r_Meta x) = k"
    and "\<And>x. r = Inr x \<Longrightarrow> sim_recovery w k = Some (r_Status x)"
    by (auto simp: sim_cluster_def sim_reader_def sim_get_def sim_recovery_def statuses_def
        dest: find_key split: option.splits)
next
  fix w t w' assume "run_state (Now sim_cluster) w = (t, w')"
  then show "sim_recovery w' = sim_recovery w"
    by (auto simp: sim_cluster_def sim_recovery_def)
next
  fix x s' w r w'
  assume "run_state (PatchWorkloadIdentityRecoveryStatus sim_cluster (x\<lparr>r_Status := s'\<rparr>) (MergeFrom x)) w = (r, w')"
    and "sim_recovery w (object_key (r_Meta x)) = Some (r_Status x)"
  then show "sim_recovery w' = sim_recovery w \<or> sim_recovery w' = (sim_recovery w)(object_key (r_Meta x) := Some s')"
    by (auto simp: sim_cluster_def sim_write_def sim_recovery_def statuses_patch split: option.splits)
next
  fix x w r w' assume "run_state (UpdateWorkloadIdentityRecovery sim_cluster x) w = (r, w')"
  then show "sim_recovery w' = sim_recovery w \<or> sim_recovery w' = (sim_recovery w)(object_key (r_Meta x) := None)"
    by (auto simp: sim_cluster_def sim_write_def sim_recovery_def statuses_update split: option.splits if_splits)
qed

lemma sim_untouched: "status_untouched sim_recovery demo_reconciler"
proof -
  have "manager_keeps L uid (\<lambda>w. P (sim_recovery w)) (azure_manager demo_sdk demo_manager) k" for L uid P k
    by (cases k) (simp_all add: azure_manager_def preserves_on_azure sim_recovery_def)
  then show ?thesis
    unfolding status_untouched_def by (auto simp only: demo_reconciler_simps sim_recovery_untouched option.inject)
qed

definition demo_sim :: sim where
  "demo_sim = \<lparr> sim_identities = [demo_identity], sim_issuers = [], sim_accounts = [],
     sim_recoveries = [], sim_secrets = [], sim_clock = 100, sim_azure = demo_store \<rparr>"

definition demo_recovery_key :: NamespacedName where
  "demo_recovery_key = object_key (r_Meta demo_recovery)"

text \<open>A recovery that is about to start, and its target.\<close>

definition ready_to_start :: WorkloadIdentityRecovery where
  "ready_to_start = demo_planned\<lparr>r_Meta := (r_Meta demo_planned)\<lparr>Finalizers := [workloadIdentityRecoveryFinalizer]\<rparr>\<rparr>"

definition target_to_recover :: WorkloadIdentity where
  "target_to_recover = demo_identity\<lparr>wi_Status := (wi_Status demo_identity)
     \<lparr>wi_Recovery := Some \<lparr> rrs_PreviousWorkloadIdentityUID = ''source'' \<rparr>,
      wi_Conditions := [\<lparr> c_Type = WorkloadIdentityConditionReady, c_Status = ConditionFalse, c_ObservedGeneration = 1,
        c_Reason = ReasonRecoveryRequired, c_Message = '''' \<rparr>]\<rparr>\<rparr>"

definition start_sim :: sim where
  "start_sim = demo_sim\<lparr>sim_identities := [target_to_recover], sim_recoveries := [ready_to_start]\<rparr>"

lemma demo_fresh: "fresh_status std_lib (r_Status demo_recovery)"
  by (simp add: fresh_status_def condition_true_def demo_recovery_def std_lib_def std_find_def)

theorem recovery_status_sound_witness:
  "\<exists>w. w = world (snd (run_state (Recovery_Reconcile std_lib demo_reconciler demo_recovery_key)
       \<lparr> world = demo_sim\<lparr>sim_recoveries := [demo_recovery]\<rparr>, outcome = None \<rparr>)) \<and>
     recovery_ok std_lib sim_recovery demo_recovery_key w \<and>
     (\<forall>tracing res c. run_state (Recovery_Reconcile std_lib demo_reconciler demo_recovery_key)
         \<lparr> world = w, outcome = tracing \<rparr> = (res, c) \<longrightarrow>
       status_follows std_lib sim_recovery demo_recovery_key w (world c))"
proof -
  define w1 where "w1 = world (snd (run_state (Recovery_Reconcile std_lib demo_reconciler demo_recovery_key)
       \<lparr> world = demo_sim\<lparr>sim_recoveries := [demo_recovery]\<rparr>, outcome = None \<rparr>))"
  let ?E = "recovery_event std_lib demo_reconciler sim_recovery demo_recovery_key"
  let ?w = "demo_sim\<lparr>sim_recoveries := [demo_recovery]\<rparr>"
  have laws: "condition_laws std_lib"
    using std_lib_laws by (simp add: k8s_lib_laws_def)
  have store: "recovery_store sim_recovery (rr_Client demo_reconciler)"
    by (simp add: sim_store)
  have empty: "sim_recovery demo_sim demo_recovery_key = None"
    by (simp add: sim_recovery_def statuses_def demo_sim_def)
  have "?E demo_sim ?w"
    by (rule event_created[of sim_recovery, OF empty _ demo_fresh]) (simp add: sim_recovery_def statuses_def demo_recovery_key_def)
  moreover obtain res c where run: "run_state (Recovery_Reconcile std_lib demo_reconciler demo_recovery_key)
      \<lparr> world = ?w, outcome = None \<rparr> = (res, c)" by fastforce
  then have "?E ?w (world c)" by (rule event_reconcile)
  ultimately have "?E\<^sup>*\<^sup>* demo_sim w1"
    using run by (simp add: w1_def)
  from recovery_status_sound[OF laws store sim_untouched this empty] show ?thesis
    unfolding w1_def by blast
qed

section \<open>Deletion\<close>

text \<open>
  C16. Deleting a recovery whose mutation has started does not abandon it: the reconcile leaves its
  finalizer alone (it performs no metadata update) unless the recovery it ends with is complete;
  without an Azure manager it only reports the block.
\<close>

theorem deletion_waits_for_completion:
  assumes "\<not> deletion_is_zero (r_Meta recovery)" and "r_MutationStarted (r_Status recovery)"
    and "\<not> recoveryIsComplete L recovery"
    and "cluster_keeps I (rr_Client r)
      {PatchesWorkloadIdentityStatus, PatchesServiceAccount, PatchesRecoveryStatus}"
    and "reader_keeps I (recoveryReader r)"
    and "\<And>m k. rr_Manager r = Some m \<Longrightarrow> manager_keeps L (r_UID recovery) I m k"
    and "run_state (reconcile_existing_recovery L r recovery) c = ((recovery', result, err), c')"
    and "I (world c)"
  shows "I (world c') \<or> recoveryIsComplete L recovery'"
proof -
  have "status_writes_keep L I (rr_Client r) (r_Status recovery)"
    using cluster_keeps_write[OF assms(4), of PatchesRecoveryStatus] by (simp add: status_writes_keep_def)
  then have "recovery_effects L I I r (r_UID recovery) (r_Status recovery)"
    using assms(4-6) by (auto simp: recovery_effects_def cluster_keeps_def intro!: status_patches_kept)
  note eff = flow_of_effects[OF this]
  have run: "run_state (Recovery_reconcileDelete L r recovery) c = ((recovery', result, err), c')"
    using assms(1,7) by (simp add: reconcile_existing_recovery_def)
  show ?thesis
  proof (cases "ContainsFinalizer L (Finalizers (r_Meta recovery)) workloadIdentityRecoveryFinalizer")
    case False
    then show ?thesis using run assms(8) by (simp add: Recovery_reconcileDelete_def)
  next
    case True
    show ?thesis
    proof (cases "rr_Manager r")
      case None
      have "leads (in_ctx I) (in_ctx I) (block L r recovery recoveryReasonManagerNotConfigured
          ''Azure recovery manager is not configured'')"
        using assms(3) by (intro block_leads[OF eff])
          (simp add: allowed_write_def condition_true_def recoveryIsComplete_def)
      moreover have "run_state (block L r recovery recoveryReasonManagerNotConfigured
          ''Azure recovery manager is not configured'') c = ((recovery', result, err), c')"
        using run True None assms(2,3) by (simp add: Recovery_reconcileDelete_def)
      ultimately show ?thesis using assms(8) leadsD by fastforce
    next
      case (Some m)
      obtain x res e c1 where fwd: "run_state (reconcileForward L r m recovery) c = ((x, res, e), c1)"
        by (metis surj_pair)
      then have "I (world c1)"
        using forward_leads[OF eff Some refl assms(3)] assms(2,8) leadsD by fastforce
      moreover have "c' = c1 \<or> recoveryIsComplete L recovery'"
        using run True Some assms(2,3) fwd
        by (auto simp: Recovery_reconcileDelete_def run_last_def run_simps split: if_splits prod.splits sum.splits)
      ultimately show ?thesis by auto
    qed
  qed
qed

definition demo_deleting :: WorkloadIdentityRecovery where
  "demo_deleting = demo_recovery
     \<lparr>r_Meta := (r_Meta demo_recovery)\<lparr>DeletionTimestamp := Some 50,
        Finalizers := [workloadIdentityRecoveryFinalizer]\<rparr>,
      r_Status := (r_Status demo_recovery)\<lparr>r_Plan := Some demo_plan, r_MutationStarted := True\<rparr>\<rparr>"

abbreviation recovery_metas_kept :: "sim \<Rightarrow> bool" where
  "recovery_metas_kept w \<equiv> map r_Meta (sim_recoveries w) = [r_Meta demo_deleting]"

lemma recovery_metas_patch:
  "map r_Meta (replace_all r_Meta k (\<lambda>old. old\<lparr>r_Status := s\<rparr>) xs) = map r_Meta xs"
  by (induction xs) (auto simp: replace_all_def)

lemma recovery_metas_keeps:
  "cluster_keeps recovery_metas_kept sim_cluster
     {PatchesWorkloadIdentityStatus, PatchesServiceAccount, PatchesRecoveryStatus}"
proof -
  have "reader_keeps recovery_metas_kept (ClusterReader sim_cluster)"
    using sim_reader_recoveries[of "\<lambda>xs. map r_Meta xs = [r_Meta demo_deleting]"]
    by (simp add: sim_cluster_def)
  moreover have "preserves recovery_metas_kept (Now sim_cluster)"
    by (simp add: preserves_def sim_cluster_def)
  moreover have "write_keeps recovery_metas_kept sim_cluster PatchesWorkloadIdentityStatus"
    "write_keeps recovery_metas_kept sim_cluster PatchesServiceAccount"
    by (simp_all add: sim_cluster_def
        sim_write_recoveries[where Q = "\<lambda>xs. map r_Meta xs = [r_Meta demo_deleting]"])
  moreover have "write_keeps recovery_metas_kept sim_cluster PatchesRecoveryStatus"
    by (simp add: sim_cluster_def sim_write_def preserves_def recovery_metas_patch split: option.split)
  ultimately show ?thesis
    by (simp add: cluster_keeps_def del: write_keeps.simps)
qed

theorem deletion_waits_for_completion_witness:
  "\<exists>recovery' result err c'. run_state (reconcile_existing_recovery std_lib demo_reconciler demo_deleting)
       \<lparr> world = demo_sim\<lparr>sim_recoveries := [demo_deleting]\<rparr>, outcome = None \<rparr>
     = ((recovery', result, err), c') \<and>
     (map r_Meta (sim_recoveries (world c')) = [r_Meta demo_deleting] \<or>
      recoveryIsComplete std_lib recovery')"
proof -
  obtain recovery' result err c' where run:
    "run_state (reconcile_existing_recovery std_lib demo_reconciler demo_deleting)
       \<lparr> world = demo_sim\<lparr>sim_recoveries := [demo_deleting]\<rparr>, outcome = None \<rparr>
     = ((recovery', result, err), c')"
    by (metis surj_pair)
  have "manager_keeps std_lib (r_UID demo_deleting) recovery_metas_kept m k" if "rr_Manager demo_reconciler = Some m" for m k
    using that by (cases k) (auto simp: azure_manager_def preserves_on_azure)
  then have "recovery_metas_kept (world c') \<or> recoveryIsComplete std_lib recovery'"
    using recovery_metas_keeps sim_reader_recoveries[of "\<lambda>xs. map r_Meta xs = [r_Meta demo_deleting]"]
    by (intro deletion_waits_for_completion[OF _ _ _ _ _ _ run])
      (simp_all add: demo_deleting_def deletion_is_zero_def recoveryIsComplete_def std_lib_def
        std_find_def demo_recovery_def)
  with run show ?thesis by (intro exI conjI)
qed

section \<open>Starting\<close>

text \<open>
  The start does not check that the target was fenced: when the target is gone by the time it is
  read again, the marking step returns without an error, the status records that mutation has
  started, and from then on the recovery can only wait for its target.
\<close>

lemma start_ignores_missing_target:
  assumes "run_state (recoveryWinnerForSource r recovery) (world c) = (Inr None, w1)"
    and "run_state (GetWorkloadIdentity (recoveryReader r) (object_key (wi_Meta identity))) w1 = (Inl e, w2)"
    and "IsNotFound L e"
    and "run_state (patchRecoveryStatus r recovery (\<lambda>status. State_Monad.bind (Now (rr_Client r))
       (\<lambda>now. State_Monad.return (start_status L now (Generation (r_Meta recovery)) status)))) w2
     = (Inr recovery', w3)"
  shows "run_state (startRecovery L r recovery identity) c
    = ((recovery', requeue_now, None), c\<lparr>world := w3\<rparr>)"
  using assms
  by (simp add: startRecovery_def markTargetRecoveryInProgress_def patchTargetRecoveryCondition_def run_simps)

end
