(* ===== verification/Recovery_Progress.thy ===== *)
theory Recovery_Progress
  imports Recovery_Lifecycle
begin

text \<open>
  Termination of a recovery: a reconcile that asks to be run again at once has added the finalizer or brought the
  stored status one write closer to completion, so only five such reconciles can follow one another.
\<close>

section \<open>The measure\<close>




section \<open>Runs that ask to be run again at once\<close>

text \<open>A run from a world in \<open>I\<close> that returns \<open>requeue_now\<close> ends in a world in \<open>G\<close>.\<close>

definition forwards :: "('w \<Rightarrow> bool) \<Rightarrow> ('w \<Rightarrow> bool) \<Rightarrow> 'w recovery_run \<Rightarrow> bool" where
  "forwards I G m \<longleftrightarrow>
     (\<forall>c x c'. I (world c) \<longrightarrow> run_state m c = ((x, requeue_now, None), c') \<longrightarrow> G (world c'))"

named_theorems forwards_intros \<open>compositional rules for forwards\<close>

lemma requeue_now_neq [simp]:
  "empty_Result \<noteq> requeue_now" "requeue_after d \<noteq> requeue_now" "requeue_now \<noteq> empty_Result"
  by (simp_all add: empty_Result_def requeue_after_def requeue_now_def)


lemma forwards_failed [forwards_intros]: "forwards I G (run_failed x e)"
  by (simp add: forwards_def)

lemma forwardsD: "forwards I G m \<Longrightarrow> I (world c) \<Longrightarrow> run_state m c = ((x, requeue_now, None), c') \<Longrightarrow> G (world c')"
  unfolding forwards_def by blast

lemma forwards_with [forwards_intros]:
  assumes m: "preserves I m" and h: "\<And>e. forwards I G (h e)" and k: "\<And>a. forwards I G (k a)"
  shows "forwards I G (run_with m h k)"
  unfolding forwards_def
proof (intro allI impI)
  fix c x c' assume I: "I (world c)" and run: "run_state (run_with m h k) c = ((x, requeue_now, None), c')"
  obtain r w where mr: "run_state m (world c) = (r, w)" by fastforce
  have w: "I (world (c\<lparr>world := w\<rparr>))" using preservesD[OF m I mr] by simp
  show "G (world c')"
    using run mr forwardsD[OF h w] forwardsD[OF k w] by (cases r) (simp_all add: run_run_with)
qed


lemma forwards_apart [forwards_intros]: "forwards I G m \<Longrightarrow> forwards I G (run_apart x m)"
  unfolding forwards_def run_run_apart by (fastforce split: prod.splits)




section \<open>A successful status write\<close>




section \<open>The reconcile\<close>















section \<open>The finalizer\<close>







section \<open>Histories\<close>









section \<open>A recovery that starts\<close>













end
