(* ===== verification/Workload_Controller.thy ===== *)
theory Workload_Controller
  imports Recovery_Controller "HOL-Library.Word"
begin

text \<open>
  internal/controller/workloadidentity\_controller.go: the reconciler of WorkloadIdentity (its
  ServiceAccount helpers are in Service_Accounts).  The identity manager and the recovery
  detector (internal/workloadidentity/manager.go, recovery.go) are records of functions; a nil
  manager, detector or event recorder is \<open>None\<close>.  Logging is left out.
\<close>

unbundle bit_operations_syntax

section \<open>The reconciler\<close>

record 'w identity_manager =
  im_Ensure :: "WorkloadIdentity \<Rightarrow> string \<Rightarrow> string \<Rightarrow> ('w, ManagedIdentity) io"
  im_Delete :: "WorkloadIdentity \<Rightarrow> ('w, unit) io"

type_synonym 'w recovery_detector = "WorkloadIdentity \<Rightarrow> ('w, RecoveryRequiredEvidence) io"

text \<open>An event: type, reason, action and note.\<close>

type_synonym 'w event_recorder =
  "WorkloadIdentity \<Rightarrow> string \<Rightarrow> string \<Rightarrow> string \<Rightarrow> string \<Rightarrow> ('w, unit) state"

record 'w WorkloadIdentityReconciler =
  wr_Client :: "'w Cluster"
  wr_Manager :: "'w identity_manager option"
  wr_RecoveryDetector :: "'w recovery_detector option"
  wr_Recorder :: "'w event_recorder option"
  wr_RefreshInterval :: int

definition workloadIdentityFinalizer :: string where
  "workloadIdentityFinalizer = ''workloadidentity.azure.micosolutions.se/workloadidentity-finalizer''"
definition workloadIdentityServiceAccountNameIndex :: string where
  "workloadIdentityServiceAccountNameIndex = ''workloadidentity.spec.serviceAccount.name''"
definition workloadIdentityUIDIndex :: string where
  "workloadIdentityUIDIndex = ''workloadidentity.metadata.uid''"
definition workloadIdentityRecoveryPollInterval :: int where
  "workloadIdentityRecoveryPollInterval = 5 * second"
definition DefaultWorkloadIdentityRefreshInterval :: int where
  "DefaultWorkloadIdentityRefreshInterval = 5 * minute"

section \<open>Refresh interval\<close>

text \<open>\<open>fnv32a\<close> (Digest) is \<open>hash/fnv\<close>'s \<open>New32a\<close>.\<close>

definition jitter_nanos :: "64 word \<Rightarrow> 64 word \<Rightarrow> 64 word" where
  "jitter_nanos maxJitter hashValue =
     (let maxHash = ucast (NOT (0 :: 32 word)) :: 64 word
      in maxJitter div maxHash * hashValue + maxJitter mod maxHash * hashValue div maxHash)"

text \<open>A \<open>time.Duration\<close> is a signed 64-bit number of nanoseconds.\<close>

definition jitteredWorkloadIdentityRefreshInterval :: "int \<Rightarrow> string \<Rightarrow> int" where
  "jitteredWorkloadIdentityRefreshInterval interval key =
     (if interval \<le> 0 \<or> key = '''' then interval
      else let maxJitter = interval div 10;
               jitter = jitter_nanos (word_of_int maxJitter) (ucast (fnv32a key))
           in sint (word_of_int interval + jitter :: 64 word))"

definition refreshInterval :: "'w WorkloadIdentityReconciler \<Rightarrow> WorkloadIdentity \<Rightarrow> int" where
  "refreshInterval r identity =
     (let interval = (if wr_RefreshInterval r > 0 then wr_RefreshInterval r
                      else DefaultWorkloadIdentityRefreshInterval)
      in jitteredWorkloadIdentityRefreshInterval interval (wi_UID identity))"

section \<open>Recovery state of a WorkloadIdentity\<close>

definition workloadIdentityRecoveryReason :: "k8s_lib \<Rightarrow> WorkloadIdentity \<Rightarrow> string" where
  "workloadIdentityRecoveryReason L identity =
     (if wi_Recovery (wi_Status identity) = None then ''''
      else case FindStatusCondition L (wi_Conditions (wi_Status identity)) WorkloadIdentityConditionReady of
        None \<Rightarrow> ''''
      | Some ready \<Rightarrow> if c_Status ready \<noteq> ConditionFalse then '''' else c_Reason ready)"

definition workloadIdentityRecoveryIsInProgress :: "k8s_lib \<Rightarrow> WorkloadIdentity \<Rightarrow> bool" where
  "workloadIdentityRecoveryIsInProgress L identity \<longleftrightarrow>
     workloadIdentityRecoveryReason L identity = ReasonRecoveryInProgress"

definition workloadIdentityRecoveryStateIsActive :: "k8s_lib \<Rightarrow> WorkloadIdentity \<Rightarrow> bool" where
  "workloadIdentityRecoveryStateIsActive L identity \<longleftrightarrow>
     (let reason = workloadIdentityRecoveryReason L identity
      in reason = ReasonRecoveryRequired \<or> reason = ReasonRecoveryInProgress)"

section \<open>Status\<close>

definition patchWorkloadIdentityStatus :: "'w WorkloadIdentityReconciler \<Rightarrow> WorkloadIdentity \<Rightarrow>
    (WorkloadIdentityStatus \<Rightarrow> WorkloadIdentityStatus) \<Rightarrow> ('w, WorkloadIdentity) io" where
  "patchWorkloadIdentityStatus r identity mutate =
     State_Monad.bind (Now (wr_Client r)) (\<lambda>now.
       external (PatchWorkloadIdentityStatus (wr_Client r)
         (identity\<lparr>wi_Status := mutate ((wi_Status identity)
            \<lparr>wi_ObservedGeneration := Generation (wi_Meta identity), wi_LastReconciledTime := Some now\<rparr>)\<rparr>)
         (MergeFromWithOptimisticLock identity)))"

definition ready_condition :: "string \<Rightarrow> string \<Rightarrow> string \<Rightarrow> int \<Rightarrow> Condition" where
  "ready_condition status reason message generation =
     \<lparr> c_Type = WorkloadIdentityConditionReady, c_Status = status, c_ObservedGeneration = generation,
       c_Reason = reason, c_Message = message \<rparr>"

definition ready_status :: "k8s_lib \<Rightarrow> int \<Rightarrow> string \<Rightarrow> string \<Rightarrow> string \<Rightarrow> ServiceAccountProvenance \<Rightarrow>
    ManagedIdentity \<Rightarrow> WorkloadIdentityStatus \<Rightarrow> WorkloadIdentityStatus" where
  "ready_status L generation issuerURL subject saUID provenance managed status =
     status\<lparr>wi_ClientID := mi_ClientID managed, wi_PrincipalID := mi_PrincipalID managed,
       wi_TenantID := mi_TenantID managed, wi_IssuerURL := issuerURL, wi_Subject := subject,
       wi_ServiceAccountUID := saUID, wi_ServiceAccountProvenance := provenance,
       wi_AzureResources := mi_AzureResources managed, wi_Recovery := None,
       wi_Conditions := SetStatusCondition L (wi_Conditions status)
         (ready_condition ConditionTrue ''Reconciled'' ''Workload identity is reconciled'' generation)\<rparr>"

definition setWorkloadIdentityReady :: "k8s_lib \<Rightarrow> 'w WorkloadIdentityReconciler \<Rightarrow> WorkloadIdentity \<Rightarrow>
    string \<Rightarrow> string \<Rightarrow> string \<Rightarrow> ServiceAccountProvenance \<Rightarrow> ManagedIdentity \<Rightarrow> ('w, WorkloadIdentity) io"
where
  "setWorkloadIdentityReady L r identity issuerURL subject saUID provenance managed =
     patchWorkloadIdentityStatus r identity
       (ready_status L (Generation (wi_Meta identity)) issuerURL subject saUID provenance managed)"

definition not_ready_status :: "k8s_lib \<Rightarrow> int \<Rightarrow> string \<Rightarrow> string \<Rightarrow>
    WorkloadIdentityStatus \<Rightarrow> WorkloadIdentityStatus" where
  "not_ready_status L generation reason message status =
     (let status = (if reason \<noteq> ReasonRecoveryInProgress then status\<lparr>wi_Recovery := None\<rparr> else status)
      in status\<lparr>wi_Conditions := SetStatusCondition L (wi_Conditions status)
           (ready_condition ConditionFalse reason message generation)\<rparr>)"

definition setWorkloadIdentityNotReady :: "k8s_lib \<Rightarrow> 'w WorkloadIdentityReconciler \<Rightarrow> WorkloadIdentity \<Rightarrow>
    string \<Rightarrow> string \<Rightarrow> ('w, WorkloadIdentity) io" where
  "setWorkloadIdentityNotReady L r identity reason message =
     patchWorkloadIdentityStatus r identity
       (not_ready_status L (Generation (wi_Meta identity)) reason message)"

definition recovery_required_status :: "k8s_lib \<Rightarrow> int \<Rightarrow> RecoveryRequiredEvidence \<Rightarrow> string \<Rightarrow>
    WorkloadIdentityStatus \<Rightarrow> WorkloadIdentityStatus" where
  "recovery_required_status L generation evidence message status =
     status\<lparr>wi_Recovery := Some \<lparr> rrs_PreviousWorkloadIdentityUID = rre_PreviousWorkloadIdentityUID evidence \<rparr>,
       wi_Conditions := SetStatusCondition L (wi_Conditions status)
         (ready_condition ConditionFalse ReasonRecoveryRequired message generation)\<rparr>"

definition setWorkloadIdentityRecoveryRequired :: "k8s_lib \<Rightarrow> 'w WorkloadIdentityReconciler \<Rightarrow>
    WorkloadIdentity \<Rightarrow> RecoveryRequiredEvidence \<Rightarrow> string \<Rightarrow> ('w, WorkloadIdentity) io" where
  "setWorkloadIdentityRecoveryRequired L r identity evidence message =
     patchWorkloadIdentityStatus r identity
       (recovery_required_status L (Generation (wi_Meta identity)) evidence message)"

section \<open>The ServiceAccount\<close>

record serviceAccountReconcileState =
  sas_Provenance :: ServiceAccountProvenance
  sas_Established :: bool

definition not_established :: serviceAccountReconcileState where
  "not_established = \<lparr> sas_Provenance = '''', sas_Established = False \<rparr>"

definition inspect_missing :: "WorkloadIdentity \<Rightarrow> serviceAccountReconcileState" where
  "inspect_missing identity =
     (case persistedServiceAccountProvenance identity of
        Some provenance \<Rightarrow> \<lparr> sas_Provenance = provenance, sas_Established = True \<rparr>
      | None \<Rightarrow>
          if serviceAccountStatusMatchesConfiguredName identity
             \<and> wi_ServiceAccountUID (wi_Status identity) \<noteq> ''''
          then \<lparr> sas_Provenance = ServiceAccountProvenanceAdopted, sas_Established = True \<rparr>
          else not_established)"

definition inspect_found ::
  "WorkloadIdentity \<Rightarrow> ServiceAccount \<Rightarrow> go_error + serviceAccountReconcileState" where
  "inspect_found identity serviceAccount =
     (case validateServiceAccountOwnership identity serviceAccount of
        Some err \<Rightarrow> Inl err
      | None \<Rightarrow>
        (case persistedServiceAccountProvenance identity of
           Some provenance \<Rightarrow> Inr \<lparr> sas_Provenance = provenance, sas_Established = True \<rparr>
         | None \<Rightarrow>
           if (serviceAccountStatusMatchesConfiguredName identity
                \<and> wi_ServiceAccountUID (wi_Status identity) \<noteq> '''')
              \<or> serviceAccountOwnedBy identity serviceAccount
           then Inr \<lparr> sas_Provenance = serviceAccountProvenanceFromLabels identity serviceAccount,
                      sas_Established = True \<rparr>
           else (case validateUnownedServiceAccountAnnotations serviceAccount of
                   Some err \<Rightarrow> Inl err
                 | None \<Rightarrow> Inr not_established)))"

definition inspectServiceAccount :: "k8s_lib \<Rightarrow> 'w WorkloadIdentityReconciler \<Rightarrow> WorkloadIdentity \<Rightarrow>
    ('w, serviceAccountReconcileState) io" where
  "inspectServiceAccount L r identity =
     State_Monad.bind (GetServiceAccount (ClusterReader (wr_Client r)) (serviceAccountKey identity))
       (\<lambda>got. case got of
          Inl err \<Rightarrow> if IsNotFound L err then io_return (inspect_missing identity) else io_fail (External err)
        | Inr serviceAccount \<Rightarrow> io_of (inspect_found identity serviceAccount))"

definition new_service_account ::
  "WorkloadIdentity \<Rightarrow> ManagedIdentity \<Rightarrow> ServiceAccountProvenance \<Rightarrow> ServiceAccount" where
  "new_service_account identity managed provenance =
     (let key = serviceAccountKey identity in
      \<lparr> sa_Meta = \<lparr> Name = nn_Name key, Namespace = nn_Namespace key, UID = '''', ResourceVersion = '''',
          Generation = 0, CreationTimestamp = 0, DeletionTimestamp = None, Finalizers = [],
          Labels = desiredServiceAccountLabels identity (provenance = ServiceAccountProvenanceCreated),
          Annotations = desiredServiceAccountAnnotations managed \<rparr> \<rparr>)"

definition merged_metadata ::
  "WorkloadIdentity \<Rightarrow> ManagedIdentity \<Rightarrow> ServiceAccountProvenance \<Rightarrow> ServiceAccount \<Rightarrow> ServiceAccount" where
  "merged_metadata identity managed provenance serviceAccount =
     serviceAccount\<lparr>sa_Meta := (sa_Meta serviceAccount)
       \<lparr>Labels := mergeStringMap (sa_Labels serviceAccount)
          (desiredServiceAccountLabels identity (provenance = ServiceAccountProvenanceCreated)),
        Annotations := mergeStringMap (sa_Annotations serviceAccount)
          (desiredServiceAccountAnnotations managed)\<rparr>\<rparr>"

definition update_service_account :: "'w WorkloadIdentityReconciler \<Rightarrow> WorkloadIdentity \<Rightarrow>
    ManagedIdentity \<Rightarrow> ServiceAccountProvenance \<Rightarrow> ServiceAccount \<Rightarrow>
    ('w, ServiceAccount \<times> ServiceAccountProvenance) io" where
  "update_service_account r identity managed provenance original =
     (let serviceAccount = merged_metadata identity managed provenance original in
      if sa_Labels original = sa_Labels serviceAccount \<and> sa_Annotations original = sa_Annotations serviceAccount
      then io_return (original, provenance)
      else io_try (external (PatchServiceAccount (wr_Client r) serviceAccount (MergeFrom original)))
             (\<lambda>patched. io_return (patched, provenance)))"

definition ensureServiceAccount :: "k8s_lib \<Rightarrow> 'w WorkloadIdentityReconciler \<Rightarrow> WorkloadIdentity \<Rightarrow>
    ManagedIdentity \<Rightarrow> serviceAccountReconcileState \<Rightarrow>
    ('w, ServiceAccount \<times> ServiceAccountProvenance) io" where
  "ensureServiceAccount L r identity managed state =
     State_Monad.bind (GetServiceAccount (ClusterReader (wr_Client r)) (serviceAccountKey identity))
       (\<lambda>got. case got of
          Inl err \<Rightarrow>
            if IsNotFound L err
            then let provenance = (if \<not> sas_Established state then ServiceAccountProvenanceCreated
                                   else sas_Provenance state)
                 in io_try (external (CreateServiceAccount (wr_Client r)
                        (new_service_account identity managed provenance)))
                      (\<lambda>created. io_return (created, provenance))
            else io_fail (External err)
        | Inr serviceAccount \<Rightarrow>
            (case validateServiceAccountOwnership identity serviceAccount of
               Some err \<Rightarrow> io_fail err
             | None \<Rightarrow>
                 if sas_Established state
                 then update_service_account r identity managed (sas_Provenance state) serviceAccount
                 else (case validateUnownedServiceAccountAnnotations serviceAccount of
                         Some err \<Rightarrow> io_fail err
                       | None \<Rightarrow> update_service_account r identity managed
                                  ServiceAccountProvenanceAdopted serviceAccount)))"

definition deleteServiceAccountIfOwned ::
  "k8s_lib \<Rightarrow> 'w WorkloadIdentityReconciler \<Rightarrow> WorkloadIdentity \<Rightarrow> ('w, unit) io" where
  "deleteServiceAccountIfOwned L r identity =
     State_Monad.bind (GetServiceAccount (ClusterReader (wr_Client r)) (serviceAccountKey identity))
       (\<lambda>got. case got of
          Inl err \<Rightarrow> if IsNotFound L err then io_return () else io_fail (External err)
        | Inr serviceAccount \<Rightarrow>
            (case persistedServiceAccountProvenance identity of
               Some provenance \<Rightarrow>
                 if provenance \<noteq> ServiceAccountProvenanceCreated then io_return ()
                 else external (DeleteServiceAccount (wr_Client r) serviceAccount)
             | None \<Rightarrow>
                 if map_get (sa_Labels serviceAccount) serviceAccountCreatedBy \<noteq> trueValue
                    \<or> map_get (sa_Labels serviceAccount) serviceAccountUID \<noteq> wi_UID identity
                 then io_return ()
                 else external (DeleteServiceAccount (wr_Client r) serviceAccount)))"

section \<open>Deletion\<close>

definition emitRecoveryRequiredDeletionWarning ::
  "'w WorkloadIdentityReconciler \<Rightarrow> WorkloadIdentity \<Rightarrow> ('w, unit) state" where
  "emitRecoveryRequiredDeletionWarning r identity =
     (case wr_Recorder r of
        None \<Rightarrow> State_Monad.return ()
      | Some Eventf \<Rightarrow> Eventf identity ''Warning'' ReasonRecoveryRequired ''PreserveAzureResources''
          ''Preserved Azure resources because they belong to an earlier instance of this WorkloadIdentity'')"

definition release_identity :: "k8s_lib \<Rightarrow> 'w WorkloadIdentityReconciler \<Rightarrow> WorkloadIdentity \<Rightarrow> 'w reconcile"
where
  "release_identity L r identity =
     result_of empty_Result (external (UpdateWorkloadIdentity (wr_Client r)
       (identity\<lparr>wi_Meta := (wi_Meta identity)
          \<lparr>Finalizers := RemoveFinalizer L (Finalizers (wi_Meta identity)) workloadIdentityFinalizer\<rparr>\<rparr>)))"

definition reconcileWorkloadIdentityDelete ::
  "k8s_lib \<Rightarrow> 'w WorkloadIdentityReconciler \<Rightarrow> WorkloadIdentity \<Rightarrow> 'w reconcile" where
  "reconcileWorkloadIdentityDelete L r identity =
     (if \<not> ContainsFinalizer L (Finalizers (wi_Meta identity)) workloadIdentityFinalizer
      then done_with empty_Result
      else if workloadIdentityRecoveryIsInProgress L identity
      then done_with (requeue_after workloadIdentityRecoveryPollInterval)
      else if wis_DeletionPolicy (wi_Spec identity) = DeletionPolicyDelete
      then (case wr_Manager r of
          None \<Rightarrow> failed_with (ErrorString ''azure workload identity manager is not configured'')
        | Some m \<Rightarrow>
            State_Monad.bind (in_world (im_Delete m identity)) (\<lambda>res. case res of
              Inl err \<Rightarrow>
                if ConflictReason err = Some ReasonRecoveryRequired
                then State_Monad.bind (in_world (emitRecoveryRequiredDeletionWarning r identity))
                       (\<lambda>_. release_identity L r identity)
                else failed_with err
            | Inr _ \<Rightarrow>
                and_then (deleteServiceAccountIfOwned L r identity) (\<lambda>_. release_identity L r identity)))
      else release_identity L r identity)"

section \<open>Reconciling\<close>

definition waitForOIDCIssuer :: "k8s_lib \<Rightarrow> 'w WorkloadIdentityReconciler \<Rightarrow> WorkloadIdentity \<Rightarrow>
    string \<Rightarrow> string \<Rightarrow> 'w reconcile" where
  "waitForOIDCIssuer L r identity reason message =
     (let result = requeue_after (30 * second) in
      if workloadIdentityRecoveryStateIsActive L identity then done_with result
      else result_of result (setWorkloadIdentityNotReady L r identity reason message))"

definition handleWorkloadIdentityEnsureError :: "k8s_lib \<Rightarrow> 'w WorkloadIdentityReconciler \<Rightarrow>
    WorkloadIdentity \<Rightarrow> go_error \<Rightarrow> 'w reconcile" where
  "handleWorkloadIdentityEnsureError L r identity err =
     (case RecoveryRequiredDetails err of
        Some evidence \<Rightarrow>
          and_then (setWorkloadIdentityRecoveryRequired L r identity evidence (Error err))
            (\<lambda>identity. done_with (requeue_after (refreshInterval r identity)))
      | None \<Rightarrow>
          if ConflictReason err = Some ReasonRecoveryInProgress
          then and_then (setWorkloadIdentityNotReady L r identity ReasonRecoveryInProgress (Error err))
                 (\<lambda>_. done_with (requeue_after workloadIdentityRecoveryPollInterval))
          else let reason = (case ConflictReason err of Some c \<Rightarrow> c | None \<Rightarrow> ''AzureEnsureFailed'')
               in and_then (setWorkloadIdentityNotReady L r identity reason (Error err))
                    (\<lambda>_. failed_with err))"

text \<open>The error of the ServiceAccount inspection, with the detection of a recovery.\<close>

definition inspection_failed :: "k8s_lib \<Rightarrow> 'w WorkloadIdentityReconciler \<Rightarrow> WorkloadIdentity \<Rightarrow>
    go_error \<Rightarrow> 'w reconcile" where
  "inspection_failed L r identity err =
     and_then (setWorkloadIdentityNotReady L r identity
         (if isServiceAccountConflict err then ''ServiceAccountConflict'' else ''ServiceAccountReadFailed'')
         (Error err))
       (\<lambda>_. failed_with err)"

definition recovery_message :: "WorkloadIdentity \<Rightarrow> string \<Rightarrow> string" where
  "recovery_message identity conflictUID =
     ''WorkloadIdentity '' @ wi_namespace identity @ ''/'' @ wi_name identity @ '' and ServiceAccount ''
       @ wi_namespace identity @ ''/'' @ sar_Name (wis_ServiceAccount (wi_Spec identity))
       @ '' belong to earlier WorkloadIdentity UID '' @ fmt_q conflictUID @ ''; recovery is required''"

definition handle_inspection_error :: "k8s_lib \<Rightarrow> 'w WorkloadIdentityReconciler \<Rightarrow> WorkloadIdentity \<Rightarrow>
    go_error \<Rightarrow> 'w reconcile" where
  "handle_inspection_error L r identity err =
     (case serviceAccountConflictOwnerUID err of
        None \<Rightarrow> inspection_failed L r identity err
      | Some conflictUID \<Rightarrow>
        (case wr_RecoveryDetector r of
           None \<Rightarrow> inspection_failed L r identity err
         | Some DetectRecovery \<Rightarrow>
             State_Monad.bind (in_world (DetectRecovery identity)) (\<lambda>detection. case detection of
               Inr evidence \<Rightarrow>
                 if rre_PreviousWorkloadIdentityUID evidence = conflictUID
                 then result_of empty_Result (setWorkloadIdentityRecoveryRequired L r identity evidence
                        (recovery_message identity conflictUID))
                 else inspection_failed L r identity err
             | Inl detectionErr \<Rightarrow>
                 if ConflictReason detectionErr = Some ReasonRecoveryInProgress
                 then result_of (requeue_after workloadIdentityRecoveryPollInterval)
                        (setWorkloadIdentityNotReady L r identity ReasonRecoveryInProgress (Error detectionErr))
                 else inspection_failed L r identity err)))"

definition reconcile_with_issuer :: "k8s_lib \<Rightarrow> 'w WorkloadIdentityReconciler \<Rightarrow> WorkloadIdentity \<Rightarrow>
    OIDCIssuer \<Rightarrow> 'w identity_manager \<Rightarrow> 'w reconcile" where
  "reconcile_with_issuer L r identity issuer m =
     State_Monad.bind (in_world (inspectServiceAccount L r identity)) (\<lambda>inspected. case inspected of
       Inl err \<Rightarrow> handle_inspection_error L r identity err
     | Inr serviceAccountState \<Rightarrow>
       let subject = serviceAccountSubject identity; issuerURL = oi_IssuerURL (oi_Status issuer) in
       State_Monad.bind (in_world (im_Ensure m identity issuerURL subject)) (\<lambda>ensured. case ensured of
         Inl err \<Rightarrow> handleWorkloadIdentityEnsureError L r identity err
       | Inr managed \<Rightarrow>
         State_Monad.bind (in_world (ensureServiceAccount L r identity managed serviceAccountState))
           (\<lambda>sa. case sa of
             Inl err \<Rightarrow>
               and_then (setWorkloadIdentityNotReady L r identity
                   (if isServiceAccountConflict err then ''ServiceAccountConflict''
                    else ''ServiceAccountEnsureFailed'') (Error err))
                 (\<lambda>_. failed_with err)
           | Inr (serviceAccount, provenance) \<Rightarrow>
               and_then (setWorkloadIdentityReady L r identity issuerURL subject
                   (UID (sa_Meta serviceAccount)) provenance managed)
                 (\<lambda>identity. done_with (requeue_after (refreshInterval r identity))))))"

definition blocked_reconcile :: "'w reconcile \<Rightarrow> 'w reconcile" where
  "blocked_reconcile m = State_Monad.bind (SetReconcileOutcome ''blocked'') (\<lambda>_. m)"

definition reconcile_live_identity ::
  "k8s_lib \<Rightarrow> 'w WorkloadIdentityReconciler \<Rightarrow> WorkloadIdentity \<Rightarrow> 'w reconcile" where
  "reconcile_live_identity L r identity =
     (if workloadIdentityRecoveryIsInProgress L identity
      then blocked_reconcile (done_with (requeue_after workloadIdentityRecoveryPollInterval))
      else State_Monad.bind (in_world (GetOIDCIssuer (ClusterReader (wr_Client r)) OIDCIssuerName))
        (\<lambda>got. case got of
           Inl err \<Rightarrow>
             if IsNotFound L err
             then blocked_reconcile (waitForOIDCIssuer L r identity ''OIDCIssuerNotFound''
                    (''OIDCIssuer '' @ fmt_q OIDCIssuerName @ '' was not found''))
             else failed_with (External err)
         | Inr issuer \<Rightarrow>
             if \<not> isOIDCIssuerReady L issuer
             then blocked_reconcile (waitForOIDCIssuer L r identity ''OIDCIssuerNotReady''
                    (''OIDCIssuer '' @ fmt_q OIDCIssuerName @ '' is not ready''))
             else (case wr_Manager r of
                 None \<Rightarrow> blocked_reconcile (result_of empty_Result
                     (setWorkloadIdentityNotReady L r identity ''ManagerNotConfigured''
                        ''Azure workload identity manager is not configured''))
               | Some m \<Rightarrow> reconcile_with_issuer L r identity issuer m)))"

definition reconcile_existing_identity ::
  "k8s_lib \<Rightarrow> 'w WorkloadIdentityReconciler \<Rightarrow> WorkloadIdentity \<Rightarrow> 'w reconcile" where
  "reconcile_existing_identity L r identity =
     (if \<not> deletion_is_zero (wi_Meta identity) then reconcileWorkloadIdentityDelete L r identity
      else if ContainsFinalizer L (Finalizers (wi_Meta identity)) workloadIdentityFinalizer
      then reconcile_live_identity L r identity
      else and_then (external (UpdateWorkloadIdentity (wr_Client r)
               (identity\<lparr>wi_Meta := (wi_Meta identity)
                  \<lparr>Finalizers := AddFinalizer L (Finalizers (wi_Meta identity)) workloadIdentityFinalizer\<rparr>\<rparr>)))
             (reconcile_live_identity L r))"

definition WorkloadIdentity_Reconcile ::
  "k8s_lib \<Rightarrow> 'w WorkloadIdentityReconciler \<Rightarrow> NamespacedName \<Rightarrow> 'w reconcile" where
  "WorkloadIdentity_Reconcile L r request =
     State_Monad.bind (in_world (GetWorkloadIdentity (ClusterReader (wr_Client r)) request))
       (\<lambda>got. case got of
          Inl err \<Rightarrow>
            if IsNotFound L err
            then State_Monad.bind (SetReconcileOutcome ''noop'') (\<lambda>_. done_with empty_Result)
            else failed_with (External err)
        | Inr identity \<Rightarrow> reconcile_existing_identity L r identity)"

section \<open>Watches\<close>

definition workloadIdentitiesForOIDCIssuer ::
  "'w WorkloadIdentityReconciler \<Rightarrow> ObjectMeta \<Rightarrow> ('w, NamespacedName list) state" where
  "workloadIdentitiesForOIDCIssuer r object_meta =
     (if Name object_meta \<noteq> OIDCIssuerName then State_Monad.return []
      else State_Monad.bind (ListWorkloadIdentities (ClusterReader (wr_Client r))) (\<lambda>got.
        State_Monad.return (case got of Inl err \<Rightarrow> []
          | Inr items \<Rightarrow> map (\<lambda>identity. object_key (wi_Meta identity)) items)))"

text \<open>One call of the closure: the requests so far, or \<open>None\<close> when the list fails.\<close>

fun add_requests :: "NamespacedName list \<Rightarrow> WorkloadIdentity list \<Rightarrow> NamespacedName list" where
  "add_requests requests [] = requests"
| "add_requests requests (identity # identities) =
     (let key = object_key (wi_Meta identity)
      in add_requests (if key \<in> set requests then requests else requests @ [key]) identities)"

definition append_matches :: "'w WorkloadIdentityReconciler \<Rightarrow> string \<Rightarrow> string \<Rightarrow> string \<Rightarrow>
    NamespacedName list \<Rightarrow> ('w, NamespacedName list option) state" where
  "append_matches r ns field v requests =
     (if v = '''' then State_Monad.return (Some requests)
      else State_Monad.bind (ListWorkloadIdentitiesMatching (ClusterReader (wr_Client r)) ns field v)
        (\<lambda>got. State_Monad.return (case got of Inl err \<Rightarrow> None
           | Inr identities \<Rightarrow> Some (add_requests requests identities))))"

definition workloadIdentitiesForServiceAccount ::
  "'w WorkloadIdentityReconciler \<Rightarrow> ObjectMeta \<Rightarrow> ('w, NamespacedName list) state" where
  "workloadIdentitiesForServiceAccount r object_meta =
     (if Namespace object_meta = '''' \<or> Name object_meta = '''' then State_Monad.return []
      else State_Monad.bind (append_matches r (Namespace object_meta)
             workloadIdentityServiceAccountNameIndex (Name object_meta) []) (\<lambda>first. case first of
        None \<Rightarrow> State_Monad.return []
      | Some requests \<Rightarrow>
          State_Monad.bind (append_matches r (Namespace object_meta) workloadIdentityUIDIndex
             (map_get (Labels object_meta) serviceAccountUID) requests) (\<lambda>second. case second of
            None \<Rightarrow> State_Monad.return []
          | Some requests \<Rightarrow> State_Monad.return requests)))"

end
