(* ===== verification/Call_Results.thy ===== *)
theory Call_Results
  imports Recovery_Effects
begin

text \<open>
  Triples for the calls of the reconcilers.  \<open>fails_only\<close>: which errors a call may return; \<open>yields\<close>: which
  results; \<open>gives\<close>: which results it returns in worlds that satisfy an invariant, which it keeps.
\<close>

section \<open>Errors a call may return\<close>

definition fails_only :: "('e \<Rightarrow> bool) \<Rightarrow> ('w, 'e, 'a) eio \<Rightarrow> bool" where
  "fails_only P m \<longleftrightarrow> (\<forall>w e w'. run_state m w = (Inl e, w') \<longrightarrow> P e)"

named_theorems fails_intros \<open>compositional rules for fails_only\<close>

lemma fails_onlyD: "fails_only P m \<Longrightarrow> run_state m w = (Inl e, w') \<Longrightarrow> P e"
  unfolding fails_only_def by blast

lemma fails_return [fails_intros]: "fails_only P (io_return a)"
  by (simp add: fails_only_def)

lemma fails_fail [fails_intros]: "P e \<Longrightarrow> fails_only P (io_fail e)"
  by (simp add: fails_only_def)

lemma fails_io_of [fails_intros]: "(\<And>e. x = Inl e \<Longrightarrow> P e) \<Longrightarrow> fails_only P (io_of x)"
  by (simp add: fails_only_def)

lemma fails_io_try [fails_intros]:
  "fails_only P m \<Longrightarrow> (\<And>a. fails_only P (k a)) \<Longrightarrow> fails_only P (io_try m k)"
  unfolding fails_only_def by (auto simp: run_simps split: prod.splits sum.splits)

lemma fails_bind [fails_intros]:
  "(\<And>a. fails_only P (k a)) \<Longrightarrow> fails_only P (State_Monad.bind m k)"
  unfolding fails_only_def by (auto simp: run_simps split: prod.splits)

lemma fails_external [fails_intros]:
  "(\<And>e. P (External e)) \<Longrightarrow> fails_only P (external m)"
  unfolding fails_only_def by (auto simp: run_simps split: prod.splits sum.splits)

lemma fails_errorf [fails_intros]:
  "(\<And>e. Q e \<Longrightarrow> P (WrapError p e)) \<Longrightarrow> fails_only Q m \<Longrightarrow> fails_only P (errorf_wrap p m)"
  unfolding fails_only_def by (auto simp: run_simps split: prod.splits sum.splits)

lemma fails_if [fails_intros]:
  "(b \<Longrightarrow> fails_only P m) \<Longrightarrow> (\<not> b \<Longrightarrow> fails_only P n) \<Longrightarrow> fails_only P (if b then m else n)"
  by simp

lemma fails_option [fails_intros]:
  "(x = None \<Longrightarrow> fails_only P m) \<Longrightarrow> (\<And>a. x = Some a \<Longrightarrow> fails_only P (f a)) \<Longrightarrow>
     fails_only P (case x of None \<Rightarrow> m | Some a \<Rightarrow> f a)"
  by (cases x) auto

lemma fails_sum [fails_intros]:
  "(\<And>e. x = Inl e \<Longrightarrow> fails_only P (f e)) \<Longrightarrow> (\<And>a. x = Inr a \<Longrightarrow> fails_only P (g a)) \<Longrightarrow>
     fails_only P (case x of Inl e \<Rightarrow> f e | Inr a \<Rightarrow> g a)"
  by (cases x) auto

section \<open>Results a call may have\<close>

text \<open>Which results a call may have: \<open>yields P m\<close>.\<close>

definition yields :: "('a \<Rightarrow> bool) \<Rightarrow> ('w, 'a) io \<Rightarrow> bool" where
  "yields P m \<longleftrightarrow> (\<forall>w a w'. run_state m w = (Inr a, w') \<longrightarrow> P a)"

lemma yieldsD: "yields P m \<Longrightarrow> run_state m w = (Inr a, w') \<Longrightarrow> P a"
  by (auto simp: yields_def)

named_theorems yields_intros \<open>compositional rules for yields\<close>

lemma yields_basic [yields_intros]:
  "P a \<Longrightarrow> yields P (io_return a)" "yields P (io_fail e)"
  by (auto simp: yields_def)

lemma yields_try [yields_intros]: "(\<And>a. yields P (k a)) \<Longrightarrow> yields P (io_try m k)"
  by (fastforce simp: yields_def elim: io_try_InrE)

lemma yields_bind_sum [yields_intros]: "(\<And>a. yields P (k a)) \<Longrightarrow> yields P (State_Monad.bind m k)"
  by (auto simp: yields_def split: prod.splits)

lemma yields_cases [yields_intros]:
  "(b \<Longrightarrow> yields P m) \<Longrightarrow> (\<not> b \<Longrightarrow> yields P n) \<Longrightarrow> yields P (if b then m else n)"
  "(\<And>e. x = Inl e \<Longrightarrow> yields P (f e)) \<Longrightarrow> (\<And>a. x = Inr a \<Longrightarrow> yields P (g a)) \<Longrightarrow>
     yields P (case x of Inl e \<Rightarrow> f e | Inr a \<Rightarrow> g a)"
  by (auto split: sum.split)

lemma try_keeps:
  assumes "preserves I m" and "yields P m" and "\<And>a. P a \<Longrightarrow> preserves I (k a)"
  shows "preserves I (io_try m k)"
  unfolding preserves_def
proof (intro allI impI)
  fix w assume "I w"
  obtain a w' where m: "run_state m w = (a, w')" by fastforce
  with assms(1) \<open>I w\<close> have "I w'" by (rule preservesD)
  then show "I (snd (run_state (io_try m k) w))"
    using assms(3) yieldsD[OF assms(2)] m by (cases a) (auto simp: run_io_try preserves_def)
qed

lemma and_then_keeps:
  fixes m :: "('w, 'a) io"
  assumes "preserves I m" and "yields P m" and "\<And>a. P a \<Longrightarrow> preserves (in_ctx I) (k a)"
  shows "preserves (in_ctx I) (and_then m k)"
  unfolding preserves_def
proof (intro allI impI)
  fix c :: "'w ctx" assume I: "I (world c)"
  obtain a w' where m: "run_state m (world c) = (a, w')" by fastforce
  with assms(1) I have w': "I w'" by (rule preservesD)
  show "I (world (snd (run_state (and_then m k) c)))"
  proof (cases a)
    case (Inr x)
    with assms(3)[OF yieldsD[OF assms(2)]] m w' show ?thesis by (simp add: run_and_then preserves_def)
  qed (simp add: m run_and_then w')
qed

section \<open>Calls and what follows them\<close>

text \<open>\<open>gives I P m\<close>: from a world with \<open>I\<close> the call keeps \<open>I\<close>, and what it returns satisfies \<open>P\<close>.\<close>

definition gives :: "('w \<Rightarrow> bool) \<Rightarrow> ('a \<Rightarrow> bool) \<Rightarrow> ('w, 'a) io \<Rightarrow> bool" where
  "gives I P m \<longleftrightarrow> (\<forall>w x w'. I w \<longrightarrow> run_state m w = (x, w') \<longrightarrow> I w' \<and> (\<forall>a. x = Inr a \<longrightarrow> P a))"

named_theorems gives_intros \<open>compositional rules for gives\<close>

lemma givesD: "gives I P m \<Longrightarrow> I w \<Longrightarrow> run_state m w = (x, w') \<Longrightarrow> I w' \<and> (\<forall>a. x = Inr a \<longrightarrow> P a)"
  unfolding gives_def by blast

lemma gives_keeps: "gives I P m \<Longrightarrow> preserves I m"
  unfolding preserves_def by (metis givesD prod.collapse)

lemma gives_yields: "preserves I m \<Longrightarrow> yields P m \<Longrightarrow> gives I P m"
  unfolding gives_def by (metis preservesD yieldsD)

lemma gives_basic [gives_intros]: "P a \<Longrightarrow> gives I P (io_return a)" "gives I P (io_fail e)"
  by (simp_all add: gives_def)

lemma gives_try [gives_intros]:
  assumes "gives I P m" and "\<And>a. P a \<Longrightarrow> gives I Q (k a)"
  shows "gives I Q (io_try m k)"
  unfolding gives_def
proof (intro allI impI)
  fix w x w' assume "I w" and run: "run_state (io_try m k) w = (x, w')"
  obtain y v where m: "run_state m w = (y, v)" by fastforce
  note v = givesD[OF assms(1) \<open>I w\<close> m]
  show "I w' \<and> (\<forall>a. x = Inr a \<longrightarrow> Q a)"
  proof (cases y)
    case (Inr a)
    with run m have "run_state (k a) v = (x, w')" by (simp add: run_io_try)
    with assms(2) v Inr show ?thesis by (blast dest: givesD)
  qed (use run m v in \<open>auto simp: run_io_try\<close>)
qed

lemma gives_bind [gives_intros]:
  assumes "preserves I m" and "\<And>a. gives I Q (k a)"
  shows "gives I Q (State_Monad.bind m k)"
  unfolding gives_def
proof (intro allI impI)
  fix w x w' assume "I w" and run: "run_state (State_Monad.bind m k) w = (x, w')"
  obtain y v where m: "run_state m w = (y, v)" by fastforce
  with run have "run_state (k y) v = (x, w')" by simp
  with preservesD[OF assms(1) \<open>I w\<close> m] assms(2) show "I w' \<and> (\<forall>a. x = Inr a \<longrightarrow> Q a)" by (blast dest: givesD)
qed

lemma gives_cases [gives_intros]:
  "(b \<Longrightarrow> gives I P m) \<Longrightarrow> (\<not> b \<Longrightarrow> gives I P n) \<Longrightarrow> gives I P (if b then m else n)"
  "(\<And>e. x = Inl e \<Longrightarrow> gives I P (f e)) \<Longrightarrow> (\<And>a. x = Inr a \<Longrightarrow> gives I P (g a)) \<Longrightarrow>
     gives I P (case x of Inl e \<Rightarrow> f e | Inr a \<Rightarrow> g a)"
  "(y = None \<Longrightarrow> gives I P m) \<Longrightarrow> (\<And>a. y = Some a \<Longrightarrow> gives I P (h a)) \<Longrightarrow>
     gives I P (case y of None \<Rightarrow> m | Some a \<Rightarrow> h a)"
  by (auto split: sum.split option.split)

text \<open>What a call hands to the rest of the run.\<close>

lemma keeps_called:
  assumes "gives I P m" and "fails_only E m" and "\<And>e. E e \<Longrightarrow> preserves (in_ctx I) (h e)"
    and "\<And>a. P a \<Longrightarrow> preserves (in_ctx I) (k a)"
  shows "preserves (in_ctx I) (State_Monad.bind (in_world m) (\<lambda>r. case r of Inl e \<Rightarrow> h e | Inr a \<Rightarrow> k a))"
  unfolding preserves_def
proof (intro allI impI)
  fix c :: "'a ctx" assume "I (world c)"
  obtain x w where m: "run_state m (world c) = (x, w)" by fastforce
  note w = givesD[OF assms(1) \<open>I (world c)\<close> m]
  show "I (world (snd (run_state (State_Monad.bind (in_world m) (\<lambda>r. case r of Inl e \<Rightarrow> h e | Inr a \<Rightarrow> k a)) c)))"
  proof (cases x)
    case (Inl e)
    with m w assms(3)[OF fails_onlyD[OF assms(2)]] show ?thesis by (simp add: run_simps preserves_def)
  next
    case (Inr a)
    with m w assms(4)[of a] show ?thesis by (simp add: run_simps preserves_def)
  qed
qed

lemma fails_any: "fails_only (\<lambda>_. True) m"
  by (simp add: fails_only_def)

lemma keeps_and_then:
  assumes "gives I P m" and "\<And>a. P a \<Longrightarrow> preserves (in_ctx I) (k a)"
  shows "preserves (in_ctx I) (and_then m k)"
  unfolding and_then_def by (rule keeps_called[OF assms(1) fails_any _ assms(2)]) (rule preserves_failed_with)

lemma keeps_found:
  assumes "gives I P (external m)" and "\<And>e. preserves (in_ctx I) (h e)" and "\<And>a. P a \<Longrightarrow> preserves (in_ctx I) (k a)"
  shows "preserves (in_ctx I) (State_Monad.bind (in_world m) (\<lambda>r. case r of Inl e \<Rightarrow> h e | Inr a \<Rightarrow> k a))"
  unfolding preserves_def
proof (intro allI impI)
  fix c :: "'a ctx" assume "I (world c)"
  obtain x w where m: "run_state m (world c) = (x, w)" by fastforce
  then have "run_state (external m) (world c) = (map_sum External id x, w)" by (simp add: run_external split: sum.split)
  note w = givesD[OF assms(1) \<open>I (world c)\<close> this]
  show "I (world (snd (run_state (State_Monad.bind (in_world m) (\<lambda>r. case r of Inl e \<Rightarrow> h e | Inr a \<Rightarrow> k a)) c)))"
    using m w assms(2,3) by (cases x) (simp_all add: run_simps preserves_def)
qed

lemma found_keeps:
  assumes "gives I P (external m)" and "\<And>e. preserves I (h e)" and "\<And>a. P a \<Longrightarrow> preserves I (k a)"
  shows "preserves I (State_Monad.bind m (\<lambda>r. case r of Inl e \<Rightarrow> h e | Inr a \<Rightarrow> k a))"
  unfolding preserves_def
proof (intro allI impI)
  fix w assume "I w"
  obtain x v where m: "run_state m w = (x, v)" by fastforce
  then have "run_state (external m) w = (map_sum External id x, v)" by (simp add: run_external split: sum.split)
  note v = givesD[OF assms(1) \<open>I w\<close> this]
  show "I (snd (run_state (State_Monad.bind m (\<lambda>r. case r of Inl e \<Rightarrow> h e | Inr a \<Rightarrow> k a)) w))"
    using m v assms(2,3) by (cases x) (simp_all add: preserves_def)
qed

lemma try_given:
  assumes "gives I P m" and "\<And>a. P a \<Longrightarrow> preserves I (k a)"
  shows "preserves I (io_try m k)"
proof -
  have "gives I (\<lambda>_. True) (k a)" if "P a" for a
    by (rule gives_yields[OF assms(2)[OF that]]) (simp add: yields_def)
  then show ?thesis by (intro gives_keeps[OF gives_try[OF assms(1)]])
qed

lemma preserves_map_state: "preserves I m \<Longrightarrow> preserves I (map_state f m)"
  by (simp add: preserves_def run_map_state split_beta)

end
