(* ===== verification/Workload_Effects.thy ===== *)
theory Workload_Effects
  imports Workload_Controller Recovery_Lifecycle Call_Results
begin

text \<open>
  Which writes the WorkloadIdentity reconciler makes.  \<open>workload_writes\<close> names, for a predicate on
  the world, the writes that are assumed to keep it; the lemmas of this theory carry the
  assumption through the reconciler's functions.
\<close>

section \<open>The status of a WorkloadIdentity\<close>

text \<open>
  \<open>RecoveryRequired\<close> is never reported without the evidence it rests on, and a ready
  WorkloadIdentity carries no evidence.
\<close>

definition wi_status_ok :: "k8s_lib \<Rightarrow> WorkloadIdentityStatus \<Rightarrow> bool" where
  "wi_status_ok L status \<longleftrightarrow>
     (case FindStatusCondition L (wi_Conditions status) WorkloadIdentityConditionReady of
        None \<Rightarrow> True
      | Some cond \<Rightarrow>
          (c_Reason cond = ReasonRecoveryRequired \<longrightarrow> wi_Recovery status \<noteq> None) \<and>
          (c_Status cond = ConditionTrue \<longrightarrow> wi_Recovery status = None))"

lemma ready_condition_fields [simp]:
  "c_Type (ready_condition s r m g) = WorkloadIdentityConditionReady"
  "c_Status (ready_condition s r m g) = s" "c_Reason (ready_condition s r m g) = r"
  by (simp_all add: ready_condition_def)

lemma reconciled_reason: "''Reconciled'' \<noteq> ReasonRecoveryRequired"
  by (simp add: const_defs)

lemma status_ok_ready:
  "condition_laws L \<Longrightarrow> wi_status_ok L (ready_status L g u s sa p m status)"
  using reconciled_reason by (simp add: wi_status_ok_def ready_status_def find_set_same)

lemma status_ok_not_ready:
  "condition_laws L \<Longrightarrow> reason \<noteq> ReasonRecoveryRequired \<Longrightarrow>
     wi_status_ok L (not_ready_status L g reason message status)"
  by (simp add: wi_status_ok_def not_ready_status_def find_set_same)

lemma status_ok_recovery_required:
  "condition_laws L \<Longrightarrow> wi_status_ok L (recovery_required_status L g evidence message status)"
  by (simp add: wi_status_ok_def recovery_required_status_def find_set_same)

definition status_patches_ok :: "k8s_lib \<Rightarrow> ('w \<Rightarrow> bool) \<Rightarrow> 'w Cluster \<Rightarrow> bool" where
  "status_patches_ok L I C \<longleftrightarrow>
     (\<forall>x p. wi_status_ok L (wi_Status x) \<longrightarrow> preserves I (PatchWorkloadIdentityStatus C x p))"

section \<open>Writes to ServiceAccounts\<close>

text \<open>
  A benign patch of a ServiceAccount for \<open>identity\<close>: the account read belongs to no other
  WorkloadIdentity and is not marked as managed without an owner; the operator's labels are set;
  everything else of the account is as it was read.
\<close>

definition operator_label :: "string \<Rightarrow> bool" where
  "operator_label k \<longleftrightarrow> k \<in> {serviceAccountUseLabel, serviceAccountManagedBy, serviceAccountUID,
     serviceAccountCreatedBy}"

definition operator_annotation :: "string \<Rightarrow> bool" where
  "operator_annotation k \<longleftrightarrow> k \<in> {serviceAccountClientID, serviceAccountTenantID}"

definition carries_identity :: "WorkloadIdentity \<Rightarrow> ServiceAccount \<Rightarrow> bool" where
  "carries_identity identity x \<longleftrightarrow>
     map_get (sa_Labels x) serviceAccountUID = wi_UID identity \<and>
     map_get (sa_Labels x) serviceAccountManagedBy = serviceAccountManagerName \<and>
     map_get (sa_Labels x) serviceAccountUseLabel = trueValue"

definition benign_patch :: "WorkloadIdentity \<Rightarrow> ServiceAccount \<Rightarrow> ServiceAccount \<Rightarrow> bool" where
  "benign_patch identity original x \<longleftrightarrow>
     validateServiceAccountOwnership identity original = None \<and> carries_identity identity x \<and>
     (\<forall>k. \<not> operator_label k \<longrightarrow> fmlookup (sa_Labels x) k = fmlookup (sa_Labels original) k) \<and>
     (\<forall>k. \<not> operator_annotation k \<longrightarrow>
        fmlookup (sa_Annotations x) k = fmlookup (sa_Annotations original) k) \<and>
     x\<lparr>sa_Meta := (sa_Meta x)\<lparr>Labels := sa_Labels original, Annotations := sa_Annotations original\<rparr>\<rparr> = original"

definition account_writes_benign :: "('w \<Rightarrow> bool) \<Rightarrow> 'w Cluster \<Rightarrow> WorkloadIdentity \<Rightarrow> bool" where
  "account_writes_benign I C identity \<longleftrightarrow>
     (\<forall>x. object_key (sa_Meta x) = serviceAccountKey identity \<longrightarrow> carries_identity identity x \<longrightarrow>
        preserves I (CreateServiceAccount C x)) \<and>
     (\<forall>x original. benign_patch identity original x \<longrightarrow>
        preserves I (PatchServiceAccount C x (MergeFrom original)))"

lemma dom_desired_annotations:
  "k |\<in>| fmdom (desiredServiceAccountAnnotations m) \<Longrightarrow> operator_annotation k"
  by (auto simp: desiredServiceAccountAnnotations_def operator_annotation_def Let_def split: if_splits)

lemma merged_benign:
  assumes "validateServiceAccountOwnership identity original = None"
  shows "benign_patch identity original (merged_metadata identity managed p original)"
proof -
  have "fmlookup (mergeStringMap m d) k = fmlookup m k" if "k |\<notin>| fmdom d" for m d k
    using that by (simp add: mergeStringMap_def)
  moreover have "k |\<notin>| fmdom (desiredServiceAccountAnnotations managed)" if "\<not> operator_annotation k" for k
    using that dom_desired_annotations by blast
  ultimately show ?thesis
    using assms
    by (simp add: benign_patch_def carries_identity_def merged_metadata_def operator_label_def)
qed

lemma new_account_carries:
  "carries_identity identity (new_service_account identity managed p)"
  "object_key (sa_Meta (new_service_account identity managed p)) = serviceAccountKey identity"
  by (simp_all add: carries_identity_def new_service_account_def object_key_def Let_def serviceAccountKey_def)

lemma ensure_account_keeps:
  assumes "reader_keeps I (ClusterReader (wr_Client r))"
    and writes: "account_writes_benign I (wr_Client r) identity"
  shows "preserves I (ensureServiceAccount L r identity managed state)"
proof -
  have update: "preserves I (update_service_account r identity managed p original)"
    if "validateServiceAccountOwnership identity original = None" for p original
    using writes merged_benign[OF that] unfolding update_service_account_def account_writes_benign_def Let_def
    by (intro preserves_intros) blast
  have create: "preserves I (CreateServiceAccount (wr_Client r) (new_service_account identity managed p))" for p
    using writes new_account_carries unfolding account_writes_benign_def by blast
  show ?thesis
    unfolding ensureServiceAccount_def Let_def
    by (intro preserves_intros reader_keepsD[OF assms(1)] update create)
qed

section \<open>The reconciler\<close>

definition workload_effects :: "k8s_lib \<Rightarrow> ('w \<Rightarrow> bool) \<Rightarrow> 'w WorkloadIdentityReconciler \<Rightarrow> bool" where
  "workload_effects L I r \<longleftrightarrow>
     reader_keeps I (ClusterReader (wr_Client r)) \<and> preserves I (Now (wr_Client r)) \<and>
     status_patches_ok L I (wr_Client r) \<and>
     (\<forall>m x u s. wr_Manager r = Some m \<longrightarrow> preserves I (im_Ensure m x u s)) \<and>
     (\<forall>d x. wr_RecoveryDetector r = Some d \<longrightarrow> preserves I (d x))"

lemma workload_effectsD:
  assumes "workload_effects L I r"
  shows "reader_keeps I (ClusterReader (wr_Client r))" "preserves I (Now (wr_Client r))"
    "status_patches_ok L I (wr_Client r)"
    "wr_Manager r = Some m \<Longrightarrow> preserves I (im_Ensure m x u s)"
    "wr_RecoveryDetector r = Some d \<Longrightarrow> preserves I (d x)"
  using assms by (simp_all add: workload_effects_def)

lemma status_patch_keeps:
  assumes "workload_effects L I r" and "\<And>s. wi_status_ok L (f s)"
  shows "preserves I (patchWorkloadIdentityStatus r identity f)"
proof -
  have "preserves I (PatchWorkloadIdentityStatus (wr_Client r) (identity\<lparr>wi_Status := f s\<rparr>) p)" for s p
    using workload_effectsD(3)[OF assms(1)] assms(2)[of s] by (simp add: status_patches_ok_def)
  then show ?thesis
    unfolding patchWorkloadIdentityStatus_def
    by (intro preserves_intros workload_effectsD(2)[OF assms(1)])
qed

lemma set_status_keeps:
  assumes "condition_laws L" and "workload_effects L I r"
  shows "preserves I (setWorkloadIdentityReady L r identity u s sa p m)"
    and "reason \<noteq> ReasonRecoveryRequired \<Longrightarrow> preserves I (setWorkloadIdentityNotReady L r identity reason message)"
    and "preserves I (setWorkloadIdentityRecoveryRequired L r identity evidence message)"
  unfolding setWorkloadIdentityReady_def setWorkloadIdentityNotReady_def setWorkloadIdentityRecoveryRequired_def
  by (intro status_patch_keeps[OF assms(2)] status_ok_ready status_ok_not_ready status_ok_recovery_required
      assms(1); assumption)+

lemma wait_keeps:
  assumes "condition_laws L" and "workload_effects L I r" and "reason \<noteq> ReasonRecoveryRequired"
  shows "preserves (in_ctx I) (waitForOIDCIssuer L r identity reason message)"
  unfolding waitForOIDCIssuer_def Let_def
  by (intro preserves_intros set_status_keeps[OF assms(1,2)] assms(3))

lemma own_reasons:
  "''OIDCIssuerNotFound'' \<noteq> ReasonRecoveryRequired" "''OIDCIssuerNotReady'' \<noteq> ReasonRecoveryRequired"
  "''ManagerNotConfigured'' \<noteq> ReasonRecoveryRequired" "''AzureEnsureFailed'' \<noteq> ReasonRecoveryRequired"
  "(if b then ''ServiceAccountConflict'' else ''ServiceAccountEnsureFailed'') \<noteq> ReasonRecoveryRequired"
  "(if b then ''ServiceAccountConflict'' else ''ServiceAccountReadFailed'') \<noteq> ReasonRecoveryRequired"
  by (simp_all add: const_defs)

lemma inspect_keeps:
  assumes "reader_keeps I (ClusterReader (wr_Client r))"
  shows "preserves I (inspectServiceAccount L r identity)"
  unfolding inspectServiceAccount_def by (intro preserves_intros reader_keepsD[OF assms])

lemma ensure_error_keeps:
  assumes "condition_laws L" and "workload_effects L I r" and "recovery_evidence_consistent err"
  shows "preserves (in_ctx I) (handleWorkloadIdentityEnsureError L r identity err)"
proof -
  have "(case ConflictReason err of Some c \<Rightarrow> c | None \<Rightarrow> ''AzureEnsureFailed'') \<noteq> ReasonRecoveryRequired"
    if "RecoveryRequiredDetails err = None"
    using recovery_evidence_consistentD[OF assms(3)] that own_reasons(4) by (auto split: option.split)
  then show ?thesis
    unfolding handleWorkloadIdentityEnsureError_def Let_def
    by (intro preserves_intros set_status_keeps[OF assms(1,2)]) simp_all
qed

lemma inspection_error_keeps:
  assumes "condition_laws L" and "workload_effects L I r"
  shows "preserves (in_ctx I) (handle_inspection_error L r identity err)"
proof -
  have failed: "preserves (in_ctx I) (inspection_failed L r identity err)"
    unfolding inspection_failed_def
    by (intro preserves_intros set_status_keeps[OF assms] own_reasons)
  show ?thesis
    unfolding handle_inspection_error_def
    by (intro preserves_intros failed set_status_keeps[OF assms] workload_effectsD(5)[OF assms(2)] reasons_distinct)
qed

text \<open>The errors of the manager carry evidence exactly when they report a required recovery.\<close>

definition manager_errors_ok :: "'w WorkloadIdentityReconciler \<Rightarrow> bool" where
  "manager_errors_ok r \<longleftrightarrow>
     (\<forall>m x u s. wr_Manager r = Some m \<longrightarrow> fails_only recovery_evidence_consistent (im_Ensure m x u s))"

lemma preserves_bind_result:
  assumes "preserves I m" and "\<And>a w w'. run_state m w = (a, w') \<Longrightarrow> preserves (in_ctx I) (k a)"
  shows "preserves (in_ctx I) (State_Monad.bind (in_world m) k)"
  unfolding preserves_def
proof (intro allI impI)
  fix c :: "'a ctx" assume "I (world c)"
  obtain a w' where m: "run_state m (world c) = (a, w')" by fastforce
  with assms(1) \<open>I (world c)\<close> have "I w'" by (rule preservesD)
  with assms(2)[OF m] show "I (world (snd (run_state (State_Monad.bind (in_world m) k) c)))"
    by (simp add: m run_simps preserves_def)
qed

lemma with_issuer_keeps:
  assumes laws: "condition_laws L" and eff: "workload_effects L I r" and errs: "manager_errors_ok r"
    and m: "wr_Manager r = Some m" and sa: "account_writes_benign I (wr_Client r) identity"
  shows "preserves (in_ctx I) (reconcile_with_issuer L r identity issuer m)"
proof -
  have err: "preserves (in_ctx I) (handleWorkloadIdentityEnsureError L r identity e)"
    if "run_state (im_Ensure m identity u s) w = (Inl e, w')" for u s w e w'
    using errs m fails_onlyD[OF _ that] by (intro ensure_error_keeps[OF laws eff]) (auto simp: manager_errors_ok_def)
  have ensured: "preserves (in_ctx I) (State_Monad.bind (in_world (im_Ensure m identity u subject)) (\<lambda>ensured. case ensured of
         Inl err \<Rightarrow> handleWorkloadIdentityEnsureError L r identity err
       | Inr managed \<Rightarrow> k managed))"
    if k: "\<And>managed. preserves (in_ctx I) (k managed)" for u subject and k :: "ManagedIdentity \<Rightarrow> 'a reconcile"
    by (rule preserves_bind_result[OF workload_effectsD(4)[OF eff m]]) (auto intro: err k split: sum.split)
  show ?thesis
    unfolding reconcile_with_issuer_def Let_def
    by (rule preserves_bind, rule preserves_in_world, rule inspect_keeps[OF workload_effectsD(1)[OF eff]],
        rule preserves_sum, rule inspection_error_keeps[OF laws eff], rule ensured,
        intro preserves_intros ensure_account_keeps[OF workload_effectsD(1)[OF eff] sa]
        set_status_keeps[OF laws eff] own_reasons)
qed

lemma live_keeps:
  assumes laws: "condition_laws L" and eff: "workload_effects L I r" and errs: "manager_errors_ok r"
    and sa: "account_writes_benign I (wr_Client r) identity"
  shows "preserves (in_ctx I) (reconcile_live_identity L r identity)"
  unfolding reconcile_live_identity_def blocked_reconcile_def
  by (intro preserves_intros reader_keepsD[OF workload_effectsD(1)[OF eff]] wait_keeps[OF laws eff]
      set_status_keeps[OF laws eff] own_reasons with_issuer_keeps[OF laws eff errs _ sa])

text \<open>
  The update that adds the finalizer: what the API server returns for it is the same WorkloadIdentity.
\<close>

definition same_workload :: "WorkloadIdentity \<Rightarrow> WorkloadIdentity \<Rightarrow> bool" where
  "same_workload x y \<longleftrightarrow>
     object_key (wi_Meta y) = object_key (wi_Meta x) \<and> wi_UID y = wi_UID x \<and> wi_Spec y = wi_Spec x"

definition finalizer_added :: "k8s_lib \<Rightarrow> WorkloadIdentity \<Rightarrow> WorkloadIdentity" where
  "finalizer_added L identity = identity\<lparr>wi_Meta := (wi_Meta identity)
     \<lparr>Finalizers := AddFinalizer L (Finalizers (wi_Meta identity)) workloadIdentityFinalizer\<rparr>\<rparr>"

definition finalizer_update_same :: "k8s_lib \<Rightarrow> ('w \<Rightarrow> bool) \<Rightarrow> 'w Cluster \<Rightarrow> WorkloadIdentity \<Rightarrow> bool" where
  "finalizer_update_same L I C identity \<longleftrightarrow>
     gives I (same_workload identity) (external (UpdateWorkloadIdentity C (finalizer_added L identity)))"

lemma validate_ownership_uid:
  "wi_UID x = wi_UID y \<Longrightarrow> validateServiceAccountOwnership x a = validateServiceAccountOwnership y a"
  by (simp add: validateServiceAccountOwnership_def)

lemma account_writes_same:
  assumes "same_workload x y" and "account_writes_benign I C x"
  shows "account_writes_benign I C y"
proof -
  have "validateServiceAccountOwnership y a = validateServiceAccountOwnership x a" for a
    using assms(1) by (intro validate_ownership_uid) (simp add: same_workload_def)
  moreover have "serviceAccountKey y = serviceAccountKey x" "carries_identity y = carries_identity x"
    using assms(1) by (auto simp: same_workload_def serviceAccountKey_def object_key_def carries_identity_def fun_eq_iff)
  ultimately have "benign_patch y = benign_patch x" by (simp add: benign_patch_def fun_eq_iff)
  then show ?thesis
    using assms(2) \<open>serviceAccountKey y = _\<close> \<open>carries_identity y = _\<close> by (simp add: account_writes_benign_def)
qed

lemma existing_keeps:
  assumes laws: "condition_laws L" and eff: "workload_effects L I r" and errs: "manager_errors_ok r"
    and sa: "account_writes_benign I (wr_Client r) identity" and live: "deletion_is_zero (wi_Meta identity)"
    and update: "finalizer_update_same L I (wr_Client r) identity"
  shows "preserves (in_ctx I) (reconcile_existing_identity L r identity)"
proof -
  have "preserves (in_ctx I) (reconcile_live_identity L r y)" if "same_workload identity y" for y
    by (rule live_keeps[OF laws eff errs account_writes_same[OF that sa]])
  then have "preserves (in_ctx I) (and_then (external (UpdateWorkloadIdentity (wr_Client r) (finalizer_added L identity)))
      (reconcile_live_identity L r))"
    using update unfolding finalizer_update_same_def by (intro keeps_and_then)
  then show ?thesis
    using live live_keeps[OF laws eff errs sa] by (simp add: reconcile_existing_identity_def finalizer_added_def)
qed

end
