(* ===== verification/Workload_Contracts.thy ===== *)
theory Workload_Contracts
  imports Workload_Effects
begin

text \<open>
  The contract between the WorkloadIdentity reconciler and the manager it calls
  (\<open>Manager\<close> of internal/workloadidentity/manager.go), and that the Azure manager honours it.
\<close>

section \<open>The contract\<close>

locale identity_source =
  fixes Ensure :: "WorkloadIdentity \<Rightarrow> string \<Rightarrow> string \<Rightarrow> ('w, ManagedIdentity) io"
  assumes evidence: "fails_only recovery_evidence_consistent (Ensure identity issuerURL subject)"
begin

lemma recovery_required_iff:
  assumes "run_state (Ensure identity issuerURL subject) w = (Inl err, w')"
  shows "ConflictReason err = Some ReasonRecoveryRequired \<longleftrightarrow> RecoveryRequiredDetails err \<noteq> None"
  using recovery_evidence_consistentD fails_onlyD[OF evidence assms] by blast

lemma manager_ok: "wr_Manager r = Some m \<Longrightarrow> im_Ensure m = Ensure \<Longrightarrow> manager_errors_ok r"
  by (simp add: manager_errors_ok_def evidence)

lemma reconcile_keeps:
  assumes "condition_laws L" and "workload_effects L I r" and "wr_Manager r = Some m"
    and "im_Ensure m = Ensure" and "account_writes_benign I (wr_Client r) identity"
    and "deletion_is_zero (wi_Meta identity)" and "finalizer_update_same L I (wr_Client r) identity"
  shows "preserves (in_ctx I) (reconcile_existing_identity L r identity)"
  by (rule existing_keeps[OF assms(1,2) manager_ok[OF assms(3,4)] assms(5-7)])

end

section \<open>The Azure manager\<close>

lemma scope_errors_consistent: "Scope_Validate s = Some e \<Longrightarrow> recovery_evidence_consistent e"
  by (auto simp: Scope_Validate_def split: if_splits)

lemma name_errors_consistent:
  "ValidateUserAssignedIdentityName n = Some e \<Longrightarrow> recovery_evidence_consistent e"
  by (auto simp: ValidateUserAssignedIdentityName_def split: if_splits)

lemma credential_conflict_reason: "ReasonFederatedIdentityCredentialConflict \<noteq> ReasonRecoveryRequired"
  by (simp add: const_defs)

lemma credential_errors_consistent:
  "validateFederatedIdentityCredential n x d = Some e \<Longrightarrow> recovery_evidence_consistent e"
  using credential_conflict_reason
  by (auto simp: validateFederatedIdentityCredential_def Let_def split: option.splits if_splits)

lemma client_errors_consistent:
  "newIdentityClients sdk s c = Inl e \<Longrightarrow> recovery_evidence_consistent e"
  by (auto simp: newIdentityClients_def scope_errors_consistent split: option.splits sum.splits)

lemma ownership_conflict_consistent [simp]:
  "recovery_evidence_consistent (userAssignedIdentityOwnershipConflict u)"
  by (simp add: userAssignedIdentityOwnershipConflict_def)

lemma fails_prod [fails_intros]:
  "(\<And>a b. x = (a, b) \<Longrightarrow> fails_only P (f a b)) \<Longrightarrow> fails_only P (case x of (a, b) \<Rightarrow> f a b)"
  by (cases x) auto

lemma ensure_errors_consistent: "fails_only recovery_evidence_consistent (ensure c identity u s)"
proof -
  have rg: "fails_only recovery_evidence_consistent (ensureResourceGroup rgc scope)" for rgc scope
    unfolding ensureResourceGroup_def
    by (intro fails_errorf[where Q = recovery_evidence_consistent] fails_intros) simp_all
  have goc: "fails_only recovery_evidence_consistent (get_or_create_identity c identity)"
    unfolding get_or_create_identity_def Let_def
    by (intro fails_errorf[where Q = recovery_evidence_consistent] fails_intros) simp_all
  have uami: "fails_only recovery_evidence_consistent (ensureUserAssignedIdentity c identity)"
    unfolding ensureUserAssignedIdentity_def
    by (intro fails_intros rg goc) (auto simp: name_errors_consistent dest: validate_error_kinds)
  have rec: "fails_only recovery_evidence_consistent (reconcile_credential c identity u s op)" for op
    unfolding reconcile_credential_def Let_def
    by (intro fails_io_try fails_errorf[where Q = recovery_evidence_consistent] fails_intros)
      (simp_all add: credential_errors_consistent)
  have fic: "fails_only recovery_evidence_consistent (ensureFederatedIdentityCredential c identity u s)"
    unfolding ensureFederatedIdentityCredential_def Let_def
    by (intro fails_intros rec) simp_all
  show ?thesis
    unfolding ensure_def by (intro fails_intros uami fic)
qed

lemma Manager_Ensure_errors: "fails_only recovery_evidence_consistent (Manager_Ensure sdk m identity u s)"
  unfolding Manager_Ensure_def with_clients_def
  by (intro fails_intros ensure_errors_consistent) (rule client_errors_consistent)

interpretation azure_identities: identity_source "Manager_Ensure sdk m" for sdk m
  by unfold_locales (rule Manager_Ensure_errors)

end
