(* ===== verification/Sim_Azure.thy ===== *)
theory Sim_Azure
  imports Sim_Cluster
begin

text \<open>
  The Azure clients of the in-memory cluster: \<open>lift_clients\<close> runs each call of the clients of
  Arm_Store on the Azure store of a \<open>sim\<close>; the laws of the clients carry over.
\<close>

primrec lift_pager :: "arm_state Pager \<Rightarrow> sim Pager" where
  "lift_pager (Pager has_more fetch) =
     Pager has_more (on_azure (map_state (map_sum id (map_prod id lift_pager)) fetch))"

definition lift_identities :: "arm_state userAssignedIdentitiesClient \<Rightarrow> sim userAssignedIdentitiesClient" where
  "lift_identities c = \<lparr>
     ui_Get = (\<lambda>rg n. on_azure (ui_Get c rg n)),
     ui_CreateOrUpdate = (\<lambda>rg n d. on_azure (ui_CreateOrUpdate c rg n d)),
     ui_Update = (\<lambda>rg n t. on_azure (ui_Update c rg n t)),
     ui_Delete = (\<lambda>rg n. on_azure (ui_Delete c rg n)) \<rparr>"

definition lift_credentials ::
  "arm_state federatedIdentityCredentialsClient \<Rightarrow> sim federatedIdentityCredentialsClient" where
  "lift_credentials c = \<lparr>
     fic_Get = (\<lambda>rg n f. on_azure (fic_Get c rg n f)),
     fic_CreateOrUpdate = (\<lambda>rg n f d. on_azure (fic_CreateOrUpdate c rg n f d)),
     fic_NewListPager = (\<lambda>rg n. lift_pager (fic_NewListPager c rg n)) \<rparr>"

definition lift_groups :: "arm_state resourceGroupsClient \<Rightarrow> sim resourceGroupsClient" where
  "lift_groups c = \<lparr>
     rg_Get = (\<lambda>rg. on_azure (rg_Get c rg)),
     rg_CreateOrUpdate = (\<lambda>rg d. on_azure (rg_CreateOrUpdate c rg d)) \<rparr>"

definition sim_clients :: "Scope \<Rightarrow> sim identityClients" where
  "sim_clients scope = \<lparr> ic_scope = scope, ic_resourceGroups = lift_groups (mem_groups scope),
     ic_identities = lift_identities (mem_identities scope),
     ic_federatedCredentials = lift_credentials (mem_credentials scope) \<rparr>"

lemma sim_clients_simps [simp]:
  "ic_scope (sim_clients scope) = scope"
  "ic_resourceGroups (sim_clients scope) = lift_groups (mem_groups scope)"
  "ic_identities (sim_clients scope) = lift_identities (mem_identities scope)"
  "ic_federatedCredentials (sim_clients scope) = lift_credentials (mem_credentials scope)"
  by (simp_all add: sim_clients_def)

lemma run_on_azure_parts:
  "run_state (on_azure m) w =
     (fst (run_state m (sim_azure w)), w\<lparr>sim_azure := snd (run_state m (sim_azure w))\<rparr>)"
  by (simp add: run_on_azure split: prod.split)

lemma reads_on_azure: "reads (\<lambda>s. s) m P \<Longrightarrow> reads sim_azure (on_azure m) P"
  by (simp add: reads_def run_on_azure_parts)

lemma writes_on_azure: "writes (\<lambda>s. s) m P \<Longrightarrow> writes sim_azure (on_azure m) P"
  by (simp add: writes_def run_on_azure_parts)

lemma succeeds_on_azure: "succeeds_in (\<lambda>s. s) P m \<Longrightarrow> succeeds_in sim_azure P (on_azure m)"
  by (simp add: succeeds_in_def run_on_azure_parts)

lemma serves_lift: "serves (\<lambda>s. s) s p cs \<Longrightarrow> serves sim_azure s (lift_pager p) cs"
proof (induction rule: serves.induct)
  case (last_page m)
  then show ?case by (simp add: serves.last_page)
next
  case (next_page m cs)
  show ?case
    unfolding lift_pager.simps
  proof (rule serves.next_page)
    fix w :: sim assume w: "sim_azure w = s"
    then show "sim_azure (snd (run_state (on_azure (map_state (map_sum id (map_prod id lift_pager)) m)) w)) = s"
      using next_page(1)[of s] by (auto simp: run_simps split: prod.split)
    fix page rest
    assume "fst (run_state (on_azure (map_state (map_sum id (map_prod id lift_pager)) m)) w) = Inr (page, rest)"
    then obtain rest' where "fst (run_state m s) = Inr (page, rest')" and "rest = lift_pager rest'"
      using w by (cases "run_state m s") (auto simp: run_simps map_sum_def split: prod.splits sum.splits)
    then show "\<exists>cs'. cs = List.map_filter id page @ cs' \<and> serves sim_azure s rest cs'"
      using next_page(2)[of s page rest'] by auto
  qed
qed

lemma responsive_lift: "responsive (\<lambda>s. s) s p \<Longrightarrow> responsive sim_azure s (lift_pager p)"
proof (induction rule: responsive.induct)
  case (responsive_last m)
  then show ?case by (simp add: responsive.responsive_last)
next
  case (responsive_next m)
  show ?case
    unfolding lift_pager.simps
  proof (rule responsive.responsive_next)
    fix w :: sim assume w: "sim_azure w = s"
    obtain page rest where "fst (run_state m s) = Inr (page, rest)" "responsive sim_azure s (lift_pager rest)"
      using responsive_next[of s] by blast
    then show "\<exists>page rest. fst (run_state (on_azure (map_state (map_sum id (map_prod id lift_pager)) m)) w)
        = Inr (page, rest) \<and> responsive sim_azure s rest"
      using w by (cases "run_state m s") (auto simp: run_simps)
  qed
qed

lemma sim_arm_laws: "arm_laws sim_azure (sim_clients scope)"
proof -
  note laws = mem_arm_laws[of scope, unfolded arm_laws_def identity_laws_def credential_laws_def mem_clients_simps]
  show ?thesis
    using laws
    by (auto simp: arm_laws_def identity_laws_def credential_laws_def lift_identities_def lift_credentials_def
        intro!: reads_on_azure writes_on_azure serves_lift)
qed

lemma sim_arm_available: "arm_available sim_azure (sim_clients scope)"
  using mem_arm_available[of scope]
  by (auto simp: arm_available_def lift_identities_def lift_credentials_def
      intro!: succeeds_on_azure responsive_lift)

definition sim_sdk :: "Scope \<Rightarrow> sim armSDK" where
  "sim_sdk scope = \<lparr> NewResourceGroupsClient = (\<lambda>s c. Inr (lift_groups (mem_groups scope))),
     NewUserAssignedIdentitiesClient = (\<lambda>s c. Inr (lift_identities (mem_identities scope))),
     NewFederatedIdentityCredentialsClient = (\<lambda>s c. Inr (lift_credentials (mem_credentials scope))) \<rparr>"

definition valid_scope :: Scope where
  "valid_scope = \<lparr> subscriptionID = ''00000000-0000-0000-0000-000000000000'', resourceGroupName = ''rg'',
     location = ''eastus'' \<rparr>"

lemma valid_scope: "Scope_Validate valid_scope = None"
  by code_simp

lemma sim_sdk_clients:
  "Scope_Validate scope = None \<Longrightarrow> newIdentityClients (sim_sdk scope) scope (Some cred) = Inr (sim_clients scope)"
  by (simp add: newIdentityClients_def sim_sdk_def sim_clients_def)

end
