(* ===== verification/Workload_Properties.thy ===== *)
theory Workload_Properties
  imports Workload_Contracts Sim_Azure
begin

text \<open>
  The properties of the WorkloadIdentity reconciler: what it writes, how a recovery pauses it, what
  a deletion removes, how the provenance of a ServiceAccount is kept, and the bounds of the refresh
  interval.
\<close>

section \<open>A concrete reconciler\<close>

definition azure_identity_manager :: "'w armSDK \<Rightarrow> WorkloadIdentityManager \<Rightarrow> 'w identity_manager" where
  "azure_identity_manager sdk am = \<lparr> im_Ensure = Manager_Ensure sdk am, im_Delete = Manager_Delete sdk am \<rparr>"

lemma azure_identity_manager_simps [simp]:
  "im_Ensure (azure_identity_manager sdk am) = Manager_Ensure sdk am"
  "im_Delete (azure_identity_manager sdk am) = Manager_Delete sdk am"
  by (simp_all add: azure_identity_manager_def)

definition demo_wim :: WorkloadIdentityManager where
  "demo_wim = \<lparr> wim_Credential = Some ''credential'', wim_Scope = valid_scope \<rparr>"

definition demo_workload_reconciler :: "sim WorkloadIdentityReconciler" where
  "demo_workload_reconciler = \<lparr> wr_Client = sim_cluster,
     wr_Manager = Some (azure_identity_manager (sim_sdk valid_scope) demo_wim),
     wr_RecoveryDetector = Some (Manager_DetectRecovery (sim_sdk valid_scope) demo_wim),
     wr_Recorder = None, wr_RefreshInterval = 0 \<rparr>"

lemma demo_workload_simps [simp]:
  "wr_Client demo_workload_reconciler = sim_cluster"
  "wr_Manager demo_workload_reconciler = Some (azure_identity_manager (sim_sdk valid_scope) demo_wim)"
  "wr_RecoveryDetector demo_workload_reconciler = Some (Manager_DetectRecovery (sim_sdk valid_scope) demo_wim)"
  "wr_Recorder demo_workload_reconciler = None" "wr_RefreshInterval demo_workload_reconciler = 0"
  by (simp_all add: demo_workload_reconciler_def)

lemma demo_manager_run:
  "Manager_Ensure (sim_sdk valid_scope) demo_wim = ensure (sim_clients valid_scope)"
  "Manager_Delete (sim_sdk valid_scope) demo_wim = delete_identity (sim_clients valid_scope)"
  "Manager_DetectRecovery (sim_sdk valid_scope) demo_wim = detectRecovery (sim_clients valid_scope)"
  by (simp_all add: fun_eq_iff Manager_Ensure_def Manager_Delete_def Manager_DetectRecovery_def
      with_clients_def demo_wim_def sim_sdk_clients[OF valid_scope])

text \<open>Predicates on the Kubernetes part are kept by every Azure call of the simulation.\<close>

lemma sim_manager_keeps:
  assumes "\<And>a w. P (w\<lparr>sim_azure := a\<rparr>) = P w"
  shows "preserves P (Manager_Ensure (sim_sdk valid_scope) demo_wim i u s)"
    and "preserves P (Manager_DetectRecovery (sim_sdk valid_scope) demo_wim i)"
    and "preserves P (Manager_Delete (sim_sdk valid_scope) demo_wim i)"
proof -
  note azure = preserves_on_azure[of P, OF assms]
  show "preserves P (Manager_Ensure (sim_sdk valid_scope) demo_wim i u s)"
    unfolding demo_manager_run ensure_def ensureUserAssignedIdentity_def get_or_create_identity_def
      ensureResourceGroup_def ensureFederatedIdentityCredential_def reconcile_credential_def Let_def
      sim_clients_simps lift_identities_def lift_credentials_def lift_groups_def
      userAssignedIdentitiesClient.simps federatedIdentityCredentialsClient.simps resourceGroupsClient.simps
    by (intro preserves_intros azure)
  show "preserves P (Manager_DetectRecovery (sim_sdk valid_scope) demo_wim i)"
    unfolding demo_manager_run detectRecovery_def Let_def
      sim_clients_simps lift_identities_def userAssignedIdentitiesClient.simps
    by (intro preserves_intros azure)
  show "preserves P (Manager_Delete (sim_sdk valid_scope) demo_wim i)"
    unfolding demo_manager_run delete_identity_def Let_def
      sim_clients_simps lift_identities_def userAssignedIdentitiesClient.simps
    by (intro preserves_intros azure)
qed

definition demo_live :: WorkloadIdentity where
  "demo_live = demo_identity\<lparr>wi_Meta := (wi_Meta demo_identity)\<lparr>Finalizers := [workloadIdentityFinalizer]\<rparr>\<rparr>"

definition demo_removing :: WorkloadIdentity where
  "demo_removing = demo_live\<lparr>wi_Meta := (wi_Meta demo_live)\<lparr>DeletionTimestamp := Some 50\<rparr>\<rparr>"

definition in_recovery :: "WorkloadIdentity \<Rightarrow> WorkloadIdentity" where
  "in_recovery i = i\<lparr>wi_Status := (wi_Status i)
     \<lparr>wi_Recovery := Some \<lparr> rrs_PreviousWorkloadIdentityUID = ''source'' \<rparr>,
      wi_Conditions := [ready_condition ConditionFalse ReasonRecoveryInProgress ''recovery'' 1]\<rparr>\<rparr>"

lemma std_condition_laws: "condition_laws std_lib"
  using std_lib_laws by (simp add: k8s_lib_laws_def)

text \<open>The detector only reads Azure.\<close>

lemma detect_reads:
  assumes "\<And>w s. P (w\<lparr>sim_azure := sim_azure w\<rparr>) = P w"
  shows "preserves P (Manager_DetectRecovery (sim_sdk valid_scope) demo_wim i)"
proof -
  have get: "preserves P (ui_Get (lift_identities (mem_identities valid_scope)) rg n)" for rg n
    by (simp add: preserves_def lift_identities_def mem_identities_def run_on_azure)
  show ?thesis
    unfolding demo_manager_run detectRecovery_def Let_def sim_clients_simps
    by (intro preserves_intros get)
qed

section \<open>Writes\<close>

text \<open>
  C19. The reconcile of a live WorkloadIdentity, whether it carries its finalizer already or the reconcile adds it and
  goes on with the object the API server returned, writes only this: the update that adds the finalizer, status patches
  in which RecoveryRequired always comes with the previous UID and Ready=True never does, creations of the
  configured ServiceAccount with the operator's labels, and patches of it that pass the ownership
  check and change operator labels and annotations alone; it never deletes a ServiceAccount.  It
  rests on the contract of the Azure manager that a conflict carries recovery evidence exactly when
  its reason is RecoveryRequired, and on the API server returning, for the update of the finalizer,
  the same WorkloadIdentity (name, UID and spec).
\<close>

theorem reconcile_writes_bounded:
  assumes "condition_laws L" and "wr_Manager r = Some (azure_identity_manager sdk am)"
    and "workload_effects L I r" and "account_writes_benign I (wr_Client r) identity"
    and "deletion_is_zero (wi_Meta identity)" and "finalizer_update_same L I (wr_Client r) identity"
  shows "preserves (in_ctx I) (reconcile_existing_identity L r identity)"
  using azure_identities.reconcile_keeps[OF assms(1,3,2) _ assms(4-6)] by simp

lemma demo_live_simps:
  "deletion_is_zero (wi_Meta demo_live)" "\<not> deletion_is_zero (wi_Meta demo_removing)"
  "ContainsFinalizer std_lib (Finalizers (wi_Meta demo_live)) workloadIdentityFinalizer"
  "ContainsFinalizer std_lib (Finalizers (wi_Meta demo_removing)) workloadIdentityFinalizer"
  by (simp_all add: demo_live_def demo_removing_def demo_identity_def demo_meta_def deletion_is_zero_def std_lib_def)

text \<open>In the witness the predicate speaks of the other kinds of objects.\<close>

abbreviation rest_kept :: "sim \<Rightarrow> bool" where
  "rest_kept w \<equiv> sim_recoveries w = [demo_recovery] \<and> sim_secrets w = []"

lemma rest_kept_cluster:
  "reader_keeps rest_kept sim_reader" "preserves rest_kept (Now sim_cluster)"
  "preserves rest_kept (UpdateWorkloadIdentity sim_cluster x)"
  "preserves rest_kept (PatchWorkloadIdentityStatus sim_cluster x p)"
  "preserves rest_kept (CreateServiceAccount sim_cluster a)"
  "preserves rest_kept (PatchServiceAccount sim_cluster a q)"
  by (simp_all add: reader_keeps_def preserves_def sim_cluster_def sim_reader_def sim_get_def sim_list_def
      sim_write_def split: option.split)

text \<open>Its WorkloadIdentity is new: the reconcile adds the finalizer.\<close>

lemma sim_update_same: "finalizer_update_same L rest_kept sim_cluster x"
  unfolding finalizer_update_same_def gives_def
  by (auto simp: sim_cluster_def sim_write_def same_workload_def finalizer_added_def object_key_def run_external
      split: option.splits sum.splits prod.splits)

lemma demo_new: "deletion_is_zero (wi_Meta demo_identity)"
    "\<not> ContainsFinalizer std_lib (Finalizers (wi_Meta demo_identity)) workloadIdentityFinalizer"
  by (simp_all add: demo_identity_def demo_meta_def deletion_is_zero_def std_lib_def)

theorem reconcile_writes_bounded_witness:
  "\<not> ContainsFinalizer std_lib (Finalizers (wi_Meta demo_identity)) workloadIdentityFinalizer \<and>
   preserves (in_ctx (\<lambda>w. sim_recoveries w = [demo_recovery] \<and> sim_secrets w = []))
     (reconcile_existing_identity std_lib demo_workload_reconciler demo_identity)"
proof (rule conjI[OF demo_new(2)], rule reconcile_writes_bounded[OF std_condition_laws])
  show "wr_Manager demo_workload_reconciler = Some (azure_identity_manager (sim_sdk valid_scope) demo_wim)"
    by simp
  have "ClusterReader sim_cluster = sim_reader" by (simp add: sim_cluster_def)
  then show "workload_effects std_lib rest_kept demo_workload_reconciler"
    using rest_kept_cluster
    by (simp add: workload_effects_def status_patches_ok_def sim_manager_keeps)
  show "account_writes_benign rest_kept (wr_Client demo_workload_reconciler) demo_identity"
    using rest_kept_cluster by (simp add: account_writes_benign_def)
  show "finalizer_update_same std_lib rest_kept (wr_Client demo_workload_reconciler) demo_identity"
    using sim_update_same by simp
qed (rule demo_new(1))

section \<open>Recovery\<close>

text \<open>
  C20. While the recovery of a WorkloadIdentity is in progress its reconciler keeps its hands off:
  live or being deleted (with its finalizer in place), the reconcile changes nothing in the world and
  asks to be called again after the poll interval.
\<close>

theorem recovery_pauses_reconciler:
  assumes "workloadIdentityRecoveryIsInProgress L identity"
    and "ContainsFinalizer L (Finalizers (wi_Meta identity)) workloadIdentityFinalizer"
    and "run_state (reconcile_existing_identity L r identity) c = (res, c')"
  shows "res = (requeue_after workloadIdentityRecoveryPollInterval, None) \<and> world c' = world c"
  using assms
  by (auto simp: reconcile_existing_identity_def reconcileWorkloadIdentityDelete_def
      reconcile_live_identity_def blocked_reconcile_def run_simps split: if_splits)

theorem recovery_pauses_reconciler_witness:
  "run_state (reconcile_existing_identity std_lib demo_workload_reconciler (in_recovery demo_removing))
     \<lparr> world = demo_sim, outcome = None \<rparr> =
   ((requeue_after workloadIdentityRecoveryPollInterval, None), \<lparr> world = demo_sim, outcome = None \<rparr>)"
proof -
  let ?i = "in_recovery demo_removing"
  obtain res c where run: "run_state (reconcile_existing_identity std_lib demo_workload_reconciler ?i)
     \<lparr> world = demo_sim, outcome = None \<rparr> = (res, c)" by fastforce
  have prog: "workloadIdentityRecoveryIsInProgress std_lib ?i"
    by (simp add: workloadIdentityRecoveryIsInProgress_def workloadIdentityRecoveryReason_def in_recovery_def
        std_lib_def std_find_def)
  have fin: "ContainsFinalizer std_lib (Finalizers (wi_Meta ?i)) workloadIdentityFinalizer"
    using demo_live_simps(4) by (simp add: in_recovery_def)
  have "outcome c = None"
    using run prog fin demo_live_simps(2)
    by (auto simp: reconcile_existing_identity_def reconcileWorkloadIdentityDelete_def in_recovery_def)
  with recovery_pauses_reconciler[OF prog fin run] run show ?thesis
    by (cases c) simp
qed

section \<open>Deletion\<close>

text \<open>
  Under a policy other than Delete neither the Azure manager nor the ServiceAccount API is called: whatever
  an update of the WorkloadIdentity itself keeps, the reconcile keeps.
\<close>

lemma retain_touches_nothing:
  assumes "\<not> deletion_is_zero (wi_Meta identity)"
    and "wis_DeletionPolicy (wi_Spec identity) \<noteq> DeletionPolicyDelete"
    and "write_keeps I (wr_Client r) UpdatesWorkloadIdentity"
  shows "preserves (in_ctx I) (reconcile_existing_identity L r identity)"
  using assms
  by (auto simp: reconcile_existing_identity_def reconcileWorkloadIdentityDelete_def release_identity_def
      intro!: preserves_intros)

text \<open>
  C21. Under the policy Delete the finalizer is released (the WorkloadIdentity updated) only after
  the Azure manager has deleted the identity and the owned ServiceAccount is gone, or after the
  manager has answered that the Azure identity belongs to an earlier instance.
\<close>

theorem deletion_releases_after_cleanup:
  assumes "\<not> deletion_is_zero (wi_Meta identity)"
    and "wis_DeletionPolicy (wi_Spec identity) = DeletionPolicyDelete"
    and "wr_Manager r = Some m" and "preserves I (im_Delete m identity)"
    and "reader_keeps I (ClusterReader (wr_Client r))"
    and "write_keeps I (wr_Client r) DeletesServiceAccount"
    and "I (world c)" and "run_state (reconcile_existing_identity L r identity) c = (res, c')"
  shows "I (world c') \<or>
    (\<exists>w1. run_state (im_Delete m identity) (world c) = (Inr (), w1) \<and>
       (\<exists>w2. run_state (deleteServiceAccountIfOwned L r identity) w1 = (Inr (), w2))) \<or>
    (\<exists>e w1. run_state (im_Delete m identity) (world c) = (Inl e, w1) \<and>
       ConflictReason e = Some ReasonRecoveryRequired)"
proof -
  obtain d w1 where del: "run_state (im_Delete m identity) (world c) = (d, w1)" by fastforce
  have w1: "I w1" using preservesD[OF assms(4,7) del] .
  obtain s w2 where sa: "run_state (deleteServiceAccountIfOwned L r identity) w1 = (s, w2)" by fastforce
  have "preserves I (DeleteServiceAccount (wr_Client r) x)" for x
    using assms(6) by simp
  then have keep: "preserves I (deleteServiceAccountIfOwned L r identity)"
    unfolding deleteServiceAccountIfOwned_def by (intro preserves_intros reader_keepsD[OF assms(5)])
  have w2: "I w2" using preservesD[OF keep w1 sa] .
  show ?thesis
    using assms(1-3,7,8) del sa w1 w2
    by (auto simp: reconcile_existing_identity_def reconcileWorkloadIdentityDelete_def run_simps
        split: if_splits sum.splits)
qed

text \<open>In the witness the Azure identity still belongs to another instance of the object.\<close>

theorem deletion_releases_after_cleanup_witness:
  "\<exists>res c'. run_state (reconcile_existing_identity std_lib demo_workload_reconciler demo_removing)
       \<lparr> world = demo_sim, outcome = None \<rparr> = (res, c') \<and>
    (sim_identities (world c') = [demo_identity] \<or>
    (\<exists>w1. run_state (Manager_Delete (sim_sdk valid_scope) demo_wim demo_removing) demo_sim = (Inr (), w1) \<and>
       (\<exists>w2. run_state (deleteServiceAccountIfOwned std_lib demo_workload_reconciler demo_removing) w1 = (Inr (), w2))) \<or>
    (\<exists>e w1. run_state (Manager_Delete (sim_sdk valid_scope) demo_wim demo_removing) demo_sim = (Inl e, w1) \<and>
       ConflictReason e = Some ReasonRecoveryRequired))"
proof -
  let ?I = "\<lambda>w. sim_identities w = [demo_identity]"
  obtain res c' where run: "run_state (reconcile_existing_identity std_lib demo_workload_reconciler demo_removing)
       \<lparr> world = demo_sim, outcome = None \<rparr> = (res, c')" by fastforce
  have "preserves ?I (Manager_Delete (sim_sdk valid_scope) demo_wim demo_removing)"
    by (rule sim_manager_keeps) simp
  moreover have "reader_keeps ?I (ClusterReader (wr_Client demo_workload_reconciler))"
    "write_keeps ?I (wr_Client demo_workload_reconciler) DeletesServiceAccount"
    by (simp_all add: reader_keeps_def preserves_def sim_cluster_def sim_reader_def sim_get_def sim_list_def)
  moreover have "wis_DeletionPolicy (wi_Spec demo_removing) = DeletionPolicyDelete"
    by (simp add: demo_removing_def demo_live_def demo_identity_def)
  moreover have "?I demo_sim" by (simp add: demo_sim_def)
  ultimately have "?I (world c') \<or>
    (\<exists>w1. run_state (Manager_Delete (sim_sdk valid_scope) demo_wim demo_removing) demo_sim = (Inr (), w1) \<and>
       (\<exists>w2. run_state (deleteServiceAccountIfOwned std_lib demo_workload_reconciler demo_removing) w1 = (Inr (), w2))) \<or>
    (\<exists>e w1. run_state (Manager_Delete (sim_sdk valid_scope) demo_wim demo_removing) demo_sim = (Inl e, w1) \<and>
       ConflictReason e = Some ReasonRecoveryRequired)"
    using deletion_releases_after_cleanup[of demo_removing demo_workload_reconciler
        "azure_identity_manager (sim_sdk valid_scope) demo_wim" ?I _ std_lib res c', OF demo_live_simps(2) _ _ _ _ _ _ run]
    by simp
  with run show ?thesis by (intro exI conjI)
qed

section \<open>ServiceAccounts\<close>

text \<open>
  C22. The provenance of a ServiceAccount is decided once: after a status that records it for the
  configured subject, every inspection reports the same provenance as established, every successful
  ensure keeps it (also when the account was deleted and is created again), and an adopted account
  is never deleted with the WorkloadIdentity.
\<close>

theorem provenance_is_stable:
  assumes "wi_Status identity = ready_status L g issuerURL (serviceAccountSubject identity) saUID p managed s"
    and "p = ServiceAccountProvenanceCreated \<or> p = ServiceAccountProvenanceAdopted"
  shows "(\<forall>w state w'. run_state (inspectServiceAccount L r identity) w = (Inr state, w') \<longrightarrow>
       state = \<lparr> sas_Provenance = p, sas_Established = True \<rparr>) \<and>
    (\<forall>m w sa q w'. run_state (ensureServiceAccount L r identity m
         \<lparr> sas_Provenance = p, sas_Established = True \<rparr>) w = (Inr (sa, q), w') \<longrightarrow> q = p) \<and>
    (\<forall>I. p = ServiceAccountProvenanceAdopted \<longrightarrow> reader_keeps I (ClusterReader (wr_Client r)) \<longrightarrow>
       preserves I (deleteServiceAccountIfOwned L r identity))"
proof -
  have "serviceAccountSubject identity \<noteq> ''''"
    by (simp add: serviceAccountSubject_def Let_def)
  then have persisted: "persistedServiceAccountProvenance identity = Some p"
    using assms by (auto simp: persistedServiceAccountProvenance_def serviceAccountStatusMatchesConfiguredName_def
        ready_status_def)
  have adopted: "ServiceAccountProvenanceAdopted \<noteq> ServiceAccountProvenanceCreated"
    by (simp add: const_defs)
  show ?thesis
  proof (intro conjI allI impI)
    fix w state w' assume "run_state (inspectServiceAccount L r identity) w = (Inr state, w')"
    then show "state = \<lparr> sas_Provenance = p, sas_Established = True \<rparr>"
      using persisted by (auto simp: inspectServiceAccount_def run_simps inspect_missing_def inspect_found_def
          split: prod.splits sum.splits if_splits option.splits)
  next
    fix m w sa q w'
    assume "run_state (ensureServiceAccount L r identity m
         \<lparr> sas_Provenance = p, sas_Established = True \<rparr>) w = (Inr (sa, q), w')"
    then show "q = p"
      by (auto simp: ensureServiceAccount_def update_service_account_def Let_def run_simps
          split: prod.splits sum.splits if_splits option.splits)
  next
    fix I assume "p = ServiceAccountProvenanceAdopted" "reader_keeps I (ClusterReader (wr_Client r))"
    then show "preserves I (deleteServiceAccountIfOwned L r identity)"
      unfolding deleteServiceAccountIfOwned_def using persisted adopted
      by (auto intro!: preserves_intros)
  qed
qed

definition demo_managed :: ManagedIdentity where
  "demo_managed = \<lparr> mi_ClientID = ''client'', mi_PrincipalID = ''principal'', mi_TenantID = ''tenant'',
     mi_AzureResources = [] \<rparr>"

definition demo_adopted :: WorkloadIdentity where
  "demo_adopted = demo_live\<lparr>wi_Status := ready_status std_lib 1 ''https://issuer''
     (serviceAccountSubject demo_live) ''sa-uid'' ServiceAccountProvenanceAdopted demo_managed (wi_Status demo_live)\<rparr>"

theorem provenance_is_stable_witness:
  "preserves (\<lambda>w. sim_accounts w = [\<lparr> sa_Meta = demo_meta ''ns'' ''app'' ''sa-uid'' \<rparr>])
     (deleteServiceAccountIfOwned std_lib demo_workload_reconciler demo_adopted)"
proof -
  have status: "wi_Status demo_adopted = ready_status std_lib 1 ''https://issuer'' (serviceAccountSubject demo_adopted)
      ''sa-uid'' ServiceAccountProvenanceAdopted demo_managed (wi_Status demo_live)"
    by (simp add: demo_adopted_def serviceAccountSubject_def serviceAccountKey_def)
  have reader: "reader_keeps (\<lambda>w. sim_accounts w = [\<lparr> sa_Meta = demo_meta ''ns'' ''app'' ''sa-uid'' \<rparr>])
      (ClusterReader (wr_Client demo_workload_reconciler))"
    by (simp add: reader_keeps_def preserves_def sim_cluster_def sim_reader_def sim_get_def sim_list_def)
  show ?thesis
    by (rule provenance_is_stable[OF status disjI2[OF refl], THEN conjunct2, THEN conjunct2, rule_format,
        OF refl reader])
qed

section \<open>Failures\<close>

text \<open>
  C23. When the Azure manager cannot ensure the identity, the reconcile of a live WorkloadIdentity
  touches no ServiceAccount and never reports Ready: whatever is kept by cluster reads, by the
  manager, the detector, the finalizer update and status patches with Ready=False, it keeps.
\<close>

theorem ensure_failure_is_contained:
  assumes laws: "condition_laws L"
    and fails: "\<And>m i u s w. wr_Manager r = Some m \<Longrightarrow> \<exists>e w'. run_state (im_Ensure m i u s) w = (Inl e, w')"
    and reads: "reader_keeps I (ClusterReader (wr_Client r))" "preserves I (Now (wr_Client r))"
      "write_keeps I (wr_Client r) UpdatesWorkloadIdentity"
    and calls: "\<And>m i u s. wr_Manager r = Some m \<Longrightarrow> preserves I (im_Ensure m i u s)"
      "\<And>d i. wr_RecoveryDetector r = Some d \<Longrightarrow> preserves I (d i)"
    and patches: "\<And>x p cond. FindStatusCondition L (wi_Conditions (wi_Status x)) WorkloadIdentityConditionReady
        = Some cond \<Longrightarrow> c_Status cond = ConditionFalse \<Longrightarrow> preserves I (PatchWorkloadIdentityStatus (wr_Client r) x p)"
    and live: "deletion_is_zero (wi_Meta identity)"
  shows "preserves (in_ctx I) (reconcile_existing_identity L r identity)"
proof -
  have patch: "preserves I (patchWorkloadIdentityStatus r i f)"
    if "\<And>s. \<exists>cond. FindStatusCondition L (wi_Conditions (f s)) WorkloadIdentityConditionReady = Some cond \<and>
      c_Status cond = ConditionFalse" for f i
  proof -
    have "preserves I (PatchWorkloadIdentityStatus (wr_Client r) (i\<lparr>wi_Status := f s\<rparr>) p)" for s p
      using that[of s] patches[of "i\<lparr>wi_Status := f s\<rparr>"] by auto
    then show ?thesis
      unfolding patchWorkloadIdentityStatus_def by (intro preserves_intros reads(2))
  qed
  have sets: "preserves I (setWorkloadIdentityNotReady L r i reason message)"
    "preserves I (setWorkloadIdentityRecoveryRequired L r i evidence message)" for i reason message evidence
    unfolding setWorkloadIdentityNotReady_def setWorkloadIdentityRecoveryRequired_def
    by (rule patch, simp add: not_ready_status_def recovery_required_status_def find_set_same[OF laws])+
  have upd: "preserves I (UpdateWorkloadIdentity (wr_Client r) x)" for x
    using reads(3) by simp
  have handle: "preserves (in_ctx I) (handleWorkloadIdentityEnsureError L r i e)" for i e
    unfolding handleWorkloadIdentityEnsureError_def Let_def by (intro preserves_intros sets)
  have inspection: "preserves (in_ctx I) (handle_inspection_error L r i e)" for i e
    unfolding handle_inspection_error_def inspection_failed_def by (intro preserves_intros sets calls(2))
  have ensured: "preserves (in_ctx I) (State_Monad.bind (in_world (im_Ensure m i u s)) (\<lambda>ensured. case ensured of
         Inl err \<Rightarrow> handleWorkloadIdentityEnsureError L r i err | Inr managed \<Rightarrow> k managed))"
    if m: "wr_Manager r = Some m" for m i u s and k :: "ManagedIdentity \<Rightarrow> 'a reconcile"
  proof (rule preserves_bind_result[OF calls(1)[OF m]])
    fix a w w' assume "run_state (im_Ensure m i u s) w = (a, w')"
    then show "preserves (in_ctx I) (case a of
         Inl err \<Rightarrow> handleWorkloadIdentityEnsureError L r i err | Inr managed \<Rightarrow> k managed)"
      using fails[OF m, of i u s w] handle by auto
  qed
  have with_issuer: "preserves (in_ctx I) (reconcile_with_issuer L r i issuer m)" if "wr_Manager r = Some m" for m i issuer
    unfolding reconcile_with_issuer_def Let_def
    by (rule preserves_bind, rule preserves_in_world, rule inspect_keeps[OF reads(1)],
        rule preserves_sum, rule inspection, rule ensured[OF that])
  have "preserves (in_ctx I) (reconcile_live_identity L r i)" for i
    unfolding reconcile_live_identity_def blocked_reconcile_def waitForOIDCIssuer_def Let_def
    by (intro preserves_intros reader_keepsD[OF reads(1)] sets with_issuer)
  then show ?thesis
    unfolding reconcile_existing_identity_def using live by (auto intro!: preserves_intros upd)
qed

text \<open>A manager without a credential fails every call.\<close>

definition demo_no_credential :: "sim WorkloadIdentityReconciler" where
  "demo_no_credential = demo_workload_reconciler\<lparr>wr_Manager := Some (azure_identity_manager
     (sim_sdk valid_scope) \<lparr> wim_Credential = None, wim_Scope = valid_scope \<rparr>)\<rparr>"

theorem ensure_failure_is_contained_witness:
  "preserves (in_ctx (\<lambda>w. sim_accounts w = [] \<and> sim_azure w = demo_store))
     (reconcile_existing_identity std_lib demo_no_credential demo_live)"
proof (rule ensure_failure_is_contained[OF std_condition_laws])
  let ?I = "\<lambda>w. sim_accounts w = [] \<and> sim_azure w = demo_store"
  have ensure: "Manager_Ensure (sim_sdk valid_scope) \<lparr> wim_Credential = None, wim_Scope = valid_scope \<rparr> i u s
      = io_fail (ErrorString ''azure credential is required'')" for i u s
    by (simp add: Manager_Ensure_def with_clients_def newIdentityClients_def)
  show "\<exists>e w'. run_state (im_Ensure m i u s) w = (Inl e, w')"
    and "preserves ?I (im_Ensure m i u s)" if "wr_Manager demo_no_credential = Some m" for m i u s w
    using that by (auto simp: demo_no_credential_def ensure)
  show "reader_keeps ?I (ClusterReader (wr_Client demo_no_credential))"
    "preserves ?I (Now (wr_Client demo_no_credential))"
    "write_keeps ?I (wr_Client demo_no_credential) UpdatesWorkloadIdentity"
    "preserves ?I (PatchWorkloadIdentityStatus (wr_Client demo_no_credential) x p)" for x p
    by (simp_all add: demo_no_credential_def reader_keeps_def preserves_def sim_cluster_def sim_reader_def
        sim_get_def sim_list_def sim_write_def split: option.split)
  show "preserves ?I (d i)" if "wr_RecoveryDetector demo_no_credential = Some d" for d i
    using that by (auto simp: demo_no_credential_def detect_reads)
qed (simp add: demo_live_simps)

section \<open>Refresh interval\<close>

lemma unat_mult_small: "unat x * unat y < 2 ^ 64 \<Longrightarrow> unat (x * y) = unat x * unat (y :: 64 word)"
  by (simp add: unat_mult_lem[THEN iffD1])

lemma jitter_le:
  assumes "unat h < 2 ^ 32"
  shows "unat (jitter_nanos m h) \<le> unat m"
proof -
  define H where "H = (4294967295 :: nat)"
  define M where "M = unat m"
  define K where "K = unat h"
  have K: "K \<le> H" using assms by (simp add: H_def K_def)
  have M: "M < 2 ^ 64" using unsigned_less[of m] by (simp add: M_def)
  have mask: "ucast (- 1 :: 32 word) = (4294967295 :: 64 word)"
    by (simp add: unsigned_minus_1_eq_mask mask_eq_exp_minus_1)
  have d: "unat (m div 4294967295) = M div H" and r: "unat (m mod 4294967295) = M mod H"
    by (simp_all add: M_def H_def unat_div unat_mod)
  have split: "M = M div H * H + M mod H" by simp
  have le1: "M div H * K \<le> M div H * H" using K by simp
  have le2: "M mod H * K \<le> M mod H * H" using K by simp
  have ltH: "M mod H < H" by (simp add: H_def)
  have "M mod H * K \<le> H * H"
    using le2 ltH by (meson le_trans less_imp_le mult_le_mono1)
  also have "H * H < 2 ^ 64" by (simp add: H_def)
  finally have prod: "unat (m mod 4294967295 * h) = M mod H * K"
    using unat_mult_small[of "m mod 4294967295" h] r by (simp add: K_def)
  have q: "unat (m mod 4294967295 * h div 4294967295) = M mod H * K div H"
    using prod by (simp add: unat_div H_def)
  have le2': "M mod H * K div H \<le> M mod H"
    using le2 by (metis H_def div_le_mono nonzero_mult_div_cancel_right zero_neq_numeral)
  have "M div H * K < 2 ^ 64" using le1 split M by linarith
  then have p: "unat (m div 4294967295 * h) = M div H * K"
    using unat_mult_small[of "m div 4294967295" h] d by (simp add: K_def)
  have "unat (m div 4294967295 * h) + unat (m mod 4294967295 * h div 4294967295) \<le> M"
    using p q le1 le2' split by linarith
  moreover from this have "unat (m div 4294967295 * h + m mod 4294967295 * h div 4294967295)
      = unat (m div 4294967295 * h) + unat (m mod 4294967295 * h div 4294967295)"
    using M by (subst unat_add_lem[THEN iffD1]) simp_all
  ultimately show ?thesis by (simp add: jitter_nanos_def Let_def mask M_def)
qed

text \<open>
  C24. The refresh interval is the configured one plus a jitter of at most a tenth of it: the 64-bit
  arithmetic of the jitter does not wrap around, for every interval that leaves room for it in a
  signed 64-bit duration (over 265 years).
\<close>

theorem refresh_jitter_bounds:
  assumes "0 < interval" and "interval + interval div 10 < 2 ^ 63"
  shows "interval \<le> jitteredWorkloadIdentityRefreshInterval interval key \<and>
    jitteredWorkloadIdentityRefreshInterval interval key \<le> interval + interval div 10"
proof -
  define j where "j = jitter_nanos (word_of_int (interval div 10)) (ucast (fnv32a key))"
  have ten: "0 \<le> interval div 10" "interval div 10 < 2 ^ 64" using assms by auto
  have "unat j \<le> unat (word_of_int (interval div 10) :: 64 word)"
    unfolding j_def
  proof (rule jitter_le)
    have "unat (ucast (fnv32a key) :: 64 word) \<le> unat (fnv32a key)"
      by (simp add: unsigned_ucast_eq take_bit_nat_less_eq_self)
    also have "\<dots> < 2 ^ 32" using unsigned_less[of "fnv32a key"] by simp
    finally show "unat (ucast (fnv32a key) :: 64 word) < 2 ^ 32" .
  qed
  then have "unat j \<le> nat (interval div 10)"
    using ten by (simp add: unsigned_of_int take_bit_int_eq_self)
  then have "int (unat j) \<le> interval div 10"
    using ten by (simp add: le_nat_iff)
  then have j: "uint j \<le> interval div 10" "0 \<le> uint j" by simp_all
  have i: "uint (word_of_int interval :: 64 word) = interval"
    using assms by (simp add: uint_word_of_int_eq take_bit_int_eq_self)
  have "uint (word_of_int interval + j) = interval + uint j"
    using assms i j by (subst uint_add_lem[THEN iffD1]) simp_all
  then have "sint (word_of_int interval + j) = interval + uint j"
  proof -
    assume sum: "uint (word_of_int interval + j) = interval + uint j"
    have "- (2 ^ 63) \<le> interval + uint j" and "interval + uint j < 2 ^ 63"
      using assms j by linarith+
    then have "signed_take_bit 63 (interval + uint j) = interval + uint j"
      by (rule signed_take_bit_int_eq_self)
    with sum show ?thesis by (simp add: sint_uint)
  qed
  then show ?thesis
    using assms j ten by (simp_all add: jitteredWorkloadIdentityRefreshInterval_def Let_def j_def)
qed

theorem refresh_jitter_bounds_witness:
  "300000000000 \<le> jitteredWorkloadIdentityRefreshInterval 300000000000 ''target'' \<and>
   jitteredWorkloadIdentityRefreshInterval 300000000000 ''target'' \<le> 330000000000"
  using refresh_jitter_bounds[of 300000000000 "''target''"] by simp

end
