(* ===== verification/Issuer_Guards.thy ===== *)
theory Issuer_Guards
  imports Kube_Effects
begin

text \<open>
  internal/oidcissuer: the checks an OIDCIssuer deletion has to pass, shared by the reconciler and
  the admission webhook.  The token client and the OpenShift client are the functions
  \<open>CurrentIssuer\<close> and \<open>Get\<close> of their interfaces; a nil interface is \<open>None\<close>.
\<close>

section \<open>deletion.go\<close>

definition HasPublishedIssuerURL :: "OIDCIssuer \<Rightarrow> bool" where
  "HasPublishedIssuerURL issuer \<longleftrightarrow> oi_IssuerURL (oi_Status issuer) \<noteq> ''''"

definition ClusterServiceAccountIssuerDeletionBlockedMessage :: "string \<Rightarrow> string" where
  "ClusterServiceAccountIssuerDeletionBlockedMessage issuerURL =
     ''OIDCIssuer deletion is blocked because the cluster is still minting service account tokens with issuer ''
       @ fmt_q issuerURL
       @ ''. Change the cluster service account issuer before deleting this OIDCIssuer.''"

definition ClusterServiceAccountIssuerCheckFailedMessage :: "string \<Rightarrow> go_error \<Rightarrow> string" where
  "ClusterServiceAccountIssuerCheckFailedMessage issuerURL err =
     ''OIDCIssuer deletion is blocked because the operator could not verify whether the cluster still mints service account tokens with issuer ''
       @ fmt_q issuerURL @ '': '' @ Error err"

definition ClusterServiceAccountIssuerGuardUnavailableMessage :: "string \<Rightarrow> string" where
  "ClusterServiceAccountIssuerGuardUnavailableMessage issuerURL =
     ''OIDCIssuer deletion is blocked because the operator cannot verify whether the cluster still mints service account tokens with issuer ''
       @ fmt_q issuerURL
       @ ''. Configure the service account token issuer deletion guard before deleting this OIDCIssuer.''"

definition OpenShiftServiceAccountIssuerDeletionBlockedMessage :: "string \<Rightarrow> string" where
  "OpenShiftServiceAccountIssuerDeletionBlockedMessage issuerURL =
     ''OIDCIssuer deletion is blocked because OpenShift Authentication/cluster.spec.serviceAccountIssuer still references ''
       @ fmt_q issuerURL
       @ ''. Restore or change the OpenShift service account issuer before deleting this OIDCIssuer.''"

section \<open>deletion\_guard.go\<close>

definition ReasonBlockedByWorkloadIdentities :: string where
  "ReasonBlockedByWorkloadIdentities = ''BlockedByWorkloadIdentities''"
definition ReasonBlockedByClusterServiceAccountIssuer :: string where
  "ReasonBlockedByClusterServiceAccountIssuer = ''BlockedByClusterServiceAccountIssuer''"
definition ReasonClusterServiceAccountIssuerGuardUnavailable :: string where
  "ReasonClusterServiceAccountIssuerGuardUnavailable = ''ClusterServiceAccountIssuerGuardUnavailable''"
definition ReasonClusterServiceAccountIssuerCheckFailed :: string where
  "ReasonClusterServiceAccountIssuerCheckFailed = ''ClusterServiceAccountIssuerCheckFailed''"
definition ReasonBlockedByOpenShiftServiceAccountIssuer :: string where
  "ReasonBlockedByOpenShiftServiceAccountIssuer = ''BlockedByOpenShiftServiceAccountIssuer''"

lemmas guard_reason_defs [const_defs] =
  ReasonBlockedByWorkloadIdentities_def ReasonBlockedByClusterServiceAccountIssuer_def
  ReasonClusterServiceAccountIssuerGuardUnavailable_def ReasonClusterServiceAccountIssuerCheckFailed_def
  ReasonBlockedByOpenShiftServiceAccountIssuer_def

record DeletionGuardResult =
  dg_Blocked :: bool
  dg_CheckFailed :: bool
  dg_Reason :: string
  dg_Message :: string
  dg_Err :: "go_error option"
  dg_WorkloadIdentityCount :: nat

definition guard_passed :: DeletionGuardResult where
  "guard_passed = \<lparr> dg_Blocked = False, dg_CheckFailed = False, dg_Reason = '''', dg_Message = '''',
     dg_Err = None, dg_WorkloadIdentityCount = 0 \<rparr>"

definition guard_blocked :: "string \<Rightarrow> string \<Rightarrow> DeletionGuardResult" where
  "guard_blocked reason message = guard_passed\<lparr>dg_Blocked := True, dg_Reason := reason, dg_Message := message\<rparr>"

lemma guard_simps [simp]:
  "\<not> dg_Blocked guard_passed" "\<not> dg_CheckFailed guard_passed"
  "dg_Blocked (guard_blocked reason message)" "\<not> dg_CheckFailed (guard_blocked reason message)"
  "dg_Reason (guard_blocked reason message) = reason" "dg_Message (guard_blocked reason message) = message"
  by (simp_all add: guard_passed_def guard_blocked_def)

definition CheckWorkloadIdentityDeletionBlock ::
  "('w, WorkloadIdentity list) ext_io \<Rightarrow> int \<Rightarrow> ('w, DeletionGuardResult) io" where
  "CheckWorkloadIdentityDeletionBlock list_identities referenceLimit =
     io_try (errorf_wrap ''list WorkloadIdentities before OIDCIssuer deletion'' (external list_identities))
       (\<lambda>items. if items = [] then io_return guard_passed
         else io_return ((guard_blocked ReasonBlockedByWorkloadIdentities
                (DeletionBlockedMessage items referenceLimit))
                \<lparr>dg_WorkloadIdentityCount := length items\<rparr>))"

definition CheckTokenIssuerHandoff ::
  "OIDCIssuer \<Rightarrow> ('w, string) io option \<Rightarrow> ('w, string) io option \<Rightarrow> ('w, DeletionGuardResult) io" where
  "CheckTokenIssuerHandoff issuer serviceAccountTokens openShiftServiceAccountIssuer =
     (if \<not> HasPublishedIssuerURL issuer then io_return guard_passed
      else case serviceAccountTokens of
        None \<Rightarrow>
          if openShiftServiceAccountIssuer \<noteq> None then io_return guard_passed
          else io_return (guard_blocked ReasonClusterServiceAccountIssuerGuardUnavailable
                 (ClusterServiceAccountIssuerGuardUnavailableMessage (oi_IssuerURL (oi_Status issuer))))
      | Some CurrentIssuer \<Rightarrow>
          State_Monad.bind CurrentIssuer (\<lambda>current. case current of
            Inl err \<Rightarrow> io_return (guard_passed\<lparr>dg_CheckFailed := True,
                dg_Reason := ReasonClusterServiceAccountIssuerCheckFailed,
                dg_Message := ClusterServiceAccountIssuerCheckFailedMessage (oi_IssuerURL (oi_Status issuer)) err,
                dg_Err := Some err\<rparr>)
          | Inr currentIssuer \<Rightarrow>
              if currentIssuer \<noteq> oi_IssuerURL (oi_Status issuer) then io_return guard_passed
              else io_return (guard_blocked ReasonBlockedByClusterServiceAccountIssuer
                     (ClusterServiceAccountIssuerDeletionBlockedMessage (oi_IssuerURL (oi_Status issuer))))))"

definition CheckOpenShiftIssuerHandoff ::
  "OIDCIssuer \<Rightarrow> ('w, string) io option \<Rightarrow> ('w, DeletionGuardResult) io" where
  "CheckOpenShiftIssuerHandoff issuer openShiftServiceAccountIssuer =
     (case openShiftServiceAccountIssuer of
        None \<Rightarrow> io_return guard_passed
      | Some Get \<Rightarrow>
          if \<not> HasPublishedIssuerURL issuer then io_return guard_passed
          else io_try (errorf_wrap ''read OpenShift service account issuer before OIDCIssuer deletion'' Get)
            (\<lambda>currentIssuer.
               if currentIssuer \<noteq> oi_IssuerURL (oi_Status issuer) then io_return guard_passed
               else io_return (guard_blocked ReasonBlockedByOpenShiftServiceAccountIssuer
                      (OpenShiftServiceAccountIssuerDeletionBlockedMessage (oi_IssuerURL (oi_Status issuer))))))"

section \<open>Passing the guards\<close>

definition guard_passes :: "DeletionGuardResult \<Rightarrow> bool" where
  "guard_passes g \<longleftrightarrow> \<not> dg_Blocked g \<and> \<not> dg_CheckFailed g"

lemma identities_guard:
  "run_state (CheckWorkloadIdentityDeletionBlock m n) w = (Inr g, w') \<Longrightarrow>
     guard_passes g \<longleftrightarrow> run_state m w = (Inr [], w')"
  by (auto simp: CheckWorkloadIdentityDeletionBlock_def run_simps guard_passes_def split: prod.splits sum.splits if_splits)

lemma token_guard:
  "run_state (CheckTokenIssuerHandoff issuer tokens openshift) w = (Inr g, w') \<Longrightarrow>
     guard_passes g \<longleftrightarrow>
       \<not> HasPublishedIssuerURL issuer \<or>
       (case tokens of None \<Rightarrow> openshift \<noteq> None
        | Some m \<Rightarrow> \<exists>u. u \<noteq> oi_IssuerURL (oi_Status issuer) \<and> run_state m w = (Inr u, w'))"
  by (auto simp: CheckTokenIssuerHandoff_def run_simps guard_passes_def split: prod.splits sum.splits if_splits option.splits)

lemma openshift_guard:
  "run_state (CheckOpenShiftIssuerHandoff issuer openshift) w = (Inr g, w') \<Longrightarrow>
     guard_passes g \<longleftrightarrow>
       \<not> HasPublishedIssuerURL issuer \<or>
       (case openshift of None \<Rightarrow> True
        | Some m \<Rightarrow> \<exists>u. u \<noteq> oi_IssuerURL (oi_Status issuer) \<and> run_state m w = (Inr u, w'))"
  by (auto simp: CheckOpenShiftIssuerHandoff_def run_simps guard_passes_def split: prod.splits sum.splits if_splits option.splits)

lemma guards_keep:
  "preserves I m \<Longrightarrow> preserves I (CheckWorkloadIdentityDeletionBlock m n)"
  "(\<And>t. tokens = Some t \<Longrightarrow> preserves I t) \<Longrightarrow> preserves I (CheckTokenIssuerHandoff issuer tokens openshift)"
  "(\<And>t. openshift = Some t \<Longrightarrow> preserves I t) \<Longrightarrow> preserves I (CheckOpenShiftIssuerHandoff issuer openshift)"
  unfolding CheckWorkloadIdentityDeletionBlock_def CheckTokenIssuerHandoff_def CheckOpenShiftIssuerHandoff_def
  by (intro preserves_intros | assumption)+

end
