(* ===== verification/Issuer_Controller.thy ===== *)
theory Issuer_Controller
  imports Issuer_Guards Service_Accounts
begin

text \<open>
  internal/controller/oidcissuer\_controller.go: the reconciler of the OIDCIssuer.  The publisher,
  the OpenShift manager and the token client are records of functions; nil is \<open>None\<close>.  A status
  patch replaces the issuer the reconcile works on by the answer of the API server.
\<close>

section \<open>The reconciler\<close>

record PublishedDocuments =
  pd_IssuerURL :: string
  pd_AzureResources :: "AzureResource list"
  pd_SigningKeys :: "SigningKeyStatus list"

record 'w Publisher =
  pub_Publish :: "OIDCIssuer \<Rightarrow> ('w, PublishedDocuments) io"
  pub_Delete :: "OIDCIssuer \<Rightarrow> ('w, unit) io"

record 'w OpenShiftServiceAccountIssuerManager =
  osm_Get :: "('w, string) io"
  osm_Set :: "string \<Rightarrow> ('w, bool) io"
  osm_WaitForKubeAPIServerRollout :: "time \<Rightarrow> ('w, unit) io"

record 'w OIDCIssuerReconciler =
  ir_Client :: "'w Cluster"
  ir_Publisher :: "'w Publisher option"
  ir_OpenShift :: "'w OpenShiftServiceAccountIssuerManager option"
  ir_ServiceAccountTokens :: "('w, string) io option"
  ir_RefreshInterval :: int

definition oidcIssuerFinalizer :: string where
  "oidcIssuerFinalizer = ''workloadidentity.azure.micosolutions.se/oidcissuer-finalizer''"
definition defaultServiceAccountIssuerCheckPeriod :: int where
  "defaultServiceAccountIssuerCheckPeriod = minute"
definition blockingWorkloadIdentityReferenceLimit :: int where "blockingWorkloadIdentityReferenceLimit = 5"
definition openshiftAuthenticationName :: string where "openshiftAuthenticationName = ''cluster''"
definition DefaultOIDCIssuerRefreshInterval :: int where "DefaultOIDCIssuerRefreshInterval = 5 * minute"

definition oidcIssuerRefreshInterval :: "'w OIDCIssuerReconciler \<Rightarrow> int" where
  "oidcIssuerRefreshInterval r =
     (if ir_RefreshInterval r > 0 then ir_RefreshInterval r else DefaultOIDCIssuerRefreshInterval)"

section \<open>Status\<close>

definition patchOIDCIssuerStatus :: "'w OIDCIssuerReconciler \<Rightarrow> OIDCIssuer \<Rightarrow>
    (OIDCIssuerStatus \<Rightarrow> OIDCIssuerStatus) \<Rightarrow> ('w, OIDCIssuer) io" where
  "patchOIDCIssuerStatus r issuer mutate =
     State_Monad.bind (Now (ir_Client r)) (\<lambda>now.
       external (PatchOIDCIssuerStatus (ir_Client r)
         (issuer\<lparr>oi_Status := mutate ((oi_Status issuer)
            \<lparr>oi_ObservedGeneration := Generation (oi_Meta issuer), oi_LastReconciledTime := Some now\<rparr>)\<rparr>)
         (MergeFrom issuer)))"

definition issuer_condition :: "string \<Rightarrow> string \<Rightarrow> string \<Rightarrow> int \<Rightarrow> Condition" where
  "issuer_condition status reason message generation =
     \<lparr> c_Type = OIDCIssuerConditionReady, c_Status = status, c_ObservedGeneration = generation,
       c_Reason = reason, c_Message = message \<rparr>"

definition published_status :: "PublishedDocuments \<Rightarrow> OIDCIssuerStatus \<Rightarrow> OIDCIssuerStatus" where
  "published_status published status =
     status\<lparr>oi_IssuerURL := pd_IssuerURL published, oi_AzureResources := pd_AzureResources published,
       oi_SigningKeys := pd_SigningKeys published\<rparr>"

definition setPublished :: "'w OIDCIssuerReconciler \<Rightarrow> OIDCIssuer \<Rightarrow> PublishedDocuments \<Rightarrow> ('w, OIDCIssuer) io" where
  "setPublished r issuer published = patchOIDCIssuerStatus r issuer (published_status published)"

definition issuer_ready_status :: "k8s_lib \<Rightarrow> int \<Rightarrow> PublishedDocuments \<Rightarrow> OIDCIssuerStatus \<Rightarrow> OIDCIssuerStatus" where
  "issuer_ready_status L generation published status =
     (let status = published_status published status
      in status\<lparr>oi_Conditions := SetStatusCondition L (oi_Conditions status)
           (issuer_condition ConditionTrue ''Published'' ''OIDC issuer documents are published'' generation)\<rparr>)"

definition setReady :: "k8s_lib \<Rightarrow> 'w OIDCIssuerReconciler \<Rightarrow> OIDCIssuer \<Rightarrow> PublishedDocuments \<Rightarrow> ('w, OIDCIssuer) io" where
  "setReady L r issuer published =
     patchOIDCIssuerStatus r issuer (issuer_ready_status L (Generation (oi_Meta issuer)) published)"

definition issuer_not_ready_status :: "k8s_lib \<Rightarrow> int \<Rightarrow> string \<Rightarrow> string \<Rightarrow> OIDCIssuerStatus \<Rightarrow> OIDCIssuerStatus" where
  "issuer_not_ready_status L generation reason message status =
     status\<lparr>oi_Conditions := SetStatusCondition L (oi_Conditions status)
       (issuer_condition ConditionFalse reason message generation)\<rparr>"

definition setNotReady :: "k8s_lib \<Rightarrow> 'w OIDCIssuerReconciler \<Rightarrow> OIDCIssuer \<Rightarrow> string \<Rightarrow> string \<Rightarrow> ('w, OIDCIssuer) io" where
  "setNotReady L r issuer reason message =
     patchOIDCIssuerStatus r issuer (issuer_not_ready_status L (Generation (oi_Meta issuer)) reason message)"

definition capturePreviousServiceAccountIssuer ::
  "'w OIDCIssuerReconciler \<Rightarrow> OIDCIssuer \<Rightarrow> string \<Rightarrow> ('w, OIDCIssuer) io" where
  "capturePreviousServiceAccountIssuer r issuer previousIssuer =
     patchOIDCIssuerStatus r issuer (\<lambda>status. status\<lparr>oi_PreviousServiceAccountIssuer := Some previousIssuer\<rparr>)"

section \<open>Deletion\<close>

definition release_issuer :: "k8s_lib \<Rightarrow> 'w OIDCIssuerReconciler \<Rightarrow> OIDCIssuer \<Rightarrow> 'w reconcile" where
  "release_issuer L r issuer =
     result_of empty_Result (external (UpdateOIDCIssuer (ir_Client r)
       (issuer\<lparr>oi_Meta := (oi_Meta issuer)
          \<lparr>Finalizers := RemoveFinalizer L (Finalizers (oi_Meta issuer)) oidcIssuerFinalizer\<rparr>\<rparr>)))"

definition issuer_blocked :: "'w reconcile \<Rightarrow> 'w reconcile" where
  "issuer_blocked m = State_Monad.bind (SetReconcileOutcome ''blocked'') (\<lambda>_. m)"

definition delete_published :: "k8s_lib \<Rightarrow> 'w OIDCIssuerReconciler \<Rightarrow> OIDCIssuer \<Rightarrow> 'w reconcile" where
  "delete_published L r issuer =
     (if ois_DeletionPolicy (oi_Spec issuer) = DeletionPolicyDelete
      then (case ir_Publisher r of
          None \<Rightarrow> failed_with (ErrorString ''OIDC document publisher is not configured'')
        | Some p \<Rightarrow> and_then (pub_Delete p issuer) (\<lambda>_. release_issuer L r issuer))
      else release_issuer L r issuer)"

definition check_openshift_handoff :: "k8s_lib \<Rightarrow> 'w OIDCIssuerReconciler \<Rightarrow> OIDCIssuer \<Rightarrow> 'w reconcile" where
  "check_openshift_handoff L r issuer =
     and_then (CheckOpenShiftIssuerHandoff issuer (map_option osm_Get (ir_OpenShift r))) (\<lambda>result.
       if dg_Blocked result
       then issuer_blocked (result_of empty_Result
              (setNotReady L r issuer (dg_Reason result) (dg_Message result)))
       else delete_published L r issuer)"

definition check_token_handoff :: "k8s_lib \<Rightarrow> 'w OIDCIssuerReconciler \<Rightarrow> OIDCIssuer \<Rightarrow> 'w reconcile" where
  "check_token_handoff L r issuer =
     and_then (CheckTokenIssuerHandoff issuer (ir_ServiceAccountTokens r) (map_option osm_Get (ir_OpenShift r)))
       (\<lambda>result.
         if dg_CheckFailed result
         then and_then (setNotReady L r issuer (dg_Reason result) (dg_Message result))
                (\<lambda>_. failed_with (WrapError
                   ''verify cluster service account token issuer before OIDCIssuer deletion''
                   (case dg_Err result of Some e \<Rightarrow> e | None \<Rightarrow> nil_dereference)))
         else if dg_Blocked result
         then issuer_blocked (and_then (setNotReady L r issuer (dg_Reason result) (dg_Message result))
                (\<lambda>_. done_with (requeue_after defaultServiceAccountIssuerCheckPeriod)))
         else check_openshift_handoff L r issuer)"

definition identities_checked :: "k8s_lib \<Rightarrow> 'w OIDCIssuerReconciler \<Rightarrow> OIDCIssuer \<Rightarrow> DeletionGuardResult \<Rightarrow>
    'w reconcile" where
  "identities_checked L r issuer result =
     (if dg_Blocked result
      then issuer_blocked (result_of empty_Result
             (setNotReady L r issuer (dg_Reason result) (dg_Message result)))
      else check_token_handoff L r issuer)"

definition Issuer_reconcileDelete :: "k8s_lib \<Rightarrow> 'w OIDCIssuerReconciler \<Rightarrow> OIDCIssuer \<Rightarrow> 'w reconcile" where
  "Issuer_reconcileDelete L r issuer =
     (if \<not> ContainsFinalizer L (Finalizers (oi_Meta issuer)) oidcIssuerFinalizer then done_with empty_Result
      else and_then (CheckWorkloadIdentityDeletionBlock (ListWorkloadIdentities (ClusterReader (ir_Client r)))
             blockingWorkloadIdentityReferenceLimit)
             (identities_checked L r issuer))"

section \<open>Publishing\<close>

definition shouldUpdateOpenShiftServiceAccountIssuer :: "OIDCIssuer \<Rightarrow> bool" where
  "shouldUpdateOpenShiftServiceAccountIssuer issuer \<longleftrightarrow>
     (case ois_OpenShift (oi_Spec issuer) of None \<Rightarrow> False | Some c \<Rightarrow> UpdateServiceAccountIssuer c)"

text \<open>\<open>if statusErr != nil { return statusErr }; return err\<close> after a failed step.\<close>

definition report_failure :: "k8s_lib \<Rightarrow> 'w OIDCIssuerReconciler \<Rightarrow> OIDCIssuer \<Rightarrow> string \<Rightarrow> go_error \<Rightarrow>
    go_error \<Rightarrow> ('w, OIDCIssuer) io" where
  "report_failure L r issuer reason shown err =
     io_try (setNotReady L r issuer reason (Error shown)) (\<lambda>_. io_fail err)"

definition capture_previous :: "k8s_lib \<Rightarrow> 'w OIDCIssuerReconciler \<Rightarrow>
    'w OpenShiftServiceAccountIssuerManager \<Rightarrow> OIDCIssuer \<Rightarrow> string \<Rightarrow> ('w, OIDCIssuer) io" where
  "capture_previous L r m issuer issuerURL =
     (if oi_PreviousServiceAccountIssuer (oi_Status issuer) = None
      then State_Monad.bind (osm_Get m) (\<lambda>current. case current of
          Inl err \<Rightarrow> report_failure L r issuer ''OpenShiftIssuerReadFailed'' err err
        | Inr currentIssuer \<Rightarrow>
            if currentIssuer \<noteq> issuerURL
            then capturePreviousServiceAccountIssuer r issuer currentIssuer
            else io_return issuer)
      else io_return issuer)"

definition set_cluster_issuer :: "k8s_lib \<Rightarrow> 'w OIDCIssuerReconciler \<Rightarrow>
    'w OpenShiftServiceAccountIssuerManager \<Rightarrow> OIDCIssuer \<Rightarrow> string \<Rightarrow> ('w, OIDCIssuer) io" where
  "set_cluster_issuer L r m issuer issuerURL =
     State_Monad.bind (Now (ir_Client r)) (\<lambda>changedAt.
     State_Monad.bind (osm_Set m issuerURL) (\<lambda>res. case res of
       Inl err \<Rightarrow> report_failure L r issuer ''OpenShiftIssuerUpdateFailed'' err err
     | Inr changed \<Rightarrow>
         if changed
         then State_Monad.bind (osm_WaitForKubeAPIServerRollout m changedAt) (\<lambda>waited. case waited of
             Inl err \<Rightarrow> report_failure L r issuer ''OpenShiftIssuerRolloutFailed'' err
                 (WrapError ''wait for OpenShift rollout after service account issuer update'' err)
           | Inr _ \<Rightarrow> io_return issuer)
         else io_return issuer))"

definition reconcileOpenShiftServiceAccountIssuer ::
  "k8s_lib \<Rightarrow> 'w OIDCIssuerReconciler \<Rightarrow> OIDCIssuer \<Rightarrow> string \<Rightarrow> ('w, OIDCIssuer) io" where
  "reconcileOpenShiftServiceAccountIssuer L r issuer issuerURL =
     (case ir_OpenShift r of
        None \<Rightarrow> setNotReady L r issuer ''OpenShiftIssuerClientNotConfigured''
                  ''OpenShift service account issuer client is not configured''
      | Some m \<Rightarrow> io_try (capture_previous L r m issuer issuerURL)
                    (\<lambda>issuer. set_cluster_issuer L r m issuer issuerURL))"

definition publish_issuer :: "k8s_lib \<Rightarrow> 'w OIDCIssuerReconciler \<Rightarrow> OIDCIssuer \<Rightarrow> 'w Publisher \<Rightarrow> 'w reconcile" where
  "publish_issuer L r issuer p =
     State_Monad.bind (in_world (pub_Publish p issuer)) (\<lambda>res. case res of
       Inl err \<Rightarrow> and_then (report_failure L r issuer ''PublishFailed'' err err) (\<lambda>_. done_with empty_Result)
     | Inr published \<Rightarrow>
         and_then (setPublished r issuer published) (\<lambda>issuer.
         and_then (if shouldUpdateOpenShiftServiceAccountIssuer issuer
                   then reconcileOpenShiftServiceAccountIssuer L r issuer (pd_IssuerURL published)
                   else io_return issuer) (\<lambda>issuer.
         and_then (setReady L r issuer published) (\<lambda>_.
           done_with (requeue_after (oidcIssuerRefreshInterval r))))))"

definition reconcile_live_issuer :: "k8s_lib \<Rightarrow> 'w OIDCIssuerReconciler \<Rightarrow> OIDCIssuer \<Rightarrow> 'w reconcile" where
  "reconcile_live_issuer L r issuer =
     (case ir_Publisher r of
        None \<Rightarrow> issuer_blocked (result_of empty_Result (setNotReady L r issuer ''PublisherNotConfigured''
                  ''OIDC document publisher is not configured''))
      | Some p \<Rightarrow> publish_issuer L r issuer p)"

definition reconcile_existing_issuer :: "k8s_lib \<Rightarrow> 'w OIDCIssuerReconciler \<Rightarrow> OIDCIssuer \<Rightarrow> 'w reconcile" where
  "reconcile_existing_issuer L r issuer =
     (if Name (oi_Meta issuer) \<noteq> OIDCIssuerName
      then issuer_blocked (result_of empty_Result (setNotReady L r issuer ''InvalidName''
             (''OIDCIssuer must be named '' @ fmt_q OIDCIssuerName)))
      else if \<not> deletion_is_zero (oi_Meta issuer) then Issuer_reconcileDelete L r issuer
      else if ContainsFinalizer L (Finalizers (oi_Meta issuer)) oidcIssuerFinalizer
      then reconcile_live_issuer L r issuer
      else and_then (external (UpdateOIDCIssuer (ir_Client r)
             (issuer\<lparr>oi_Meta := (oi_Meta issuer)
                \<lparr>Finalizers := AddFinalizer L (Finalizers (oi_Meta issuer)) oidcIssuerFinalizer\<rparr>\<rparr>)))
             (reconcile_live_issuer L r))"

definition Issuer_Reconcile :: "k8s_lib \<Rightarrow> 'w OIDCIssuerReconciler \<Rightarrow> string \<Rightarrow> 'w reconcile" where
  "Issuer_Reconcile L r name =
     State_Monad.bind (in_world (GetOIDCIssuer (ClusterReader (ir_Client r)) name)) (\<lambda>got. case got of
       Inl err \<Rightarrow>
         if IsNotFound L err
         then State_Monad.bind (SetReconcileOutcome ''noop'') (\<lambda>_. done_with empty_Result)
         else failed_with (External err)
     | Inr issuer \<Rightarrow> reconcile_existing_issuer L r issuer)"

section \<open>Watches\<close>

definition oidcIssuerForWorkloadIdentity :: "NamespacedName list" where
  "oidcIssuerForWorkloadIdentity = [\<lparr> nn_Namespace = '''', nn_Name = OIDCIssuerName \<rparr>]"

definition oidcIssuerForAuthentication :: "string \<Rightarrow> NamespacedName list" where
  "oidcIssuerForAuthentication name =
     (if name \<noteq> openshiftAuthenticationName then []
      else [\<lparr> nn_Namespace = '''', nn_Name = OIDCIssuerName \<rparr>])"

end
