(* ===== verification/Admission.thy ===== *)
theory Admission
  imports Issuer_Controller
begin

text \<open>
  internal/webhook/v1alpha1: the admission webhooks of the three resources.  A validator returns
  \<open>Inr ()\<close> when it admits the request (the warnings are always nil) and the error otherwise.  The
  constructors of API errors of k8s.io/apimachinery are the parameter \<open>api_errors\<close>; a
  \<open>field.Error\<close> of that package is the data it is built from.  A nil client is \<open>None\<close>.  The
  deferred \<open>RecordAdmissionOutcome\<close> only annotates a tracing span (Telemetry) and logging is left out.
\<close>

section \<open>Errors\<close>

datatype bad_value = BadString string | BadSecretRef SecretKeyReference

datatype field_error =
    FieldInvalid "string list" bad_value string
  | FieldForbidden "string list" string
  | FieldNotFound "string list" string

record api_errors =
  NewForbidden :: "string \<Rightarrow> string \<Rightarrow> string \<Rightarrow> string \<Rightarrow> ext_error"
  NewInvalid :: "string \<Rightarrow> string \<Rightarrow> string \<Rightarrow> field_error list \<Rightarrow> ext_error"
  NewAlreadyExists :: "string \<Rightarrow> string \<Rightarrow> string \<Rightarrow> ext_error"

definition apiGroup :: string where
  "apiGroup = ''workloadidentity.azure.micosolutions.se''"

text \<open>An error list as the result of a validation.\<close>

definition admit :: "(field_error list \<Rightarrow> go_error) \<Rightarrow> field_error list \<Rightarrow> ('w, unit) io" where
  "admit invalid allErrs = (if allErrs \<noteq> [] then io_fail (invalid allErrs) else io_return ())"

lemma run_admit [run_simps]:
  "run_state (admit invalid es) w = (if es = [] then Inr () else Inl (invalid es), w)"
  by (simp add: admit_def)

section \<open>OIDCIssuer\<close>

definition forbiddenOIDCIssuerDeletion :: "api_errors \<Rightarrow> string \<Rightarrow> string \<Rightarrow> go_error" where
  "forbiddenOIDCIssuerDeletion E name message = External (NewForbidden E apiGroup ''oidcissuers'' name message)"

definition invalidOIDCIssuer :: "api_errors \<Rightarrow> string \<Rightarrow> field_error list \<Rightarrow> go_error" where
  "invalidOIDCIssuer E name errs = External (NewInvalid E apiGroup ''OIDCIssuer'' name errs)"

definition validateOIDCIssuerName :: "OIDCIssuer \<Rightarrow> field_error list" where
  "validateOIDCIssuerName obj =
     (if Name (oi_Meta obj) = OIDCIssuerName then []
      else [FieldInvalid [''metadata'', ''name''] (BadString (Name (oi_Meta obj)))
              (''must be '' @ [char_of (34::nat)] @ ''default'' @ [char_of (34::nat)])])"

definition validateOIDCIssuerSigningKey :: "SigningKeySource \<Rightarrow> field_error list" where
  "validateOIDCIssuerSigningKey signingKey =
     (case RetiringSecretRef signingKey of
        None \<Rightarrow> []
      | Some retiring \<Rightarrow>
          if SecretRef signingKey = retiring
          then [FieldInvalid [''spec'', ''signingKey'', ''retiringSecretRef''] (BadSecretRef retiring)
                  ''must not reference the active signing key'']
          else [])"

definition validateOIDCIssuer :: "OIDCIssuer \<Rightarrow> field_error list" where
  "validateOIDCIssuer obj =
     validateOIDCIssuerName obj @ validateOIDCIssuerSigningKey (ois_SigningKey (oi_Spec obj))"

record 'w OIDCIssuerValidator =
  iv_Client :: "'w Reader option"
  iv_OpenShift :: "('w, string) io option"
  iv_ServiceAccountTokens :: "('w, string) io option"

definition OIDCIssuer_ValidateCreate :: "api_errors \<Rightarrow> OIDCIssuer \<Rightarrow> ('w, unit) io" where
  "OIDCIssuer_ValidateCreate E obj =
     admit (invalidOIDCIssuer E (Name (oi_Meta obj))) (validateOIDCIssuer obj)"

definition OIDCIssuer_ValidateUpdate :: "api_errors \<Rightarrow> OIDCIssuer \<Rightarrow> OIDCIssuer \<Rightarrow> ('w, unit) io" where
  "OIDCIssuer_ValidateUpdate E oldObj newObj =
     admit (invalidOIDCIssuer E (Name (oi_Meta newObj)))
       (validateOIDCIssuer newObj @
        (if ois_Azure (oi_Spec oldObj) \<noteq> ois_Azure (oi_Spec newObj)
         then [FieldForbidden [''spec'', ''azure''] ''field is immutable''] else []))"

definition OIDCIssuer_ValidateDelete :: "api_errors \<Rightarrow> 'w OIDCIssuerValidator \<Rightarrow> OIDCIssuer \<Rightarrow> ('w, unit) io" where
  "OIDCIssuer_ValidateDelete E v obj =
     (let forbidden = (\<lambda>result. io_fail (forbiddenOIDCIssuerDeletion E (Name (oi_Meta obj)) (dg_Message result))) in
      if Name (oi_Meta obj) \<noteq> OIDCIssuerName then io_return ()
      else case iv_Client v of
        None \<Rightarrow> io_fail (ErrorString ''OIDCIssuer validator client is not configured'')
      | Some reader \<Rightarrow>
          io_try (CheckWorkloadIdentityDeletionBlock (ListWorkloadIdentities reader)
              blockingWorkloadIdentityReferenceLimit) (\<lambda>result.
          if dg_Blocked result then forbidden result
          else io_try (CheckTokenIssuerHandoff obj (iv_ServiceAccountTokens v) (iv_OpenShift v)) (\<lambda>result.
            if dg_CheckFailed result then forbidden result
            else if dg_Blocked result then forbidden result
            else io_try (CheckOpenShiftIssuerHandoff obj (iv_OpenShift v)) (\<lambda>result.
              if dg_Blocked result then forbidden result else io_return ()))))"

section \<open>WorkloadIdentity\<close>

definition sameWorkloadIdentity :: "WorkloadIdentity \<Rightarrow> WorkloadIdentity \<Rightarrow> bool" where
  "sameWorkloadIdentity a b \<longleftrightarrow> wi_namespace a = wi_namespace b \<and> wi_name a = wi_name b"

definition invalidWorkloadIdentity :: "api_errors \<Rightarrow> WorkloadIdentity \<Rightarrow> field_error list \<Rightarrow> go_error" where
  "invalidWorkloadIdentity E obj errs = External (NewInvalid E apiGroup ''WorkloadIdentity'' (wi_name obj) errs)"

definition identityNameField :: "string list" where
  "identityNameField = [''spec'', ''azure'', ''userAssignedIdentityName'']"
definition serviceAccountNameField :: "string list" where
  "serviceAccountNameField = [''spec'', ''serviceAccount'', ''name'']"

abbreviation wi_identityName :: "WorkloadIdentity \<Rightarrow> string" where
  "wi_identityName i \<equiv> UserAssignedIdentityName (wis_Azure (wi_Spec i))"

abbreviation wi_accountName :: "WorkloadIdentity \<Rightarrow> string" where
  "wi_accountName i \<equiv> sar_Name (wis_ServiceAccount (wi_Spec i))"

text \<open>The body of the loop over the existing identities.\<close>

definition conflicts_with :: "WorkloadIdentity \<Rightarrow> WorkloadIdentity \<Rightarrow> field_error list" where
  "conflicts_with obj existing =
     (if sameWorkloadIdentity existing obj then []
      else (if wi_namespace existing = wi_namespace obj \<and> wi_accountName existing = wi_accountName obj
            then [FieldInvalid serviceAccountNameField (BadString (wi_accountName obj))
                    (''already referenced by WorkloadIdentity '' @ wi_namespace existing @ ''/'' @ wi_name existing)]
            else []) @
           (if equal_fold (wi_identityName existing) (wi_identityName obj)
            then [FieldInvalid identityNameField (BadString (wi_identityName obj))
                    (''Azure user assigned identity name '' @ fmt_q (wi_identityName obj)
                       @ '' is already referenced by WorkloadIdentity '' @ wi_namespace existing @ ''/'' @ wi_name existing)]
            else []))"

definition identity_errors :: "WorkloadIdentity list \<Rightarrow> WorkloadIdentity \<Rightarrow> field_error list" where
  "identity_errors items obj =
     (case ValidateUserAssignedIdentityName (wi_identityName obj) of
        None \<Rightarrow> []
      | Some err \<Rightarrow> [FieldInvalid identityNameField (BadString (wi_identityName obj)) (Error err)]) @
     concat (map (conflicts_with obj) items)"

definition validationErrors :: "'w Reader option \<Rightarrow> WorkloadIdentity \<Rightarrow> ('w, field_error list) io" where
  "validationErrors client obj =
     (case client of
        None \<Rightarrow> io_fail (ErrorString ''WorkloadIdentity validator client is not configured'')
      | Some reader \<Rightarrow>
          io_try (external (ListWorkloadIdentities reader)) (\<lambda>items. io_return (identity_errors items obj)))"

definition validate :: "api_errors \<Rightarrow> 'w Reader option \<Rightarrow> WorkloadIdentity \<Rightarrow> ('w, unit) io" where
  "validate E client obj =
     io_try (validationErrors client obj) (admit (invalidWorkloadIdentity E obj))"

definition WorkloadIdentity_ValidateCreate :: "api_errors \<Rightarrow> 'w Reader option \<Rightarrow> WorkloadIdentity \<Rightarrow> ('w, unit) io" where
  "WorkloadIdentity_ValidateCreate E client obj = validate E client obj"

definition immutable_errors :: "WorkloadIdentity \<Rightarrow> WorkloadIdentity \<Rightarrow> field_error list" where
  "immutable_errors oldObj newObj =
     (if wi_identityName oldObj \<noteq> wi_identityName newObj
      then [FieldForbidden identityNameField ''field is immutable''] else []) @
     (if FederatedIdentityCredentialName (wis_Azure (wi_Spec oldObj))
         \<noteq> FederatedIdentityCredentialName (wis_Azure (wi_Spec newObj))
      then [FieldForbidden [''spec'', ''azure'', ''federatedIdentityCredentialName''] ''field is immutable''] else []) @
     (if wi_accountName oldObj \<noteq> wi_accountName newObj
      then [FieldForbidden serviceAccountNameField ''field is immutable''] else [])"

definition WorkloadIdentity_ValidateUpdate ::
  "api_errors \<Rightarrow> 'w Reader option \<Rightarrow> WorkloadIdentity \<Rightarrow> WorkloadIdentity \<Rightarrow> ('w, unit) io" where
  "WorkloadIdentity_ValidateUpdate E client oldObj newObj =
     io_try (validationErrors client newObj)
       (\<lambda>allErrs. admit (invalidWorkloadIdentity E newObj) (allErrs @ immutable_errors oldObj newObj))"

definition WorkloadIdentity_ValidateDelete :: "WorkloadIdentity \<Rightarrow> ('w, unit) io" where
  "WorkloadIdentity_ValidateDelete obj = io_return ()"

section \<open>WorkloadIdentityRecovery\<close>

record 'w WorkloadIdentityRecoveryValidator =
  rv_Client :: "'w Reader option"
  rv_RecoveryClient :: "'w Reader option"

definition RecoveryPreviousWorkloadIdentityUIDIndex :: string where
  "RecoveryPreviousWorkloadIdentityUIDIndex = ''workloadidentityrecovery.spec.previousWorkloadIdentityUid''"

definition invalidWorkloadIdentityRecovery ::
  "api_errors \<Rightarrow> WorkloadIdentityRecovery \<Rightarrow> field_error list \<Rightarrow> go_error" where
  "invalidWorkloadIdentityRecovery E obj errs =
     External (NewInvalid E apiGroup ''WorkloadIdentityRecovery'' (Name (r_Meta obj)) errs)"

definition sourceField :: "string list" where "sourceField = [''spec'', ''previousWorkloadIdentityUid'']"
definition refField :: "string list" where "refField = [''spec'', ''workloadIdentityRef'']"

definition current_recovery_required :: "k8s_lib \<Rightarrow> WorkloadIdentity \<Rightarrow> bool" where
  "current_recovery_required L identity \<longleftrightarrow>
     wi_ObservedGeneration (wi_Status identity) = Generation (wi_Meta identity) \<and>
     (case FindStatusCondition L (wi_Conditions (wi_Status identity)) WorkloadIdentityConditionReady of
        None \<Rightarrow> False
      | Some ready \<Rightarrow> c_ObservedGeneration ready = Generation (wi_Meta identity) \<and>
          c_Status ready = ConditionFalse \<and> c_Reason ready = ReasonRecoveryRequired)"

definition validateRecoveryTarget ::
  "k8s_lib \<Rightarrow> WorkloadIdentityRecovery \<Rightarrow> WorkloadIdentity \<Rightarrow> field_error list" where
  "validateRecoveryTarget L recovery identity =
     (if wi_UID identity \<noteq> ref_UID (r_Ref recovery)
      then [FieldInvalid (refField @ [''uid'']) (BadString (ref_UID (r_Ref recovery)))
              (''current WorkloadIdentity UID is '' @ fmt_q (wi_UID identity))] else []) @
     (if \<not> deletion_is_zero (wi_Meta identity)
      then [FieldForbidden refField ''target WorkloadIdentity is being deleted''] else []) @
     (if \<not> current_recovery_required L identity
      then [FieldForbidden refField ''target WorkloadIdentity is not in current-generation RecoveryRequired state'']
      else []) @
     (case wi_Recovery (wi_Status identity) of
        None \<Rightarrow> [FieldForbidden sourceField ''target WorkloadIdentity does not publish recovery evidence'']
      | Some evidence \<Rightarrow>
          if rrs_PreviousWorkloadIdentityUID evidence \<noteq> r_SourceUID recovery
          then [FieldInvalid sourceField (BadString (r_SourceUID recovery))
                  (''target WorkloadIdentity requires source UID '' @ fmt_q (rrs_PreviousWorkloadIdentityUID evidence))]
          else [])"

text \<open>The target looked up, with \<open>NotFound\<close> as a field error; then the duplicates.\<close>

definition target_errors :: "k8s_lib \<Rightarrow> 'w Reader \<Rightarrow> WorkloadIdentityRecovery \<Rightarrow> ('w, field_error list) io" where
  "target_errors L reader obj =
     (let key = \<lparr> nn_Namespace = ref_Namespace (r_Ref obj), nn_Name = ref_Name (r_Ref obj) \<rparr> in
      State_Monad.bind (GetWorkloadIdentity reader key) (\<lambda>got. case got of
        Inl err \<Rightarrow> if IsNotFound L err then io_return [FieldNotFound refField (NamespacedName_String key)]
                   else io_fail (External err)
      | Inr identity \<Rightarrow> io_return (validateRecoveryTarget L obj identity)))"

definition duplicate_of :: "WorkloadIdentityRecovery \<Rightarrow> WorkloadIdentityRecovery list \<Rightarrow>
    WorkloadIdentityRecovery option" where
  "duplicate_of obj items = find (\<lambda>existing. r_SourceUID existing = r_SourceUID obj) items"

definition Recovery_ValidateCreate :: "k8s_lib \<Rightarrow> api_errors \<Rightarrow> 'w WorkloadIdentityRecoveryValidator \<Rightarrow>
    WorkloadIdentityRecovery \<Rightarrow> ('w, unit) io" where
  "Recovery_ValidateCreate L E v obj =
     (case rv_Client v of
        None \<Rightarrow> io_fail (ErrorString ''WorkloadIdentityRecovery validator client is not configured'')
      | Some reader \<Rightarrow>
          let same_uid = (if r_SourceUID obj = ref_UID (r_Ref obj)
                then [FieldInvalid sourceField (BadString (r_SourceUID obj)) ''must differ from workloadIdentityRef.uid'']
                else []);
              recoveryClient = (case rv_RecoveryClient v of Some c \<Rightarrow> c | None \<Rightarrow> reader)
          in io_try (target_errors L reader obj) (\<lambda>errs.
             State_Monad.bind (ListWorkloadIdentityRecoveriesMatching recoveryClient
                 RecoveryPreviousWorkloadIdentityUIDIndex (r_SourceUID obj)) (\<lambda>listed.
               case (case listed of Inl err \<Rightarrow> None | Inr items \<Rightarrow> duplicate_of obj items) of
                 Some existing \<Rightarrow> io_fail (External (NewAlreadyExists E apiGroup ''workloadidentityrecoveries''
                                      (Name (r_Meta existing))))
               | None \<Rightarrow> admit (invalidWorkloadIdentityRecovery E obj) (same_uid @ errs))))"

definition Recovery_ValidateUpdate ::
  "api_errors \<Rightarrow> WorkloadIdentityRecovery \<Rightarrow> WorkloadIdentityRecovery \<Rightarrow> ('w, unit) io" where
  "Recovery_ValidateUpdate E oldObj newObj =
     (if r_Spec oldObj = r_Spec newObj then io_return ()
      else io_fail (invalidWorkloadIdentityRecovery E newObj [FieldForbidden [''spec''] ''field is immutable'']))"

definition Recovery_ValidateDelete :: "WorkloadIdentityRecovery \<Rightarrow> ('w, unit) io" where
  "Recovery_ValidateDelete obj = io_return ()"

end
