(* ===== verification/Openshift.thy ===== *)
theory Openshift
  imports Kube_Effects
begin

text \<open>
  internal/openshift/authentication.go: the client of Authentication.spec.serviceAccountIssuer.
  \<open>openshift_api\<close> holds the client calls; \<open>Poll\<close> stands for
  \<open>wait.PollUntilContextTimeout\<close> of k8s.io/apimachinery, whose documented behaviour is
  \<open>poll_laws\<close>: it succeeds only when a call of the condition has just reported true.
\<close>

section \<open>The API\<close>

record Authentication =
  auth_ServiceAccountIssuer :: string

record ClusterOperatorStatusCondition =
  coc_Type :: string
  coc_Status :: string
  coc_LastTransitionTime :: time

record ClusterOperator =
  co_Conditions :: "ClusterOperatorStatusCondition list"

record 'w openshift_api =
  GetAuthentication :: "string \<Rightarrow> ('w, Authentication) ext_io"
  PatchAuthentication :: "Authentication \<Rightarrow> Authentication Patch \<Rightarrow> ('w, Authentication) ext_io"
  GetClusterOperator :: "string \<Rightarrow> ('w, ClusterOperator) ext_io"
  Poll :: "int \<Rightarrow> int \<Rightarrow> ('w, bool) io \<Rightarrow> ('w, unit) io"

definition poll_laws :: "'w openshift_api \<Rightarrow> bool" where
  "poll_laws api \<longleftrightarrow>
     (\<forall>i t cond w w'. run_state (Poll api i t cond) w = (Inr (), w') \<longrightarrow> (\<exists>w0. run_state cond w0 = (Inr True, w')))"

section \<open>The clients\<close>

definition authenticationName :: string where "authenticationName = ''cluster''"
definition defaultRolloutPollInterval :: int where "defaultRolloutPollInterval = 15 * second"
definition defaultRolloutTimeout :: int where "defaultRolloutTimeout = 20 * minute"
definition serviceAccountIssuerDependentOperators :: "string list" where
  "serviceAccountIssuerDependentOperators = [''authentication'', ''openshift-apiserver'']"

record 'w ServiceAccountIssuerClient =
  sic_Client :: "'w openshift_api option"
  sic_RolloutPollInterval :: int
  sic_RolloutTimeout :: int

record 'w ServiceAccountIssuerReader =
  sir_Reader :: "'w openshift_api option"

definition authentication :: "'w openshift_api option \<Rightarrow> ('w, Authentication) io" where
  "authentication reader =
     (case reader of
        None \<Rightarrow> io_fail (ErrorString ''kubernetes reader is required'')
      | Some api \<Rightarrow> errorf_wrap (''get OpenShift Authentication '' @ fmt_q authenticationName)
                    (external (GetAuthentication api authenticationName)))"

definition IssuerClient_Get :: "'w ServiceAccountIssuerClient \<Rightarrow> ('w, string) io" where
  "IssuerClient_Get c =
     io_try (authentication (sic_Client c)) (\<lambda>a. io_return (auth_ServiceAccountIssuer a))"

definition IssuerReader_Get :: "'w ServiceAccountIssuerReader \<Rightarrow> ('w, string) io" where
  "IssuerReader_Get r =
     io_try (authentication (sir_Reader r)) (\<lambda>a. io_return (auth_ServiceAccountIssuer a))"

definition IssuerClient_Set :: "'w ServiceAccountIssuerClient \<Rightarrow> string \<Rightarrow> ('w, bool) io" where
  "IssuerClient_Set c issuerURL =
     io_try (authentication (sic_Client c)) (\<lambda>a.
       if auth_ServiceAccountIssuer a = issuerURL then io_return False
       else case sic_Client c of
           None \<Rightarrow> io_fail nil_dereference
         | Some api \<Rightarrow>
             io_try (errorf_wrap ''set OpenShift service account issuer''
                 (external (PatchAuthentication api (a\<lparr>auth_ServiceAccountIssuer := issuerURL\<rparr>) (MergeFrom a))))
               (\<lambda>_. io_return True))"

text \<open>\<open>mapping\<close> is the error of \<open>RESTMapping\<close>, if any, and \<open>IsNoMatchError\<close> of k8s.io/apimachinery.\<close>

definition AuthenticationAPIAvailable ::
  "('w, unit) ext_io \<Rightarrow> (ext_error \<Rightarrow> bool) \<Rightarrow> ('w, bool) io" where
  "AuthenticationAPIAvailable mapping IsNoMatchError =
     State_Monad.bind mapping (\<lambda>m. case m of
       Inr _ \<Rightarrow> io_return True
     | Inl err \<Rightarrow> if IsNoMatchError err then io_return False else io_fail (External err))"

section \<open>Rollout\<close>

definition clusterOperatorCondition ::
  "ClusterOperatorStatusCondition list \<Rightarrow> string \<Rightarrow> ClusterOperatorStatusCondition option" where
  "clusterOperatorCondition conditions conditionType = find (\<lambda>c. coc_Type c = conditionType) conditions"

definition condition_is :: "ClusterOperator \<Rightarrow> string \<Rightarrow> string \<Rightarrow> bool" where
  "condition_is operator conditionType status \<longleftrightarrow>
     (case clusterOperatorCondition (co_Conditions operator) conditionType of
        None \<Rightarrow> False | Some c \<Rightarrow> coc_Status c = status)"

definition clusterOperatorHealthy :: "ClusterOperator \<Rightarrow> bool" where
  "clusterOperatorHealthy operator \<longleftrightarrow>
     condition_is operator ''Available'' ''True'' \<and> condition_is operator ''Progressing'' ''False'' \<and>
     condition_is operator ''Degraded'' ''False''"

definition clusterOperatorHealthyAfter :: "ClusterOperator \<Rightarrow> time \<Rightarrow> bool" where
  "clusterOperatorHealthyAfter operator changedAfter \<longleftrightarrow>
     clusterOperatorHealthy operator \<and>
     (case clusterOperatorCondition (co_Conditions operator) ''Progressing'' of
        None \<Rightarrow> False | Some progressing \<Rightarrow> \<not> coc_LastTransitionTime progressing < changedAfter)"

definition get_operator :: "'w openshift_api \<Rightarrow> string \<Rightarrow> ('w, ClusterOperator) io" where
  "get_operator api name =
     errorf_wrap (''get OpenShift ClusterOperator '' @ fmt_q name) (external (GetClusterOperator api name))"

fun dependents_healthy :: "'w openshift_api \<Rightarrow> string list \<Rightarrow> ('w, bool) io" where
  "dependents_healthy api [] = io_return True"
| "dependents_healthy api (name # names) =
     io_try (get_operator api name)
       (\<lambda>operator. if \<not> clusterOperatorHealthy operator then io_return False else dependents_healthy api names)"

definition rollout_condition :: "'w openshift_api \<Rightarrow> time \<Rightarrow> ('w, bool) io" where
  "rollout_condition api changedAfter =
     io_try (get_operator api ''kube-apiserver'') (\<lambda>operator.
       if \<not> clusterOperatorHealthyAfter operator changedAfter then io_return False
       else dependents_healthy api serviceAccountIssuerDependentOperators)"

definition rolloutPollInterval :: "'w ServiceAccountIssuerClient \<Rightarrow> int" where
  "rolloutPollInterval c = (if sic_RolloutPollInterval c > 0 then sic_RolloutPollInterval c
                            else defaultRolloutPollInterval)"

definition rolloutTimeout :: "'w ServiceAccountIssuerClient \<Rightarrow> int" where
  "rolloutTimeout c = (if sic_RolloutTimeout c > 0 then sic_RolloutTimeout c else defaultRolloutTimeout)"

definition WaitForKubeAPIServerRollout :: "'w ServiceAccountIssuerClient \<Rightarrow> time \<Rightarrow> ('w, unit) io" where
  "WaitForKubeAPIServerRollout c changedAfter =
     (case sic_Client c of
        None \<Rightarrow> io_fail (ErrorString ''kubernetes client is required'')
      | Some api \<Rightarrow> Poll api (rolloutPollInterval c) (rolloutTimeout c) (rollout_condition api changedAfter))"

section \<open>Consequences\<close>

text \<open>
  What a finished wait has seen, from the world in which the last check began to the world it ended in: the API server
  operator healthy since the change, then one after the other the dependent operators healthy.
\<close>

fun operators_healthy :: "'w openshift_api \<Rightarrow> string list \<Rightarrow> 'w \<Rightarrow> 'w \<Rightarrow> bool" where
  "operators_healthy api [] w w' \<longleftrightarrow> w' = w"
| "operators_healthy api (name # names) w w' \<longleftrightarrow>
     (\<exists>operator w1. run_state (GetClusterOperator api name) w = (Inr operator, w1) \<and>
        clusterOperatorHealthy operator \<and> operators_healthy api names w1 w')"

definition rolled_out :: "'w openshift_api \<Rightarrow> time \<Rightarrow> 'w \<Rightarrow> 'w \<Rightarrow> bool" where
  "rolled_out api changedAfter w w' \<longleftrightarrow>
     (\<exists>operator w1. run_state (GetClusterOperator api ''kube-apiserver'') w = (Inr operator, w1) \<and>
        clusterOperatorHealthyAfter operator changedAfter \<and>
        operators_healthy api serviceAccountIssuerDependentOperators w1 w')"

lemma run_dependents_healthy:
  "run_state (dependents_healthy api names) w = (Inr True, w') \<Longrightarrow> operators_healthy api names w w'"
proof (induction names arbitrary: w)
  case (Cons n names)
  obtain r w1 where get: "run_state (GetClusterOperator api n) w = (r, w1)" by fastforce
  obtain op where "r = Inr op" "clusterOperatorHealthy op"
      "run_state (dependents_healthy api names) w1 = (Inr True, w')"
    using Cons.prems get
    by (auto simp: get_operator_def run_simps split: sum.splits if_splits)
  then show ?case using get Cons.IH by simp
qed simp

lemma run_rollout_condition:
  assumes "run_state (rollout_condition api t) w = (Inr True, w')"
  shows "rolled_out api t w w'"
proof -
  obtain r w1 where get: "run_state (GetClusterOperator api ''kube-apiserver'') w = (r, w1)" by fastforce
  obtain op where op: "r = Inr op" "clusterOperatorHealthyAfter op t"
      "run_state (dependents_healthy api serviceAccountIssuerDependentOperators) w1 = (Inr True, w')"
    using assms get
    by (auto simp: rollout_condition_def get_operator_def run_simps split: sum.splits if_splits)
  then show ?thesis
    using get run_dependents_healthy[OF op(3)] unfolding rolled_out_def by blast
qed

lemma wait_rolled_out:
  assumes "sic_Client c = Some api" and "poll_laws api"
    and "run_state (WaitForKubeAPIServerRollout c t) w = (Inr (), w')"
  shows "\<exists>w0. rolled_out api t w0 w'"
  using assms run_rollout_condition by (fastforce simp: WaitForKubeAPIServerRollout_def poll_laws_def)

lemma issuer_set_result:
  assumes "run_state (IssuerClient_Set c url) w = (Inr changed, w')"
  obtains api a w1 where "sic_Client c = Some api"
    and "run_state (GetAuthentication api authenticationName) w = (Inr a, w1)"
    and "changed \<longleftrightarrow> auth_ServiceAccountIssuer a \<noteq> url"
    and "changed \<Longrightarrow> \<exists>b. run_state (PatchAuthentication api (a\<lparr>auth_ServiceAccountIssuer := url\<rparr>) (MergeFrom a)) w1
            = (Inr b, w')"
    and "\<not> changed \<Longrightarrow> w' = w1"
  using assms
  by (auto simp: IssuerClient_Set_def authentication_def run_simps split: option.splits sum.splits prod.splits if_splits)

end
