(* ===== verification/Issuer_Properties.thy ===== *)
theory Issuer_Properties
  imports Issuer_Controller Openshift Workload_Properties
begin

text \<open>
  The properties of the OIDCIssuer reconciler: what a deletion waits for, how the cluster's token
  issuer is switched, and what a finished rollout means.
\<close>

section \<open>A concrete issuer\<close>

definition demo_issuer :: OIDCIssuer where
  "demo_issuer = \<lparr> oi_Meta = (demo_meta '''' OIDCIssuerName ''issuer-uid'')\<lparr>Finalizers := [oidcIssuerFinalizer]\<rparr>,
     oi_Spec = \<lparr> ois_Azure = \<lparr> StorageAccountName = ''account'', BlobContainerName = ''oidc'' \<rparr>,
       ois_SigningKey = \<lparr> SecretRef = \<lparr> skr_Name = ''key'', skr_Namespace = ''ns'', skr_Key = ''tls.key'' \<rparr>,
                          RetiringSecretRef = None \<rparr>,
       ois_OpenShift = Some \<lparr> UpdateServiceAccountIssuer = True \<rparr>, ois_DeletionPolicy = DeletionPolicyDelete \<rparr>,
     oi_Status = \<lparr> oi_IssuerURL = ''https://issuer'', oi_ObservedGeneration = 0, oi_LastReconciledTime = None,
       oi_AzureResources = [], oi_SigningKeys = [], oi_PreviousServiceAccountIssuer = None,
       oi_Conditions = [] \<rparr> \<rparr>"

definition demo_published :: PublishedDocuments where
  "demo_published = \<lparr> pd_IssuerURL = ''https://issuer'', pd_AzureResources = [], pd_SigningKeys = [] \<rparr>"

definition demo_openshift :: "string \<Rightarrow> sim OpenShiftServiceAccountIssuerManager" where
  "demo_openshift current = \<lparr> osm_Get = io_return current, osm_Set = (\<lambda>u. io_return (u \<noteq> current)),
     osm_WaitForKubeAPIServerRollout = (\<lambda>t. io_return ()) \<rparr>"

definition demo_issuer_reconciler :: "string \<Rightarrow> sim OIDCIssuerReconciler" where
  "demo_issuer_reconciler current = \<lparr> ir_Client = sim_cluster,
     ir_Publisher = Some \<lparr> pub_Publish = (\<lambda>i. io_return demo_published), pub_Delete = (\<lambda>i. io_return ()) \<rparr>,
     ir_OpenShift = Some (demo_openshift current), ir_ServiceAccountTokens = Some (io_return current),
     ir_RefreshInterval = 0 \<rparr>"

definition issuer_sim :: sim where
  "issuer_sim = \<lparr> sim_identities = [], sim_issuers = [demo_issuer], sim_accounts = [], sim_recoveries = [],
     sim_secrets = [], sim_clock = 100, sim_azure = demo_store \<rparr>"

definition demo_issuer_removing :: OIDCIssuer where
  "demo_issuer_removing = demo_issuer\<lparr>oi_Meta := (oi_Meta demo_issuer)\<lparr>DeletionTimestamp := Some 50\<rparr>\<rparr>"

section \<open>Deletion\<close>

text \<open>Calls that a guarded deletion may make before it gives the issuer up.\<close>

definition guard_calls_keep :: "('w \<Rightarrow> bool) \<Rightarrow> 'w OIDCIssuerReconciler \<Rightarrow> bool" where
  "guard_calls_keep I r \<longleftrightarrow>
     preserves I (ListWorkloadIdentities (ClusterReader (ir_Client r))) \<and> preserves I (Now (ir_Client r)) \<and>
     write_keeps I (ir_Client r) PatchesOIDCIssuerStatus \<and>
     (\<forall>t. ir_ServiceAccountTokens r = Some t \<longrightarrow> preserves I t) \<and>
     (\<forall>m. ir_OpenShift r = Some m \<longrightarrow> preserves I (osm_Get m))"

lemma issuer_patch_keeps:
  assumes "preserves I (Now (ir_Client r))" and "write_keeps I (ir_Client r) PatchesOIDCIssuerStatus"
  shows "preserves I (patchOIDCIssuerStatus r issuer f)"
proof -
  have "preserves I (PatchOIDCIssuerStatus (ir_Client r) x p)" for x p
    using assms(2) by simp
  then show ?thesis
    unfolding patchOIDCIssuerStatus_def by (intro preserves_intros assms(1))
qed

lemma guard_calls_keepD:
  assumes "guard_calls_keep I r"
  shows "preserves I (CheckWorkloadIdentityDeletionBlock (ListWorkloadIdentities (ClusterReader (ir_Client r))) n)"
    and "preserves I (CheckTokenIssuerHandoff issuer (ir_ServiceAccountTokens r) (map_option osm_Get (ir_OpenShift r)))"
    and "preserves I (CheckOpenShiftIssuerHandoff issuer (map_option osm_Get (ir_OpenShift r)))"
    and "preserves I (setNotReady L r issuer reason message)"
  using assms unfolding setNotReady_def
  by (auto simp: guard_calls_keep_def simp del: write_keeps.simps intro!: guards_keep issuer_patch_keeps)

text \<open>One guard: the run ends within \<open>I\<close>, or the check has passed and the run goes on.\<close>

lemma guard_stage:
  assumes "preserves I check" and "run_state (and_then check k) c = (res, c')" and "I (world c)"
    and stop: "\<And>g w1. run_state check (world c) = (Inr g, w1) \<Longrightarrow> \<not> guard_passes g \<Longrightarrow>
      preserves (in_ctx I) (k g)"
  obtains "I (world c')"
    | g w1 where "run_state check (world c) = (Inr g, w1)" and "guard_passes g" and "I w1"
        and "run_state (k g) (c\<lparr>world := w1\<rparr>) = (res, c')"
proof -
  obtain g w1 where check: "run_state check (world c) = (g, w1)" by fastforce
  have w1: "I w1" using preservesD[OF assms(1,3) check] .
  show thesis
  proof (cases g)
    case (Inl e)
    then show thesis using that(1) assms(2) check w1 by (auto simp: run_simps)
  next
    case (Inr x)
    then have run: "run_state (k x) (c\<lparr>world := w1\<rparr>) = (res, c')"
      using assms(2) check by (simp add: run_simps)
    show thesis
    proof (cases "guard_passes x")
      case True
      then show thesis using that(2) check Inr w1 run by blast
    next
      case False
      from preservesD[OF stop[OF _ False] _ run] check Inr w1 show thesis by (intro that(1)) simp
    qed
  qed
qed

lemma identities_guard_check:
  "run_state (CheckWorkloadIdentityDeletionBlock m n) w = (Inr g, w') \<Longrightarrow> \<not> dg_CheckFailed g"
  by (auto simp: CheckWorkloadIdentityDeletionBlock_def run_simps split: prod.splits sum.splits if_splits)

lemma openshift_guard_check:
  "run_state (CheckOpenShiftIssuerHandoff issuer m) w = (Inr g, w') \<Longrightarrow> \<not> dg_CheckFailed g"
  by (auto simp: CheckOpenShiftIssuerHandoff_def run_simps split: prod.splits sum.splits if_splits option.splits)

text \<open>
  What a passed guard has seen, from the world in which it was called to the world it leaves: tokens minted by the
  cluster carry another issuer than the published one (or, without a token client, there is an OpenShift client), and
  OpenShift is configured with another one; nothing is read when no URL was published.
\<close>

definition token_handed_off :: "'w OIDCIssuerReconciler \<Rightarrow> OIDCIssuer \<Rightarrow> 'w \<Rightarrow> 'w \<Rightarrow> bool" where
  "token_handed_off r issuer w w' \<longleftrightarrow>
     (if HasPublishedIssuerURL issuer
      then (case ir_ServiceAccountTokens r of
          None \<Rightarrow> ir_OpenShift r \<noteq> None \<and> w' = w
        | Some t \<Rightarrow> \<exists>u. run_state t w = (Inr u, w') \<and> u \<noteq> oi_IssuerURL (oi_Status issuer))
      else w' = w)"

definition openshift_handed_off :: "'w OIDCIssuerReconciler \<Rightarrow> OIDCIssuer \<Rightarrow> 'w \<Rightarrow> 'w \<Rightarrow> bool" where
  "openshift_handed_off r issuer w w' \<longleftrightarrow>
     (if HasPublishedIssuerURL issuer
      then (case ir_OpenShift r of
          None \<Rightarrow> w' = w
        | Some m \<Rightarrow> \<exists>u. run_state (osm_Get m) w = (Inr u, w') \<and> u \<noteq> oi_IssuerURL (oi_Status issuer))
      else w' = w)"

lemma token_passed:
  assumes "run_state (CheckTokenIssuerHandoff issuer (ir_ServiceAccountTokens r) (map_option osm_Get (ir_OpenShift r))) w = (Inr g, w')"
    and "guard_passes g"
  shows "token_handed_off r issuer w w'"
  using assms
  by (auto simp: CheckTokenIssuerHandoff_def token_handed_off_def run_simps guard_passes_def
      split: prod.splits sum.splits if_splits option.splits)

lemma openshift_passed:
  assumes "run_state (CheckOpenShiftIssuerHandoff issuer (map_option osm_Get (ir_OpenShift r))) w = (Inr g, w')"
    and "guard_passes g"
  shows "openshift_handed_off r issuer w w'"
  using assms
  by (auto simp: CheckOpenShiftIssuerHandoff_def openshift_handed_off_def run_simps guard_passes_def
      split: prod.splits sum.splits if_splits option.splits)

lemma openshift_stage:
  assumes keep: "guard_calls_keep I r" and run: "run_state (check_openshift_handoff L r issuer) c = (res, c')"
    and "I (world c)"
  shows "I (world c') \<or> (\<exists>w3. openshift_handed_off r issuer (world c) w3 \<and> I w3 \<and>
    run_state (delete_published L r issuer) (c\<lparr>world := w3\<rparr>) = (res, c'))"
proof -
  let ?check = "CheckOpenShiftIssuerHandoff issuer (map_option osm_Get (ir_OpenShift r))"
  let ?k = "\<lambda>result. if dg_Blocked result
       then issuer_blocked (result_of empty_Result
              (setNotReady L r issuer (dg_Reason result) (dg_Message result)))
       else delete_published L r issuer"
  have run': "run_state (and_then ?check ?k) c = (res, c')"
    using run by (simp add: check_openshift_handoff_def)
  show ?thesis
  proof (rule guard_stage[OF guard_calls_keepD(3)[OF keep] run' assms(3)])
    fix g w1 assume "run_state ?check (world c) = (Inr g, w1)" "\<not> guard_passes g"
    then have "dg_Blocked g" using openshift_guard_check[of issuer _ "world c" g w1]
      unfolding guard_passes_def by blast
    then show "preserves (in_ctx I) (?k g)"
      unfolding issuer_blocked_def by (simp, intro preserves_intros guard_calls_keepD(4)[OF keep])
  next
    fix g w1 assume check: "run_state ?check (world c) = (Inr g, w1)" "guard_passes g" and "I w1"
      and "run_state (?k g) (c\<lparr>world := w1\<rparr>) = (res, c')"
    then show ?thesis using openshift_passed[OF check] by (auto simp: guard_passes_def)
  qed simp
qed

lemma token_stage:
  assumes keep: "guard_calls_keep I r" and run: "run_state (check_token_handoff L r issuer) c = (res, c')"
    and "I (world c)"
  shows "I (world c') \<or> (\<exists>w2 w3. token_handed_off r issuer (world c) w2 \<and> openshift_handed_off r issuer w2 w3 \<and> I w3 \<and>
    run_state (delete_published L r issuer) (c\<lparr>world := w3\<rparr>) = (res, c'))"
proof -
  let ?check = "CheckTokenIssuerHandoff issuer (ir_ServiceAccountTokens r) (map_option osm_Get (ir_OpenShift r))"
  let ?k = "\<lambda>result.
         if dg_CheckFailed result
         then and_then (setNotReady L r issuer (dg_Reason result) (dg_Message result))
                (\<lambda>_. failed_with (WrapError
                   ''verify cluster service account token issuer before OIDCIssuer deletion''
                   (case dg_Err result of Some e \<Rightarrow> e | None \<Rightarrow> nil_dereference)))
         else if dg_Blocked result
         then issuer_blocked (and_then (setNotReady L r issuer (dg_Reason result) (dg_Message result))
                (\<lambda>_. done_with (requeue_after defaultServiceAccountIssuerCheckPeriod)))
         else check_openshift_handoff L r issuer"
  have run': "run_state (and_then ?check ?k) c = (res, c')"
    using run by (simp add: check_token_handoff_def)
  show ?thesis
  proof (rule guard_stage[OF guard_calls_keepD(2)[OF keep] run' assms(3)])
    fix g assume "\<not> guard_passes g"
    then show "preserves (in_ctx I) (?k g)"
      unfolding issuer_blocked_def
      by (cases "dg_CheckFailed g") (auto simp: guard_passes_def intro!: preserves_intros guard_calls_keepD(4)[OF keep])
  next
    fix g w1 assume g: "run_state ?check (world c) = (Inr g, w1)" "guard_passes g" and w1: "I w1"
      and "run_state (?k g) (c\<lparr>world := w1\<rparr>) = (res, c')"
    then have run2: "run_state (check_openshift_handoff L r issuer) (c\<lparr>world := w1\<rparr>) = (res, c')"
      by (simp add: guard_passes_def)
    show ?thesis
      using openshift_stage[OF keep run2] w1 token_passed[OF g] by auto
  qed simp
qed

text \<open>
  C25. An OIDCIssuer is given up (its documents deleted, its finalizer removed) only after all three
  guards have passed in this reconcile, one after the other: from the world the reconcile starts in, the list of all
  WorkloadIdentities is empty; in the world this leaves, once an issuer URL was published, tokens minted by the cluster
  carry another issuer (or, without a token client, an OpenShift client exists); in the world this
  leaves, the OpenShift client, if there is one, reads another issuer; and it is in the world this leaves that the
  documents are deleted and the finalizer is removed.
\<close>

theorem issuer_deletion_guarded:
  assumes "Name (oi_Meta issuer) = OIDCIssuerName" and "\<not> deletion_is_zero (oi_Meta issuer)"
    and keep: "guard_calls_keep I r" and "I (world c)"
    and "run_state (reconcile_existing_issuer L r issuer) c = (res, c')"
  shows "I (world c') \<or>
    (\<exists>w1 w2 w3. run_state (ListWorkloadIdentities (ClusterReader (ir_Client r))) (world c) = (Inr [], w1) \<and>
      token_handed_off r issuer w1 w2 \<and> openshift_handed_off r issuer w2 w3 \<and> I w3 \<and>
      run_state (delete_published L r issuer) (c\<lparr>world := w3\<rparr>) = (res, c'))"
proof -
  have run: "run_state (Issuer_reconcileDelete L r issuer) c = (res, c')"
    using assms(1,2,5) by (simp add: reconcile_existing_issuer_def)
  note set = guard_calls_keepD(4)[OF keep]
  show ?thesis
  proof (cases "ContainsFinalizer L (Finalizers (oi_Meta issuer)) oidcIssuerFinalizer")
    case False
    then show ?thesis using run assms(4) by (simp add: Issuer_reconcileDelete_def)
  next
    case True
    with run have run1: "run_state (and_then (CheckWorkloadIdentityDeletionBlock
        (ListWorkloadIdentities (ClusterReader (ir_Client r))) blockingWorkloadIdentityReferenceLimit)
        (identities_checked L r issuer)) c = (res, c')"
      by (simp add: Issuer_reconcileDelete_def)
    show ?thesis
    proof (rule guard_stage[OF guard_calls_keepD(1)[OF keep] run1 assms(4)])
      fix g w1
      assume "run_state (CheckWorkloadIdentityDeletionBlock (ListWorkloadIdentities (ClusterReader (ir_Client r)))
          blockingWorkloadIdentityReferenceLimit) (world c) = (Inr g, w1)" and "\<not> guard_passes g"
      then have "dg_Blocked g"
        using identities_guard_check[of _ _ "world c" g w1] unfolding guard_passes_def by blast
      then show "preserves (in_ctx I) (identities_checked L r issuer g)"
        unfolding identities_checked_def issuer_blocked_def by (simp, intro preserves_intros set)
    next
      fix g w1
      assume c1: "run_state (CheckWorkloadIdentityDeletionBlock (ListWorkloadIdentities (ClusterReader (ir_Client r)))
          blockingWorkloadIdentityReferenceLimit) (world c) = (Inr g, w1)"
        and pass: "guard_passes g" and w1: "I w1"
        and "run_state (identities_checked L r issuer g) (c\<lparr>world := w1\<rparr>) = (res, c')"
      then have run2: "run_state (check_token_handoff L r issuer) (c\<lparr>world := w1\<rparr>) = (res, c')"
        by (simp add: identities_checked_def guard_passes_def)
      have empty: "run_state (ListWorkloadIdentities (ClusterReader (ir_Client r))) (world c) = (Inr [], w1)"
        using identities_guard[OF c1] pass by simp
      show ?thesis
        using token_stage[OF keep run2] w1 empty by auto
    qed simp
  qed
qed

lemma demo_issuer_keeps:
  "guard_calls_keep (\<lambda>w. sim_issuers w \<noteq> []) (demo_issuer_reconciler u)"
  by (simp add: guard_calls_keep_def demo_issuer_reconciler_def demo_openshift_def sim_cluster_def sim_reader_def
      sim_list_def sim_write_def preserves_def replace_all_def split: option.split)

lemma demo_removal:
  "sim_issuers (world (snd (run_state (reconcile_existing_issuer std_lib (demo_issuer_reconciler ''https://other'')
       demo_issuer_removing) \<lparr> world = issuer_sim\<lparr>sim_issuers := [demo_issuer_removing]\<rparr>, outcome = None \<rparr>))) = []"
  by code_simp

text \<open>The witness gives the issuer up: its object is gone.\<close>

theorem issuer_deletion_guarded_witness:
  "\<exists>res c' w1 w2 w3. run_state (reconcile_existing_issuer std_lib (demo_issuer_reconciler ''https://other'')
       demo_issuer_removing) \<lparr> world = issuer_sim\<lparr>sim_issuers := [demo_issuer_removing]\<rparr>, outcome = None \<rparr> = (res, c') \<and>
    sim_issuers (world c') = [] \<and>
    run_state (ListWorkloadIdentities (ClusterReader (ir_Client (demo_issuer_reconciler ''https://other''))))
       (issuer_sim\<lparr>sim_issuers := [demo_issuer_removing]\<rparr>) = (Inr [], w1) \<and>
    token_handed_off (demo_issuer_reconciler ''https://other'') demo_issuer_removing w1 w2 \<and>
    openshift_handed_off (demo_issuer_reconciler ''https://other'') demo_issuer_removing w2 w3"
proof -
  let ?r = "demo_issuer_reconciler ''https://other''"
  let ?w = "issuer_sim\<lparr>sim_issuers := [demo_issuer_removing]\<rparr>"
  obtain res c' where run: "run_state (reconcile_existing_issuer std_lib ?r demo_issuer_removing)
      \<lparr> world = ?w, outcome = None \<rparr> = (res, c')" by fastforce
  have "Name (oi_Meta demo_issuer_removing) = OIDCIssuerName" "\<not> deletion_is_zero (oi_Meta demo_issuer_removing)"
    by (simp_all add: demo_issuer_removing_def demo_issuer_def demo_meta_def deletion_is_zero_def)
  from issuer_deletion_guarded[OF this demo_issuer_keeps _ run]
  have "sim_issuers (world c') \<noteq> [] \<or> (\<exists>w1 w2 w3. run_state (ListWorkloadIdentities (ClusterReader (ir_Client ?r))) ?w = (Inr [], w1) \<and>
      token_handed_off ?r demo_issuer_removing w1 w2 \<and> openshift_handed_off ?r demo_issuer_removing w2 w3)"
    by auto
  with run demo_removal show ?thesis by auto
qed

section \<open>Switching the cluster's token issuer\<close>

text \<open>
  The issuer to return to is recorded: \<open>keeps\_record\<close> says that the calls on the object \<open>name\<close> which record \<open>u\<close> keep
  the predicate, and that the API server reports the record it holds (nobody else writes the field).
\<close>

definition has_previous :: "OIDCIssuer \<Rightarrow> bool" where
  "has_previous issuer \<longleftrightarrow> oi_PreviousServiceAccountIssuer (oi_Status issuer) \<noteq> None"

definition previous_is :: "string \<Rightarrow> OIDCIssuer \<Rightarrow> bool" where
  "previous_is u issuer \<longleftrightarrow> oi_PreviousServiceAccountIssuer (oi_Status issuer) = Some u"

definition keeps_record :: "('w \<Rightarrow> bool) \<Rightarrow> 'w Cluster \<Rightarrow> string \<Rightarrow> string \<Rightarrow> bool" where
  "keeps_record I C name u \<longleftrightarrow>
     gives I (previous_is u) (external (GetOIDCIssuer (ClusterReader C) name)) \<and>
     (\<forall>x. previous_is u x \<longrightarrow> gives I (previous_is u) (external (UpdateOIDCIssuer C x))) \<and>
     (\<forall>x p. previous_is u x \<longrightarrow> gives I (previous_is u) (external (PatchOIDCIssuerStatus C x p))) \<and>
     preserves I (ListWorkloadIdentities (ClusterReader C)) \<and> preserves I (Now C)"

lemma keeps_recordD:
  assumes "keeps_record I C name u"
  shows "gives I (previous_is u) (external (GetOIDCIssuer (ClusterReader C) name))"
    and "previous_is u x \<Longrightarrow> gives I (previous_is u) (external (UpdateOIDCIssuer C x))"
    and "previous_is u x \<Longrightarrow> gives I (previous_is u) (external (PatchOIDCIssuerStatus C x p))"
    and "preserves I (ListWorkloadIdentities (ClusterReader C))" and "preserves I (Now C)"
  using assms by (simp_all add: keeps_record_def)

text \<open>The publisher, the OpenShift client and the token client keep the predicate as well.\<close>

definition issuer_parties_keep :: "('w \<Rightarrow> bool) \<Rightarrow> 'w OIDCIssuerReconciler \<Rightarrow> bool" where
  "issuer_parties_keep I r \<longleftrightarrow>
     (\<forall>p x. ir_Publisher r = Some p \<longrightarrow> preserves I (pub_Publish p x) \<and> preserves I (pub_Delete p x)) \<and>
     (\<forall>m. ir_OpenShift r = Some m \<longrightarrow> preserves I (osm_Get m) \<and> (\<forall>u. preserves I (osm_Set m u)) \<and>
        (\<forall>t. preserves I (osm_WaitForKubeAPIServerRollout m t))) \<and>
     (\<forall>t. ir_ServiceAccountTokens r = Some t \<longrightarrow> preserves I t)"

lemma patch_keeps_previous:
  assumes "keeps_record I (ir_Client r) name u" and "previous_is u issuer"
    and "\<And>s. oi_PreviousServiceAccountIssuer (f s) = oi_PreviousServiceAccountIssuer s"
  shows "gives I (previous_is u) (patchOIDCIssuerStatus r issuer f)"
  unfolding patchOIDCIssuerStatus_def
  using assms(2,3) by (intro gives_bind keeps_recordD[OF assms(1)]) (simp add: previous_is_def)

lemma status_keeps_previous [simp]:
  "oi_PreviousServiceAccountIssuer (published_status pd s) = oi_PreviousServiceAccountIssuer s"
  "oi_PreviousServiceAccountIssuer (issuer_ready_status L g pd s) = oi_PreviousServiceAccountIssuer s"
  "oi_PreviousServiceAccountIssuer (issuer_not_ready_status L g reason message s) = oi_PreviousServiceAccountIssuer s"
  by (simp_all add: published_status_def issuer_ready_status_def issuer_not_ready_status_def Let_def)

lemma set_keeps_previous:
  assumes "keeps_record I (ir_Client r) name u" and "previous_is u issuer"
  shows "gives I (previous_is u) (setNotReady L r issuer reason message)"
    and "gives I (previous_is u) (setPublished r issuer pd)" and "gives I (previous_is u) (setReady L r issuer pd)"
    and "gives I P (report_failure L r issuer reason' shown err)"
proof -
  note patch = patch_keeps_previous[OF assms]
  have set: "gives I (previous_is u) (setNotReady L r issuer reason message)" for reason message
    unfolding setNotReady_def by (intro patch status_keeps_previous)
  then show "gives I (previous_is u) (setNotReady L r issuer reason message)" .
  show "gives I (previous_is u) (setPublished r issuer pd)" "gives I (previous_is u) (setReady L r issuer pd)"
    unfolding setPublished_def setReady_def by (intro patch status_keeps_previous)+
  show "gives I P (report_failure L r issuer reason' shown err)"
    unfolding report_failure_def by (intro gives_try[OF set] gives_basic)
qed

lemma switch_keeps_previous:
  assumes rec: "keeps_record I (ir_Client r) name u" and parties: "issuer_parties_keep I r" and prev: "previous_is u issuer"
  shows "gives I (previous_is u) (reconcileOpenShiftServiceAccountIssuer L r issuer url)"
proof -
  note set = set_keeps_previous[OF rec prev] and now = keeps_recordD(5)[OF rec]
  have keeps: "preserves I (osm_Set m s)" "preserves I (osm_WaitForKubeAPIServerRollout m t)" if "ir_OpenShift r = Some m" for m s t
    using parties that by (simp_all add: issuer_parties_keep_def)
  have cap: "capture_previous L r m issuer url = io_return issuer" for m
    using prev by (simp add: capture_previous_def previous_is_def)
  have some: "reconcileOpenShiftServiceAccountIssuer L r issuer url = set_cluster_issuer L r m issuer url"
    if "ir_OpenShift r = Some m" for m
    using that by (simp add: reconcileOpenShiftServiceAccountIssuer_def cap io_try_def io_return_def)
  have "gives I (previous_is u) (set_cluster_issuer L r m issuer url)" if "ir_OpenShift r = Some m" for m
    unfolding set_cluster_issuer_def by (intro gives_cases gives_bind gives_basic keeps[OF that] set(4) now prev)
  then show ?thesis
    using set(1) by (cases "ir_OpenShift r") (simp_all add: some, simp add: reconcileOpenShiftServiceAccountIssuer_def)
qed

lemma live_keeps_previous:
  assumes rec: "keeps_record I (ir_Client r) name u" and parties: "issuer_parties_keep I r" and prev: "previous_is u issuer"
  shows "preserves (in_ctx I) (reconcile_live_issuer L r issuer)"
proof -
  note set = set_keeps_previous[OF rec] and switch = switch_keeps_previous[OF rec parties]
  have pub: "preserves I (pub_Publish p issuer)" if "ir_Publisher r = Some p" for p
    using parties that by (simp add: issuer_parties_keep_def)
  have publish: "preserves (in_ctx I) (publish_issuer L r issuer p)" if p: "ir_Publisher r = Some p" for p
    unfolding publish_issuer_def
    by (intro preserves_bind preserves_in_world preserves_sum pub[OF p] preserves_done_with
        keeps_and_then[OF set(4)[OF prev, where P = "\<lambda>_. True"]] keeps_and_then[OF set(2)[OF prev]]
        keeps_and_then[where P = "previous_is u"] gives_cases(1) gives_basic(1) switch set(3))
  show ?thesis
    unfolding reconcile_live_issuer_def issuer_blocked_def
    by (intro preserves_option preserves_bind preserves_SetReconcileOutcome preserves_result_of gives_keeps[OF set(1)[OF prev]] publish)
qed

lemma deletion_keeps_previous:
  assumes rec: "keeps_record I (ir_Client r) name u" and parties: "issuer_parties_keep I r" and prev: "previous_is u issuer"
  shows "preserves (in_ctx I) (Issuer_reconcileDelete L r issuer)"
proof -
  have others: "preserves I t" if "ir_ServiceAccountTokens r = Some t" for t using parties that by (simp add: issuer_parties_keep_def)
  have openshift: "preserves I t" if "map_option osm_Get (ir_OpenShift r) = Some t" for t
    using parties that by (auto simp: issuer_parties_keep_def)
  have publisher: "preserves I (pub_Delete p issuer)" if "ir_Publisher r = Some p" for p
    using parties that by (simp add: issuer_parties_keep_def)
  have release: "preserves (in_ctx I) (release_issuer L r issuer)"
    unfolding release_issuer_def
    using prev by (intro preserves_result_of gives_keeps[OF keeps_recordD(2)[OF rec]]) (simp add: previous_is_def)
  note parts = gives_keeps[OF set_keeps_previous(1)[OF rec prev]] release publisher guards_keep others openshift
    keeps_recordD(4)[OF rec]
  show ?thesis
    unfolding Issuer_reconcileDelete_def identities_checked_def check_token_handoff_def check_openshift_handoff_def
      delete_published_def issuer_blocked_def
    by (intro preserves_if preserves_option preserves_bind preserves_SetReconcileOutcome preserves_and_then preserves_result_of
        preserves_done_with preserves_failed_with parts)
qed

text \<open>
  C26. Once the OpenShift issuer that preceded the operator's is recorded, no reconcile of the OIDCIssuer ever
  overwrites or clears it, whichever path it takes: an object with another name than the operator's, a deletion with its
  guards, status reports and release, the update that adds the finalizer, and the publishing and switching that follow
  with the object the API server returned.  Whatever is kept by the updates and status patches of
  objects that record the same previous issuer (and by the other reads, the clock, the publisher, the OpenShift client
  and the token client), the reconcile keeps.  Hypothesis: the API server reports the record it holds, in reads and
  in the results of writes (nobody else writes the field, and a cache that lags behind is not modelled).
\<close>

theorem previous_issuer_never_lost:
  assumes "keeps_record I (ir_Client r) name u" and "issuer_parties_keep I r"
  shows "preserves (in_ctx I) (Issuer_Reconcile L r name)"
proof -
  have existing: "preserves (in_ctx I) (reconcile_existing_issuer L r issuer)" if prev: "previous_is u issuer" for issuer
  proof -
    have "gives I (previous_is u) (external (UpdateOIDCIssuer (ir_Client r)
        (issuer\<lparr>oi_Meta := (oi_Meta issuer)\<lparr>Finalizers := AddFinalizer L (Finalizers (oi_Meta issuer)) oidcIssuerFinalizer\<rparr>\<rparr>)))"
      using prev by (intro keeps_recordD(2)[OF assms(1)]) (simp add: previous_is_def)
    then show ?thesis
      unfolding reconcile_existing_issuer_def issuer_blocked_def
      by (intro preserves_if preserves_bind preserves_SetReconcileOutcome preserves_result_of
          gives_keeps[OF set_keeps_previous(1)[OF assms(1) prev]] deletion_keeps_previous[OF assms prev]
          live_keeps_previous[OF assms] keeps_and_then prev)
  qed
  show ?thesis
    unfolding Issuer_Reconcile_def
    by (rule keeps_found[OF keeps_recordD(1)[OF assms(1)] _ existing])
      (intro preserves_if preserves_bind preserves_SetReconcileOutcome preserves_done_with preserves_failed_with)
qed

definition demo_switched :: OIDCIssuer where
  "demo_switched = demo_issuer\<lparr>oi_Meta := (oi_Meta demo_issuer)\<lparr>Finalizers := []\<rparr>,
     oi_Status := (oi_Status demo_issuer)\<lparr>oi_PreviousServiceAccountIssuer := Some ''https://old''\<rparr>\<rparr>"

definition all_previous :: "string \<Rightarrow> sim \<Rightarrow> bool" where
  "all_previous u w \<longleftrightarrow> (\<forall>x \<in> set (sim_issuers w). previous_is u x)"

lemma find_in: "find P xs = Some y \<Longrightarrow> y \<in> set xs"
  by (induction xs) (auto split: if_splits)

lemma sim_keeps_record: "keeps_record (all_previous u) sim_cluster name u"
proof -
  have get: "gives (all_previous u) (previous_is u) (external (GetOIDCIssuer (ClusterReader sim_cluster) name))"
    by (auto simp: gives_def run_external sim_cluster_def sim_reader_def sim_get_def all_previous_def dest: find_in
        split: option.splits sum.splits prod.splits)
  have "gives (all_previous u) (previous_is u) (external (UpdateOIDCIssuer sim_cluster x))"
    "gives (all_previous u) (previous_is u) (external (PatchOIDCIssuerStatus sim_cluster x p))" if "previous_is u x" for x p
    using that by (auto simp: gives_def run_external sim_cluster_def sim_write_def all_previous_def previous_is_def
        replace_all_def drop_gone_def dest: find_in split: option.splits sum.splits prod.splits)
  with get show ?thesis
    by (simp add: keeps_record_def preserves_def sim_cluster_def sim_reader_def sim_list_def all_previous_def)
qed

lemma demo_parties_keep: "issuer_parties_keep I (demo_issuer_reconciler u)"
  by (simp add: issuer_parties_keep_def demo_issuer_reconciler_def demo_openshift_def preserves_def)

text \<open>The witness adds the finalizer, publishes and switches; the record is there before and after.\<close>

theorem previous_issuer_never_lost_witness:
  "all_previous ''https://old'' (issuer_sim\<lparr>sim_issuers := [demo_switched]\<rparr>) \<and>
   all_previous ''https://old'' (world (snd (run_state
     (Issuer_Reconcile std_lib (demo_issuer_reconciler ''https://now'') OIDCIssuerName)
     \<lparr> world = issuer_sim\<lparr>sim_issuers := [demo_switched]\<rparr>, outcome = None \<rparr>)))"
proof -
  have "keeps_record (all_previous ''https://old'') (ir_Client (demo_issuer_reconciler ''https://now'')) OIDCIssuerName ''https://old''"
    by (simp add: demo_issuer_reconciler_def sim_keeps_record)
  from previous_issuer_never_lost[OF this demo_parties_keep]
  have "preserves (in_ctx (all_previous ''https://old'')) (Issuer_Reconcile std_lib (demo_issuer_reconciler ''https://now'') OIDCIssuerName)" .
  moreover have "all_previous ''https://old'' (issuer_sim\<lparr>sim_issuers := [demo_switched]\<rparr>)"
    by (simp add: all_previous_def previous_is_def demo_switched_def)
  ultimately show ?thesis by (simp add: preserves_def)
qed

section \<open>The order of the switch\<close>

text \<open>
  C27. The first switch is reversible: with no previous issuer recorded, the cluster's issuer is
  set only after it was read and, unless it already was the published one, recorded in the
  status.  \<open>I\<close> is any predicate kept by everything but \<open>Set\<close> and \<open>WaitForKubeAPIServerRollout\<close>.
\<close>

theorem previous_issuer_recorded_first:
  assumes "ir_OpenShift r = Some m" and "\<not> has_previous issuer" and "preserves I (osm_Get m)"
    and now: "preserves I (Now (ir_Client r))" and patches: "write_keeps I (ir_Client r) PatchesOIDCIssuerStatus"
    and "I w" and run: "run_state (reconcileOpenShiftServiceAccountIssuer L r issuer url) w = (res, w')"
  shows "I w' \<or>
    (\<exists>current w1. run_state (osm_Get m) w = (Inr current, w1) \<and>
       (current = url \<or>
        (\<exists>issuer' w2. run_state (capturePreviousServiceAccountIssuer r issuer current) w1 = (Inr issuer', w2) \<and> I w2)))"
proof -
  have keep: "preserves I (patchOIDCIssuerStatus r i f)" for i f
    by (rule issuer_patch_keeps[OF now patches])
  obtain g w1 where get: "run_state (osm_Get m) w = (g, w1)" by fastforce
  have w1: "I w1" using preservesD[OF assms(3) \<open>I w\<close> get] .
  note unfolded = run[unfolded reconcileOpenShiftServiceAccountIssuer_def capture_previous_def]
  show ?thesis
  proof (cases g)
    case (Inl e)
    then have failed: "run_state (report_failure L r issuer ''OpenShiftIssuerReadFailed'' e e) w1 = (res, w')"
      using unfolded assms(1,2) get
      by (auto simp: has_previous_def run_simps report_failure_def split: prod.splits sum.splits)
    have "preserves I (report_failure L r issuer ''OpenShiftIssuerReadFailed'' e e)"
      unfolding report_failure_def setNotReady_def by (intro preserves_intros keep)
    from preservesD[OF this w1 failed] show ?thesis by simp
  next
    case (Inr current)
    obtain res2 w2 where cap: "run_state (capturePreviousServiceAccountIssuer r issuer current) w1 = (res2, w2)" by fastforce
    have "preserves I (capturePreviousServiceAccountIssuer r issuer current)"
      using keep by (simp add: capturePreviousServiceAccountIssuer_def)
    from preservesD[OF this w1 cap] have w2: "I w2" .
    show ?thesis
    proof (cases res2)
      case Inl: (Inl e)
      then have "current = url \<or> w' = w2"
        using unfolded assms(1,2) get Inr cap by (cases "current = url") (auto simp: has_previous_def run_simps)
      then show ?thesis using w2 get Inr by blast
    next
      case Inr2: (Inr issuer')
      then show ?thesis using get Inr cap w2 by blast
    qed
  qed
qed

theorem previous_issuer_recorded_first_witness:
  "\<exists>res w'. run_state (reconcileOpenShiftServiceAccountIssuer std_lib (demo_issuer_reconciler ''https://old'')
       demo_issuer ''https://issuer'') issuer_sim = (res, w') \<and>
    (sim_azure w' = demo_store \<or>
     (\<exists>current w1. run_state (osm_Get (demo_openshift ''https://old'')) issuer_sim = (Inr current, w1) \<and>
       (current = ''https://issuer'' \<or>
        (\<exists>issuer' w2. run_state (capturePreviousServiceAccountIssuer (demo_issuer_reconciler ''https://old'')
            demo_issuer current) w1 = (Inr issuer', w2) \<and> sim_azure w2 = demo_store))))"
proof -
  obtain res w' where run: "run_state (reconcileOpenShiftServiceAccountIssuer std_lib
      (demo_issuer_reconciler ''https://old'') demo_issuer ''https://issuer'') issuer_sim = (res, w')" by fastforce
  have "ir_OpenShift (demo_issuer_reconciler ''https://old'') = Some (demo_openshift ''https://old'')"
    "\<not> has_previous demo_issuer"
    "preserves (\<lambda>w. sim_azure w = demo_store) (osm_Get (demo_openshift ''https://old''))"
    "preserves (\<lambda>w. sim_azure w = demo_store) (Now (ir_Client (demo_issuer_reconciler ''https://old'')))"
    "write_keeps (\<lambda>w. sim_azure w = demo_store) (ir_Client (demo_issuer_reconciler ''https://old'')) PatchesOIDCIssuerStatus"
    by (auto simp: demo_issuer_reconciler_def has_previous_def demo_issuer_def demo_openshift_def preserves_def
        sim_cluster_def sim_write_def split: option.split)
  moreover have "sim_azure issuer_sim = demo_store" by (simp add: issuer_sim_def)
  ultimately have "sim_azure w' = demo_store \<or>
     (\<exists>current w1. run_state (osm_Get (demo_openshift ''https://old'')) issuer_sim = (Inr current, w1) \<and>
       (current = ''https://issuer'' \<or>
        (\<exists>issuer' w2. run_state (capturePreviousServiceAccountIssuer (demo_issuer_reconciler ''https://old'')
            demo_issuer current) w1 = (Inr issuer', w2) \<and> sim_azure w2 = demo_store)))"
    by (rule previous_issuer_recorded_first[OF _ _ _ _ _ _ run])
  with run show ?thesis by (intro exI conjI)
qed

section \<open>A ready issuer\<close>

text \<open>The contract of the OpenShift client, and that the client of Openshift honours it.\<close>

locale issuer_switch =
  fixes m :: "'w OpenShiftServiceAccountIssuerManager"
    and configured :: "string \<Rightarrow> bool \<Rightarrow> 'w \<Rightarrow> 'w \<Rightarrow> bool" and rolled :: "time \<Rightarrow> 'w \<Rightarrow> 'w \<Rightarrow> bool"
  assumes set_configures: "run_state (osm_Set m url) w = (Inr changed, w') \<Longrightarrow> configured url changed w w'"
    and wait_rolls: "run_state (osm_WaitForKubeAPIServerRollout m t) w = (Inr (), w') \<Longrightarrow> rolled t w w'"
begin

lemma switch_success:
  assumes "run_state (set_cluster_issuer L r m issuer url) w = (Inr issuer', w')"
  shows "issuer' = issuer \<and>
    (\<exists>t w1 changed w2. run_state (Now (ir_Client r)) w = (t, w1) \<and> configured url changed w1 w2 \<and>
      (if changed then rolled t w2 w' else w' = w2))"
proof -
  obtain t w1 where now: "run_state (Now (ir_Client r)) w = (t, w1)" by fastforce
  obtain s w2 where set: "run_state (osm_Set m url) w1 = (s, w2)" by fastforce
  obtain changed where s: "s = Inr changed"
    using assms now set by (cases s) (auto simp: set_cluster_issuer_def report_failure_def run_simps split: prod.splits sum.splits)
  have "issuer' = issuer \<and> (if changed then rolled t w2 w' else w' = w2)"
    using assms now set s
    by (auto simp: set_cluster_issuer_def report_failure_def run_simps wait_rolls split: prod.splits sum.splits)
  then show ?thesis using set_configures[of url w1 changed w2] set s now by blast
qed

lemma reconcile_success:
  assumes "ir_OpenShift r = Some m"
    and "run_state (reconcileOpenShiftServiceAccountIssuer L r issuer url) w = (Inr issuer', w')"
  shows "\<exists>w1 t w2 changed w3. run_state (capture_previous L r m issuer url) w = (Inr issuer', w1) \<and>
    run_state (Now (ir_Client r)) w1 = (t, w2) \<and> configured url changed w2 w3 \<and>
    (if changed then rolled t w3 w' else w' = w3)"
proof -
  obtain i w1 where "run_state (capture_previous L r m issuer url) w = (Inr i, w1)"
    and "run_state (set_cluster_issuer L r m i url) w1 = (Inr issuer', w')"
    using assms by (auto simp: reconcileOpenShiftServiceAccountIssuer_def elim: io_try_InrE)
  then show ?thesis using switch_success[of L r i url w1 issuer' w'] by blast
qed

end

definition openshift_manager :: "'w ServiceAccountIssuerClient \<Rightarrow> 'w OpenShiftServiceAccountIssuerManager" where
  "openshift_manager c = \<lparr> osm_Get = IssuerClient_Get c, osm_Set = IssuerClient_Set c,
     osm_WaitForKubeAPIServerRollout = WaitForKubeAPIServerRollout c \<rparr>"

text \<open>\<open>Set\<close> reads the configuration and patches it unless it has the issuer already.\<close>

definition issuer_configured :: "'w ServiceAccountIssuerClient \<Rightarrow> string \<Rightarrow> bool \<Rightarrow> 'w \<Rightarrow> 'w \<Rightarrow> bool" where
  "issuer_configured c url changed w w' \<longleftrightarrow>
     (\<exists>api a w1. sic_Client c = Some api \<and> run_state (GetAuthentication api authenticationName) w = (Inr a, w1) \<and>
        (changed \<longleftrightarrow> auth_ServiceAccountIssuer a \<noteq> url) \<and>
        (if changed
         then \<exists>b. run_state (PatchAuthentication api (a\<lparr>auth_ServiceAccountIssuer := url\<rparr>) (MergeFrom a)) w1 = (Inr b, w')
         else w' = w1))"

text \<open>The wait runs from the first world to the second, in which its last check has ended.\<close>

definition client_rolled_out :: "'w ServiceAccountIssuerClient \<Rightarrow> time \<Rightarrow> 'w \<Rightarrow> 'w \<Rightarrow> bool" where
  "client_rolled_out c t w w' \<longleftrightarrow> run_state (WaitForKubeAPIServerRollout c t) w = (Inr (), w') \<and>
     (\<forall>api. sic_Client c = Some api \<longrightarrow> poll_laws api \<longrightarrow> (\<exists>w0. rolled_out api t w0 w'))"

lemma client_set_configures:
  assumes "run_state (IssuerClient_Set c url) w = (Inr changed, w')"
  shows "issuer_configured c url changed w w'"
proof -
  from issuer_set_result[OF assms] obtain api a w1 where "sic_Client c = Some api"
    "run_state (GetAuthentication api authenticationName) w = (Inr a, w1)"
    "changed \<longleftrightarrow> auth_ServiceAccountIssuer a \<noteq> url"
    "changed \<Longrightarrow> \<exists>b. run_state (PatchAuthentication api (a\<lparr>auth_ServiceAccountIssuer := url\<rparr>) (MergeFrom a)) w1
        = (Inr b, w')" "\<not> changed \<Longrightarrow> w' = w1" by metis
  then show ?thesis unfolding issuer_configured_def by (cases changed) auto
qed

interpretation openshift_client: issuer_switch "openshift_manager c" "issuer_configured c" "client_rolled_out c" for c
  by unfold_locales (simp_all add: openshift_manager_def client_set_configures client_rolled_out_def wait_rolled_out)

text \<open>
  C28. A reconcile that publishes without an error has, in this order and each step in the world the previous one
  left: published the documents; recorded them in the status; if the spec asks for it (and the OpenShift client is
  present), recorded the issuer to return to unless one was recorded or none is needed, read the clock, read the
  cluster's issuer and, unless it is the published one already, patched it and awaited the rollout, a wait that
  starts after the patch and whose last check has seen the API server operator healthy since the time read before the
  patch and then both dependent operators healthy; and, as its last call, recorded Ready.
\<close>

theorem ready_issuer_switched:
  assumes "ir_OpenShift r = Some (openshift_manager client)" and "sic_Client client = Some api"
    and "poll_laws api" and run: "run_state (publish_issuer L r issuer p) c = ((res, None), c')"
  shows "res = requeue_after (oidcIssuerRefreshInterval r) \<and>
    (\<exists>published w1 issuer1 w2 issuer2 w7 issuer3.
       run_state (pub_Publish p issuer) (world c) = (Inr published, w1) \<and>
       run_state (setPublished r issuer published) w1 = (Inr issuer1, w2) \<and>
       (if shouldUpdateOpenShiftServiceAccountIssuer issuer1
        then \<exists>w3 t w4 changed w5.
          run_state (capture_previous L r (openshift_manager client) issuer1 (pd_IssuerURL published)) w2 = (Inr issuer2, w3) \<and>
          run_state (Now (ir_Client r)) w3 = (t, w4) \<and>
          issuer_configured client (pd_IssuerURL published) changed w4 w5 \<and>
          (if changed
           then run_state (WaitForKubeAPIServerRollout client t) w5 = (Inr (), w7) \<and> (\<exists>w6. rolled_out api t w6 w7)
           else w7 = w5)
        else issuer2 = issuer1 \<and> w7 = w2) \<and>
       run_state (setReady L r issuer2 published) w7 = (Inr issuer3, world c'))"
proof -
  let ?switch = "\<lambda>i url. if shouldUpdateOpenShiftServiceAccountIssuer i
      then reconcileOpenShiftServiceAccountIssuer L r i url else io_return i"
  obtain q w1 where pub: "run_state (pub_Publish p issuer) (world c) = (q, w1)" by fastforce
  obtain published where q: "q = Inr published"
    using run pub by (cases q) (auto simp: publish_issuer_def report_failure_def run_simps split: prod.splits sum.splits)
  obtain s w2 where set: "run_state (setPublished r issuer published) w1 = (s, w2)" by fastforce
  obtain issuer1 where s: "s = Inr issuer1"
    using run pub q set by (cases s) (auto simp: publish_issuer_def run_simps)
  let ?url = "pd_IssuerURL published"
  obtain t w7 where switch: "run_state (?switch issuer1 ?url) w2 = (t, w7)" by fastforce
  obtain issuer2 where t: "t = Inr issuer2"
    using run pub q set s switch by (cases t) (auto simp: publish_issuer_def run_simps)
  obtain u w8 where ready: "run_state (setReady L r issuer2 published) w7 = (u, w8)" by fastforce
  obtain issuer3 where u: "u = Inr issuer3"
    using run pub q set s switch t ready by (cases u) (auto simp: publish_issuer_def run_simps)
  have fin: "res = requeue_after (oidcIssuerRefreshInterval r)" "world c' = w8"
    using run pub q set s switch t ready u by (auto simp: publish_issuer_def run_simps)
  have "if shouldUpdateOpenShiftServiceAccountIssuer issuer1
        then \<exists>w3 t w4 changed w5. run_state (capture_previous L r (openshift_manager client) issuer1 ?url) w2 = (Inr issuer2, w3) \<and>
          run_state (Now (ir_Client r)) w3 = (t, w4) \<and> issuer_configured client ?url changed w4 w5 \<and>
          (if changed
           then run_state (WaitForKubeAPIServerRollout client t) w5 = (Inr (), w7) \<and> (\<exists>w6. rolled_out api t w6 w7)
           else w7 = w5)
        else issuer2 = issuer1 \<and> w7 = w2"
  proof (cases "shouldUpdateOpenShiftServiceAccountIssuer issuer1")
    case True
    then have "run_state (reconcileOpenShiftServiceAccountIssuer L r issuer1 ?url) w2 = (Inr issuer2, w7)"
      using switch t by simp
    from openshift_client.reconcile_success[OF assms(1) this] show ?thesis
      using True assms(2,3) by (auto simp: client_rolled_out_def split: if_splits) blast+
  next
    case False
    then show ?thesis using switch t by simp
  qed
  then show ?thesis using fin pub q set s ready u by blast
qed

definition demo_api :: "sim openshift_api" where
  "demo_api = \<lparr> GetAuthentication = (\<lambda>n. State_Monad.return (Inr \<lparr> auth_ServiceAccountIssuer = ''https://old'' \<rparr>)),
     PatchAuthentication = (\<lambda>a p. State_Monad.return (Inr a)),
     GetClusterOperator = (\<lambda>n. State_Monad.return (Inr \<lparr> co_Conditions =
        [\<lparr> coc_Type = ''Available'', coc_Status = ''True'', coc_LastTransitionTime = 0 \<rparr>,
         \<lparr> coc_Type = ''Progressing'', coc_Status = ''False'', coc_LastTransitionTime = 500 \<rparr>,
         \<lparr> coc_Type = ''Degraded'', coc_Status = ''False'', coc_LastTransitionTime = 0 \<rparr>] \<rparr>)),
     Poll = (\<lambda>i t cond. io_try cond (\<lambda>finished. if finished then io_return () else io_fail (ErrorString ''timeout''))) \<rparr>"

definition demo_client :: "sim ServiceAccountIssuerClient" where
  "demo_client = \<lparr> sic_Client = Some demo_api, sic_RolloutPollInterval = 0, sic_RolloutTimeout = 0 \<rparr>"

definition demo_publisher :: "sim Publisher" where
  "demo_publisher = \<lparr> pub_Publish = (\<lambda>i. io_return demo_published), pub_Delete = (\<lambda>i. io_return ()) \<rparr>"

definition openshift_reconciler :: "sim OIDCIssuerReconciler" where
  "openshift_reconciler = (demo_issuer_reconciler '''')\<lparr>ir_OpenShift := Some (openshift_manager demo_client)\<rparr>"

lemma demo_poll_laws: "poll_laws demo_api"
  by (auto simp: poll_laws_def demo_api_def run_simps split: prod.splits sum.splits if_splits)

lemma demo_publish_run:
  "fst (run_state (publish_issuer std_lib openshift_reconciler demo_issuer demo_publisher)
     \<lparr> world = issuer_sim, outcome = None \<rparr>) = (requeue_after DefaultOIDCIssuerRefreshInterval, None)"
  by code_simp

theorem ready_issuer_switched_witness:
  "\<exists>changed t w3 w4 w5 w6 w7. run_state (Now (ir_Client openshift_reconciler)) w3 = (t, w4) \<and>
     issuer_configured demo_client ''https://issuer'' changed w4 w5 \<and>
     (if changed then run_state (WaitForKubeAPIServerRollout demo_client t) w5 = (Inr (), w7) \<and> rolled_out demo_api t w6 w7
      else w7 = w5)"
proof -
  obtain c' where run: "run_state (publish_issuer std_lib openshift_reconciler demo_issuer demo_publisher)
      \<lparr> world = issuer_sim, outcome = None \<rparr> = ((requeue_after DefaultOIDCIssuerRefreshInterval, None), c')"
    using demo_publish_run by (metis prod.collapse)
  have "ir_OpenShift openshift_reconciler = Some (openshift_manager demo_client)" "sic_Client demo_client = Some demo_api"
    by (simp_all add: openshift_reconciler_def demo_client_def)
  from ready_issuer_switched[OF this demo_poll_laws run] obtain published w1 issuer1 w2 issuer2 w7 where
    "run_state (pub_Publish demo_publisher demo_issuer) issuer_sim = (Inr published, w1)"
    and set: "run_state (setPublished openshift_reconciler demo_issuer published) w1 = (Inr issuer1, w2)"
    and switched: "shouldUpdateOpenShiftServiceAccountIssuer issuer1 \<Longrightarrow> \<exists>w3 t w4 changed w5.
          run_state (Now (ir_Client openshift_reconciler)) w3 = (t, w4) \<and>
          issuer_configured demo_client (pd_IssuerURL published) changed w4 w5 \<and>
          (if changed
           then run_state (WaitForKubeAPIServerRollout demo_client t) w5 = (Inr (), w7) \<and> (\<exists>w6. rolled_out demo_api t w6 w7)
           else w7 = w5)"
    by (simp only: ctx.select_convs) (metis (no_types, lifting))
  then have published: "published = demo_published" "w1 = issuer_sim" by (simp_all add: demo_publisher_def)
  have "shouldUpdateOpenShiftServiceAccountIssuer issuer1"
  proof -
    have "(case fst (run_state (setPublished openshift_reconciler demo_issuer demo_published) issuer_sim) of
        Inr i \<Rightarrow> shouldUpdateOpenShiftServiceAccountIssuer i | Inl e \<Rightarrow> False)" by code_simp
    then show ?thesis using set published by simp
  qed
  from switched[OF this] published show ?thesis by (fastforce simp: demo_published_def split: if_splits)
qed

section \<open>Two ways to a premature Ready\<close>

text \<open>
  With the update requested and no OpenShift client, the reconcile writes
  \<open>OpenShiftIssuerClientNotConfigured\<close> and goes on to report Ready.
\<close>

lemma missing_openshift_client_reported_ready:
  assumes "ir_OpenShift r = None"
    and "run_state (pub_Publish p issuer) (world c) = (Inr published, w1)"
    and "run_state (setPublished r issuer published) w1 = (Inr issuer1, w2)"
    and "shouldUpdateOpenShiftServiceAccountIssuer issuer1"
    and "run_state (setNotReady L r issuer1 ''OpenShiftIssuerClientNotConfigured''
           ''OpenShift service account issuer client is not configured'') w2 = (Inr issuer2, w3)"
    and "run_state (setReady L r issuer2 published) w3 = (Inr issuer3, w4)"
  shows "run_state (publish_issuer L r issuer p) c =
    ((requeue_after (oidcIssuerRefreshInterval r), None), c\<lparr>world := w4\<rparr>)"
  using assms by (simp add: publish_issuer_def reconcileOpenShiftServiceAccountIssuer_def run_simps)

text \<open>
  A failed rollout is not awaited again: once the cluster carries the new issuer, the next
  reconcile's switch succeeds without a look at the operators.
\<close>

lemma rollout_awaited_once:
  assumes "sic_Client client = Some api" and "ir_OpenShift r = Some (openshift_manager client)"
    and "has_previous issuer" and "run_state (Now (ir_Client r)) w = (t, w1)"
    and "run_state (GetAuthentication api authenticationName) w1 = (Inr a, w2)" and "auth_ServiceAccountIssuer a = url"
  shows "run_state (reconcileOpenShiftServiceAccountIssuer L r issuer url) w = (Inr issuer, w2)"
  using assms
  by (auto simp: reconcileOpenShiftServiceAccountIssuer_def capture_previous_def has_previous_def set_cluster_issuer_def
      openshift_manager_def IssuerClient_Set_def authentication_def run_simps)

end
