(* ===== verification/Admission_Properties.thy ===== *)
theory Admission_Properties
  imports Admission Issuer_Properties
begin

text \<open>
  The properties of the admission webhooks: the deletion guard of the webhook is the one of the
  reconciler, admitted WorkloadIdentities never share an Azure identity or a ServiceAccount, and an
  admitted recovery is one that the recovery reconciler accepts.
\<close>

section \<open>Deleting an OIDCIssuer\<close>

definition validator_of :: "'w OIDCIssuerReconciler \<Rightarrow> 'w OIDCIssuerValidator" where
  "validator_of r = \<lparr> iv_Client = Some (ClusterReader (ir_Client r)),
     iv_OpenShift = map_option osm_Get (ir_OpenShift r), iv_ServiceAccountTokens = ir_ServiceAccountTokens r \<rparr>"

text \<open>
  The webhook reads the WorkloadIdentities with the uncached reader of the manager, the reconciler with its cached one:
  \<open>agreeing\<close> says that, in the world of the decision, both report the same list, and that the other two checks
  ask the same clients.
\<close>

definition agreeing :: "'w OIDCIssuerValidator \<Rightarrow> 'w OIDCIssuerReconciler \<Rightarrow> 'w \<Rightarrow> bool" where
  "agreeing v r w \<longleftrightarrow>
     (\<exists>R. iv_Client v = Some R \<and> run_state (ListWorkloadIdentities R) w =
        run_state (ListWorkloadIdentities (ClusterReader (ir_Client r))) w) \<and>
     iv_ServiceAccountTokens v = ir_ServiceAccountTokens r \<and> iv_OpenShift v = map_option osm_Get (ir_OpenShift r)"

lemma agreeing_validator_of: "agreeing (validator_of r) r w"
  by (simp add: agreeing_def validator_of_def)

lemma agreeing_decides:
  assumes "agreeing v r w"
  shows "run_state (OIDCIssuer_ValidateDelete E v issuer) w = run_state (OIDCIssuer_ValidateDelete E (validator_of r) issuer) w"
proof -
  obtain R where R: "iv_Client v = Some R" "run_state (ListWorkloadIdentities R) w =
      run_state (ListWorkloadIdentities (ClusterReader (ir_Client r))) w"
    using assms by (auto simp: agreeing_def)
  have "run_state (CheckWorkloadIdentityDeletionBlock (ListWorkloadIdentities R) n) w =
      run_state (CheckWorkloadIdentityDeletionBlock (ListWorkloadIdentities (ClusterReader (ir_Client r))) n) w" for n
    by (simp add: CheckWorkloadIdentityDeletionBlock_def run_io_try run_errorf_wrap run_external R(2))
  moreover have "v = validator_of r\<lparr>iv_Client := Some R\<rparr>"
    using R(1) assms by (simp add: agreeing_def validator_of_def)
  ultimately show ?thesis
    by (simp add: OIDCIssuer_ValidateDelete_def validator_of_def run_io_try split: prod.split sum.split)
qed

text \<open>
  A run from the world \<open>w\<close> that gives nothing up: it returns an error at once, or writes the
  status (not ready) and nothing else.
\<close>

definition only_reports :: "k8s_lib \<Rightarrow> 'w OIDCIssuerReconciler \<Rightarrow> OIDCIssuer \<Rightarrow> 'w reconcile \<Rightarrow> 'w ctx \<Rightarrow> 'w \<Rightarrow> bool" where
  "only_reports L r issuer m c w \<longleftrightarrow>
     (\<exists>err. run_state m c = ((empty_Result, Some err), c\<lparr>world := w\<rparr>)) \<or>
     (\<exists>reason message. world (snd (run_state m c)) = snd (run_state (setNotReady L r issuer reason message) w))"

lemma only_reportsI:
  "world (snd (run_state m c)) = snd (run_state (setNotReady L r issuer reason message) w) \<Longrightarrow>
     only_reports L r issuer m c w"
  by (auto simp: only_reports_def)

lemma reports_simps [simp]:
  "world (snd (run_state (issuer_blocked (result_of res m)) c)) = snd (run_state m (world c))"
  "world (snd (run_state (issuer_blocked (and_then m (\<lambda>_. done_with res))) c)) = snd (run_state m (world c))"
  "world (snd (run_state (and_then m (\<lambda>_. failed_with err)) c)) = snd (run_state m (world c))"
  by (auto simp: issuer_blocked_def run_simps split: prod.splits sum.splits)

lemma openshift_stage_agrees:
  assumes "run_state (CheckOpenShiftIssuerHandoff issuer (map_option osm_Get (ir_OpenShift r))) (world c) = (d, w)"
  shows "if (\<exists>g. d = Inr g \<and> \<not> dg_Blocked g)
    then run_state (check_openshift_handoff L r issuer) c = run_state (delete_published L r issuer) (c\<lparr>world := w\<rparr>)
    else only_reports L r issuer (check_openshift_handoff L r issuer) c w"
proof (cases d)
  case (Inl e)
  then show ?thesis using assms by (simp add: check_openshift_handoff_def run_and_then only_reports_def)
next
  case (Inr g)
  have "run_state (check_openshift_handoff L r issuer) c = run_state (if dg_Blocked g
      then issuer_blocked (result_of empty_Result (setNotReady L r issuer (dg_Reason g) (dg_Message g)))
      else delete_published L r issuer) (c\<lparr>world := w\<rparr>)"
    using assms Inr by (simp add: check_openshift_handoff_def run_and_then)
  then show ?thesis
    using Inr by (auto intro!: only_reportsI[where reason = "dg_Reason g" and message = "dg_Message g"])
qed

lemma token_stage_agrees:
  assumes "run_state (CheckTokenIssuerHandoff issuer (ir_ServiceAccountTokens r) (map_option osm_Get (ir_OpenShift r)))
      (world c) = (b, w)"
  shows "if (\<exists>g. b = Inr g \<and> guard_passes g)
    then run_state (check_token_handoff L r issuer) c = run_state (check_openshift_handoff L r issuer) (c\<lparr>world := w\<rparr>)
    else only_reports L r issuer (check_token_handoff L r issuer) c w"
proof (cases b)
  case (Inl e)
  then show ?thesis using assms by (simp add: check_token_handoff_def run_and_then only_reports_def)
next
  case (Inr g)
  have "run_state (check_token_handoff L r issuer) c = run_state (
      if dg_CheckFailed g
      then and_then (setNotReady L r issuer (dg_Reason g) (dg_Message g)) (\<lambda>_. failed_with (WrapError
             ''verify cluster service account token issuer before OIDCIssuer deletion''
             (case dg_Err g of Some e \<Rightarrow> e | None \<Rightarrow> nil_dereference)))
      else if dg_Blocked g
      then issuer_blocked (and_then (setNotReady L r issuer (dg_Reason g) (dg_Message g))
             (\<lambda>_. done_with (requeue_after defaultServiceAccountIssuerCheckPeriod)))
      else check_openshift_handoff L r issuer) (c\<lparr>world := w\<rparr>)"
    using assms Inr by (simp add: check_token_handoff_def run_and_then)
  then show ?thesis
    using Inr by (auto simp: guard_passes_def
        intro!: only_reportsI[where reason = "dg_Reason g" and message = "dg_Message g"])
qed

lemma identities_stage_agrees:
  assumes "ContainsFinalizer L (Finalizers (oi_Meta issuer)) oidcIssuerFinalizer"
    and "run_state (CheckWorkloadIdentityDeletionBlock (ListWorkloadIdentities (ClusterReader (ir_Client r)))
      blockingWorkloadIdentityReferenceLimit) (world c) = (a, w)"
  shows "if (\<exists>g. a = Inr g \<and> \<not> dg_Blocked g)
    then run_state (Issuer_reconcileDelete L r issuer) c = run_state (check_token_handoff L r issuer) (c\<lparr>world := w\<rparr>)
    else only_reports L r issuer (Issuer_reconcileDelete L r issuer) c w"
proof (cases a)
  case (Inl e)
  then show ?thesis using assms by (simp add: Issuer_reconcileDelete_def run_and_then only_reports_def)
next
  case (Inr g)
  have "run_state (Issuer_reconcileDelete L r issuer) c = run_state (if dg_Blocked g
      then issuer_blocked (result_of empty_Result (setNotReady L r issuer (dg_Reason g) (dg_Message g)))
      else check_token_handoff L r issuer) (c\<lparr>world := w\<rparr>)"
    using assms Inr by (simp add: Issuer_reconcileDelete_def identities_checked_def run_and_then)
  then show ?thesis
    using Inr by (auto intro!: only_reportsI[where reason = "dg_Reason g" and message = "dg_Message g"])
qed

lemma only_reports_cong:
  "run_state m c = run_state n (c\<lparr>world := v\<rparr>) \<Longrightarrow> only_reports L r issuer n (c\<lparr>world := v\<rparr>) w \<Longrightarrow>
     only_reports L r issuer m c w"
  by (simp add: only_reports_def)

text \<open>
  C29. Webhook and reconciler decide alike.  With the same token and OpenShift clients, and readers that report the same
  WorkloadIdentities in the world of the decision (the webhook reads past the cache), a deletion the webhook admits passes all guards of the reconciler, which goes on to delete what was
  published and to release the finalizer; on a deletion the webhook rejects the reconciler only reports:
  it returns an error at once or writes a status that is not ready.
\<close>

theorem deletion_admission_agrees:
  assumes name: "Name (oi_Meta issuer) = OIDCIssuerName"
    and fin: "ContainsFinalizer L (Finalizers (oi_Meta issuer)) oidcIssuerFinalizer"
    and agree: "agreeing v r (world c)"
    and admitted: "run_state (OIDCIssuer_ValidateDelete E v issuer) (world c) = (res, w)"
  shows "if res = Inr ()
    then run_state (Issuer_reconcileDelete L r issuer) c = run_state (delete_published L r issuer) (c\<lparr>world := w\<rparr>)
    else only_reports L r issuer (Issuer_reconcileDelete L r issuer) c w"
proof -
  have admission: "run_state (OIDCIssuer_ValidateDelete E (validator_of r) issuer) (world c) = (res, w)"
    using admitted agreeing_decides[OF agree] by simp
  let ?list = "CheckWorkloadIdentityDeletionBlock (ListWorkloadIdentities (ClusterReader (ir_Client r)))
    blockingWorkloadIdentityReferenceLimit"
  let ?tokens = "CheckTokenIssuerHandoff issuer (ir_ServiceAccountTokens r) (map_option osm_Get (ir_OpenShift r))"
  let ?openshift = "CheckOpenShiftIssuerHandoff issuer (map_option osm_Get (ir_OpenShift r))"
  note def = OIDCIssuer_ValidateDelete_def validator_of_def Let_def
  obtain a wa where a: "run_state ?list (world c) = (a, wa)" by fastforce
  note list_stage = identities_stage_agrees[OF fin a]
  show ?thesis
  proof (cases "\<exists>g. a = Inr g \<and> \<not> dg_Blocked g")
    case False
    then have "res \<noteq> Inr () \<and> w = wa"
      using admission name a by (cases a) (auto simp: def run_io_try)
    with list_stage False show ?thesis by auto
  next
    case True
    let ?c = "c\<lparr>world := wa\<rparr>"
    have run1: "run_state (Issuer_reconcileDelete L r issuer) c = run_state (check_token_handoff L r issuer) ?c"
      using list_stage True by auto
    obtain b wb where b: "run_state ?tokens wa = (b, wb)" by fastforce
    then have b': "run_state ?tokens (world ?c) = (b, wb)" by simp
    note token_stage = token_stage_agrees[OF b']
    show ?thesis
    proof (cases "\<exists>g. b = Inr g \<and> guard_passes g")
      case no: False
      then have "res \<noteq> Inr () \<and> w = wb"
        using admission name a b True by (cases b) (auto simp: def run_io_try guard_passes_def split: if_splits)
      with token_stage no only_reports_cong[OF run1] show ?thesis by auto
    next
      case yes: True
      have run2: "run_state (Issuer_reconcileDelete L r issuer) c
          = run_state (check_openshift_handoff L r issuer) (c\<lparr>world := wb\<rparr>)"
        using token_stage yes run1 by auto
      obtain d wd where d: "run_state ?openshift wb = (d, wd)" by fastforce
      then have "run_state ?openshift (world (c\<lparr>world := wb\<rparr>)) = (d, wd)" by simp
      note stage = openshift_stage_agrees[OF this]
      have "(res = Inr () \<longleftrightarrow> (\<exists>g. d = Inr g \<and> \<not> dg_Blocked g)) \<and> w = wd"
        using admission name a b d True yes
        by (cases d) (auto simp: def run_io_try guard_passes_def split: if_splits)
      with stage run2 only_reports_cong[OF run2] show ?thesis by auto
    qed
  qed
qed

definition demo_errors :: api_errors where
  "demo_errors = \<lparr> NewForbidden = (\<lambda>group resource name message. StatusError 403 ''Forbidden'' message),
     NewInvalid = (\<lambda>group kind name errs. StatusError 422 ''Invalid'' kind),
     NewAlreadyExists = (\<lambda>group resource name. StatusError 409 ''AlreadyExists'' name) \<rparr>"

lemma demo_admission:
  "fst (run_state (OIDCIssuer_ValidateDelete demo_errors (validator_of (demo_issuer_reconciler ''https://other''))
     demo_issuer_removing) issuer_sim) = Inr ()"
  by code_simp

theorem deletion_admission_agrees_witness:
  "\<exists>w. run_state (Issuer_reconcileDelete std_lib (demo_issuer_reconciler ''https://other'') demo_issuer_removing)
       \<lparr> world = issuer_sim, outcome = None \<rparr>
     = run_state (delete_published std_lib (demo_issuer_reconciler ''https://other'') demo_issuer_removing)
         \<lparr> world = w, outcome = None \<rparr>"
proof -
  let ?c = "\<lparr> world = issuer_sim, outcome = None \<rparr>"
  obtain w where adm: "run_state (OIDCIssuer_ValidateDelete demo_errors
      (validator_of (demo_issuer_reconciler ''https://other'')) demo_issuer_removing) (world ?c) = (Inr (), w)"
    using demo_admission by (metis ctx.select_convs(1) prod.collapse)
  have "Name (oi_Meta demo_issuer_removing) = OIDCIssuerName"
    "ContainsFinalizer std_lib (Finalizers (oi_Meta demo_issuer_removing)) oidcIssuerFinalizer"
    by (simp_all add: demo_issuer_removing_def demo_issuer_def demo_meta_def std_lib_def)
  from deletion_admission_agrees[OF this agreeing_validator_of adm] show ?thesis
    by (intro exI[of _ w]) simp
qed

section \<open>Admitted WorkloadIdentities\<close>

text \<open>
  The stored WorkloadIdentities under admission: objects are created and replaced only with the
  consent of the webhook, whose reader lists what is stored; the status subresource, which no
  webhook watches, leaves the spec alone.  The order of steps is that of the API server, so
  two admissions never overlap here.
\<close>

definition store_lists :: "WorkloadIdentity list Reader \<Rightarrow> bool" where
  "store_lists R \<longleftrightarrow> (\<forall>items. run_state (ListWorkloadIdentities R) items = (Inr items, items))"

definition same_object :: "WorkloadIdentity \<Rightarrow> WorkloadIdentity \<Rightarrow> bool" where
  "same_object a b \<longleftrightarrow> object_key (wi_Meta a) = object_key (wi_Meta b)"

inductive admission_step :: "api_errors \<Rightarrow> WorkloadIdentity list Reader \<Rightarrow> WorkloadIdentity list \<Rightarrow>
    WorkloadIdentity list \<Rightarrow> bool" for E R where
  create: "\<forall>x \<in> set items. \<not> same_object x obj \<Longrightarrow>
     run_state (WorkloadIdentity_ValidateCreate E (Some R) obj) items = (Inr (), items) \<Longrightarrow>
     admission_step E R items (items @ [obj])"
| update: "old \<in> set items \<Longrightarrow> same_object old new \<Longrightarrow>
     run_state (WorkloadIdentity_ValidateUpdate E (Some R) old new) items = (Inr (), items) \<Longrightarrow>
     admission_step E R items (map (\<lambda>x. if same_object x new then new else x) items)"
| status: "old \<in> set items \<Longrightarrow> same_object old new \<Longrightarrow> wi_Spec new = wi_Spec old \<Longrightarrow>
     admission_step E R items (map (\<lambda>x. if same_object x new then new else x) items)"
| delete: "admission_step E R items (filter (\<lambda>x. \<not> same_object x obj) items)"

definition claims_disjoint :: "WorkloadIdentity \<Rightarrow> WorkloadIdentity \<Rightarrow> bool" where
  "claims_disjoint a b \<longleftrightarrow>
     \<not> equal_fold (wi_identityName a) (wi_identityName b) \<and>
     \<not> (wi_namespace a = wi_namespace b \<and> wi_accountName a = wi_accountName b)"

definition compatible :: "WorkloadIdentity \<Rightarrow> WorkloadIdentity \<Rightarrow> bool" where
  "compatible a b \<longleftrightarrow> a = b \<or> \<not> same_object a b \<and> claims_disjoint a b"

definition well_claimed :: "WorkloadIdentity set \<Rightarrow> bool" where
  "well_claimed S \<longleftrightarrow>
     (\<forall>a \<in> S. ValidateUserAssignedIdentityName (wi_identityName a) = None) \<and>
     (\<forall>a \<in> S. \<forall>b \<in> S. compatible a b)"

lemma same_object_iff [simp]: "sameWorkloadIdentity a b \<longleftrightarrow> same_object a b"
  by (auto simp: sameWorkloadIdentity_def same_object_def object_key_def)

lemma same_object_refl [simp]: "same_object a a"
  by (simp add: same_object_def)

lemma compatible_sym: "compatible a b \<longleftrightarrow> compatible b a"
  by (auto simp: compatible_def claims_disjoint_def equal_fold_sym same_object_def)

lemma well_claimed_subset: "well_claimed T \<Longrightarrow> S \<subseteq> T \<Longrightarrow> well_claimed S"
  by (auto simp: well_claimed_def)

lemma well_claimed_insert:
  assumes "well_claimed S" and "ValidateUserAssignedIdentityName (wi_identityName obj) = None"
    and "\<And>x. x \<in> S \<Longrightarrow> compatible x obj"
  shows "well_claimed (insert obj S)"
proof -
  have "compatible obj obj" by (simp add: compatible_def)
  then show ?thesis using assms compatible_sym by (auto simp: well_claimed_def)
qed

lemma no_conflicts: "conflicts_with obj x = [] \<longleftrightarrow> same_object x obj \<or> claims_disjoint x obj"
  by (simp add: conflicts_with_def claims_disjoint_def)

lemma no_identity_errors:
  "identity_errors items obj = [] \<longleftrightarrow>
     ValidateUserAssignedIdentityName (wi_identityName obj) = None \<and>
     (\<forall>x \<in> set items. \<not> same_object x obj \<longrightarrow> claims_disjoint x obj)"
  by (auto simp: identity_errors_def no_conflicts split: option.splits)

lemma admitted_errors:
  assumes "store_lists R"
  shows "run_state (WorkloadIdentity_ValidateCreate E (Some R) obj) items = (Inr (), items) \<longleftrightarrow>
      identity_errors items obj = []"
    and "run_state (WorkloadIdentity_ValidateUpdate E (Some R) old obj) items = (Inr (), items) \<longleftrightarrow>
      identity_errors items obj = [] \<and> immutable_errors old obj = []"
  using assms
  by (simp_all add: WorkloadIdentity_ValidateCreate_def WorkloadIdentity_ValidateUpdate_def validate_def
      validationErrors_def store_lists_def run_simps)

text \<open>A replaced object is compatible with the others whenever its claims are disjoint from theirs.\<close>

lemma well_claimed_replace:
  assumes "well_claimed (set items)" and "ValidateUserAssignedIdentityName (wi_identityName new) = None"
    and "\<And>x. x \<in> set items \<Longrightarrow> \<not> same_object x new \<Longrightarrow> claims_disjoint x new"
  shows "well_claimed (set (map (\<lambda>x. if same_object x new then new else x) items))"
proof -
  let ?others = "{x \<in> set items. \<not> same_object x new}"
  have "well_claimed ?others" by (rule well_claimed_subset[OF assms(1)]) auto
  then have "well_claimed (insert new ?others)"
    by (rule well_claimed_insert) (use assms(2,3) in \<open>auto simp: compatible_def\<close>)
  then show ?thesis by (rule well_claimed_subset) auto
qed

lemma admission_step_keeps:
  assumes "store_lists R" and "admission_step E R items items'" and claimed: "well_claimed (set items)"
  shows "well_claimed (set items')"
  using assms(2)
proof (cases rule: admission_step.cases)
  case (create obj)
  then have ok: "ValidateUserAssignedIdentityName (wi_identityName obj) = None"
    "\<And>x. x \<in> set items \<Longrightarrow> compatible x obj"
    using admitted_errors(1)[OF assms(1)] no_identity_errors by (auto simp: compatible_def)
  show ?thesis using well_claimed_insert[OF claimed ok] create(1) by simp
next
  case (update old new)
  then have ok: "ValidateUserAssignedIdentityName (wi_identityName new) = None"
    "\<And>x. x \<in> set items \<Longrightarrow> \<not> same_object x new \<Longrightarrow> claims_disjoint x new"
    using admitted_errors(2)[OF assms(1)] no_identity_errors by auto
  show ?thesis using well_claimed_replace[OF claimed ok] update(1) by simp
next
  case (status old new)
  have "claims_disjoint x new" if x: "x \<in> set items" "\<not> same_object x new" for x
  proof -
    have "x \<noteq> old" using x(2) status(3) by auto
    then have "claims_disjoint x old"
      using claimed x(1) status(2) by (auto simp: well_claimed_def compatible_def)
    then show ?thesis using status(3,4) by (simp add: claims_disjoint_def same_object_def object_key_def)
  qed
  moreover have "ValidateUserAssignedIdentityName (wi_identityName new) = None"
    using claimed status(2,4) by (simp add: well_claimed_def)
  ultimately show ?thesis using well_claimed_replace[OF claimed] status(1) by simp
next
  case (delete obj)
  then show ?thesis using well_claimed_subset[OF claimed] by auto
qed

text \<open>
  C30. Whatever sequence of admitted creations, admitted updates, status writes and deletions is
  applied to an empty store, every stored WorkloadIdentity has a valid Azure identity name, and two of them
  never share an Azure identity (names compared up to case) nor a ServiceAccount.
\<close>

theorem admitted_identities_disjoint:
  assumes "store_lists R" and "(admission_step E R)\<^sup>*\<^sup>* [] items"
    and "a \<in> set items" and "b \<in> set items"
  shows "ValidateUserAssignedIdentityName (wi_identityName a) = None \<and>
    (a = b \<or> \<not> equal_fold (wi_identityName a) (wi_identityName b) \<and> serviceAccountKey a \<noteq> serviceAccountKey b)"
proof -
  have "well_claimed (set items)"
    using assms(2)
  proof (induction rule: rtranclp_induct)
    case base
    show ?case by (simp add: well_claimed_def)
  next
    case (step xs ys)
    then show ?case using admission_step_keeps[OF assms(1)] by blast
  qed
  then have "ValidateUserAssignedIdentityName (wi_identityName a) = None" "a = b \<or> claims_disjoint a b"
    using assms(3,4) by (auto simp: well_claimed_def compatible_def)
  then show ?thesis by (auto simp: claims_disjoint_def serviceAccountKey_def)
qed

definition store_reader :: "WorkloadIdentity list Reader" where
  "store_reader = \<lparr>
     GetWorkloadIdentity = (\<lambda>_. State (\<lambda>w. (Inl kube_not_found, w))), ListWorkloadIdentities = State (\<lambda>w. (Inr w, w)),
     ListWorkloadIdentitiesMatching = (\<lambda>_ _ _. State (\<lambda>w. (Inr w, w))),
     GetOIDCIssuer = (\<lambda>_. State (\<lambda>w. (Inl kube_not_found, w))), GetServiceAccount = (\<lambda>_. State (\<lambda>w. (Inl kube_not_found, w))),
     GetWorkloadIdentityRecovery = (\<lambda>_. State (\<lambda>w. (Inl kube_not_found, w))),
     ListWorkloadIdentityRecoveries = State (\<lambda>w. (Inr [], w)),
     ListWorkloadIdentityRecoveriesMatching = (\<lambda>_ _. State (\<lambda>w. (Inr [], w))),
     GetSecret = (\<lambda>_. State (\<lambda>w. (Inl kube_not_found, w))) \<rparr>"

definition second_identity :: WorkloadIdentity where
  "second_identity = demo_identity\<lparr>wi_Meta := (wi_Meta demo_identity)\<lparr>Name := ''other''\<rparr>,
     wi_Spec := (wi_Spec demo_identity)\<lparr>wis_Azure := (wis_Azure (wi_Spec demo_identity))\<lparr>UserAssignedIdentityName := ''second''\<rparr>,
       wis_ServiceAccount := \<lparr> sar_Name = ''second'' \<rparr>\<rparr>\<rparr>"

lemma store_reader_lists: "store_lists store_reader"
  by (simp add: store_lists_def store_reader_def)

theorem admitted_identities_disjoint_witness:
  "(admission_step demo_errors store_reader)\<^sup>*\<^sup>* [] [demo_identity, second_identity] \<and>
   \<not> equal_fold (wi_identityName demo_identity) (wi_identityName second_identity) \<and>
   serviceAccountKey demo_identity \<noteq> serviceAccountKey second_identity"
proof -
  note admitted = admitted_errors(1)[OF store_reader_lists, of demo_errors]
  have "identity_errors [] demo_identity = []" "identity_errors [demo_identity] second_identity = []"
    by code_simp+
  then have "run_state (WorkloadIdentity_ValidateCreate demo_errors (Some store_reader) demo_identity) [] = (Inr (), [])"
    "run_state (WorkloadIdentity_ValidateCreate demo_errors (Some store_reader) second_identity) [demo_identity]
      = (Inr (), [demo_identity])"
    using admitted by simp_all
  moreover have other: "\<not> same_object demo_identity second_identity"
    by (simp add: same_object_def object_key_def second_identity_def demo_identity_def demo_meta_def)
  ultimately have "admission_step demo_errors store_reader [] ([] @ [demo_identity])"
    "admission_step demo_errors store_reader [demo_identity] ([demo_identity] @ [second_identity])"
    by - (rule admission_step.create, simp, assumption)+
  then have steps: "(admission_step demo_errors store_reader)\<^sup>*\<^sup>* [] [demo_identity, second_identity]"
    by (simp add: rtranclp.rtrancl_into_rtrancl)
  have "demo_identity \<noteq> second_identity" using other by auto
  with steps admitted_identities_disjoint[OF store_reader_lists steps, of demo_identity second_identity]
  show ?thesis by simp
qed

section \<open>Admitted recoveries\<close>

lemma valid_target_accepted:
  assumes "validateRecoveryTarget L obj identity = []" and "r_SourceUID obj \<noteq> ref_UID (r_Ref obj)"
    and "\<not> r_MutationStarted (r_Status obj)"
  shows "validateRecoveryControllerTarget L obj identity = None"
  using assms
  by (auto simp: validateRecoveryTarget_def validateRecoveryControllerTarget_def current_recovery_required_def
      split: option.splits if_splits)

text \<open>
  C31. An admitted recovery is one the recovery reconciler accepts: the target it names exists, is a
  different instance from the source, and passes the reconciler's target check as it stands; and no
  recovery for the same source was listed.
\<close>

theorem admitted_recovery_accepted:
  assumes "rv_Client v = Some reader" and "rv_RecoveryClient v = Some recoveries"
    and "\<not> r_MutationStarted (r_Status obj)"
    and "run_state (Recovery_ValidateCreate L E v obj) w = (Inr (), w')"
  shows "\<exists>identity w1. run_state (GetWorkloadIdentity reader
        \<lparr> nn_Namespace = ref_Namespace (r_Ref obj), nn_Name = ref_Name (r_Ref obj) \<rparr>) w = (Inr identity, w1) \<and>
      r_SourceUID obj \<noteq> wi_UID identity \<and>
      validateRecoveryControllerTarget L obj identity = None \<and>
      (\<forall>items. run_state (ListWorkloadIdentityRecoveriesMatching recoveries
           RecoveryPreviousWorkloadIdentityUIDIndex (r_SourceUID obj)) w1 = (Inr items, w') \<longrightarrow>
         (\<forall>x \<in> set items. r_SourceUID x \<noteq> r_SourceUID obj))"
proof -
  let ?key = "\<lparr> nn_Namespace = ref_Namespace (r_Ref obj), nn_Name = ref_Name (r_Ref obj) \<rparr>"
  let ?list = "ListWorkloadIdentityRecoveriesMatching recoveries RecoveryPreviousWorkloadIdentityUIDIndex (r_SourceUID obj)"
  obtain g w1 where get: "run_state (GetWorkloadIdentity reader ?key) w = (g, w1)" by fastforce
  obtain l w2 where listed: "run_state ?list w1 = (l, w2)" by fastforce
  have admitted: "(case l of Inl err \<Rightarrow> None | Inr items \<Rightarrow> duplicate_of obj items) = None"
    "\<exists>identity. g = Inr identity \<and> validateRecoveryTarget L obj identity = []"
    "r_SourceUID obj \<noteq> ref_UID (r_Ref obj)" "w' = w2"
    using assms get listed
    by (auto simp: Recovery_ValidateCreate_def target_errors_def Let_def run_simps
        split: sum.splits option.splits if_splits)
  then obtain identity where g: "g = Inr identity" and valid: "validateRecoveryTarget L obj identity = []" by blast
  have accepted: "validateRecoveryControllerTarget L obj identity = None"
    by (rule valid_target_accepted[OF valid admitted(3) assms(3)])
  have "wi_UID identity = ref_UID (r_Ref obj)"
    using valid by (auto simp: validateRecoveryTarget_def split: if_splits)
  moreover have "\<forall>x \<in> set items. r_SourceUID x \<noteq> r_SourceUID obj" if "l = Inr items" for items
    using admitted(1) that by (auto simp: duplicate_of_def find_None_iff)
  ultimately show ?thesis
    using get g accepted admitted(3,4) listed by auto
qed

definition demo_required :: WorkloadIdentity where
  "demo_required = demo_identity\<lparr>wi_Status := (wi_Status demo_identity)
     \<lparr>wi_Recovery := Some \<lparr> rrs_PreviousWorkloadIdentityUID = ''source'' \<rparr>, wi_ObservedGeneration := 1,
      wi_Conditions := [\<lparr> c_Type = WorkloadIdentityConditionReady, c_Status = ConditionFalse,
        c_ObservedGeneration = 1, c_Reason = ReasonRecoveryRequired, c_Message = '''' \<rparr>]\<rparr>\<rparr>"

definition required_sim :: sim where
  "required_sim = \<lparr> sim_identities = [demo_required], sim_issuers = [], sim_accounts = [], sim_recoveries = [],
     sim_secrets = [], sim_clock = 100, sim_azure = demo_store \<rparr>"

definition demo_validator :: "sim WorkloadIdentityRecoveryValidator" where
  "demo_validator = \<lparr> rv_Client = Some sim_reader, rv_RecoveryClient = Some sim_reader \<rparr>"

lemma demo_recovery_admitted:
  "fst (run_state (Recovery_ValidateCreate std_lib demo_errors demo_validator demo_recovery) required_sim) = Inr ()"
  by code_simp

theorem admitted_recovery_accepted_witness:
  "\<exists>identity. fst (run_state (GetWorkloadIdentity sim_reader \<lparr> nn_Namespace = ''ns'', nn_Name = ''app'' \<rparr>) required_sim)
      = Inr identity \<and> validateRecoveryControllerTarget std_lib demo_recovery identity = None"
proof -
  have "rv_Client demo_validator = Some sim_reader" "rv_RecoveryClient demo_validator = Some sim_reader"
    "\<not> r_MutationStarted (r_Status demo_recovery)"
    "ref_Namespace (r_Ref demo_recovery) = ''ns''" "ref_Name (r_Ref demo_recovery) = ''app''"
    by (simp_all add: demo_validator_def demo_recovery_def)
  moreover obtain w' where "run_state (Recovery_ValidateCreate std_lib demo_errors demo_validator demo_recovery)
      required_sim = (Inr (), w')"
    using demo_recovery_admitted by (metis prod.collapse)
  ultimately show ?thesis using admitted_recovery_accepted[of demo_validator sim_reader sim_reader demo_recovery] by fastforce
qed

end
