(* ===== verification/Event_Predicates.thy ===== *)
theory Event_Predicates
  imports Workload_Contracts Issuer_Controller Recovery_Lifecycle
begin

text \<open>
  internal/controller/event\_predicates.go: which watch events enqueue a reconcile.  An update event
  carries the old and the new object, either of which may be missing (a nil object, or one of
  another type, for which the type assertion fails).  \<open>predicate.Funcs\<close> of controller-runtime
  lets events pass for which no function is set.
\<close>

section \<open>Predicates\<close>

record 'o event_predicate =
  OnCreate :: "'o \<Rightarrow> bool"
  OnUpdate :: "'o option \<Rightarrow> 'o option \<Rightarrow> bool"
  OnDelete :: "'o \<Rightarrow> bool"
  OnGeneric :: "'o \<Rightarrow> bool"

definition predicate_Funcs :: "'o event_predicate" where
  "predicate_Funcs = \<lparr> OnCreate = (\<lambda>_. True), OnUpdate = (\<lambda>_ _. True), OnDelete = (\<lambda>_. True), OnGeneric = (\<lambda>_. True) \<rparr>"

definition primaryResourceUpdate :: "('o \<Rightarrow> ObjectMeta) \<Rightarrow> 'o option \<Rightarrow> 'o option \<Rightarrow> bool" where
  "primaryResourceUpdate meta objectOld objectNew =
     (case (objectOld, objectNew) of
        (Some x, Some y) \<Rightarrow>
          if Generation (meta x) \<noteq> Generation (meta y) then True
          else DeletionTimestamp (meta x) = None \<and> DeletionTimestamp (meta y) \<noteq> None
      | _ \<Rightarrow> False)"

definition primaryResourcePredicate :: "('o \<Rightarrow> ObjectMeta) \<Rightarrow> 'o event_predicate" where
  "primaryResourcePredicate meta = predicate_Funcs\<lparr>OnUpdate := primaryResourceUpdate meta\<rparr>"

definition createDeleteOnlyPredicate :: "'o event_predicate" where
  "createDeleteOnlyPredicate = predicate_Funcs\<lparr>OnUpdate := (\<lambda>_ _. False), OnGeneric := (\<lambda>_. False)\<rparr>"

text \<open>An update function that first type-asserts both objects.\<close>

definition both :: "('o \<Rightarrow> 'o \<Rightarrow> bool) \<Rightarrow> 'o option \<Rightarrow> 'o option \<Rightarrow> bool" where
  "both f objectOld objectNew =
     (case (objectOld, objectNew) of (Some x, Some y) \<Rightarrow> f x y | _ \<Rightarrow> False)"

lemma both_simps [simp]: "both f (Some x) (Some y) = f x y" "both f None y0 = False" "both f x0 None = False"
  by (auto simp: both_def split: option.split)

lemma primary_simps [simp]:
  "primaryResourceUpdate meta (Some x) (Some y) \<longleftrightarrow> Generation (meta x) \<noteq> Generation (meta y) \<or>
     DeletionTimestamp (meta x) = None \<and> DeletionTimestamp (meta y) \<noteq> None"
  by (simp add: primaryResourceUpdate_def)

abbreviation wi_ready :: "k8s_lib \<Rightarrow> WorkloadIdentity \<Rightarrow> Condition option" where
  "wi_ready L identity \<equiv>
     FindStatusCondition L (wi_Conditions (wi_Status identity)) WorkloadIdentityConditionReady"

definition workloadIdentityRecoveryWakeTransition :: "k8s_lib \<Rightarrow> WorkloadIdentity \<Rightarrow> WorkloadIdentity \<Rightarrow> bool" where
  "workloadIdentityRecoveryWakeTransition L oldIdentity newIdentity =
     (if \<not> workloadIdentityRecoveryIsInProgress L oldIdentity \<and> workloadIdentityRecoveryIsInProgress L newIdentity
      then True
      else case wi_ready L newIdentity of
        None \<Rightarrow> False
      | Some newReady \<Rightarrow>
          if c_Status newReady \<noteq> ConditionFalse then False
          else if (case wi_ready L oldIdentity of None \<Rightarrow> False
                   | Some oldReady \<Rightarrow> c_Status oldReady = c_Status newReady \<and> c_Reason oldReady = c_Reason newReady)
          then False
          else c_Reason newReady = recoveryReasonCompleted \<or> c_Reason newReady = recoveryReasonCancelled)"

definition recovery_source :: "WorkloadIdentity \<Rightarrow> string" where
  "recovery_source identity =
     (case wi_Recovery (wi_Status identity) of None \<Rightarrow> '''' | Some rec \<Rightarrow> rrs_PreviousWorkloadIdentityUID rec)"

definition workloadIdentityRecoveryStateChanged :: "k8s_lib \<Rightarrow> WorkloadIdentity \<Rightarrow> WorkloadIdentity \<Rightarrow> bool" where
  "workloadIdentityRecoveryStateChanged L oldIdentity newIdentity =
     (if recovery_source oldIdentity \<noteq> recovery_source newIdentity then True
      else if wi_Recovery (wi_Status oldIdentity) = None \<and> wi_Recovery (wi_Status newIdentity) = None then False
      else case (wi_ready L oldIdentity, wi_ready L newIdentity) of
        (Some oldReady, Some newReady) \<Rightarrow>
          c_Status oldReady \<noteq> c_Status newReady \<or> c_Reason oldReady \<noteq> c_Reason newReady
            \<or> c_ObservedGeneration oldReady \<noteq> c_ObservedGeneration newReady
      | (None, None) \<Rightarrow> False
      | _ \<Rightarrow> True)"

definition workloadIdentityPrimaryPredicate :: "k8s_lib \<Rightarrow> WorkloadIdentity event_predicate" where
  "workloadIdentityPrimaryPredicate L = predicate_Funcs\<lparr>OnUpdate := (\<lambda>objectOld objectNew.
     primaryResourceUpdate wi_Meta objectOld objectNew \<or>
     both (workloadIdentityRecoveryWakeTransition L) objectOld objectNew)\<rparr>"

definition workloadIdentityRecoveryTargetPredicate :: "k8s_lib \<Rightarrow> WorkloadIdentity event_predicate" where
  "workloadIdentityRecoveryTargetPredicate L = predicate_Funcs\<lparr>OnUpdate := (\<lambda>objectOld objectNew.
     primaryResourceUpdate wi_Meta objectOld objectNew \<or>
     both (workloadIdentityRecoveryStateChanged L) objectOld objectNew)\<rparr>"

definition oidcIssuerDependencyPredicate :: "k8s_lib \<Rightarrow> OIDCIssuer event_predicate" where
  "oidcIssuerDependencyPredicate L = predicate_Funcs\<lparr>OnUpdate := both (\<lambda>oldIssuer newIssuer.
     primaryResourceUpdate oi_Meta (Some oldIssuer) (Some newIssuer) \<or>
     oi_IssuerURL (oi_Status oldIssuer) \<noteq> oi_IssuerURL (oi_Status newIssuer) \<or>
     isOIDCIssuerReady L oldIssuer \<noteq> isOIDCIssuerReady L newIssuer)\<rparr>"

definition account_metadata_changed :: "ServiceAccount \<Rightarrow> ServiceAccount \<Rightarrow> bool" where
  "account_metadata_changed oldServiceAccount newServiceAccount \<longleftrightarrow>
     (DeletionTimestamp (sa_Meta oldServiceAccount) = None \<and> DeletionTimestamp (sa_Meta newServiceAccount) \<noteq> None) \<or>
     list_ex (\<lambda>key. map_get (sa_Labels oldServiceAccount) key \<noteq> map_get (sa_Labels newServiceAccount) key)
       [serviceAccountUseLabel, serviceAccountManagedBy, serviceAccountUID, serviceAccountCreatedBy] \<or>
     list_ex (\<lambda>key. map_get (sa_Annotations oldServiceAccount) key \<noteq> map_get (sa_Annotations newServiceAccount) key)
       [serviceAccountClientID, serviceAccountTenantID]"

definition serviceAccountDependencyPredicate :: "ServiceAccount event_predicate" where
  "serviceAccountDependencyPredicate = predicate_Funcs\<lparr>OnUpdate := both account_metadata_changed\<rparr>"

section \<open>What a filtered event cannot change\<close>

text \<open>Whether the metadata the operator wants is in place.\<close>

definition account_converged :: "WorkloadIdentity \<Rightarrow> ManagedIdentity \<Rightarrow> ServiceAccountProvenance \<Rightarrow> ServiceAccount \<Rightarrow> bool"
where
  "account_converged identity managed provenance serviceAccount \<longleftrightarrow>
     (let merged = merged_metadata identity managed provenance serviceAccount
      in sa_Labels serviceAccount = sa_Labels merged \<and> sa_Annotations serviceAccount = sa_Annotations merged)"

lemma merge_same_iff:
  assumes "\<And>k. k |\<in>| fmdom d \<Longrightarrow> map_get d k \<noteq> ''''"
  shows "m = mergeStringMap m d \<longleftrightarrow> (\<forall>k. k |\<in>| fmdom d \<longrightarrow> map_get m k = map_get d k)"
proof
  assume merged: "m = mergeStringMap m d"
  show "\<forall>k. k |\<in>| fmdom d \<longrightarrow> map_get m k = map_get d k"
  proof (intro allI impI)
    fix k assume "k |\<in>| fmdom d"
    then have "map_get (mergeStringMap m d) k = map_get d k" by simp
    with merged show "map_get m k = map_get d k" by metis
  qed
next
  assume eq: "\<forall>k. k |\<in>| fmdom d \<longrightarrow> map_get m k = map_get d k"
  have "fmlookup m k = fmlookup (mergeStringMap m d) k" for k
  proof (cases "k |\<in>| fmdom d")
    case True
    then obtain v where v: "fmlookup d k = Some v" by (auto simp: fmlookup_dom_iff)
    then have "v \<noteq> ''''" "map_get m k = v" using assms[OF True] eq True by (auto simp: map_get_def)
    then have "fmlookup m k = Some v" by (auto simp: map_get_def split: option.splits)
    with v True show ?thesis by (simp add: mergeStringMap_def)
  qed (simp add: mergeStringMap_def)
  then show "m = mergeStringMap m d" by (rule fmap_ext)
qed

lemma desired_values_nonempty:
  assumes "wi_UID identity \<noteq> ''''" and "mi_ClientID managed \<noteq> ''''"
  shows "k |\<in>| fmdom (desiredServiceAccountLabels identity b) \<Longrightarrow> map_get (desiredServiceAccountLabels identity b) k \<noteq> ''''"
    and "k |\<in>| fmdom (desiredServiceAccountAnnotations managed) \<Longrightarrow>
      map_get (desiredServiceAccountAnnotations managed) k \<noteq> ''''"
  using assms
  by (auto simp: desiredServiceAccountLabels_def desiredServiceAccountAnnotations_def Let_def const_defs fmt_t_def
      split: if_splits)

text \<open>
  C32. No drift is filtered away.  If the ServiceAccount filter drops an update, every WorkloadIdentity's
  inspection of the account ends as before, and the account's metadata is
  converged for it after the update exactly if it was before.
\<close>

theorem filtered_account_update_irrelevant:
  assumes "\<not> OnUpdate serviceAccountDependencyPredicate (Some old) (Some new)"
    and key: "object_key (sa_Meta old) = object_key (sa_Meta new)"
    and "wi_UID identity \<noteq> ''''" and "mi_ClientID managed \<noteq> ''''"
  shows "inspect_found identity new = inspect_found identity old \<and>
    account_converged identity managed provenance new = account_converged identity managed provenance old"
proof -
  have labels: "map_get (sa_Labels old) k = map_get (sa_Labels new) k"
    if "k \<in> {serviceAccountUseLabel, serviceAccountManagedBy, serviceAccountUID, serviceAccountCreatedBy}" for k
    using assms(1) that
    by (auto simp: serviceAccountDependencyPredicate_def predicate_Funcs_def account_metadata_changed_def)
  have annotations: "map_get (sa_Annotations old) k = map_get (sa_Annotations new) k"
    if "k \<in> {serviceAccountClientID, serviceAccountTenantID}" for k
    using assms(1) that
    by (auto simp: serviceAccountDependencyPredicate_def predicate_Funcs_def account_metadata_changed_def)
  have name: "sa_key_string old = sa_key_string new" using key by (simp add: sa_key_string_def)
  have "validateServiceAccountOwnership identity old = validateServiceAccountOwnership identity new"
    "validateUnownedServiceAccountAnnotations old = validateUnownedServiceAccountAnnotations new"
    "serviceAccountOwnedBy identity old = serviceAccountOwnedBy identity new"
    by (simp_all add: validateServiceAccountOwnership_def validateUnownedServiceAccountAnnotations_def
        serviceAccountOwnedBy_def Let_def labels annotations name)
  moreover from this have "serviceAccountProvenanceFromLabels identity old = serviceAccountProvenanceFromLabels identity new"
    by (simp add: serviceAccountProvenanceFromLabels_def labels)
  ultimately have "inspect_found identity new = inspect_found identity old"
    by (simp add: inspect_found_def cong: option.case_cong if_cong)
  moreover have "account_converged identity managed provenance new = account_converged identity managed provenance old"
  proof -
    let ?l = "desiredServiceAccountLabels identity (provenance = ServiceAccountProvenanceCreated)"
    let ?a = "desiredServiceAccountAnnotations managed"
    have "map_get (sa_Labels old) k = map_get (sa_Labels new) k" if "k |\<in>| fmdom ?l" for k
      using that labels by auto
    then have "sa_Labels new = mergeStringMap (sa_Labels new) ?l \<longleftrightarrow> sa_Labels old = mergeStringMap (sa_Labels old) ?l"
      using merge_same_iff[OF desired_values_nonempty(1)[OF assms(3,4)]] by metis
    moreover have "map_get (sa_Annotations old) k = map_get (sa_Annotations new) k" if "k |\<in>| fmdom ?a" for k
      using that annotations by (auto simp: desiredServiceAccountAnnotations_def Let_def split: if_splits)
    then have "sa_Annotations new = mergeStringMap (sa_Annotations new) ?a
        \<longleftrightarrow> sa_Annotations old = mergeStringMap (sa_Annotations old) ?a"
      using merge_same_iff[OF desired_values_nonempty(2)[OF assms(3,4)]] by metis
    ultimately show ?thesis by (simp add: account_converged_def merged_metadata_def)
  qed
  ultimately show ?thesis by blast
qed

definition labelled_account :: "string \<Rightarrow> ServiceAccount" where
  "labelled_account v = \<lparr> sa_Meta = \<lparr> Name = ''app'', Namespace = ''ns'', UID = ''sa-uid'', ResourceVersion = ''1'',
     Generation = 1, CreationTimestamp = 10, DeletionTimestamp = None, Finalizers = [],
     Labels = fmupd ''team'' v fmempty, Annotations = fmempty \<rparr> \<rparr>"

text \<open>A change of a foreign label is such an update.\<close>

theorem filtered_account_update_irrelevant_witness:
  "sa_Meta (labelled_account ''a'') \<noteq> sa_Meta (labelled_account ''b'') \<and>
   \<not> OnUpdate serviceAccountDependencyPredicate (Some (labelled_account ''a'')) (Some (labelled_account ''b'')) \<and>
   inspect_found demo_identity (labelled_account ''b'') = inspect_found demo_identity (labelled_account ''a'')"
proof -
  have "wi_UID demo_identity \<noteq> ''''" by (simp add: demo_identity_def demo_meta_def)
  moreover have dropped: "\<not> OnUpdate serviceAccountDependencyPredicate (Some (labelled_account ''a'')) (Some (labelled_account ''b''))"
    by (simp add: serviceAccountDependencyPredicate_def predicate_Funcs_def account_metadata_changed_def
        labelled_account_def const_defs)
  moreover have "object_key (sa_Meta (labelled_account ''a'')) = object_key (sa_Meta (labelled_account ''b''))"
    by (simp add: labelled_account_def object_key_def)
  moreover have "mi_ClientID \<lparr> mi_ClientID = ''client'', mi_PrincipalID = '''', mi_TenantID = '''', mi_AzureResources = [] \<rparr> \<noteq> ''''"
    by simp
  ultimately have "inspect_found demo_identity (labelled_account ''b'') = inspect_found demo_identity (labelled_account ''a'')"
    using filtered_account_update_irrelevant by blast
  moreover have "map_get (Labels (sa_Meta (labelled_account ''a''))) ''team'' \<noteq> map_get (Labels (sa_Meta (labelled_account ''b''))) ''team''"
    by (simp add: labelled_account_def)
  ultimately show ?thesis using dropped by metis
qed

section \<open>What a handoff wakes\<close>

text \<open>
  The status patches of the recovery reconciler on its target, as update events: \<open>wakes\<close> is the
  filter of the WorkloadIdentity controller on the object the patch was computed from and the object sent.
\<close>

definition wakes :: "k8s_lib \<Rightarrow> WorkloadIdentity \<Rightarrow> WorkloadIdentity \<Rightarrow> bool" where
  "wakes L objectOld objectNew = OnUpdate (workloadIdentityPrimaryPredicate L) (Some objectOld) (Some objectNew)"

definition waking_patches :: "('w \<Rightarrow> bool) \<Rightarrow> k8s_lib \<Rightarrow> 'w Cluster \<Rightarrow> (WorkloadIdentity \<Rightarrow> bool) \<Rightarrow> bool" where
  "waking_patches I L C except \<longleftrightarrow>
     (\<forall>x old. wakes L old x \<or> except old \<longrightarrow> preserves I (PatchWorkloadIdentityStatus C x (MergeFrom old)))"

lemma recovery_reasons_distinct [simp]:
  "recoveryReasonCompleted \<noteq> ReasonRecoveryInProgress" "recoveryReasonCancelled \<noteq> ReasonRecoveryInProgress"
  "ReasonRecoveryRequired \<noteq> ReasonRecoveryInProgress"
  by (simp_all add: const_defs)

lemma patched_target_wakes:
  assumes "condition_laws L" and "wi_Recovery (wi_Status current) \<noteq> None"
    and "wi_ready L current = Some cond" and "c_Status cond = ConditionFalse"
    and "c_Reason cond \<noteq> reason"
    and "reason = ReasonRecoveryInProgress \<or> reason = recoveryReasonCompleted \<or> reason = recoveryReasonCancelled"
  shows "wakes L current (current\<lparr>wi_Status := (wi_Status current)
     \<lparr>wi_Conditions := SetStatusCondition L (wi_Conditions (wi_Status current))
        \<lparr> c_Type = WorkloadIdentityConditionReady, c_Status = ConditionFalse,
          c_ObservedGeneration = g, c_Reason = reason, c_Message = message \<rparr>\<rparr>\<rparr>)"
  using assms
  by (auto simp: wakes_def workloadIdentityPrimaryPredicate_def predicate_Funcs_def
      workloadIdentityRecoveryWakeTransition_def workloadIdentityRecoveryIsInProgress_def
      workloadIdentityRecoveryReason_def condition_law_simps)

lemma target_patch_wakes:
  assumes laws: "condition_laws L" and reader: "reader_keeps I (recoveryReader r)"
    and patches: "waking_patches I L (rr_Client r) (\<lambda>old. reason = ReasonRecoveryInProgress \<and>
      workloadIdentityRecoveryIsInProgress L old)"
    and reasons: "reason = ReasonRecoveryInProgress \<or>
      reason \<in> {recoveryReasonCompleted, recoveryReasonCancelled} \<and> reason \<notin> set fromReasons"
  shows "preserves I (patchTargetRecoveryCondition L r recovery target fromReasons reason message)"
proof -
  have patch: "preserves I (PatchWorkloadIdentityStatus (rr_Client r)
      (current\<lparr>wi_Status := (wi_Status current)
         \<lparr>wi_Conditions := SetStatusCondition L (wi_Conditions (wi_Status current))
            \<lparr> c_Type = WorkloadIdentityConditionReady, c_Status = ConditionFalse,
              c_ObservedGeneration = Generation (wi_Meta current), c_Reason = reason, c_Message = message \<rparr>\<rparr>\<rparr>)
      (MergeFrom current))"
    if "wi_Recovery (wi_Status current) \<noteq> None" "wi_ready L current = Some cond" "c_Status cond = ConditionFalse"
      "c_Reason cond \<in> set fromReasons" for current cond
  proof (cases "c_Reason cond = reason")
    case True
    with reasons that have "reason = ReasonRecoveryInProgress \<and> workloadIdentityRecoveryIsInProgress L current"
      by (auto simp: workloadIdentityRecoveryIsInProgress_def workloadIdentityRecoveryReason_def)
    then show ?thesis using patches by (auto simp: waking_patches_def)
  next
    case False
    from patched_target_wakes[OF laws that(1-3) False] reasons patches show ?thesis
      by (auto simp: waking_patches_def)
  qed
  show ?thesis
    unfolding patchTargetRecoveryCondition_def
    by (intro preserves_intros reader patch) (auto split: option.splits)
qed

text \<open>
  C33. No handoff is lost.  Every status patch by which a recovery takes its target over, completes
  it or releases it passes the update filter of the WorkloadIdentity controller, so that the controller is woken:
  the marking and the two releases keep whatever is kept by cluster reads and by patches the filter
  lets through (for the marking also by the repeated patch of a target that is in progress already).
\<close>

theorem recovery_handoffs_wake_controller:
  assumes "condition_laws L" and "reader_keeps I (recoveryReader r)"
    and "waking_patches I L (rr_Client r) (\<lambda>_. False)"
    and "waking_patches J L (rr_Client r) (workloadIdentityRecoveryIsInProgress L)" and "reader_keeps J (recoveryReader r)"
  shows "preserves I (releaseCompletedTarget L r recovery) \<and> preserves I (releaseCancelledTarget L r recovery) \<and>
    preserves J (markTargetRecoveryInProgress L r recovery identity)"
proof -
  have "preserves I (releaseCompletedTarget L r recovery)" "preserves I (releaseCancelledTarget L r recovery)"
    unfolding releaseCompletedTarget_def releaseCancelledTarget_def
    using assms(3) by (auto intro!: target_patch_wakes[OF assms(1,2)])
  moreover have "preserves J (markTargetRecoveryInProgress L r recovery identity)"
    unfolding markTargetRecoveryInProgress_def
    by (rule target_patch_wakes[OF assms(1,5)]) (use assms(4) in \<open>auto simp: waking_patches_def\<close>)
  ultimately show ?thesis by blast
qed

theorem recovery_handoffs_wake_controller_witness:
  "preserves (\<lambda>w. sim_azure w = demo_store) (releaseCompletedTarget std_lib demo_reconciler demo_recovery) \<and>
   preserves (\<lambda>w. sim_azure w = demo_store) (releaseCancelledTarget std_lib demo_reconciler demo_recovery) \<and>
   preserves (\<lambda>w. sim_azure w = demo_store) (markTargetRecoveryInProgress std_lib demo_reconciler demo_recovery demo_identity)"
proof (rule recovery_handoffs_wake_controller)
  let ?I = "\<lambda>w. sim_azure w = demo_store"
  show "condition_laws std_lib" using std_lib_laws by (simp add: k8s_lib_laws_def)
  show "reader_keeps ?I (recoveryReader demo_reconciler)" "reader_keeps ?I (recoveryReader demo_reconciler)"
    using sim_reader_azure[of "\<lambda>s. s = demo_store"]
    by (simp_all add: recoveryReader_def demo_reconciler_def sim_cluster_def split: option.split)
  have "cluster_keeps ?I sim_cluster {PatchesWorkloadIdentityStatus}"
    using sim_cluster_azure[of "\<lambda>s. s = demo_store"] .
  then have "preserves ?I (PatchWorkloadIdentityStatus (rr_Client demo_reconciler) x p)" for x p
    by (simp add: cluster_keeps_def demo_reconciler_def)
  then show "waking_patches ?I std_lib (rr_Client demo_reconciler) (\<lambda>_. False)"
    "waking_patches ?I std_lib (rr_Client demo_reconciler) (workloadIdentityRecoveryIsInProgress std_lib)"
    by (simp_all add: waking_patches_def)
qed

section \<open>The other filters\<close>

text \<open>A dropped update of the issuer changes nothing the WorkloadIdentity reconciler reads of it.\<close>

lemma filtered_issuer_update_irrelevant:
  assumes "\<not> OnUpdate (oidcIssuerDependencyPredicate L) (Some old) (Some new)"
  shows "isOIDCIssuerReady L new = isOIDCIssuerReady L old \<and> oi_IssuerURL (oi_Status new) = oi_IssuerURL (oi_Status old)"
  using assms by (auto simp: oidcIssuerDependencyPredicate_def predicate_Funcs_def)

text \<open>A dropped update of a recovery's target leaves the recovery's check of it as it was.\<close>

lemma filtered_target_update_irrelevant:
  assumes "\<not> OnUpdate (workloadIdentityRecoveryTargetPredicate L) (Some old) (Some new)"
    and "wi_UID old = wi_UID new" and "r_SourceUID recovery \<noteq> ''''"
    and "DeletionTimestamp (wi_Meta old) \<noteq> None \<Longrightarrow>
      DeletionTimestamp (wi_Meta new) = DeletionTimestamp (wi_Meta old)"
  shows "validateRecoveryControllerTarget L recovery new = validateRecoveryControllerTarget L recovery old"
proof -
  have gen: "Generation (wi_Meta old) = Generation (wi_Meta new)"
    and del: "deletion_is_zero (wi_Meta old) \<longleftrightarrow> deletion_is_zero (wi_Meta new)"
    and unchanged: "\<not> workloadIdentityRecoveryStateChanged L old new"
    using assms(1,4)
    by (auto simp: workloadIdentityRecoveryTargetPredicate_def predicate_Funcs_def deletion_is_zero_def
        split: option.splits)
  show ?thesis
  proof (cases "recovery_source new = r_SourceUID recovery")
    case False
    then have "(case wi_Recovery (wi_Status i) of None \<Rightarrow> True
        | Some rec \<Rightarrow> rrs_PreviousWorkloadIdentityUID rec \<noteq> r_SourceUID recovery)" if "i = old \<or> i = new" for i
      using unchanged that
      by (auto simp: workloadIdentityRecoveryStateChanged_def recovery_source_def split: option.splits if_splits)
    then show ?thesis using assms(2) by (simp add: validateRecoveryControllerTarget_def)
  next
    case True
    have same: "recovery_source old = recovery_source new"
      using unchanged by (auto simp: workloadIdentityRecoveryStateChanged_def split: if_splits)
    obtain ro rn where evidence: "wi_Recovery (wi_Status old) = Some ro" "wi_Recovery (wi_Status new) = Some rn"
        "rrs_PreviousWorkloadIdentityUID ro = r_SourceUID recovery" "rrs_PreviousWorkloadIdentityUID rn = r_SourceUID recovery"
      using True same assms(3) by (auto simp: recovery_source_def split: option.splits)
    show ?thesis
    proof (cases "wi_ready L old")
      case None
      then have "wi_ready L new = None"
        using unchanged same evidence(1) by (auto simp: workloadIdentityRecoveryStateChanged_def split: option.splits)
      with None evidence assms(2) show ?thesis by (simp add: validateRecoveryControllerTarget_def)
    next
      case (Some x)
      then obtain y where "wi_ready L new = Some y" "c_Status x = c_Status y" "c_Reason x = c_Reason y"
          "c_ObservedGeneration x = c_ObservedGeneration y"
        using unchanged same evidence(1) by (auto simp: workloadIdentityRecoveryStateChanged_def split: option.splits)
      with Some evidence assms(2) gen del show ?thesis by (simp add: validateRecoveryControllerTarget_def)
    qed
  qed
qed

end
