(* ===== verification/Base64.thy ===== *)
theory Base64
  imports Prelude
begin

text \<open>
  \<open>encoding/base64\<close>'s \<open>RawURLEncoding\<close> (the URL alphabet, no padding), used for the JSON Web Keys
  and for the payload of a token.  Decoding skips carriage returns and line feeds and ignores the
  unused bits of a last, partial group, as the Go package does; an error is the offset it reports.
\<close>

section \<open>The alphabet\<close>

definition b64_char :: "nat \<Rightarrow> char" where
  "b64_char n =
     (if n < 26 then char_of (65 + n) else if n < 52 then char_of (97 + (n - 26))
      else if n < 62 then char_of (48 + (n - 52)) else if n = 62 then CHR ''-'' else CHR ''_'')"

definition b64_value :: "char \<Rightarrow> nat option" where
  "b64_value c =
     (if is_upper c then Some (byte_of c - 65) else if is_lower c then Some (byte_of c - 97 + 26)
      else if is_digit c then Some (byte_of c - 48 + 52) else if c = CHR ''-'' then Some 62
      else if c = CHR ''_'' then Some 63 else None)"

lemma byte_of_char_of: "n < 256 \<Longrightarrow> byte_of (char_of n) = n"
  by simp

lemma b64_value_char: "n < 64 \<Longrightarrow> b64_value (b64_char n) = Some n"
proof -
  assume n: "n < 64"
  consider "n < 26" | "26 \<le> n" "n < 52" | "52 \<le> n" "n < 62" | "n = 62" | "n = 63" using n by linarith
  then show ?thesis
    by cases (auto simp: b64_value_def b64_char_def char_class_defs byte_of_char_of)
qed

definition b64_newline :: "char \<Rightarrow> bool" where
  "b64_newline c \<longleftrightarrow> byte_of c = 10 \<or> byte_of c = 13"

lemma b64_char_not_newline [simp]: "\<not> b64_newline (b64_char n)"
  by (auto simp: b64_newline_def b64_char_def)

lemma b64_char_not_dot: "n < 64 \<Longrightarrow> b64_char n \<noteq> CHR ''.''"
  using b64_value_char[of n] by (auto simp: b64_value_def char_class_defs)

section \<open>Encoding and decoding\<close>

fun b64_sextets :: "nat list \<Rightarrow> nat list" where
  "b64_sextets [] = []"
| "b64_sextets [a] = [a div 4, a mod 4 * 16]"
| "b64_sextets [a, b] = [a div 4, a mod 4 * 16 + b div 16, b mod 16 * 4]"
| "b64_sextets (a # b # c # r) =
     [a div 4, a mod 4 * 16 + b div 16, b mod 16 * 4 + c div 64, c mod 64] @ b64_sextets r"

definition base64url :: "string \<Rightarrow> string" where
  "base64url s = map b64_char (b64_sextets (map byte_of s))"

text \<open>The values of the characters, or the offset of the first that is not in the alphabet.\<close>

fun b64_values :: "nat \<Rightarrow> string \<Rightarrow> nat + nat list" where
  "b64_values i [] = Inr []"
| "b64_values i (c # s) =
     (if b64_newline c then b64_values (Suc i) s
      else case b64_value c of
        None \<Rightarrow> Inl i
      | Some v \<Rightarrow> (case b64_values (Suc i) s of Inl e \<Rightarrow> Inl e | Inr vs \<Rightarrow> Inr (v # vs)))"

fun b64_bytes :: "nat list \<Rightarrow> nat list option" where
  "b64_bytes [] = Some []"
| "b64_bytes [x] = None"
| "b64_bytes [x, y] = Some [x * 4 + y div 16]"
| "b64_bytes [x, y, z] = Some [x * 4 + y div 16, y mod 16 * 16 + z div 4]"
| "b64_bytes (x # y # z # w # r) =
     map_option (\<lambda>bs. [x * 4 + y div 16, y mod 16 * 16 + z div 4, z mod 4 * 64 + w] @ bs) (b64_bytes r)"

definition base64url_decode :: "string \<Rightarrow> nat + string" where
  "base64url_decode s =
     (case b64_values 0 s of
        Inl i \<Rightarrow> Inl i
      | Inr vs \<Rightarrow> (case b64_bytes vs of
            None \<Rightarrow> Inl (length s - 1)
          | Some bs \<Rightarrow> Inr (map char_of bs)))"

section \<open>Round trip\<close>

lemma sextet_bounds:
  fixes a b c :: nat
  shows "a < 256 \<Longrightarrow> a div 4 < 64" and "b < 256 \<Longrightarrow> a mod 4 * 16 + b div 16 < 64"
    and "c < 256 \<Longrightarrow> b mod 16 * 4 + c div 64 < 64" and "a mod 4 * 16 < 64" and "b mod 16 * 4 < 64"
proof -
  have mods: "a mod 4 < 4" "b mod 16 < 16" by simp_all
  show "a < 256 \<Longrightarrow> a div 4 < 64" by (simp add: less_mult_imp_div_less)
  show "a mod 4 * 16 + b div 16 < 64" if "b < 256"
    using less_mult_imp_div_less[of b 16 16] that mods(1) by linarith
  show "b mod 16 * 4 + c div 64 < 64" if "c < 256"
    using less_mult_imp_div_less[of c 4 64] that mods(2) by linarith
  show "a mod 4 * 16 < 64" "b mod 16 * 4 < 64" using mods by linarith+
qed

lemma sextets_range: "\<forall>a \<in> set bs. a < 256 \<Longrightarrow> \<forall>v \<in> set (b64_sextets bs). v < 64"
  by (induction bs rule: b64_sextets.induct) (auto simp: sextet_bounds)

lemma group_bytes:
  fixes a b c :: nat
  assumes "b < 256" and "c < 256"
  shows "a div 4 * 4 + (a mod 4 * 16 + b div 16) div 16 = a"
    and "(a mod 4 * 16 + b div 16) mod 16 * 16 + (b mod 16 * 4 + c div 64) div 4 = b"
    and "(b mod 16 * 4 + c div 64) mod 4 * 64 + c mod 64 = c"
proof -
  have small: "b div 16 < 16" "c div 64 < 4" using assms by simp_all
  have "(a mod 4 * 16 + b div 16) div 16 = a mod 4" "(a mod 4 * 16 + b div 16) mod 16 = b div 16"
    using small(1) by (simp_all add: div_add1_eq mod_add_eq)
  moreover have "(b mod 16 * 4 + c div 64) div 4 = b mod 16" "(b mod 16 * 4 + c div 64) mod 4 = c div 64"
    using small(2) by (simp_all add: div_add1_eq mod_add_eq)
  ultimately show "a div 4 * 4 + (a mod 4 * 16 + b div 16) div 16 = a"
    "(a mod 4 * 16 + b div 16) mod 16 * 16 + (b mod 16 * 4 + c div 64) div 4 = b"
    "(b mod 16 * 4 + c div 64) mod 4 * 64 + c mod 64 = c"
    by simp_all
qed

lemma bytes_sextets: "\<forall>a \<in> set bs. a < 256 \<Longrightarrow> b64_bytes (b64_sextets bs) = Some bs"
proof (induction bs rule: b64_sextets.induct)
  case (2 a)
  then show ?case using group_bytes(1)[where a = a and b = 0] by simp
next
  case (3 a b)
  then show ?case using group_bytes(1)[where a = a and b = b] group_bytes(2)[where a = a and b = b and c = 0] by simp
next
  case (4 a b c r)
  then show ?case
    using group_bytes(1)[where a = a and b = b] group_bytes(2)[where a = a and b = b and c = c]
      group_bytes(3)[where b = b and c = c]
    by simp
qed simp

lemma values_chars:
  "\<forall>v \<in> set vs. v < 64 \<Longrightarrow> b64_values i (map b64_char vs) = Inr vs"
  by (induction vs arbitrary: i) (auto simp: b64_value_char)

lemma base64url_roundtrip: "base64url_decode (base64url s) = Inr s"
proof -
  let ?bs = "map byte_of s"
  have bytes: "\<forall>a \<in> set ?bs. a < 256" by simp
  have "b64_values 0 (base64url s) = Inr (b64_sextets ?bs)"
    unfolding base64url_def by (rule values_chars[OF sextets_range[OF bytes]])
  then show ?thesis
    using bytes_sextets[OF bytes] by (simp add: base64url_decode_def o_def)
qed

lemma base64url_no_dot: "CHR ''.'' \<notin> set (base64url s)"
proof -
  have "\<forall>v \<in> set (b64_sextets (map byte_of s)). v < 64" by (rule sextets_range) simp
  then show ?thesis using b64_char_not_dot by (force simp: base64url_def)
qed

end
