(* ===== verification/Json.thy ===== *)
theory Json
  imports Prelude
begin

text \<open>
  The parts of \<open>encoding/json\<close> the sources use: \<open>Marshal\<close> of strings, string lists and objects, and
  the reading of a JSON text by \<open>Unmarshal\<close>.  Texts are byte strings; bytes from 128 on are copied
  (Go replaces invalid UTF-8 and escapes two line separators, which no issuer URL contains).
\<close>

section \<open>Values\<close>

datatype json =
    JNull | JBool bool | JNumber string | JString string | JArray "json list" | JObject "(string \<times> json) list"

abbreviation quote_byte :: char where "quote_byte \<equiv> CHR 0x22"
abbreviation backslash :: char where "backslash \<equiv> CHR 0x5C"

section \<open>Writing\<close>

definition json_escape :: "char \<Rightarrow> string" where
  "json_escape c =
     (let n = byte_of c in
      if n = 34 \<or> n = 92 then [backslash, c]
      else if n = 8 then [backslash, CHR ''b''] else if n = 12 then [backslash, CHR ''f'']
      else if n = 10 then [backslash, CHR ''n''] else if n = 13 then [backslash, CHR ''r'']
      else if n = 9 then [backslash, CHR ''t'']
      else if n < 32 \<or> n = 60 \<or> n = 62 \<or> n = 38
      then [backslash, CHR ''u'', CHR ''0'', CHR ''0'', hex_digit (n div 16), hex_digit (n mod 16)]
      else [c])"

definition json_string_text :: "string \<Rightarrow> string" where
  "json_string_text s = quote_byte # concat (map json_escape s) @ [quote_byte]"

fun json_text :: "json \<Rightarrow> string" where
  "json_text JNull = ''null''"
| "json_text (JBool b) = fmt_t b"
| "json_text (JNumber s) = s"
| "json_text (JString s) = json_string_text s"
| "json_text (JArray xs) = ''['' @ join '','' (map json_text xs) @ '']''"
| "json_text (JObject ms) =
     CHR ''{'' # join '','' (map (\<lambda>m. json_string_text (fst m) @ '':'' @ json_text (snd m)) ms) @ [CHR ''}'']"

section \<open>Reading\<close>

definition is_json_space :: "char \<Rightarrow> bool" where
  "is_json_space c \<longleftrightarrow> byte_of c \<in> {9, 10, 13, 32}"

definition skip_ws :: "string \<Rightarrow> string" where
  "skip_ws s = dropWhile is_json_space s"

definition hex_value :: "char \<Rightarrow> nat option" where
  "hex_value c =
     (let n = byte_of c in
      if 48 \<le> n \<and> n \<le> 57 then Some (n - 48) else if 97 \<le> n \<and> n \<le> 102 then Some (n - 87)
      else if 65 \<le> n \<and> n \<le> 70 then Some (n - 55) else None)"

fun hex4 :: "string \<Rightarrow> nat option" where
  "hex4 [a, b, c, d] =
     (case (hex_value a, hex_value b, hex_value c, hex_value d) of
        (Some x, Some y, Some z, Some w) \<Rightarrow> Some (((x * 16 + y) * 16 + z) * 16 + w)
      | _ \<Rightarrow> None)"
| "hex4 _ = None"

definition utf8 :: "nat \<Rightarrow> string" where
  "utf8 n =
     (if n < 128 then [char_of n]
      else if n < 2048 then [char_of (192 + n div 64), char_of (128 + n mod 64)]
      else if n < 65536 then [char_of (224 + n div 4096), char_of (128 + n div 64 mod 64), char_of (128 + n mod 64)]
      else [char_of (240 + n div 262144), char_of (128 + n div 4096 mod 64),
            char_of (128 + n div 64 mod 64), char_of (128 + n mod 64)])"

definition replacement_rune :: nat where "replacement_rune = 65533"

text \<open>\<open>\\uXXXX\<close> after its \<open>u\<close>: the bytes written and the input left; surrogate pairs are joined.\<close>

definition unicode_escape :: "string \<Rightarrow> (string \<times> string) option" where
  "unicode_escape s =
     (case hex4 (take 4 s) of
        None \<Rightarrow> None
      | Some n \<Rightarrow>
          let r = drop 4 s in
          if 55296 \<le> n \<and> n < 57344
          then (case (if take 2 r = [backslash, CHR ''u''] then hex4 (take 4 (drop 2 r)) else None) of
                  Some m \<Rightarrow>
                    if n < 56320 \<and> 56320 \<le> m \<and> m < 57344
                    then Some (utf8 (65536 + (n - 55296) * 1024 + (m - 56320)), drop 6 r)
                    else Some (utf8 replacement_rune, r)
                | None \<Rightarrow> Some (utf8 replacement_rune, r))
          else Some (utf8 n, r))"

definition simple_escape :: "char \<Rightarrow> char option" where
  "simple_escape c =
     (if c = quote_byte \<or> c = backslash \<or> c = CHR ''/'' then Some c
      else if c = CHR ''b'' then Some (CHR 0x08) else if c = CHR ''f'' then Some (CHR 0x0C)
      else if c = CHR ''n'' then Some (CHR 0x0A) else if c = CHR ''r'' then Some (CHR 0x0D)
      else if c = CHR ''t'' then Some (CHR 0x09) else None)"

text \<open>A string after its opening quote: its value and the input after its closing quote.\<close>

lemma unicode_escape_shorter:
  "unicode_escape s = Some (v, r) \<Longrightarrow> length r \<le> length s"
  by (auto simp: unicode_escape_def Let_def split: option.splits if_splits)

function (sequential) json_string :: "string \<Rightarrow> (string \<times> string) option" where
  "json_string [] = None"
| "json_string (c # s) =
     (if c = quote_byte then Some ([], s)
      else if byte_of c < 32 then None
      else if c = backslash then
        (case s of
           [] \<Rightarrow> None
         | e # s' \<Rightarrow>
             if e = CHR ''u'' then
               (case unicode_escape s' of
                  None \<Rightarrow> None
                | Some (v, r) \<Rightarrow> map_option (\<lambda>(t, r'). (v @ t, r')) (json_string r))
             else (case simple_escape e of
                     None \<Rightarrow> None
                   | Some v \<Rightarrow> map_option (\<lambda>(t, r'). (v # t, r')) (json_string s')))
      else map_option (\<lambda>(t, r'). (c # t, r')) (json_string s))"
  by pat_completeness auto
termination
  by (relation "measure length") (auto dest!: unicode_escape_shorter)

text \<open>Numbers: the longest run of number characters has to be one number.\<close>

definition is_number_char :: "char \<Rightarrow> bool" where
  "is_number_char c \<longleftrightarrow> is_digit c \<or> c = CHR ''-'' \<or> c = CHR ''+'' \<or> c = CHR ''.'' \<or> c = CHR ''e'' \<or> c = CHR ''E''"

definition some_digits :: "string \<Rightarrow> string option" where
  "some_digits s = (if takeWhile is_digit s = [] then None else Some (dropWhile is_digit s))"

definition exponent_ok :: "string \<Rightarrow> bool" where
  "exponent_ok s =
     (case s of [] \<Rightarrow> True
      | c # r \<Rightarrow>
          (c = CHR ''e'' \<or> c = CHR ''E'') \<and>
          some_digits (case r of d # r' \<Rightarrow> if d = CHR ''+'' \<or> d = CHR ''-'' then r' else r | [] \<Rightarrow> r) = Some [])"

definition fraction_ok :: "string \<Rightarrow> bool" where
  "fraction_ok s =
     (case s of [] \<Rightarrow> True
      | c # r \<Rightarrow> if c = CHR ''.'' then (case some_digits r of None \<Rightarrow> False | Some t \<Rightarrow> exponent_ok t) else exponent_ok s)"

definition valid_number :: "string \<Rightarrow> bool" where
  "valid_number s =
     (let t = (case s of c # r \<Rightarrow> if c = CHR ''-'' then r else s | [] \<Rightarrow> s) in
      case t of
        [] \<Rightarrow> False
      | d # r \<Rightarrow> if d = CHR ''0'' then fraction_ok r
                else (case some_digits t of None \<Rightarrow> False | Some u \<Rightarrow> fraction_ok u))"

definition strip_prefix :: "string \<Rightarrow> string \<Rightarrow> string option" where
  "strip_prefix p s = (if take (length p) s = p then Some (drop (length p) s) else None)"

definition json_literal :: "string \<Rightarrow> (json \<times> string) option" where
  "json_literal s =
     (case strip_prefix ''null'' s of Some r \<Rightarrow> Some (JNull, r)
      | None \<Rightarrow> (case strip_prefix ''true'' s of Some r \<Rightarrow> Some (JBool True, r)
      | None \<Rightarrow> (case strip_prefix ''false'' s of Some r \<Rightarrow> Some (JBool False, r)
      | None \<Rightarrow>
          let n = takeWhile is_number_char s in
          if valid_number n then Some (JNumber n, dropWhile is_number_char s) else None)))"

text \<open>A value costs at most two calls for every byte it consumes, which bounds the fuel (see \<open>json_fuel_enough\<close>).\<close>

fun json_value :: "nat \<Rightarrow> string \<Rightarrow> (json \<times> string) option"
and json_elements :: "nat \<Rightarrow> string \<Rightarrow> (json list \<times> string) option"
and json_members :: "nat \<Rightarrow> string \<Rightarrow> ((string \<times> json) list \<times> string) option" where
  "json_value 0 s = None"
| "json_value (Suc n) s =
     (case skip_ws s of
        [] \<Rightarrow> None
      | c # r \<Rightarrow>
          if c = quote_byte then map_option (\<lambda>(v, t). (JString v, t)) (json_string r)
          else if c = CHR ''['' then
            (case skip_ws r of
               [] \<Rightarrow> None
             | d # t \<Rightarrow> if d = CHR '']'' then Some (JArray [], t)
                        else map_option (\<lambda>(vs, t). (JArray vs, t)) (json_elements n (d # t)))
          else if c = CHR ''{'' then
            (case skip_ws r of
               [] \<Rightarrow> None
             | d # t \<Rightarrow> if d = CHR ''}'' then Some (JObject [], t)
                        else map_option (\<lambda>(ms, t). (JObject ms, t)) (json_members n (d # t)))
          else json_literal (c # r))"
| "json_elements 0 s = None"
| "json_elements (Suc n) s =
     (case json_value n s of
        None \<Rightarrow> None
      | Some (v, r) \<Rightarrow>
          (case skip_ws r of
             [] \<Rightarrow> None
           | c # t \<Rightarrow> if c = CHR '']'' then Some ([v], t)
                      else if c = CHR '','' then map_option (\<lambda>(vs, u). (v # vs, u)) (json_elements n t)
                      else None))"
| "json_members 0 s = None"
| "json_members (Suc n) s =
     (case skip_ws s of
        [] \<Rightarrow> None
      | q # r \<Rightarrow>
          if q \<noteq> quote_byte then None
          else (case json_string r of
             None \<Rightarrow> None
           | Some (k, r') \<Rightarrow>
               (case skip_ws r' of
                  [] \<Rightarrow> None
                | c # t \<Rightarrow>
                    if c \<noteq> CHR '':'' then None
                    else (case json_value n t of
                       None \<Rightarrow> None
                     | Some (v, u) \<Rightarrow>
                         (case skip_ws u of
                            [] \<Rightarrow> None
                          | d # w \<Rightarrow> if d = CHR ''}'' then Some ([(k, v)], w)
                                     else if d = CHR '','' then map_option (\<lambda>(ms, z). ((k, v) # ms, z)) (json_members n w)
                                     else None)))))"

declare json_value.simps [simp del] json_elements.simps [simp del] json_members.simps [simp del]

fun json_depth :: "json \<Rightarrow> nat" where
  "json_depth (JArray xs) = Suc (fold max (map json_depth xs) 0)"
| "json_depth (JObject ms) = Suc (fold max (map (\<lambda>m. json_depth (snd m)) ms) 0)"
| "json_depth _ = 0"

definition maxNestingDepth :: nat where "maxNestingDepth = 10000"

definition json_parse :: "string \<Rightarrow> json option" where
  "json_parse s =
     (case json_value (Suc (2 * length s)) s of
        None \<Rightarrow> None
      | Some (v, r) \<Rightarrow> if skip_ws r = [] \<and> json_depth v \<le> maxNestingDepth then Some v else None)"

section \<open>Strings survive the round trip\<close>

lemma hex_value_digit [simp]: "k < 16 \<Longrightarrow> hex_value (hex_digit k) = Some k"
  by (cases "k < 10") (simp_all add: hex_value_def hex_digit_def)

lemma unicode_escape_byte:
  assumes "n < 128"
  shows "unicode_escape (CHR ''0'' # CHR ''0'' # hex_digit (n div 16) # hex_digit (n mod 16) # t) = Some ([char_of n], t)"
proof -
  have "hex_value (CHR ''0'') = Some 0" by (simp add: hex_value_def)
  then have "hex4 [CHR ''0'', CHR ''0'', hex_digit (n div 16), hex_digit (n mod 16)] = Some n"
    using assms by simp
  then show ?thesis using assms by (simp add: unicode_escape_def utf8_def)
qed

lemma json_control_chars:
  "byte_of c = 34 \<longleftrightarrow> c = quote_byte" "byte_of c = 92 \<longleftrightarrow> c = backslash" "byte_of c = 8 \<longleftrightarrow> c = CHR 0x08"
  "byte_of c = 9 \<longleftrightarrow> c = CHR 0x09" "byte_of c = 10 \<longleftrightarrow> c = CHR 0x0A" "byte_of c = 12 \<longleftrightarrow> c = CHR 0x0C"
  "byte_of c = 13 \<longleftrightarrow> c = CHR 0x0D"
  by (auto simp flip: of_char_eq_iff[where 'a = nat])

lemma json_string_simple:
  "simple_escape e = Some v \<Longrightarrow> json_string (backslash # e # t) = map_option (\<lambda>(u, r). (v # u, r)) (json_string t)"
  by (auto simp: simple_escape_def split: if_splits)

lemma json_string_escape:
  "json_string (json_escape c @ t) = map_option (\<lambda>(v, r). (c # v, r)) (json_string t)"
proof -
  let ?n = "byte_of c"
  have c: "c = char_of ?n" by simp
  consider "?n = 34 \<or> ?n = 92" | "?n \<in> {8, 9, 10, 12, 13}"
    | "?n < 32 \<or> ?n = 60 \<or> ?n = 62 \<or> ?n = 38" "?n \<notin> {8, 9, 10, 12, 13}"
    | "32 \<le> ?n" "?n \<notin> {34, 92, 60, 62, 38}"
    by atomize_elim auto
  then show ?thesis
  proof cases
    case 1
    then have "json_escape c = [backslash, c]" by (simp add: json_escape_def Let_def)
    moreover have "simple_escape c = Some c" using 1 by (auto simp: simple_escape_def json_control_chars)
    ultimately show ?thesis by (simp add: json_string_simple del: json_string.simps)
  next
    case 2
    then consider "c = CHR 0x08" | "c = CHR 0x09" | "c = CHR 0x0A"
      | "c = CHR 0x0C" | "c = CHR 0x0D" by (auto simp: json_control_chars)
    then have "\<exists>e. json_escape c = [backslash, e] \<and> simple_escape e = Some c"
      by cases (simp_all add: json_escape_def simple_escape_def)
    then show ?thesis by (auto simp: json_string_simple simp del: json_string.simps)
  next
    case 3
    then have "json_escape c = [backslash, CHR ''u'', CHR ''0'', CHR ''0'', hex_digit (?n div 16), hex_digit (?n mod 16)]"
      by (auto simp: json_escape_def Let_def)
    moreover have "?n < 128" using 3 by auto
    ultimately show ?thesis
      using unicode_escape_byte[of ?n t] by (simp add: option.map_comp comp_def case_prod_unfold)
  next
    case 4
    then have "json_escape c = [c]" by (simp add: json_escape_def Let_def)
    moreover have "c \<noteq> quote_byte" "c \<noteq> backslash" using 4 by auto
    ultimately show ?thesis using 4 by simp
  qed
qed

lemma json_string_roundtrip:
  "json_string (concat (map json_escape s) @ quote_byte # r) = Some (s, r)"
  by (induction s) (simp, simp add: json_string_escape del: json_string.simps)

section \<open>Reading consumes, and the fuel suffices\<close>

lemma skip_ws_shorter [simp]: "length (skip_ws s) \<le> length s"
  by (simp add: skip_ws_def length_dropWhile_le)

lemma skip_ws_Cons: "skip_ws s = c # r \<Longrightarrow> length r < length s"
  using skip_ws_shorter[of s] by simp

lemma json_string_shorter: "json_string s = Some (v, r) \<Longrightarrow> length r < length s"
proof (induction s arbitrary: v r rule: json_string.induct)
  case (2 c s)
  show ?case
    using "2.prems" "2.IH" by (fastforce split: if_splits list.splits option.splits dest: unicode_escape_shorter)
qed simp

lemma strip_prefix_shorter: "strip_prefix (c # p) s = Some r \<Longrightarrow> length r < length s"
  by (cases s) (auto simp: strip_prefix_def split: if_splits)

lemma json_literal_shorter:
  assumes "json_literal s = Some (v, r)" shows "length r < length s"
proof -
  have "length (dropWhile is_number_char s) < length s" if "valid_number (takeWhile is_number_char s)"
  proof -
    have "takeWhile is_number_char s \<noteq> []" using that by (auto simp: valid_number_def)
    moreover have "length (takeWhile is_number_char s) + length (dropWhile is_number_char s) = length s"
      by (metis length_append takeWhile_dropWhile_id)
    ultimately show ?thesis by (metis add_less_same_cancel2 length_greater_0_conv linorder_not_less less_add_same_cancel2)
  qed
  then show ?thesis
    using assms by (auto simp: json_literal_def Let_def dest: strip_prefix_shorter split: option.splits if_splits)
qed

lemma json_shorter:
  "json_value n s = Some (v, r) \<Longrightarrow> length r < length s"
  "json_elements n s = Some (vs, r) \<Longrightarrow> length r < length s"
  "json_members n s = Some (ms, r) \<Longrightarrow> length r < length s"
proof (induction n arbitrary: s v vs ms r)
  case 0
  { case 1 then show ?case by (simp add: json_value.simps) }
  { case 2 then show ?case by (simp add: json_elements.simps) }
  { case 3 then show ?case by (simp add: json_members.simps) }
next
  case (Suc n)
  { case 1 then show ?case
      by (auto simp: json_value.simps split: list.splits if_splits dest!: skip_ws_Cons json_string_shorter
          json_literal_shorter Suc.IH(2,3)) }
  { case 2 then show ?case
      by (auto simp: json_elements.simps split: list.splits if_splits option.splits dest!: skip_ws_Cons Suc.IH(1,2)) }
  { case 3 then show ?case
      by (auto simp: json_members.simps split: list.splits if_splits option.splits dest!: skip_ws_Cons
          json_string_shorter Suc.IH(1,3)) }
qed

lemma json_fuel_enough:
  "2 * length s < n \<Longrightarrow> 2 * length s < m \<Longrightarrow> json_value n s = json_value m s"
  "2 * length s + 1 < n \<Longrightarrow> 2 * length s + 1 < m \<Longrightarrow> json_elements n s = json_elements m s"
  "2 * length s + 1 < n \<Longrightarrow> 2 * length s + 1 < m \<Longrightarrow> json_members n s = json_members m s"
proof (induction n arbitrary: s m)
  case (Suc n)
  { case 1
    then obtain k where m: "m = Suc k" by (cases m) auto
    have inner: "json_elements n (d # t) = json_elements k (d # t) \<and> json_members n (d # t) = json_members k (d # t)"
      if "skip_ws s = c # r" "skip_ws r = d # t" for c r d t
    proof -
      have "length (d # t) < length s" using skip_ws_Cons[OF that(1)] skip_ws_Cons[OF that(2)] by simp
      then have "2 * length (d # t) + 1 < n" "2 * length (d # t) + 1 < k" using 1 m by linarith+
      then show ?thesis using Suc.IH(2,3)[of "d # t" k] by blast
    qed
    show ?case
    proof (cases "skip_ws s")
      case Nil then show ?thesis by (simp add: m json_value.simps)
    next
      case (Cons c r)
      then show ?thesis using inner[OF Cons] by (cases "skip_ws r") (simp_all add: m json_value.simps)
    qed }
  { case 2
    then obtain k where m: "m = Suc k" by (cases m) auto
    have "json_value n s = json_value k s" using Suc.IH(1)[of s k] 2 m by simp
    moreover have "json_elements n t = json_elements k t"
      if "json_value k s = Some (v, r)" "skip_ws r = c # t" for v r c t
      using Suc.IH(2)[of t k] json_shorter(1)[OF that(1)] skip_ws_Cons[OF that(2)] 2 m by simp
    ultimately show ?case by (auto simp: m json_elements.simps split: list.split option.split) }
  { case 3
    then obtain k where m: "m = Suc k" by (cases m) auto
    have value_eq: "json_value n t = json_value k t"
      if "skip_ws s = q # r" "json_string r = Some (x, r')" "skip_ws r' = c # t" for q r x r' c t
      using Suc.IH(1)[of t k] skip_ws_Cons[OF that(1)] json_string_shorter[OF that(2)] skip_ws_Cons[OF that(3)] 3 m
      by simp
    moreover have "json_members n w = json_members k w"
      if "skip_ws s = q # r" "json_string r = Some (x, r')" "skip_ws r' = c # t" "json_value k t = Some (v, u)"
        "skip_ws u = d # w" for q r x r' c t v u d w
      using Suc.IH(3)[of w k] skip_ws_Cons[OF that(1)] json_string_shorter[OF that(2)] skip_ws_Cons[OF that(3)]
        json_shorter(1)[OF that(4)] skip_ws_Cons[OF that(5)] 3 m by simp
    ultimately show ?case by (auto simp: m json_members.simps split: list.split option.split) }
qed simp_all

section \<open>Values survive the round trip\<close>

text \<open>The texts of numbers have to be numbers; everything else has a text that is read back.\<close>

fun json_ok :: "json \<Rightarrow> bool" where
  "json_ok (JNumber s) \<longleftrightarrow> valid_number s \<and> list_all is_number_char s"
| "json_ok (JArray xs) \<longleftrightarrow> list_all json_ok xs"
| "json_ok (JObject ms) \<longleftrightarrow> list_all (\<lambda>m. json_ok (snd m)) ms"
| "json_ok _ \<longleftrightarrow> True"

definition settles :: "(nat \<Rightarrow> 'a) \<Rightarrow> 'a \<Rightarrow> bool" where
  "settles f x \<longleftrightarrow> (\<exists>N. \<forall>n \<ge> N. f n = x)"

lemma settles_Suc0: "(\<And>n. f (Suc n) = y) \<Longrightarrow> settles f y"
  unfolding settles_def by (metis Suc_le_D)

lemma settles_Suc1: "settles g x \<Longrightarrow> (\<And>n. g n = x \<Longrightarrow> f (Suc n) = y) \<Longrightarrow> settles f y"
  unfolding settles_def by (metis Suc_le_D Suc_le_mono)

lemma settles_Suc2:
  assumes "settles g x" "settles h z" "\<And>n. g n = x \<Longrightarrow> h n = z \<Longrightarrow> f (Suc n) = y"
  shows "settles f y"
proof (rule settles_Suc1)
  show "settles (\<lambda>n. (g n, h n)) (x, z)"
    using assms(1,2) unfolding settles_def by (metis le_trans nat_le_linear)
qed (use assms(3) in auto)

definition delimited :: "string \<Rightarrow> bool" where
  "delimited r \<longleftrightarrow> (case r of [] \<Rightarrow> True | c # _ \<Rightarrow> \<not> is_number_char c)"

lemma delimited_simps [simp]: "delimited []" "delimited ('','' @ r)" "delimited ('']'' @ r)" "delimited (CHR ''}'' # r)"
  "delimited (CHR '','' # r)" "delimited (CHR '']'' # r)"
  by (simp_all add: delimited_def is_number_char_def is_digit_def)

lemma skip_ws_simps [simp]: "skip_ws [] = []" "\<not> is_json_space c \<Longrightarrow> skip_ws (c # r) = c # r"
  by (simp_all add: skip_ws_def)

lemma not_space_simps [simp]:
  "\<not> is_json_space quote_byte" "\<not> is_json_space (CHR '','')" "\<not> is_json_space (CHR '':'')"
  "\<not> is_json_space (CHR ''['')" "\<not> is_json_space (CHR '']'')" "\<not> is_json_space (CHR ''{'')" "\<not> is_json_space (CHR ''}'')"
  by (simp_all add: is_json_space_def)

lemma json_text_head:
  assumes "json_ok v"
  obtains c t where "json_text v = c # t" "\<not> is_json_space c" "c \<noteq> CHR '']''" "c \<noteq> CHR ''}''"
proof (cases v)
  case (JNumber s)
  then obtain c t where "s = c # t" "is_number_char c"
    using assms by (cases s) (auto simp: valid_number_def)
  then show ?thesis using JNumber
    by (intro that[of c t]) (auto simp: is_number_char_def is_digit_def is_json_space_def)
next
  case (JBool b)
  then show ?thesis using that by (cases b) (simp_all add: fmt_t_def is_json_space_def)
qed (use that in \<open>simp_all add: json_string_text_def is_json_space_def\<close>)

lemma number_run:
  assumes "list_all is_number_char s" "delimited r"
  shows "takeWhile is_number_char (s @ r) = s" "dropWhile is_number_char (s @ r) = r"
  using assms by (auto simp: delimited_def takeWhile_append dropWhile_append list_all_iff split: list.splits)

lemma json_literal_number:
  assumes "valid_number s" "list_all is_number_char s" "delimited r"
  shows "json_literal (s @ r) = Some (JNumber s, r)"
proof -
  obtain c t where s: "s = c # t" "is_number_char c"
    using assms(1,2) by (cases s) (auto simp: valid_number_def)
  have "strip_prefix (d # p) (s @ r) = None" if "\<not> is_number_char d" for d p
    using that s by (auto simp: strip_prefix_def)
  then show ?thesis
    using number_run[OF assms(2,3)] assms(1)
    by (simp add: json_literal_def Let_def is_number_char_def is_digit_def)
qed

lemma json_elements_roundtrip:
  assumes "\<And>v r. v \<in> set (v0 # vs) \<Longrightarrow> delimited r \<Longrightarrow> settles (\<lambda>n. json_value n (json_text v @ r)) (Some (v, r))"
  shows "settles (\<lambda>n. json_elements n (join '','' (map json_text (v0 # vs)) @ CHR '']'' # r)) (Some (v0 # vs, r))"
  using assms
proof (induction vs arbitrary: v0)
  case Nil
  have "settles (\<lambda>n. json_value n (json_text v0 @ CHR '']'' # r)) (Some (v0, CHR '']'' # r))"
    by (rule Nil) simp_all
  then show ?case by (rule settles_Suc1) (simp add: json_elements.simps)
next
  case (Cons v1 vs)
  let ?rest = "join '','' (map json_text (v1 # vs)) @ CHR '']'' # r"
  have "settles (\<lambda>n. json_value n (json_text v0 @ CHR '','' # ?rest)) (Some (v0, CHR '','' # ?rest))"
    by (rule Cons.prems) simp_all
  moreover have "settles (\<lambda>n. json_elements n ?rest) (Some (v1 # vs, r))"
    using Cons.prems by (intro Cons.IH) auto
  ultimately show ?case by (rule settles_Suc2) (simp add: json_elements.simps)
qed

abbreviation member_text :: "string \<times> json \<Rightarrow> string" where
  "member_text m \<equiv> json_string_text (fst m) @ '':'' @ json_text (snd m)"

lemma json_members_roundtrip:
  assumes "\<And>m r. m \<in> set (m0 # ms) \<Longrightarrow> delimited r \<Longrightarrow>
    settles (\<lambda>n. json_value n (json_text (snd m) @ r)) (Some (snd m, r))"
  shows "settles (\<lambda>n. json_members n (join '','' (map member_text (m0 # ms)) @ CHR ''}'' # r)) (Some (m0 # ms, r))"
  using assms
proof (induction ms arbitrary: m0)
  case Nil
  have "settles (\<lambda>n. json_value n (json_text (snd m0) @ CHR ''}'' # r)) (Some (snd m0, CHR ''}'' # r))"
    by (rule Nil) simp_all
  then show ?case
    by (rule settles_Suc1) (simp add: json_members.simps json_string_text_def json_string_roundtrip del: json_string.simps)
next
  case (Cons m1 ms)
  let ?rest = "join '','' (map member_text (m1 # ms)) @ CHR ''}'' # r"
  have "settles (\<lambda>n. json_value n (json_text (snd m0) @ CHR '','' # ?rest)) (Some (snd m0, CHR '','' # ?rest))"
    by (rule Cons.prems) simp_all
  moreover have "settles (\<lambda>n. json_members n ?rest) (Some (m1 # ms, r))"
    using Cons.prems by (intro Cons.IH) auto
  ultimately show ?case
    by (rule settles_Suc2) (simp add: json_members.simps json_string_text_def json_string_roundtrip del: json_string.simps)
qed

lemma strip_prefix_append [simp]: "strip_prefix p (p @ r) = Some r"
  by (simp add: strip_prefix_def)

lemma json_value_roundtrip:
  "json_ok v \<Longrightarrow> delimited r \<Longrightarrow> settles (\<lambda>n. json_value n (json_text v @ r)) (Some (v, r))"
proof (induction v arbitrary: r)
  case JNull
  show ?case by (rule settles_Suc0) (simp add: json_value.simps is_json_space_def json_literal_def strip_prefix_def)
next
  case (JBool b)
  show ?case
    by (rule settles_Suc0, cases b)
      (simp_all add: json_value.simps fmt_t_def is_json_space_def json_literal_def strip_prefix_def)
next
  case (JNumber s)
  then have number: "valid_number s" "list_all is_number_char s" by simp_all
  then obtain c t where s: "s = c # t" "is_number_char c" by (cases s) (auto simp: valid_number_def)
  then have c: "\<not> is_json_space c" "c \<noteq> quote_byte" "c \<noteq> CHR ''[''" "c \<noteq> CHR ''{''"
    by (auto simp: is_number_char_def is_digit_def is_json_space_def)
  show ?case
    by (rule settles_Suc0)
      (use json_literal_number[OF number JNumber.prems(2)] s(1) c in \<open>simp add: json_value.simps\<close>)
next
  case (JString s)
  show ?case
    by (rule settles_Suc0) (simp add: json_value.simps json_string_text_def json_string_roundtrip del: json_string.simps)
next
  case (JArray vs)
  show ?case
  proof (cases vs)
    case Nil then show ?thesis by (intro settles_Suc0) (simp add: json_value.simps)
  next
    case (Cons v0 vs')
    obtain c t where head: "json_text v0 = c # t" "\<not> is_json_space c" "c \<noteq> CHR '']''"
      by (rule json_text_head[of v0]) (use JArray.prems(1) Cons in auto)
    have "settles (\<lambda>n. json_elements n (join '','' (map json_text (v0 # vs')) @ CHR '']'' # r)) (Some (v0 # vs', r))"
      using JArray Cons by (intro json_elements_roundtrip) (auto simp: list_all_iff)
    then show ?thesis
      by (rule settles_Suc1) (use head in \<open>cases vs', simp_all add: Cons json_value.simps\<close>)
  qed
next
  case (JObject ms)
  show ?case
  proof (cases ms)
    case Nil then show ?thesis by (intro settles_Suc0) (simp add: json_value.simps)
  next
    case (Cons m0 ms')
    have "settles (\<lambda>n. json_members n (join '','' (map member_text (m0 # ms')) @ CHR ''}'' # r)) (Some (m0 # ms', r))"
    proof (rule json_members_roundtrip)
      fix m r' assume m: "m \<in> set (m0 # ms')" and "delimited r'"
      then have "m \<in> set ms" "json_ok (snd m)" using JObject.prems(1) Cons by (auto simp: list_all_iff)
      then show "settles (\<lambda>n. json_value n (json_text (snd m) @ r')) (Some (snd m, r'))"
        using JObject.IH[of m "snd m" r'] \<open>delimited r'\<close> by (simp add: snds.intros)
    qed
    then show ?thesis
      by (rule settles_Suc1) (cases ms', simp_all add: Cons json_value.simps json_string_text_def)
  qed
qed

theorem json_parse_roundtrip:
  assumes "json_ok v" "json_depth v \<le> maxNestingDepth" shows "json_parse (json_text v) = Some v"
proof -
  obtain N where "\<forall>n \<ge> N. json_value n (json_text v) = Some (v, [])"
    using json_value_roundtrip[OF assms(1), of "[]"] by (auto simp: settles_def)
  then have "json_value (Suc (2 * length (json_text v))) (json_text v) = Some (v, [])"
    using json_fuel_enough(1)[of "json_text v" "Suc (2 * length (json_text v))" "max N (Suc (2 * length (json_text v)))"]
    by simp
  then show ?thesis using assms(2) by (simp add: json_parse_def)
qed

end
