(* ===== verification/Token_Client.thy ===== *)
theory Token_Client
  imports Issuer_Properties Base64 Json
begin

text \<open>
  internal/kubernetes/serviceaccounttoken.go: the client that requests a ServiceAccount token and
  reads the issuer it was minted with, which the deletion guard compares with the published URL.
  The API server's TokenRequest is the parameter \<open>CreateToken\<close> (the \<open>token\<close> subresource: account,
  expiration, the token or an error); the texts of \<open>encoding/json\<close> errors are a parameter as well.
\<close>

section \<open>The client\<close>

record 'w TokenAPI =
  CreateToken :: "NamespacedName \<Rightarrow> 64 word \<Rightarrow> ('w, string) ext_io"

record 'w ServiceAccountTokenClient =
  tc_Client :: "'w TokenAPI option"
  tc_Namespace :: string
  tc_ServiceAccountName :: string
  tc_ExpirationSeconds :: "64 word"

definition defaultTokenExpirationSeconds :: "64 word" where
  "defaultTokenExpirationSeconds = 600"

definition expirationSeconds :: "'w ServiceAccountTokenClient \<Rightarrow> 64 word" where
  "expirationSeconds c =
     (if 0 <s tc_ExpirationSeconds c then tc_ExpirationSeconds c else defaultTokenExpirationSeconds)"

section \<open>Reading the issuer\<close>

text \<open>\<open>strings.Split(s, sep)\<close> for a separator of one byte.\<close>

fun split_byte :: "char \<Rightarrow> string \<Rightarrow> string list" where
  "split_byte sep [] = [[]]"
| "split_byte sep (c # s) =
     (if c = sep then [] # split_byte sep s
      else case split_byte sep s of [] \<Rightarrow> [[c]] | p # ps \<Rightarrow> (c # p) # ps)"

text \<open>
  The decoder matches a member with the field \<open>iss\<close> under case folding, in which the long s (two
  bytes in UTF-8) is an s.  Every matching member is stored over the one before it, null leaves the field
  alone, and any other value that is no string fails the decoding.
\<close>

fun fold_long_s :: "string \<Rightarrow> string" where
  "fold_long_s (a # b # s) =
     (if a = CHR 0xC5 \<and> b = CHR 0xBF then CHR ''s'' # fold_long_s s else a # fold_long_s (b # s))"
| "fold_long_s s = s"

definition issuer_member :: "string \<Rightarrow> bool" where
  "issuer_member k \<longleftrightarrow> equal_fold (fold_long_s k) ''iss''"

definition store_issuer :: "string option \<Rightarrow> json \<Rightarrow> string option" where
  "store_issuer acc v =
     (case (acc, v) of (None, _) \<Rightarrow> None | (Some i, JNull) \<Rightarrow> Some i | (Some _, JString s) \<Rightarrow> Some s | _ \<Rightarrow> None)"

definition issuer_claim :: "json \<Rightarrow> string option" where
  "issuer_claim v =
     (case v of
        JObject ms \<Rightarrow> foldl store_issuer (Some '''') (map snd (filter (\<lambda>m. issuer_member (fst m)) ms))
      | JNull \<Rightarrow> Some ''''
      | _ \<Rightarrow> None)"

definition unmarshal_issuer :: "string \<Rightarrow> string option" where
  "unmarshal_issuer payload = Option.bind (json_parse payload) issuer_claim"

definition issuerFromJWT :: "(string \<Rightarrow> string) \<Rightarrow> string \<Rightarrow> go_error + string" where
  "issuerFromJWT json_error token =
     (let parts = split_byte (CHR ''.'') token in
      if length parts < 2 then Inl (ErrorString ''token is not a JWT'')
      else case base64url_decode (parts ! 1) of
        Inl offset \<Rightarrow>
          Inl (WrapError ''decode JWT payload'' (ErrorString (''illegal base64 data at input byte '' @ fmt_d offset)))
      | Inr payload \<Rightarrow>
          (case unmarshal_issuer payload of
             None \<Rightarrow> Inl (WrapError ''decode JWT claims'' (ErrorString (json_error payload)))
           | Some issuer \<Rightarrow>
               if issuer = '''' then Inl (ErrorString ''JWT issuer claim is empty'') else Inr issuer))"

definition CurrentIssuer ::
  "(string \<Rightarrow> string) \<Rightarrow> 'w ServiceAccountTokenClient option \<Rightarrow> ('w, string) io" where
  "CurrentIssuer json_error client =
     (case client of
        None \<Rightarrow> io_fail (ErrorString ''service account token client is required'')
      | Some c \<Rightarrow>
          (case tc_Client c of
             None \<Rightarrow> io_fail (ErrorString ''kubernetes client is required'')
           | Some api \<Rightarrow>
               if tc_Namespace c = '''' then io_fail (ErrorString ''service account namespace is required'')
               else if tc_ServiceAccountName c = '''' then io_fail (ErrorString ''service account name is required'')
               else
                 io_try (errorf_wrap (''create token for ServiceAccount '' @ tc_Namespace c @ ''/'' @ tc_ServiceAccountName c)
                     (external (CreateToken api \<lparr> nn_Namespace = tc_Namespace c, nn_Name = tc_ServiceAccountName c \<rparr>
                        (expirationSeconds c))))
                   (\<lambda>token. errorf_wrap ''read issuer from ServiceAccount token'' (io_of (issuerFromJWT json_error token)))))"

section \<open>Tokens\<close>

lemma split_byte_no_sep: "c \<notin> set s \<Longrightarrow> split_byte c s = [s]"
  by (induction s) auto

lemma split_byte_append: "c \<notin> set p \<Longrightarrow> split_byte c (p @ c # s) = p # split_byte c s"
  by (induction p) auto

text \<open>A compact token: header, payload and whatever follows, the payload carrying one string issuer.\<close>

definition jwt_of :: "string \<Rightarrow> (string \<times> json) list \<Rightarrow> string \<Rightarrow> string" where
  "jwt_of header claims rest = header @ CHR ''.'' # base64url (json_text (JObject claims)) @ CHR ''.'' # rest"

definition carries_issuer :: "(string \<times> json) list \<Rightarrow> string \<Rightarrow> bool" where
  "carries_issuer claims iss \<longleftrightarrow>
     json_ok (JObject claims) \<and> json_depth (JObject claims) \<le> maxNestingDepth \<and>
     map snd (filter (\<lambda>m. issuer_member (fst m)) claims) = [JString iss]"

lemma issuerFromJWT_jwt:
  assumes "CHR ''.'' \<notin> set header" "carries_issuer claims iss" "iss \<noteq> ''''"
  shows "issuerFromJWT json_error (jwt_of header claims rest) = Inr iss"
proof -
  have "split_byte (CHR ''.'') (jwt_of header claims rest)
      = header # base64url (json_text (JObject claims)) # split_byte (CHR ''.'') rest"
    by (simp only: jwt_of_def split_byte_append[OF assms(1)] split_byte_append[OF base64url_no_dot])
  moreover have "unmarshal_issuer (json_text (JObject claims)) = Some iss"
    using assms(2) json_parse_roundtrip[of "JObject claims"]
    by (simp add: unmarshal_issuer_def carries_issuer_def issuer_claim_def store_issuer_def del: json_text.simps)
  ultimately show ?thesis
    using assms(3) by (simp add: issuerFromJWT_def base64url_roundtrip del: json_text.simps)
qed

section \<open>The deletion guard over the client\<close>

lemma expirationSeconds_positive: "0 <s expirationSeconds c"
  by (simp add: expirationSeconds_def defaultTokenExpirationSeconds_def word_sless_alt)

definition usable_client :: "'w ServiceAccountTokenClient \<Rightarrow> 'w TokenAPI \<Rightarrow> bool" where
  "usable_client c api \<longleftrightarrow> tc_Client c = Some api \<and> tc_Namespace c \<noteq> '''' \<and> tc_ServiceAccountName c \<noteq> ''''"

abbreviation token_account :: "'w ServiceAccountTokenClient \<Rightarrow> NamespacedName" where
  "token_account c \<equiv> \<lparr> nn_Namespace = tc_Namespace c, nn_Name = tc_ServiceAccountName c \<rparr>"

lemma CurrentIssuer_usable:
  assumes "usable_client c api" "run_state (CreateToken api (token_account c) (expirationSeconds c)) w = (Inr token, w')"
  shows "run_state (CurrentIssuer json_error (Some c)) w =
    (map_sum (WrapError ''read issuer from ServiceAccount token'') (\<lambda>i. i) (issuerFromJWT json_error token), w')"
  using assms by (auto simp: usable_client_def CurrentIssuer_def run_simps split: sum.splits)

text \<open>C34. The deletion guard goes by the issuer the cluster really mints: when a token of the operator's
  ServiceAccount carries one string issuer claim, whatever else is in it and around it, the client reads
  exactly that issuer, and the guard of a published OIDCIssuer passes if and only if it is not the
  published URL.  Tokens the client cannot read never let the guard pass.\<close>
theorem token_guard_follows_minted_issuer:
  assumes usable: "usable_client c api"
    and minted: "run_state (CreateToken api (token_account c) (expirationSeconds c)) w = (Inr token, w')"
    and published: "HasPublishedIssuerURL issuer"
  shows "\<exists>g. run_state (CheckTokenIssuerHandoff issuer (Some (CurrentIssuer json_error (Some c))) openshift) w = (Inr g, w') \<and>
      (\<forall>header claims rest iss. token = jwt_of header claims rest \<longrightarrow> CHR ''.'' \<notin> set header \<longrightarrow>
         carries_issuer claims iss \<longrightarrow> iss \<noteq> '''' \<longrightarrow>
         run_state (CurrentIssuer json_error (Some c)) w = (Inr iss, w') \<and>
         (guard_passes g \<longleftrightarrow> iss \<noteq> oi_IssuerURL (oi_Status issuer))) \<and>
      (\<forall>err. issuerFromJWT json_error token = Inl err \<longrightarrow> \<not> guard_passes g)"
proof -
  note current = CurrentIssuer_usable[OF usable minted, of json_error]
  have total: "\<exists>g. run_state (CheckTokenIssuerHandoff issuer (Some m) openshift) w = (Inr g, w')"
    if "run_state m w = (r, w')" for m r
    using that published by (cases r) (auto simp: CheckTokenIssuerHandoff_def run_simps)
  obtain g where g: "run_state (CheckTokenIssuerHandoff issuer (Some (CurrentIssuer json_error (Some c))) openshift) w = (Inr g, w')"
    using total[OF current] by blast
  have "guard_passes g \<longleftrightarrow> (\<exists>u. u \<noteq> oi_IssuerURL (oi_Status issuer) \<and> issuerFromJWT json_error token = Inr u)"
    using token_guard[OF g] published current by (cases "issuerFromJWT json_error token") auto
  then show ?thesis
    using g current by (auto simp: issuerFromJWT_jwt)
qed

definition demo_token_api :: "string TokenAPI" where
  "demo_token_api = \<lparr> CreateToken = (\<lambda>account seconds. State (\<lambda>w. (Inr w, w))) \<rparr>"

definition demo_token_client :: "string ServiceAccountTokenClient" where
  "demo_token_client = \<lparr> tc_Client = Some demo_token_api, tc_Namespace = ''system'', tc_ServiceAccountName = ''operator'',
     tc_ExpirationSeconds = 0 \<rparr>"

definition demo_claims :: "(string \<times> json) list" where
  "demo_claims = [(''aud'', JArray [JString ''api'']), (''exp'', JNumber ''17000''), (''iss'', JString ''https://issuer'')]"

theorem token_guard_follows_minted_issuer_witness:
  "run_state (CurrentIssuer (\<lambda>_. '''') (Some demo_token_client)) (jwt_of ''e30'' demo_claims ''sig'')
     = (Inr ''https://issuer'', jwt_of ''e30'' demo_claims ''sig'') \<and>
   (\<exists>g. fst (run_state (CheckTokenIssuerHandoff demo_issuer (Some (CurrentIssuer (\<lambda>_. '''') (Some demo_token_client))) None) ''garbage'')
       = Inr g \<and> \<not> guard_passes g)"
proof -
  have usable: "usable_client demo_token_client demo_token_api"
    by (simp add: usable_client_def demo_token_client_def)
  have published: "HasPublishedIssuerURL demo_issuer"
    by (simp add: HasPublishedIssuerURL_def demo_issuer_def)
  have minted: "run_state (CreateToken demo_token_api account seconds) w = (Inr w, w)" for account seconds w
    by (simp add: demo_token_api_def)
  note guard = token_guard_follows_minted_issuer[OF usable minted[of "token_account demo_token_client"] published,
      where json_error = "\<lambda>_. ''''" and openshift = None]
  have "carries_issuer demo_claims ''https://issuer''" by code_simp
  then have "run_state (CurrentIssuer (\<lambda>_. '''') (Some demo_token_client)) (jwt_of ''e30'' demo_claims ''sig'')
     = (Inr ''https://issuer'', jwt_of ''e30'' demo_claims ''sig'')"
    using guard[of "jwt_of ''e30'' demo_claims ''sig''"]
    by force
  moreover have "issuerFromJWT (\<lambda>_. '''') ''garbage'' = Inl (ErrorString ''token is not a JWT'')" by code_simp
  ultimately show ?thesis
    using guard[of "''garbage''"] by force
qed

end
