(* ===== verification/Signing_Keys.thy ===== *)
theory Signing_Keys
  imports Kube
begin

text \<open>
  internal/signingkey/key.go: from the signing key Secrets of an OIDCIssuer to the public keys in PEM.
  The key formats of \<open>crypto/x509\<close> and \<open>encoding/pem\<close> are a parameter: \<open>crypto_laws\<close> states their
  documented round trips.  A public key is an RSA key (modulus and exponent), an ECDSA key (its curve and
  the coordinates of its point) or a key of another type, known by its type name and its content.
\<close>

section \<open>Keys and their formats\<close>

record rsa_PublicKey =
  rsa_N :: nat
  rsa_E :: nat

datatype elliptic_Curve = P224 | P256 | P384 | P521

record ecdsa_PublicKey =
  ec_Curve :: elliptic_Curve
  ec_X :: nat
  ec_Y :: nat

datatype public_key = RSA_Public rsa_PublicKey | ECDSA_Public ecdsa_PublicKey | Other_Public string string

text \<open>What \<open>ParsePKCS8PrivateKey\<close> returns, by its dynamic type; public keys are a case of the source.\<close>

datatype pkcs8_key = RSA_Private rsa_PublicKey | ECDSA_Private ecdsa_PublicKey | PKCS8_Public public_key | Other_Key string

record crypto_lib =
  pem_Decode :: "string \<Rightarrow> string option"
  pem_EncodeToMemory :: "string \<Rightarrow> string \<Rightarrow> string"
  ParsePKIXPublicKey :: "string \<Rightarrow> ext_error + public_key"
  MarshalPKIXPublicKey :: "public_key \<Rightarrow> ext_error + string"
  ParsePKCS1PrivateKey :: "string \<Rightarrow> ext_error + rsa_PublicKey"
  ParseECPrivateKey :: "string \<Rightarrow> ext_error + ecdsa_PublicKey"
  ParsePKCS8PrivateKey :: "string \<Rightarrow> ext_error + pkcs8_key"
  ecdsa_Bytes :: "ecdsa_PublicKey \<Rightarrow> ext_error + string"

text \<open>
  The public keys the parsers return, and what is relied on: a block of the one type the operator writes is
  decoded as it was encoded, and a key that came out of a parser is read back from its encoding.
\<close>

definition parsed_key :: "crypto_lib \<Rightarrow> public_key \<Rightarrow> bool" where
  "parsed_key C key \<longleftrightarrow>
     (\<exists>d. ParsePKIXPublicKey C d = Inr key) \<or>
     (\<exists>d k. key = RSA_Public k \<and> (ParsePKCS1PrivateKey C d = Inr k \<or> ParsePKCS8PrivateKey C d = Inr (RSA_Private k))) \<or>
     (\<exists>d k. key = ECDSA_Public k \<and> (ParseECPrivateKey C d = Inr k \<or> ParsePKCS8PrivateKey C d = Inr (ECDSA_Private k))) \<or>
     (\<exists>d. ParsePKCS8PrivateKey C d = Inr (PKCS8_Public key))"

definition crypto_laws :: "crypto_lib \<Rightarrow> bool" where
  "crypto_laws C \<longleftrightarrow>
     (\<forall>b. pem_Decode C (pem_EncodeToMemory C ''PUBLIC KEY'' b) = Some b) \<and>
     (\<forall>k d. parsed_key C k \<and> MarshalPKIXPublicKey C k = Inr d \<longrightarrow> ParsePKIXPublicKey C d = Inr k)"

section \<open>key.go\<close>

definition publicKeyPEMType :: string where "publicKeyPEMType = ''PUBLIC KEY''"

record PublicKey =
  pk_PEM :: string
  pk_State :: SigningKeyState

definition publicKey :: "crypto_lib \<Rightarrow> string \<Rightarrow> go_error + public_key" where
  "publicKey C keyPEM =
     (case pem_Decode C keyPEM of
        None \<Rightarrow> Inl (ErrorString ''signing key PEM is invalid'')
      | Some block \<Rightarrow>
          (case ParsePKIXPublicKey C block of Inr key \<Rightarrow> Inr key
           | Inl _ \<Rightarrow>
          (case ParsePKCS1PrivateKey C block of Inr key \<Rightarrow> Inr (RSA_Public key)
           | Inl _ \<Rightarrow>
          (case ParseECPrivateKey C block of Inr key \<Rightarrow> Inr (ECDSA_Public key)
           | Inl _ \<Rightarrow>
          (case ParsePKCS8PrivateKey C block of
             Inl err \<Rightarrow> Inl (WrapError ''parse signing key'' (External err))
           | Inr (RSA_Private key) \<Rightarrow> Inr (RSA_Public key)
           | Inr (ECDSA_Private key) \<Rightarrow> Inr (ECDSA_Public key)
           | Inr (PKCS8_Public (Other_Public t _)) \<Rightarrow> Inl (ErrorString (''unsupported signing key type '' @ t))
           | Inr (PKCS8_Public key) \<Rightarrow> Inr key
           | Inr (Other_Key t) \<Rightarrow> Inl (ErrorString (''unsupported signing key type '' @ t)))))))"

definition encode_public_key :: "crypto_lib \<Rightarrow> public_key \<Rightarrow> go_error + string" where
  "encode_public_key C key =
     (case MarshalPKIXPublicKey C key of
        Inl err \<Rightarrow> Inl (WrapError ''marshal public key'' (External err))
      | Inr der \<Rightarrow> Inr (pem_EncodeToMemory C publicKeyPEMType der))"

definition PublicKeyPEM :: "crypto_lib \<Rightarrow> 'w Reader \<Rightarrow> SecretKeyReference \<Rightarrow> ('w, string) io" where
  "PublicKeyPEM C reader ref =
     io_try (errorf_wrap (''get signing key secret '' @ skr_Namespace ref @ ''/'' @ skr_Name ref)
         (external (GetSecret reader \<lparr> nn_Namespace = skr_Namespace ref, nn_Name = skr_Name ref \<rparr>)))
       (\<lambda>secret. case fmlookup (secret_Data secret) (skr_Key ref) of
          None \<Rightarrow> io_fail (ErrorString (''signing key '' @ fmt_q (skr_Key ref) @ '' not found in secret ''
                    @ skr_Namespace ref @ ''/'' @ skr_Name ref))
        | Some keyPEM \<Rightarrow> io_try (io_of (publicKey C keyPEM)) (\<lambda>key. io_of (encode_public_key C key)))"

text \<open>The loop over the references, with the index of the next one; the first is the active key.\<close>

fun read_public_keys ::
  "crypto_lib \<Rightarrow> 'w Reader \<Rightarrow> nat \<Rightarrow> SecretKeyReference list \<Rightarrow> ('w, PublicKey list) io" where
  "read_public_keys C reader i [] = io_return []"
| "read_public_keys C reader i (ref # refs) =
     io_try (PublicKeyPEM C reader ref) (\<lambda>keyPEM.
     io_try (read_public_keys C reader (Suc i) refs) (\<lambda>keys.
       io_return (\<lparr> pk_PEM = keyPEM,
         pk_State = (if i = 0 then SigningKeyStateActive else SigningKeyStateRetiring) \<rparr> # keys)))"

definition signing_key_refs :: "SigningKeySource \<Rightarrow> SecretKeyReference list" where
  "signing_key_refs source =
     SecretRef source # (case RetiringSecretRef source of None \<Rightarrow> [] | Some ref \<Rightarrow> [ref])"

definition PublicKeysPEM :: "crypto_lib \<Rightarrow> 'w Reader \<Rightarrow> SigningKeySource \<Rightarrow> ('w, PublicKey list) io" where
  "PublicKeysPEM C reader source = read_public_keys C reader 0 (signing_key_refs source)"

section \<open>What is read\<close>

text \<open>The public key a Secret holds under a reference.\<close>

definition secret_key :: "crypto_lib \<Rightarrow> Secret \<Rightarrow> SecretKeyReference \<Rightarrow> public_key \<Rightarrow> bool" where
  "secret_key C secret ref key \<longleftrightarrow>
     (\<exists>keyPEM. fmlookup (secret_Data secret) (skr_Key ref) = Some keyPEM \<and> publicKey C keyPEM = Inr key)"

lemma PublicKeyPEM_InrD:
  assumes "run_state (PublicKeyPEM C reader ref) w = (Inr keyPEM, w')"
  obtains secret key where
    "run_state (GetSecret reader \<lparr> nn_Namespace = skr_Namespace ref, nn_Name = skr_Name ref \<rparr>) w = (Inr secret, w')"
    "secret_key C secret ref key" "encode_public_key C key = Inr keyPEM"
  using assms unfolding PublicKeyPEM_def secret_key_def
  by (auto simp: run_simps split: prod.splits sum.splits option.splits)

lemma publicKey_parsed: "publicKey C keyPEM = Inr key \<Longrightarrow> parsed_key C key"
  unfolding publicKey_def parsed_key_def
  by (auto split: option.splits sum.splits pkcs8_key.splits public_key.splits)

lemma encoded_key_parses:
  assumes "crypto_laws C" "secret_key C secret ref key" "encode_public_key C key = Inr keyPEM"
  obtains block where "pem_Decode C keyPEM = Some block" "ParsePKIXPublicKey C block = Inr key"
proof -
  have "parsed_key C key" using assms(2) publicKey_parsed by (auto simp: secret_key_def)
  then show ?thesis
    using assms(1,3) that by (auto simp: encode_public_key_def crypto_laws_def publicKeyPEMType_def split: sum.splits)
qed

lemma read_public_keys_states:
  "run_state (read_public_keys C reader i refs) w = (Inr keys, w') \<Longrightarrow>
     map pk_State keys = map (\<lambda>j. if i + j = 0 then SigningKeyStateActive else SigningKeyStateRetiring) [0..<length refs]"
proof (induction refs arbitrary: i w keys w')
  case (Cons ref refs)
  then show ?case
    by (auto simp: run_simps upt_conv_Cons map_Suc_upt[symmetric] comp_def simp del: upt_Suc
        split: prod.splits sum.splits)
qed (auto simp: run_simps)

lemma preserves_PublicKeyPEM:
  "(\<And>k. preserves I (GetSecret reader k)) \<Longrightarrow> preserves I (PublicKeyPEM C reader ref)"
  unfolding PublicKeyPEM_def by (intro preserves_intros) auto

lemma preserves_read_public_keys:
  "(\<And>k. preserves I (GetSecret reader k)) \<Longrightarrow> preserves I (read_public_keys C reader i refs)"
  by (induction refs arbitrary: i) (auto intro!: preserves_intros preserves_PublicKeyPEM)

end
