(* ===== verification/Oidc_Documents.thy ===== *)
theory Oidc_Documents
  imports Signing_Keys Digest Base64 Json
begin

text \<open>
  internal/oidc/documents.go: the discovery document and the JSON Web Key Set of an issuer, and the
  key metadata recorded in its status.  Both documents are JSON values written by \<open>json_text\<close>; a key
  identifier is the SHA-256 digest of the key's DER form in base64.  A panic of
  \<open>mustMarshalPKIXPublicKey\<close> is the error it panics with.
\<close>

section \<open>The discovery document\<close>

definition jwksPath :: string where "jwksPath = ''openid/v1/jwks''"
definition algRS256 :: string where "algRS256 = ''RS256''"
definition algES256 :: string where "algES256 = ''ES256''"

text \<open>\<open>strings.TrimRight(s, "/")\<close>.\<close>

definition trim_right_slashes :: "string \<Rightarrow> string" where
  "trim_right_slashes s = rev (dropWhile (\<lambda>c. c = CHR ''/'') (rev s))"

record discoveryDocument =
  dd_Issuer :: string
  dd_JWKSURI :: string
  dd_ResponseTypesSupported :: "string list"
  dd_SubjectTypesSupported :: "string list"
  dd_IDTokenSigningAlgValuesSupported :: "string list"

abbreviation json_strings :: "string list \<Rightarrow> json" where
  "json_strings xs \<equiv> JArray (map JString xs)"

definition discovery_json :: "discoveryDocument \<Rightarrow> json" where
  "discovery_json d = JObject
     [(''issuer'', JString (dd_Issuer d)), (''jwks_uri'', JString (dd_JWKSURI d)),
      (''response_types_supported'', json_strings (dd_ResponseTypesSupported d)),
      (''subject_types_supported'', json_strings (dd_SubjectTypesSupported d)),
      (''id_token_signing_alg_values_supported'', json_strings (dd_IDTokenSigningAlgValuesSupported d))]"

definition discovery_for :: "string \<Rightarrow> string list \<Rightarrow> discoveryDocument" where
  "discovery_for issuerURL signingAlgorithms =
     \<lparr> dd_Issuer = issuerURL, dd_JWKSURI = issuerURL @ ''/'' @ jwksPath,
       dd_ResponseTypesSupported = [''id_token''], dd_SubjectTypesSupported = [''public''],
       dd_IDTokenSigningAlgValuesSupported = signingAlgorithms \<rparr>"

definition DiscoveryDocument :: "string \<Rightarrow> string list \<Rightarrow> go_error + string" where
  "DiscoveryDocument issuerURL signingAlgorithms =
     (let issuerURL = trim_right_slashes issuerURL in
      if issuerURL = '''' then Inl (ErrorString ''issuer URL is required'')
      else if signingAlgorithms = [] then Inl (ErrorString ''at least one signing algorithm is required'')
      else Inr (json_text (discovery_json (discovery_for issuerURL signingAlgorithms))))"

section \<open>Keys\<close>

record jwk =
  jwk_Kty :: string
  jwk_Use :: string
  jwk_Kid :: string
  jwk_Alg :: string
  jwk_N :: string
  jwk_E :: string
  jwk_Crv :: string
  jwk_X :: string
  jwk_Y :: string

text \<open>A member with \<open>omitempty\<close>.\<close>

definition unless_empty :: "string \<Rightarrow> string \<Rightarrow> (string \<times> json) list" where
  "unless_empty name v = (if v = '''' then [] else [(name, JString v)])"

definition jwk_json :: "jwk \<Rightarrow> json" where
  "jwk_json k = JObject
     ([(''kty'', JString (jwk_Kty k)), (''use'', JString (jwk_Use k)), (''kid'', JString (jwk_Kid k)),
       (''alg'', JString (jwk_Alg k))] @
      unless_empty ''n'' (jwk_N k) @ unless_empty ''e'' (jwk_E k) @ unless_empty ''crv'' (jwk_Crv k) @
      unless_empty ''x'' (jwk_X k) @ unless_empty ''y'' (jwk_Y k))"

definition jwks_json :: "jwk list \<Rightarrow> json" where
  "jwks_json keys = JObject [(''keys'', JArray (map jwk_json keys))]"

text \<open>\<open>big.Int.Bytes\<close>: the big-endian digits in base 256, none for zero.\<close>

fun big_bytes :: "nat \<Rightarrow> string" where
  "big_bytes n = (if n = 0 then [] else big_bytes (n div 256) @ [char_of (n mod 256)])"

declare big_bytes.simps [simp del]

definition keyID :: "string \<Rightarrow> string" where
  "keyID publicKeyDER = base64url (map (\<lambda>b. char_of (unat b)) (sha256 publicKeyDER))"

definition mustMarshalPKIXPublicKey :: "crypto_lib \<Rightarrow> public_key \<Rightarrow> go_error + string" where
  "mustMarshalPKIXPublicKey C key =
     (case MarshalPKIXPublicKey C key of Inl err \<Rightarrow> Inl (External err) | Inr der \<Rightarrow> Inr der)"

definition parsePublicKeyPEM :: "crypto_lib \<Rightarrow> string \<Rightarrow> go_error + public_key" where
  "parsePublicKeyPEM C publicKeyPEM =
     (case pem_Decode C publicKeyPEM of
        None \<Rightarrow> Inl (ErrorString ''public key PEM is invalid'')
      | Some block \<Rightarrow>
          (case ParsePKIXPublicKey C block of
             Inl err \<Rightarrow> Inl (WrapError ''parse public key'' (External err))
           | Inr key \<Rightarrow> Inr key))"

definition unsupported_key :: "string \<Rightarrow> go_error" where
  "unsupported_key t = ErrorString (''unsupported public key type '' @ t)"

record PublicKeyMetadata =
  pkm_KeyID :: string
  pkm_Algorithm :: string

definition with_key_id :: "crypto_lib \<Rightarrow> public_key \<Rightarrow> (string \<Rightarrow> 'a) \<Rightarrow> go_error + 'a" where
  "with_key_id C key f = map_sum (\<lambda>e. e) (\<lambda>der. f (keyID der)) (mustMarshalPKIXPublicKey C key)"

definition key_metadata :: "crypto_lib \<Rightarrow> public_key \<Rightarrow> go_error + PublicKeyMetadata" where
  "key_metadata C pub =
     (case pub of
        RSA_Public key \<Rightarrow>
          with_key_id C pub (\<lambda>kid. \<lparr> pkm_KeyID = kid, pkm_Algorithm = algRS256 \<rparr>)
      | ECDSA_Public key \<Rightarrow>
          if ec_Curve key \<noteq> P256 then Inl (ErrorString ''unsupported ECDSA curve'')
          else with_key_id C pub (\<lambda>kid. \<lparr> pkm_KeyID = kid, pkm_Algorithm = algES256 \<rparr>)
      | Other_Public t _ \<Rightarrow> Inl (unsupported_key t))"

definition PublicKeyMetadataFromPEM :: "crypto_lib \<Rightarrow> string \<Rightarrow> go_error + PublicKeyMetadata" where
  "PublicKeyMetadataFromPEM C publicKeyPEM =
     (case parsePublicKeyPEM C publicKeyPEM of Inl err \<Rightarrow> Inl err | Inr key \<Rightarrow> key_metadata C key)"

definition SigningAlgorithmFromPEM :: "crypto_lib \<Rightarrow> string \<Rightarrow> go_error + string" where
  "SigningAlgorithmFromPEM C publicKeyPEM =
     map_sum (\<lambda>e. e) pkm_Algorithm (PublicKeyMetadataFromPEM C publicKeyPEM)"

definition rsa_jwk :: "rsa_PublicKey \<Rightarrow> string \<Rightarrow> jwk" where
  "rsa_jwk key kid = \<lparr> jwk_Kty = ''RSA'', jwk_Use = ''sig'', jwk_Kid = kid, jwk_Alg = algRS256,
     jwk_N = base64url (big_bytes (rsa_N key)), jwk_E = base64url (big_bytes (rsa_E key)),
     jwk_Crv = '''', jwk_X = '''', jwk_Y = '''' \<rparr>"

definition ecdsa_jwk :: "string \<Rightarrow> string \<Rightarrow> jwk" where
  "ecdsa_jwk publicKeyBytes kid = \<lparr> jwk_Kty = ''EC'', jwk_Use = ''sig'', jwk_Kid = kid, jwk_Alg = algES256,
     jwk_N = '''', jwk_E = '''', jwk_Crv = ''P-256'',
     jwk_X = base64url (take 32 (drop 1 publicKeyBytes)), jwk_Y = base64url (drop 33 publicKeyBytes) \<rparr>"

definition publicKeyToJWK :: "crypto_lib \<Rightarrow> public_key \<Rightarrow> go_error + jwk" where
  "publicKeyToJWK C pub =
     (case pub of
        RSA_Public key \<Rightarrow> with_key_id C pub (rsa_jwk key)
      | ECDSA_Public key \<Rightarrow>
          if ec_Curve key \<noteq> P256 then Inl (ErrorString ''unsupported ECDSA curve'')
          else (case ecdsa_Bytes C key of
             Inl err \<Rightarrow> Inl (WrapError ''encode ECDSA public key'' (External err))
           | Inr publicKeyBytes \<Rightarrow>
               if length publicKeyBytes \<noteq> 65 \<or> byte_of (hd publicKeyBytes) \<noteq> 4
               then Inl (ErrorString ''unsupported ECDSA public key encoding'')
               else with_key_id C pub (ecdsa_jwk publicKeyBytes))
      | Other_Public t _ \<Rightarrow> Inl (unsupported_key t))"

definition jwkFromPEM :: "crypto_lib \<Rightarrow> string \<Rightarrow> go_error + jwk" where
  "jwkFromPEM C publicKeyPEM =
     (case parsePublicKeyPEM C publicKeyPEM of Inl err \<Rightarrow> Inl err | Inr key \<Rightarrow> publicKeyToJWK C key)"

text \<open>The loop of \<open>JWKSFromPEMs\<close>, with the identifiers already seen.\<close>

fun collect_jwks :: "crypto_lib \<Rightarrow> string list \<Rightarrow> string list \<Rightarrow> go_error + jwk list" where
  "collect_jwks C seen [] = Inr []"
| "collect_jwks C seen (publicKeyPEM # rest) =
     (case jwkFromPEM C publicKeyPEM of
        Inl err \<Rightarrow> Inl err
      | Inr key \<Rightarrow>
          if jwk_Kid key \<in> set seen then collect_jwks C seen rest
          else map_sum (\<lambda>e. e) (\<lambda>keys. key # keys) (collect_jwks C (jwk_Kid key # seen) rest))"

definition JWKSFromPEMs :: "crypto_lib \<Rightarrow> string list \<Rightarrow> go_error + string" where
  "JWKSFromPEMs C publicKeyPEMs =
     (if publicKeyPEMs = [] then Inl (ErrorString ''at least one public key PEM is required'')
      else map_sum (\<lambda>e. e) (\<lambda>keys. json_text (jwks_json keys)) (collect_jwks C [] publicKeyPEMs))"

definition JWKSFromPEM :: "crypto_lib \<Rightarrow> string \<Rightarrow> go_error + string" where
  "JWKSFromPEM C publicKeyPEM = JWKSFromPEMs C [publicKeyPEM]"

end
