(* ===== verification/Oidc_Publisher.thy ===== *)
theory Oidc_Publisher
  imports Oidc_Documents Issuer_Controller Arm_Store
begin

text \<open>
  internal/azure/oidc\_publisher.go: the publisher behind the OIDCIssuer reconciler.  It brings the storage
  account and its blob container into the state that serves documents, builds the discovery document
  and the key set from the signing key Secrets, and uploads both.  The storage clients of the SDK are
  parameters; tracing only decorates them.  \<open>newStorageClients\<close>' SDK constructors are \<open>storageSDK\<close>.
\<close>

section \<open>Clients\<close>

record AccountProperties =
  ap_AllowBlobPublicAccess :: "bool option"
  ap_AllowSharedKeyAccess :: "bool option"
  ap_EnableHTTPSTrafficOnly :: "bool option"
  ap_MinimumTLSVersion :: "string option"

record Account =
  acc_ID :: "string option"
  acc_Tags :: tags
  acc_Properties :: "AccountProperties option"

record AccountCreateParameters =
  acp_Location :: string
  acp_Kind :: string
  acp_SKU :: string
  acp_AccessTier :: string
  acp_Properties :: AccountProperties
  acp_Tags :: tags

record BlobContainer =
  bc_ID :: "string option"
  bc_PublicAccess :: "string option"

text \<open>A poller is the call that waits for it; a container without properties has no public access.\<close>

record 'w AccountsClient =
  sa_GetProperties :: "string \<Rightarrow> string \<Rightarrow> ('w, Account) ext_io"
  sa_BeginCreate :: "string \<Rightarrow> string \<Rightarrow> AccountCreateParameters \<Rightarrow> ('w, ('w, Account) ext_io) ext_io"
  sa_Update :: "string \<Rightarrow> string \<Rightarrow> tags \<Rightarrow> AccountProperties \<Rightarrow> ('w, Account) ext_io"
  sa_Delete :: "string \<Rightarrow> string \<Rightarrow> ('w, unit) ext_io"

record 'w BlobContainersClient =
  bc_Get :: "string \<Rightarrow> string \<Rightarrow> string \<Rightarrow> ('w, BlobContainer) ext_io"
  bc_Create :: "string \<Rightarrow> string \<Rightarrow> string \<Rightarrow> BlobContainer \<Rightarrow> ('w, BlobContainer) ext_io"
  bc_Update :: "string \<Rightarrow> string \<Rightarrow> string \<Rightarrow> BlobContainer \<Rightarrow> ('w, BlobContainer) ext_io"

text \<open>\<open>UploadBuffer\<close>: container, blob name, content and content type.\<close>

type_synonym 'w BlobClient = "string \<Rightarrow> string \<Rightarrow> string \<Rightarrow> string \<Rightarrow> ('w, unit) ext_io"

record 'w storageSDK =
  ss_NewResourceGroupsClient :: "string \<Rightarrow> TokenCredential \<Rightarrow> ext_error + 'w resourceGroupsClient"
  ss_NewAccountsClient :: "string \<Rightarrow> TokenCredential \<Rightarrow> ext_error + 'w AccountsClient"
  ss_NewBlobContainersClient :: "string \<Rightarrow> TokenCredential \<Rightarrow> ext_error + 'w BlobContainersClient"
  ss_NewBlobClient :: "string \<Rightarrow> TokenCredential \<Rightarrow> ext_error + 'w BlobClient"

record 'w storageClients =
  sc_scope :: Scope
  sc_resourceGroups :: "'w resourceGroupsClient"
  sc_storageAccounts :: "'w AccountsClient"
  sc_blobContainers :: "'w BlobContainersClient"
  sc_NewBlobClient :: "string \<Rightarrow> ext_error + 'w BlobClient"

definition newStorageClients ::
  "'w storageSDK \<Rightarrow> Scope \<Rightarrow> TokenCredential \<Rightarrow> go_error + 'w storageClients" where
  "newStorageClients sdk scope credential =
     (case ss_NewResourceGroupsClient sdk (subscriptionID scope) credential of
        Inl err \<Rightarrow> Inl (WrapError ''create resource groups client'' (External err))
      | Inr resourceGroups \<Rightarrow>
     (case ss_NewAccountsClient sdk (subscriptionID scope) credential of
        Inl err \<Rightarrow> Inl (WrapError ''create storage accounts client'' (External err))
      | Inr storageAccounts \<Rightarrow>
     (case ss_NewBlobContainersClient sdk (subscriptionID scope) credential of
        Inl err \<Rightarrow> Inl (WrapError ''create blob containers client'' (External err))
      | Inr blobContainers \<Rightarrow>
          Inr \<lparr> sc_scope = scope, sc_resourceGroups = resourceGroups, sc_storageAccounts = storageAccounts,
                sc_blobContainers = blobContainers,
                sc_NewBlobClient = (\<lambda>url. ss_NewBlobClient sdk url credential) \<rparr>)))"

section \<open>Tags and names\<close>

definition oidcIssuerUIDTag :: string where "oidcIssuerUIDTag = ''oidc-issuer-uid''"

definition resourceTags :: "OIDCIssuer \<Rightarrow> bool \<Rightarrow> tags" where
  "resourceTags issuer createdByOperator =
     operatorOwnershipTags oidcIssuerUIDTag (UID (oi_Meta issuer)) createdByOperator"

definition wasOIDCIssuerResourceCreatedByOperator :: "tags \<Rightarrow> OIDCIssuer \<Rightarrow> bool" where
  "wasOIDCIssuerResourceCreatedByOperator existing issuer =
     wasOperatorCreatedResource existing (resourceTags issuer True)"

abbreviation account_name :: "OIDCIssuer \<Rightarrow> string" where
  "account_name issuer \<equiv> StorageAccountName (ois_Azure (oi_Spec issuer))"
abbreviation container_name :: "OIDCIssuer \<Rightarrow> string" where
  "container_name issuer \<equiv> BlobContainerName (ois_Azure (oi_Spec issuer))"

definition issuerURL :: "OIDCIssuer \<Rightarrow> string" where
  "issuerURL issuer = ''https://'' @ account_name issuer @ ''.blob.core.windows.net/'' @ container_name issuer"

section \<open>Storage account and container\<close>

definition MinimumTLSVersionTLS12 :: string where "MinimumTLSVersionTLS12 = ''TLS1_2''"
definition PublicAccessBlob :: string where "PublicAccessBlob = ''Blob''"

text \<open>The properties both the creation and the update write.\<close>

definition secured_properties :: AccountProperties where
  "secured_properties = \<lparr> ap_AllowBlobPublicAccess = Some True, ap_AllowSharedKeyAccess = Some False,
     ap_EnableHTTPSTrafficOnly = Some True, ap_MinimumTLSVersion = Some MinimumTLSVersionTLS12 \<rparr>"

definition account_parameters :: "Scope \<Rightarrow> OIDCIssuer \<Rightarrow> AccountCreateParameters" where
  "account_parameters scope issuer = \<lparr> acp_Location = location scope, acp_Kind = ''StorageV2'', acp_SKU = ''Standard_LRS'',
     acp_AccessTier = ''Hot'', acp_Properties = secured_properties, acp_Tags = resourceTags issuer True \<rparr>"

definition account_needs_update :: "OIDCIssuer \<Rightarrow> Account \<Rightarrow> bool" where
  "account_needs_update issuer account \<longleftrightarrow>
     (let desiredTags = resourceTags issuer (wasOIDCIssuerResourceCreatedByOperator (acc_Tags account) issuer)
      in \<not> hasTags (acc_Tags account) desiredTags \<or>
         (case acc_Properties account of None \<Rightarrow> True
          | Some properties \<Rightarrow>
              ap_AllowBlobPublicAccess properties \<noteq> Some True \<or>
              ap_AllowSharedKeyAccess properties \<noteq> Some False \<or>
              ap_EnableHTTPSTrafficOnly properties \<noteq> Some True \<or>
              ap_MinimumTLSVersion properties \<noteq> Some MinimumTLSVersionTLS12))"

definition convergeStorageAccount :: "'w storageClients \<Rightarrow> OIDCIssuer \<Rightarrow> Account \<Rightarrow> ('w, Account) io" where
  "convergeStorageAccount c issuer account =
     (if \<not> account_needs_update issuer account then io_return account
      else errorf_wrap ''update storage account drift''
        (external (sa_Update (sc_storageAccounts c) (resourceGroupName (sc_scope c)) (account_name issuer)
          (mergeTags (acc_Tags account)
             (resourceTags issuer (wasOIDCIssuerResourceCreatedByOperator (acc_Tags account) issuer)))
          secured_properties)))"

definition create_account :: "'w storageClients \<Rightarrow> OIDCIssuer \<Rightarrow> ('w, Account) io" where
  "create_account c issuer =
     io_try (errorf_wrap ''create storage account''
         (external (sa_BeginCreate (sc_storageAccounts c) (resourceGroupName (sc_scope c)) (account_name issuer)
            (account_parameters (sc_scope c) issuer))))
       (\<lambda>poll. errorf_wrap ''wait for storage account'' (external poll))"

definition get_or_create_account :: "'w storageClients \<Rightarrow> OIDCIssuer \<Rightarrow> ('w, Account) io" where
  "get_or_create_account c issuer =
     State_Monad.bind (sa_GetProperties (sc_storageAccounts c) (resourceGroupName (sc_scope c)) (account_name issuer))
       (\<lambda>r. case r of
          Inl err \<Rightarrow> if isNotFound err then create_account c issuer
                     else io_fail (WrapError ''get storage account'' (External err))
        | Inr account \<Rightarrow> convergeStorageAccount c issuer account)"

definition public_container :: BlobContainer where
  "public_container = \<lparr> bc_ID = None, bc_PublicAccess = Some PublicAccessBlob \<rparr>"

definition ensureBlobContainer :: "'w storageClients \<Rightarrow> OIDCIssuer \<Rightarrow> ('w, BlobContainer) io" where
  "ensureBlobContainer c issuer =
     (let rg = resourceGroupName (sc_scope c); account = account_name issuer; name = container_name issuer in
      State_Monad.bind (bc_Get (sc_blobContainers c) rg account name) (\<lambda>r. case r of
        Inl err \<Rightarrow>
          if isNotFound err
          then errorf_wrap ''create blob container'' (external (bc_Create (sc_blobContainers c) rg account name public_container))
          else io_fail (WrapError ''get blob container'' (External err))
      | Inr container \<Rightarrow>
          if bc_PublicAccess container \<noteq> Some PublicAccessBlob
          then errorf_wrap ''update blob container drift''
                 (external (bc_Update (sc_blobContainers c) rg account name public_container))
          else io_return container))"

definition ensureStorage :: "'w storageClients \<Rightarrow> OIDCIssuer \<Rightarrow> ('w, AzureResource list) io" where
  "ensureStorage c issuer =
     io_try (ensureResourceGroup (sc_resourceGroups c) (sc_scope c)) (\<lambda>rg.
     io_try (get_or_create_account c issuer) (\<lambda>storage.
     io_try (ensureBlobContainer c issuer) (\<lambda>container.
       io_return (resource_entry (rg_ID rg) ''ResourceGroup'' @ resource_entry (acc_ID storage) ''StorageAccount''
         @ resource_entry (bc_ID container) ''BlobContainer''))))"

definition uploadJSON :: "'w storageClients \<Rightarrow> OIDCIssuer \<Rightarrow> string \<Rightarrow> string \<Rightarrow> ('w, unit) io" where
  "uploadJSON c issuer name content =
     (case sc_NewBlobClient c (''https://'' @ account_name issuer @ ''.blob.core.windows.net/'') of
        Inl err \<Rightarrow> io_fail (WrapError ''create blob client'' (External err))
      | Inr upload \<Rightarrow>
          errorf_wrap (''upload '' @ name) (external (upload (container_name issuer) name content ''application/json'')))"

section \<open>Documents\<close>

record oidcDocuments =
  od_Discovery :: string
  od_JWKS :: string
  od_SigningKeys :: "SigningKeyStatus list"

text \<open>The loop of \<open>publishedSigningKeys\<close>, with the identifiers and algorithms already seen.\<close>

fun collect_signing_keys :: "crypto_lib \<Rightarrow> string list \<Rightarrow> string list \<Rightarrow> PublicKey list \<Rightarrow>
    go_error + (SigningKeyStatus list \<times> string list \<times> string list)" where
  "collect_signing_keys C seenKeyIDs seenAlgorithms [] = Inr ([], [], [])"
| "collect_signing_keys C seenKeyIDs seenAlgorithms (pub # rest) =
     (case PublicKeyMetadataFromPEM C (pk_PEM pub) of
        Inl err \<Rightarrow> Inl err
      | Inr metadata \<Rightarrow>
          let kid = pkm_KeyID metadata; alg = pkm_Algorithm metadata in
          if kid \<in> set seenKeyIDs then collect_signing_keys C seenKeyIDs seenAlgorithms rest
          else map_sum (\<lambda>e. e)
            (\<lambda>(signingKeys, algorithms, pems).
               (\<lparr> sks_KID = kid, sks_Algorithm = alg, sks_State = pk_State pub \<rparr> # signingKeys,
                if alg \<in> set seenAlgorithms then algorithms else alg # algorithms, pk_PEM pub # pems))
            (collect_signing_keys C (kid # seenKeyIDs)
               (if alg \<in> set seenAlgorithms then seenAlgorithms else alg # seenAlgorithms) rest))"

definition publishedSigningKeys ::
  "crypto_lib \<Rightarrow> PublicKey list \<Rightarrow> go_error + (SigningKeyStatus list \<times> string list \<times> string list)" where
  "publishedSigningKeys C publicKeys = collect_signing_keys C [] [] publicKeys"

definition buildOIDCDocuments ::
  "crypto_lib \<Rightarrow> 'w Reader \<Rightarrow> OIDCIssuer \<Rightarrow> string \<Rightarrow> ('w, oidcDocuments) io" where
  "buildOIDCDocuments C reader issuer url =
     io_try (PublicKeysPEM C reader (ois_SigningKey (oi_Spec issuer))) (\<lambda>publicKeys.
     io_try (io_of (publishedSigningKeys C publicKeys)) (\<lambda>(signingKeys, algorithms, publicKeyPEMs).
     io_try (io_of (DiscoveryDocument url algorithms)) (\<lambda>discovery.
     io_try (io_of (JWKSFromPEMs C publicKeyPEMs)) (\<lambda>jwks.
       io_return \<lparr> od_Discovery = discovery, od_JWKS = jwks, od_SigningKeys = signingKeys \<rparr>))))"

section \<open>Publish and delete\<close>

record 'w BlobOIDCDocumentPublisher =
  bp_Reader :: "'w Reader option"
  bp_Credential :: "TokenCredential option"
  bp_Scope :: Scope

definition discovery_blob :: string where "discovery_blob = ''.well-known/openid-configuration''"

definition publish_with ::
  "crypto_lib \<Rightarrow> 'w storageClients \<Rightarrow> 'w Reader \<Rightarrow> OIDCIssuer \<Rightarrow> ('w, PublishedDocuments) io" where
  "publish_with C clients reader issuer =
     io_try (ensureStorage clients issuer) (\<lambda>resources.
     io_try (buildOIDCDocuments C reader issuer (issuerURL issuer)) (\<lambda>documents.
     io_try (uploadJSON clients issuer discovery_blob (od_Discovery documents)) (\<lambda>_.
     io_try (uploadJSON clients issuer jwksPath (od_JWKS documents)) (\<lambda>_.
       io_return \<lparr> pd_IssuerURL = issuerURL issuer, pd_AzureResources = resources,
                   pd_SigningKeys = od_SigningKeys documents \<rparr>))))"

definition Publisher_Publish ::
  "crypto_lib \<Rightarrow> 'w storageSDK \<Rightarrow> 'w BlobOIDCDocumentPublisher \<Rightarrow> OIDCIssuer \<Rightarrow> ('w, PublishedDocuments) io" where
  "Publisher_Publish C sdk p issuer =
     (case bp_Credential p of
        None \<Rightarrow> io_fail (ErrorString ''azure credential is required'')
      | Some credential \<Rightarrow>
     (case bp_Reader p of
        None \<Rightarrow> io_fail (ErrorString ''kubernetes reader is required'')
      | Some reader \<Rightarrow>
     (case Scope_Validate (bp_Scope p) of
        Some err \<Rightarrow> io_fail (WrapError ''validate Azure scope'' err)
      | None \<Rightarrow>
     (case newStorageClients sdk (bp_Scope p) credential of
        Inl err \<Rightarrow> io_fail err
      | Inr clients \<Rightarrow> publish_with C clients reader issuer))))"

definition delete_with :: "'w storageClients \<Rightarrow> OIDCIssuer \<Rightarrow> ('w, unit) io" where
  "delete_with clients issuer =
     (let rg = resourceGroupName (sc_scope clients) in
      State_Monad.bind (sa_GetProperties (sc_storageAccounts clients) rg (account_name issuer)) (\<lambda>r. case r of
        Inl err \<Rightarrow> if isNotFound err then io_return ()
                   else io_fail (WrapError ''get storage account before delete'' (External err))
      | Inr storage \<Rightarrow>
          if wasOIDCIssuerResourceCreatedByOperator (acc_Tags storage) issuer
          then State_Monad.bind (sa_Delete (sc_storageAccounts clients) rg (account_name issuer)) (\<lambda>d. case d of
                 Inl err \<Rightarrow> if isNotFound err then io_return () else io_fail (External err)
               | Inr _ \<Rightarrow> io_return ())
          else io_return ()))"

definition Publisher_Delete ::
  "'w storageSDK \<Rightarrow> 'w BlobOIDCDocumentPublisher \<Rightarrow> OIDCIssuer \<Rightarrow> ('w, unit) io" where
  "Publisher_Delete sdk p issuer =
     (case bp_Credential p of
        None \<Rightarrow> io_fail (ErrorString ''azure credential is required'')
      | Some credential \<Rightarrow>
     (case Scope_Validate (bp_Scope p) of
        Some err \<Rightarrow> io_fail (WrapError ''validate Azure scope'' err)
      | None \<Rightarrow>
     (case newStorageClients sdk (bp_Scope p) credential of
        Inl err \<Rightarrow> io_fail err
      | Inr clients \<Rightarrow> delete_with clients issuer)))"

text \<open>The publisher the OIDCIssuer reconciler is given.\<close>

definition blob_publisher :: "crypto_lib \<Rightarrow> 'w storageSDK \<Rightarrow> 'w BlobOIDCDocumentPublisher \<Rightarrow> 'w Publisher" where
  "blob_publisher C sdk p = \<lparr> pub_Publish = Publisher_Publish C sdk p, pub_Delete = Publisher_Delete sdk p \<rparr>"

end
