(* ===== verification/Storage_Store.thy ===== *)
theory Storage_Store
  imports Oidc_Publisher Issuer_Properties
begin

text \<open>
  Azure Storage as the publisher relies on it.  \<open>storage_state\<close> is what its clients can see: accounts
  by resource group and name, containers and blobs.  \<open>storage_laws view c\<close> is their documented behaviour over
  any world with a view on such a state: a read reports what is stored, a write that succeeds is
  applied to the addressed resource alone, and one that fails was applied fully or not at all.
  \<open>mem_storage\<close> is an in-memory instance for the witnesses.
\<close>

section \<open>State and laws\<close>

record storage_state =
  accounts :: "arm_key \<Rightarrow> Account option"
  containers :: "arm_key \<Rightarrow> string \<Rightarrow> BlobContainer option"
  blobs :: "string \<Rightarrow> string \<Rightarrow> string \<Rightarrow> (string \<times> string) option"

definition put_account :: "arm_key \<Rightarrow> Account \<Rightarrow> storage_state \<Rightarrow> storage_state" where
  "put_account k a s = s\<lparr>accounts := (accounts s)(k := Some a)\<rparr>"

definition drop_account :: "arm_key \<Rightarrow> storage_state \<Rightarrow> storage_state" where
  "drop_account k s = s\<lparr>accounts := (accounts s)(k := None), containers := (containers s)(k := (\<lambda>_. None)),
     blobs := (blobs s)(snd k := (\<lambda>_ _. None))\<rparr>"

definition put_container :: "arm_key \<Rightarrow> string \<Rightarrow> BlobContainer \<Rightarrow> storage_state \<Rightarrow> storage_state" where
  "put_container k n b s = s\<lparr>containers := (containers s)(k := (containers s k)(n := Some b))\<rparr>"

definition put_blob :: "string \<Rightarrow> string \<Rightarrow> string \<Rightarrow> string \<times> string \<Rightarrow> storage_state \<Rightarrow> storage_state" where
  "put_blob account container name content s = s\<lparr>blobs := (blobs s)(account :=
     (blobs s account)(container := (blobs s account container)(name := Some content)))\<rparr>"

text \<open>The account an accepted write of tags and properties stores.\<close>

definition account_of :: "tags \<Rightarrow> AccountProperties \<Rightarrow> Account \<Rightarrow> bool" where
  "account_of t p a \<longleftrightarrow> acc_Tags a = t \<and> acc_Properties a = Some p"

definition account_write ::
  "arm_key \<Rightarrow> tags \<Rightarrow> AccountProperties \<Rightarrow> storage_state \<Rightarrow> ext_error + Account \<Rightarrow> storage_state \<Rightarrow> bool" where
  "account_write k t p s r s' \<longleftrightarrow>
     (case r of Inr a \<Rightarrow> account_of t p a \<and> s' = put_account k a s
      | Inl e \<Rightarrow> s' = s \<or> (\<exists>a. account_of t p a \<and> s' = put_account k a s))"

definition container_write ::
  "arm_key \<Rightarrow> string \<Rightarrow> BlobContainer \<Rightarrow> storage_state \<Rightarrow> ext_error + BlobContainer \<Rightarrow> storage_state \<Rightarrow> bool" where
  "container_write k n d s r s' \<longleftrightarrow>
     (case r of Inr b \<Rightarrow> bc_PublicAccess b = bc_PublicAccess d \<and> s' = put_container k n b s
      | Inl e \<Rightarrow> s' = s \<or> (\<exists>b. s' = put_container k n b s))"

definition account_laws :: "('w \<Rightarrow> storage_state) \<Rightarrow> 'w AccountsClient \<Rightarrow> bool" where
  "account_laws view c \<longleftrightarrow>
     (\<forall>rg n. reads view (sa_GetProperties c rg n) (\<lambda>s r. case r of
        Inr a \<Rightarrow> accounts s (rg, n) = Some a
      | Inl e \<Rightarrow> isNotFound e \<longrightarrow> accounts s (rg, n) = None)) \<and>
     (\<forall>rg n p. writes view (sa_BeginCreate c rg n p) (\<lambda>s r s'.
        (s' = s \<or> (\<exists>a. account_of (acp_Tags p) (acp_Properties p) a \<and> s' = put_account (rg, n) a s)) \<and>
        (\<forall>poll. r = Inr poll \<longrightarrow> writes view poll (account_write (rg, n) (acp_Tags p) (acp_Properties p))))) \<and>
     (\<forall>rg n t p. writes view (sa_Update c rg n t p) (\<lambda>s r s'.
        account_write (rg, n) t p s r s' \<and> (\<forall>a. r = Inr a \<longrightarrow> accounts s (rg, n) \<noteq> None))) \<and>
     (\<forall>rg n. writes view (sa_Delete c rg n) (\<lambda>s r s'. case r of
        Inr u \<Rightarrow> s' = drop_account (rg, n) s
      | Inl e \<Rightarrow> s' = s \<or> s' = drop_account (rg, n) s))"

definition container_laws :: "('w \<Rightarrow> storage_state) \<Rightarrow> 'w BlobContainersClient \<Rightarrow> bool" where
  "container_laws view c \<longleftrightarrow>
     (\<forall>rg a n. reads view (bc_Get c rg a n) (\<lambda>s r. case r of
        Inr b \<Rightarrow> containers s (rg, a) n = Some b
      | Inl e \<Rightarrow> isNotFound e \<longrightarrow> containers s (rg, a) n = None)) \<and>
     (\<forall>rg a n d. writes view (bc_Create c rg a n d) (container_write (rg, a) n d)) \<and>
     (\<forall>rg a n d. writes view (bc_Update c rg a n d) (container_write (rg, a) n d))"

definition blob_service_url :: "string \<Rightarrow> string" where
  "blob_service_url account = ''https://'' @ account @ ''.blob.core.windows.net/''"

definition blob_laws :: "('w \<Rightarrow> storage_state) \<Rightarrow> (string \<Rightarrow> ext_error + 'w BlobClient) \<Rightarrow> bool" where
  "blob_laws view new_client \<longleftrightarrow>
     (\<forall>account upload. new_client (blob_service_url account) = Inr upload \<longrightarrow>
        (\<forall>container name content kind. writes view (upload container name content kind) (\<lambda>s r s'. case r of
           Inr u \<Rightarrow> s' = put_blob account container name (content, kind) s
         | Inl e \<Rightarrow> s' = s \<or> s' = put_blob account container name (content, kind) s)))"

text \<open>A call of another service.\<close>

definition neutral_to :: "('w \<Rightarrow> 's) \<Rightarrow> ('w, 'r) state \<Rightarrow> bool" where
  "neutral_to view m \<longleftrightarrow> (\<forall>w. view (snd (run_state m w)) = view w)"

definition storage_laws :: "('w \<Rightarrow> storage_state) \<Rightarrow> 'w storageClients \<Rightarrow> bool" where
  "storage_laws view c \<longleftrightarrow>
     account_laws view (sc_storageAccounts c) \<and> container_laws view (sc_blobContainers c) \<and>
     blob_laws view (sc_NewBlobClient c) \<and>
     (\<forall>rg. neutral_to view (rg_Get (sc_resourceGroups c) rg)) \<and>
     (\<forall>rg d. neutral_to view (rg_CreateOrUpdate (sc_resourceGroups c) rg d))"

definition reader_neutral :: "('w \<Rightarrow> storage_state) \<Rightarrow> 'w Reader \<Rightarrow> bool" where
  "reader_neutral view reader \<longleftrightarrow> (\<forall>k. neutral_to view (GetSecret reader k))"

lemma neutral_preserves: "neutral_to view m \<Longrightarrow> preserves (\<lambda>w. P (view w)) m"
  unfolding neutral_to_def preserves_def by metis

section \<open>What the steps of a publish write\<close>

abbreviation account_key :: "'w storageClients \<Rightarrow> OIDCIssuer \<Rightarrow> arm_key" where
  "account_key c issuer \<equiv> (resourceGroupName (sc_scope c), account_name issuer)"

lemma storage_simps [simp]:
  "accounts (put_account k a s) = (accounts s)(k := Some a)" "containers (put_account k a s) = containers s"
  "blobs (put_account k a s) = blobs s" "accounts (put_container k n b s) = accounts s"
  "containers (put_container k n b s) = (containers s)(k := (containers s k)(n := Some b))"
  "blobs (put_container k n b s) = blobs s" "accounts (put_blob ac co n x s) = accounts s"
  "containers (put_blob ac co n x s) = containers s"
  "blobs (put_blob ac co n x s) ac' co' n' = (if ac' = ac \<and> co' = co \<and> n' = n then Some x else blobs s ac' co' n')"
  by (auto simp: put_account_def put_container_def put_blob_def)

lemma neutral_same: "neutral_to view m \<Longrightarrow> preserves (\<lambda>w'. view w' = s) m"
  unfolding neutral_to_def preserves_def by metis

lemma resource_group_neutral:
  assumes "storage_laws view c" "run_state (ensureResourceGroup (sc_resourceGroups c) (sc_scope c)) w = (r, w')"
  shows "view w' = view w"
proof -
  have get: "preserves (\<lambda>w'. view w' = view w) (rg_Get (sc_resourceGroups c) rg)" for rg
    using assms(1) by (simp add: storage_laws_def neutral_same)
  have create: "preserves (\<lambda>w'. view w' = view w) (rg_CreateOrUpdate (sc_resourceGroups c) rg d)" for rg d
    using assms(1) by (simp add: storage_laws_def neutral_same)
  have "preserves (\<lambda>w'. view w' = view w) (ensureResourceGroup (sc_resourceGroups c) (sc_scope c))"
    unfolding ensureResourceGroup_def by (intro preserves_intros get create)
  then show ?thesis by (rule preservesD[OF _ refl assms(2)])
qed

lemma documents_neutral:
  assumes "reader_neutral view reader" "run_state (buildOIDCDocuments C reader issuer url) w = (r, w')"
  shows "view w' = view w"
proof -
  have secret: "preserves (\<lambda>w'. view w' = view w) (GetSecret reader k)" for k
    using assms(1) by (simp add: reader_neutral_def neutral_same)
  have "preserves (\<lambda>w'. view w' = view w) (buildOIDCDocuments C reader issuer url)"
    unfolding buildOIDCDocuments_def PublicKeysPEM_def
    by (intro preserves_intros preserves_read_public_keys[OF secret])
  then show ?thesis by (rule preservesD[OF _ refl assms(2)])
qed

text \<open>The account's tags after a publish, and what they say of its origin.\<close>

lemma hasTags_resourceTags:
  "hasTags t (resourceTags issuer b) \<longleftrightarrow>
     tag_pointer t managedByTag = Some operatorName \<and> tag_pointer t oidcIssuerUIDTag = Some (UID (oi_Meta issuer)) \<and>
     tag_pointer t createdByOperatorTag = Some (fmt_t b) \<and> tag_pointer t operatorAPIGroupTag = Some operatorAPIGroupValue"
  unfolding resourceTags_def
  by (rule hasTags_ownership) (simp add: oidcIssuerUIDTag_def managedByTag_def createdByOperatorTag_def operatorAPIGroupTag_def)

lemma was_created_iff: "wasOIDCIssuerResourceCreatedByOperator t issuer \<longleftrightarrow> hasTags t (resourceTags issuer True)"
  by (auto simp: wasOIDCIssuerResourceCreatedByOperator_def wasOperatorCreatedResource_def hasTags_resourceTags
      operatorCreatedTagValue_def fmt_t_def)

lemma tags_tell_origin:
  "hasTags t (resourceTags issuer b) \<Longrightarrow> wasOIDCIssuerResourceCreatedByOperator t issuer \<longleftrightarrow> b"
  by (cases b) (simp_all add: was_created_iff hasTags_resourceTags fmt_t_def)

lemma resource_tag_values:
  "tag_pointer (resourceTags issuer b) managedByTag = Some operatorName"
  "tag_pointer (resourceTags issuer b) oidcIssuerUIDTag = Some (UID (oi_Meta issuer))"
  "tag_pointer (resourceTags issuer b) createdByOperatorTag = Some (fmt_t b)"
  "tag_pointer (resourceTags issuer b) operatorAPIGroupTag = Some operatorAPIGroupValue"
  "fmdom (resourceTags issuer b) = {|managedByTag, oidcIssuerUIDTag, createdByOperatorTag, operatorAPIGroupTag|}"
  by (auto simp: tag_pointer_def resourceTags_def operatorOwnershipTags_def
      oidcIssuerUIDTag_def managedByTag_def createdByOperatorTag_def operatorAPIGroupTag_def)

lemma merged_resource_tags: "hasTags (mergeTags t (resourceTags issuer b)) (resourceTags issuer b)"
  unfolding hasTags_resourceTags by (simp add: resource_tag_values)

lemma own_resource_tags: "hasTags (resourceTags issuer b) (resourceTags issuer b)"
  unfolding hasTags_resourceTags by (simp add: resource_tag_values)

text \<open>Whether the account is, or would be, the operator's own creation for this issuer.\<close>

definition operator_account :: "arm_key \<Rightarrow> OIDCIssuer \<Rightarrow> storage_state \<Rightarrow> bool" where
  "operator_account k issuer s \<longleftrightarrow>
     (case accounts s k of None \<Rightarrow> True | Some a \<Rightarrow> wasOIDCIssuerResourceCreatedByOperator (acc_Tags a) issuer)"

definition converged_account :: "arm_key \<Rightarrow> OIDCIssuer \<Rightarrow> storage_state \<Rightarrow> Account \<Rightarrow> bool" where
  "converged_account k issuer s a \<longleftrightarrow>
     acc_Properties a = Some secured_properties \<and> hasTags (acc_Tags a) (resourceTags issuer (operator_account k issuer s))"

lemma no_update_converged:
  "accounts s k = Some a \<Longrightarrow> \<not> account_needs_update issuer a \<Longrightarrow> converged_account k issuer s a"
  by (auto simp: account_needs_update_def converged_account_def operator_account_def secured_properties_def Let_def
      split: option.splits)

lemma put_account_same: "accounts s k = Some a \<Longrightarrow> put_account k a s = s"
  by (simp add: put_account_def fun_upd_idem)

lemma put_account_twice [simp]: "put_account k a (put_account k b s) = put_account k a s"
  by (simp add: put_account_def)

definition account_effect ::
  "arm_key \<Rightarrow> OIDCIssuer \<Rightarrow> storage_state \<Rightarrow> go_error + Account \<Rightarrow> storage_state \<Rightarrow> bool" where
  "account_effect k issuer s r s' \<longleftrightarrow>
     (\<exists>a. converged_account k issuer s a \<and> s' = put_account k a s) \<or> (s' = s \<and> (\<exists>e. r = Inl e))"

lemma converge_effect:
  assumes laws: "storage_laws view c" and stored: "accounts (view w) (account_key c issuer) = Some a"
    and run: "run_state (convergeStorageAccount c issuer a) w = (r, w')"
  shows "account_effect (account_key c issuer) issuer (view w) r (view w')"
proof (cases "account_needs_update issuer a")
  case False
  then show ?thesis
    using run no_update_converged[OF stored False] put_account_same[OF stored]
    by (auto simp: convergeStorageAccount_def account_effect_def intro!: exI[of _ a])
next
  case True
  let ?t = "mergeTags (acc_Tags a) (resourceTags issuer (operator_account (account_key c issuer) issuer (view w)))"
  obtain r0 where r0: "run_state (sa_Update (sc_storageAccounts c) (resourceGroupName (sc_scope c)) (account_name issuer)
      ?t secured_properties) w = (r0, w')" and r: "\<And>x. r = Inr x \<Longrightarrow> r0 = Inr x"
    using run True stored
    by (auto simp: convergeStorageAccount_def operator_account_def run_simps split: prod.splits sum.splits)
  have "account_write (account_key c issuer) ?t secured_properties (view w) r0 (view w')"
    using laws writesD[OF _ r0] unfolding storage_laws_def account_laws_def by blast
  moreover have "converged_account (account_key c issuer) issuer (view w) a'" if "account_of ?t secured_properties a'" for a'
    using that merged_resource_tags by (auto simp: converged_account_def account_of_def)
  ultimately show ?thesis using r by (cases r) (auto simp: account_write_def account_effect_def split: sum.splits)
qed

text \<open>The laws one by one, as facts about a run.\<close>

lemma account_get:
  assumes "storage_laws view c" "run_state (sa_GetProperties (sc_storageAccounts c) rg n) w = (r, w')"
  shows "view w' = view w" "r = Inr a \<Longrightarrow> accounts (view w) (rg, n) = Some a"
    "r = Inl e \<Longrightarrow> isNotFound e \<Longrightarrow> accounts (view w) (rg, n) = None"
proof -
  have "reads view (sa_GetProperties (sc_storageAccounts c) rg n) (\<lambda>s r. case r of
        Inr a \<Rightarrow> accounts s (rg, n) = Some a | Inl e \<Rightarrow> isNotFound e \<longrightarrow> accounts s (rg, n) = None)"
    using assms(1) by (simp add: storage_laws_def account_laws_def)
  from readsD[OF this assms(2)] show "view w' = view w" "r = Inr a \<Longrightarrow> accounts (view w) (rg, n) = Some a"
    "r = Inl e \<Longrightarrow> isNotFound e \<Longrightarrow> accounts (view w) (rg, n) = None" by auto
qed

lemma account_begin:
  assumes "storage_laws view c" "run_state (sa_BeginCreate (sc_storageAccounts c) rg n p) w = (r, w')"
  shows "view w' = view w \<or> (\<exists>a. account_of (acp_Tags p) (acp_Properties p) a \<and> view w' = put_account (rg, n) a (view w))"
    "r = Inr poll \<Longrightarrow> run_state poll w1 = (r2, w2) \<Longrightarrow>
       account_write (rg, n) (acp_Tags p) (acp_Properties p) (view w1) r2 (view w2)"
proof -
  have "writes view (sa_BeginCreate (sc_storageAccounts c) rg n p) (\<lambda>s r s'.
        (s' = s \<or> (\<exists>a. account_of (acp_Tags p) (acp_Properties p) a \<and> s' = put_account (rg, n) a s)) \<and>
        (\<forall>poll. r = Inr poll \<longrightarrow> writes view poll (account_write (rg, n) (acp_Tags p) (acp_Properties p))))"
    using assms(1) by (simp add: storage_laws_def account_laws_def)
  from writesD[OF this assms(2)]
  show "view w' = view w \<or> (\<exists>a. account_of (acp_Tags p) (acp_Properties p) a \<and> view w' = put_account (rg, n) a (view w))"
    "r = Inr poll \<Longrightarrow> run_state poll w1 = (r2, w2) \<Longrightarrow>
       account_write (rg, n) (acp_Tags p) (acp_Properties p) (view w1) r2 (view w2)"
    by (auto dest: writesD)
qed

lemma account_delete:
  assumes "storage_laws view c" "run_state (sa_Delete (sc_storageAccounts c) rg n) w = (r, w')"
  shows "view w' = view w \<and> (\<exists>e. r = Inl e) \<or> view w' = drop_account (rg, n) (view w)"
proof -
  have "writes view (sa_Delete (sc_storageAccounts c) rg n) (\<lambda>s r s'. case r of
        Inr u \<Rightarrow> s' = drop_account (rg, n) s | Inl e \<Rightarrow> s' = s \<or> s' = drop_account (rg, n) s)"
    using assms(1) by (simp add: storage_laws_def account_laws_def)
  from writesD[OF this assms(2)] show ?thesis by (auto split: sum.splits)
qed

lemma container_get:
  assumes "storage_laws view c" "run_state (bc_Get (sc_blobContainers c) rg a n) w = (r, w')"
  shows "view w' = view w" "r = Inr b \<Longrightarrow> containers (view w) (rg, a) n = Some b"
proof -
  have "reads view (bc_Get (sc_blobContainers c) rg a n) (\<lambda>s r. case r of
        Inr b \<Rightarrow> containers s (rg, a) n = Some b | Inl e \<Rightarrow> isNotFound e \<longrightarrow> containers s (rg, a) n = None)"
    using assms(1) by (simp add: storage_laws_def container_laws_def)
  from readsD[OF this assms(2)] show "view w' = view w" "r = Inr b \<Longrightarrow> containers (view w) (rg, a) n = Some b" by auto
qed

lemma container_put:
  assumes "storage_laws view c"
  shows "run_state (bc_Create (sc_blobContainers c) rg a n d) w = (r, w') \<Longrightarrow> container_write (rg, a) n d (view w) r (view w')"
    "run_state (bc_Update (sc_blobContainers c) rg a n d) w = (r, w') \<Longrightarrow> container_write (rg, a) n d (view w) r (view w')"
proof -
  have "writes view (bc_Create (sc_blobContainers c) rg a n d) (container_write (rg, a) n d)"
    "writes view (bc_Update (sc_blobContainers c) rg a n d) (container_write (rg, a) n d)"
    using assms by (simp_all add: storage_laws_def container_laws_def)
  then show "run_state (bc_Create (sc_blobContainers c) rg a n d) w = (r, w') \<Longrightarrow> container_write (rg, a) n d (view w) r (view w')"
    "run_state (bc_Update (sc_blobContainers c) rg a n d) w = (r, w') \<Longrightarrow> container_write (rg, a) n d (view w) r (view w')"
    by (auto dest: writesD)
qed


lemma create_effect:
  assumes laws: "storage_laws view c" and missing: "accounts (view w) (account_key c issuer) = None"
    and run: "run_state (create_account c issuer) w = (r, w')"
  shows "account_effect (account_key c issuer) issuer (view w) r (view w')"
proof -
  let ?k = "account_key c issuer" and ?p = "account_parameters (sc_scope c) issuer"
  let ?of = "account_of (acp_Tags ?p) (acp_Properties ?p)"
  have converged: "converged_account ?k issuer (view w) a" if "?of a" for a
    using that missing own_resource_tags
    by (simp add: converged_account_def account_of_def account_parameters_def operator_account_def)
  obtain r1 w1 where start: "run_state (sa_BeginCreate (sc_storageAccounts c) (fst ?k) (snd ?k) ?p) w = (r1, w1)"
    by (metis surj_pair)
  have started: "view w1 = view w \<or> (\<exists>a. ?of a \<and> view w1 = put_account ?k a (view w))"
    using account_begin(1)[OF laws start] by simp
  show ?thesis
  proof (cases r1)
    case (Inl e)
    then show ?thesis
      using run start started converged by (auto simp: create_account_def run_simps account_effect_def)
  next
    case (Inr poll)
    then obtain r2 where r2: "run_state poll w1 = (r2, w')" and r: "\<And>x. r = Inr x \<Longrightarrow> r2 = Inr x"
      using run start by (auto simp: create_account_def run_simps split: prod.splits sum.splits)
    have "account_write ?k (acp_Tags ?p) (acp_Properties ?p) (view w1) r2 (view w')"
      using account_begin(2)[OF laws start Inr r2] by simp
    then have "(\<exists>a. ?of a \<and> view w' = put_account ?k a (view w)) \<or> view w' = view w \<and> (\<exists>e. r2 = Inl e)"
      using started by (auto simp: account_write_def split: sum.splits)
    moreover have "\<exists>e. r = Inl e" if "r2 = Inl e" for e using r that by (cases r) auto
    ultimately show ?thesis unfolding account_effect_def using converged by metis
  qed
qed

lemma account_step:
  assumes laws: "storage_laws view c" and run: "run_state (get_or_create_account c issuer) w = (r, w')"
  shows "account_effect (account_key c issuer) issuer (view w) r (view w')"
proof -
  obtain r1 w1 where get: "run_state (sa_GetProperties (sc_storageAccounts c) (resourceGroupName (sc_scope c)) (account_name issuer)) w = (r1, w1)"
    by (metis surj_pair)
  note got = account_get[OF laws get]
  show ?thesis
    using run get got converge_effect[OF laws, of w1] create_effect[OF laws, of w1]
    by (cases r1) (auto simp: get_or_create_account_def account_effect_def split: if_splits)
qed

end
