(* ===== verification/Oidc_Properties.thy ===== *)
theory Oidc_Properties
  imports Oidc_Publisher Issuer_Properties "HOL-Library.Sublist"
begin

text \<open>
  What the publisher guarantees: the two documents and the status describe the same keys, a publish
  leaves Azure serving them over a locked-down account, and a deletion touches nothing but the account the
  operator created for this very OIDCIssuer.
\<close>

section \<open>Documents read back\<close>

lemma fold_max_bound: "\<forall>x \<in> set xs. f x \<le> (b :: nat) \<Longrightarrow> m \<le> b \<Longrightarrow> fold max (map f xs) m \<le> b"
  by (induction xs arbitrary: m) auto

lemma json_strings_depth: "json_depth (json_strings xs) \<le> 1"
  using fold_max_bound[of xs "\<lambda>x. json_depth (JString x)" 0 0] by (simp add: comp_def)

lemma discovery_parses: "json_parse (json_text (discovery_json d)) = Some (discovery_json d)"
proof (rule json_parse_roundtrip)
  show "json_ok (discovery_json d)" by (simp add: discovery_json_def list_all_iff)
  have "json_depth (discovery_json d) \<le> 2"
    using json_strings_depth[of "dd_ResponseTypesSupported d"] json_strings_depth[of "dd_SubjectTypesSupported d"]
      json_strings_depth[of "dd_IDTokenSigningAlgValuesSupported d"]
    by (simp add: discovery_json_def del: json_depth.simps(1))
  then show "json_depth (discovery_json d) \<le> maxNestingDepth" by (simp add: maxNestingDepth_def)
qed

lemma jwk_json_simple: "json_ok (jwk_json k)" "json_depth (jwk_json k) \<le> 1"
  by (auto simp: jwk_json_def unless_empty_def)

lemma jwks_parses: "json_parse (json_text (jwks_json keys)) = Some (jwks_json keys)"
proof (rule json_parse_roundtrip)
  show "json_ok (jwks_json keys)" by (simp add: jwks_json_def list_all_iff jwk_json_simple(1))
  have "fold max (map json_depth (map jwk_json keys)) 0 \<le> 1"
    by (rule fold_max_bound) (auto simp: jwk_json_simple(2) simp del: One_nat_def)
  then show "json_depth (jwks_json keys) \<le> maxNestingDepth" by (simp add: jwks_json_def maxNestingDepth_def)
qed

section \<open>The keys of the status are the keys of the set\<close>

lemma map_sum_Inr_iff [simp]: "map_sum f g x = Inr y \<longleftrightarrow> (\<exists>z. x = Inr z \<and> y = g z)"
  by (cases x) auto

lemma jwk_metadata:
  "publicKeyToJWK C key = Inr k \<Longrightarrow>
     key_metadata C key = Inr \<lparr> pkm_KeyID = jwk_Kid k, pkm_Algorithm = jwk_Alg k \<rparr>"
  by (auto simp: publicKeyToJWK_def key_metadata_def with_key_id_def rsa_jwk_def ecdsa_jwk_def
      split: public_key.splits if_splits sum.splits)

lemma jwkFromPEM_metadata:
  "jwkFromPEM C pem = Inr k \<Longrightarrow>
     PublicKeyMetadataFromPEM C pem = Inr \<lparr> pkm_KeyID = jwk_Kid k, pkm_Algorithm = jwk_Alg k \<rparr>"
  by (auto simp: jwkFromPEM_def PublicKeyMetadataFromPEM_def jwk_metadata split: sum.splits)

abbreviation jwk_entry :: "jwk \<Rightarrow> string \<times> string" where
  "jwk_entry k \<equiv> (jwk_Kid k, jwk_Alg k)"
abbreviation status_entry :: "SigningKeyStatus \<Rightarrow> string \<times> string" where
  "status_entry s \<equiv> (sks_KID s, sks_Algorithm s)"

lemma collected_keys_agree:
  "collect_signing_keys C seenK seenA pubs = Inr (signingKeys, algorithms, pems) \<Longrightarrow>
   collect_jwks C seenK pems = Inr keys \<Longrightarrow> map jwk_entry keys = map status_entry signingKeys"
proof (induction pubs arbitrary: seenK seenA signingKeys algorithms pems keys)
  case (Cons pub pubs)
  obtain m where m: "PublicKeyMetadataFromPEM C (pk_PEM pub) = Inr m"
    using Cons.prems(1) by (auto split: sum.splits)
  show ?case
  proof (cases "pkm_KeyID m \<in> set seenK")
    case True
    then show ?thesis using Cons.IH Cons.prems m by (simp add: Let_def)
  next
    case False
    let ?A = "if pkm_Algorithm m \<in> set seenA then seenA else pkm_Algorithm m # seenA"
    obtain ks as ps where rest: "collect_signing_keys C (pkm_KeyID m # seenK) ?A pubs = Inr (ks, as, ps)"
      and out: "signingKeys = \<lparr> sks_KID = pkm_KeyID m, sks_Algorithm = pkm_Algorithm m, sks_State = pk_State pub \<rparr> # ks"
        "pems = pk_PEM pub # ps"
      using Cons.prems(1) m False by (auto simp: Let_def)
    obtain k where k: "jwkFromPEM C (pk_PEM pub) = Inr k" using Cons.prems(2) out(2) by (auto split: sum.splits)
    then have km: "pkm_KeyID m = jwk_Kid k" "pkm_Algorithm m = jwk_Alg k" using jwkFromPEM_metadata[OF k] m by auto
    then obtain keys' where "collect_jwks C (pkm_KeyID m # seenK) ps = Inr keys'" "keys = k # keys'"
      using Cons.prems(2) out(2) False k by auto
    then show ?thesis using Cons.IH[OF rest] out(1) km by auto
  qed
qed simp

text \<open>The lists the status and the discovery document are made of.\<close>

definition fresh_keys :: "string list \<Rightarrow> string list \<Rightarrow> SigningKeyStatus list \<Rightarrow> string list \<Rightarrow> bool" where
  "fresh_keys seenK seenA signingKeys algorithms \<longleftrightarrow>
     distinct (map sks_KID signingKeys) \<and> set (map sks_KID signingKeys) \<inter> set seenK = {} \<and>
     distinct algorithms \<and> set algorithms = set (map sks_Algorithm signingKeys) - set seenA"

lemma collected_keys_fresh:
  "collect_signing_keys C seenK seenA pubs = Inr (signingKeys, algorithms, pems) \<Longrightarrow>
     fresh_keys seenK seenA signingKeys algorithms"
proof (induction pubs arbitrary: seenK seenA signingKeys algorithms pems)
  case Nil
  then show ?case by (simp add: fresh_keys_def)
next
  case (Cons pub pubs)
  obtain m where m: "PublicKeyMetadataFromPEM C (pk_PEM pub) = Inr m"
    using Cons.prems(1) by (auto split: sum.splits)
  show ?case
  proof (cases "pkm_KeyID m \<in> set seenK")
    case True
    then show ?thesis using Cons.IH Cons.prems m by (simp add: Let_def)
  next
    case False
    let ?A = "if pkm_Algorithm m \<in> set seenA then seenA else pkm_Algorithm m # seenA"
    obtain ks as ps where rest: "collect_signing_keys C (pkm_KeyID m # seenK) ?A pubs = Inr (ks, as, ps)"
      and out: "signingKeys = \<lparr> sks_KID = pkm_KeyID m, sks_Algorithm = pkm_Algorithm m, sks_State = pk_State pub \<rparr> # ks"
        "algorithms = (if pkm_Algorithm m \<in> set seenA then as else pkm_Algorithm m # as)"
      using Cons.prems m False by (auto simp: Let_def)
    show ?thesis using Cons.IH[OF rest] False by (auto simp: fresh_keys_def out)
  qed
qed

text \<open>Every key of the status is one of those read, in their order; the first one read is the first one.\<close>

lemma collected_keys_states:
  "collect_signing_keys C seenK seenA pubs = Inr (signingKeys, algorithms, pems) \<Longrightarrow>
     subseq (map sks_State signingKeys) (map pk_State pubs) \<and> subseq pems (map pk_PEM pubs)"
  by (induction pubs arbitrary: seenK seenA signingKeys algorithms pems)
    (fastforce simp: Let_def split: sum.splits if_splits intro: list_emb_Cons)+

lemma collected_keys_first:
  assumes "collect_signing_keys C [] [] (pub # pubs) = Inr (signingKeys, algorithms, pems)"
  obtains ks ps where "map sks_State signingKeys = pk_State pub # ks" "pems = pk_PEM pub # ps"
  using assms by (auto simp: Let_def split: sum.splits)

lemma jwks_first:
  assumes "crypto_laws C" "secret_key C secret ref key" "encode_public_key C key = Inr pem"
    "collect_jwks C [] (pem # ps) = Inr keys"
  shows "publicKeyToJWK C key = Inr (hd keys)"
proof -
  obtain block where "pem_Decode C pem = Some block" "ParsePKIXPublicKey C block = Inr key"
    using encoded_key_parses[OF assms(1,2,3)] .
  then have "jwkFromPEM C pem = publicKeyToJWK C key" by (simp add: jwkFromPEM_def parsePublicKeyPEM_def)
  then show ?thesis using assms(4) by (auto split: sum.splits)
qed

lemma PublicKeysPEM_InrD:
  assumes "run_state (PublicKeysPEM C reader source) w = (Inr pubs, w')"
  obtains pub rest w1 where "pubs = pub # rest" "run_state (PublicKeyPEM C reader (SecretRef source)) w = (Inr (pk_PEM pub), w1)"
    "pk_State pub = SigningKeyStateActive" "map pk_State rest \<in> {[], [SigningKeyStateRetiring]}"
proof -
  obtain pem w1 rest where first: "run_state (PublicKeyPEM C reader (SecretRef source)) w = (Inr pem, w1)"
    and rest: "run_state (read_public_keys C reader 1 (tl (signing_key_refs source))) w1 = (Inr rest, w')"
    and pubs: "pubs = \<lparr> pk_PEM = pem, pk_State = SigningKeyStateActive \<rparr> # rest"
    using assms by (auto simp: PublicKeysPEM_def signing_key_refs_def run_simps split: prod.splits sum.splits)
  moreover have "map pk_State rest \<in> {[], [SigningKeyStateRetiring]}"
    using read_public_keys_states[OF rest] by (simp add: signing_key_refs_def split: option.split)
  ultimately show ?thesis using that[OF pubs] by simp
qed

lemma buildOIDCDocuments_InrD:
  assumes "run_state (buildOIDCDocuments C reader issuer url) w = (Inr documents, w')"
  obtains pubs algorithms pems keys where
    "run_state (PublicKeysPEM C reader (ois_SigningKey (oi_Spec issuer))) w = (Inr pubs, w')"
    "collect_signing_keys C [] [] pubs = Inr (od_SigningKeys documents, algorithms, pems)"
    "collect_jwks C [] pems = Inr keys"
    "od_Discovery documents = json_text (discovery_json (discovery_for (trim_right_slashes url) algorithms))"
    "od_JWKS documents = json_text (jwks_json keys)"
proof -
  have discovery: "out = json_text (discovery_json (discovery_for (trim_right_slashes url) algorithms))"
    if "DiscoveryDocument url algorithms = Inr out" for algorithms out
    using that by (simp add: DiscoveryDocument_def Let_def split: if_splits)
  have jwks: "\<exists>keys. collect_jwks C [] pems = Inr keys \<and> out = json_text (jwks_json keys)"
    if "JWKSFromPEMs C pems = Inr out" for pems out
    using that by (simp add: JWKSFromPEMs_def split: if_splits)
  from assms obtain pubs signingKeys algorithms pems where
    pubs: "run_state (PublicKeysPEM C reader (ois_SigningKey (oi_Spec issuer))) w = (Inr pubs, w')"
    and signing: "collect_signing_keys C [] [] pubs = Inr (signingKeys, algorithms, pems)"
    and discovered: "DiscoveryDocument url algorithms = Inr (od_Discovery documents)"
    and set_built: "JWKSFromPEMs C pems = Inr (od_JWKS documents)" and "od_SigningKeys documents = signingKeys"
    unfolding buildOIDCDocuments_def publishedSigningKeys_def by (elim io_try_InrE) (auto simp: run_io_of run_io_try split: sum.splits)
  then show ?thesis using that[OF pubs] discovery[OF discovered] jwks[OF set_built] by blast
qed

lemma rotation_states:
  "subseq (Active # ks) (Active # rest) \<Longrightarrow> rest \<in> {[], [Retiring]} \<Longrightarrow> Active # ks \<in> {[Active], [Active, Retiring]}"
  by (auto simp: subseq_Cons2_iff dest: list_emb_length elim: list_emb.cases split: if_splits)

text \<open>C35. The three descriptions of the signing keys agree: whatever the Secrets hold, the documents that
  are built read back as the discovery document of the issuer URL and as a key set whose key identifiers
  and algorithms are, in order, those of the status, without a duplicate; the discovery document
  announces exactly the algorithms of the set; the first key is the active one and is the public
  half of the key in the active Secret, and a second one can only be the retiring key.\<close>
theorem published_documents_consistent:
  assumes laws: "crypto_laws C"
    and built: "run_state (buildOIDCDocuments C reader issuer url) w = (Inr documents, w')"
  shows "\<exists>algorithms keys.
     json_parse (od_Discovery documents) = Some (discovery_json (discovery_for (trim_right_slashes url) algorithms)) \<and>
     json_parse (od_JWKS documents) = Some (jwks_json keys) \<and>
     map jwk_entry keys = map status_entry (od_SigningKeys documents) \<and>
     distinct (map jwk_Kid keys) \<and> distinct algorithms \<and> set algorithms = set (map jwk_Alg keys) \<and>
     map sks_State (od_SigningKeys documents)
       \<in> {[SigningKeyStateActive], [SigningKeyStateActive, SigningKeyStateRetiring]} \<and>
     (\<exists>secret w1 key. let ref = SecretRef (ois_SigningKey (oi_Spec issuer)) in
        run_state (GetSecret reader \<lparr> nn_Namespace = skr_Namespace ref, nn_Name = skr_Name ref \<rparr>) w = (Inr secret, w1) \<and>
        secret_key C secret ref key \<and> publicKeyToJWK C key = Inr (hd keys))"
proof -
  let ?source = "ois_SigningKey (oi_Spec issuer)"
  obtain pubs algorithms pems keys where read: "run_state (PublicKeysPEM C reader ?source) w = (Inr pubs, w')"
    and collected: "collect_signing_keys C [] [] pubs = Inr (od_SigningKeys documents, algorithms, pems)"
    and jwks: "collect_jwks C [] pems = Inr keys"
    and texts: "od_Discovery documents = json_text (discovery_json (discovery_for (trim_right_slashes url) algorithms))"
      "od_JWKS documents = json_text (jwks_json keys)"
    using buildOIDCDocuments_InrD[OF built] .
  obtain pub rest w1 where pubs: "pubs = pub # rest"
    and first: "run_state (PublicKeyPEM C reader (SecretRef ?source)) w = (Inr (pk_PEM pub), w1)"
    and read_states: "pk_State pub = SigningKeyStateActive" "map pk_State rest \<in> {[], [SigningKeyStateRetiring]}"
    by (rule PublicKeysPEM_InrD[OF read])
  note signing = collected[unfolded pubs]
  have entries: "map jwk_entry keys = map status_entry (od_SigningKeys documents)"
    using collected_keys_agree[OF signing jwks] .
  have columns: "map jwk_Kid keys = map sks_KID (od_SigningKeys documents)"
    "map jwk_Alg keys = map sks_Algorithm (od_SigningKeys documents)"
    using arg_cong[OF entries, of "map fst"] arg_cong[OF entries, of "map snd"] by (simp_all add: comp_def)
  obtain ks ps where heads: "map sks_State (od_SigningKeys documents) = SigningKeyStateActive # ks" "pems = pk_PEM pub # ps"
    using collected_keys_first[OF signing] read_states(1) by metis
  have states: "map sks_State (od_SigningKeys documents) \<in> {[SigningKeyStateActive], [SigningKeyStateActive, SigningKeyStateRetiring]}"
    using collected_keys_states[OF signing] read_states rotation_states heads(1) by (metis list.simps(9))
  obtain secret key where "secret_key C secret (SecretRef ?source) key" "publicKeyToJWK C key = Inr (hd keys)"
    "run_state (GetSecret reader \<lparr> nn_Namespace = skr_Namespace (SecretRef ?source), nn_Name = skr_Name (SecretRef ?source) \<rparr>) w
       = (Inr secret, w1)"
    using PublicKeyPEM_InrD[OF first] jwks_first[OF laws] jwks heads(2) by metis
  then have secret: "\<exists>secret w1 key. let ref = SecretRef ?source in
        run_state (GetSecret reader \<lparr> nn_Namespace = skr_Namespace ref, nn_Name = skr_Name ref \<rparr>) w = (Inr secret, w1) \<and>
        secret_key C secret ref key \<and> publicKeyToJWK C key = Inr (hd keys)"
    unfolding Let_def by blast
  have distinct: "distinct (map jwk_Kid keys) \<and> distinct algorithms \<and> set algorithms = set (map jwk_Alg keys)"
    using collected_keys_fresh[OF signing] unfolding fresh_keys_def columns by simp
  show ?thesis
    by (intro exI[of _ algorithms] exI[of _ keys] conjI distinct[THEN conjunct1] distinct[THEN conjunct2, THEN conjunct1]
        distinct[THEN conjunct2, THEN conjunct2] entries states secret)
      (simp_all only: texts discovery_parses jwks_parses)
qed

section \<open>A concrete key format\<close>

definition demo_der :: "rsa_PublicKey \<Rightarrow> string" where
  "demo_der k = replicate (rsa_N k) (CHR ''n'') @ replicate (rsa_E k) (CHR ''e'')"

definition demo_crypto :: crypto_lib where
  "demo_crypto = \<lparr>
     pem_Decode = (\<lambda>s. if CHR ''.'' \<in> set s then Some (tl (dropWhile (\<lambda>c. c \<noteq> CHR ''.'') s)) else None),
     pem_EncodeToMemory = (\<lambda>t b. base64url t @ CHR ''.'' # b),
     ParsePKIXPublicKey = (\<lambda>d. Inr (RSA_Public \<lparr> rsa_N = length (takeWhile (\<lambda>c. c = CHR ''n'') d),
        rsa_E = length (dropWhile (\<lambda>c. c = CHR ''n'') d) \<rparr>)),
     MarshalPKIXPublicKey = (\<lambda>k. case k of RSA_Public r \<Rightarrow> Inr (demo_der r) | _ \<Rightarrow> Inl not_found),
     ParsePKCS1PrivateKey = (\<lambda>d. Inl not_found), ParseECPrivateKey = (\<lambda>d. Inl not_found),
     ParsePKCS8PrivateKey = (\<lambda>d. Inl not_found), ecdsa_Bytes = (\<lambda>k. Inl not_found) \<rparr>"

lemma demo_crypto_simps [simp]:
  "pem_Decode demo_crypto (base64url t @ CHR ''.'' # b) = Some b"
  "pem_EncodeToMemory demo_crypto t b = base64url t @ CHR ''.'' # b"
  "ParsePKIXPublicKey demo_crypto (demo_der k) = Inr (RSA_Public k)"
  "MarshalPKIXPublicKey demo_crypto (RSA_Public k) = Inr (demo_der k)"
proof -
  have "dropWhile (\<lambda>c. c \<noteq> CHR ''.'') (base64url t @ CHR ''.'' # b) = CHR ''.'' # b"
    using base64url_no_dot[of t] by (subst dropWhile_append2) auto
  then show "pem_Decode demo_crypto (base64url t @ CHR ''.'' # b) = Some b" by (simp add: demo_crypto_def)
  have "takeWhile (\<lambda>c. c = CHR ''n'') (demo_der k) = replicate (rsa_N k) (CHR ''n'')"
    "dropWhile (\<lambda>c. c = CHR ''n'') (demo_der k) = replicate (rsa_E k) (CHR ''e'')"
    by (simp_all add: demo_der_def takeWhile_append dropWhile_append)
  then show "ParsePKIXPublicKey demo_crypto (demo_der k) = Inr (RSA_Public k)" by (simp add: demo_crypto_def)
qed (simp_all add: demo_crypto_def)

lemma demo_crypto_laws: "crypto_laws demo_crypto"
proof -
  have "ParsePKIXPublicKey demo_crypto d = Inr k" if "MarshalPKIXPublicKey demo_crypto k = Inr d" for k d
    using that demo_crypto_simps(3) by (cases k) (auto simp: demo_crypto_def)
  then show ?thesis by (simp add: crypto_laws_def)
qed

definition demo_rsa :: rsa_PublicKey where "demo_rsa = \<lparr> rsa_N = 5, rsa_E = 3 \<rparr>"

text \<open>An issuer whose two Secrets hold the same key.\<close>

definition demo_secret :: Secret where
  "demo_secret = \<lparr> secret_Data = fmupd ''tls.key'' (base64url [] @ CHR ''.'' # demo_der demo_rsa) fmempty \<rparr>"

definition demo_ref :: "string \<Rightarrow> SecretKeyReference" where
  "demo_ref n = \<lparr> skr_Name = n, skr_Namespace = ''ns'', skr_Key = ''tls.key'' \<rparr>"

definition demo_rotating :: OIDCIssuer where
  "demo_rotating = demo_issuer\<lparr>oi_Spec := (oi_Spec demo_issuer)\<lparr>ois_SigningKey :=
     \<lparr> SecretRef = demo_ref ''key'', RetiringSecretRef = Some (demo_ref ''old-key'') \<rparr>, ois_OpenShift := None\<rparr>\<rparr>"

definition key_sim :: sim where
  "key_sim = issuer_sim\<lparr>sim_secrets :=
     [(\<lparr> nn_Namespace = ''ns'', nn_Name = ''key'' \<rparr>, demo_secret), (\<lparr> nn_Namespace = ''ns'', nn_Name = ''old-key'' \<rparr>, demo_secret)]\<rparr>"

abbreviation demo_pem :: string where
  "demo_pem \<equiv> base64url publicKeyPEMType @ CHR ''.'' # demo_der demo_rsa"

lemma demo_PublicKeyPEM:
  assumes "run_state (GetSecret reader \<lparr> nn_Namespace = ''ns'', nn_Name = n \<rparr>) w = (Inr demo_secret, w)"
  shows "run_state (PublicKeyPEM demo_crypto reader (demo_ref n)) w = (Inr demo_pem, w)"
  using assms by (auto simp: PublicKeyPEM_def run_simps demo_ref_def demo_secret_def publicKey_def encode_public_key_def)

lemma demo_documents:
  assumes secrets: "run_state (GetSecret reader \<lparr> nn_Namespace = ''ns'', nn_Name = ''key'' \<rparr>) w = (Inr demo_secret, w)"
      "run_state (GetSecret reader \<lparr> nn_Namespace = ''ns'', nn_Name = ''old-key'' \<rparr>) w = (Inr demo_secret, w)"
    and url: "trim_right_slashes url \<noteq> ''''"
  shows "\<exists>documents. run_state (buildOIDCDocuments demo_crypto reader demo_rotating url) w = (Inr documents, w) \<and>
     length (od_SigningKeys documents) = 1"
proof -
  have "run_state (PublicKeysPEM demo_crypto reader (ois_SigningKey (oi_Spec demo_rotating))) w
      = (Inr [\<lparr> pk_PEM = demo_pem, pk_State = SigningKeyStateActive \<rparr>, \<lparr> pk_PEM = demo_pem, pk_State = SigningKeyStateRetiring \<rparr>], w)"
    by (simp add: PublicKeysPEM_def signing_key_refs_def demo_rotating_def demo_PublicKeyPEM secrets run_simps)
  moreover have "parsePublicKeyPEM demo_crypto demo_pem = Inr (RSA_Public demo_rsa)"
    by (simp add: parsePublicKeyPEM_def)
  ultimately show ?thesis
    using url
    by (simp add: buildOIDCDocuments_def publishedSigningKeys_def PublicKeyMetadataFromPEM_def key_metadata_def
        with_key_id_def mustMarshalPKIXPublicKey_def DiscoveryDocument_def JWKSFromPEMs_def jwkFromPEM_def
        publicKeyToJWK_def rsa_jwk_def run_simps)
qed

lemma key_sim_secrets:
  "run_state (GetSecret sim_reader \<lparr> nn_Namespace = ''ns'', nn_Name = ''key'' \<rparr>) key_sim = (Inr demo_secret, key_sim)"
  "run_state (GetSecret sim_reader \<lparr> nn_Namespace = ''ns'', nn_Name = ''old-key'' \<rparr>) key_sim = (Inr demo_secret, key_sim)"
  by (simp_all add: sim_reader_def key_sim_def)

theorem published_documents_consistent_witness:
  "\<exists>documents algorithms keys.
     fst (run_state (buildOIDCDocuments demo_crypto sim_reader demo_rotating ''https://issuer/'') key_sim) = Inr documents \<and>
     json_parse (od_Discovery documents) = Some (discovery_json (discovery_for ''https://issuer'' algorithms)) \<and>
     json_parse (od_JWKS documents) = Some (jwks_json keys) \<and>
     map jwk_entry keys = map status_entry (od_SigningKeys documents) \<and> length keys = 1"
proof -
  have url: "trim_right_slashes ''https://issuer/'' = ''https://issuer''" by code_simp
  obtain documents where built:
    "run_state (buildOIDCDocuments demo_crypto sim_reader demo_rotating ''https://issuer/'') key_sim = (Inr documents, key_sim)"
    and one: "length (od_SigningKeys documents) = 1"
    using demo_documents[OF key_sim_secrets, of "''https://issuer/''"] url by auto
  obtain algorithms keys where read:
    "json_parse (od_Discovery documents) = Some (discovery_json (discovery_for ''https://issuer'' algorithms))"
    "json_parse (od_JWKS documents) = Some (jwks_json keys)"
    "map jwk_entry keys = map status_entry (od_SigningKeys documents)"
    using published_documents_consistent[OF demo_crypto_laws built] unfolding url by (elim exE conjE) (rule that)
  have "length keys = 1" using map_eq_imp_length_eq[OF read(3)] one by simp
  then show ?thesis using read built by (intro exI[of _ documents] exI[of _ algorithms] exI[of _ keys] conjI) simp_all
qed

end
