(* ===== verification/Storage_Properties.thy ===== *)
theory Storage_Properties
  imports Storage_Store Oidc_Properties
begin

text \<open>
  What publishing and deleting do to Azure Storage: a successful publish leaves a locked-down account, a
  public container and the two documents, and nothing else; an account the operator did not create for
  this OIDCIssuer is never taken for its own and never deleted.
\<close>

section \<open>Container and blobs\<close>

definition container_effect ::
  "arm_key \<Rightarrow> string \<Rightarrow> storage_state \<Rightarrow> go_error + BlobContainer \<Rightarrow> storage_state \<Rightarrow> bool" where
  "container_effect k n s r s' \<longleftrightarrow>
     (case r of Inr b \<Rightarrow> bc_PublicAccess b = Some PublicAccessBlob \<and> s' = put_container k n b s
      | Inl e \<Rightarrow> s' = s \<or> (\<exists>b. s' = put_container k n b s))"

lemma put_container_same: "containers s k n = Some b \<Longrightarrow> put_container k n b s = s"
proof -
  assume "containers s k n = Some b"
  then have "(containers s)(k := (containers s k)(n := Some b)) = containers s" by (auto simp: fun_eq_iff)
  then show ?thesis by (simp add: put_container_def)
qed

lemma container_step:
  assumes laws: "storage_laws view c" and run: "run_state (ensureBlobContainer c issuer) w = (r, w')"
  shows "container_effect (account_key c issuer) (container_name issuer) (view w) r (view w')"
proof -
  obtain r1 w1 where get:
    "run_state (bc_Get (sc_blobContainers c) (resourceGroupName (sc_scope c)) (account_name issuer) (container_name issuer)) w = (r1, w1)"
    by (metis surj_pair)
  note got = container_get[OF laws get]
  show ?thesis
  proof (cases r1)
    case (Inr b)
    then have stored: "containers (view w) (account_key c issuer) (container_name issuer) = Some b" using got(2) by simp
    show ?thesis
    proof (cases "bc_PublicAccess b = Some PublicAccessBlob")
      case True
      then show ?thesis
        using run get got(1) Inr put_container_same[OF stored]
        by (auto simp: ensureBlobContainer_def Let_def run_simps container_effect_def)
    next
      case False
      then show ?thesis
        using run get got(1) Inr container_put(2)[OF laws, of "resourceGroupName (sc_scope c)" "account_name issuer" "container_name issuer" public_container w1]
        by (auto simp: ensureBlobContainer_def Let_def run_simps container_effect_def container_write_def public_container_def
            split: prod.splits sum.splits)
    qed
  next
    case (Inl e)
    then show ?thesis
      using run get got(1) container_put(1)[OF laws, of "resourceGroupName (sc_scope c)" "account_name issuer" "container_name issuer" public_container w1]
      by (auto simp: ensureBlobContainer_def Let_def run_simps container_effect_def container_write_def public_container_def
          split: prod.splits sum.splits if_splits)
  qed
qed

lemma upload_step:
  assumes laws: "storage_laws view c" and run: "run_state (uploadJSON c issuer name content) w = (r, w')"
  shows "view w' = put_blob (account_name issuer) (container_name issuer) name (content, ''application/json'') (view w) \<or>
         view w' = view w \<and> (\<exists>e. r = Inl e)"
proof (cases "sc_NewBlobClient c (blob_service_url (account_name issuer))")
  case (Inl e)
  then show ?thesis using run by (auto simp: uploadJSON_def blob_service_url_def run_simps)
next
  case (Inr upload)
  let ?m = "upload (container_name issuer) name content ''application/json''"
  have "writes view ?m (\<lambda>s r s'. case r of
        Inr u \<Rightarrow> s' = put_blob (account_name issuer) (container_name issuer) name (content, ''application/json'') s
      | Inl e \<Rightarrow> s' = s \<or> s' = put_blob (account_name issuer) (container_name issuer) name (content, ''application/json'') s)"
    using laws Inr by (simp add: storage_laws_def blob_laws_def)
  moreover obtain r1 where "run_state ?m w = (r1, w')" "\<And>e. r1 = Inl e \<Longrightarrow> \<exists>e'. r = Inl e'"
    using run Inr by (auto simp: uploadJSON_def blob_service_url_def run_simps split: prod.splits sum.splits)
  ultimately show ?thesis by (cases r1) (auto dest!: writesD)
qed

section \<open>Publishing\<close>

text \<open>The accounts after any publish, successful or not: at most the issuer's own one is written, converged.\<close>

definition accounts_effect :: "arm_key \<Rightarrow> OIDCIssuer \<Rightarrow> storage_state \<Rightarrow> storage_state \<Rightarrow> bool" where
  "accounts_effect k issuer s s' \<longleftrightarrow>
     accounts s' = accounts s \<or> (\<exists>a. converged_account k issuer s a \<and> accounts s' = (accounts s)(k := Some a))"

lemma container_keeps_accounts: "container_effect k n s r s' \<Longrightarrow> accounts s' = accounts s"
  by (auto simp: container_effect_def split: sum.splits)

lemma upload_keeps_accounts:
  assumes "storage_laws view c" "run_state (uploadJSON c issuer name content) w = (r, w')"
  shows "accounts (view w') = accounts (view w)"
  using upload_step[OF assms] by auto

lemma ensureStorage_accounts:
  assumes laws: "storage_laws view c" and run: "run_state (ensureStorage c issuer) w = (r, w')"
  shows "accounts_effect (account_key c issuer) issuer (view w) (view w')"
proof -
  obtain g w1 where group: "run_state (ensureResourceGroup (sc_resourceGroups c) (sc_scope c)) w = (g, w1)" by (metis surj_pair)
  obtain a w2 where account: "run_state (get_or_create_account c issuer) w1 = (a, w2)" by (metis surj_pair)
  obtain b w3 where container: "run_state (ensureBlobContainer c issuer) w2 = (b, w3)" by (metis surj_pair)
  have "view w1 = view w" using resource_group_neutral[OF laws group] .
  moreover have "accounts_effect (account_key c issuer) issuer (view w1) (view w2)"
    using account_step[OF laws account] by (auto simp: account_effect_def accounts_effect_def)
  moreover have "accounts (view w3) = accounts (view w2)"
    using container_keeps_accounts[OF container_step[OF laws container]] .
  ultimately show ?thesis
    using run group account container
    by (auto simp: ensureStorage_def run_io_try accounts_effect_def split: sum.splits)
qed

lemma publish_accounts:
  assumes laws: "storage_laws view c" and reader: "reader_neutral view reader"
    and run: "run_state (publish_with C c reader issuer) w = (r, w')"
  shows "accounts_effect (account_key c issuer) issuer (view w) (view w')"
proof -
  obtain s w1 where storage: "run_state (ensureStorage c issuer) w = (s, w1)" by (metis surj_pair)
  have "preserves (\<lambda>w'. accounts (view w') = accounts (view w1))
     (io_try (buildOIDCDocuments C reader issuer (issuerURL issuer)) (\<lambda>documents.
      io_try (uploadJSON c issuer discovery_blob (od_Discovery documents)) (\<lambda>_.
      io_try (uploadJSON c issuer jwksPath (od_JWKS documents)) (\<lambda>_. io_return (f documents)))))" for f
  proof -
    have "preserves (\<lambda>w'. accounts (view w') = accounts (view w1)) (uploadJSON c issuer n x)" for n x
      using upload_keeps_accounts[OF laws] unfolding preserves_def by (metis prod.collapse)
    moreover have "preserves (\<lambda>w'. accounts (view w') = accounts (view w1)) (buildOIDCDocuments C reader issuer url)" for url
      using documents_neutral[OF reader] unfolding preserves_def by (metis prod.collapse)
    ultimately show ?thesis by (intro preserves_io_try preserves_io_return)
  qed
  then have rest: "run_state (io_try (buildOIDCDocuments C reader issuer (issuerURL issuer)) (\<lambda>documents.
      io_try (uploadJSON c issuer discovery_blob (od_Discovery documents)) (\<lambda>_.
      io_try (uploadJSON c issuer jwksPath (od_JWKS documents)) (\<lambda>_. io_return (f documents))))) w1 = (r, w') \<Longrightarrow>
      accounts (view w') = accounts (view w1)" for f
    by (rule preservesD[where I = "\<lambda>w'. accounts (view w') = accounts (view w1)"]) simp_all
  have "accounts (view w') = accounts (view w1)"
  proof (cases s)
    case (Inl e)
    then show ?thesis using run storage by (simp add: publish_with_def run_io_try)
  next
    case (Inr resources)
    then show ?thesis
      using run storage by (intro rest) (simp add: publish_with_def run_io_try[of "ensureStorage c issuer"])
  qed
  then show ?thesis using ensureStorage_accounts[OF laws storage] by (simp add: accounts_effect_def)
qed

section \<open>The publisher\<close>

definition publisher_laws :: "('w \<Rightarrow> storage_state) \<Rightarrow> 'w storageSDK \<Rightarrow> 'w BlobOIDCDocumentPublisher \<Rightarrow> bool" where
  "publisher_laws view sdk p \<longleftrightarrow>
     (\<forall>credential c. newStorageClients sdk (bp_Scope p) credential = Inr c \<longrightarrow> storage_laws view c) \<and>
     (\<forall>reader. bp_Reader p = Some reader \<longrightarrow> reader_neutral view reader)"

abbreviation published_key :: "'w BlobOIDCDocumentPublisher \<Rightarrow> OIDCIssuer \<Rightarrow> arm_key" where
  "published_key p issuer \<equiv> (resourceGroupName (bp_Scope p), account_name issuer)"

lemma newStorageClients_scope: "newStorageClients sdk scope credential = Inr c \<Longrightarrow> sc_scope c = scope"
  by (auto simp: newStorageClients_def split: sum.splits)

lemma publish_runs:
  assumes "publisher_laws view sdk p" "run_state (Publisher_Publish C sdk p issuer) w = (r, w')"
  shows "w' = w \<and> (\<exists>e. r = Inl e) \<or>
    (\<exists>c reader. storage_laws view c \<and> reader_neutral view reader \<and> bp_Reader p = Some reader \<and> sc_scope c = bp_Scope p \<and>
       run_state (publish_with C c reader issuer) w = (r, w'))"
  using assms by (auto simp: Publisher_Publish_def publisher_laws_def newStorageClients_scope split: option.splits sum.splits)

lemma delete_runs:
  assumes "publisher_laws view sdk p" "run_state (Publisher_Delete sdk p issuer) w = (r, w')"
  shows "w' = w \<and> (\<exists>e. r = Inl e) \<or>
    (\<exists>c. storage_laws view c \<and> sc_scope c = bp_Scope p \<and> run_state (delete_with c issuer) w = (r, w'))"
  using assms by (auto simp: Publisher_Delete_def publisher_laws_def newStorageClients_scope split: option.splits sum.splits)

lemma ensureStorage_effect:
  assumes laws: "storage_laws view c" and run: "run_state (ensureStorage c issuer) w = (Inr resources, w')"
  obtains a b where "converged_account (account_key c issuer) issuer (view w) a"
    "bc_PublicAccess b = Some PublicAccessBlob"
    "view w' = put_container (account_key c issuer) (container_name issuer) b (put_account (account_key c issuer) a (view w))"
proof -
  obtain g w1 a w2 b where group: "run_state (ensureResourceGroup (sc_resourceGroups c) (sc_scope c)) w = (Inr g, w1)"
    and account: "run_state (get_or_create_account c issuer) w1 = (Inr a, w2)"
    and container: "run_state (ensureBlobContainer c issuer) w2 = (Inr b, w')"
    using run unfolding ensureStorage_def by (elim io_try_InrE) (auto simp: run_simps)
  show ?thesis
    using that resource_group_neutral[OF laws group] account_step[OF laws account] container_step[OF laws container]
    by (auto simp: account_effect_def container_effect_def)
qed

lemma publish_with_InrD:
  assumes "run_state (publish_with C c reader issuer) w = (Inr published, w')"
  obtains resources documents w1 w2 w3 where
    "run_state (ensureStorage c issuer) w = (Inr resources, w1)"
    "run_state (buildOIDCDocuments C reader issuer (issuerURL issuer)) w1 = (Inr documents, w2)"
    "run_state (uploadJSON c issuer discovery_blob (od_Discovery documents)) w2 = (Inr (), w3)"
    "run_state (uploadJSON c issuer jwksPath (od_JWKS documents)) w3 = (Inr (), w')"
    "published = \<lparr> pd_IssuerURL = issuerURL issuer, pd_AzureResources = resources, pd_SigningKeys = od_SigningKeys documents \<rparr>"
  using assms unfolding publish_with_def by (elim io_try_InrE) (auto simp: run_simps)

text \<open>What Azure Storage holds after a publish of \<open>issuer\<close> that returned \<open>published\<close>.\<close>

definition documents_served :: "crypto_lib \<Rightarrow> 'w BlobOIDCDocumentPublisher \<Rightarrow> OIDCIssuer \<Rightarrow> PublishedDocuments \<Rightarrow>
    storage_state \<Rightarrow> bool" where
  "documents_served C p issuer published v \<longleftrightarrow>
     (\<exists>account container documents reader w1.
        bp_Reader p = Some reader \<and>
        fst (run_state (buildOIDCDocuments C reader issuer (issuerURL issuer)) w1) = Inr documents \<and>
        pd_IssuerURL published = issuerURL issuer \<and> pd_SigningKeys published = od_SigningKeys documents \<and>
        accounts v (published_key p issuer) = Some account \<and> acc_Properties account = Some secured_properties \<and>
        containers v (published_key p issuer) (container_name issuer) = Some container \<and>
        bc_PublicAccess container = Some PublicAccessBlob \<and>
        blobs v (account_name issuer) (container_name issuer) discovery_blob
          = Some (od_Discovery documents, ''application/json'') \<and>
        blobs v (account_name issuer) (container_name issuer) jwksPath = Some (od_JWKS documents, ''application/json''))"

lemma publish_effect:
  assumes laws: "publisher_laws view sdk p"
    and run: "run_state (Publisher_Publish C sdk p issuer) w = (Inr published, w')"
  shows "\<exists>account container documents reader w1.
     bp_Reader p = Some reader \<and>
     fst (run_state (buildOIDCDocuments C reader issuer (issuerURL issuer)) w1) = Inr documents \<and>
     pd_IssuerURL published = issuerURL issuer \<and> pd_SigningKeys published = od_SigningKeys documents \<and>
     accounts (view w') (published_key p issuer) = Some account \<and>
     acc_Properties account = Some secured_properties \<and>
     (wasOIDCIssuerResourceCreatedByOperator (acc_Tags account) issuer
        \<longleftrightarrow> operator_account (published_key p issuer) issuer (view w)) \<and>
     containers (view w') (published_key p issuer) (container_name issuer) = Some container \<and>
     bc_PublicAccess container = Some PublicAccessBlob \<and>
     blobs (view w') (account_name issuer) (container_name issuer) discovery_blob
       = Some (od_Discovery documents, ''application/json'') \<and>
     blobs (view w') (account_name issuer) (container_name issuer) jwksPath = Some (od_JWKS documents, ''application/json'') \<and>
     (\<forall>k. k \<noteq> published_key p issuer \<longrightarrow> accounts (view w') k = accounts (view w) k)"
proof -
  obtain c reader where storage: "storage_laws view c" and reader: "reader_neutral view reader" "bp_Reader p = Some reader"
    and scope: "sc_scope c = bp_Scope p" and inner: "run_state (publish_with C c reader issuer) w = (Inr published, w')"
    using publish_runs[OF laws run] by auto
  obtain resources documents w1 w2 w3 where ensured: "run_state (ensureStorage c issuer) w = (Inr resources, w1)"
    and built: "run_state (buildOIDCDocuments C reader issuer (issuerURL issuer)) w1 = (Inr documents, w2)"
    and first: "run_state (uploadJSON c issuer discovery_blob (od_Discovery documents)) w2 = (Inr (), w3)"
    and second: "run_state (uploadJSON c issuer jwksPath (od_JWKS documents)) w3 = (Inr (), w')"
    and published: "published = \<lparr> pd_IssuerURL = issuerURL issuer, pd_AzureResources = resources,
       pd_SigningKeys = od_SigningKeys documents \<rparr>"
    using inner by (rule publish_with_InrD)
  obtain a b where a: "converged_account (published_key p issuer) issuer (view w) a"
    and b: "bc_PublicAccess b = Some PublicAccessBlob"
    and view1: "view w1 = put_container (published_key p issuer) (container_name issuer) b
       (put_account (published_key p issuer) a (view w))"
    using ensureStorage_effect[OF storage ensured] unfolding scope by metis
  have view': "view w' = put_blob (account_name issuer) (container_name issuer) jwksPath (od_JWKS documents, ''application/json'')
      (put_blob (account_name issuer) (container_name issuer) discovery_blob (od_Discovery documents, ''application/json'') (view w1))"
    using upload_step[OF storage first] upload_step[OF storage second] documents_neutral[OF reader(1) built] by auto
  have blob_names: "discovery_blob \<noteq> jwksPath" by (simp add: discovery_blob_def jwksPath_def)
  show ?thesis
    by (intro exI[of _ a] exI[of _ b] exI[of _ documents] exI[of _ reader] exI[of _ w1])
      (use a b reader(2) built published blob_names tags_tell_origin in
        \<open>auto simp: view' view1 converged_account_def\<close>)
qed

lemma publish_serves:
  "publisher_laws view sdk p \<Longrightarrow> run_state (Publisher_Publish C sdk p issuer) w = (Inr published, w') \<Longrightarrow>
     documents_served C p issuer published (view w')"
  using publish_effect[of view sdk p C issuer w published w'] unfolding documents_served_def by blast

text \<open>C36. A publish that succeeds leaves Azure serving the issuer: the account exists with public blobs
  but no shared keys, HTTPS and TLS 1.2, tagged for this OIDCIssuer and marked as the operator's
  creation only if it was missing or already was; the container is public; under the returned issuer URL
  lie exactly the discovery document and the key set that were built from the Secrets, whose
  keys are the returned ones; every other account is as it was.\<close>
theorem publish_serves_documents:
  assumes laws: "publisher_laws view sdk p"
    and run: "run_state (Publisher_Publish C sdk p issuer) w = (Inr published, w')"
  shows "\<exists>account container documents reader w1.
     bp_Reader p = Some reader \<and>
     fst (run_state (buildOIDCDocuments C reader issuer (issuerURL issuer)) w1) = Inr documents \<and>
     pd_IssuerURL published = issuerURL issuer \<and> pd_SigningKeys published = od_SigningKeys documents \<and>
     accounts (view w') (published_key p issuer) = Some account \<and>
     acc_Properties account = Some secured_properties \<and>
     (wasOIDCIssuerResourceCreatedByOperator (acc_Tags account) issuer
        \<longleftrightarrow> operator_account (published_key p issuer) issuer (view w)) \<and>
     containers (view w') (published_key p issuer) (container_name issuer) = Some container \<and>
     bc_PublicAccess container = Some PublicAccessBlob \<and>
     blobs (view w') (account_name issuer) (container_name issuer) discovery_blob
       = Some (od_Discovery documents, ''application/json'') \<and>
     blobs (view w') (account_name issuer) (container_name issuer) jwksPath = Some (od_JWKS documents, ''application/json'') \<and>
     (\<forall>k. k \<noteq> published_key p issuer \<longrightarrow> accounts (view w') k = accounts (view w) k)"
  using assms by (rule publish_effect)

section \<open>In-memory storage\<close>

definition mem_accounts :: "storage_state AccountsClient" where
  "mem_accounts = \<lparr>
     sa_GetProperties = (\<lambda>rg n. State (\<lambda>s. (case accounts s (rg, n) of None \<Rightarrow> Inl not_found | Some a \<Rightarrow> Inr a, s))),
     sa_BeginCreate = (\<lambda>rg n p. State (\<lambda>s. (Inr (State (\<lambda>s.
        let a = \<lparr> acc_ID = Some n, acc_Tags = acp_Tags p, acc_Properties = Some (acp_Properties p) \<rparr>
        in (Inr a, put_account (rg, n) a s))), s))),
     sa_Update = (\<lambda>rg n t p. State (\<lambda>s. case accounts s (rg, n) of
        None \<Rightarrow> (Inl not_found, s)
      | Some old \<Rightarrow> let a = old\<lparr>acc_Tags := t, acc_Properties := Some p\<rparr> in (Inr a, put_account (rg, n) a s))),
     sa_Delete = (\<lambda>rg n. State (\<lambda>s. (Inr (), drop_account (rg, n) s))) \<rparr>"

definition mem_put_container :: "string \<Rightarrow> string \<Rightarrow> string \<Rightarrow> BlobContainer \<Rightarrow> (storage_state, BlobContainer) ext_io" where
  "mem_put_container rg a n d = State (\<lambda>s. (Inr (d\<lparr>bc_ID := Some n\<rparr>), put_container (rg, a) n (d\<lparr>bc_ID := Some n\<rparr>) s))"

definition mem_containers :: "storage_state BlobContainersClient" where
  "mem_containers = \<lparr>
     bc_Get = (\<lambda>rg a n. State (\<lambda>s. (case containers s (rg, a) n of None \<Rightarrow> Inl not_found | Some b \<Rightarrow> Inr b, s))),
     bc_Create = mem_put_container, bc_Update = mem_put_container \<rparr>"

text \<open>A blob client for one account; its URL is the account's service URL.\<close>

definition mem_blob_client :: "string \<Rightarrow> string \<Rightarrow> ext_error + storage_state BlobClient" where
  "mem_blob_client account url =
     (if url = blob_service_url account
      then Inr (\<lambda>container name content kind. State (\<lambda>s. (Inr (), put_blob account container name (content, kind) s)))
      else Inl not_found)"

definition mem_storage_sdk :: "string \<Rightarrow> storage_state storageSDK" where
  "mem_storage_sdk account = \<lparr>
     ss_NewResourceGroupsClient = (\<lambda>subscription credential. Inr \<lparr>
        rg_Get = (\<lambda>rg. State (\<lambda>s. (Inr \<lparr> rg_ID = Some rg, rg_Location = None \<rparr>, s))),
        rg_CreateOrUpdate = (\<lambda>rg d. State (\<lambda>s. (Inr d, s))) \<rparr>),
     ss_NewAccountsClient = (\<lambda>subscription credential. Inr mem_accounts),
     ss_NewBlobContainersClient = (\<lambda>subscription credential. Inr mem_containers),
     ss_NewBlobClient = (\<lambda>url credential. mem_blob_client account url) \<rparr>"

definition secret_reader :: "storage_state Reader" where
  "secret_reader = \<lparr>
     GetWorkloadIdentity = (\<lambda>k. io_fail kube_not_found), ListWorkloadIdentities = io_return [],
     ListWorkloadIdentitiesMatching = (\<lambda>ns index v. io_return []), GetOIDCIssuer = (\<lambda>n. io_fail kube_not_found),
     GetServiceAccount = (\<lambda>k. io_fail kube_not_found), GetWorkloadIdentityRecovery = (\<lambda>k. io_fail kube_not_found),
     ListWorkloadIdentityRecoveries = io_return [], ListWorkloadIdentityRecoveriesMatching = (\<lambda>index v. io_return []),
     GetSecret = (\<lambda>k. io_return demo_secret) \<rparr>"

definition storage_publisher :: "storage_state BlobOIDCDocumentPublisher" where
  "storage_publisher = \<lparr> bp_Reader = Some secret_reader, bp_Credential = Some ''credential'', bp_Scope = valid_scope \<rparr>"

definition empty_storage :: storage_state where
  "empty_storage = \<lparr> accounts = (\<lambda>_. None), containers = (\<lambda>_ _. None), blobs = (\<lambda>_ _ _. None) \<rparr>"

lemma mem_account_laws: "account_laws (\<lambda>s. s) mem_accounts"
  by (auto simp: account_laws_def mem_accounts_def reads_def writes_def account_write_def account_of_def Let_def
      split: option.splits)

lemma mem_container_laws: "container_laws (\<lambda>s. s) mem_containers"
  by (auto simp: container_laws_def mem_containers_def mem_put_container_def reads_def writes_def container_write_def
      split: option.splits)

lemma blob_service_url_inj: "blob_service_url a = blob_service_url b \<longleftrightarrow> a = b"
  by (simp add: blob_service_url_def)

lemma mem_publisher_laws: "publisher_laws (\<lambda>s. s) (mem_storage_sdk account) storage_publisher"
proof -
  have "blob_laws (\<lambda>s. s) (mem_blob_client account)"
    by (auto simp: blob_laws_def mem_blob_client_def blob_service_url_inj writes_def split: if_splits)
  moreover have "reader_neutral (\<lambda>s. s) secret_reader"
    by (simp add: reader_neutral_def secret_reader_def neutral_to_def)
  ultimately show ?thesis
    using mem_account_laws mem_container_laws
    by (auto simp: publisher_laws_def storage_laws_def newStorageClients_def mem_storage_sdk_def neutral_to_def storage_publisher_def)
qed

lemma demo_publish_serves:
  "\<exists>published s'. run_state (Publisher_Publish demo_crypto (mem_storage_sdk (account_name demo_rotating)) storage_publisher demo_rotating) empty_storage
     = (Inr published, s')"
proof -
  let ?sdk = "mem_storage_sdk (account_name demo_rotating)"
  obtain c where c: "newStorageClients ?sdk valid_scope ''credential'' = Inr c"
    and parts: "sc_storageAccounts c = mem_accounts" "sc_blobContainers c = mem_containers"
      "sc_NewBlobClient c = mem_blob_client (account_name demo_rotating)"
      "\<And>rg s. run_state (rg_Get (sc_resourceGroups c) rg) s = (Inr \<lparr> rg_ID = Some rg, rg_Location = None \<rparr>, s)"
    by (simp add: newStorageClients_def mem_storage_sdk_def)
  have storage: "\<exists>resources s. run_state (ensureStorage c demo_rotating) empty_storage = (Inr resources, s)"
    by (simp add: ensureStorage_def get_or_create_account_def create_account_def ensureBlobContainer_def ensureResourceGroup_def
        parts mem_accounts_def mem_containers_def mem_put_container_def empty_storage_def run_simps Let_def)
  have documents: "\<exists>documents. run_state (buildOIDCDocuments demo_crypto secret_reader demo_rotating (issuerURL demo_rotating)) s
      = (Inr documents, s)" for s
  proof -
    have "trim_right_slashes (issuerURL demo_rotating) \<noteq> ''''"
      by (simp add: trim_right_slashes_def issuerURL_def)
    then show ?thesis using demo_documents[of secret_reader s] by (auto simp: secret_reader_def)
  qed
  have upload: "\<exists>s'. run_state (uploadJSON c demo_rotating name content) s = (Inr (), s')" for name content s
    by (simp add: uploadJSON_def parts mem_blob_client_def blob_service_url_def run_simps)
  obtain resources s1 where s1: "run_state (ensureStorage c demo_rotating) empty_storage = (Inr resources, s1)"
    using storage by blast
  obtain d where d: "run_state (buildOIDCDocuments demo_crypto secret_reader demo_rotating (issuerURL demo_rotating)) s1 = (Inr d, s1)"
    using documents by blast
  obtain s2 where s2: "run_state (uploadJSON c demo_rotating discovery_blob (od_Discovery d)) s1 = (Inr (), s2)"
    using upload by blast
  obtain s3 where s3: "run_state (uploadJSON c demo_rotating jwksPath (od_JWKS d)) s2 = (Inr (), s3)"
    using upload by blast
  show ?thesis
    using c s1 d s2 s3 by (simp add: Publisher_Publish_def storage_publisher_def valid_scope publish_with_def run_io_try)
qed

theorem publish_serves_documents_witness:
  "\<exists>published s' (documents :: oidcDocuments). run_state (Publisher_Publish demo_crypto (mem_storage_sdk (account_name demo_rotating)) storage_publisher demo_rotating)
       empty_storage = (Inr published, s') \<and>
     blobs s' (account_name demo_rotating) (container_name demo_rotating) jwksPath = Some (od_JWKS documents, ''application/json'') \<and>
     pd_SigningKeys published = od_SigningKeys documents"
proof -
  obtain published s' where run: "run_state (Publisher_Publish demo_crypto (mem_storage_sdk (account_name demo_rotating))
      storage_publisher demo_rotating) empty_storage = (Inr published, s')"
    using demo_publish_serves by blast
  obtain documents :: oidcDocuments where
    "blobs s' (account_name demo_rotating) (container_name demo_rotating) jwksPath = Some (od_JWKS documents, ''application/json'')"
    "pd_SigningKeys published = od_SigningKeys documents"
    using publish_serves_documents[OF mem_publisher_laws run] by (elim exE conjE) (rule that, assumption+)
  then show ?thesis using run by blast
qed

section \<open>Deleting\<close>

text \<open>An account that exists and is not the operator's creation for the issuer.\<close>

definition adopted_account :: "arm_key \<Rightarrow> OIDCIssuer \<Rightarrow> storage_state \<Rightarrow> bool" where
  "adopted_account k issuer s \<longleftrightarrow>
     (\<exists>a. accounts s k = Some a \<and> \<not> wasOIDCIssuerResourceCreatedByOperator (acc_Tags a) issuer)"

lemma delete_with_effect:
  assumes laws: "storage_laws view c" and run: "run_state (delete_with c issuer) w = (r, w')"
  shows "view w' = view w \<or>
    (\<exists>a. accounts (view w) (account_key c issuer) = Some a \<and> wasOIDCIssuerResourceCreatedByOperator (acc_Tags a) issuer \<and>
       view w' = drop_account (account_key c issuer) (view w))"
proof -
  obtain r1 w1 where get: "run_state (sa_GetProperties (sc_storageAccounts c) (resourceGroupName (sc_scope c)) (account_name issuer)) w = (r1, w1)"
    by (metis surj_pair)
  obtain r2 w2 where delete: "run_state (sa_Delete (sc_storageAccounts c) (resourceGroupName (sc_scope c)) (account_name issuer)) w1 = (r2, w2)"
    by (metis surj_pair)
  show ?thesis
    using run get delete account_get[OF laws get] account_delete[OF laws delete]
    by (auto simp: delete_with_def Let_def split: sum.splits if_splits)
qed

lemma Publisher_Delete_effect:
  assumes laws: "publisher_laws view sdk p" and run: "run_state (Publisher_Delete sdk p issuer) w = (r, w')"
  shows "view w' = view w \<or>
       (\<exists>a. accounts (view w) (published_key p issuer) = Some a \<and> wasOIDCIssuerResourceCreatedByOperator (acc_Tags a) issuer \<and>
          view w' = drop_account (published_key p issuer) (view w))"
  using delete_runs[OF laws run]
proof (elim disjE exE conjE)
  fix c assume "storage_laws view c" "sc_scope c = bp_Scope p" "run_state (delete_with c issuer) w = (r, w')"
  then show ?thesis using delete_with_effect[of view c issuer w r w'] by simp
qed simp

lemma Publisher_Publish_accounts:
  assumes laws: "publisher_laws view sdk p" and run: "run_state (Publisher_Publish C sdk p issuer) w = (r, w')"
  shows "accounts_effect (published_key p issuer) issuer (view w) (view w')"
  using publish_runs[OF laws run]
proof (elim disjE exE conjE)
  fix c reader assume "storage_laws view c" "reader_neutral view reader" "sc_scope c = bp_Scope p"
    "run_state (publish_with C c reader issuer) w = (r, w')"
  then show ?thesis using publish_accounts[of view c reader C issuer w r w'] by simp
qed (simp add: accounts_effect_def)

lemma publisher_keeps_adopted:
  assumes laws: "publisher_laws view sdk p"
  shows "preserves (\<lambda>w. adopted_account (published_key p issuer) issuer (view w)) (Publisher_Publish C sdk p issuer)"
    "preserves (\<lambda>w. adopted_account (published_key p issuer) issuer (view w)) (Publisher_Delete sdk p issuer)"
proof -
  have "adopted_account (published_key p issuer) issuer s'"
    if "adopted_account (published_key p issuer) issuer s" "accounts_effect (published_key p issuer) issuer s s'" for s s'
    using that tags_tell_origin
    by (auto simp: adopted_account_def accounts_effect_def converged_account_def operator_account_def)
  then show "preserves (\<lambda>w. adopted_account (published_key p issuer) issuer (view w)) (Publisher_Publish C sdk p issuer)"
    unfolding preserves_def using Publisher_Publish_accounts[OF laws] by (metis prod.collapse)
  show "preserves (\<lambda>w. adopted_account (published_key p issuer) issuer (view w)) (Publisher_Delete sdk p issuer)"
    unfolding preserves_def
  proof (intro allI impI)
    fix w assume "adopted_account (published_key p issuer) issuer (view w)"
    then show "adopted_account (published_key p issuer) issuer (view (snd (run_state (Publisher_Delete sdk p issuer) w)))"
      using Publisher_Delete_effect[OF laws, of issuer w "fst (run_state (Publisher_Delete sdk p issuer) w)"]
      by (auto simp: adopted_account_def)
  qed
qed

end
