(* ===== verification/Issuer_Publishing.thy ===== *)
theory Issuer_Publishing
  imports Storage_Properties
begin

text \<open>
  The contract between the OIDCIssuer reconciler and its publisher: a publisher keeps an invariant of the
  world for the issuers it serves.  The reconciler's part is proved once, under the contract; the blob
  publisher honours it with the invariant that an adopted storage account stays adopted; the extended contract says what
  a publish serves, so that an OIDCIssuer recorded as Ready is known to be served.
\<close>

section \<open>The contract\<close>

lemma preserves_and_then_run:
  assumes "preserves I m" and "\<And>a w w'. run_state m w = (Inr a, w') \<Longrightarrow> preserves (\<lambda>c. I (world c)) (k a)"
  shows "preserves (\<lambda>c. I (world c)) (and_then m k)"
  unfolding preserves_def
proof (intro allI impI)
  fix c :: "'a ctx" assume I: "I (world c)"
  obtain r w' where m: "run_state m (world c) = (r, w')" by fastforce
  then have "I w'" using assms(1) I by (blast dest: preservesD)
  then show "I (world (snd (run_state (and_then m k) c)))"
    using assms(2) m by (cases r) (auto simp: run_and_then preserves_def)
qed

text \<open>The other parties of a reconcile leave the invariant alone, and an update returns the issuer updated.\<close>

definition calm_reconciler :: "'w Publisher \<Rightarrow> ('w \<Rightarrow> bool) \<Rightarrow> (OIDCIssuer \<Rightarrow> bool) \<Rightarrow> 'w OIDCIssuerReconciler \<Rightarrow> bool" where
  "calm_reconciler P kept serves_issuer r \<longleftrightarrow> ir_Publisher r = Some P \<and>
     cluster_keeps kept (ir_Client r) {UpdatesOIDCIssuer, PatchesOIDCIssuerStatus} \<and>
     (\<forall>m. ir_OpenShift r = Some m \<longrightarrow> preserves kept (osm_Get m) \<and> (\<forall>u. preserves kept (osm_Set m u)) \<and>
        (\<forall>t. preserves kept (osm_WaitForKubeAPIServerRollout m t))) \<and>
     (\<forall>m. ir_ServiceAccountTokens r = Some m \<longrightarrow> preserves kept m) \<and>
     (\<forall>x y w w'. serves_issuer x \<longrightarrow> run_state (UpdateOIDCIssuer (ir_Client r) x) w = (Inr y, w') \<longrightarrow> serves_issuer y)"

lemma calm_calls:
  assumes "calm_reconciler P kept serves_issuer r"
  shows "preserves kept (Now (ir_Client r))" "preserves kept (GetOIDCIssuer (ClusterReader (ir_Client r)) n)"
    "preserves kept (ListWorkloadIdentities (ClusterReader (ir_Client r)))"
    "preserves kept (UpdateOIDCIssuer (ir_Client r) x)" "preserves kept (PatchOIDCIssuerStatus (ir_Client r) x p)"
    "ir_OpenShift r = Some m \<Longrightarrow> preserves kept (osm_Get m)" "ir_OpenShift r = Some m \<Longrightarrow> preserves kept (osm_Set m u)"
    "ir_OpenShift r = Some m \<Longrightarrow> preserves kept (osm_WaitForKubeAPIServerRollout m t)"
    "ir_ServiceAccountTokens r = Some tokens \<Longrightarrow> preserves kept tokens"
  using assms by (auto simp: calm_reconciler_def cluster_keeps_def reader_keeps_def)

lemma calm_patch: "calm_reconciler P kept serves_issuer r \<Longrightarrow> preserves kept (patchOIDCIssuerStatus r issuer f)"
  unfolding patchOIDCIssuerStatus_def by (intro preserves_bind preserves_external calm_calls)

lemma calm_not_ready: "calm_reconciler P kept serves_issuer r \<Longrightarrow> preserves kept (setNotReady L r issuer reason message)"
  by (simp add: setNotReady_def calm_patch)

lemma calm_status:
  assumes "calm_reconciler P kept serves_issuer r"
  shows "preserves kept (setReady L r issuer published)" "preserves kept (setPublished r issuer published)"
    "preserves kept (capturePreviousServiceAccountIssuer r issuer u)"
    "preserves kept (report_failure L r issuer reason shown err)"
  using calm_patch[OF assms] calm_not_ready[OF assms]
  by (auto simp: setReady_def setPublished_def capturePreviousServiceAccountIssuer_def report_failure_def
      intro!: preserves_io_try preserves_io_fail)

lemma calm_switch:
  assumes "calm_reconciler P kept serves_issuer r"
  shows "preserves kept (reconcileOpenShiftServiceAccountIssuer L r issuer url)"
  unfolding reconcileOpenShiftServiceAccountIssuer_def capture_previous_def set_cluster_issuer_def
  by (intro preserves_option preserves_io_try preserves_if preserves_bind preserves_sum preserves_io_return
      calm_status[OF assms] calm_not_ready[OF assms] calm_calls[OF assms])

lemma calm_release:
  "calm_reconciler P kept serves_issuer r \<Longrightarrow> preserves (\<lambda>c. kept (world c)) (release_issuer L r issuer)"
  unfolding release_issuer_def by (intro preserves_result_of preserves_external calm_calls)

locale document_publisher =
  fixes P :: "'w Publisher" and kept :: "'w \<Rightarrow> bool" and serves_issuer :: "OIDCIssuer \<Rightarrow> bool"
  assumes publish_keeps: "serves_issuer issuer \<Longrightarrow> preserves kept (pub_Publish P issuer)"
    and delete_keeps: "serves_issuer issuer \<Longrightarrow> preserves kept (pub_Delete P issuer)"
    and serves_meta: "serves_issuer issuer \<Longrightarrow>
      serves_issuer (issuer\<lparr>oi_Meta := (oi_Meta issuer)\<lparr>Finalizers := fs\<rparr>\<rparr>)"
begin

lemma calm_publish:
  assumes calm: "calm_reconciler P kept serves_issuer r" and served: "serves_issuer issuer"
  shows "preserves (\<lambda>c. kept (world c)) (reconcile_live_issuer L r issuer)"
proof -
  have publisher: "ir_Publisher r = Some P" using calm by (simp add: calm_reconciler_def)
  show ?thesis
    unfolding reconcile_live_issuer_def publisher option.case publish_issuer_def
    by (intro preserves_bind preserves_in_world preserves_sum preserves_and_then preserves_if preserves_io_return
        preserves_done_with calm_status[OF calm] calm_switch[OF calm] publish_keeps served)
qed

lemma calm_delete:
  assumes calm: "calm_reconciler P kept serves_issuer r" and served: "serves_issuer issuer"
  shows "preserves (\<lambda>c. kept (world c)) (Issuer_reconcileDelete L r issuer)"
proof -
  have publisher: "ir_Publisher r = Some P" using calm by (simp add: calm_reconciler_def)
  have tokens: "preserves kept t" if "ir_ServiceAccountTokens r = Some t" for t using calm_calls(9)[OF calm that] .
  have openshift: "preserves kept t" if "map_option osm_Get (ir_OpenShift r) = Some t" for t
    using that calm_calls(6)[OF calm] by auto
  have last: "preserves (\<lambda>c. kept (world c)) (delete_published L r issuer)"
    unfolding delete_published_def publisher option.case
    by (intro preserves_if preserves_and_then calm_release[OF calm] delete_keeps served)
  show ?thesis
    unfolding Issuer_reconcileDelete_def identities_checked_def check_token_handoff_def check_openshift_handoff_def issuer_blocked_def
    by (intro preserves_if preserves_and_then preserves_bind preserves_done_with preserves_failed_with preserves_result_of
        preserves_SetReconcileOutcome guards_keep calm_not_ready[OF calm] calm_calls[OF calm] last tokens openshift)
qed

text \<open>No reconcile of an issuer the publisher serves breaks the invariant.\<close>

lemma reconcile_keeps:
  assumes calm: "calm_reconciler P kept serves_issuer r" and served: "serves_issuer issuer"
  shows "preserves (\<lambda>c. kept (world c)) (reconcile_existing_issuer L r issuer)"
proof -
  have update: "preserves (\<lambda>c. kept (world c)) (and_then (external (UpdateOIDCIssuer (ir_Client r)
             (issuer\<lparr>oi_Meta := (oi_Meta issuer)\<lparr>Finalizers := fs\<rparr>\<rparr>))) (reconcile_live_issuer L r))" for fs
  proof (rule preserves_and_then_run)
    fix y w w'
    assume "run_state (external (UpdateOIDCIssuer (ir_Client r) (issuer\<lparr>oi_Meta := (oi_Meta issuer)\<lparr>Finalizers := fs\<rparr>\<rparr>))) w = (Inr y, w')"
    then have "run_state (UpdateOIDCIssuer (ir_Client r) (issuer\<lparr>oi_Meta := (oi_Meta issuer)\<lparr>Finalizers := fs\<rparr>\<rparr>)) w = (Inr y, w')"
      by (auto simp: run_external split: prod.splits sum.splits)
    then have "serves_issuer y"
      using calm serves_meta[OF served] unfolding calm_reconciler_def by blast
    then show "preserves (\<lambda>c. kept (world c)) (reconcile_live_issuer L r y)" by (rule calm_publish[OF calm])
  qed (intro preserves_external calm_calls[OF calm])
  show ?thesis
    unfolding reconcile_existing_issuer_def issuer_blocked_def
    by (intro preserves_if preserves_bind preserves_SetReconcileOutcome preserves_result_of calm_not_ready[OF calm]
        calm_delete calm_publish update calm served)
qed

end

text \<open>
  Whether a switch of the cluster's issuer is requested is part of the spec, which the API server returns as it was
  sent.
\<close>

definition request_kept :: "'w OIDCIssuerReconciler \<Rightarrow> bool" where
  "request_kept r \<longleftrightarrow>
     (\<forall>x w y w'. run_state (UpdateOIDCIssuer (ir_Client r) x) w = (Inr y, w') \<longrightarrow>
        shouldUpdateOpenShiftServiceAccountIssuer y = shouldUpdateOpenShiftServiceAccountIssuer x) \<and>
     (\<forall>x p w y w'. run_state (PatchOIDCIssuerStatus (ir_Client r) x p) w = (Inr y, w') \<longrightarrow>
        shouldUpdateOpenShiftServiceAccountIssuer y = shouldUpdateOpenShiftServiceAccountIssuer x)"

definition same_request :: "OIDCIssuer \<Rightarrow> OIDCIssuer \<Rightarrow> bool" where
  "same_request x y \<longleftrightarrow> shouldUpdateOpenShiftServiceAccountIssuer y = shouldUpdateOpenShiftServiceAccountIssuer x"

lemma yields_then: "yields P m \<Longrightarrow> (\<And>a. P a \<Longrightarrow> yields Q (k a)) \<Longrightarrow> yields Q (io_try m k)"
  by (fastforce simp: yields_def elim: io_try_InrE)

lemma patch_same_request:
  assumes "request_kept r"
  shows "yields (same_request issuer) (patchOIDCIssuerStatus r issuer f)"
proof -
  have "yields (same_request issuer) (external (PatchOIDCIssuerStatus (ir_Client r) (issuer\<lparr>oi_Status := s\<rparr>) p))" for s p
    using assms unfolding request_kept_def yields_def same_request_def
    by (fastforce simp: run_external shouldUpdateOpenShiftServiceAccountIssuer_def split: prod.splits sum.splits)
  then show ?thesis unfolding patchOIDCIssuerStatus_def by (intro yields_bind_sum)
qed

lemma switch_same_request:
  assumes "request_kept r"
  shows "yields (same_request issuer) (reconcileOpenShiftServiceAccountIssuer L r issuer url)"
proof -
  note patch = patch_same_request[OF assms]
  have report: "yields P (report_failure L r x reason shown err)" for P x reason shown err
    unfolding report_failure_def by (intro yields_intros)
  have self: "same_request issuer issuer" by (simp add: same_request_def)
  have capture: "yields (same_request issuer) (capture_previous L r m issuer url)" for m
    unfolding capture_previous_def capturePreviousServiceAccountIssuer_def by (intro yields_intros report patch self)
  have set: "yields (same_request issuer) (set_cluster_issuer L r m x url)" if "same_request issuer x" for m x
    unfolding set_cluster_issuer_def by (intro yields_intros report that)
  show ?thesis
    unfolding reconcileOpenShiftServiceAccountIssuer_def
    using patch yields_then[OF capture set] by (cases "ir_OpenShift r") (simp_all add: setNotReady_def)
qed

text \<open>A publisher of which it is known what a successful publish serves.\<close>

locale serving_publisher = document_publisher P kept serves_issuer
  for P :: "'w Publisher" and kept :: "'w \<Rightarrow> bool" and serves_issuer :: "OIDCIssuer \<Rightarrow> bool" +
  fixes served :: "OIDCIssuer \<Rightarrow> PublishedDocuments \<Rightarrow> 'w \<Rightarrow> bool"
  assumes publish_serves: "serves_issuer issuer \<Longrightarrow> run_state (pub_Publish P issuer) w = (Inr d, w') \<Longrightarrow> served issuer d w'"
begin

text \<open>What is served when the reconcile ends without an error, having recorded it as Ready.\<close>

lemma live_served:
  assumes calm: "\<And>d. calm_reconciler P (served issuer d) serves_issuer r" and serves: "serves_issuer issuer"
    and request: "request_kept r"
    and run: "run_state (reconcile_live_issuer L r issuer) c = ((res, None), c')"
  shows "res = requeue_after (oidcIssuerRefreshInterval r) \<and>
    (\<exists>d i w i'. same_request issuer i \<and> run_state (setReady L r i d) w = (Inr i', world c') \<and> served issuer d (world c'))"
proof -
  have publisher: "ir_Publisher r = Some P" using calm by (simp add: calm_reconciler_def)
  let ?switch = "\<lambda>i url. if shouldUpdateOpenShiftServiceAccountIssuer i
      then reconcileOpenShiftServiceAccountIssuer L r i url else io_return i"
  from run publisher obtain d w1 i1 w2 i2 w3 i3 where pub: "run_state (pub_Publish P issuer) (world c) = (Inr d, w1)"
    and set: "run_state (setPublished r issuer d) w1 = (Inr i1, w2)"
    and switch: "run_state (?switch i1 (pd_IssuerURL d)) w2 = (Inr i2, w3)"
    and last: "run_state (setReady L r i2 d) w3 = (Inr i3, world c')" "res = requeue_after (oidcIssuerRefreshInterval r)"
    by (auto simp: reconcile_live_issuer_def publish_issuer_def report_failure_def run_simps split: prod.splits sum.splits)
  have "served issuer d w1" by (rule publish_serves[OF serves pub])
  then have "served issuer d w2" using preservesD[OF calm_status(2)[OF calm] _ set] by blast
  moreover have "preserves (served issuer d) (?switch i1 (pd_IssuerURL d))"
    by (intro preserves_if calm_switch[OF calm] preserves_io_return)
  ultimately have "served issuer d w3" using preservesD[OF _ _ switch] by blast
  then have "served issuer d (world c')" using preservesD[OF calm_status(1)[OF calm] _ last(1)] by blast
  moreover have "same_request issuer i1"
    using yieldsD[OF patch_same_request[OF request] set[unfolded setPublished_def]] .
  moreover have "same_request i1 i2"
    using switch yieldsD[OF switch_same_request[OF request]] by (auto simp: same_request_def split: if_splits)
  ultimately show ?thesis using last by (metis same_request_def)
qed

lemma reconcile_served:
  assumes calm: "\<And>i d. calm_reconciler P (served i d) serves_issuer r" and serves: "serves_issuer issuer"
    and request: "request_kept r"
    and live: "Name (oi_Meta issuer) = OIDCIssuerName" "deletion_is_zero (oi_Meta issuer)"
    and run: "run_state (reconcile_existing_issuer L r issuer) c = ((res, None), c')"
  shows "res = requeue_after (oidcIssuerRefreshInterval r) \<and>
    (\<exists>j d i w i'. serves_issuer j \<and> same_request issuer i \<and> run_state (setReady L r i d) w = (Inr i', world c') \<and>
      served j d (world c'))"
proof (cases "ContainsFinalizer L (Finalizers (oi_Meta issuer)) oidcIssuerFinalizer")
  case True
  then have "run_state (reconcile_live_issuer L r issuer) c = ((res, None), c')"
    using run live by (simp add: reconcile_existing_issuer_def)
  from live_served[OF calm serves request this] serves show ?thesis by blast
next
  case False
  let ?updated = "issuer\<lparr>oi_Meta := (oi_Meta issuer)\<lparr>Finalizers := AddFinalizer L (Finalizers (oi_Meta issuer)) oidcIssuerFinalizer\<rparr>\<rparr>"
  obtain j w where update: "run_state (UpdateOIDCIssuer (ir_Client r) ?updated) (world c) = (Inr j, w)"
    and rest: "run_state (reconcile_live_issuer L r j) (c\<lparr>world := w\<rparr>) = ((res, None), c')"
    using run live False
    by (auto simp: reconcile_existing_issuer_def run_and_then run_external split: prod.splits sum.splits)
  have "serves_issuer j"
    using calm serves_meta[OF serves] update unfolding calm_reconciler_def by blast
  moreover have "same_request issuer j"
    using request update unfolding request_kept_def same_request_def
    by (fastforce simp: shouldUpdateOpenShiftServiceAccountIssuer_def)
  ultimately show ?thesis using live_served[OF calm _ request rest] by (metis same_request_def)
qed

end

section \<open>The blob publisher honours it\<close>

definition same_claim :: "OIDCIssuer \<Rightarrow> OIDCIssuer \<Rightarrow> bool" where
  "same_claim i j \<longleftrightarrow> UID (oi_Meta i) = UID (oi_Meta j) \<and> ois_Azure (oi_Spec i) = ois_Azure (oi_Spec j)"

lemma same_claim_adopted:
  assumes "same_claim i j"
  shows "adopted_account (published_key p i) i s \<longleftrightarrow> adopted_account (published_key p j) j s"
  using assms by (simp add: same_claim_def adopted_account_def was_created_iff hasTags_resourceTags)

text \<open>The invariant is stated for worlds on which the storage laws hold.\<close>

definition adoption_kept ::
  "('w \<Rightarrow> storage_state) \<Rightarrow> 'w storageSDK \<Rightarrow> 'w BlobOIDCDocumentPublisher \<Rightarrow> OIDCIssuer \<Rightarrow> 'w \<Rightarrow> bool" where
  "adoption_kept view sdk p issuer w \<longleftrightarrow>
     (publisher_laws view sdk p \<longrightarrow> adopted_account (published_key p issuer) issuer (view w))"

interpretation blob_documents: document_publisher "blob_publisher C sdk p" "adoption_kept view sdk p i" "same_claim i" for C sdk p view i
proof unfold_locales
  fix issuer assume same: "same_claim i issuer"
  show "same_claim i (issuer\<lparr>oi_Meta := (oi_Meta issuer)\<lparr>Finalizers := fs\<rparr>\<rparr>)" for fs
    using same by (simp add: same_claim_def)
  have kept: "adoption_kept view sdk p i = (\<lambda>w. publisher_laws view sdk p \<longrightarrow> adopted_account (published_key p issuer) issuer (view w))"
    by (simp add: adoption_kept_def fun_eq_iff same_claim_adopted[OF same])
  show "preserves (adoption_kept view sdk p i) (pub_Publish (blob_publisher C sdk p) issuer)"
    "preserves (adoption_kept view sdk p i) (pub_Delete (blob_publisher C sdk p) issuer)"
    unfolding kept using publisher_keeps_adopted[of view sdk p issuer]
    by (cases "publisher_laws view sdk p"; simp add: blob_publisher_def preserves_def)+
qed

text \<open>C37. A storage account that is not the operator's own creation for this OIDCIssuer is never deleted: a
  deletion of the publisher removes at most the issuer's account, and only with the operator's creation
  tags for this very OIDCIssuer; and no reconcile of the issuer, whether it publishes, fails or deletes,
  turns an adopted account into one the operator would delete, or loses it.  The other parties of the
  reconcile may do anything that leaves the adopted account alone.\<close>
theorem adopted_account_survives:
  assumes laws: "publisher_laws view sdk p"
    and calm: "calm_reconciler (blob_publisher C sdk p) (\<lambda>w. adopted_account (published_key p issuer) issuer (view w))
      (same_claim issuer) r"
  shows "(\<forall>w res w'. run_state (Publisher_Delete sdk p issuer) w = (res, w') \<longrightarrow> view w' = view w \<or>
       (\<exists>a. accounts (view w) (published_key p issuer) = Some a \<and> wasOIDCIssuerResourceCreatedByOperator (acc_Tags a) issuer \<and>
          view w' = drop_account (published_key p issuer) (view w))) \<and>
     preserves (\<lambda>c. adopted_account (published_key p issuer) issuer (view (world c))) (reconcile_existing_issuer L r issuer)"
proof
  have kept: "adoption_kept view sdk p issuer = (\<lambda>w. adopted_account (published_key p issuer) issuer (view w))"
    using laws by (simp add: adoption_kept_def fun_eq_iff)
  have "same_claim issuer issuer" by (simp add: same_claim_def)
  then show "preserves (\<lambda>c. adopted_account (published_key p issuer) issuer (view (world c))) (reconcile_existing_issuer L r issuer)"
    using blob_documents.reconcile_keeps[of C sdk p view issuer r issuer L] calm unfolding kept by simp
qed (use Publisher_Delete_effect[OF laws] in blast)

text \<open>The blob publisher also says what it serves.\<close>

interpretation blob_serving: serving_publisher "blob_publisher C sdk p" "adoption_kept view sdk p i" "same_claim i"
    "\<lambda>j d w. publisher_laws view sdk p \<longrightarrow> documents_served C p j d (view w)" for C sdk p view i
  by unfold_locales (use publish_serves in \<open>auto simp: blob_publisher_def\<close>)

text \<open>C38. An OIDCIssuer recorded as Ready is served. A reconcile of a live OIDCIssuer that asks for a switch of the
  cluster's issuer only where there is an OpenShift client, and that ends without an
  error, waits one refresh interval and ends with the status patch that records Ready with the published
  documents, for an object that asks for no switch that could not be made; Azure Storage then holds, under the
  issuer URL of that status, the discovery document and
  the key set built from the signing-key Secrets the status lists, in a public container of the secured
  account.  Nothing the reconcile does between publishing and the patch, such as switching the cluster's
  ServiceAccount issuer, takes them away, if the other parties leave the storage account alone.
  (A requested switch without a client is excluded: \<open>missing_openshift_client_reported_ready\<close>.)\<close>
theorem ready_issuer_served:
  assumes laws: "publisher_laws view sdk p"
    and calm: "\<forall>kept. calm_reconciler (blob_publisher C sdk p) (\<lambda>w. kept (view w)) (same_claim issuer) r"
    and live: "Name (oi_Meta issuer) = OIDCIssuerName" "deletion_is_zero (oi_Meta issuer)"
    and request: "request_kept r" "shouldUpdateOpenShiftServiceAccountIssuer issuer \<longrightarrow> ir_OpenShift r \<noteq> None"
    and run: "run_state (reconcile_existing_issuer L r issuer) c = ((res, None), c')"
  shows "res = requeue_after (oidcIssuerRefreshInterval r) \<and>
    (\<exists>(j :: OIDCIssuer) (published :: PublishedDocuments) (i :: OIDCIssuer) w (i' :: OIDCIssuer).
       same_claim issuer j \<and> run_state (setReady L r i published) w = (Inr i', world c') \<and>
       (shouldUpdateOpenShiftServiceAccountIssuer i \<longrightarrow> ir_OpenShift r \<noteq> None) \<and>
       documents_served C p j published (view (world c')))"
proof -
  have "same_claim issuer issuer" by (simp add: same_claim_def)
  moreover have "calm_reconciler (blob_publisher C sdk p) (\<lambda>w. publisher_laws view sdk p \<longrightarrow> documents_served C p i d (view w))
      (same_claim issuer) r" for i d
    using spec[OF calm, of "\<lambda>v. publisher_laws view sdk p \<longrightarrow> documents_served C p i d v"] .
  ultimately show ?thesis
    using blob_serving.reconcile_served[of C sdk p view issuer r issuer L c res c'] live run laws request
    by (metis same_request_def)
qed

section \<open>A reconcile over in-memory storage\<close>

text \<open>A cluster that accepts every write and keeps nothing, in front of the storage.\<close>

definition storage_cluster :: "storage_state Cluster" where
  "storage_cluster = \<lparr> ClusterReader = secret_reader, Now = State (\<lambda>s. (1, s)),
     UpdateWorkloadIdentity = io_return, PatchWorkloadIdentityStatus = (\<lambda>x q. io_return x),
     UpdateOIDCIssuer = io_return, PatchOIDCIssuerStatus = (\<lambda>x q. io_return x),
     UpdateWorkloadIdentityRecovery = io_return, PatchWorkloadIdentityRecoveryStatus = (\<lambda>x q. io_return x),
     CreateServiceAccount = io_return, PatchServiceAccount = (\<lambda>x q. io_return x), DeleteServiceAccount = (\<lambda>x. io_return ()) \<rparr>"

abbreviation demo_blob_publisher :: "storage_state Publisher" where
  "demo_blob_publisher \<equiv> blob_publisher demo_crypto (mem_storage_sdk (account_name demo_rotating)) storage_publisher"

definition storage_reconciler :: "storage_state OIDCIssuerReconciler" where
  "storage_reconciler = \<lparr> ir_Client = storage_cluster, ir_Publisher = Some demo_blob_publisher, ir_OpenShift = None,
     ir_ServiceAccountTokens = None, ir_RefreshInterval = 0 \<rparr>"

definition foreign_storage :: storage_state where
  "foreign_storage = put_account (published_key storage_publisher demo_rotating)
     \<lparr> acc_ID = Some ''theirs'', acc_Tags = fmupd ''team'' (Some ''them'') fmempty, acc_Properties = None \<rparr> empty_storage"

lemma storage_reconciler_calm: "calm_reconciler demo_blob_publisher I (same_claim i) storage_reconciler"
  by (auto simp: calm_reconciler_def storage_reconciler_def storage_cluster_def cluster_keeps_def reader_keeps_def
      secret_reader_def preserves_def)

theorem adopted_account_survives_witness:
  "adopted_account (published_key storage_publisher demo_rotating) demo_rotating
     (world (snd (run_state (reconcile_existing_issuer std_lib storage_reconciler demo_rotating)
        \<lparr> world = foreign_storage, outcome = None \<rparr>)))"
proof -
  have "adopted_account (published_key storage_publisher demo_rotating) demo_rotating foreign_storage"
    by (simp add: adopted_account_def foreign_storage_def was_created_iff hasTags_resourceTags tag_pointer_def
        managedByTag_def)
  moreover have "preserves (\<lambda>c. adopted_account (published_key storage_publisher demo_rotating) demo_rotating (world c))
      (reconcile_existing_issuer std_lib storage_reconciler demo_rotating)"
    using adopted_account_survives[OF mem_publisher_laws storage_reconciler_calm] by blast
  ultimately show ?thesis unfolding preserves_def by simp
qed

text \<open>Publishing the demo issuer from nothing ends Ready.\<close>

lemma demo_reconcile_succeeds:
  "\<exists>res c'. run_state (reconcile_existing_issuer std_lib storage_reconciler demo_rotating)
     \<lparr> world = empty_storage, outcome = None \<rparr> = ((res, None), c')"
proof -
  obtain published s' where publish: "run_state (Publisher_Publish demo_crypto
      (mem_storage_sdk (account_name demo_rotating)) storage_publisher demo_rotating) empty_storage = (Inr published, s')"
    using demo_publish_serves by blast
  have "Name (oi_Meta demo_rotating) = OIDCIssuerName" "deletion_is_zero (oi_Meta demo_rotating)"
    "oidcIssuerFinalizer \<in> set (Finalizers (oi_Meta demo_rotating))"
    by (simp_all add: demo_rotating_def demo_issuer_def demo_meta_def deletion_is_zero_def)
  then show ?thesis
    by (simp add: reconcile_existing_issuer_def reconcile_live_issuer_def publish_issuer_def storage_reconciler_def
        storage_cluster_def blob_publisher_def publish setPublished_def setReady_def setNotReady_def
        patchOIDCIssuerStatus_def reconcileOpenShiftServiceAccountIssuer_def std_lib_def run_simps)
qed

theorem ready_issuer_served_witness:
  "\<not> shouldUpdateOpenShiftServiceAccountIssuer demo_rotating \<and>
   (\<exists>(j :: OIDCIssuer) (published :: PublishedDocuments) c'.
     snd (run_state (reconcile_existing_issuer std_lib storage_reconciler demo_rotating)
       \<lparr> world = empty_storage, outcome = None \<rparr>) = c' \<and>
     documents_served demo_crypto storage_publisher j published (world c'))"
proof -
  obtain res c' where run: "run_state (reconcile_existing_issuer std_lib storage_reconciler demo_rotating)
     \<lparr> world = empty_storage, outcome = None \<rparr> = ((res, None), c')"
    using demo_reconcile_succeeds by blast
  have live: "Name (oi_Meta demo_rotating) = OIDCIssuerName" "deletion_is_zero (oi_Meta demo_rotating)"
    by (simp_all add: demo_rotating_def demo_issuer_def demo_meta_def deletion_is_zero_def)
  have request: "request_kept storage_reconciler"
    by (simp add: request_kept_def storage_reconciler_def storage_cluster_def)
  have plain: "\<not> shouldUpdateOpenShiftServiceAccountIssuer demo_rotating"
    by (simp add: shouldUpdateOpenShiftServiceAccountIssuer_def demo_rotating_def)
  have calm: "\<forall>kept. calm_reconciler demo_blob_publisher (\<lambda>w. kept w) (same_claim demo_rotating) storage_reconciler"
    using storage_reconciler_calm by blast
  have "shouldUpdateOpenShiftServiceAccountIssuer demo_rotating \<longrightarrow> ir_OpenShift storage_reconciler \<noteq> None"
    using plain by simp
  from ready_issuer_served[OF mem_publisher_laws calm live request this run]
  obtain j :: OIDCIssuer and published :: PublishedDocuments where
    served: "documents_served demo_crypto storage_publisher j published (world c')" by blast
  show ?thesis
  proof (intro conjI exI)
    show "snd (run_state (reconcile_existing_issuer std_lib storage_reconciler demo_rotating)
       \<lparr> world = empty_storage, outcome = None \<rparr>) = c'" by (simp add: run)
  qed (rule plain, rule served)
qed

end
