(* ===== verification/Telemetry.thy ===== *)
theory Telemetry
  imports Workload_Controller Issuer_Controller Recovery_Controller Admission
begin

text \<open>
  internal/telemetry/instrumentation.go: the spans around reconciles and admissions.  A span is what its
  end hands over: its name, attributes, recorded errors and status.  The tracing SDK is seen only through
  that; the context's outcome cell is \<open>outcome\<close> of Kube.  The attributes a reconciler adds to its own span
  (\<open>SetResourceAttributes\<close>) are left out: nothing reads them back.
\<close>

section \<open>Spans\<close>

definition AttrReconcileOutcome :: string where
  "AttrReconcileOutcome = ''azure_workload_identity_operator.reconcile.outcome''"
definition AttrResourceKind :: string where
  "AttrResourceKind = ''azure_workload_identity_operator.resource.kind''"
definition AttrResourceName :: string where
  "AttrResourceName = ''azure_workload_identity_operator.resource.name''"
definition AttrResourceNamespace :: string where
  "AttrResourceNamespace = ''azure_workload_identity_operator.resource.namespace''"
definition AttrResourceUID :: string where
  "AttrResourceUID = ''azure_workload_identity_operator.resource.uid''"
definition AttrAdmissionOutcome :: string where
  "AttrAdmissionOutcome = ''azure_workload_identity_operator.admission.outcome''"

record span =
  span_Name :: string
  span_Attributes :: "(string \<times> string) list"
  span_Errors :: "go_error list"
  span_Status :: "string option"

definition SetAttributes :: "(string \<times> string) list \<Rightarrow> span \<Rightarrow> span" where
  "SetAttributes kvs s = s\<lparr>span_Attributes := span_Attributes s @ kvs\<rparr>"

definition RecordFailure :: "go_error \<Rightarrow> string \<Rightarrow> span \<Rightarrow> span" where
  "RecordFailure err description s = s\<lparr>span_Errors := span_Errors s @ [err], span_Status := Some description\<rparr>"

section \<open>Reconciles\<close>

text \<open>\<open>Result.IsZero\<close> of controller-runtime.\<close>

definition Result_IsZero :: "ctrl_Result \<Rightarrow> bool" where
  "Result_IsZero r \<longleftrightarrow> \<not> Requeue r \<and> RequeueAfter r = 0"

definition reconcile_outcome :: "string \<Rightarrow> ctrl_Result \<Rightarrow> go_error option \<Rightarrow> string" where
  "reconcile_outcome recorded result err =
     (if err \<noteq> None then ''error''
      else if recorded = '''' \<and> \<not> Result_IsZero result then ''requeue''
      else if recorded = '''' then ''success''
      else recorded)"

definition request_attributes :: "string \<Rightarrow> NamespacedName \<Rightarrow> (string \<times> string) list" where
  "request_attributes kind request =
     [(AttrResourceKind, kind), (AttrResourceName, nn_Name request)] @
     (if nn_Namespace request \<noteq> '''' then [(AttrResourceNamespace, nn_Namespace request)] else [])"

type_synonym 'w reconciler = "NamespacedName \<Rightarrow> 'w reconcile"

text \<open>A reconcile as the work queue calls it: the result, the error, and the span it ends, if it is traced.\<close>

type_synonym 'w queued = "NamespacedName \<Rightarrow> ('w, (ctrl_Result \<times> go_error option) \<times> span option) state"

definition plain_Reconcile :: "'w reconciler \<Rightarrow> 'w queued" where
  "plain_Reconcile delegate request = State (\<lambda>w.
     case run_state (delegate request) \<lparr> world = w, outcome = None \<rparr> of (r, c) \<Rightarrow> ((r, None), world c))"

definition traced_Reconcile :: "string \<Rightarrow> string \<Rightarrow> 'w reconciler \<Rightarrow> 'w queued" where
  "traced_Reconcile spanName kind delegate request = State (\<lambda>w.
     let started = \<lparr> span_Name = spanName, span_Attributes = request_attributes kind request,
           span_Errors = [], span_Status = None \<rparr>
     in case run_state (delegate request) \<lparr> world = w, outcome = Some '''' \<rparr> of ((result, err), c) \<Rightarrow>
       let recorded = (case outcome c of Some v \<Rightarrow> v | None \<Rightarrow> '''');
           failed = (case err of Some e \<Rightarrow> RecordFailure e ''reconciliation failed'' started | None \<Rightarrow> started)
       in (((result, err),
            Some (SetAttributes [(AttrReconcileOutcome, reconcile_outcome recorded result err)] failed)), world c))"

section \<open>Admissions\<close>

text \<open>\<open>errors.As(err, &status)\<close>: the code of the API status an error is or wraps.\<close>

fun api_status_code :: "go_error \<Rightarrow> nat option" where
  "api_status_code (External (StatusError code reason m)) = Some code"
| "api_status_code (WrapError p e) = api_status_code e"
| "api_status_code _ = None"

definition resource_attributes :: "string \<Rightarrow> ObjectMeta \<Rightarrow> (string \<times> string) list" where
  "resource_attributes kind m =
     [(AttrResourceKind, kind), (AttrResourceName, Name m)] @
     (if Namespace m \<noteq> '''' then [(AttrResourceNamespace, Namespace m)] else []) @
     (if UID m \<noteq> '''' then [(AttrResourceUID, UID m)] else [])"

definition SetResourceAttributes :: "string \<Rightarrow> ObjectMeta \<Rightarrow> span \<Rightarrow> span" where
  "SetResourceAttributes kind m s = SetAttributes (resource_attributes kind m) s"

definition RecordAdmissionOutcome :: "string \<Rightarrow> ObjectMeta \<Rightarrow> go_error option \<Rightarrow> span \<Rightarrow> span" where
  "RecordAdmissionOutcome kind m err s =
     (let s = SetResourceAttributes kind m s in
      case err of
        None \<Rightarrow> SetAttributes [(AttrAdmissionOutcome, ''allowed'')] s
      | Some e \<Rightarrow>
          if (case api_status_code e of Some code \<Rightarrow> 400 \<le> code \<and> code < 500 | None \<Rightarrow> False)
          then SetAttributes [(AttrAdmissionOutcome, ''denied'')] s
          else RecordFailure e ''admission evaluation failed'' (SetAttributes [(AttrAdmissionOutcome, ''error'')] s))"

section \<open>Transparency\<close>

text \<open>
  A reconcile step does the same with and without the outcome cell, and records only the outcomes
  \<open>blocked\<close> and \<open>noop\<close> in it.
\<close>

definition recorded_outcomes :: "string set" where
  "recorded_outcomes = {''blocked'', ''noop''}"

definition traceable :: "('w ctx, 'a) state \<Rightarrow> bool" where
  "traceable m \<longleftrightarrow> (\<forall>w v. \<exists>a w' v'.
     run_state m \<lparr> world = w, outcome = None \<rparr> = (a, \<lparr> world = w', outcome = None \<rparr>) \<and>
     run_state m \<lparr> world = w, outcome = Some v \<rparr> = (a, \<lparr> world = w', outcome = Some v' \<rparr>) \<and>
     v' \<in> insert v recorded_outcomes)"

named_theorems traceable_intros \<open>compositional rules for traceable\<close>

lemma traceable_in_world [traceable_intros]: "traceable (in_world m)"
  by (auto simp: traceable_def run_in_world split: prod.splits)

lemma traceable_return [traceable_intros]: "traceable (State_Monad.return a)"
  by (simp add: traceable_def)

lemma traceable_set [traceable_intros]: "traceable (SetReconcileOutcome ''blocked'')" "traceable (SetReconcileOutcome ''noop'')"
  by (simp_all add: traceable_def recorded_outcomes_def)

lemma traceable_bind [traceable_intros]:
  assumes "traceable m" "\<And>a. traceable (k a)"
  shows "traceable (State_Monad.bind m k)"
  unfolding traceable_def
proof (intro allI)
  fix w v
  obtain a w1 v1 where m: "run_state m \<lparr> world = w, outcome = None \<rparr> = (a, \<lparr> world = w1, outcome = None \<rparr>)"
    "run_state m \<lparr> world = w, outcome = Some v \<rparr> = (a, \<lparr> world = w1, outcome = Some v1 \<rparr>)" "v1 \<in> insert v recorded_outcomes"
    using assms(1) unfolding traceable_def by blast
  obtain b w2 v2 where k: "run_state (k a) \<lparr> world = w1, outcome = None \<rparr> = (b, \<lparr> world = w2, outcome = None \<rparr>)"
    "run_state (k a) \<lparr> world = w1, outcome = Some v1 \<rparr> = (b, \<lparr> world = w2, outcome = Some v2 \<rparr>)"
    "v2 \<in> insert v1 recorded_outcomes"
    using assms(2)[of a] unfolding traceable_def by blast
  show "\<exists>a w' v'. run_state (State_Monad.bind m k) \<lparr> world = w, outcome = None \<rparr> = (a, \<lparr> world = w', outcome = None \<rparr>) \<and>
     run_state (State_Monad.bind m k) \<lparr> world = w, outcome = Some v \<rparr> = (a, \<lparr> world = w', outcome = Some v' \<rparr>) \<and>
     v' \<in> insert v recorded_outcomes"
    using m k by auto
qed

lemma traceable_cases [traceable_intros]:
  "(b \<Longrightarrow> traceable m) \<Longrightarrow> (\<not> b \<Longrightarrow> traceable n) \<Longrightarrow> traceable (if b then m else n)"
  "(x = None \<Longrightarrow> traceable m) \<Longrightarrow> (\<And>a. x = Some a \<Longrightarrow> traceable (f a)) \<Longrightarrow> traceable (case x of None \<Rightarrow> m | Some a \<Rightarrow> f a)"
  "(\<And>e. y = Inl e \<Longrightarrow> traceable (g e)) \<Longrightarrow> (\<And>a. y = Inr a \<Longrightarrow> traceable (h a)) \<Longrightarrow>
     traceable (case y of Inl e \<Rightarrow> g e | Inr a \<Rightarrow> h a)"
  "(\<And>a b. z = (a, b) \<Longrightarrow> traceable (p a b)) \<Longrightarrow> traceable (case z of (a, b) \<Rightarrow> p a b)"
  by (simp_all split: option.split sum.split prod.split)

lemma traceable_let [traceable_intros]: "(\<And>x. x = a \<Longrightarrow> traceable (f x)) \<Longrightarrow> traceable (let x = a in f x)"
  by simp

lemma traceable_combinators [traceable_intros]:
  "traceable (done_with r)" "traceable (failed_with e)" "traceable (result_of r m)"
  "(\<And>a. traceable (k a)) \<Longrightarrow> traceable (and_then n k)"
  "traceable (run_done rec r)" "traceable (run_failed rec e)"
  "(\<And>e. traceable (h e)) \<Longrightarrow> (\<And>a. traceable (j a)) \<Longrightarrow> traceable (run_with q h j)"
  "(\<And>a. traceable (j a)) \<Longrightarrow> traceable (run_try rec q j)"
  "traceable s \<Longrightarrow> traceable (run_apart rec s)"
  "traceable (run_last rec l)"
  unfolding done_with_def failed_with_def result_of_def and_then_def run_done_def run_failed_def run_try_def run_with_def
    run_apart_def run_last_def
  by (intro traceable_intros | assumption)+

lemma traceable_map_state [traceable_intros]: "traceable m \<Longrightarrow> traceable (map_state f m)"
  unfolding traceable_def run_map_state by (elim all_forward ex_forward) auto

lemma traceable_recovery_steps [traceable_intros]:
  "traceable (block L r recovery reason message)"
  "traceable (fail L r recovery reason message)"
  "traceable (handleRecoveryError L r recovery err)"
  "traceable (recordRecoveryCommitVerified L r recovery)"
  unfolding handleRecoveryError_def block_def fail_def recordRecoveryCommitVerified_def
  by (intro traceable_intros)+

lemma traceable_recovery_moves [traceable_intros]:
  "traceable (preflightRecovery L r m recovery identity)"
  "traceable (startRecovery L r recovery identity)"
  "traceable (commitRecovery L r m recovery identity saUID)"
  "traceable (finalizeRecovery L r m recovery identity)"
  unfolding preflightRecovery_def startRecovery_def commitRecovery_def finalizeRecovery_def
  by (intro traceable_intros)+

lemma traceable_reconcileForward [traceable_intros]: "traceable (reconcileForward L r m recovery)"
  unfolding reconcileForward_def forward_from_target_def advanceRecovery_def
  by (intro traceable_intros)

lemma traceable_Recovery_Reconcile [traceable_intros]: "traceable (Recovery_Reconcile L r request)"
  unfolding Recovery_Reconcile_def reconcile_existing_recovery_def Recovery_reconcileDelete_def
  by (intro traceable_intros)

lemma traceable_identity_steps [traceable_intros]:
  "traceable (release_identity L r identity)"
  "traceable (waitForOIDCIssuer L r identity reason message)"
  "traceable (handleWorkloadIdentityEnsureError L r identity err)"
  "traceable (inspection_failed L r identity err)"
  unfolding release_identity_def waitForOIDCIssuer_def handleWorkloadIdentityEnsureError_def inspection_failed_def
  by (intro traceable_intros)+

lemma traceable_identity_moves [traceable_intros]:
  "traceable (reconcileWorkloadIdentityDelete L r identity)"
  "traceable (handle_inspection_error L r identity err)"
  "traceable (reconcile_with_issuer L r identity issuer m)"
  unfolding reconcileWorkloadIdentityDelete_def handle_inspection_error_def reconcile_with_issuer_def
  by (intro traceable_intros)+

lemma traceable_WorkloadIdentity_Reconcile [traceable_intros]: "traceable (WorkloadIdentity_Reconcile L r request)"
  unfolding WorkloadIdentity_Reconcile_def reconcile_existing_identity_def reconcile_live_identity_def
    blocked_reconcile_def
  by (intro traceable_intros)

lemma traceable_issuer_steps [traceable_intros]:
  "traceable (delete_published L r issuer)" "traceable m \<Longrightarrow> traceable (issuer_blocked m)"
  unfolding delete_published_def release_issuer_def issuer_blocked_def
  by (intro traceable_intros | assumption)+

lemma traceable_Issuer_Reconcile [traceable_intros]: "traceable (Issuer_Reconcile L r name)"
  unfolding Issuer_Reconcile_def reconcile_existing_issuer_def Issuer_reconcileDelete_def identities_checked_def
    check_token_handoff_def check_openshift_handoff_def reconcile_live_issuer_def publish_issuer_def
  by (intro traceable_intros)

end
