(* ===== verification/Telemetry_Runtime.thy ===== *)
theory Telemetry_Runtime
  imports Telemetry
begin

text \<open>
  internal/telemetry/runtime.go and the wrappers of instrumentation.go that depend on it: the process-wide
  tracing runtime, its sampler from the environment, and what is wrapped when it is enabled.  The
  OpenTelemetry SDK is the parameter \<open>otel_sdk\<close>; exporters and resources are opaque.  Numbers are read by
  \<open>strconv.ParseFloat\<close>, a parameter whose result is an IEEE double: \<open>Finite\<close> holds its exact value.
\<close>

section \<open>The sampler\<close>

datatype float64 = NaN | Infinity bool | Finite rat

definition below_zero :: "float64 \<Rightarrow> bool" where
  "below_zero x = (case x of NaN \<Rightarrow> False | Infinity negative \<Rightarrow> negative | Finite q \<Rightarrow> q < 0)"

definition above_one :: "float64 \<Rightarrow> bool" where
  "above_one x = (case x of NaN \<Rightarrow> False | Infinity negative \<Rightarrow> \<not> negative | Finite q \<Rightarrow> q > 1)"

datatype sampler = AlwaysSample | NeverSample | TraceIDRatioBased float64 | ParentBased sampler

definition parentBasedTraceIDRatioSampler :: string where
  "parentBasedTraceIDRatioSampler = ''parentbased_traceidratio''"

text \<open>\<open>getenv\<close> is \<open>os.Getenv\<close>: the empty string when the variable is not set.\<close>

definition samplerFromEnvironment ::
  "(string \<Rightarrow> float64 option) \<Rightarrow> (string \<Rightarrow> string) \<Rightarrow> go_error + sampler" where
  "samplerFromEnvironment ParseFloat getenv =
     (let name = to_lower (trim_space (getenv ''OTEL_TRACES_SAMPLER'')) in
      if name \<in> {'''', ''parentbased_always_on''} then Inr (ParentBased AlwaysSample)
      else if name = ''always_on'' then Inr AlwaysSample
      else if name = ''always_off'' then Inr NeverSample
      else if name = ''parentbased_always_off'' then Inr (ParentBased NeverSample)
      else if name \<in> {''traceidratio'', parentBasedTraceIDRatioSampler}
      then (let invalid = Inl (ErrorString (''OTEL_TRACES_SAMPLER_ARG must be a number from 0 to 1 for '' @ name)) in
        case ParseFloat (trim_space (getenv ''OTEL_TRACES_SAMPLER_ARG'')) of
          None \<Rightarrow> invalid
        | Some ratio \<Rightarrow>
            if below_zero ratio \<or> above_one ratio then invalid
            else if name = parentBasedTraceIDRatioSampler then Inr (ParentBased (TraceIDRatioBased ratio))
            else Inr (TraceIDRatioBased ratio))
      else Inl (ErrorString (''unsupported OTEL_TRACES_SAMPLER value '' @ fmt_q name)))"

text \<open>Both comparisons with NaN are false, so it passes as a ratio.\<close>

lemma nan_ratio_accepted:
  assumes "to_lower (trim_space (getenv ''OTEL_TRACES_SAMPLER'')) = ''traceidratio''"
    and "ParseFloat (trim_space (getenv ''OTEL_TRACES_SAMPLER_ARG'')) = Some NaN"
  shows "samplerFromEnvironment ParseFloat getenv = Inr (TraceIDRatioBased NaN)"
  using assms by (simp add: samplerFromEnvironment_def parentBasedTraceIDRatioSampler_def below_zero_def above_one_def)

section \<open>The runtime\<close>

record telemetry_Config =
  cfg_Enabled :: bool
  cfg_ServiceVersion :: string
  cfg_PodName :: string
  cfg_PodUID :: string
  cfg_PodNamespace :: string

definition InstrumentationName :: string where
  "InstrumentationName = ''github.com/onurmicoogullari/azure-workload-identity-operator''"
definition serviceName :: string where "serviceName = ''azure-workload-identity-operator''"

record batch_options =
  MaxQueueSize :: nat
  MaxExportBatchSize :: nat
  BatchTimeout :: int
  ExportTimeout :: int

definition default_batch_options :: batch_options where
  "default_batch_options = \<lparr> MaxQueueSize = 2048, MaxExportBatchSize = 512,
     BatchTimeout = 5 * second, ExportTimeout = 5 * second \<rparr>"

definition errorLogInterval :: int where "errorLogInterval = minute"

definition valueOrUnknown :: "string \<Rightarrow> string" where
  "valueOrUnknown v = (if v = '''' then ''unknown'' else v)"

definition identity_attributes :: "telemetry_Config \<Rightarrow> (string \<times> string) list" where
  "identity_attributes config =
     [(''service.name'', serviceName), (''service.version'', valueOrUnknown (cfg_ServiceVersion config))] @
     (if cfg_PodUID config \<noteq> ''''
      then [(''service.instance.id'', cfg_PodUID config), (''k8s.pod.uid'', cfg_PodUID config)] else []) @
     (if cfg_PodName config \<noteq> '''' then [(''k8s.pod.name'', cfg_PodName config)] else []) @
     (if cfg_PodNamespace config \<noteq> '''' then [(''k8s.namespace.name'', cfg_PodNamespace config)] else [])"

type_synonym exporter = string
type_synonym trace_resource = string

datatype tracer_provider = NoopProvider | SdkProvider trace_resource sampler exporter batch_options
datatype propagator = TraceContext

text \<open>\<open>rt_azureProvider\<close> is the provider adapted for the Azure SDK; \<open>None\<close> is its zero value.\<close>

record Runtime =
  rt_enabled :: bool
  rt_tracerProvider :: "tracer_provider option"
  rt_sdkTracerProvider :: "tracer_provider option"
  rt_propagator :: "propagator option"
  rt_azureProvider :: "tracer_provider option"

text \<open>
  \<open>SetGlobals\<close> is \<open>otel.SetTracerProvider\<close>, \<open>otel.SetTextMapPropagator\<close> and \<open>otel.SetErrorHandler\<close>.
  \<open>NewResource\<close> merges the environment, the SDK's attributes and, last, the given ones.
\<close>

record 'w otel_sdk =
  NewSpanExporter :: "('w, exporter) ext_io"
  ShutdownExporter :: "exporter \<Rightarrow> ('w, unit) ext_io"
  NewResource :: "(string \<times> string) list \<Rightarrow> ('w, trace_resource) ext_io"
  SetGlobals :: "tracer_provider \<Rightarrow> propagator \<Rightarrow> ('w, unit) state"
  ShutdownProvider :: "tracer_provider \<Rightarrow> ('w, unit) ext_io"

definition disabled_runtime :: Runtime where
  "disabled_runtime = \<lparr> rt_enabled = False, rt_tracerProvider = Some NoopProvider, rt_sdkTracerProvider = None,
     rt_propagator = Some TraceContext, rt_azureProvider = None \<rparr>"

definition enabled_runtime :: "tracer_provider \<Rightarrow> Runtime" where
  "enabled_runtime provider = \<lparr> rt_enabled = True, rt_tracerProvider = Some provider,
     rt_sdkTracerProvider = Some provider, rt_propagator = Some TraceContext, rt_azureProvider = Some provider \<rparr>"

text \<open>\<open>New\<close> returns a runtime beside its error.\<close>

definition New_Runtime :: "(string \<Rightarrow> float64 option) \<Rightarrow> (string \<Rightarrow> string) \<Rightarrow> 'w otel_sdk \<Rightarrow> telemetry_Config \<Rightarrow>
    ('w, Runtime \<times> go_error option) state" where
  "New_Runtime ParseFloat getenv sdk config =
     (let failed = (\<lambda>e. State_Monad.return (disabled_runtime, Some e)) in
      if \<not> cfg_Enabled config then State_Monad.return (disabled_runtime, None)
      else case samplerFromEnvironment ParseFloat getenv of
        Inl err \<Rightarrow> failed err
      | Inr sampler \<Rightarrow> State_Monad.bind (NewSpanExporter sdk) (\<lambda>exported. case exported of
          Inl err \<Rightarrow> failed (WrapError ''configure trace exporter'' (External err))
        | Inr exporter \<Rightarrow> State_Monad.bind (NewResource sdk (identity_attributes config)) (\<lambda>merged. case merged of
            Inl err \<Rightarrow> State_Monad.bind (ShutdownExporter sdk exporter)
              (\<lambda>_. failed (WrapError ''configure trace resource'' (External err)))
          | Inr res \<Rightarrow>
              let provider = SdkProvider res sampler exporter default_batch_options in
              State_Monad.bind (SetGlobals sdk provider TraceContext)
                (\<lambda>_. State_Monad.return (enabled_runtime provider, None)))))"

text \<open>The methods, on a pointer that may be nil.\<close>

definition Enabled :: "Runtime option \<Rightarrow> bool" where
  "Enabled r = (case r of None \<Rightarrow> False | Some rt \<Rightarrow> rt_enabled rt)"

definition TracerProvider :: "Runtime option \<Rightarrow> tracer_provider" where
  "TracerProvider r = (case Option.bind r rt_tracerProvider of None \<Rightarrow> NoopProvider | Some p \<Rightarrow> p)"

definition Propagator :: "Runtime option \<Rightarrow> propagator" where
  "Propagator r = (case Option.bind r rt_propagator of None \<Rightarrow> TraceContext | Some p \<Rightarrow> p)"

definition AzureTracingProvider :: "Runtime option \<Rightarrow> tracer_provider option" where
  "AzureTracingProvider r = (case r of None \<Rightarrow> None | Some rt \<Rightarrow> rt_azureProvider rt)"

definition Shutdown_Runtime :: "'w otel_sdk \<Rightarrow> Runtime option \<Rightarrow> ('w, unit) ext_io" where
  "Shutdown_Runtime sdk r =
     (case Option.bind r rt_sdkTracerProvider of None \<Rightarrow> io_return () | Some p \<Rightarrow> ShutdownProvider sdk p)"

section \<open>What is wrapped\<close>

definition WrapReconciler :: "Runtime option \<Rightarrow> string \<Rightarrow> string \<Rightarrow> 'w reconciler \<Rightarrow> 'w queued" where
  "WrapReconciler r spanName kind delegate =
     (if \<not> Enabled r then plain_Reconcile delegate else traced_Reconcile spanName kind delegate)"

text \<open>A webhook server or a REST configuration, \<open>Traced\<close> when the tracing middleware stands before it.\<close>

datatype 'a wrapped = Plain 'a | Traced tracer_provider propagator 'a

definition WrapWebhookServer :: "Runtime option \<Rightarrow> 'a option \<Rightarrow> 'a wrapped option" where
  "WrapWebhookServer r server =
     (if \<not> Enabled r then map_option Plain server
      else map_option (Traced (TracerProvider r) (Propagator r)) server)"

definition WrapRESTConfig :: "Runtime option \<Rightarrow> 'a option \<Rightarrow> 'a wrapped option" where
  "WrapRESTConfig r config =
     (if \<not> Enabled r then map_option Plain config
      else map_option (Traced (TracerProvider r) (Propagator r)) config)"

section \<open>Webhook handlers\<close>

text \<open>
  What a request's context carries that the code reads or sets: the valid span's trace and span identifiers, if any,
  and the fields of the logger.
\<close>

record request_ctx =
  rc_SpanContext :: "(string \<times> string) option"
  rc_LogFields :: "(string \<times> string) list"

definition ContextWithTraceLogger :: "request_ctx \<Rightarrow> request_ctx" where
  "ContextWithTraceLogger ctx =
     (case rc_SpanContext ctx of
        None \<Rightarrow> ctx
      | Some (trace, span) \<Rightarrow>
          ctx\<lparr>rc_LogFields := rc_LogFields ctx @ [(''trace_id'', trace), (''span_id'', span)]\<rparr>)"

type_synonym ('w, 'q, 'a) handler = "request_ctx \<Rightarrow> 'q \<Rightarrow> ('w, 'a) state"

text \<open>
  A registered handler: an admission webhook, whose \<open>ServeHTTP\<close> decodes the request for its own handler, or any
  other.  \<open>otel\<close> is \<open>otelhttp.NewHandler\<close>, which serves through the handler under a new span.
\<close>

datatype ('w, 'q, 'a) http_handler =
    AdmissionWebhook "('w, 'q, 'a) handler \<Rightarrow> ('w, 'q, 'a) handler" "('w, 'q, 'a) handler"
  | OtherHandler "('w, 'q, 'a) handler"

fun ServeHTTP :: "('w, 'q, 'a) http_handler \<Rightarrow> ('w, 'q, 'a) handler" where
  "ServeHTTP (AdmissionWebhook serve delegate) = serve delegate"
| "ServeHTTP (OtherHandler h) = h"

fun with_trace_logger :: "('w, 'q, 'a) http_handler \<Rightarrow> ('w, 'q, 'a) http_handler" where
  "with_trace_logger (AdmissionWebhook serve delegate) =
     AdmissionWebhook serve (\<lambda>ctx request. delegate (ContextWithTraceLogger ctx) request)"
| "with_trace_logger (OtherHandler h) = OtherHandler h"

definition correlated :: "('w, 'q, 'a) http_handler \<Rightarrow> ('w, 'q, 'a) handler" where
  "correlated h = (\<lambda>ctx request. ServeHTTP h (ContextWithTraceLogger ctx) request)"

definition instrumented_Register ::
  "(string \<Rightarrow> ('w, 'q, 'a) handler \<Rightarrow> ('w, 'q, 'a) handler) \<Rightarrow> (string \<Rightarrow> ('w, 'q, 'a) http_handler \<Rightarrow> 'r) \<Rightarrow>
     string \<Rightarrow> ('w, 'q, 'a) http_handler \<Rightarrow> 'r" where
  "instrumented_Register otel register_at path h =
     register_at path (OtherHandler (otel (''admission '' @ path) (correlated (with_trace_logger h))))"

text \<open>A handler that only logs through its context answers as it does without the trace fields.\<close>

definition log_independent :: "('w, 'q, 'a) handler \<Rightarrow> bool" where
  "log_independent h \<longleftrightarrow> (\<forall>ctx fields request. h (ctx\<lparr>rc_LogFields := fields\<rparr>) request = h ctx request)"

lemma log_independent_trace: "log_independent h \<Longrightarrow> h (ContextWithTraceLogger ctx) request = h ctx request"
  by (auto simp: log_independent_def ContextWithTraceLogger_def split: option.split prod.split)

lemma log_independent_traced: "log_independent h \<Longrightarrow> (\<lambda>ctx. h (ContextWithTraceLogger ctx)) = h"
  by (intro ext log_independent_trace)

lemma correlated_neutral:
  "log_independent h \<Longrightarrow> correlated (with_trace_logger (OtherHandler h)) = h"
  "log_independent delegate \<Longrightarrow> log_independent (serve delegate) \<Longrightarrow>
     correlated (with_trace_logger (AdmissionWebhook serve delegate)) = serve delegate"
  by (simp_all add: correlated_def log_independent_traced)

section \<open>The exporter's error log\<close>

text \<open>
  One call of \<open>Handle\<close>: the two readings of the clock, the time of the last line (\<open>None\<close>, Go's zero time,
  is more than any interval ago), and whether the error is logged.
\<close>

definition Handle_error :: "time \<Rightarrow> time \<Rightarrow> time option \<Rightarrow> bool \<times> time option" where
  "Handle_error read noted lastTime =
     (if (case lastTime of None \<Rightarrow> False | Some t \<Rightarrow> read - t < errorLogInterval) then (False, lastTime)
      else (True, Some noted))"

fun handle_errors :: "(time \<times> time) list \<Rightarrow> time option \<Rightarrow> time list" where
  "handle_errors [] lastTime = []"
| "handle_errors ((read, noted) # cs) lastTime =
     (case Handle_error read noted lastTime of (logged, lastTime) \<Rightarrow>
        (if logged then [noted] else []) @ handle_errors cs lastTime)"

text \<open>With a clock that does not go back, two lines are at least the interval apart.\<close>

fun clock_from :: "time \<Rightarrow> (time \<times> time) list \<Rightarrow> bool" where
  "clock_from t [] \<longleftrightarrow> True"
| "clock_from t ((read, noted) # cs) \<longleftrightarrow> t \<le> read \<and> read \<le> noted \<and> clock_from noted cs"

lemma handle_errors_after:
  "clock_from t cs \<Longrightarrow> x \<in> set (handle_errors cs (Some t0)) \<Longrightarrow> t0 + errorLogInterval \<le> x"
proof (induction cs arbitrary: t t0)
  case (Cons c cs)
  obtain read noted where c: "c = (read, noted)" by fastforce
  consider "read - t0 < errorLogInterval" "x \<in> set (handle_errors cs (Some t0))"
    | "errorLogInterval \<le> read - t0" "x = noted" | "errorLogInterval \<le> read - t0" "x \<in> set (handle_errors cs (Some noted))"
    using Cons.prems(2) by (auto simp: c Handle_error_def split: if_splits)
  then show ?case
    using Cons.prems(1) Cons.IH[of noted t0] Cons.IH[of noted noted]
    by cases (auto simp: c errorLogInterval_def minute_def second_def)
qed simp

lemma handle_errors_spaced:
  "clock_from t cs \<Longrightarrow> sorted_wrt (\<lambda>a b. a + errorLogInterval \<le> b) (handle_errors cs lastTime)"
proof (induction cs arbitrary: t lastTime)
  case (Cons c cs)
  then show ?case by (cases c) (auto simp: Handle_error_def dest: handle_errors_after)
qed simp

section \<open>Transparency\<close>

definition reconcile_outcomes :: "string set" where
  "reconcile_outcomes = {''error'', ''requeue'', ''success''} \<union> recorded_outcomes"

text \<open>
  The wrapped reconciler answers the queue and changes the world as the bare one does, and ends a span
  exactly when tracing is enabled: its last attribute is a bounded outcome, and its errors are the
  reconcile's.
\<close>

definition telemetry_neutral :: "Runtime option \<Rightarrow> string \<Rightarrow> string \<Rightarrow> 'w reconciler \<Rightarrow> NamespacedName \<Rightarrow> 'w \<Rightarrow> bool" where
  "telemetry_neutral r spanName kind delegate request w \<longleftrightarrow>
     (case run_state (WrapReconciler r spanName kind delegate request) w of (((result, err), ended), w') \<Rightarrow>
        run_state (plain_Reconcile delegate request) w = (((result, err), None), w') \<and>
        (case ended of
           None \<Rightarrow> \<not> Enabled r
         | Some s \<Rightarrow> Enabled r \<and> last (span_Attributes s) \<in> {AttrReconcileOutcome} \<times> reconcile_outcomes \<and>
             span_Errors s = (case err of None \<Rightarrow> [] | Some e \<Rightarrow> [e])))"

lemma reconcile_outcome_bounded:
  "recorded \<in> insert '''' recorded_outcomes \<Longrightarrow> reconcile_outcome recorded result err \<in> reconcile_outcomes"
  by (auto simp: reconcile_outcome_def reconcile_outcomes_def)

lemma traceable_neutral:
  assumes "traceable (delegate request)"
  shows "telemetry_neutral r spanName kind delegate request w"
proof -
  obtain a w' v where runs: "run_state (delegate request) \<lparr> world = w, outcome = None \<rparr> = (a, \<lparr> world = w', outcome = None \<rparr>)"
    "run_state (delegate request) \<lparr> world = w, outcome = Some '''' \<rparr> = (a, \<lparr> world = w', outcome = Some v \<rparr>)"
    and v: "v \<in> insert '''' recorded_outcomes"
    using assms unfolding traceable_def by blast
  obtain result err where a: "a = (result, err)" by fastforce
  show ?thesis
    using runs reconcile_outcome_bounded[OF v, of result err]
    by (cases err) (auto simp: a telemetry_neutral_def WrapReconciler_def plain_Reconcile_def traced_Reconcile_def
        SetAttributes_def RecordFailure_def)
qed

text \<open>
  C40. Telemetry never changes what the operator does: for any runtime, wrapping one of the three
  reconcilers leaves its result, its error and its effect on the world as they are without the wrapper, whether
  tracing is enabled or not, and the span's outcome is one of error, requeue, success, blocked and noop.
\<close>

theorem telemetry_transparent:
  "list_all (\<lambda>delegate. telemetry_neutral runtime spanName kind delegate request w)
     [Recovery_Reconcile L recovery_r, WorkloadIdentity_Reconcile L identity_r,
      (\<lambda>request. Issuer_Reconcile L issuer_r (nn_Name request))]"
  by (simp add: traceable_neutral traceable_Recovery_Reconcile traceable_WorkloadIdentity_Reconcile
      traceable_Issuer_Reconcile)

end
