(* ===== verification/Recovery_Service.thy ===== *)
theory Recovery_Service
  imports Recovery_Lifecycle
begin

text \<open>
  The contract \<open>recovery_service\<close> between the recovery reconciler and the recovery manager it calls: a commit or
  finalization that succeeds has brought the managed identity to its stage, and nothing undoes one.  Under it the
  reconciler keeps the status of every recovery true: what the status claims of Azure holds.
\<close>

section \<open>Stored recoveries\<close>

type_synonym 'w recovery_objects = "'w \<Rightarrow> NamespacedName \<Rightarrow> WorkloadIdentityRecovery option"

text \<open>The same object: its UID never changes, and its CRD declares its spec immutable.\<close>

definition same_recovery :: "WorkloadIdentityRecovery \<Rightarrow> WorkloadIdentityRecovery \<Rightarrow> bool" where
  "same_recovery x y \<longleftrightarrow> r_UID x = r_UID y \<and> r_Spec x = r_Spec y"

lemma same_recovery_refl [simp]: "same_recovery x x"
  by (simp add: same_recovery_def)

text \<open>
  \<open>objects_read stored R\<close>: a read of a recovery reports the stored object (a cached client that lags
  behind the server is not covered).
  \<open>objects_written stored C\<close>: a status patch computed from the stored object stores the new status, an update
  leaves UID, spec and status, or (the last finalizer gone) removes the object; a write that fails may or may not
  have been applied.
\<close>

definition objects_read :: "'w recovery_objects \<Rightarrow> 'w Reader \<Rightarrow> bool" where
  "objects_read stored R \<longleftrightarrow>
     (\<forall>k w x w'. run_state (GetWorkloadIdentityRecovery R k) w = (Inr x, w') \<longrightarrow>
        object_key (r_Meta x) = k \<and> stored w k = Some x)"

lemma objects_readD:
  "objects_read stored R \<Longrightarrow> run_state (GetWorkloadIdentityRecovery R k) w = (Inr x, w') \<Longrightarrow>
     object_key (r_Meta x) = k \<and> stored w k = Some x"
  unfolding objects_read_def by blast

definition status_stored :: "'w recovery_objects \<Rightarrow> WorkloadIdentityRecovery \<Rightarrow> WorkloadIdentityRecoveryStatus \<Rightarrow>
    'w \<Rightarrow> 'w \<Rightarrow> bool" where
  "status_stored stored x s w w' \<longleftrightarrow>
     (\<exists>y. same_recovery x y \<and> r_Status y = s \<and> stored w' = (stored w)(object_key (r_Meta x) := Some y))"

definition objects_written :: "'w recovery_objects \<Rightarrow> 'w Cluster \<Rightarrow> bool" where
  "objects_written stored C \<longleftrightarrow>
     (\<forall>x s w res w'. run_state (PatchWorkloadIdentityRecoveryStatus C (x\<lparr>r_Status := s\<rparr>) (MergeFrom x)) w = (res, w') \<longrightarrow>
        stored w (object_key (r_Meta x)) = Some x \<longrightarrow> stored w' = stored w \<or> status_stored stored x s w w') \<and>
     (\<forall>x w res w'. run_state (UpdateWorkloadIdentityRecovery C x) w = (res, w') \<longrightarrow>
        stored w' = stored w \<or> stored w' = (stored w)(object_key (r_Meta x) := None) \<or>
        (\<exists>old. stored w (object_key (r_Meta x)) = Some old \<and>
           (\<exists>y. same_recovery old y \<and> r_Status y = r_Status old \<and>
              stored w' = (stored w)(object_key (r_Meta x) := Some y))))"

section \<open>Truth of a status\<close>

text \<open>What a status claims, and that it is true.\<close>

definition truthful :: "k8s_lib \<Rightarrow> (identityRecoveryStage \<Rightarrow> WorkloadIdentityRecovery \<Rightarrow> 'w \<Rightarrow> bool) \<Rightarrow>
    WorkloadIdentityRecovery \<Rightarrow> 'w \<Rightarrow> bool" where
  "truthful L reached x w \<longleftrightarrow>
     (r_CommitVerified (r_Status x) \<longrightarrow> reached recoveryStageCommittedFenced x w) \<and>
     (condition_true L RecoveryConditionComplete (r_Status x) \<longrightarrow> reached recoveryStageComplete x w)"

text \<open>The CRD requires the UIDs to be set.\<close>

definition named_recovery :: "WorkloadIdentityRecovery \<Rightarrow> bool" where
  "named_recovery x \<longleftrightarrow> r_UID x \<noteq> '''' \<and> ref_UID (r_Ref x) \<noteq> ''''"

definition status_true :: "k8s_lib \<Rightarrow> 'w recovery_objects \<Rightarrow>
    (identityRecoveryStage \<Rightarrow> WorkloadIdentityRecovery \<Rightarrow> 'w \<Rightarrow> bool) \<Rightarrow> NamespacedName \<Rightarrow> 'w \<Rightarrow> bool" where
  "status_true L stored reached key w \<longleftrightarrow> (\<forall>x. stored w key = Some x \<longrightarrow> named_recovery x \<and> truthful L reached x w)"

text \<open>
  The other parties of a reconcile: reads and the writes to other objects touch neither the recoveries nor Azure,
  the writes to recoveries leave Azure alone, and the manager leaves the recoveries alone.
\<close>

definition manager_apart :: "('w \<Rightarrow> bool) \<Rightarrow> 'w recovery_manager \<Rightarrow> bool" where
  "manager_apart I m \<longleftrightarrow>
     (\<forall>x y p u s. preserves I (rm_Inspect m x y u s) \<and> preserves I (rm_MarkInProgress m x y p) \<and>
        preserves I (rm_EnsureFederatedIdentityCredential m x y p) \<and> preserves I (rm_Commit m x y p) \<and>
        preserves I (rm_Finalize m x y p))"

definition recovery_environment :: "'w recovery_objects \<Rightarrow>
    (identityRecoveryStage \<Rightarrow> WorkloadIdentityRecovery \<Rightarrow> 'w \<Rightarrow> bool) \<Rightarrow> 'w RecoveryReconciler \<Rightarrow> bool" where
  "recovery_environment stored reached r \<longleftrightarrow>
     objects_read stored (ClusterReader (rr_Client r)) \<and> objects_read stored (recoveryReader r) \<and>
     objects_written stored (rr_Client r) \<and>
     (\<forall>P. cluster_keeps (\<lambda>w. P (stored w) (\<lambda>s x. reached s x w)) (rr_Client r)
            {PatchesWorkloadIdentityStatus, PatchesServiceAccount} \<and>
          reader_keeps (\<lambda>w. P (stored w) (\<lambda>s x. reached s x w)) (recoveryReader r)) \<and>
     (\<forall>P. cluster_keeps (\<lambda>w. P (\<lambda>s x. reached s x w)) (rr_Client r) {UpdatesRecovery, PatchesRecoveryStatus}) \<and>
     (\<forall>m v. rr_Manager r = Some m \<longrightarrow> manager_apart (\<lambda>w. stored w = v) m)"

text \<open>The recovery \<open>x0\<close> being reconciled, and worlds in which it is what is stored, with a true status.\<close>

definition copy_of :: "WorkloadIdentityRecovery \<Rightarrow> WorkloadIdentityRecovery \<Rightarrow> bool" where
  "copy_of x0 x \<longleftrightarrow> same_recovery x0 x \<and> r_Status x = r_Status x0"

definition reconciled_as :: "NamespacedName \<Rightarrow> WorkloadIdentityRecovery \<Rightarrow> WorkloadIdentityRecovery \<Rightarrow> bool" where
  "reconciled_as key x0 x \<longleftrightarrow> copy_of x0 x \<and> object_key (r_Meta x) = key"

definition stored_as :: "k8s_lib \<Rightarrow> 'w recovery_objects \<Rightarrow>
    (identityRecoveryStage \<Rightarrow> WorkloadIdentityRecovery \<Rightarrow> 'w \<Rightarrow> bool) \<Rightarrow> NamespacedName \<Rightarrow> WorkloadIdentityRecovery \<Rightarrow>
    'w \<Rightarrow> bool" where
  "stored_as L stored reached key x0 w \<longleftrightarrow>
     (\<forall>x. stored w key = Some x \<longrightarrow> copy_of x0 x \<and> truthful L reached x w)"

lemma environmentD:
  assumes "recovery_environment stored reached r"
  shows "objects_read stored (ClusterReader (rr_Client r))" "objects_read stored (recoveryReader r)"
    "objects_written stored (rr_Client r)"
    "cluster_keeps (\<lambda>w. P (stored w) (\<lambda>s x. reached s x w)) (rr_Client r)
       {PatchesWorkloadIdentityStatus, PatchesServiceAccount}"
    "reader_keeps (\<lambda>w. P (stored w) (\<lambda>s x. reached s x w)) (recoveryReader r)"
    "cluster_keeps (\<lambda>w. Q (\<lambda>s x. reached s x w)) (rr_Client r) {UpdatesRecovery, PatchesRecoveryStatus}"
    "rr_Manager r = Some m \<Longrightarrow> manager_apart (\<lambda>w. stored w = v) m"
  using assms by (simp_all add: recovery_environment_def)

text \<open>
  What happens to the recovery \<open>key\<close>: it is reconciled; others act, who may change its metadata, Azure and anything
  else but its status (the WorkloadIdentity reconciler, say, deleting the completed identity); it is deleted; or it is
  created afresh.  A history records, in its second component, the stages that a step of somebody else took back,
  which a reconcile of the recovery leaves as it is.
\<close>

type_synonym stages = "identityRecoveryStage \<Rightarrow> WorkloadIdentityRecovery \<Rightarrow> bool"

definition taken_back :: "(identityRecoveryStage \<Rightarrow> WorkloadIdentityRecovery \<Rightarrow> 'w \<Rightarrow> bool) \<Rightarrow>
    'w \<Rightarrow> 'w \<Rightarrow> stages \<Rightarrow> stages" where
  "taken_back reached w w' undone = (\<lambda>s x. undone s x \<or> (reached s x w \<and> \<not> reached s x w'))"

inductive recovery_act :: "k8s_lib \<Rightarrow> 'w RecoveryReconciler \<Rightarrow> 'w recovery_objects \<Rightarrow>
    (identityRecoveryStage \<Rightarrow> WorkloadIdentityRecovery \<Rightarrow> 'w \<Rightarrow> bool) \<Rightarrow> NamespacedName \<Rightarrow>
    'w \<times> stages \<Rightarrow> 'w \<times> stages \<Rightarrow> bool"
  for L :: k8s_lib and r :: "'w RecoveryReconciler" and stored :: "'w recovery_objects"
    and reached :: "identityRecoveryStage \<Rightarrow> WorkloadIdentityRecovery \<Rightarrow> 'w \<Rightarrow> bool" and key :: NamespacedName
where
  act_reconcile:
    "run_state (Recovery_Reconcile L r key) \<lparr> world = w, outcome = tracing \<rparr> = (res, c) \<Longrightarrow>
       recovery_act L r stored reached key (w, U) (world c, U)"
| act_other:
    "rel_option (\<lambda>x x'. same_recovery x x' \<and> r_Status x' = r_Status x) (stored w key) (stored w' key) \<Longrightarrow>
       recovery_act L r stored reached key (w, U) (w', taken_back reached w w' U)"
| act_deleted: "stored w' key = None \<Longrightarrow>
    recovery_act L r stored reached key (w, U) (w', taken_back reached w w' U)"
| act_created: "stored w key = None \<Longrightarrow> stored w' key = Some x \<Longrightarrow> named_recovery x \<Longrightarrow> fresh_status L (r_Status x) \<Longrightarrow>
    recovery_act L r stored reached key (w, U) (w', taken_back reached w w' U)"

text \<open>A stage that was reached, or taken back; and what the latter depends on of a recovery.\<close>

definition reached_or :: "(identityRecoveryStage \<Rightarrow> WorkloadIdentityRecovery \<Rightarrow> 'w \<Rightarrow> bool) \<Rightarrow> stages \<Rightarrow>
    identityRecoveryStage \<Rightarrow> WorkloadIdentityRecovery \<Rightarrow> 'w \<Rightarrow> bool" where
  "reached_or reached U s x w \<longleftrightarrow> reached s x w \<or> U s x"

definition per_recovery :: "stages \<Rightarrow> bool" where
  "per_recovery U \<longleftrightarrow> (\<forall>s x y. same_recovery x y \<longrightarrow> r_Plan (r_Status x) = r_Plan (r_Status y) \<longrightarrow> U s x = U s y)"

section \<open>The contract\<close>

text \<open>
  \<open>reached s x\<close>: the managed identity of the plan recorded for \<open>x\<close> is in the stage \<open>s\<close> of the recovery \<open>x\<close>, or
  beyond it.  A successful commit or finalization establishes its stage, and no call for the recovery undoes one.
\<close>

definition recovered_by :: "WorkloadIdentityRecovery \<Rightarrow> WorkloadIdentity \<Rightarrow> bool" where
  "recovered_by x y \<longleftrightarrow> recovery_target x y \<and> wi_UID y = ref_UID (r_Ref x)"

locale recovery_service =
  fixes M :: "'w recovery_manager"
    and reached :: "identityRecoveryStage \<Rightarrow> WorkloadIdentityRecovery \<Rightarrow> 'w \<Rightarrow> bool"
  assumes commit_reaches: "recovered_by x y \<Longrightarrow> run_state (rm_Commit M x y (r_Plan (r_Status x))) w = (Inr u, w') \<Longrightarrow>
      reached recoveryStageCommittedFenced x w'"
    and finalize_reaches: "recovered_by x y \<Longrightarrow> run_state (rm_Finalize M x y (r_Plan (r_Status x))) w = (Inr u, w') \<Longrightarrow>
      reached recoveryStageComplete x w'"
    and inspect_keeps: "recovered_by x y \<Longrightarrow> preserves (reached s x) (rm_Inspect M x y url subject)"
    and operations_keep: "recovered_by x y \<Longrightarrow> preserves (reached s x) (rm_MarkInProgress M x y (r_Plan (r_Status x)))"
      "recovered_by x y \<Longrightarrow> preserves (reached s x) (rm_EnsureFederatedIdentityCredential M x y (r_Plan (r_Status x)))"
      "recovered_by x y \<Longrightarrow> preserves (reached s x) (rm_Commit M x y (r_Plan (r_Status x)))"
      "recovered_by x y \<Longrightarrow> preserves (reached s x) (rm_Finalize M x y (r_Plan (r_Status x)))"
    and reached_by_instance: "same_recovery x x' \<Longrightarrow> r_Plan (r_Status x) = r_Plan (r_Status x') \<Longrightarrow>
      reached s x w = reached s x' w"
begin

lemma truthful_same:
  assumes "same_recovery x y" and "r_Status y = r_Status x"
  shows "truthful L reached x w = truthful L reached y w"
  using reached_by_instance[OF assms(1)] assms(2) by (simp add: truthful_def)

lemma reached_as:
  "copy_of x0 x \<Longrightarrow> reached s x w = reached s x0 w"
  using reached_by_instance[of x0 x s w] by (simp add: copy_of_def)

text \<open>A call that leaves the stored recoveries and the stages reached by \<open>x0\<close> alone.\<close>

lemma stored_as_keeps:
  assumes apart: "\<And>v. preserves (\<lambda>w. stored w = v) m" and stages: "\<And>s. preserves (reached s x0) m"
  shows "preserves (stored_as L stored reached key x0) m"
  unfolding preserves_def
proof (intro allI impI)
  fix w assume w: "stored_as L stored reached key x0 w"
  obtain a w' where run: "run_state m w = (a, w')" by fastforce
  have "stored w' = stored w" using preservesD[OF apart refl run] by simp
  moreover have "reached s x0 w \<Longrightarrow> reached s x0 w'" for s using preservesD[OF stages _ run] by blast
  ultimately show "stored_as L stored reached key x0 (snd (run_state m w))"
    using w run reached_as[of x0] by (auto simp: stored_as_def truthful_def)
qed

lemma stored_as_grants:
  assumes apart: "\<And>v. preserves (\<lambda>w. stored w = v) m" and stages: "\<And>s. preserves (reached s x0) m"
    and succeeds: "\<And>w u w'. run_state m w = (Inr u, w') \<Longrightarrow> reached s x0 w'"
  shows "grants (stored_as L stored reached key x0)
    (\<lambda>w. stored_as L stored reached key x0 w \<and> reached s x0 w) m"
  unfolding grants_def
proof (intro allI impI)
  fix w a w' assume "stored_as L stored reached key x0 w" and run: "run_state m w = (a, w')"
  then have "stored_as L stored reached key x0 w'"
    using preservesD[OF stored_as_keeps[OF apart stages]] by blast
  then show "case a of Inl e \<Rightarrow> stored_as L stored reached key x0 w'
      | Inr u \<Rightarrow> stored_as L stored reached key x0 w' \<and> reached s x0 w'"
    using succeeds run by (cases a) auto
qed

lemma service_flows:
  fixes key :: NamespacedName and L :: k8s_lib
  assumes env: "recovery_environment stored reached r" and m: "rr_Manager r = Some M" and named: "named_recovery x0"
  defines "I \<equiv> stored_as L stored reached key x0"
  shows "manager_flows L (reconciled_as key x0) I (\<lambda>w. I w \<and> reached recoveryStageCommittedFenced x0 w)
    (\<lambda>w. I w \<and> reached recoveryStageComplete x0 w) M s"
  unfolding manager_flows_def
proof (intro allI impI, elim conjE)
  fix x y p assume x: "reconciled_as key x0 x" and valid: "validateRecoveryControllerTarget L x y = None"
    and p: "p = r_Plan (r_Status x)"
  have about: "recovered_by x y"
    using named x valid by (auto simp: recovered_by_def recovery_target_def named_recovery_def reconciled_as_def copy_of_def
        same_recovery_def validateRecoveryControllerTarget_def split: if_splits)
  have same: "reached t x = reached t x0" for t using x reached_as unfolding reconciled_as_def by blast
  note apart = environmentD(7)[OF env m, unfolded manager_apart_def, rule_format]
  note keeps = inspect_keeps[OF about, unfolded same] operations_keep[OF about, unfolded same]
  note granted = commit_reaches[OF about, unfolded same] finalize_reaches[OF about, unfolded same]
  have "preserves I (rm_Inspect M x y u v)" for u v
    unfolding I_def by (rule stored_as_keeps) (use apart keeps in blast)+
  moreover have "preserves I (rm_MarkInProgress M x y p)" "preserves I (rm_EnsureFederatedIdentityCredential M x y p)"
    unfolding I_def p by (rule stored_as_keeps; use apart keeps in blast)+
  moreover have "grants I (\<lambda>w. I w \<and> reached recoveryStageCommittedFenced x0 w) (rm_Commit M x y p)"
    "grants I (\<lambda>w. I w \<and> reached recoveryStageComplete x0 w) (rm_Finalize M x y p)"
    unfolding I_def p by (rule stored_as_grants; use apart keeps granted in blast)+
  ultimately show "(allowed_call s InspectsAzure \<longrightarrow> (\<forall>u v. preserves I (rm_Inspect M x y u v))) \<and>
        (mutating s \<longrightarrow> preserves I (rm_MarkInProgress M x y p) \<and>
           preserves I (rm_EnsureFederatedIdentityCredential M x y p) \<and>
           grants I (\<lambda>w. I w \<and> reached recoveryStageCommittedFenced x0 w) (rm_Commit M x y p)) \<and>
        (allowed_call s FinalizesAzure \<longrightarrow>
           grants I (\<lambda>w. I w \<and> reached recoveryStageComplete x0 w) (rm_Finalize M x y p))"
    by blast
qed

text \<open>A status patch of a permitted kind leaves a true status, given what it records.\<close>

lemma recorded_true:
  assumes laws: "condition_laws L" and k: "allowed_write L (r_Status x0) k" and step: "recovery_status_step L k (r_Status x0) s"
    and x0: "truthful L reached x0 w" and y: "same_recovery x0 y" "r_Status y = s"
    and records: "k = WriteCommitVerified \<Longrightarrow> reached recoveryStageCommittedFenced x0 w"
      "k = WriteComplete \<Longrightarrow> reached recoveryStageComplete x0 w"
  shows "truthful L reached y w"
proof -
  note flags = step_flags[OF step]
  have complete: "condition_true L RecoveryConditionComplete s \<longleftrightarrow> k = WriteComplete"
    using step_conditions[OF laws step] k by (auto simp: condition_row_def allowed_write_def)
  show ?thesis
  proof (cases "k = WritePreflight")
    case True
    then show ?thesis using flags complete k y by (simp add: truthful_def allowed_write_def)
  next
    case False
    then have "reached t x0 w = reached t y w" for t
      using reached_by_instance[OF y(1)] flags(3) y(2) by simp
    then show ?thesis using flags complete records x0 y by (auto simp: truthful_def)
  qed
qed

text \<open>A call that changes neither the recoveries nor the stages.\<close>

lemma run_unchanged:
  assumes "\<forall>P. preserves (\<lambda>w. P (stored w) (\<lambda>s x. reached s x w)) m" and "run_state m w = (a, v)"
  shows "stored v = stored w" and "reached s x v = reached s x w"
proof -
  have "(\<lambda>p q. p = stored w \<and> q = (\<lambda>s x. reached s x w)) (stored v) (\<lambda>s x. reached s x v)"
    by (rule preservesD[OF assms(1)[rule_format] _ assms(2)]) simp
  then show "stored v = stored w" and "reached s x v = reached s x w" by (auto simp: fun_eq_iff)
qed

lemma stored_as_true:
  assumes "named_recovery x0" and "stored_as L stored reached key x0 w" and "stored v key = stored w key"
    and "\<And>s x. reached s x v = reached s x w"
  shows "status_true L stored reached key v"
  using assms by (auto simp: stored_as_def status_true_def truthful_def copy_of_def same_recovery_def
      named_recovery_def)

lemma stored_patch_true:
  assumes laws: "condition_laws L" and env: "recovery_environment stored reached r" and named: "named_recovery x0"
    and k: "allowed_write L (r_Status x0) k" and step: "recovery_status_step L k (r_Status x) s"
    and I: "stored_as L stored reached key x0 w" and x: "stored w (object_key (r_Meta x)) = Some x"
    and records: "k = WriteCommitVerified \<Longrightarrow> reached recoveryStageCommittedFenced x0 w"
      "k = WriteComplete \<Longrightarrow> reached recoveryStageComplete x0 w"
    and run: "run_state (PatchWorkloadIdentityRecoveryStatus (rr_Client r) (x\<lparr>r_Status := s\<rparr>) (MergeFrom x)) w = (p, v)"
  shows "status_true L stored reached key v"
proof -
  have stages: "reached t y v = reached t y w" for t y
  proof -
    have "preserves (\<lambda>v. (\<lambda>s x. reached s x v) = (\<lambda>s x. reached s x w)) (PatchWorkloadIdentityRecoveryStatus (rr_Client r) y q)" for y q
      using cluster_keeps_write[OF environmentD(6)[OF env, of "\<lambda>b. b = (\<lambda>s x. reached s x w)"], of PatchesRecoveryStatus] by simp
    from preservesD[OF this refl run] show ?thesis by (simp add: fun_eq_iff)
  qed
  consider (same) "stored v key = stored w key"
    | (new) y where "same_recovery x y" "r_Status y = s" "object_key (r_Meta x) = key" "stored v key = Some y"
  proof -
    have "stored v = stored w \<or> status_stored stored x s w v"
      using environmentD(3)[OF env] run x by (auto simp: objects_written_def)
    then show thesis using that by (cases "object_key (r_Meta x) = key") (auto simp: status_stored_def)
  qed
  then show ?thesis
  proof cases
    case same
    then show ?thesis using stored_as_true[OF named I _ stages] by blast
  next
    case (new y)
    have now: "copy_of x0 x" "truthful L reached x w" using I x new by (auto simp: stored_as_def)
    then have "truthful L reached x0 w"
      using reached_as[OF now(1)] by (simp add: truthful_def copy_of_def)
    then have "truthful L reached y w"
      using recorded_true[OF laws k _ _ _ new(2) records] step new(1) now(1) by (auto simp: copy_of_def same_recovery_def)
    then show ?thesis
      using new named now stages
      by (auto simp: status_true_def named_recovery_def copy_of_def same_recovery_def truthful_def)
  qed
qed

lemma patch_true:
  fixes key :: NamespacedName
  assumes laws: "condition_laws L" and env: "recovery_environment stored reached r" and named: "named_recovery x0"
    and k: "allowed_write L (r_Status x0) k"
    and mut: "\<And>g t v w. \<exists>s w'. run_state (mutate (stamped g t v)) w = (s, w') \<and>
      recovery_status_step L k v s \<and> stored w' = stored w \<and> (\<forall>s x. reached s x w' = reached s x w)"
  defines "I \<equiv> stored_as L stored reached key x0"
  shows "leads (patched_from I (\<lambda>w. I w \<and> reached recoveryStageCommittedFenced x0 w)
      (\<lambda>w. I w \<and> reached recoveryStageComplete x0 w) k)
    (status_true L stored reached key) (patchRecoveryStatus r recovery mutate)"
  unfolding leads_def
proof (intro allI impI)
  fix w assume "patched_from I (\<lambda>w. I w \<and> reached recoveryStageCommittedFenced x0 w)
      (\<lambda>w. I w \<and> reached recoveryStageComplete x0 w) k w"
  then have I: "stored_as L stored reached key x0 w"
    and records: "k = WriteCommitVerified \<Longrightarrow> reached recoveryStageCommittedFenced x0 w"
      "k = WriteComplete \<Longrightarrow> reached recoveryStageComplete x0 w"
    by (auto simp: patched_from_def I_def split: status_write.splits)
  note reads = environmentD(4)[OF env, unfolded cluster_keeps_def]
  obtain got w1 where get: "run_state (GetWorkloadIdentityRecovery (ClusterReader (rr_Client r))
      (object_key (r_Meta recovery))) w = (got, w1)" by fastforce
  have "\<forall>P. preserves (\<lambda>w. P (stored w) (\<lambda>s x. reached s x w))
      (GetWorkloadIdentityRecovery (ClusterReader (rr_Client r)) (object_key (r_Meta recovery)))"
    using reads by (simp add: reader_keepsD)
  note w1 = run_unchanged[OF this get]
  show "status_true L stored reached key (snd (run_state (patchRecoveryStatus r recovery mutate) w))"
  proof (cases got)
    case (Inl e)
    then show ?thesis using get stored_as_true[OF named I, of w1] w1 by (simp add: patchRecoveryStatus_def run_simps)
  next
    case (Inr x)
    have x: "stored w (object_key (r_Meta x)) = Some x"
      using objects_readD[OF environmentD(1)[OF env] get[unfolded Inr]] by simp
    obtain t w2 where now: "run_state (Now (rr_Client r)) w1 = (t, w2)" by fastforce
    have "\<forall>P. preserves (\<lambda>w. P (stored w) (\<lambda>s x. reached s x w)) (Now (rr_Client r))"
      using reads by simp
    note w2 = run_unchanged[OF this now]
    obtain s w3 where m: "run_state (mutate (stamped (Generation (r_Meta x)) t (r_Status x))) w2 = (s, w3)"
      and step: "recovery_status_step L k (r_Status x) s" and w3: "stored w3 = stored w2" "\<forall>s x. reached s x w3 = reached s x w2"
      using mut by blast
    obtain p w4 where patch: "run_state (PatchWorkloadIdentityRecoveryStatus (rr_Client r)
        (x\<lparr>r_Status := s\<rparr>) (MergeFrom x)) w3 = (p, w4)" by fastforce
    have "stored_as L stored reached key x0 w3" using I w1 w2 w3 by (simp add: stored_as_def truthful_def)
    from stored_patch_true[OF laws env named k step this _ _ _ patch] x w1 w2 w3 records
    have "status_true L stored reached key w4" by auto
    moreover have "snd (run_state (patchRecoveryStatus r recovery mutate) w) = w4"
      using get now m patch Inr by (auto simp: patchRecoveryStatus_def run_simps stamped_def split: sum.split)
    ultimately show ?thesis by simp
  qed
qed

lemma patches_true:
  fixes key :: NamespacedName
  assumes laws: "condition_laws L" and env: "recovery_environment stored reached r" and named: "named_recovery x0"
  defines "I \<equiv> stored_as L stored reached key x0"
  shows "status_patches_lead L (patched_from I (\<lambda>w. I w \<and> reached recoveryStageCommittedFenced x0 w)
      (\<lambda>w. I w \<and> reached recoveryStageComplete x0 w)) (status_true L stored reached key) r (r_Status x0)"
  unfolding status_patches_lead_def I_def
proof (intro allI impI conjI)
  fix k recovery f assume "allowed_write L (r_Status x0) k" "writes_kind L k f"
  then show "leads (patched_from (stored_as L stored reached key x0)
      (\<lambda>w. stored_as L stored reached key x0 w \<and> reached recoveryStageCommittedFenced x0 w)
      (\<lambda>w. stored_as L stored reached key x0 w \<and> reached recoveryStageComplete x0 w) k)
    (status_true L stored reached key) (patchRecoveryStatus r recovery (\<lambda>status. State_Monad.return (f status)))"
    by (intro patch_true[OF laws env named]) (auto simp: writes_kind_def)
next
  fix k recovery
  fix f :: "time \<Rightarrow> WorkloadIdentityRecoveryStatus \<Rightarrow> WorkloadIdentityRecoveryStatus"
  assume k: "allowed_write L (r_Status x0) k" "\<forall>now. writes_kind L k (f now)"
  show "leads (patched_from (stored_as L stored reached key x0)
      (\<lambda>w. stored_as L stored reached key x0 w \<and> reached recoveryStageCommittedFenced x0 w)
      (\<lambda>w. stored_as L stored reached key x0 w \<and> reached recoveryStageComplete x0 w) k)
    (status_true L stored reached key) (patchRecoveryStatus r recovery
      (\<lambda>status. State_Monad.bind (Now (rr_Client r)) (\<lambda>now. State_Monad.return (f now status))))"
  proof (rule patch_true[OF laws env named k(1)])
    fix g t v w
    obtain n w' where now: "run_state (Now (rr_Client r)) w = (n, w')" by fastforce
    have "\<forall>P. preserves (\<lambda>w. P (stored w) (\<lambda>s x. reached s x w)) (Now (rr_Client r))"
      using environmentD(4)[OF env, unfolded cluster_keeps_def] by simp
    from k(2) now run_unchanged[OF this now]
    show "\<exists>s w'. run_state (State_Monad.bind (Now (rr_Client r))
        (\<lambda>now. State_Monad.return (f now (stamped g t v)))) w = (s, w') \<and>
      recovery_status_step L k v s \<and> stored w' = stored w \<and> (\<forall>s x. reached s x w' = reached s x w)"
      by (auto simp: run_simps writes_kind_def)
  qed
qed

text \<open>Whether the finalizer is added or removed, the status stays true.\<close>

lemma update_moves:
  assumes env: "recovery_environment stored reached r" and run: "run_state (UpdateWorkloadIdentityRecovery (rr_Client r) x) w = (a, v)"
  shows "reached t y v = reached t y w"
    and "stored v key = Some y \<Longrightarrow> \<exists>old. stored w key = Some old \<and> copy_of old y"
proof -
  have "preserves (\<lambda>v. (\<lambda>s x. reached s x v) = (\<lambda>s x. reached s x w)) (UpdateWorkloadIdentityRecovery (rr_Client r) x)"
    using cluster_keeps_write[OF environmentD(6)[OF env, of "\<lambda>b. b = (\<lambda>s x. reached s x w)"], of UpdatesRecovery] by simp
  from preservesD[OF this refl run] show "reached t y v = reached t y w" by (simp add: fun_eq_iff)
  have "stored v = stored w \<or> stored v = (stored w)(object_key (r_Meta x) := None) \<or>
      (\<exists>old. stored w (object_key (r_Meta x)) = Some old \<and>
         (\<exists>z. same_recovery old z \<and> r_Status z = r_Status old \<and> stored v = (stored w)(object_key (r_Meta x) := Some z)))"
    using environmentD(3)[OF env, unfolded objects_written_def] run by blast
  then show "\<exists>old. stored w key = Some old \<and> copy_of old y" if "stored v key = Some y"
    using that by (cases "key = object_key (r_Meta x)") (auto simp: copy_of_def)
qed

lemma update_keeps_true:
  assumes env: "recovery_environment stored reached r"
  shows "preserves (stored_as L stored reached key x0) (UpdateWorkloadIdentityRecovery (rr_Client r) x)"
    and "preserves (status_true L stored reached key) (UpdateWorkloadIdentityRecovery (rr_Client r) x)"
proof -
  have kept: "truthful L reached y v \<and> copy_of x0 y" if "copy_of x0 old" "copy_of old y" "truthful L reached old w"
      "\<And>t y. reached t y v = reached t y w" for old y v w
    using that truthful_same[of old y L w] by (simp add: copy_of_def same_recovery_def truthful_def)
  show "preserves (stored_as L stored reached key x0) (UpdateWorkloadIdentityRecovery (rr_Client r) x)"
    unfolding preserves_def
  proof (intro allI impI)
    fix w assume w: "stored_as L stored reached key x0 w"
    obtain a v where run: "run_state (UpdateWorkloadIdentityRecovery (rr_Client r) x) w = (a, v)" by fastforce
    have "copy_of x0 y \<and> truthful L reached y v" if "stored v key = Some y" for y
      using update_moves(2)[OF env run that] w kept update_moves(1)[OF env run] unfolding stored_as_def by metis
    then show "stored_as L stored reached key x0 (snd (run_state (UpdateWorkloadIdentityRecovery (rr_Client r) x) w))"
      by (simp add: run stored_as_def)
  qed
  show "preserves (status_true L stored reached key) (UpdateWorkloadIdentityRecovery (rr_Client r) x)"
    unfolding preserves_def
  proof (intro allI impI)
    fix w assume w: "status_true L stored reached key w"
    obtain a v where run: "run_state (UpdateWorkloadIdentityRecovery (rr_Client r) x) w = (a, v)" by fastforce
    have "named_recovery y \<and> truthful L reached y v" if "stored v key = Some y" for y
    proof -
      from update_moves(2)[OF env run that] obtain old where old: "stored w key = Some old" "copy_of old y" by blast
      then have "named_recovery old" "truthful L reached old w" using w by (simp_all add: status_true_def)
      then show ?thesis
        using old(2) truthful_same[of old y L w] update_moves(1)[OF env run]
        by (simp add: copy_of_def same_recovery_def truthful_def named_recovery_def)
    qed
    then show "status_true L stored reached key (snd (run_state (UpdateWorkloadIdentityRecovery (rr_Client r) x) w))"
      by (simp add: run status_true_def)
  qed
qed

text \<open>The calls on other objects.\<close>

lemma apart_keeps:
  assumes env: "recovery_environment stored reached r"
  shows "cluster_keeps (stored_as L stored reached key x0) (rr_Client r) {PatchesWorkloadIdentityStatus, PatchesServiceAccount}"
    and "reader_keeps (stored_as L stored reached key x0) (recoveryReader r)"
    and "cluster_keeps (status_true L stored reached key) (rr_Client r) {PatchesWorkloadIdentityStatus, PatchesServiceAccount}"
    and "reader_keeps (status_true L stored reached key) (recoveryReader r)"
proof -
  note apart = environmentD(4,5)[OF env]
  show "cluster_keeps (stored_as L stored reached key x0) (rr_Client r) {PatchesWorkloadIdentityStatus, PatchesServiceAccount}"
    "reader_keeps (stored_as L stored reached key x0) (recoveryReader r)"
    using apart[of "\<lambda>a b. \<forall>x. a key = Some x \<longrightarrow> copy_of x0 x \<and>
       (r_CommitVerified (r_Status x) \<longrightarrow> b recoveryStageCommittedFenced x) \<and>
       (condition_true L RecoveryConditionComplete (r_Status x) \<longrightarrow> b recoveryStageComplete x)"]
    unfolding stored_as_def[abs_def] truthful_def[abs_def] by blast+
  show "cluster_keeps (status_true L stored reached key) (rr_Client r) {PatchesWorkloadIdentityStatus, PatchesServiceAccount}"
    "reader_keeps (status_true L stored reached key) (recoveryReader r)"
    using apart[of "\<lambda>a b. \<forall>x. a key = Some x \<longrightarrow> named_recovery x \<and>
       (r_CommitVerified (r_Status x) \<longrightarrow> b recoveryStageCommittedFenced x) \<and>
       (condition_true L RecoveryConditionComplete (r_Status x) \<longrightarrow> b recoveryStageComplete x)"]
    unfolding status_true_def[abs_def] truthful_def[abs_def] by blast+
qed

lemma releases_true:
  assumes env: "recovery_environment stored reached r"
  shows "releases_keep (stored_as L stored reached key x0) r" and "releases_keep (status_true L stored reached key) r"
  using apart_keeps[OF env] update_keeps_true[OF env] by (auto simp: releases_keep_def cluster_keeps_def)

text \<open>The reconcile keeps the status true.\<close>

lemma reconcile_true:
  assumes laws: "condition_laws L" and env: "recovery_environment stored reached r" and m: "rr_Manager r = Some M"
    and named: "named_recovery x0" and key: "object_key (r_Meta x0) = key"
  shows "leads (in_ctx (stored_as L stored reached key x0)) (in_ctx (status_true L stored reached key))
    (reconcile_existing_recovery L r x0)"
proof -
  let ?I = "stored_as L stored reached key x0" and ?J = "status_true L stored reached key"
  let ?C = "\<lambda>w. ?I w \<and> reached recoveryStageCommittedFenced x0 w" and ?F = "\<lambda>w. ?I w \<and> reached recoveryStageComplete x0 w"
  have "?I \<le> ?J" using stored_as_true[OF named] by (auto simp: le_fun_def)
  moreover have "reads_instance (reconciled_as key x0) ?I (recoveryReader r)"
    using objects_readD[OF environmentD(2)[OF env]] unfolding reads_instance_def stored_as_def reconciled_as_def by blast
  moreover have "cluster_keeps ?I (rr_Client r) ({PatchesWorkloadIdentityStatus} \<union>
      (if mutating (r_Status x0) then {PatchesServiceAccount} else {}))"
    using apart_keeps(1)[OF env] by (auto simp: cluster_keeps_def)
  ultimately have "recovery_flow L (reconciled_as key x0) ?I ?C ?F ?J r (r_Status x0)"
    using patches_true[OF laws env named] service_flows[OF env m named] m apart_keeps(2)[OF env]
    by (simp add: recovery_flow_def)
  moreover have "reconciled_as key x0 x0" using key by (simp add: reconciled_as_def copy_of_def)
  ultimately show ?thesis using releases_true[OF env] by (rule reconcile_flows)
qed

lemma Reconcile_true:
  assumes laws: "condition_laws L" and env: "recovery_environment stored reached r" and m: "rr_Manager r = Some M"
    and w: "status_true L stored reached key w"
    and run: "run_state (Recovery_Reconcile L r key) \<lparr> world = w, outcome = tracing \<rparr> = (res, c)"
  shows "status_true L stored reached key (world c)"
proof -
  obtain got w1 where get: "run_state (GetWorkloadIdentityRecovery (ClusterReader (rr_Client r)) key) w = (got, w1)"
    by fastforce
  have "\<forall>P. preserves (\<lambda>w. P (stored w) (\<lambda>s x. reached s x w)) (GetWorkloadIdentityRecovery (ClusterReader (rr_Client r)) key)"
    using environmentD(4)[OF env, unfolded cluster_keeps_def] by (simp add: reader_keepsD)
  note w1 = run_unchanged[OF this get]
  have kept: "status_true L stored reached key w1" using w w1 by (simp add: status_true_def truthful_def)
  show ?thesis
  proof (cases got)
    case (Inl e)
    then have "world c = w1"
      using run get by (auto simp: Recovery_Reconcile_def run_simps split: if_splits)
    then show ?thesis using kept by simp
  next
    case (Inr x)
    have x: "object_key (r_Meta x) = key" "stored w1 key = Some x"
      using objects_readD[OF environmentD(1)[OF env] get[unfolded Inr]] w1 by simp_all
    then have "named_recovery x" and I: "stored_as L stored reached key x w1"
      using kept by (simp_all add: status_true_def stored_as_def copy_of_def)
    obtain rec out c' where inner: "run_state (reconcile_existing_recovery L r x) \<lparr> world = w1, outcome = tracing \<rparr> = ((rec, out), c')"
      by (metis surj_pair)
    then have "c' = c" using run get Inr by (simp add: Recovery_Reconcile_def run_simps)
    then show ?thesis
      using leadsD[OF reconcile_true[OF laws env m \<open>named_recovery x\<close> x(1)] _ inner] I by simp
  qed
qed

text \<open>
  Through any history of the recovery its status stays true, up to what others took back: a manager that honours the
  contract for the stages it reaches honours it for those it reached or that were taken back.
\<close>

lemma service_or:
  assumes "per_recovery U"
  shows "recovery_service M (reached_or reached U)"
proof unfold_locales
  have keeps: "preserves (reached_or reached U s x) n" if "preserves (reached s x) n" for s x and n :: "('w, 'a) state"
    using that by (auto simp: preserves_def reached_or_def)
  fix x y s url subject assume x: "recovered_by x y"
  note kept = inspect_keeps[OF x] operations_keep[OF x]
  show "preserves (reached_or reached U s x) (rm_Inspect M x y url subject)"
    "preserves (reached_or reached U s x) (rm_MarkInProgress M x y (r_Plan (r_Status x)))"
    "preserves (reached_or reached U s x) (rm_EnsureFederatedIdentityCredential M x y (r_Plan (r_Status x)))"
    "preserves (reached_or reached U s x) (rm_Commit M x y (r_Plan (r_Status x)))"
    "preserves (reached_or reached U s x) (rm_Finalize M x y (r_Plan (r_Status x)))"
    by (intro keeps kept)+
qed (use commit_reaches finalize_reaches reached_by_instance assms in
    \<open>auto simp: reached_or_def per_recovery_def\<close>)

lemma environment_or:
  assumes "recovery_environment stored reached r"
  shows "recovery_environment stored (reached_or reached U) r"
  using assms environmentD(4,5)[OF assms, of "\<lambda>a b. P a (\<lambda>s x. b s x \<or> U s x)" for P]
    environmentD(6)[OF assms, of "\<lambda>b. P (\<lambda>s x. b s x \<or> U s x)" for P]
  unfolding recovery_environment_def reached_or_def[abs_def] by blast

lemma per_recovery_taken: "per_recovery U \<Longrightarrow> per_recovery (taken_back reached w w' U)"
  using reached_by_instance unfolding per_recovery_def taken_back_def by blast

lemma status_true_other:
  assumes old: "status_true L stored (reached_or reached U) key w" and U: "per_recovery U"
    and kept: "rel_option (\<lambda>x x'. same_recovery x x' \<and> r_Status x' = r_Status x) (stored w key) (stored w' key)"
  shows "status_true L stored (reached_or reached (taken_back reached w w' U)) key w'"
  unfolding status_true_def
proof (intro allI impI)
  let ?V = "taken_back reached w w' U"
  fix x' assume "stored w' key = Some x'"
  with kept obtain x where x: "stored w key = Some x" "same_recovery x x'" "r_Status x' = r_Status x"
    by (auto simp: option_rel_Some2)
  then have "named_recovery x" and truth: "truthful L (reached_or reached U) x w" using old by (simp_all add: status_true_def)
  have "reached_or reached U s x w \<Longrightarrow> reached_or reached ?V s x w'" for s by (auto simp: reached_or_def taken_back_def)
  then have "truthful L (reached_or reached ?V) x w'" using truth by (auto simp: truthful_def)
  then show "named_recovery x' \<and> truthful L (reached_or reached ?V) x' w'"
    using x \<open>named_recovery x\<close> recovery_service.truthful_same[OF service_or[OF per_recovery_taken[OF U]] x(2,3)]
    by (simp add: named_recovery_def same_recovery_def)
qed

lemma history_true:
  assumes laws: "condition_laws L" and env: "recovery_environment stored reached r" and m: "rr_Manager r = Some M"
    and hist: "(recovery_act L r stored reached key)\<^sup>*\<^sup>* (w, \<lambda>s x. False) h" and start: "stored w key = None"
  shows "per_recovery (snd h) \<and> status_true L stored (reached_or reached (snd h)) key (fst h)"
  using hist
proof (induction rule: rtranclp_induct)
  case base
  then show ?case using start by (simp add: status_true_def per_recovery_def)
next
  case (step y z)
  then have U: "per_recovery (snd y)" and truth: "status_true L stored (reached_or reached (snd y)) key (fst y)" by simp_all
  from step.hyps(2) show ?case
  proof (cases rule: recovery_act.cases)
    case (act_reconcile w tracing res c U')
    then show ?thesis
      using U truth recovery_service.Reconcile_true[OF service_or[OF U] laws environment_or[OF env] m truth] by simp
  next
    case (act_other w w' U')
    then show ?thesis using U truth status_true_other[of L stored U' key w w'] per_recovery_taken[of U' w w'] by simp
  next
    case (act_deleted w' w U')
    then show ?thesis using U per_recovery_taken[of U' w w'] by (simp add: status_true_def)
  next
    case (act_created w w' x U')
    then show ?thesis using U per_recovery_taken[of U' w w'] by (simp add: status_true_def truthful_def fresh_status_def)
  qed
qed

end

end
