(* ===== verification/Recovery_Truth.thy ===== *)
theory Recovery_Truth
  imports Recovery_Service Sim_Azure
begin

text \<open>
  The status of a recovery against Azure: a recovery whose status says that the commit was verified, or that it
  is complete, is one whose managed identity is in that stage in Azure.  The Azure manager honours the contract
  of Recovery\_Service, so its client lemmas apply; the witness is a run on the in-memory cluster.
\<close>

section \<open>The Azure manager honours it\<close>

text \<open>The recovery manager behind the controller's interface.\<close>

definition azure_recovery_manager :: "'w armSDK \<Rightarrow> 'w RecoveryManager \<Rightarrow> 'w recovery_manager" where
  "azure_recovery_manager sdk m = \<lparr> rm_Inspect = Inspect sdk m, rm_MarkInProgress = MarkInProgress sdk m,
     rm_EnsureFederatedIdentityCredential = Azure_Recovery.EnsureFederatedIdentityCredential sdk m,
     rm_Commit = Commit sdk m, rm_Finalize = Finalize sdk m \<rparr>"

text \<open>The identity with the resource ID, client, principal and tenant of the plan is in stage \<open>s\<close> or beyond.\<close>

definition in_stage :: "WorkloadIdentityRecovery \<Rightarrow> Identity \<Rightarrow> identityRecoveryStage \<Rightarrow> bool" where
  "in_stage x u s \<longleftrightarrow> (\<forall>y. wi_UID y = ref_UID (r_Ref x) \<longrightarrow> recoveryStage x y u = Inr s)"

definition identity_reached :: "identityRecoveryStage \<Rightarrow> WorkloadIdentityRecovery \<Rightarrow> arm_state \<Rightarrow> bool" where
  "identity_reached s x v \<longleftrightarrow>
     (\<exists>k u s'. identities v k = Some u \<and> validateRecoveryIdentityPlan u (r_Plan (r_Status x)) = None \<and>
        s \<le> s' \<and> in_stage x u s')"

lemma identity_reachedI:
  "identities v k = Some u \<Longrightarrow> validateRecoveryIdentityPlan u (r_Plan (r_Status x)) = None \<Longrightarrow> s \<le> s' \<Longrightarrow>
     in_stage x u s' \<Longrightarrow> identity_reached s x v"
  unfolding identity_reached_def by blast

definition azure_reached :: "('w \<Rightarrow> arm_state) \<Rightarrow> 'w armSDK \<Rightarrow> 'w RecoveryManager \<Rightarrow> identityRecoveryStage \<Rightarrow>
    WorkloadIdentityRecovery \<Rightarrow> 'w \<Rightarrow> bool" where
  "azure_reached view sdk m s x w \<longleftrightarrow>
     (\<forall>c. recovery_clients sdk m = Inr c \<and> arm_laws view c \<longrightarrow> identity_reached s x (view w))"

lemma recoveryStage_same:
  "recoveryStage x y u = Inr s \<Longrightarrow> same_recovery x x' \<Longrightarrow> wi_UID y = wi_UID y' \<Longrightarrow> recoveryStage x' y' u = Inr s"
  by (auto simp: recoveryStage_def same_recovery_def Let_def split: if_splits)

lemma in_stage_iff:
  assumes "recovered_by x y"
  shows "in_stage x u s \<longleftrightarrow> recoveryStage x y u = Inr s"
  using assms recoveryStage_same[of x y u s x] by (auto simp: in_stage_def recovered_by_def)

lemma identity_reached_same:
  assumes "same_recovery x x'" and "r_Plan (r_Status x) = r_Plan (r_Status x')"
  shows "identity_reached s x v = identity_reached s x' v"
proof -
  have "in_stage x u t = in_stage x' u t" for u t
    using recoveryStage_same[of x _ u t x'] recoveryStage_same[of x' _ u t x] assms(1)
    by (auto simp: in_stage_def same_recovery_def)
  then show ?thesis using assms(2) by (simp add: identity_reached_def)
qed

text \<open>An operation for the recovery takes no identity back, and loses none.\<close>

lemma operation_reached:
  assumes clients: "recovery_clients sdk m = Inr c" and laws: "arm_laws view c" and x: "recovered_by x y"
    and run: "run_state (recovery_operation sdk m x y plan op) w = (res, w')"
    and before: "identity_reached s x (view w)"
  shows "identity_reached s x (view w')"
proof -
  have target: "recovery_target x y" using x by (simp add: recovered_by_def)
  obtain k u s' where u: "identities (view w) k = Some u" "validateRecoveryIdentityPlan u (r_Plan (r_Status x)) = None"
    and s': "s \<le> s'" "in_stage x u s'"
    using before by (auto simp: identity_reached_def)
  from operation_effect[OF clients laws target run] show ?thesis
  proof
    assume "identities (view w') = identities (view w)"
    then show ?thesis using u s' by (auto intro: identity_reachedI)
  next
    assume "stage_write x y (identity_key c y) (view w) (view w')"
    then obtain s1 s2 f u1 where st: "recovery_step s1 s2" and u1: "identities (view w) (identity_key c y) = Some u1"
      "recoveryStage x y u1 = Inr s1" and w': "view w' = set_tags (identity_key c y) (f (id_Tags u1)) (view w)"
      and s2: "recoveryStage x y (u1\<lparr>id_Tags := f (id_Tags u1)\<rparr>) = Inr s2"
      by (auto simp: stage_write_def tag_write_def)
    show ?thesis
    proof (cases "k = identity_key c y")
      case True
      then have "u1 = u" using u u1 by simp
      then have "s' = s1" using s'(2) u1(2) in_stage_iff[OF x] by simp
      then have "s \<le> s2" using s'(1) recovery_step_less[OF st] by simp
      moreover have "identities (view w') k = Some (u\<lparr>id_Tags := f (id_Tags u)\<rparr>)"
        using w' True u \<open>u1 = u\<close> by (simp add: set_tags_def)
      ultimately show ?thesis
        using u(2) s2 \<open>u1 = u\<close> in_stage_iff[OF x] by (auto intro: identity_reachedI)
    next
      case False
      then have "identities (view w') k = Some u" using w' u by (simp add: set_tags_def)
      then show ?thesis using u(2) s' by (rule identity_reachedI)
    qed
  qed
qed

text \<open>A successful commit or finalization has checked the plan against the identity it leaves in its stage.\<close>

lemma operation_plan:
  assumes clients: "recovery_clients sdk m = Inr c" and laws: "arm_laws view c" and x: "recovered_by x y"
    and run: "run_state (recovery_operation sdk m x y plan op) w = (Inr z, w')" and op: "op \<in> {OpCommit, OpFinalize}"
  shows "\<exists>u p. plan = Some p \<and> identities (view w') (identity_key c y) = Some u \<and> validateRecoveryIdentityPlan u plan = None"
proof -
  have target: "recovery_target x y" using x by (simp add: recovered_by_def)
  obtain u s w1 where load: "run_state (loadAndValidateRecoveryState sdk m x y plan) w = (Inr (c, u, s), w1)"
  proof -
    from op run obtain k where "run_state (io_try (loadAndValidateRecoveryState sdk m x y plan) k) w = (Inr z, w')"
      by (auto simp: Commit_def Finalize_def)
    then obtain c' u s w1 where "run_state (loadAndValidateRecoveryState sdk m x y plan) w = (Inr (c', u, s), w1)"
      by (auto elim!: io_try_InrE)
    moreover from load_InrD(1)[OF this] have "c' = c" using clients by simp
    ultimately show thesis using that by blast
  qed
  have u: "identities (view w) (identity_key c y) = Some u" and valid: "validateRecoveryIdentityPlan u plan = None"
    using load_stored[OF clients laws load] load_InrD(4)[OF load] by auto
  from operation_effect[OF clients laws target run]
  have "\<exists>t. identities (view w') (identity_key c y) = Some (u\<lparr>id_Tags := t\<rparr>)"
  proof
    assume "identities (view w') = identities (view w)"
    then show ?thesis using u by (intro exI[of _ "id_Tags u"]) simp
  next
    assume "stage_write x y (identity_key c y) (view w) (view w')"
    then show ?thesis using u by (auto simp: stage_write_def tag_write_def set_tags_def)
  qed
  then show ?thesis using valid plan_present[OF valid] by auto
qed

lemma io_try_of_Inr: "io_try (io_of (Inr a)) k = k a"
  by (rule state.expand) (simp add: run_io_try fun_eq_iff)

lemma Inspect_reads:
  assumes clients: "recovery_clients sdk m = Inr c" and laws: "arm_laws view c"
  shows "preserves (\<lambda>w. view w = v) (Inspect sdk m x y url subject)"
  unfolding Inspect_def clients io_try_of_Inr
  by (intro preserves_intros preserves_view_get preserves_view_list laws)

interpretation azure_service: recovery_service "azure_recovery_manager sdk m" "azure_reached view sdk m" for sdk m view
proof unfold_locales
  fix x y w u w' assume about: "recovered_by x y"
  have kept: "preserves (azure_reached view sdk m s x) (recovery_operation sdk m x y plan op)" for s plan op
    unfolding preserves_def azure_reached_def
    using operation_reached[OF _ _ about] by (metis prod.collapse)
  show "preserves (azure_reached view sdk m s x) (rm_MarkInProgress (azure_recovery_manager sdk m) x y (r_Plan (r_Status x)))"
    "preserves (azure_reached view sdk m s x) (rm_EnsureFederatedIdentityCredential (azure_recovery_manager sdk m) x y (r_Plan (r_Status x)))"
    "preserves (azure_reached view sdk m s x) (rm_Commit (azure_recovery_manager sdk m) x y (r_Plan (r_Status x)))"
    "preserves (azure_reached view sdk m s x) (rm_Finalize (azure_recovery_manager sdk m) x y (r_Plan (r_Status x)))" for s
    using kept[of s "r_Plan (r_Status x)" OpMark] kept[of s "r_Plan (r_Status x)" OpEnsure]
      kept[of s "r_Plan (r_Status x)" OpCommit] kept[of s "r_Plan (r_Status x)" OpFinalize]
    by (simp_all add: azure_recovery_manager_def)
  show "preserves (azure_reached view sdk m s x) (rm_Inspect (azure_recovery_manager sdk m) x y url subject)" for s url subject
    unfolding preserves_def azure_reached_def
    using Inspect_reads[of sdk m _ view] by (simp add: azure_recovery_manager_def preserves_def)
  show "azure_reached view sdk m recoveryStageCommittedFenced x w'"
    if run: "run_state (rm_Commit (azure_recovery_manager sdk m) x y (r_Plan (r_Status x))) w = (Inr u, w')"
    unfolding azure_reached_def
  proof (intro allI impI, elim conjE)
    fix c assume laws: "recovery_clients sdk m = Inr c" "arm_laws view c"
    from run have op: "run_state (recovery_operation sdk m x y (r_Plan (r_Status x)) OpCommit) w = (Inr u, w')"
      by (simp add: azure_recovery_manager_def)
    from operation_plan[OF laws about op] obtain i p where p: "r_Plan (r_Status x) = Some p"
      "identities (view w') (identity_key c y) = Some i" "validateRecoveryIdentityPlan i (r_Plan (r_Status x)) = None" by auto
    from Commit_InrD[OF laws op[unfolded recovery_operation.simps p(1)]] p(2)
    obtain t where "recoveryStage x y i = Inr t" "recoveryStageCommittedFenced \<le> t"
      by (auto simp: view_stage_def stage_order_defs split: sum.splits)
    then show "identity_reached recoveryStageCommittedFenced x (view w')"
      using identity_reachedI[OF p(2,3)] in_stage_iff[OF about] by blast
  qed
  show "azure_reached view sdk m recoveryStageComplete x w'"
    if run: "run_state (rm_Finalize (azure_recovery_manager sdk m) x y (r_Plan (r_Status x))) w = (Inr u, w')"
    unfolding azure_reached_def
  proof (intro allI impI, elim conjE)
    fix c assume laws: "recovery_clients sdk m = Inr c" "arm_laws view c"
    from run have op: "run_state (recovery_operation sdk m x y (r_Plan (r_Status x)) OpFinalize) w = (Inr u, w')"
      by (simp add: azure_recovery_manager_def)
    from operation_plan[OF laws about op] obtain i p where p: "r_Plan (r_Status x) = Some p"
      "identities (view w') (identity_key c y) = Some i" "validateRecoveryIdentityPlan i (r_Plan (r_Status x)) = None" by auto
    from Finalize_InrD[OF laws op[unfolded recovery_operation.simps p(1)]] p(2)
    obtain t where "recoveryStage x y i = Inr t" "recoveryStageComplete \<le> t"
      by (auto simp: view_stage_def stage_order_defs split: sum.splits)
    then show "identity_reached recoveryStageComplete x (view w')"
      using identity_reachedI[OF p(2,3)] in_stage_iff[OF about] by blast
  qed
next
  fix x x' s w assume "same_recovery x x'" "r_Plan (r_Status x) = r_Plan (r_Status x')"
  then show "azure_reached view sdk m s x w = azure_reached view sdk m s x' w"
    using identity_reached_same by (simp add: azure_reached_def)
qed

section \<open>The property\<close>

text \<open>
  C14. The status of a recovery never claims more than its reconciles brought about in Azure.  Through any history of
  reconciles, of deletions and recreations of the object and of steps of others, who may do anything to Azure: when
  the stored status says that the commit was verified, the managed identity recorded in the plan is stored in Azure,
  with the planned client, principal and tenant, and is committed to or completed by this very recovery for its target,
  unless a step of somebody else took that stage back after it had been reached (as the deletion of a completed
  identity under the policy Delete does); when it says Complete, the fence is lifted and the identity belongs
  to the target, with the same exception.  So no claim is made before Azure holds it, and no reconcile of the recovery
  takes back what the status claims.  Hypotheses: the controller alone writes the status, both readers
  report the stored object (a cache that lags is not modelled), and others act between the reconciles.
\<close>

theorem recovery_status_truthful:
  assumes "condition_laws L" and "recovery_environment stored (azure_reached view sdk m) r"
    and "rr_Manager r = Some (azure_recovery_manager sdk m)" and "recovery_clients sdk m = Inr c" and "arm_laws view c"
    and "(recovery_act L r stored (azure_reached view sdk m) key)\<^sup>*\<^sup>* (w, \<lambda>s x. False) (w', undone)"
    and "stored w key = None" and "stored w' key = Some x"
  shows "(r_CommitVerified (r_Status x) \<longrightarrow> undone recoveryStageCommittedFenced x \<or> (\<exists>k u. identities (view w') k = Some u \<and>
        validateRecoveryIdentityPlan u (r_Plan (r_Status x)) = None \<and>
        (in_stage x u recoveryStageCommittedFenced \<or> in_stage x u recoveryStageComplete))) \<and>
    (condition_true L RecoveryConditionComplete (r_Status x) \<longrightarrow> undone recoveryStageComplete x \<or> (\<exists>k u. identities (view w') k = Some u \<and>
        validateRecoveryIdentityPlan u (r_Plan (r_Status x)) = None \<and> in_stage x u recoveryStageComplete))"
proof -
  have "truthful L (reached_or (azure_reached view sdk m) undone) x w'"
    using azure_service.history_true[OF assms(1-3,6,7)] assms(8) by (simp add: status_true_def)
  then have "r_CommitVerified (r_Status x) \<Longrightarrow> undone recoveryStageCommittedFenced x \<or> identity_reached recoveryStageCommittedFenced x (view w')"
    and "condition_true L RecoveryConditionComplete (r_Status x) \<Longrightarrow> undone recoveryStageComplete x \<or> identity_reached recoveryStageComplete x (view w')"
    using assms(4,5) by (auto simp: truthful_def azure_reached_def reached_or_def)
  moreover have "recoveryStageCommittedFenced \<le> t \<longleftrightarrow> t \<in> {recoveryStageCommittedFenced, recoveryStageComplete}"
    and "recoveryStageComplete \<le> t \<longleftrightarrow> t = recoveryStageComplete" for t
    by (cases t; simp add: stage_order_defs)+
  ultimately show ?thesis by (fastforce simp: identity_reached_def)
qed

section \<open>The in-memory cluster\<close>

definition sim_stored :: "sim recovery_objects" where
  "sim_stored w k = find (\<lambda>x. object_key (r_Meta x) = k) (sim_recoveries w)"

lemma find_patched:
  "find (\<lambda>x. object_key (r_Meta x) = j) (replace_all r_Meta k (\<lambda>old. old\<lparr>r_Status := s\<rparr>) xs) =
    (if j = k then map_option (\<lambda>old. old\<lparr>r_Status := s\<rparr>) (find (\<lambda>x. object_key (r_Meta x) = k) xs)
     else find (\<lambda>x. object_key (r_Meta x) = j) xs)"
  by (induction xs) (auto simp: replace_all_def)

lemma sim_objects_read: "objects_read sim_stored sim_reader"
  by (auto simp: objects_read_def sim_reader_def sim_get_def sim_stored_def dest: find_key split: option.splits)

lemma sim_objects_written: "objects_written sim_stored sim_cluster"
  unfolding objects_written_def
proof (intro conjI allI impI)
  fix x s w res w'
  assume run: "run_state (PatchWorkloadIdentityRecoveryStatus sim_cluster (x\<lparr>r_Status := s\<rparr>) (MergeFrom x)) w = (res, w')"
    and x: "sim_stored w (object_key (r_Meta x)) = Some x"
  have "sim_recoveries w' = replace_all r_Meta (object_key (r_Meta x)) (\<lambda>old. old\<lparr>r_Status := s\<rparr>) (sim_recoveries w)"
    using run x by (auto simp: sim_cluster_def sim_write_def sim_stored_def split: option.splits)
  then have "sim_stored w' = (sim_stored w)(object_key (r_Meta x) := Some (x\<lparr>r_Status := s\<rparr>))"
    using x by (auto simp: sim_stored_def find_patched fun_eq_iff)
  then show "sim_stored w' = sim_stored w \<or> status_stored sim_stored x s w w'"
    unfolding status_stored_def by (intro disjI2 exI[of _ "x\<lparr>r_Status := s\<rparr>"]) (simp add: same_recovery_def)
next
  fix x w res w' assume run: "run_state (UpdateWorkloadIdentityRecovery sim_cluster x) w = (res, w')"
  show "sim_stored w' = sim_stored w \<or> sim_stored w' = (sim_stored w)(object_key (r_Meta x) := None) \<or>
    (\<exists>old. sim_stored w (object_key (r_Meta x)) = Some old \<and> (\<exists>y. same_recovery old y \<and> r_Status y = r_Status old \<and>
       sim_stored w' = (sim_stored w)(object_key (r_Meta x) := Some y)))"
  proof (cases "sim_stored w (object_key (r_Meta x))")
    case None
    then show ?thesis using run by (auto simp: sim_cluster_def sim_write_def sim_stored_def fun_eq_iff)
  next
    case (Some old)
    then have w': "sim_recoveries w' = drop_gone r_Meta (object_key (r_Meta x))
        (replace_all r_Meta (object_key (r_Meta x)) (updated_recovery x) (sim_recoveries w))"
      using run by (auto simp: sim_cluster_def sim_write_def sim_stored_def)
    have "sim_stored w' = (sim_stored w)(object_key (r_Meta x) :=
        (if still_there (r_Meta x) then Some (updated_recovery x old) else None))"
      using Some by (auto simp: sim_stored_def w' find_updated fun_eq_iff)
    moreover have "same_recovery old (updated_recovery x old)" "r_Status (updated_recovery x old) = r_Status old"
      by (simp_all add: same_recovery_def updated_recovery_def)
    ultimately show ?thesis using Some by (cases "still_there (r_Meta x)") auto
  qed
qed

lemma sim_others_apart:
  "cluster_keeps (\<lambda>w. Q (sim_recoveries w) (sim_azure w)) sim_cluster {PatchesWorkloadIdentityStatus, PatchesServiceAccount}"
  "reader_keeps (\<lambda>w. Q (sim_recoveries w) (sim_azure w)) sim_reader"
proof -
  have reads: "reader_keeps (\<lambda>w. Q (sim_recoveries w) (sim_azure w)) sim_reader"
    by (simp add: reader_keeps_def preserves_def sim_reader_def sim_get_def sim_list_def)
  have "write_keeps (\<lambda>w. Q (sim_recoveries w) (sim_azure w)) sim_cluster k"
    if "k \<in> {PatchesWorkloadIdentityStatus, PatchesServiceAccount}" for k
    using that by (auto simp: sim_cluster_def preserves_def sim_write_def split: option.split)
  then show "cluster_keeps (\<lambda>w. Q (sim_recoveries w) (sim_azure w)) sim_cluster {PatchesWorkloadIdentityStatus, PatchesServiceAccount}"
    using reads by (simp add: cluster_keeps_def preserves_def sim_cluster_def)
  show "reader_keeps (\<lambda>w. Q (sim_recoveries w) (sim_azure w)) sim_reader" by (rule reads)
qed

section \<open>The manager leaves the recoveries alone\<close>

definition clients_keep :: "('w \<Rightarrow> bool) \<Rightarrow> 'w identityClients \<Rightarrow> bool" where
  "clients_keep I c \<longleftrightarrow>
     (\<forall>a b. preserves I (ui_Get (ic_identities c) a b)) \<and> (\<forall>a b t. preserves I (ui_Update (ic_identities c) a b t)) \<and>
     (\<forall>a b n d. preserves I (fic_CreateOrUpdate (ic_federatedCredentials c) a b n d)) \<and>
     (\<forall>a b. preserves I (fic_List (ic_federatedCredentials c) a b))"

lemma clients_keepD:
  assumes "clients_keep I c"
  shows "preserves I (ui_Get (ic_identities c) a b)" "preserves I (ui_Update (ic_identities c) a b t)"
    "preserves I (fic_CreateOrUpdate (ic_federatedCredentials c) a b n d)" "preserves I (fic_List (ic_federatedCredentials c) a b)"
  using assms by (simp_all add: clients_keep_def)

lemma parts_keep:
  assumes "clients_keep I c"
  shows "preserves I (getRecoveryUserAssignedIdentity c y)" "preserves I (updateRecoveryTags c y t)"
    "preserves I (verifyRecoveryStage c x y plan s op)" "preserves I (validateCommittedFederatedIdentityCredential c y p op)"
proof -
  show get: "preserves I (getRecoveryUserAssignedIdentity c y)"
    unfolding getRecoveryUserAssignedIdentity_def Let_def by (intro preserves_intros clients_keepD[OF assms])
  show "preserves I (verifyRecoveryStage c x y plan s op)"
    unfolding verifyRecoveryStage_def by (intro preserves_intros get)
  show "preserves I (updateRecoveryTags c y t)" "preserves I (validateCommittedFederatedIdentityCredential c y p op)"
    unfolding updateRecoveryTags_def validateCommittedFederatedIdentityCredential_def
    by (intro preserves_intros preserves_external clients_keepD[OF assms])+
qed

lemma loaded_keeps:
  assumes clients: "recovery_clients sdk m = Inr c" and keeps: "clients_keep I c"
    and k: "\<And>u s. preserves I (k (c, u, s))"
  shows "preserves I (io_try (loadAndValidateRecoveryState sdk m x y plan) k)"
proof -
  have "io_try (loadAndValidateRecoveryState sdk m x y plan) k =
      io_try (getRecoveryUserAssignedIdentity c y) (\<lambda>u. io_try (io_of (recoveryStage x y u)) (\<lambda>s.
        case validateRecoveryIdentityPlan u plan of Some err \<Rightarrow> io_fail err | None \<Rightarrow> k (c, u, s)))"
    unfolding loadAndValidateRecoveryState_def clients io_try_of_Inr
    by (rule state.expand) (auto simp: run_simps fun_eq_iff split: prod.split sum.split option.split)
  then show ?thesis by (simp only:) (intro preserves_intros parts_keep[OF keeps] k)
qed

lemma manager_apart_clients:
  assumes clients: "recovery_clients sdk m = Inr c" and keeps: "clients_keep I c"
  shows "manager_apart I (azure_recovery_manager sdk m)"
proof -
  note rules = loaded_keeps[OF clients keeps] parts_keep[OF keeps] preserves_external clients_keepD[OF keeps]
  have "preserves I (Inspect sdk m x y u s)" for x y u s
    unfolding Inspect_def clients io_try_of_Inr by (intro preserves_intros rules)
  moreover have "preserves I (MarkInProgress sdk m x y p)" "preserves I (Azure_Recovery.EnsureFederatedIdentityCredential sdk m x y p)"
    "preserves I (Commit sdk m x y p)" "preserves I (Finalize sdk m x y p)" for x y p
    unfolding MarkInProgress_def Azure_Recovery.EnsureFederatedIdentityCredential_def Commit_def Finalize_def with_plan_def
    by (rule rules(1), simp only: prod.case, intro preserves_intros rules)+
  ultimately show ?thesis by (simp add: manager_apart_def azure_recovery_manager_def)
qed

lemma on_azure_recoveries: "preserves (\<lambda>w. Q (sim_recoveries w)) (on_azure n)"
  by (rule preserves_on_azure) simp

lemma sim_clients_keep: "clients_keep (\<lambda>w. Q (sim_recoveries w)) (sim_clients scope)"
proof -
  have "preserves (\<lambda>w. Q (sim_recoveries w)) (fic_List (lift_credentials (mem_credentials scope)) a b)" for a b
    by (simp add: preserves_def fic_List_def lift_credentials_def mem_credentials_def run_list_pages run_simps
        split: prod.split sum.split)
  then show ?thesis by (simp add: clients_keep_def lift_identities_def lift_credentials_def on_azure_recoveries)
qed

section \<open>A history\<close>

definition sim_recovery_manager :: "sim RecoveryManager" where
  "sim_recovery_manager = \<lparr> wrm_Credential = None, wrm_Scope = demo_scope,
     wrm_clientsFactory = Some (Inr (sim_clients demo_scope)) \<rparr>"

definition recovering :: "sim RecoveryReconciler" where
  "recovering = \<lparr> rr_Client = sim_cluster, rr_APIReader = None,
     rr_Manager = Some (azure_recovery_manager (sim_sdk demo_scope) sim_recovery_manager) \<rparr>"

definition reconciled :: "sim \<Rightarrow> sim" where
  "reconciled w = world (snd (run_state (Recovery_Reconcile std_lib recovering demo_recovery_key) \<lparr> world = w, outcome = None \<rparr>))"

lemma recovering_simps [simp]:
  "rr_Client recovering = sim_cluster" "recoveryReader recovering = sim_reader"
  "rr_Manager recovering = Some (azure_recovery_manager (sim_sdk demo_scope) sim_recovery_manager)"
  by (simp_all add: recovering_def recoveryReader_def sim_cluster_def)

lemma sim_recovery_clients: "recovery_clients (sim_sdk demo_scope) sim_recovery_manager = Inr (sim_clients demo_scope)"
  by (simp add: recovery_clients_def sim_recovery_manager_def)

lemma sim_environment:
  "recovery_environment sim_stored (azure_reached sim_azure (sim_sdk demo_scope) sim_recovery_manager) recovering"
proof -
  define reached where "reached a s x \<longleftrightarrow> (\<forall>c. recovery_clients (sim_sdk demo_scope) sim_recovery_manager = Inr c \<and>
      arm_laws sim_azure c \<longrightarrow> identity_reached s x a)" for a s x
  define items :: "WorkloadIdentityRecovery list \<Rightarrow> NamespacedName \<Rightarrow> WorkloadIdentityRecovery option"
    where "items xs k = find (\<lambda>x. object_key (r_Meta x) = k) xs" for xs and k
  have stages: "azure_reached sim_azure (sim_sdk demo_scope) sim_recovery_manager s x w = reached (sim_azure w) s x" for s x w
    by (simp add: azure_reached_def reached_def)
  have stored: "sim_stored w = items (sim_recoveries w)" for w
    by (simp add: sim_stored_def items_def fun_eq_iff)
  have apart: "manager_apart (\<lambda>w. sim_stored w = v) (azure_recovery_manager (sim_sdk demo_scope) sim_recovery_manager)" for v
    unfolding stored by (rule manager_apart_clients[OF sim_recovery_clients sim_clients_keep])
  have others: "cluster_keeps (\<lambda>w. P (items (sim_recoveries w)) (reached (sim_azure w))) sim_cluster
      {PatchesWorkloadIdentityStatus, PatchesServiceAccount}"
    "reader_keeps (\<lambda>w. P (items (sim_recoveries w)) (reached (sim_azure w))) sim_reader"
    "cluster_keeps (\<lambda>w. Q (reached (sim_azure w))) sim_cluster {UpdatesRecovery, PatchesRecoveryStatus}" for P Q
    using sim_others_apart[of "\<lambda>r a. P (items r) (reached a)"] sim_cluster_azure[of "\<lambda>a. Q (reached a)"] by blast+
  have "ClusterReader sim_cluster = sim_reader" by (simp add: sim_cluster_def)
  then show ?thesis
    using apart others sim_objects_read sim_objects_written
    by (simp add: recovery_environment_def stages stored)
qed

lemma start_reconciled:
  "map (\<lambda>x. (object_key (r_Meta x), r_MutationStarted (r_Status x))) (sim_recoveries (reconciled start_sim))
     = [(demo_recovery_key, True)]"
  by code_simp

theorem recovery_status_truthful_witness:
  "\<exists>w x U. (recovery_act std_lib recovering sim_stored (azure_reached sim_azure (sim_sdk demo_scope) sim_recovery_manager)
      demo_recovery_key)\<^sup>*\<^sup>* (demo_sim, \<lambda>s x. False) (w, U) \<and> sim_stored w demo_recovery_key = Some x \<and>
    r_MutationStarted (r_Status x) \<and>
    (r_CommitVerified (r_Status x) \<longrightarrow> U recoveryStageCommittedFenced x \<or> (\<exists>k u. identities (sim_azure w) k = Some u \<and>
        validateRecoveryIdentityPlan u (r_Plan (r_Status x)) = None \<and>
        (in_stage x u recoveryStageCommittedFenced \<or> in_stage x u recoveryStageComplete)))"
proof -
  let ?reached = "azure_reached sim_azure (sim_sdk demo_scope) sim_recovery_manager"
  let ?act = "recovery_act std_lib recovering sim_stored ?reached demo_recovery_key"
  let ?U = "taken_back ?reached demo_sim start_sim (\<lambda>s x. False)"
  have empty: "sim_stored demo_sim demo_recovery_key = None" by (simp add: sim_stored_def demo_sim_def)
  have created: "?act (demo_sim, \<lambda>s x. False) (start_sim, ?U)"
  proof (rule act_created[of sim_stored, OF empty])
    show "sim_stored start_sim demo_recovery_key = Some ready_to_start"
      by (simp add: sim_stored_def start_sim_def ready_to_start_def demo_planned_def demo_recovery_key_def object_key_def)
    show "named_recovery ready_to_start"
      by (simp add: named_recovery_def ready_to_start_def demo_planned_def demo_recovery_def demo_meta_def)
    show "fresh_status std_lib (r_Status ready_to_start)"
      using demo_fresh by (simp add: ready_to_start_def demo_planned_def fresh_status_def)
  qed
  obtain res c where run: "run_state (Recovery_Reconcile std_lib recovering demo_recovery_key)
      \<lparr> world = start_sim, outcome = None \<rparr> = (res, c)" by fastforce
  then have w: "world c = reconciled start_sim" by (simp add: reconciled_def)
  have steps: "?act\<^sup>*\<^sup>* (demo_sim, \<lambda>s x. False) (reconciled start_sim, ?U)"
    using created act_reconcile[OF run] unfolding w by (meson converse_rtranclp_into_rtranclp r_into_rtranclp)
  obtain x where x: "sim_stored (reconciled start_sim) demo_recovery_key = Some x" "r_MutationStarted (r_Status x)"
    using start_reconciled by (auto simp: sim_stored_def)
  have "condition_laws std_lib" using std_lib_laws by (simp add: k8s_lib_laws_def)
  note truth = recovery_status_truthful[OF this sim_environment _ sim_recovery_clients sim_arm_laws steps empty x(1)]
  show ?thesis
    using truth steps x by (intro exI[of _ "reconciled start_sim"] exI[of _ x] exI[of _ ?U]) simp
qed

end
