(* ===== verification/Startup.thy ===== *)
theory Startup
  imports Telemetry_Runtime Token_Client Issuer_Publishing Workload_Properties Event_Predicates Recovery_Truth
begin

text \<open>
  cmd/main.go and the \<open>SetupWithManager\<close> functions: the flags, the options built from them, the reconcilers
  and validators handed to the manager, and the order of the startup.  The process, the SDKs and
  controller-runtime's manager are the parameter \<open>platform\<close>; the model records every registration the program
  makes with the manager, in order, in \<open>pr_calls\<close>.  Log lines are left out; a fatal error is the message
  and the error that are logged before \<open>os.Exit(1)\<close>.
\<close>

section \<open>Flags\<close>

record azureScopeFlagValues =
  sf_subscriptionID :: string
  sf_resourceGroupName :: string
  sf_location :: string

record certificateFlagValues =
  cf_directory :: string
  cf_name :: string
  cf_key :: string

record operatorFlagValues =
  metricsAddress :: string
  healthProbeAddress :: string
  enableLeaderElection :: bool
  secureMetrics :: bool
  enableHTTP2 :: bool
  telemetryTracingEnabled :: bool
  oidcIssuerRefreshIntervalFlag :: int
  workloadIdentityRefreshIntervalFlag :: int
  azureScopeFlags :: azureScopeFlagValues
  azureScopeAnchorDirectory :: string
  webhookCertificate :: certificateFlagValues
  metricsCertificate :: certificateFlagValues

text \<open>A registered flag: its name, its default value and what setting it changes.\<close>

datatype 'c flag =
    StringVar string string "string \<Rightarrow> 'c \<Rightarrow> 'c"
  | BoolVar string bool "bool \<Rightarrow> 'c \<Rightarrow> 'c"
  | DurationVar string int "int \<Rightarrow> 'c \<Rightarrow> 'c"

fun flag_name :: "'c flag \<Rightarrow> string" where
  "flag_name (StringVar n v s) = n"
| "flag_name (BoolVar n v s) = n"
| "flag_name (DurationVar n v s) = n"

fun flag_default :: "'c flag \<Rightarrow> 'c \<Rightarrow> 'c" where
  "flag_default (StringVar n v s) = s v"
| "flag_default (BoolVar n v s) = s v"
| "flag_default (DurationVar n v s) = s v"

definition registerOIDCIssuerRefreshIntervalFlags :: "operatorFlagValues flag list" where
  "registerOIDCIssuerRefreshIntervalFlags =
     [DurationVar ''oidc-issuer-refresh-interval'' DefaultOIDCIssuerRefreshInterval
        (\<lambda>v c. c\<lparr>oidcIssuerRefreshIntervalFlag := v\<rparr>)]"

definition registerAzureScopeFlags :: "operatorFlagValues flag list" where
  "registerAzureScopeFlags =
     [StringVar ''azure-subscription-id'' '''' (\<lambda>v. azureScopeFlags_update (sf_subscriptionID_update (\<lambda>_. v))),
      StringVar ''azure-resource-group-name'' '''' (\<lambda>v. azureScopeFlags_update (sf_resourceGroupName_update (\<lambda>_. v))),
      StringVar ''azure-location'' '''' (\<lambda>v. azureScopeFlags_update (sf_location_update (\<lambda>_. v)))]"

definition registerOperatorFlags :: "operatorFlagValues flag list" where
  "registerOperatorFlags =
     [StringVar ''metrics-bind-address'' ''0'' (\<lambda>v c. c\<lparr>metricsAddress := v\<rparr>),
      StringVar ''health-probe-bind-address'' '':8081'' (\<lambda>v c. c\<lparr>healthProbeAddress := v\<rparr>),
      BoolVar ''leader-elect'' False (\<lambda>v c. c\<lparr>enableLeaderElection := v\<rparr>),
      BoolVar ''metrics-secure'' True (\<lambda>v c. c\<lparr>secureMetrics := v\<rparr>),
      StringVar ''webhook-cert-path'' '''' (\<lambda>v. webhookCertificate_update (cf_directory_update (\<lambda>_. v))),
      StringVar ''webhook-cert-name'' ''tls.crt'' (\<lambda>v. webhookCertificate_update (cf_name_update (\<lambda>_. v))),
      StringVar ''webhook-cert-key'' ''tls.key'' (\<lambda>v. webhookCertificate_update (cf_key_update (\<lambda>_. v))),
      StringVar ''metrics-cert-path'' '''' (\<lambda>v. metricsCertificate_update (cf_directory_update (\<lambda>_. v))),
      StringVar ''metrics-cert-name'' ''tls.crt'' (\<lambda>v. metricsCertificate_update (cf_name_update (\<lambda>_. v))),
      StringVar ''metrics-cert-key'' ''tls.key'' (\<lambda>v. metricsCertificate_update (cf_key_update (\<lambda>_. v))),
      BoolVar ''enable-http2'' False (\<lambda>v c. c\<lparr>enableHTTP2 := v\<rparr>),
      BoolVar ''telemetry-tracing-enabled'' False (\<lambda>v c. c\<lparr>telemetryTracingEnabled := v\<rparr>)] @
     registerOIDCIssuerRefreshIntervalFlags @ registerAzureScopeFlags @
     [StringVar ''azure-scope-anchor-directory'' '''' (\<lambda>v c. c\<lparr>azureScopeAnchorDirectory := v\<rparr>),
      DurationVar ''workload-identity-refresh-interval'' DefaultWorkloadIdentityRefreshInterval
        (\<lambda>v c. c\<lparr>workloadIdentityRefreshIntervalFlag := v\<rparr>)]"

definition zero_config :: operatorFlagValues where
  "zero_config = \<lparr> metricsAddress = '''', healthProbeAddress = '''', enableLeaderElection = False,
     secureMetrics = False, enableHTTP2 = False, telemetryTracingEnabled = False,
     oidcIssuerRefreshIntervalFlag = 0, workloadIdentityRefreshIntervalFlag = 0,
     azureScopeFlags = \<lparr> sf_subscriptionID = '''', sf_resourceGroupName = '''', sf_location = '''' \<rparr>,
     azureScopeAnchorDirectory = '''',
     webhookCertificate = \<lparr> cf_directory = '''', cf_name = '''', cf_key = '''' \<rparr>,
     metricsCertificate = \<lparr> cf_directory = '''', cf_name = '''', cf_key = '''' \<rparr> \<rparr>"

definition default_config :: operatorFlagValues where
  "default_config = fold flag_default registerOperatorFlags zero_config"

section \<open>Server options\<close>

datatype tls_option = DisableHTTP2

text \<open>\<open>disableHTTP2\<close> on the list of protocols of a \<open>tls.Config\<close>.\<close>

fun apply_tls_option :: "tls_option \<Rightarrow> string list \<Rightarrow> string list" where
  "apply_tls_option DisableHTTP2 nextProtos = [''http/1.1'']"

definition tlsOptions :: "bool \<Rightarrow> tls_option list" where
  "tlsOptions http2 = (if http2 then [] else [DisableHTTP2])"

record server_certificate =
  CertDir :: string
  CertName :: string
  KeyName :: string

definition no_certificate :: server_certificate where
  "no_certificate = \<lparr> CertDir = '''', CertName = '''', KeyName = '''' \<rparr>"

definition server_certificate_of :: "certificateFlagValues \<Rightarrow> server_certificate" where
  "server_certificate_of certificate =
     (if cf_directory certificate = '''' then no_certificate
      else \<lparr> CertDir = cf_directory certificate, CertName = cf_name certificate, KeyName = cf_key certificate \<rparr>)"

record webhook_Options =
  wo_Port :: int
  wo_TLSOpts :: "tls_option list"
  wo_Certificate :: server_certificate

record metrics_Options =
  mo_BindAddress :: string
  mo_SecureServing :: bool
  mo_TLSOpts :: "tls_option list"
  mo_AuthenticatesAndAuthorizes :: bool
  mo_Certificate :: server_certificate

definition webhookServerPort :: int where "webhookServerPort = 9443"

definition newWebhookServerOptions :: "certificateFlagValues \<Rightarrow> tls_option list \<Rightarrow> webhook_Options" where
  "newWebhookServerOptions certificate tlsOpts =
     \<lparr> wo_Port = webhookServerPort, wo_TLSOpts = tlsOpts, wo_Certificate = server_certificate_of certificate \<rparr>"

definition newMetricsServerOptions :: "operatorFlagValues \<Rightarrow> tls_option list \<Rightarrow> metrics_Options" where
  "newMetricsServerOptions config tlsOpts =
     \<lparr> mo_BindAddress = metricsAddress config, mo_SecureServing = secureMetrics config, mo_TLSOpts = tlsOpts,
       mo_AuthenticatesAndAuthorizes = secureMetrics config,
       mo_Certificate = server_certificate_of (metricsCertificate config) \<rparr>"

section \<open>The manager\<close>

text \<open>
  A controller as it is handed to the manager: what it reconciles and watches, through which predicate and which
  mapping to requests, how, and how many requests at once (0 leaves the manager's default).
\<close>

datatype primary_resource =
    ForOIDCIssuer "OIDCIssuer event_predicate"
  | ForWorkloadIdentity "WorkloadIdentity event_predicate"
  | ForWorkloadIdentityRecovery "WorkloadIdentityRecovery event_predicate"

type_synonym 'w map_func = "ObjectMeta \<Rightarrow> ('w, NamespacedName list) state"

datatype 'w watch =
    WatchWorkloadIdentity "WorkloadIdentity event_predicate" "'w map_func"
  | WatchOIDCIssuer "OIDCIssuer event_predicate" "'w map_func"
  | WatchServiceAccount "ServiceAccount event_predicate" "'w map_func"
  | WatchAuthentication "'w map_func"

record 'w controller =
  ct_Name :: string
  ct_For :: primary_resource
  ct_Watches :: "'w watch list"
  ct_MaxConcurrentReconciles :: nat
  ct_Reconciler :: "'w queued"

datatype checker = Ping | WebhookStarted

datatype 'w startup_call =
    IndexWorkloadIdentities string "WorkloadIdentity \<Rightarrow> string list"
  | IndexRecoveries string "WorkloadIdentityRecovery \<Rightarrow> string list"
  | CompleteController "'w controller"
  | OIDCIssuerWebhook "'w OIDCIssuerValidator"
  | WorkloadIdentityWebhook "'w Reader"
  | WorkloadIdentityRecoveryWebhook "'w WorkloadIdentityRecoveryValidator"
  | AddHealthzCheck string checker
  | AddReadyzCheck string checker
  | StartManager

text \<open>
  \<open>mgr_OpenShift\<close> and \<open>mgr_OpenShiftReader\<close> are the manager's client and its uncached reader on the
  OpenShift types, \<open>mgr_Tokens\<close> its client on the token subresource.  \<open>mgr_Register\<close> answers a registration.
\<close>

record 'w ctrl_manager =
  mgr_Client :: "'w Cluster"
  mgr_APIReader :: "'w Reader"
  mgr_OpenShift :: "'w openshift_api"
  mgr_OpenShiftReader :: "'w openshift_api"
  mgr_Tokens :: "'w TokenAPI"
  mgr_GetEventRecorder :: "string \<Rightarrow> 'w event_recorder"
  mgr_RESTMapping :: "('w, unit) ext_io"
  mgr_Register :: "'w startup_call \<Rightarrow> ('w, unit) ext_io"

record manager_options =
  mg_Metrics :: metrics_Options
  mg_WebhookServer :: "webhook_Options wrapped option"
  mg_HealthProbeBindAddress :: string
  mg_LeaderElection :: bool
  mg_LeaderElectionID :: string
  mg_LeaderElectionReleaseOnCancel :: bool

type_synonym rest_config = string

record 'w platform =
  pf_Lib :: k8s_lib
  pf_Getenv :: "string \<Rightarrow> string"
  pf_BuildVersion :: "string option"
  pf_ParseFloat :: "string \<Rightarrow> float64 option"
  pf_Telemetry :: "'w otel_sdk"
  pf_ReadFile :: "'w read_file"
  pf_GetConfig :: "('w, rest_config) ext_io"
  pf_NewManager :: "rest_config wrapped option \<Rightarrow> manager_options \<Rightarrow> ('w, 'w ctrl_manager) ext_io"
  pf_NewCredential :: "tracer_provider option \<Rightarrow> ('w, TokenCredential) ext_io"
  pf_IsNoMatchError :: "ext_error \<Rightarrow> bool"
  pf_Crypto :: crypto_lib
  pf_Storage :: "'w storageSDK"
  pf_ARM :: "'w armSDK"
  pf_JsonError :: "string \<Rightarrow> string"

text \<open>The state of the process: the world, and the registrations so far.\<close>

record 'w process =
  pr_world :: 'w
  pr_calls :: "'w startup_call list"

definition on_world :: "('w, 'a) state \<Rightarrow> ('w process, 'a) state" where
  "on_world m = State (\<lambda>p. case run_state m (pr_world p) of (a, w') \<Rightarrow> (a, p\<lparr>pr_world := w'\<rparr>))"

definition register :: "'w ctrl_manager \<Rightarrow> 'w startup_call \<Rightarrow> ('w process, unit) io" where
  "register mgr c = State (\<lambda>p. case run_state (external (mgr_Register mgr c)) (pr_world p) of
     (r, w') \<Rightarrow> (r, \<lparr> pr_world = w', pr_calls = pr_calls p @ [c] \<rparr>))"

section \<open>Clients behind interfaces\<close>

text \<open>
  A Go interface value: no value at all, or a pointer, itself possibly nil.  Comparing it with nil only
  finds the first; a method called through it gets the pointer as its receiver.
\<close>

datatype 'a iface = NilInterface | Pointer "'a option"

definition methods :: "('a option \<Rightarrow> 'm) \<Rightarrow> 'a iface \<Rightarrow> 'm option" where
  "methods m i = (case i of NilInterface \<Rightarrow> None | Pointer p \<Rightarrow> Some (m p))"

text \<open>
  The OpenShift clients read a field of their receiver, so a nil one panics: the value
  \<open>nil_dereference\<close> of the call stands for the panic, which ends the reconcile.
\<close>

definition receiver :: "('a \<Rightarrow> ('w, 'b) io) \<Rightarrow> 'a option \<Rightarrow> ('w, 'b) io" where
  "receiver m p = (case p of None \<Rightarrow> io_fail nil_dereference | Some c \<Rightarrow> m c)"

definition issuer_client_methods ::
  "'w ServiceAccountIssuerClient option \<Rightarrow> 'w OpenShiftServiceAccountIssuerManager" where
  "issuer_client_methods p = \<lparr> osm_Get = receiver IssuerClient_Get p,
     osm_Set = (\<lambda>url. receiver (\<lambda>c. IssuerClient_Set c url) p),
     osm_WaitForKubeAPIServerRollout = (\<lambda>t. receiver (\<lambda>c. WaitForKubeAPIServerRollout c t) p) \<rparr>"

definition issuer_reader_methods :: "'w ServiceAccountIssuerReader option \<Rightarrow> ('w, string) io" where
  "issuer_reader_methods p = receiver IssuerReader_Get p"

definition openShiftServiceAccountIssuerClients :: "'w platform \<Rightarrow> 'w ctrl_manager \<Rightarrow>
    ('w, 'w ServiceAccountIssuerClient option \<times> 'w ServiceAccountIssuerReader option) io" where
  "openShiftServiceAccountIssuerClients P mgr =
     io_try (AuthenticationAPIAvailable (mgr_RESTMapping mgr) (pf_IsNoMatchError P)) (\<lambda>available.
       if \<not> available then io_return (None, None)
       else io_return
         (Some \<lparr> sic_Client = Some (mgr_OpenShift mgr), sic_RolloutPollInterval = 0, sic_RolloutTimeout = 0 \<rparr>,
          Some \<lparr> sir_Reader = Some (mgr_OpenShiftReader mgr) \<rparr>))"

definition podNamespaceEnvVar :: string where "podNamespaceEnvVar = ''POD_NAMESPACE''"
definition serviceAccountNameEnvVar :: string where "serviceAccountNameEnvVar = ''SERVICE_ACCOUNT_NAME''"
definition serviceAccountTokenExpiration :: "64 word" where "serviceAccountTokenExpiration = 600"

definition newServiceAccountTokenClient ::
  "(string \<Rightarrow> string) \<Rightarrow> 'w TokenAPI \<Rightarrow> 'w ServiceAccountTokenClient option" where
  "newServiceAccountTokenClient getenv kubeClient =
     (let namespace = getenv podNamespaceEnvVar; name = getenv serviceAccountNameEnvVar in
      if namespace = '''' \<or> name = '''' then None
      else Some \<lparr> tc_Client = Some kubeClient, tc_Namespace = namespace, tc_ServiceAccountName = name,
                  tc_ExpirationSeconds = serviceAccountTokenExpiration \<rparr>)"

definition serviceAccountTokenGuard :: "'a option \<Rightarrow> 'a iface" where
  "serviceAccountTokenGuard reader = (case reader of None \<Rightarrow> NilInterface | Some r \<Rightarrow> Pointer (Some r))"

section \<open>The reconcilers and validators\<close>

definition blob_document_publisher :: "'w ctrl_manager \<Rightarrow> TokenCredential \<Rightarrow> Scope \<Rightarrow> 'w BlobOIDCDocumentPublisher" where
  "blob_document_publisher mgr credential scope =
     \<lparr> bp_Reader = Some (mgr_APIReader mgr), bp_Credential = Some credential, bp_Scope = scope \<rparr>"

definition issuer_reconciler :: "'w platform \<Rightarrow> 'w ctrl_manager \<Rightarrow> TokenCredential \<Rightarrow> Scope \<Rightarrow>
    'w ServiceAccountIssuerClient iface \<Rightarrow> 'w ServiceAccountTokenClient iface \<Rightarrow> operatorFlagValues \<Rightarrow>
    'w OIDCIssuerReconciler" where
  "issuer_reconciler P mgr credential scope openshift tokens config =
     \<lparr> ir_Client = mgr_Client mgr,
       ir_Publisher = Some (blob_publisher (pf_Crypto P) (pf_Storage P) (blob_document_publisher mgr credential scope)),
       ir_OpenShift = methods issuer_client_methods openshift,
       ir_ServiceAccountTokens = methods (CurrentIssuer (pf_JsonError P)) tokens,
       ir_RefreshInterval = oidcIssuerRefreshIntervalFlag config \<rparr>"

definition workload_identity_manager :: "TokenCredential \<Rightarrow> Scope \<Rightarrow> WorkloadIdentityManager" where
  "workload_identity_manager credential scope = \<lparr> wim_Credential = Some credential, wim_Scope = scope \<rparr>"

definition identity_reconciler :: "'w platform \<Rightarrow> 'w ctrl_manager \<Rightarrow> TokenCredential \<Rightarrow> Scope \<Rightarrow>
    operatorFlagValues \<Rightarrow> 'w WorkloadIdentityReconciler" where
  "identity_reconciler P mgr credential scope config =
     (let m = workload_identity_manager credential scope in
      \<lparr> wr_Client = mgr_Client mgr, wr_Manager = Some (azure_identity_manager (pf_ARM P) m),
        wr_RecoveryDetector = Some (Manager_DetectRecovery (pf_ARM P) m),
        wr_Recorder = Some (mgr_GetEventRecorder mgr ''workloadidentity-controller''),
        wr_RefreshInterval = workloadIdentityRefreshIntervalFlag config \<rparr>)"

text \<open>\<open>clientsFactory\<close> is only set by tests.\<close>

definition recovery_reconciler :: "'w platform \<Rightarrow> 'w ctrl_manager \<Rightarrow> TokenCredential \<Rightarrow> Scope \<Rightarrow> 'w RecoveryReconciler" where
  "recovery_reconciler P mgr credential scope =
     \<lparr> rr_Client = mgr_Client mgr, rr_APIReader = Some (mgr_APIReader mgr),
       rr_Manager = Some (azure_recovery_manager (pf_ARM P)
         \<lparr> wrm_Credential = Some credential, wrm_Scope = scope, wrm_clientsFactory = None \<rparr>) \<rparr>"

definition issuer_controller :: "k8s_lib \<Rightarrow> Runtime option \<Rightarrow> 'w OIDCIssuerReconciler \<Rightarrow> 'w controller" where
  "issuer_controller L runtime r =
     \<lparr> ct_Name = ''oidcissuer'', ct_For = ForOIDCIssuer (primaryResourcePredicate oi_Meta),
       ct_Watches =
         [WatchWorkloadIdentity createDeleteOnlyPredicate (\<lambda>m. State_Monad.return oidcIssuerForWorkloadIdentity)] @
         (if ir_OpenShift r \<noteq> None
          then [WatchAuthentication (\<lambda>m. State_Monad.return (oidcIssuerForAuthentication (Name m)))] else []),
       ct_MaxConcurrentReconciles = 0,
       ct_Reconciler = WrapReconciler runtime ''oidcissuer.reconcile'' ''OIDCIssuer''
         (\<lambda>request. Issuer_Reconcile L r (nn_Name request)) \<rparr>"

definition identity_controller :: "k8s_lib \<Rightarrow> Runtime option \<Rightarrow> 'w WorkloadIdentityReconciler \<Rightarrow> 'w controller" where
  "identity_controller L runtime r =
     \<lparr> ct_Name = ''workloadidentity'', ct_For = ForWorkloadIdentity (workloadIdentityPrimaryPredicate L),
       ct_Watches = [WatchOIDCIssuer (oidcIssuerDependencyPredicate L) (workloadIdentitiesForOIDCIssuer r),
         WatchServiceAccount serviceAccountDependencyPredicate (workloadIdentitiesForServiceAccount r)],
       ct_MaxConcurrentReconciles = 0,
       ct_Reconciler = WrapReconciler runtime ''workloadidentity.reconcile'' ''WorkloadIdentity''
         (WorkloadIdentity_Reconcile L r) \<rparr>"

definition workloadIdentityRecoveryTargetIndex :: string where
  "workloadIdentityRecoveryTargetIndex = ''workloadidentityrecovery.activeWorkloadIdentityRef''"

definition recovery_controller :: "k8s_lib \<Rightarrow> Runtime option \<Rightarrow> 'w RecoveryReconciler \<Rightarrow> 'w controller" where
  "recovery_controller L runtime r =
     \<lparr> ct_Name = ''workloadidentityrecovery'', ct_For = ForWorkloadIdentityRecovery (primaryResourcePredicate r_Meta),
       ct_Watches = [WatchWorkloadIdentity (workloadIdentityRecoveryTargetPredicate L)
         (\<lambda>m. recoveriesForWorkloadIdentity L r m workloadIdentityRecoveryTargetIndex)],
       ct_MaxConcurrentReconciles = 1,
       ct_Reconciler = WrapReconciler runtime ''workloadidentityrecovery.reconcile'' ''WorkloadIdentityRecovery''
         (Recovery_Reconcile L r) \<rparr>"

definition serviceAccountNameIndex :: "'w startup_call" where
  "serviceAccountNameIndex = IndexWorkloadIdentities workloadIdentityServiceAccountNameIndex
     (\<lambda>identity. [sar_Name (wis_ServiceAccount (wi_Spec identity))])"

definition identityUIDIndex :: "'w startup_call" where
  "identityUIDIndex = IndexWorkloadIdentities workloadIdentityUIDIndex (\<lambda>identity. [UID (wi_Meta identity)])"

definition activeTargetIndex :: "k8s_lib \<Rightarrow> 'w startup_call" where
  "activeTargetIndex L = IndexRecoveries workloadIdentityRecoveryTargetIndex (activeRecoveryTargetIndexValues L)"

definition Issuer_SetupWithManager :: "'w ctrl_manager \<Rightarrow> 'w controller \<Rightarrow> ('w process, unit) io" where
  "Issuer_SetupWithManager mgr c = register mgr (CompleteController c)"

definition Identity_SetupWithManager :: "'w ctrl_manager \<Rightarrow> 'w controller \<Rightarrow> ('w process, unit) io" where
  "Identity_SetupWithManager mgr c =
     io_try (errorf_wrap ''index WorkloadIdentities by ServiceAccount name'' (register mgr serviceAccountNameIndex)) (\<lambda>_.
     io_try (errorf_wrap ''index WorkloadIdentities by UID'' (register mgr identityUIDIndex)) (\<lambda>_.
     register mgr (CompleteController c)))"

definition Recovery_SetupWithManager :: "k8s_lib \<Rightarrow> 'w ctrl_manager \<Rightarrow> 'w controller \<Rightarrow> ('w process, unit) io" where
  "Recovery_SetupWithManager L mgr c =
     io_try (errorf_wrap ''index active WorkloadIdentityRecoveries by target reference''
       (register mgr (activeTargetIndex L))) (\<lambda>_.
     register mgr (CompleteController c))"

text \<open>\<open>named\<close> pairs an error with the name returned beside it.\<close>

definition named :: "string \<Rightarrow> ('w, 'a) io \<Rightarrow> ('w, string \<times> go_error, 'a) eio" where
  "named name m = io_map_err (Pair name) m"

definition registerControllers :: "'w platform \<Rightarrow> 'w ctrl_manager \<Rightarrow> TokenCredential \<Rightarrow> Scope \<Rightarrow>
    'w ServiceAccountIssuerClient iface \<Rightarrow> 'w ServiceAccountTokenClient iface \<Rightarrow> operatorFlagValues \<Rightarrow>
    Runtime option \<Rightarrow> ('w process, string \<times> go_error, unit) eio" where
  "registerControllers P mgr credential scope openshift tokens config runtime =
     io_try (named ''oidcissuer'' (Issuer_SetupWithManager mgr (issuer_controller (pf_Lib P) runtime
       (issuer_reconciler P mgr credential scope openshift tokens config)))) (\<lambda>_.
     io_try (named ''workloadidentity'' (Identity_SetupWithManager mgr (identity_controller (pf_Lib P) runtime
       (identity_reconciler P mgr credential scope config)))) (\<lambda>_.
     named ''workloadidentityrecovery'' (Recovery_SetupWithManager (pf_Lib P) mgr (recovery_controller (pf_Lib P) runtime
       (recovery_reconciler P mgr credential scope)))))"

definition issuer_validator :: "'w platform \<Rightarrow> 'w ctrl_manager \<Rightarrow> 'w ServiceAccountIssuerReader iface \<Rightarrow>
    'w ServiceAccountTokenClient iface \<Rightarrow> 'w OIDCIssuerValidator" where
  "issuer_validator P mgr openshift tokens =
     \<lparr> iv_Client = Some (mgr_APIReader mgr), iv_OpenShift = methods issuer_reader_methods openshift,
       iv_ServiceAccountTokens = methods (CurrentIssuer (pf_JsonError P)) tokens \<rparr>"

definition recovery_validator :: "'w ctrl_manager \<Rightarrow> 'w WorkloadIdentityRecoveryValidator" where
  "recovery_validator mgr =
     \<lparr> rv_Client = Some (mgr_APIReader mgr), rv_RecoveryClient = Some (ClusterReader (mgr_Client mgr)) \<rparr>"

definition registerWebhooks :: "'w platform \<Rightarrow> 'w ctrl_manager \<Rightarrow> 'w ServiceAccountIssuerReader iface \<Rightarrow>
    'w ServiceAccountTokenClient iface \<Rightarrow> ('w process, string \<times> go_error, unit) eio" where
  "registerWebhooks P mgr openshift tokens =
     io_try (named ''OIDCIssuer'' (register mgr (OIDCIssuerWebhook (issuer_validator P mgr openshift tokens)))) (\<lambda>_.
     io_try (named ''WorkloadIdentity'' (register mgr (WorkloadIdentityWebhook (mgr_APIReader mgr)))) (\<lambda>_.
     named ''WorkloadIdentityRecovery'' (register mgr (WorkloadIdentityRecoveryWebhook (recovery_validator mgr)))))"

definition registerHealthChecks :: "'w ctrl_manager \<Rightarrow> checker option \<Rightarrow> ('w process, unit) io" where
  "registerHealthChecks mgr webhookStarted =
     io_try (errorf_wrap ''add health check'' (register mgr (AddHealthzCheck ''healthz'' Ping))) (\<lambda>_.
     io_try (errorf_wrap ''add ready check'' (register mgr (AddReadyzCheck ''readyz'' Ping))) (\<lambda>_.
       case webhookStarted of
         None \<Rightarrow> io_return ()
       | Some check \<Rightarrow> errorf_wrap ''add webhook ready check'' (register mgr (AddReadyzCheck ''webhook'' check))))"

section \<open>main\<close>

definition trim_prefix :: "string \<Rightarrow> string \<Rightarrow> string" where
  "trim_prefix p s = (if take (length p) s = p then drop (length p) s else s)"

definition operatorVersion :: "'w platform \<Rightarrow> string" where
  "operatorVersion P =
     (let version = trim_space (pf_Getenv P ''OPERATOR_VERSION'') in
      if version \<noteq> '''' then trim_prefix ''v'' version
      else case pf_BuildVersion P of
          None \<Rightarrow> ''devel''
        | Some build \<Rightarrow> if build \<noteq> '''' \<and> build \<noteq> ''(devel)'' then trim_prefix ''v'' build else ''devel'')"

definition newTelemetryRuntime :: "'w platform \<Rightarrow> bool \<Rightarrow> ('w, Runtime option) state" where
  "newTelemetryRuntime P enabled = map_state (\<lambda>(runtime, err). Some runtime)
     (New_Runtime (pf_ParseFloat P) (pf_Getenv P) (pf_Telemetry P)
        \<lparr> cfg_Enabled = enabled, cfg_ServiceVersion = operatorVersion P, cfg_PodName = pf_Getenv P ''POD_NAME'',
          cfg_PodUID = pf_Getenv P ''POD_UID'', cfg_PodNamespace = pf_Getenv P podNamespaceEnvVar \<rparr>)"

definition shutdownTelemetry :: "'w platform \<Rightarrow> Runtime option \<Rightarrow> ('w, unit) state" where
  "shutdownTelemetry P runtime = map_state (\<lambda>_. ()) (Shutdown_Runtime (pf_Telemetry P) runtime)"

record startup_failure =
  sf_Message :: string
  sf_Name :: "string option"
  sf_Err :: go_error

definition fatal :: "string \<Rightarrow> ('w, 'a) io \<Rightarrow> ('w, startup_failure, 'a) eio" where
  "fatal message m = io_map_err (\<lambda>e. \<lparr> sf_Message = message, sf_Name = None, sf_Err = e \<rparr>) m"

definition fatal_named :: "string \<Rightarrow> ('w, string \<times> go_error, 'a) eio \<Rightarrow> ('w, startup_failure, 'a) eio" where
  "fatal_named message m = io_map_err (\<lambda>(name, e). \<lparr> sf_Message = message, sf_Name = Some name, sf_Err = e \<rparr>) m"

definition configured_scope :: "operatorFlagValues \<Rightarrow> go_error + Scope" where
  "configured_scope config = NewScope (sf_subscriptionID (azureScopeFlags config))
     (sf_resourceGroupName (azureScopeFlags config)) (sf_location (azureScopeFlags config))"

definition leaderElectionID :: string where "leaderElectionID = ''052b777d.micosolutions.se''"

definition newManagerOptions :: "operatorFlagValues \<Rightarrow> Runtime option \<Rightarrow> manager_options" where
  "newManagerOptions config runtime =
     (let tlsOpts = tlsOptions (enableHTTP2 config) in
      \<lparr> mg_Metrics = newMetricsServerOptions config tlsOpts,
        mg_WebhookServer = WrapWebhookServer runtime (Some (newWebhookServerOptions (webhookCertificate config) tlsOpts)),
        mg_HealthProbeBindAddress = healthProbeAddress config, mg_LeaderElection = enableLeaderElection config,
        mg_LeaderElectionID = leaderElectionID, mg_LeaderElectionReleaseOnCancel = True \<rparr>)"

definition previousUIDIndex :: "'w startup_call" where
  "previousUIDIndex = IndexRecoveries RecoveryPreviousWorkloadIdentityUIDIndex (\<lambda>recovery. [r_SourceUID recovery])"

definition IndexRecoveriesByPreviousWorkloadIdentityUID :: "'w ctrl_manager \<Rightarrow> ('w process, unit) io" where
  "IndexRecoveriesByPreviousWorkloadIdentityUID mgr =
     errorf_wrap ''index WorkloadIdentityRecoveries by previous WorkloadIdentity UID''
       (register mgr previousUIDIndex)"

definition webhooks_enabled :: "'w platform \<Rightarrow> bool" where
  "webhooks_enabled P \<longleftrightarrow> pf_Getenv P ''ENABLE_WEBHOOKS'' \<noteq> ''false''"

text \<open>From the clients on: what is registered, and the start.\<close>

definition register_and_start :: "'w platform \<Rightarrow> operatorFlagValues \<Rightarrow> Runtime option \<Rightarrow> 'w ctrl_manager \<Rightarrow>
    TokenCredential \<Rightarrow> Scope \<Rightarrow> 'w ServiceAccountIssuerClient option \<times> 'w ServiceAccountIssuerReader option \<Rightarrow>
    ('w process, startup_failure, unit) eio" where
  "register_and_start P config runtime mgr credential scope openshift =
     (let tokens = serviceAccountTokenGuard (newServiceAccountTokenClient (pf_Getenv P) (mgr_Tokens mgr)) in
      io_try (fatal_named ''Failed to create controller''
        (registerControllers P mgr credential scope (Pointer (fst openshift)) tokens config runtime)) (\<lambda>_.
      io_try (if webhooks_enabled P
              then fatal_named ''Failed to create webhook'' (registerWebhooks P mgr (Pointer (snd openshift)) tokens)
              else io_return ()) (\<lambda>_.
      io_try (fatal ''Failed to set up health checks''
        (registerHealthChecks mgr (if webhooks_enabled P then Some WebhookStarted else None))) (\<lambda>_.
      fatal ''Failed to run manager'' (register mgr StartManager)))))"

definition run_manager :: "'w platform \<Rightarrow> operatorFlagValues \<Rightarrow> Runtime option \<Rightarrow> Scope \<Rightarrow> 'w ctrl_manager \<Rightarrow>
    ('w process, startup_failure, unit) eio" where
  "run_manager P config runtime scope mgr =
     io_try (fatal ''Failed to configure WorkloadIdentityRecovery index''
       (IndexRecoveriesByPreviousWorkloadIdentityUID mgr)) (\<lambda>_.
     io_try (fatal ''Failed to create Azure credential''
       (on_world (external (pf_NewCredential P (AzureTracingProvider runtime))))) (\<lambda>credential.
     io_try (fatal ''Failed to discover OpenShift Authentication API''
       (on_world (openShiftServiceAccountIssuerClients P mgr))) (\<lambda>openshift.
     register_and_start P config runtime mgr credential scope openshift)))"

definition run_operator :: "'w platform \<Rightarrow> operatorFlagValues \<Rightarrow> Runtime option \<Rightarrow> ('w process, startup_failure, unit) eio" where
  "run_operator P config runtime =
     io_try (fatal ''Invalid Azure scope configuration'' (io_of (configured_scope config))) (\<lambda>scope.
     io_try (if azureScopeAnchorDirectory config \<noteq> ''''
             then fatal ''Azure startup scope validation failed''
               (on_world (ValidateScopeAnchor (pf_ReadFile P) scope (azureScopeAnchorDirectory config)))
             else io_return ()) (\<lambda>_.
     io_try (fatal ''unable to get kubeconfig'' (on_world (external (pf_GetConfig P)))) (\<lambda>restConfig.
     io_try (fatal ''Failed to start manager'' (on_world (external
       (pf_NewManager P (WrapRESTConfig runtime (Some restConfig)) (newManagerOptions config runtime))))) (\<lambda>mgr.
     run_manager P config runtime scope mgr))))"

text \<open>\<open>os.Exit\<close> ends the process without the deferred shutdown of the tracing runtime.\<close>

definition main :: "'w platform \<Rightarrow> operatorFlagValues \<Rightarrow> ('w process, startup_failure option) state" where
  "main P config =
     State_Monad.bind (on_world (newTelemetryRuntime P (telemetryTracingEnabled config))) (\<lambda>runtime.
     State_Monad.bind (run_operator P config runtime) (\<lambda>r. case r of
       Inl failure \<Rightarrow> State_Monad.return (Some failure)
     | Inr _ \<Rightarrow> State_Monad.bind (on_world (shutdownTelemetry P runtime)) (\<lambda>_. State_Monad.return None)))"

end
