(* ===== verification/Startup_Properties.thy ===== *)
theory Startup_Properties
  imports Startup
begin

text \<open>
  What the startup guarantees: the manager runs only with an Azure scope that is valid and matches its anchor,
  and with exactly the reconcilers, validators and checks the program means to register; and what the program
  does on a cluster without the OpenShift API, where its OpenShift client is a nil pointer in an interface.
\<close>

section \<open>The registrations of a run\<close>

text \<open>\<open>emits xs m\<close>: a run of \<open>m\<close> registers \<open>xs\<close>, or a part of it up to the call that fails.\<close>

definition emits :: "'w startup_call list \<Rightarrow> ('w process, 'e, 'a) eio \<Rightarrow> bool" where
  "emits xs m \<longleftrightarrow> (\<forall>p r p'. run_state m p = (r, p') \<longrightarrow>
     (\<exists>ys. prefix ys xs \<and> pr_calls p' = pr_calls p @ ys \<and> (isl r \<or> ys = xs)))"

lemma emitsI:
  "(\<And>p r p'. run_state m p = (r, p') \<Longrightarrow>
     \<exists>ys. prefix ys xs \<and> pr_calls p' = pr_calls p @ ys \<and> (isl r \<or> ys = xs)) \<Longrightarrow> emits xs m"
  by (simp add: emits_def)

lemma emitsE:
  assumes "emits xs m" "run_state m p = (r, p')"
  obtains ys where "prefix ys xs" "pr_calls p' = pr_calls p @ ys" "isl r \<or> ys = xs"
  using assms unfolding emits_def by blast

lemma emits_Inr: "emits xs m \<Longrightarrow> run_state m p = (Inr a, p') \<Longrightarrow> pr_calls p' = pr_calls p @ xs"
  by (auto elim: emitsE)

lemma index_calls [simp]:
  "StartManager \<noteq> serviceAccountNameIndex" "StartManager \<noteq> identityUIDIndex" "StartManager \<noteq> activeTargetIndex L"
  "StartManager \<noteq> previousUIDIndex"
  by (simp_all add: serviceAccountNameIndex_def identityUIDIndex_def activeTargetIndex_def previousUIDIndex_def)

named_theorems emits_intros \<open>compositional rules for emits\<close>

lemma run_on_world [run_simps]:
  "run_state (on_world m) p = (case run_state m (pr_world p) of (a, w') \<Rightarrow> (a, p\<lparr>pr_world := w'\<rparr>))"
  by (simp add: on_world_def)

lemma run_register [run_simps]:
  "run_state (register mgr c) p = (case run_state (external (mgr_Register mgr c)) (pr_world p) of
     (r, w') \<Rightarrow> (r, \<lparr> pr_world = w', pr_calls = pr_calls p @ [c] \<rparr>))"
  by (simp add: register_def)

lemma emits_register [emits_intros]: "emits [c] (register mgr c)"
  by (rule emitsI) (auto simp: run_register split: prod.splits)

lemma emits_silent [emits_intros]: "emits [] (on_world m)" "emits [] (io_return a)" "emits [] (io_of r)"
  by (auto intro!: emitsI simp: run_simps split: prod.splits)

lemma emits_map_err [emits_intros]: "emits xs m \<Longrightarrow> emits xs (io_map_err f m)"
  by (rule emitsI) (auto simp: run_io_map_err split: prod.splits sum.splits elim: emitsE)

lemma emits_wrappers [emits_intros]:
  "emits xs m \<Longrightarrow> emits xs (errorf_wrap p m)" "emits xs n \<Longrightarrow> emits xs (named x n)"
  "emits xs m \<Longrightarrow> emits xs (fatal message m)" "emits xs q \<Longrightarrow> emits xs (fatal_named message q)"
  by (simp_all add: errorf_wrap_def named_def fatal_def fatal_named_def emits_map_err)

lemma emits_if [emits_intros]: "emits xs m \<Longrightarrow> emits ys n \<Longrightarrow> emits (if b then xs else ys) (if b then m else n)"
  by simp

lemma emits_try [emits_intros]:
  assumes m: "emits xs m" and k: "\<And>a. emits ys (k a)"
  shows "emits (xs @ ys) (io_try m k)"
proof (rule emitsI)
  fix p r p'
  assume run: "run_state (io_try m k) p = (r, p')"
  obtain q p1 where m_run: "run_state m p = (q, p1)" by fastforce
  show "\<exists>zs. prefix zs (xs @ ys) \<and> pr_calls p' = pr_calls p @ zs \<and> (isl r \<or> zs = xs @ ys)"
  proof (cases q)
    case (Inl e)
    then have "r = Inl e" "p' = p1" using run m_run by (simp_all add: run_io_try)
    then show ?thesis using m m_run by (metis emitsE isl_def prefix_prefix)
  next
    case (Inr a)
    then have "run_state (k a) p1 = (r, p')" using run m_run by (simp add: run_io_try)
    then obtain zs where "prefix zs ys" "pr_calls p' = pr_calls p1 @ zs" "isl r \<or> zs = ys"
      using k[of a] by (blast elim: emitsE)
    moreover have "pr_calls p1 = pr_calls p @ xs" using m m_run Inr by (blast intro: emits_Inr)
    ultimately show ?thesis by (intro exI[of _ "xs @ zs"]) auto
  qed
qed

text \<open>What a start registers: the reconcilers and their indexes, the validators, the checks, the start.\<close>

definition controller_calls :: "'w platform \<Rightarrow> operatorFlagValues \<Rightarrow> Runtime option \<Rightarrow> 'w ctrl_manager \<Rightarrow>
    TokenCredential \<Rightarrow> Scope \<Rightarrow> 'w ServiceAccountIssuerClient iface \<Rightarrow> 'w ServiceAccountTokenClient iface \<Rightarrow>
    'w startup_call list" where
  "controller_calls P config runtime mgr credential scope openshift tokens =
     [CompleteController (issuer_controller (pf_Lib P) runtime
        (issuer_reconciler P mgr credential scope openshift tokens config)),
      serviceAccountNameIndex, identityUIDIndex,
      CompleteController (identity_controller (pf_Lib P) runtime (identity_reconciler P mgr credential scope config)),
      activeTargetIndex (pf_Lib P),
      CompleteController (recovery_controller (pf_Lib P) runtime (recovery_reconciler P mgr credential scope))]"

definition webhook_calls :: "'w platform \<Rightarrow> 'w ctrl_manager \<Rightarrow> 'w ServiceAccountIssuerReader iface \<Rightarrow>
    'w ServiceAccountTokenClient iface \<Rightarrow> 'w startup_call list" where
  "webhook_calls P mgr openshift tokens =
     (if webhooks_enabled P
      then [OIDCIssuerWebhook (issuer_validator P mgr openshift tokens), WorkloadIdentityWebhook (mgr_APIReader mgr),
            WorkloadIdentityRecoveryWebhook (recovery_validator mgr)]
      else [])"

definition health_calls :: "'w platform \<Rightarrow> 'w startup_call list" where
  "health_calls P = [AddHealthzCheck ''healthz'' Ping, AddReadyzCheck ''readyz'' Ping] @
     (if webhooks_enabled P then [AddReadyzCheck ''webhook'' WebhookStarted] else [])"

definition registrations :: "'w platform \<Rightarrow> operatorFlagValues \<Rightarrow> Runtime option \<Rightarrow> 'w ctrl_manager \<Rightarrow>
    TokenCredential \<Rightarrow> Scope \<Rightarrow> 'w ServiceAccountIssuerClient option \<times> 'w ServiceAccountIssuerReader option \<Rightarrow>
    'w startup_call list" where
  "registrations P config runtime mgr credential scope openshift =
     (let tokens = serviceAccountTokenGuard (newServiceAccountTokenClient (pf_Getenv P) (mgr_Tokens mgr)) in
      controller_calls P config runtime mgr credential scope (Pointer (fst openshift)) tokens @
      webhook_calls P mgr (Pointer (snd openshift)) tokens @ health_calls P)"

lemma emits_controllers:
  "emits (controller_calls P config runtime mgr credential scope openshift tokens)
     (registerControllers P mgr credential scope openshift tokens config runtime)"
proof -
  have "emits ([c1] @ ([i1] @ [i2] @ [c2]) @ [i3] @ [c3])
    (io_try (named x1 (register mgr c1)) (\<lambda>_.
     io_try (named x2 (io_try (errorf_wrap y1 (register mgr i1)) (\<lambda>_.
       io_try (errorf_wrap y2 (register mgr i2)) (\<lambda>_. register mgr c2)))) (\<lambda>_.
     named x3 (io_try (errorf_wrap y3 (register mgr i3)) (\<lambda>_. register mgr c3)))))"
    for c1 c2 c3 i1 i2 i3 x1 x2 x3 y1 y2 y3
    by (intro emits_intros)
  then show ?thesis
    unfolding controller_calls_def registerControllers_def Issuer_SetupWithManager_def Identity_SetupWithManager_def
      Recovery_SetupWithManager_def append.simps by simp
qed

lemma emits_webhooks:
  "emits [OIDCIssuerWebhook (issuer_validator P mgr openshift tokens), WorkloadIdentityWebhook (mgr_APIReader mgr),
      WorkloadIdentityRecoveryWebhook (recovery_validator mgr)] (registerWebhooks P mgr openshift tokens)"
proof -
  have "emits ([c1] @ [c2] @ [c3]) (io_try (named x1 (register mgr c1)) (\<lambda>_. io_try (named x2 (register mgr c2)) (\<lambda>_.
      named x3 (register mgr c3))))" for c1 c2 c3 x1 x2 x3
    by (intro emits_intros)
  then show ?thesis unfolding registerWebhooks_def by simp
qed

lemma emits_health:
  "emits (health_calls P) (registerHealthChecks mgr (if webhooks_enabled P then Some WebhookStarted else None))"
proof -
  have checks: "emits ([AddHealthzCheck ''healthz'' Ping] @ [AddReadyzCheck ''readyz'' Ping] @
      (if b then [AddReadyzCheck ''webhook'' WebhookStarted] else []))
    (io_try (errorf_wrap y1 (register mgr (AddHealthzCheck ''healthz'' Ping))) (\<lambda>_.
     io_try (errorf_wrap y2 (register mgr (AddReadyzCheck ''readyz'' Ping))) (\<lambda>_.
       if b then errorf_wrap y3 (register mgr (AddReadyzCheck ''webhook'' WebhookStarted)) else io_return ())))"
    for b y1 y2 y3
    by (intro emits_intros)
  show ?thesis
    using checks[of "webhooks_enabled P" "''add health check''" "''add ready check''" "''add webhook ready check''"]
    unfolding health_calls_def registerHealthChecks_def by (cases "webhooks_enabled P") simp_all
qed

lemma emits_register_and_start:
  "emits (registrations P config runtime mgr credential scope openshift @ [StartManager])
     (register_and_start P config runtime mgr credential scope openshift)"
  unfolding registrations_def register_and_start_def Let_def append_assoc webhook_calls_def
  by (intro emits_intros emits_controllers emits_webhooks emits_health)

lemma registrations_no_start: "StartManager \<notin> set (registrations P config runtime mgr credential scope openshift)"
  by (simp add: registrations_def controller_calls_def webhook_calls_def health_calls_def Let_def)

lemma started_prefix: "prefix ys (xs @ [c]) \<Longrightarrow> c \<in> set ys \<Longrightarrow> c \<notin> set xs \<Longrightarrow> ys = xs @ [c]"
  by (auto simp: prefix_snoc dest: set_mono_prefix)

section \<open>Only a valid scope starts the manager\<close>

text \<open>The stages before the registrations, seen from the start: each has succeeded.\<close>

lemma io_try_continues:
  assumes "run_state (io_try m k) p = (r, p')" and "c \<in> set (pr_calls p')" "c \<notin> set (pr_calls p)"
    and "emits xs m" "c \<notin> set xs"
  obtains a p1 where "run_state m p = (Inr a, p1)" "run_state (k a) p1 = (r, p')" "pr_calls p1 = pr_calls p @ xs"
proof -
  obtain q p1 where m: "run_state m p = (q, p1)" by fastforce
  show thesis
  proof (cases q)
    case (Inl e)
    then have "p' = p1" using assms(1) m by (simp add: run_io_try)
    moreover obtain ys where "prefix ys xs" "pr_calls p1 = pr_calls p @ ys" using assms(4) m by (rule emitsE)
    ultimately show thesis using assms(2,3,5) set_mono_prefix[of ys xs] by auto
  next
    case (Inr a)
    then show thesis using that assms(1) m emits_Inr[OF assms(4)] by (simp add: run_io_try)
  qed
qed

lemma world_continues:
  assumes "run_state (io_try (fatal message (on_world m)) k) p = (r, p')"
    and "c \<in> set (pr_calls p')" "c \<notin> set (pr_calls p)"
  obtains a p1 where "run_state m (pr_world p) = (Inr a, pr_world p1)" "run_state (k a) p1 = (r, p')"
    "pr_calls p1 = pr_calls p"
proof -
  have silent: "emits [] (fatal message (on_world m))" by (intro emits_intros)
  show thesis
  proof (rule io_try_continues[OF assms silent])
    fix a p1
    assume m: "run_state (fatal message (on_world m)) p = (Inr a, p1)" and k: "run_state (k a) p1 = (r, p')"
      "pr_calls p1 = pr_calls p @ []"
    have "run_state m (pr_world p) = (Inr a, pr_world p1)"
      using m by (auto simp: fatal_def run_simps split: prod.splits sum.splits)
    then show thesis using that k by simp
  qed simp
qed

lemma run_external_Inr: "run_state (external m) w = (Inr a, w') \<longleftrightarrow> run_state m w = (Inr a, w')"
  by (auto simp: run_external split: prod.splits sum.splits)

lemma run_wrapped_Inr:
  "run_state (fatal message m) p = (Inr a, p') \<longleftrightarrow> run_state m p = (Inr a, p')"
  "run_state (errorf_wrap x n) p = (Inr a, p') \<longleftrightarrow> run_state n p = (Inr a, p')"
  by (auto simp: fatal_def run_io_map_err run_errorf_wrap split: prod.splits sum.splits)

lemma register_InrD:
  "run_state (register mgr c) p = (Inr a, p') \<Longrightarrow> run_state (mgr_Register mgr c) (pr_world p) = (Inr a, pr_world p')"
  by (auto simp: run_register run_external split: prod.splits sum.splits)

text \<open>Each stage runs in the world the previous one left.\<close>

definition clients_created :: "'w platform \<Rightarrow> Runtime option \<Rightarrow> 'w ctrl_manager \<Rightarrow> TokenCredential \<Rightarrow>
    'w ServiceAccountIssuerClient option \<times> 'w ServiceAccountIssuerReader option \<Rightarrow> 'w \<Rightarrow> 'w \<Rightarrow> bool" where
  "clients_created P runtime mgr credential openshift w w' \<longleftrightarrow>
     (\<exists>w1 w2. run_state (mgr_Register mgr previousUIDIndex) w = (Inr (), w1) \<and>
        run_state (pf_NewCredential P (AzureTracingProvider runtime)) w1 = (Inr credential, w2) \<and>
        run_state (openShiftServiceAccountIssuerClients P mgr) w2 = (Inr openshift, w'))"

lemma run_manager_started:
  assumes run: "run_state (run_manager P config runtime scope mgr) p = (r, p')"
    and started: "StartManager \<in> set (pr_calls p')" "StartManager \<notin> set (pr_calls p)"
  shows "\<exists>credential openshift w. clients_created P runtime mgr credential openshift (pr_world p) w \<and>
     run_state (register_and_start P config runtime mgr credential scope openshift)
       \<lparr> pr_world = w, pr_calls = pr_calls p @ [previousUIDIndex] \<rparr> = (r, p') \<and>
     pr_calls p' = pr_calls p @ previousUIDIndex #
       registrations P config runtime mgr credential scope openshift @ [StartManager]"
proof -
  let ?index = "previousUIDIndex"
  have "emits [?index] (fatal ''Failed to configure WorkloadIdentityRecovery index''
      (IndexRecoveriesByPreviousWorkloadIdentityUID mgr))"
    unfolding IndexRecoveriesByPreviousWorkloadIdentityUID_def by (intro emits_intros)
  from io_try_continues[OF run[unfolded run_manager_def] started this]
  obtain p1 a where p1: "pr_calls p1 = pr_calls p @ [?index]"
    and indexed: "run_state (fatal ''Failed to configure WorkloadIdentityRecovery index''
      (IndexRecoveriesByPreviousWorkloadIdentityUID mgr)) p = (Inr a, p1)"
    and run1: "run_state (io_try (fatal ''Failed to create Azure credential''
       (on_world (external (pf_NewCredential P (AzureTracingProvider runtime))))) (\<lambda>credential.
     io_try (fatal ''Failed to discover OpenShift Authentication API''
       (on_world (openShiftServiceAccountIssuerClients P mgr))) (\<lambda>openshift.
     register_and_start P config runtime mgr credential scope openshift))) p1 = (r, p')"
    by auto
  have index: "run_state (mgr_Register mgr ?index) (pr_world p) = (Inr (), pr_world p1)"
    using indexed unfolding IndexRecoveriesByPreviousWorkloadIdentityUID_def run_wrapped_Inr by (auto dest: register_InrD)
  have fresh: "StartManager \<notin> set (pr_calls p1)" using started p1 by simp
  obtain credential p2 where p2: "pr_calls p2 = pr_calls p1"
    and created: "run_state (external (pf_NewCredential P (AzureTracingProvider runtime))) (pr_world p1) = (Inr credential, pr_world p2)"
    and run2: "run_state (io_try (fatal ''Failed to discover OpenShift Authentication API''
       (on_world (openShiftServiceAccountIssuerClients P mgr))) (\<lambda>openshift.
     register_and_start P config runtime mgr credential scope openshift)) p2 = (r, p')"
    by (rule world_continues[OF run1 started(1) fresh])
  obtain openshift p3 where p3: "pr_calls p3 = pr_calls p2"
    and found: "run_state (openShiftServiceAccountIssuerClients P mgr) (pr_world p2) = (Inr openshift, pr_world p3)"
    and run3: "run_state (register_and_start P config runtime mgr credential scope openshift) p3 = (r, p')"
    by (rule world_continues[OF run2 started(1)]) (use fresh p2 in auto)
  obtain ys where ys: "prefix ys (registrations P config runtime mgr credential scope openshift @ [StartManager])"
    "pr_calls p' = pr_calls p3 @ ys"
    using emits_register_and_start run3 by (rule emitsE)
  have "ys = registrations P config runtime mgr credential scope openshift @ [StartManager]"
    using ys started fresh p2 p3 by (intro started_prefix registrations_no_start) auto
  then have "pr_calls p' = pr_calls p @ ?index # registrations P config runtime mgr credential scope openshift @ [StartManager]"
    using ys p1 p2 p3 by simp
  moreover have "clients_created P runtime mgr credential openshift (pr_world p) (pr_world p3)"
    unfolding clients_created_def using index created[unfolded run_external_Inr] found by blast
  moreover have p: "p3 = \<lparr> pr_world = pr_world p3, pr_calls = pr_calls p @ [?index] \<rparr>" using p1 p2 p3 by simp
  have "run_state (register_and_start P config runtime mgr credential scope openshift)
       \<lparr> pr_world = pr_world p3, pr_calls = pr_calls p @ [?index] \<rparr> = (r, p')"
    using run3 unfolding p[symmetric] .
  ultimately show ?thesis by (intro exI[of _ credential] exI[of _ openshift] exI[of _ "pr_world p3"] conjI)
qed

text \<open>The anchor, when a directory is configured, is read and agrees with the scope.\<close>

definition anchored :: "'w platform \<Rightarrow> operatorFlagValues \<Rightarrow> Scope \<Rightarrow> 'w \<Rightarrow> 'w \<Rightarrow> bool" where
  "anchored P config scope w w' \<longleftrightarrow>
     (if azureScopeAnchorDirectory config = '''' then w' = w
      else run_state (ValidateScopeAnchor (pf_ReadFile P) scope (azureScopeAnchorDirectory config)) w = (Inr (), w'))"

definition manager_created :: "'w platform \<Rightarrow> operatorFlagValues \<Rightarrow> Runtime option \<Rightarrow> 'w ctrl_manager \<Rightarrow> 'w \<Rightarrow> 'w \<Rightarrow> bool" where
  "manager_created P config runtime mgr w w' \<longleftrightarrow>
     (\<exists>restConfig w1. run_state (pf_GetConfig P) w = (Inr restConfig, w1) \<and>
        run_state (pf_NewManager P (WrapRESTConfig runtime (Some restConfig)) (newManagerOptions config runtime)) w1 = (Inr mgr, w'))"

lemma run_operator_started:
  assumes run: "run_state (run_operator P config runtime) p = (r, p')"
    and started: "StartManager \<in> set (pr_calls p')" "StartManager \<notin> set (pr_calls p)"
  shows "\<exists>scope mgr w p1. configured_scope config = Inr scope \<and> anchored P config scope (pr_world p) w \<and>
     manager_created P config runtime mgr w (pr_world p1) \<and>
     run_state (run_manager P config runtime scope mgr) p1 = (r, p') \<and> pr_calls p1 = pr_calls p"
proof -
  let ?rest = "\<lambda>scope. io_try (fatal ''unable to get kubeconfig'' (on_world (external (pf_GetConfig P)))) (\<lambda>restConfig.
     io_try (fatal ''Failed to start manager'' (on_world (external
       (pf_NewManager P (WrapRESTConfig runtime (Some restConfig)) (newManagerOptions config runtime))))) (\<lambda>mgr.
     run_manager P config runtime scope mgr))"
  have "r \<noteq> Inl f \<or> p' \<noteq> p" for f using started by auto
  then obtain scope where scope: "configured_scope config = Inr scope"
    using run by (cases "configured_scope config") (auto simp: run_operator_def fatal_def run_simps)
  have "\<exists>p1. anchored P config scope (pr_world p) (pr_world p1) \<and>
     run_state (?rest scope) p1 = (r, p') \<and> pr_calls p1 = pr_calls p"
  proof (cases "azureScopeAnchorDirectory config = ''''")
    case True
    then have "run_state (?rest scope) p = (r, p')"
      using run scope by (simp add: run_operator_def fatal_def run_io_try run_io_map_err)
    then show ?thesis using True by (auto simp: anchored_def)
  next
    case False
    then have anchor: "run_state (io_try (fatal ''Azure startup scope validation failed''
        (on_world (ValidateScopeAnchor (pf_ReadFile P) scope (azureScopeAnchorDirectory config)))) (\<lambda>_. ?rest scope)) p = (r, p')"
      using run scope by (simp add: run_operator_def fatal_def run_io_try run_io_map_err)
    from world_continues[OF anchor started] obtain u p1 where
      "run_state (ValidateScopeAnchor (pf_ReadFile P) scope (azureScopeAnchorDirectory config)) (pr_world p)
        = (Inr u, pr_world p1)" and rest: "run_state (?rest scope) p1 = (r, p')" "pr_calls p1 = pr_calls p" by blast
    then have "anchored P config scope (pr_world p) (pr_world p1)" using False by (simp add: anchored_def)
    then show ?thesis using rest by blast
  qed
  then obtain p1 where checked: "anchored P config scope (pr_world p) (pr_world p1)"
    and run1: "run_state (?rest scope) p1 = (r, p')" and p1: "pr_calls p1 = pr_calls p" by blast
  have "StartManager \<notin> set (pr_calls p1)" using started p1 by simp
  from world_continues[OF run1 started(1) this] obtain c p2 where p2: "pr_calls p2 = pr_calls p1"
    and got: "run_state (external (pf_GetConfig P)) (pr_world p1) = (Inr c, pr_world p2)"
    and run2: "run_state (io_try (fatal ''Failed to start manager'' (on_world (external
       (pf_NewManager P (WrapRESTConfig runtime (Some c)) (newManagerOptions config runtime))))) (\<lambda>mgr.
     run_manager P config runtime scope mgr)) p2 = (r, p')" by blast
  have "StartManager \<notin> set (pr_calls p2)" using started p1 p2 by simp
  from world_continues[OF run2 started(1) this] obtain mgr p3 where p3: "pr_calls p3 = pr_calls p2"
    and new: "run_state (external (pf_NewManager P (WrapRESTConfig runtime (Some c)) (newManagerOptions config runtime))) (pr_world p2)
      = (Inr mgr, pr_world p3)"
    and run3: "run_state (run_manager P config runtime scope mgr) p3 = (r, p')" by blast
  have "manager_created P config runtime mgr (pr_world p1) (pr_world p3)"
    unfolding manager_created_def using got new unfolding run_external_Inr by blast
  then show ?thesis using scope checked run3 p1 p2 p3 by metis
qed

lemma main_started:
  assumes run: "run_state (main P config) \<lparr> pr_world = w, pr_calls = [] \<rparr> = (failure, p')"
  obtains runtime w1 r p1 where "run_state (newTelemetryRuntime P (telemetryTracingEnabled config)) w = (runtime, w1)"
    "run_state (run_operator P config runtime) \<lparr> pr_world = w1, pr_calls = [] \<rparr> = (r, p1)"
    "pr_calls p' = pr_calls p1"
proof -
  obtain runtime w1 where rt: "run_state (newTelemetryRuntime P (telemetryTracingEnabled config)) w = (runtime, w1)" by fastforce
  obtain r p1 where op: "run_state (run_operator P config runtime) \<lparr> pr_world = w1, pr_calls = [] \<rparr> = (r, p1)" by fastforce
  have "pr_calls p' = pr_calls p1"
    using run rt op by (cases r) (auto simp: main_def run_on_world split: prod.splits)
  then show thesis using that[OF rt op] by simp
qed

text \<open>
  C39. The manager is started only after these steps of the same run, each in the world the previous one left: the
  tracing runtime is created; the configured Azure scope is valid and, when an anchor directory is configured, the anchor
  is read in that world and agrees with it; the client configuration is read and the manager is created with the options
  of the flags; the recovery index is registered with it, the Azure credential created and the OpenShift API
  discovered.  What is then registered, from the world this leaves, is exactly the program's
  list over that runtime, manager, credential, scope and OpenShift clients: the three reconcilers, their
  indexes, the admission webhooks unless disabled, and the health checks, with the start after all of them.
\<close>

theorem startup_safe:
  assumes run: "run_state (main P config) \<lparr> pr_world = w, pr_calls = [] \<rparr> = (failure, p')"
    and started: "StartManager \<in> set (pr_calls p')"
  shows "\<exists>runtime w1 scope w2 mgr w3 credential openshift w4 res p1.
     run_state (newTelemetryRuntime P (telemetryTracingEnabled config)) w = (runtime, w1) \<and>
     configured_scope config = Inr scope \<and> Scope_Validate scope = None \<and> anchored P config scope w1 w2 \<and>
     manager_created P config runtime mgr w2 w3 \<and>
     clients_created P runtime mgr credential openshift w3 w4 \<and>
     run_state (register_and_start P config runtime mgr credential scope openshift)
       \<lparr> pr_world = w4, pr_calls = [previousUIDIndex] \<rparr> = (res, p1) \<and> pr_calls p1 = pr_calls p' \<and>
     pr_calls p' = previousUIDIndex #
       registrations P config runtime mgr credential scope openshift @ [StartManager]"
proof -
  obtain runtime w1 r p1 where rt: "run_state (newTelemetryRuntime P (telemetryTracingEnabled config)) w = (runtime, w1)"
    and op: "run_state (run_operator P config runtime) \<lparr> pr_world = w1, pr_calls = [] \<rparr> = (r, p1)"
    and p1: "pr_calls p' = pr_calls p1"
    using main_started[OF run] .
  have fresh: "StartManager \<in> set (pr_calls p1)" using p1 started by simp
  obtain scope mgr w2 p2 where scope: "configured_scope config = Inr scope" and anchor: "anchored P config scope w1 w2"
    and mgr: "manager_created P config runtime mgr w2 (pr_world p2)"
    and run2: "run_state (run_manager P config runtime scope mgr) p2 = (r, p1)" and p2: "pr_calls p2 = []"
    using run_operator_started[OF op fresh] by auto
  have valid: "Scope_Validate scope = None" using scope NewScope_Inr by (auto simp: configured_scope_def)
  have "StartManager \<notin> set (pr_calls p2)" using p2 by simp
  from run_manager_started[OF run2 fresh this] obtain credential openshift w4 where
    "clients_created P runtime mgr credential openshift (pr_world p2) w4"
    "run_state (register_and_start P config runtime mgr credential scope openshift)
       \<lparr> pr_world = w4, pr_calls = [previousUIDIndex] \<rparr> = (r, p1)"
    "pr_calls p' = previousUIDIndex # registrations P config runtime mgr credential scope openshift @ [StartManager]"
    using p1 p2 by auto
  with rt scope valid anchor mgr p1[symmetric] show ?thesis by blast
qed

text \<open>A run that fails, a failing manager included, ends in the world it failed in: no span is flushed any more.\<close>

lemma failed_run_not_flushed:
  assumes "run_state (newTelemetryRuntime P (telemetryTracingEnabled config)) (pr_world p) = (runtime, w)"
    and "run_state (run_operator P config runtime) (p\<lparr>pr_world := w\<rparr>) = (Inl failure, p')"
  shows "run_state (main P config) p = (Some failure, p')"
  using assms by (simp add: main_def run_simps)

section \<open>A cluster without the OpenShift API\<close>

text \<open>
  There both clients are nil pointers, yet the interfaces that hold them are not nil: the reconciler watches
  a kind the cluster does not have, and the deletion of a published issuer cannot pass its last guard.
\<close>

lemma nil_openshift_client_watched:
  "WatchAuthentication (\<lambda>m. State_Monad.return (oidcIssuerForAuthentication (Name m)))
     \<in> set (ct_Watches (issuer_controller L runtime
       (issuer_reconciler P mgr credential scope (Pointer None) tokens config)))"
  by (simp add: issuer_controller_def issuer_reconciler_def methods_def)

lemma nil_openshift_client_blocks_deletion:
  assumes "HasPublishedIssuerURL issuer"
  shows "\<exists>err. run_state (check_openshift_handoff L
     (issuer_reconciler P mgr credential scope (Pointer None) tokens config) issuer) c = ((empty_Result, Some err), c)"
  using assms
  by (simp add: check_openshift_handoff_def CheckOpenShiftIssuerHandoff_def issuer_reconciler_def methods_def
      issuer_client_methods_def receiver_def run_simps)

text \<open>The token client is kept from this by its guard: without a pod identity the interface itself is nil.\<close>

lemma token_guard_nil:
  "ir_ServiceAccountTokens (issuer_reconciler P mgr credential scope openshift
     (serviceAccountTokenGuard (newServiceAccountTokenClient getenv api)) config) = None \<longleftrightarrow>
   getenv podNamespaceEnvVar = '''' \<or> getenv serviceAccountNameEnvVar = ''''"
  by (simp add: issuer_reconciler_def serviceAccountTokenGuard_def newServiceAccountTokenClient_def methods_def Let_def)

section \<open>A concrete start\<close>

definition demo_ctrl_manager :: "sim ctrl_manager" where
  "demo_ctrl_manager = \<lparr> mgr_Client = sim_cluster, mgr_APIReader = sim_reader,
     mgr_OpenShift = demo_api, mgr_OpenShiftReader = demo_api,
     mgr_Tokens = \<lparr> CreateToken = (\<lambda>k e. State_Monad.return (Inr ''token'')) \<rparr>,
     mgr_GetEventRecorder = (\<lambda>n i t r a m. State_Monad.return ()),
     mgr_RESTMapping = State_Monad.return (Inr ()), mgr_Register = (\<lambda>c. State_Monad.return (Inr ())) \<rparr>"

text \<open>The anchor directory holds the scope of \<open>valid_scope\<close>, written with other cases and a trailing newline.\<close>

definition demo_anchor :: "string \<Rightarrow> string" where
  "demo_anchor key = (if key = subscriptionIDAnchorKey then subscriptionID valid_scope
     else if key = resourceGroupNameAnchorKey then ''RG'' else location valid_scope @ [CHR 0x0A])"

definition demo_platform :: "sim platform" where
  "demo_platform = \<lparr> pf_Lib = std_lib, pf_Getenv = (\<lambda>n. if n = ''POD_NAMESPACE'' then ''operators'' else ''''),
     pf_BuildVersion = None, pf_ParseFloat = (\<lambda>s. None),
     pf_Telemetry = \<lparr> NewSpanExporter = State_Monad.return (Inr ''exporter''),
       ShutdownExporter = (\<lambda>e. State_Monad.return (Inr ())), NewResource = (\<lambda>kvs. State_Monad.return (Inr ''resource'')),
       SetGlobals = (\<lambda>p q. State_Monad.return ()), ShutdownProvider = (\<lambda>p. State_Monad.return (Inr ())) \<rparr>,
     pf_ReadFile = (\<lambda>d k. State_Monad.return (Inr (demo_anchor k))),
     pf_GetConfig = State_Monad.return (Inr ''kubeconfig''),
     pf_NewManager = (\<lambda>c options. State_Monad.return (Inr demo_ctrl_manager)),
     pf_NewCredential = (\<lambda>t. State_Monad.return (Inr ''credential'')), pf_IsNoMatchError = (\<lambda>e. True),
     pf_Crypto = demo_crypto,
     pf_Storage = \<lparr> ss_NewResourceGroupsClient = (\<lambda>s c. Inl kube_not_found),
       ss_NewAccountsClient = (\<lambda>s c. Inl kube_not_found), ss_NewBlobContainersClient = (\<lambda>s c. Inl kube_not_found),
       ss_NewBlobClient = (\<lambda>s c. Inl kube_not_found) \<rparr>,
     pf_ARM = sim_sdk valid_scope, pf_JsonError = (\<lambda>s. '''') \<rparr>"

definition demo_config :: operatorFlagValues where
  "demo_config = default_config\<lparr>telemetryTracingEnabled := True, azureScopeAnchorDirectory := ''/anchor'',
     azureScopeFlags := \<lparr> sf_subscriptionID = subscriptionID valid_scope,
       sf_resourceGroupName = resourceGroupName valid_scope, sf_location = location valid_scope \<rparr>\<rparr>"

lemma demo_config_simps:
  "telemetryTracingEnabled demo_config" "azureScopeAnchorDirectory demo_config = ''/anchor''"
  "azureScopeFlags demo_config = \<lparr> sf_subscriptionID = subscriptionID valid_scope,
       sf_resourceGroupName = resourceGroupName valid_scope, sf_location = location valid_scope \<rparr>"
  by (simp_all add: demo_config_def)

lemma demo_scope: "configured_scope demo_config = Inr valid_scope"
  by (simp add: configured_scope_def demo_config_simps) code_simp

lemma demo_anchored:
  "run_state (ValidateScopeAnchor (\<lambda>d k. State_Monad.return (Inr (demo_anchor k))) valid_scope ''/anchor'') w = (Inr (), w)"
proof -
  have parsed: "NewScope (demo_anchor subscriptionIDAnchorKey) (demo_anchor resourceGroupNameAnchorKey)
      (demo_anchor locationAnchorKey) = Inr (valid_scope\<lparr>resourceGroupName := ''RG''\<rparr>)"
    by code_simp
  have "scopeMismatchField valid_scope (valid_scope\<lparr>resourceGroupName := ''RG''\<rparr>) = ''''"
    by code_simp
  then show ?thesis
    by (simp add: ValidateScopeAnchor_def readScopeAnchor_def read_anchor_key_def run_simps parsed)
qed

lemma demo_registers:
  "\<exists>p'. run_state (register_and_start demo_platform demo_config runtime demo_ctrl_manager c s cs) p = (Inr (), p')"
proof -
  have "run_state (register demo_ctrl_manager x) q = (Inr (), q\<lparr>pr_calls := pr_calls q @ [x]\<rparr>)" for x q
    by (simp add: run_register demo_ctrl_manager_def run_external)
  then show ?thesis
    by (simp add: register_and_start_def registerControllers_def registerWebhooks_def registerHealthChecks_def
        Issuer_SetupWithManager_def Identity_SetupWithManager_def Recovery_SetupWithManager_def Let_def
        fatal_def fatal_named_def named_def run_io_try run_io_map_err run_errorf_wrap)
qed

lemma demo_runs: "\<exists>p'. run_state (run_operator demo_platform demo_config runtime) p = (Inr (), p')"
proof -
  have index: "run_state (register demo_ctrl_manager x) q = (Inr (), q\<lparr>pr_calls := pr_calls q @ [x]\<rparr>)" for x q
    by (simp add: run_register demo_ctrl_manager_def run_external)
  have clients: "\<exists>cs. run_state (openShiftServiceAccountIssuerClients demo_platform demo_ctrl_manager) w = (Inr cs, w)" for w
    by (simp add: openShiftServiceAccountIssuerClients_def AuthenticationAPIAvailable_def demo_ctrl_manager_def run_io_try)
  have calls: "pf_GetConfig demo_platform = State_Monad.return (Inr ''kubeconfig'')"
    "pf_NewManager demo_platform c options = State_Monad.return (Inr demo_ctrl_manager)"
    "pf_NewCredential demo_platform t = State_Monad.return (Inr ''credential'')"
    "pf_ReadFile demo_platform = (\<lambda>d k. State_Monad.return (Inr (demo_anchor k)))" for c options t
    by (simp_all add: demo_platform_def)
  have managed: "\<exists>p'. run_state (run_manager demo_platform demo_config runtime s demo_ctrl_manager) q = (Inr (), p')" for s q
  proof -
    obtain cs where cs: "run_state (openShiftServiceAccountIssuerClients demo_platform demo_ctrl_manager) (pr_world q) = (Inr cs, pr_world q)"
      using clients by blast
    show ?thesis
      by (simp add: run_manager_def IndexRecoveriesByPreviousWorkloadIdentityUID_def fatal_def run_io_try run_io_map_err
          run_errorf_wrap run_on_world run_external index calls cs demo_registers)
  qed
  show ?thesis
    by (simp add: run_operator_def fatal_def run_io_try run_io_map_err run_on_world run_external calls demo_scope
        demo_config_simps demo_anchored managed)
qed

lemma run_operator_starts:
  assumes "run_state (run_operator P config runtime) p = (Inr u, p')"
  shows "StartManager \<in> set (pr_calls p')"
proof -
  obtain scope mgr q where "run_state (run_manager P config runtime scope mgr) q = (Inr u, p')"
    using assms unfolding run_operator_def by (elim io_try_InrE) blast
  then obtain credential openshift q where "run_state (register_and_start P config runtime mgr credential scope openshift) q = (Inr u, p')"
    unfolding run_manager_def by (elim io_try_InrE) blast
  then show ?thesis using emits_Inr[OF emits_register_and_start] by fastforce
qed

theorem startup_safe_witness:
  "\<exists>(p' :: sim process) runtime w1 scope w2 mgr w3 credential openshift w4. StartManager \<in> set (pr_calls p') \<and>
     azureScopeAnchorDirectory demo_config \<noteq> '''' \<and>
     run_state (newTelemetryRuntime demo_platform (telemetryTracingEnabled demo_config)) issuer_sim = (runtime, w1) \<and>
     configured_scope demo_config = Inr scope \<and> Scope_Validate scope = None \<and>
     anchored demo_platform demo_config scope w1 w2 \<and> manager_created demo_platform demo_config runtime mgr w2 w3 \<and>
     clients_created demo_platform runtime mgr credential openshift w3 w4 \<and>
     pr_calls p' = previousUIDIndex #
       registrations demo_platform demo_config runtime mgr credential scope openshift @ [StartManager]"
proof -
  obtain failure p' where run: "run_state (main demo_platform demo_config) \<lparr> pr_world = issuer_sim, pr_calls = [] \<rparr> = (failure, p')"
    by fastforce
  obtain runtime w r p1 where "run_state (newTelemetryRuntime demo_platform (telemetryTracingEnabled demo_config)) issuer_sim = (runtime, w)"
    and op: "run_state (run_operator demo_platform demo_config runtime) \<lparr> pr_world = w, pr_calls = [] \<rparr> = (r, p1)"
    and p1: "pr_calls p' = pr_calls p1"
    using main_started[OF run] .
  have started: "StartManager \<in> set (pr_calls p')"
    using demo_runs[of runtime "\<lparr> pr_world = w, pr_calls = [] \<rparr>"] op p1 run_operator_starts by fastforce
  have "azureScopeAnchorDirectory demo_config \<noteq> ''''" by (simp add: demo_config_simps)
  with startup_safe[OF run started] started show ?thesis
    by (elim exE conjE) (intro exI conjI; assumption)
qed

end
