(* ===== verification/Status_Schema.thy ===== *)
theory Status_Schema
  imports Issuer_Publishing Workload_Contracts
begin

text \<open>
  What the API server accepts as a status: the structural schemas the CRDs declare for the status
  subresources of api/v1alpha1 (enums, patterns, minimal lengths, list maps and sets), as executable
  predicates, and that every status the reconcilers compute stays within them but for the bound of 32768
  characters on condition messages: messages carry the texts of errors, which nothing bounds.  The \<open>fitting\<close>
  predicates are the schemas without that bound, the \<open>valid\<close> predicates the schemas with it.
\<close>

section \<open>Conditions\<close>

text \<open>The pattern of a reason: \<open>^[A-Za-z]([A-Za-z0-9_,:]*[A-Za-z0-9_])?$\<close>.\<close>

definition is_word_char :: "char \<Rightarrow> bool" where
  "is_word_char c \<longleftrightarrow> is_alnum c \<or> c = CHR ''_''"

definition valid_reason :: "string \<Rightarrow> bool" where
  "valid_reason s \<longleftrightarrow> s \<noteq> '''' \<and> length s \<le> 1024 \<and> (is_upper (hd s) \<or> is_lower (hd s)) \<and>
     is_word_char (last s) \<and> list_all (\<lambda>c. is_word_char c \<or> c = CHR '','' \<or> c = CHR '':'') s"

text \<open>
  The pattern of a type: a name of letters, digits and \<open>-_.\<close> that begins and ends with a letter or a digit,
  after an optional DNS subdomain and a slash.
\<close>

definition dns_label :: "string \<Rightarrow> bool" where
  "dns_label s \<longleftrightarrow> s \<noteq> '''' \<and> list_all (\<lambda>c. is_lower c \<or> is_digit c \<or> c = CHR ''-'') s \<and>
     hd s \<noteq> CHR ''-'' \<and> last s \<noteq> CHR ''-''"

fun dot_parts :: "string \<Rightarrow> string list" where
  "dot_parts [] = [[]]"
| "dot_parts (c # s) = (if c = CHR ''.'' then [] # dot_parts s
     else (c # hd (dot_parts s)) # tl (dot_parts s))"

definition type_name :: "string \<Rightarrow> bool" where
  "type_name s \<longleftrightarrow> s \<noteq> '''' \<and> is_alnum (hd s) \<and> is_alnum (last s) \<and>
     list_all (\<lambda>c. is_alnum c \<or> c \<in> {CHR ''-'', CHR ''_'', CHR ''.''}) s"

definition valid_type :: "string \<Rightarrow> bool" where
  "valid_type s \<longleftrightarrow> length s \<le> 316 \<and>
     (case dropWhile (\<lambda>c. c \<noteq> CHR ''/'') s of
        [] \<Rightarrow> type_name s
      | _ # name \<Rightarrow> list_all dns_label (dot_parts (takeWhile (\<lambda>c. c \<noteq> CHR ''/'') s)) \<and> type_name name)"

definition condition_status :: "string \<Rightarrow> bool" where
  "condition_status s \<longleftrightarrow> s \<in> {''True'', ''False'', ''Unknown''}"

definition fitting_condition :: "Condition \<Rightarrow> bool" where
  "fitting_condition c \<longleftrightarrow> valid_type (c_Type c) \<and> condition_status (c_Status c) \<and>
     0 \<le> c_ObservedGeneration c \<and> valid_reason (c_Reason c)"

text \<open>The schema counts the characters of a message: the bytes that do not continue a character of UTF-8.\<close>

definition utf8_length :: "string \<Rightarrow> nat" where
  "utf8_length s = length (filter (\<lambda>c. \<not> (128 \<le> (of_char c :: nat) \<and> (of_char c :: nat) < 192)) s)"

definition valid_condition :: "Condition \<Rightarrow> bool" where
  "valid_condition c \<longleftrightarrow> fitting_condition c \<and> utf8_length (c_Message c) \<le> 32768"

text \<open>A list map is keyed: no two entries have the same key.\<close>

definition fitting_conditions :: "Condition list \<Rightarrow> bool" where
  "fitting_conditions cs \<longleftrightarrow> distinct (map c_Type cs) \<and> list_all fitting_condition cs"

text \<open>Every reason the sources write out by name.\<close>

definition operator_reasons :: "string list" where
  "operator_reasons = [''Published'', ''Reconciled'', ''PublishFailed'', ''PublisherNotConfigured'', ''InvalidName'',
     ''OpenShiftIssuerClientNotConfigured'', ''OpenShiftIssuerReadFailed'', ''OpenShiftIssuerUpdateFailed'',
     ''OpenShiftIssuerRolloutFailed'', ''OIDCIssuerNotFound'', ''OIDCIssuerNotReady'', ''ManagerNotConfigured'',
     ''AzureEnsureFailed'', ''ServiceAccountConflict'', ''ServiceAccountReadFailed'', ''ServiceAccountEnsureFailed'',
     ''PreflightComplete'', ''RecoveryStarted'', ReasonAzureResourceOwnershipConflict,
     ReasonFederatedIdentityCredentialConflict, ReasonRecoveryInProgress, ReasonRecoveryRequired,
     ReasonBlockedByWorkloadIdentities, ReasonBlockedByClusterServiceAccountIssuer,
     ReasonClusterServiceAccountIssuerGuardUnavailable, ReasonClusterServiceAccountIssuerCheckFailed,
     ReasonBlockedByOpenShiftServiceAccountIssuer, recoveryReasonCompleted, recoveryReasonCancelled,
     recoveryReasonCommitVerified, recoveryReasonDuplicate, recoveryReasonFailed, recoveryReasonManagerNotConfigured,
     recoveryReasonOIDCIssuerNotReady, recoveryReasonPlanMissing, recoveryReasonServiceAccount,
     recoveryReasonTargetChanged, recoveryReasonTargetNotFound, recoveryReasonFederatedIdentityCredentialAmbiguous,
     recoveryReasonRecoveryMarkerConflict, recoveryReasonUserAssignedIdentityConflict,
     recoveryReasonUserAssignedIdentityNotFound]"

lemma operator_reasons_valid: "list_all valid_reason operator_reasons"
  by (simp add: operator_reasons_def valid_reason_def is_word_char_def char_class_defs const_defs)

lemmas own_reasons_valid [simp] = operator_reasons_valid[unfolded operator_reasons_def list.pred_inject]

lemma own_types_valid [simp]:
  "valid_type OIDCIssuerConditionReady" "valid_type WorkloadIdentityConditionReady" "valid_type RecoveryConditionComplete"
  "valid_type RecoveryConditionProgressing" "valid_type RecoveryConditionBlocked" "valid_type RecoveryConditionFailed"
  by (simp_all add: valid_type_def type_name_def char_class_defs const_defs)

section \<open>Statuses\<close>

definition valid_resources :: "AzureResource list \<Rightarrow> bool" where
  "valid_resources rs \<longleftrightarrow> distinct (map ar_ID rs) \<and> list_all (\<lambda>r. ar_ID r \<noteq> '''' \<and> ar_Kind r \<noteq> '''') rs"

definition valid_signing_keys :: "SigningKeyStatus list \<Rightarrow> bool" where
  "valid_signing_keys ks \<longleftrightarrow> distinct (map sks_KID ks) \<and>
     list_all (\<lambda>k. sks_KID k \<noteq> '''' \<and> sks_Algorithm k \<noteq> '''' \<and>
       sks_State k \<in> {SigningKeyStateActive, SigningKeyStateRetiring}) ks"

definition fitting_issuer_status :: "OIDCIssuerStatus \<Rightarrow> bool" where
  "fitting_issuer_status s \<longleftrightarrow> fitting_conditions (oi_Conditions s) \<and> valid_resources (oi_AzureResources s) \<and>
     valid_signing_keys (oi_SigningKeys s)"

definition valid_provenance :: "ServiceAccountProvenance \<Rightarrow> bool" where
  "valid_provenance p \<longleftrightarrow> p = ServiceAccountProvenanceCreated \<or> p = ServiceAccountProvenanceAdopted"

lemma valid_provenances [simp]:
  "valid_provenance ServiceAccountProvenanceCreated" "valid_provenance ServiceAccountProvenanceAdopted"
  by (simp_all add: valid_provenance_def)

text \<open>The provenance is left out of the JSON text when it is empty.\<close>

definition fitting_identity_status :: "WorkloadIdentityStatus \<Rightarrow> bool" where
  "fitting_identity_status s \<longleftrightarrow> fitting_conditions (wi_Conditions s) \<and> valid_resources (wi_AzureResources s) \<and>
     (wi_ServiceAccountProvenance s = '''' \<or> valid_provenance (wi_ServiceAccountProvenance s))"

definition valid_plan :: "WorkloadIdentityRecoveryPlan \<Rightarrow> bool" where
  "valid_plan p \<longleftrightarrow> distinct (rfic_Audiences (plan_FederatedIdentityCredential p))"

definition fitting_recovery_status :: "WorkloadIdentityRecoveryStatus \<Rightarrow> bool" where
  "fitting_recovery_status s \<longleftrightarrow> fitting_conditions (r_Conditions s) \<and> pred_option valid_plan (r_Plan s)"

text \<open>An object whose status fits and whose generation counts from zero.\<close>

definition fitting_issuer :: "OIDCIssuer \<Rightarrow> bool" where
  "fitting_issuer x \<longleftrightarrow> 0 \<le> Generation (oi_Meta x) \<and> fitting_issuer_status (oi_Status x)"

definition fitting_identity :: "WorkloadIdentity \<Rightarrow> bool" where
  "fitting_identity x \<longleftrightarrow> 0 \<le> Generation (wi_Meta x) \<and> fitting_identity_status (wi_Status x)"

definition fitting_recovery :: "WorkloadIdentityRecovery \<Rightarrow> bool" where
  "fitting_recovery x \<longleftrightarrow> 0 \<le> Generation (r_Meta x) \<and> fitting_recovery_status (r_Status x)"

text \<open>The same with the bound on messages: what the API server stores.\<close>

definition valid_issuer :: "OIDCIssuer \<Rightarrow> bool" where
  "valid_issuer x \<longleftrightarrow> fitting_issuer x \<and> list_all valid_condition (oi_Conditions (oi_Status x))"

definition valid_identity :: "WorkloadIdentity \<Rightarrow> bool" where
  "valid_identity x \<longleftrightarrow> fitting_identity x \<and> list_all valid_condition (wi_Conditions (wi_Status x))"

definition valid_recovery :: "WorkloadIdentityRecovery \<Rightarrow> bool" where
  "valid_recovery x \<longleftrightarrow> fitting_recovery x \<and> list_all valid_condition (r_Conditions (r_Status x))"

lemma valid_fits: "valid_issuer x \<Longrightarrow> fitting_issuer x" "valid_identity y \<Longrightarrow> fitting_identity y" "valid_recovery z \<Longrightarrow> fitting_recovery z"
  by (simp_all add: valid_issuer_def valid_identity_def valid_recovery_def)

text \<open>
  \<open>condition\_list\_laws\<close>: setting a condition replaces the one of its type or appends it, removing drops
  entries; both keep one condition per type (apimachinery's \<open>meta.SetStatusCondition\<close>).
\<close>

definition condition_list_laws :: "k8s_lib \<Rightarrow> bool" where
  "condition_list_laws L \<longleftrightarrow>
     (\<forall>cs c. set (SetStatusCondition L cs c) \<subseteq> insert c (set cs) \<and>
        (distinct (map c_Type cs) \<longrightarrow> distinct (map c_Type (SetStatusCondition L cs c)))) \<and>
     (\<forall>cs t. set (RemoveStatusCondition L cs t) \<subseteq> set cs \<and>
        (distinct (map c_Type cs) \<longrightarrow> distinct (map c_Type (RemoveStatusCondition L cs t))))"

lemma set_std_set: "set (std_set cs c) \<subseteq> insert c (set cs)"
  by (induction cs c rule: std_set.induct) auto

lemma types_std_set: "set (map c_Type (std_set cs c)) = insert (c_Type c) (set (map c_Type cs))"
  by (induction cs c rule: std_set.induct) auto

lemma distinct_std_set: "distinct (map c_Type cs) \<Longrightarrow> distinct (map c_Type (std_set cs c))"
proof (induction cs c rule: std_set.induct)
  case (2 d ds c)
  then show ?case using types_std_set[of ds c] by auto
qed simp

lemma std_condition_list_laws: "condition_list_laws std_lib"
  using set_std_set distinct_std_set by (simp add: condition_list_laws_def std_lib_def distinct_map_filter)

lemma set_condition_valid:
  assumes "condition_list_laws L" and "fitting_conditions cs" and "fitting_condition c"
  shows "fitting_conditions (SetStatusCondition L cs c)"
proof -
  have "set (SetStatusCondition L cs c) \<subseteq> insert c (set cs)" "distinct (map c_Type (SetStatusCondition L cs c))"
    using assms(1,2) unfolding condition_list_laws_def fitting_conditions_def by blast+
  then show ?thesis using assms(2,3) by (auto simp: fitting_conditions_def list_all_iff)
qed

lemma remove_condition_valid:
  assumes "condition_list_laws L" and "fitting_conditions cs"
  shows "fitting_conditions (RemoveStatusCondition L cs t)"
proof -
  have "set (RemoveStatusCondition L cs t) \<subseteq> set cs" "distinct (map c_Type (RemoveStatusCondition L cs t))"
    using assms unfolding condition_list_laws_def fitting_conditions_def by blast+
  then show ?thesis using assms(2) by (auto simp: fitting_conditions_def list_all_iff)
qed

lemma condition_statuses [simp]:
  "condition_status ConditionTrue" "condition_status ConditionFalse"
  by (simp_all add: condition_status_def const_defs)

section \<open>The statuses the reconcilers compute\<close>

lemma issuer_statuses_valid:
  assumes laws: "condition_list_laws L" and s: "fitting_issuer_status s" and g: "0 \<le> g"
  shows "valid_reason reason \<Longrightarrow> fitting_issuer_status (issuer_not_ready_status L g reason message s)"
    and "valid_resources (pd_AzureResources d) \<Longrightarrow> valid_signing_keys (pd_SigningKeys d) \<Longrightarrow>
      fitting_issuer_status (published_status d s)"
    and "valid_resources (pd_AzureResources d) \<Longrightarrow> valid_signing_keys (pd_SigningKeys d) \<Longrightarrow>
      fitting_issuer_status (issuer_ready_status L g d s)"
    and "fitting_issuer_status (s\<lparr>oi_PreviousServiceAccountIssuer := u\<rparr>)"
  using s g
  by (simp_all add: fitting_issuer_status_def issuer_not_ready_status_def published_status_def issuer_ready_status_def
      Let_def set_condition_valid[OF laws] fitting_condition_def issuer_condition_def)

lemma identity_statuses_valid:
  assumes laws: "condition_list_laws L" and s: "fitting_identity_status s" and g: "0 \<le> g"
  shows "valid_reason reason \<Longrightarrow> fitting_identity_status (not_ready_status L g reason message s)"
    and "fitting_identity_status (recovery_required_status L g evidence message s)"
    and "valid_resources (mi_AzureResources m) \<Longrightarrow> valid_provenance p \<Longrightarrow>
      fitting_identity_status (ready_status L g u subject sa p m s)"
  using s g
  by (auto simp: fitting_identity_status_def not_ready_status_def recovery_required_status_def ready_status_def Let_def
      fitting_condition_def ready_condition_def intro!: set_condition_valid[OF laws])

lemma set_recovery_condition_valid:
  assumes "condition_list_laws L" and "fitting_recovery_status s" and "0 \<le> g"
    and "valid_type t" and "condition_status c" and "valid_reason reason"
  shows "fitting_recovery_status (setRecoveryCondition L t c reason message g s)"
  using assms by (simp add: fitting_recovery_status_def setRecoveryCondition_def set_condition_valid fitting_condition_def)

lemma clear_recovery_condition_valid:
  "condition_list_laws L \<Longrightarrow> fitting_recovery_status s \<Longrightarrow> fitting_recovery_status (clearRecoveryCondition L t s)"
  by (simp add: fitting_recovery_status_def clearRecoveryCondition_def remove_condition_valid)

lemma recovery_statuses_valid:
  assumes laws: "condition_list_laws L" and s: "fitting_recovery_status s" and g: "0 \<le> g"
  shows "valid_reason reason \<Longrightarrow> fitting_recovery_status (block_status L reason message g s)"
    and "valid_reason reason \<Longrightarrow> fitting_recovery_status (fail_status L reason message g s)"
    and "valid_plan plan \<Longrightarrow> fitting_recovery_status (preflight_status L plan g s)"
    and "fitting_recovery_status (start_status L now g s)"
    and "fitting_recovery_status (commit_verified_status L g s)"
    and "fitting_recovery_status (complete_status L now g s)"
proof -
  have fields: "fitting_recovery_status (s\<lparr>r_MutationStarted := True, r_StartedTime := t\<rparr>)"
      "fitting_recovery_status (s\<lparr>r_CommitVerified := True\<rparr>)" "fitting_recovery_status (s\<lparr>r_CompletedTime := t\<rparr>)"
      "valid_plan plan \<Longrightarrow> fitting_recovery_status (s\<lparr>r_Plan := Some plan\<rparr>)" for t
    using s by (simp_all add: fitting_recovery_status_def)
  note rules = clear_recovery_condition_valid[OF laws] set_recovery_condition_valid[OF laws _ g]
  show "valid_reason reason \<Longrightarrow> fitting_recovery_status (block_status L reason message g s)"
    and "valid_reason reason \<Longrightarrow> fitting_recovery_status (fail_status L reason message g s)"
    and "valid_plan plan \<Longrightarrow> fitting_recovery_status (preflight_status L plan g s)"
    and "fitting_recovery_status (start_status L now g s)"
    and "fitting_recovery_status (commit_verified_status L g s)"
    and "fitting_recovery_status (complete_status L now g s)"
    unfolding block_status_def fail_status_def preflight_status_def start_status_def commit_verified_status_def
      complete_status_def
    by (intro rules s fields; simp)+
qed

end
