(* ===== verification/Schema_Contracts.thy ===== *)
theory Schema_Contracts
  imports Status_Schema Workload_Properties Recovery_Truth
begin

text \<open>
  What the reconcilers need of the managers and the publisher to write statuses the API server accepts:
  reasons that are valid names, resources and signing keys without duplicates or empty keys, plans whose audiences are a
  set.  The Azure side honours these contracts if the resource IDs of Azure name the kind of their
  resource.
\<close>

section \<open>Errors with valid reasons\<close>

fun named_reasons :: "go_error \<Rightarrow> bool" where
  "named_reasons (ConflictError reason message evidence) = valid_reason reason"
| "named_reasons (RecoveryBlockedError reason message) = valid_reason reason"
| "named_reasons (WrapError p e) = named_reasons e"
| "named_reasons _ = True"

lemma named_reasonsD:
  "named_reasons e \<Longrightarrow> ConflictReason e = Some reason \<Longrightarrow> valid_reason reason"
  "named_reasons e \<Longrightarrow> RecoveryBlockedReason e = Some reason \<Longrightarrow> valid_reason reason"
  by (induction e) auto

lemma named_reasons_New [simp]:
  "named_reasons (NewConflictError reason m) = valid_reason reason" "named_reasons (NewRecoveryRequiredError m u)"
  "named_reasons (NewRecoveryBlockedError reason m) = valid_reason reason" "named_reasons nil_dereference"
  "named_reasons (newServiceAccountConflict m)" "named_reasons (newServiceAccountOwnerConflict u m)"
  by (simp_all add: NewConflictError_def NewRecoveryRequiredError_def NewRecoveryBlockedError_def nil_dereference_def
      newServiceAccountConflict_def newServiceAccountOwnerConflict_def)

section \<open>Results along a run\<close>

lemma yields_errorf_wrap: "yields P m \<Longrightarrow> yields P (errorf_wrap p m)"
  by (auto simp: yields_def run_errorf_wrap split: prod.splits sum.splits)

lemma yields_io_of: "(\<And>a. r = Inr a \<Longrightarrow> P a) \<Longrightarrow> yields P (io_of r)"
  by (simp add: yields_def)

lemma yields_try_from: "yields P m \<Longrightarrow> (\<And>a. P a \<Longrightarrow> yields Q (k a)) \<Longrightarrow> yields Q (io_try m k)"
  by (fastforce simp: yields_def elim: io_try_InrE)

lemma yields_answer: "yields P (external m) \<Longrightarrow> run_state m w = (Inr a, w') \<Longrightarrow> P a"
  using yieldsD[of P "external m" w a w'] by (simp add: run_external)

section \<open>The contracts\<close>

locale identity_reports =
  fixes Ensure :: "WorkloadIdentity \<Rightarrow> string \<Rightarrow> string \<Rightarrow> ('w, ManagedIdentity) io"
    and listed :: "AzureResource list \<Rightarrow> bool"
  assumes ensure_named: "fails_only named_reasons (Ensure identity issuer_url subject)"
    and ensure_lists: "yields (\<lambda>m. listed (mi_AzureResources m)) (Ensure identity issuer_url subject)"

locale recovery_reports =
  fixes manager :: "'w recovery_manager"
  assumes inspect_named: "fails_only named_reasons (rm_Inspect manager recovery identity issuer_url subject)"
    and inspect_plans: "yields valid_plan (rm_Inspect manager recovery identity issuer_url subject)"
    and mark_named: "fails_only named_reasons (rm_MarkInProgress manager recovery identity plan)"
    and credential_named: "fails_only named_reasons (rm_EnsureFederatedIdentityCredential manager recovery identity plan)"
    and commit_named: "fails_only named_reasons (rm_Commit manager recovery identity plan)"
    and finalize_named: "fails_only named_reasons (rm_Finalize manager recovery identity plan)"

locale publisher_reports =
  fixes P :: "'w Publisher" and listed :: "AzureResource list \<Rightarrow> bool"
  assumes publish_lists: "yields (\<lambda>d. listed (pd_AzureResources d) \<and> valid_signing_keys (pd_SigningKeys d)) (pub_Publish P issuer)"

section \<open>The publisher\<close>

text \<open>\<open>named\_id K kind i\<close>: the resource ID, if there is one, is a name and says the kind of the resource.\<close>

definition named_id :: "(string \<Rightarrow> string option) \<Rightarrow> string \<Rightarrow> string option \<Rightarrow> bool" where
  "named_id K kind i \<longleftrightarrow> (\<forall>s. i = Some s \<longrightarrow> s \<noteq> '''' \<and> K s = Some kind)"

lemma resource_entries_valid:
  assumes "named_id K a i" "named_id K b j" "named_id K c l" and "distinct [a, b, c]" and "'''' \<notin> {a, b, c}"
  shows "valid_resources (resource_entry i a @ resource_entry j b @ resource_entry l c)"
  using assms by (auto simp: valid_resources_def resource_entry_def named_id_def split: option.split)

lemma keyID_nonempty: "keyID der \<noteq> ''''"
proof
  let ?s = "map (\<lambda>b. char_of (unat b)) (sha256 der)"
  assume "keyID der = ''''"
  then have "base64url_decode '''' = Inr ?s"
    using base64url_roundtrip[of ?s] by (simp add: keyID_def)
  moreover have "base64url_decode '''' = Inr ''''"
    using base64url_roundtrip[of "''''"] by (simp add: base64url_def)
  ultimately have "length (sha256 der) = 0" by simp
  then show False by simp
qed

lemma key_metadata_valid:
  "PublicKeyMetadataFromPEM C pem = Inr m \<Longrightarrow> pkm_KeyID m \<noteq> '''' \<and> pkm_Algorithm m \<noteq> ''''"
  by (auto simp: PublicKeyMetadataFromPEM_def key_metadata_def with_key_id_def keyID_nonempty algRS256_def algES256_def
      split: sum.splits public_key.splits if_splits)

lemma collected_keys_valid:
  "collect_signing_keys C seenK seenA pubs = Inr (signingKeys, algorithms, pems) \<Longrightarrow>
   set (map pk_State pubs) \<subseteq> {SigningKeyStateActive, SigningKeyStateRetiring} \<Longrightarrow>
     list_all (\<lambda>k. sks_KID k \<noteq> '''' \<and> sks_Algorithm k \<noteq> '''' \<and>
       sks_State k \<in> {SigningKeyStateActive, SigningKeyStateRetiring}) signingKeys"
  by (induction pubs arbitrary: seenK seenA signingKeys algorithms pems)
    (fastforce simp: Let_def split: sum.splits if_splits dest: key_metadata_valid)+

lemma documents_keys_valid:
  assumes "run_state (buildOIDCDocuments C reader issuer url) w = (Inr documents, w')"
  shows "valid_signing_keys (od_SigningKeys documents)"
proof -
  obtain pubs algorithms pems keys where read: "run_state (PublicKeysPEM C reader (ois_SigningKey (oi_Spec issuer))) w = (Inr pubs, w')"
    and collected: "collect_signing_keys C [] [] pubs = Inr (od_SigningKeys documents, algorithms, pems)"
    using buildOIDCDocuments_InrD[OF assms] by metis
  have "set (map pk_State pubs) \<subseteq> {SigningKeyStateActive, SigningKeyStateRetiring}"
    using read_public_keys_states[of C reader 0, OF read[unfolded PublicKeysPEM_def]] by auto
  then show ?thesis
    using collected_keys_fresh[OF collected] collected_keys_valid[OF collected]
    by (simp add: valid_signing_keys_def fresh_keys_def)
qed

text \<open>
  \<open>storage\_ids\_named K sdk\<close>: the IDs the storage SDK returns name the kind of their resource.
\<close>

definition storage_ids_named :: "(string \<Rightarrow> string option) \<Rightarrow> 'w storageSDK \<Rightarrow> bool" where
  "storage_ids_named K sdk \<longleftrightarrow> (\<forall>scope credential c. newStorageClients sdk scope credential = Inr c \<longrightarrow>
     (\<forall>n. yields (\<lambda>g. named_id K ''ResourceGroup'' (rg_ID g)) (external (rg_Get (sc_resourceGroups c) n))) \<and>
     (\<forall>n x. yields (\<lambda>g. named_id K ''ResourceGroup'' (rg_ID g)) (external (rg_CreateOrUpdate (sc_resourceGroups c) n x))) \<and>
     (\<forall>n a. yields (\<lambda>s. named_id K ''StorageAccount'' (acc_ID s)) (external (sa_GetProperties (sc_storageAccounts c) n a))) \<and>
     (\<forall>n a x. yields (\<lambda>poll. yields (\<lambda>s. named_id K ''StorageAccount'' (acc_ID s)) (external poll))
        (external (sa_BeginCreate (sc_storageAccounts c) n a x))) \<and>
     (\<forall>n a t x. yields (\<lambda>s. named_id K ''StorageAccount'' (acc_ID s)) (external (sa_Update (sc_storageAccounts c) n a t x))) \<and>
     (\<forall>n a b. yields (\<lambda>x. named_id K ''BlobContainer'' (bc_ID x)) (external (bc_Get (sc_blobContainers c) n a b))) \<and>
     (\<forall>n a b x. yields (\<lambda>x. named_id K ''BlobContainer'' (bc_ID x)) (external (bc_Create (sc_blobContainers c) n a b x))) \<and>
     (\<forall>n a b x. yields (\<lambda>x. named_id K ''BlobContainer'' (bc_ID x)) (external (bc_Update (sc_blobContainers c) n a b x))))"

lemma yields_found:
  assumes "yields P (external m)" and "\<And>e. yields P (h e)" and "\<And>a. P a \<Longrightarrow> yields P (k a)"
  shows "yields P (State_Monad.bind m (\<lambda>r. case r of Inl e \<Rightarrow> h e | Inr a \<Rightarrow> k a))"
  unfolding yields_def
proof (intro allI impI)
  fix w a w'
  assume run: "run_state (State_Monad.bind m (\<lambda>r. case r of Inl e \<Rightarrow> h e | Inr a \<Rightarrow> k a)) w = (Inr a, w')"
  obtain r v where m: "run_state m w = (r, v)" by fastforce
  show "P a"
  proof (cases r)
    case (Inl e)
    with run m show ?thesis using yieldsD[OF assms(2)] by simp
  next
    case (Inr x)
    with run m show ?thesis using yieldsD[OF assms(3)[OF yields_answer[OF assms(1)]]] by simp
  qed
qed

lemma ensureResourceGroup_named:
  assumes "\<And>n. yields P (external (rg_Get client n))" and "\<And>n x. yields P (external (rg_CreateOrUpdate client n x))"
  shows "yields P (ensureResourceGroup client scope)"
  unfolding ensureResourceGroup_def
  by (rule yields_found) (auto intro: assms yields_intros yields_errorf_wrap)

lemma ensureStorage_lists:
  assumes named: "storage_ids_named K sdk" and c: "newStorageClients sdk scope credential = Inr c"
  shows "yields valid_resources (ensureStorage c issuer)"
proof -
  note ids = named[unfolded storage_ids_named_def, rule_format, OF c]
  have group: "yields (\<lambda>g. named_id K ''ResourceGroup'' (rg_ID g)) (ensureResourceGroup (sc_resourceGroups c) s)" for s
    by (rule ensureResourceGroup_named) (simp_all add: ids)
  have created: "yields (\<lambda>s. named_id K ''StorageAccount'' (acc_ID s)) (create_account c issuer)"
    unfolding create_account_def
    by (rule yields_try_from[where P = "\<lambda>poll. yields (\<lambda>s. named_id K ''StorageAccount'' (acc_ID s)) (external poll)"])
      (intro yields_errorf_wrap, simp add: ids)+
  have account: "yields (\<lambda>s. named_id K ''StorageAccount'' (acc_ID s)) (get_or_create_account c issuer)"
    unfolding get_or_create_account_def convergeStorageAccount_def
    by (rule yields_found[where P = "\<lambda>s. named_id K ''StorageAccount'' (acc_ID s)"])
      (auto intro!: yields_intros yields_errorf_wrap created simp: ids)
  have container: "yields (\<lambda>x. named_id K ''BlobContainer'' (bc_ID x)) (ensureBlobContainer c issuer)"
    unfolding ensureBlobContainer_def Let_def
    by (rule yields_found[where P = "\<lambda>x. named_id K ''BlobContainer'' (bc_ID x)"])
      (auto intro!: yields_intros yields_errorf_wrap simp: ids)
  have entries: "valid_resources (resource_entry i ''ResourceGroup'' @ resource_entry j ''StorageAccount'' @ resource_entry l ''BlobContainer'')"
    if "named_id K ''ResourceGroup'' i" "named_id K ''StorageAccount'' j" "named_id K ''BlobContainer'' l" for i j l
    by (rule resource_entries_valid[OF that]) simp_all
  show ?thesis
    unfolding ensureStorage_def
    by (rule yields_try_from[OF group], rule yields_try_from[OF account], rule yields_try_from[OF container])
      (intro yields_intros entries)
qed

lemma Publish_reports:
  "yields (\<lambda>d. (storage_ids_named K sdk \<longrightarrow> valid_resources (pd_AzureResources d)) \<and> valid_signing_keys (pd_SigningKeys d))
     (Publisher_Publish C sdk p issuer)"
proof -
  have "yields (\<lambda>d. (storage_ids_named K sdk \<longrightarrow> valid_resources (pd_AzureResources d)) \<and> valid_signing_keys (pd_SigningKeys d))
      (publish_with C c reader issuer)" if c: "newStorageClients sdk scope credential = Inr c" for c reader scope credential
  proof -
    have storage: "yields (\<lambda>rs. storage_ids_named K sdk \<longrightarrow> valid_resources rs) (ensureStorage c issuer)"
      using ensureStorage_lists[OF _ c] by (auto simp: yields_def)
    have documents: "yields (\<lambda>d. valid_signing_keys (od_SigningKeys d)) (buildOIDCDocuments C reader issuer (issuerURL issuer))"
      using documents_keys_valid by (auto simp: yields_def)
    show ?thesis
      unfolding publish_with_def
      by (rule yields_try_from[OF storage], rule yields_try_from[OF documents], intro yields_intros) simp
  qed
  then show ?thesis
    unfolding Publisher_Publish_def by (auto intro!: yields_intros split: option.split sum.split)
qed

interpretation blob_reports: publisher_reports "blob_publisher C sdk p"
    "\<lambda>rs. storage_ids_named K sdk \<longrightarrow> valid_resources rs" for C sdk p K
  by unfold_locales (simp add: blob_publisher_def Publish_reports)

section \<open>The identity manager\<close>

definition arm_ids_named :: "(string \<Rightarrow> string option) \<Rightarrow> 'w armSDK \<Rightarrow> bool" where
  "arm_ids_named K sdk \<longleftrightarrow> (\<forall>scope credential c. newIdentityClients sdk scope credential = Inr c \<longrightarrow>
     (\<forall>n. yields (\<lambda>g. named_id K azureResourceKindResourceGroup (rg_ID g)) (external (rg_Get (ic_resourceGroups c) n))) \<and>
     (\<forall>n x. yields (\<lambda>g. named_id K azureResourceKindResourceGroup (rg_ID g))
        (external (rg_CreateOrUpdate (ic_resourceGroups c) n x))) \<and>
     (\<forall>n u. yields (\<lambda>i. named_id K azureResourceKindUserAssignedIdentity (id_ID i)) (external (ui_Get (ic_identities c) n u))) \<and>
     (\<forall>n u x. yields (\<lambda>i. named_id K azureResourceKindUserAssignedIdentity (id_ID i))
        (external (ui_CreateOrUpdate (ic_identities c) n u x))) \<and>
     (\<forall>n u f. yields (\<lambda>i. named_id K azureResourceKindFederatedIdentityCredential (fic_ID i))
        (external (fic_Get (ic_federatedCredentials c) n u f))) \<and>
     (\<forall>n u f x. yields (\<lambda>i. named_id K azureResourceKindFederatedIdentityCredential (fic_ID i))
        (external (fic_CreateOrUpdate (ic_federatedCredentials c) n u f x))))"

lemma ensure_lists_resources:
  assumes named: "arm_ids_named K sdk" and c: "newIdentityClients sdk scope credential = Inr c"
  shows "yields (\<lambda>m. valid_resources (mi_AzureResources m)) (ensure c identity u s)"
proof -
  note ids = named[unfolded arm_ids_named_def, rule_format, OF c]
  have kinds: "distinct [azureResourceKindResourceGroup, azureResourceKindUserAssignedIdentity, azureResourceKindFederatedIdentityCredential]"
    "'''' \<notin> {azureResourceKindResourceGroup, azureResourceKindUserAssignedIdentity, azureResourceKindFederatedIdentityCredential}"
    by (simp_all add: const_defs)
  let ?pair = "\<lambda>(rs, i). \<exists>g. named_id K azureResourceKindResourceGroup g \<and>
    named_id K azureResourceKindUserAssignedIdentity (id_ID i) \<and>
    rs = resource_entry g azureResourceKindResourceGroup @ resource_entry (id_ID i) azureResourceKindUserAssignedIdentity"
  have group: "yields (\<lambda>g. named_id K azureResourceKindResourceGroup (rg_ID g)) (ensureResourceGroup (ic_resourceGroups c) v)" for v
    by (rule ensureResourceGroup_named) (simp_all add: ids)
  have uami: "yields (\<lambda>i. named_id K azureResourceKindUserAssignedIdentity (id_ID i)) (get_or_create_identity c identity)"
    unfolding get_or_create_identity_def Let_def
    by (rule yields_found[where P = "\<lambda>i. named_id K azureResourceKindUserAssignedIdentity (id_ID i)"])
      (auto intro!: yields_basic yields_cases yields_errorf_wrap simp: ids split: option.split)
  have both: "yields ?pair (ensureUserAssignedIdentity c identity)"
    unfolding ensureUserAssignedIdentity_def
    by (auto intro!: yields_basic yields_try_from[OF group] yields_try_from[OF uami] split: option.split)
  have credential: "yields (\<lambda>f. named_id K azureResourceKindFederatedIdentityCredential (fic_ID f)) (reconcile_credential c identity u s v)" for v
    unfolding reconcile_credential_def Let_def
    by (rule yields_try_from[where P = "\<lambda>f. named_id K azureResourceKindFederatedIdentityCredential (fic_ID f)"])
      (auto intro!: yields_errorf_wrap yields_basic simp: ids split: option.split)
  have fic: "yields (\<lambda>f. named_id K azureResourceKindFederatedIdentityCredential (fic_ID f)) (ensureFederatedIdentityCredential c identity u s)"
    unfolding ensureFederatedIdentityCredential_def Let_def
    by (rule yields_found[where P = "\<lambda>f. named_id K azureResourceKindFederatedIdentityCredential (fic_ID f)"])
      (auto intro!: yields_intros credential simp: ids)
  show ?thesis
    unfolding ensure_def
    by (rule yields_try_from[OF both], clarsimp, rule yields_try_from[OF fic])
      (auto intro!: yields_basic resource_entries_valid[OF _ _ _ kinds, simplified append.assoc])
qed

lemma scope_error_named: "Scope_Validate v = Some e \<Longrightarrow> named_reasons e"
  by (auto simp: Scope_Validate_def split: if_splits)

lemma clients_error_named: "newIdentityClients sdk v c = Inl e \<Longrightarrow> named_reasons e"
  by (auto simp: newIdentityClients_def scope_error_named split: option.splits sum.splits)

lemma name_error_named: "ValidateUserAssignedIdentityName n = Some e \<Longrightarrow> named_reasons e"
  by (auto simp: ValidateUserAssignedIdentityName_def split: if_splits)

lemma credential_error_named: "validateFederatedIdentityCredential n x d = Some e \<Longrightarrow> named_reasons e"
  by (auto simp: validateFederatedIdentityCredential_def Let_def split: option.splits if_splits)

lemma conflict_named [simp]: "named_reasons (userAssignedIdentityOwnershipConflict u)"
  by (simp add: userAssignedIdentityOwnershipConflict_def)

lemma ownership_error_named: "validateUserAssignedIdentityOwnership identity x = Some e \<Longrightarrow> named_reasons e"
  by (auto simp: validateUserAssignedIdentityOwnership_def Let_def split: if_splits)

lemmas named_errors = scope_error_named clients_error_named name_error_named credential_error_named ownership_error_named

lemmas named_wrap = fails_errorf[where Q = named_reasons]

lemma ensure_named: "fails_only named_reasons (ensure c identity u s)"
proof -
  have rg: "fails_only named_reasons (ensureResourceGroup rgc v)" for rgc v
    unfolding ensureResourceGroup_def by (intro named_wrap fails_intros) simp_all
  have goc: "fails_only named_reasons (get_or_create_identity c identity)"
    unfolding get_or_create_identity_def Let_def by (intro named_wrap fails_intros) simp_all
  have uami: "fails_only named_reasons (ensureUserAssignedIdentity c identity)"
    unfolding ensureUserAssignedIdentity_def by (intro fails_intros rg goc) (auto dest: named_errors)
  have rec: "fails_only named_reasons (reconcile_credential c identity u s op)" for op
    unfolding reconcile_credential_def Let_def
    by (intro fails_io_try named_wrap fails_intros) (auto dest: named_errors)
  have fic: "fails_only named_reasons (ensureFederatedIdentityCredential c identity u s)"
    unfolding ensureFederatedIdentityCredential_def Let_def by (intro fails_intros rec) simp_all
  show ?thesis unfolding ensure_def by (intro fails_intros uami fic)
qed

interpretation azure_reports: identity_reports "Manager_Ensure sdk m"
    "\<lambda>rs. arm_ids_named K sdk \<longrightarrow> valid_resources rs" for sdk m K
proof
  show "fails_only named_reasons (Manager_Ensure sdk m identity u s)" for identity u s
    unfolding Manager_Ensure_def with_clients_def by (intro fails_intros ensure_named) (rule clients_error_named)
  show "yields (\<lambda>x. arm_ids_named K sdk \<longrightarrow> valid_resources (mi_AzureResources x)) (Manager_Ensure sdk m identity u s)" for identity u s
    unfolding Manager_Ensure_def with_clients_def
    using ensure_lists_resources[of K sdk] by (auto intro!: yields_intros simp: yields_def split: sum.split)
qed

section \<open>The recovery manager\<close>

lemma stage_error_named: "recoveryStage recovery identity x = Inl e \<Longrightarrow> named_reasons e"
  by (auto simp: recoveryStage_def Let_def split: if_splits)

lemma plan_error_named: "validateRecoveryIdentityPlan x plan = Some e \<Longrightarrow> named_reasons e"
  by (auto simp: validateRecoveryIdentityPlan_def Let_def split: option.splits if_splits)

lemma location_error_named: "validateFederatedIdentityCredentialLocation f n i = Some e \<Longrightarrow> named_reasons e"
  by (auto simp: validateFederatedIdentityCredentialLocation_def split: if_splits)

lemma set_error_named:
  "validateRecoverableFederatedIdentityCredentialSet v identity fs = Some e \<Longrightarrow> named_reasons e"
  "validateExactFederatedIdentityCredentialSet fs n i d = Some e \<Longrightarrow> named_reasons e"
  by (auto simp: validateRecoverableFederatedIdentityCredentialSet_def validateExactFederatedIdentityCredentialSet_def
      dest: location_error_named split: if_splits list.splits option.splits)

lemma user_error_named: "recoveryUserAssignedIdentity x = Inl e \<Longrightarrow> named_reasons e"
  by (auto simp: recoveryUserAssignedIdentity_def split: option.splits)

lemmas recovery_named_errors = stage_error_named plan_error_named location_error_named set_error_named user_error_named

lemma list_pages_named: "fails_only named_reasons (list_pages p fs)"
proof (induction p arbitrary: fs)
  case (Pager has_more fetch)
  have "named_reasons e" if run: "run_state (list_pages (Pager has_more fetch) fs) w = (Inl e, w')" for w e w'
  proof (cases "run_state fetch w")
    case (Pair r v)
    show ?thesis
    proof (cases r)
      case (Inr x)
      obtain page rest where "x = (page, rest)" by (cases x)
      with Inr Pair run show ?thesis
        using fails_onlyD[OF Pager.IH[OF in_set_state[OF Pair], of "(page, rest)" rest]]
        by (auto simp: run_map_state split: if_splits)
    qed (use Pair run in \<open>auto simp: run_map_state split: if_splits\<close>)
  qed
  then show ?case by (auto simp: fails_only_def)
qed

lemma fic_List_named: "fails_only named_reasons (fic_List c n u)"
  unfolding fic_List_def by (rule list_pages_named)

lemma get_recovery_named: "fails_only named_reasons (getRecoveryUserAssignedIdentity c identity)"
  unfolding getRecoveryUserAssignedIdentity_def Let_def by (intro fails_intros) simp_all

lemma committed_named: "fails_only named_reasons (validateCommittedFederatedIdentityCredential c identity plan op)"
  unfolding validateCommittedFederatedIdentityCredential_def
  by (intro named_wrap fails_intros fic_List_named) (auto dest: recovery_named_errors)

lemma update_tags_named: "fails_only named_reasons (updateRecoveryTags c identity t)"
  unfolding updateRecoveryTags_def by (intro fails_intros) simp

lemma verify_stage_named: "fails_only named_reasons (verifyRecoveryStage c recovery identity plan stage op)"
  unfolding verifyRecoveryStage_def
  by (intro named_wrap fails_intros get_recovery_named) (auto dest: recovery_named_errors)

lemma with_plan_named: "(\<And>p. fails_only named_reasons (f p)) \<Longrightarrow> fails_only named_reasons (with_plan plan f)"
  unfolding with_plan_def by (intro fails_intros) simp_all

text \<open>The manager \<open>cmd/main.go\<close> builds has no clients factory.\<close>

lemma recovery_clients_error_named:
  "wrm_clientsFactory m = None \<Longrightarrow> recovery_clients sdk m = Inl e \<Longrightarrow> named_reasons e"
  by (simp add: recovery_clients_def clients_error_named)

lemma load_named:
  assumes "wrm_clientsFactory m = None"
  shows "fails_only named_reasons (loadAndValidateRecoveryState sdk m recovery identity plan)"
  unfolding loadAndValidateRecoveryState_def
  by (intro fails_intros get_recovery_named) (auto dest: recovery_named_errors recovery_clients_error_named[OF assms])

lemmas recovery_named = load_named with_plan_named committed_named update_tags_named verify_stage_named

lemma recovery_calls_named:
  assumes "wrm_clientsFactory m = None"
  shows "fails_only named_reasons (Inspect sdk m recovery identity u s)"
    and "fails_only named_reasons (MarkInProgress sdk m recovery identity plan)"
    and "fails_only named_reasons (Azure_Recovery.EnsureFederatedIdentityCredential sdk m recovery identity plan)"
    and "fails_only named_reasons (Commit sdk m recovery identity plan)"
    and "fails_only named_reasons (Finalize sdk m recovery identity plan)"
proof -
  show "fails_only named_reasons (Inspect sdk m recovery identity u s)"
    unfolding Inspect_def
    by (intro fails_intros get_recovery_named fic_List_named) (auto dest: recovery_named_errors recovery_clients_error_named[OF assms])
  show "fails_only named_reasons (MarkInProgress sdk m recovery identity plan)"
    unfolding MarkInProgress_def by (intro named_wrap fails_intros recovery_named assms) simp_all
  show "fails_only named_reasons (Azure_Recovery.EnsureFederatedIdentityCredential sdk m recovery identity plan)"
    unfolding Azure_Recovery.EnsureFederatedIdentityCredential_def
    by (intro named_wrap fails_intros recovery_named assms) (simp_all add: recoveryMarkerNotActive_def)
  show "fails_only named_reasons (Commit sdk m recovery identity plan)"
    unfolding Commit_def by (intro named_wrap fails_intros recovery_named assms) (simp_all add: recoveryMarkerNotActive_def)
  show "fails_only named_reasons (Finalize sdk m recovery identity plan)"
    unfolding Finalize_def by (intro named_wrap fails_intros recovery_named assms) simp_all
qed

lemma Inspect_plans: "yields valid_plan (Inspect sdk m recovery identity u s)"
  unfolding Inspect_def by (intro yields_intros) (auto intro!: yields_intros simp: valid_plan_def split: option.split)

interpretation azure_recovery_reports: recovery_reports "azure_recovery_manager sdk (m\<lparr>wrm_clientsFactory := None\<rparr>)" for sdk m
  by unfold_locales (simp_all add: azure_recovery_manager_def recovery_calls_named Inspect_plans)

end
