(* ===== verification/Schema_Calls.thy ===== *)
theory Schema_Calls
  imports Schema_Contracts
begin

text \<open>
  An API server that stores only objects its schemas accept: \<open>schema_cluster\<close>, the calls of a server that keeps an
  invariant, returns valid objects and is asked to store valid ones.
\<close>

section \<open>The API server\<close>

text \<open>
  What is stored satisfies its schema, so what a call returns does.  The server is only ever asked to store objects that fit;
  what it returns for a write it accepts is valid, and it refuses a message that is too long like any other invalid
  object.
\<close>

definition schema_reader :: "('w \<Rightarrow> bool) \<Rightarrow> 'w Reader \<Rightarrow> bool" where
  "schema_reader I R \<longleftrightarrow> reader_keeps I R \<and>
     (\<forall>k. gives I valid_identity (external (GetWorkloadIdentity R k))) \<and>
     (\<forall>k. gives I valid_issuer (external (GetOIDCIssuer R k))) \<and>
     (\<forall>k. gives I valid_recovery (external (GetWorkloadIdentityRecovery R k)))"

definition schema_cluster :: "('w \<Rightarrow> bool) \<Rightarrow> 'w Cluster \<Rightarrow> bool" where
  "schema_cluster I C \<longleftrightarrow>
     cluster_keeps I C {CreatesServiceAccount, PatchesServiceAccount, DeletesServiceAccount} \<and>
     schema_reader I (ClusterReader C) \<and>
     (\<forall>x. fitting_identity x \<longrightarrow> gives I valid_identity (external (UpdateWorkloadIdentity C x)) \<and>
        (\<forall>p. gives I valid_identity (external (PatchWorkloadIdentityStatus C x p)))) \<and>
     (\<forall>x. fitting_issuer x \<longrightarrow> gives I valid_issuer (external (UpdateOIDCIssuer C x)) \<and>
        (\<forall>p. gives I valid_issuer (external (PatchOIDCIssuerStatus C x p)))) \<and>
     (\<forall>x. fitting_recovery x \<longrightarrow> gives I valid_recovery (external (UpdateWorkloadIdentityRecovery C x)) \<and>
        (\<forall>p. gives I valid_recovery (external (PatchWorkloadIdentityRecoveryStatus C x p))))"

lemma gives_fitting:
  "gives I valid_issuer m \<Longrightarrow> gives I fitting_issuer m" "gives I valid_identity n \<Longrightarrow> gives I fitting_identity n"
  "gives I valid_recovery k \<Longrightarrow> gives I fitting_recovery k"
  unfolding gives_def using valid_fits by blast+

lemma schema_clusterD:
  assumes "schema_cluster I C"
  shows "reader_keeps I (ClusterReader C)" "preserves I (Now C)" "schema_reader I (ClusterReader C)"
    "preserves I (CreateServiceAccount C sa)" "preserves I (PatchServiceAccount C sa q)" "preserves I (DeleteServiceAccount C sa)"
  using assms unfolding schema_cluster_def cluster_keeps_def by (simp_all add: ball_simps)

lemma schema_reads:
  assumes "schema_cluster I C"
  shows "gives I fitting_identity (external (GetWorkloadIdentity (ClusterReader C) k))"
    "gives I fitting_issuer (external (GetOIDCIssuer (ClusterReader C) n))"
    "gives I fitting_recovery (external (GetWorkloadIdentityRecovery (ClusterReader C) k))"
  using schema_clusterD(3)[OF assms] by (simp_all add: schema_reader_def gives_fitting)

lemma schema_writes:
  assumes "schema_cluster I C"
  shows "fitting_identity x \<Longrightarrow> gives I fitting_identity (external (UpdateWorkloadIdentity C x))"
    "fitting_identity x \<Longrightarrow> gives I fitting_identity (external (PatchWorkloadIdentityStatus C x p))"
    "fitting_issuer i \<Longrightarrow> gives I fitting_issuer (external (UpdateOIDCIssuer C i))"
    "fitting_issuer i \<Longrightarrow> gives I fitting_issuer (external (PatchOIDCIssuerStatus C i p'))"
    "fitting_recovery y \<Longrightarrow> gives I fitting_recovery (external (UpdateWorkloadIdentityRecovery C y))"
    "fitting_recovery y \<Longrightarrow> gives I fitting_recovery (external (PatchWorkloadIdentityRecoveryStatus C y p''))"
  using assms by (simp_all add: schema_cluster_def gives_fitting)

lemmas schema_keeps = schema_writes[THEN gives_keeps]

lemma valid_objects [simp]:
  "fitting_issuer (x\<lparr>oi_Meta := (oi_Meta x)\<lparr>Finalizers := fs\<rparr>\<rparr>) = fitting_issuer x"
  "fitting_identity (y\<lparr>wi_Meta := (wi_Meta y)\<lparr>Finalizers := fs\<rparr>\<rparr>) = fitting_identity y"
  "fitting_recovery (z\<lparr>r_Meta := (r_Meta z)\<lparr>Finalizers := fs\<rparr>\<rparr>) = fitting_recovery z"
  by (simp_all add: fitting_issuer_def fitting_identity_def fitting_recovery_def)

end
