(* ===== verification/Schema_Issuer.thy ===== *)
theory Schema_Issuer
  imports Schema_Calls
begin

text \<open>
  A reconcile of the OIDCIssuer writes only statuses its schema accepts.
\<close>

section \<open>The OIDCIssuer reconciler\<close>

lemma issuer_patch:
  assumes "schema_cluster I (ir_Client r)" and "fitting_issuer issuer"
    and "\<And>s. fitting_issuer_status s \<Longrightarrow> fitting_issuer_status (f s)"
  shows "gives I fitting_issuer (patchOIDCIssuerStatus r issuer f)"
proof -
  have "fitting_issuer (issuer\<lparr>oi_Status := f ((oi_Status issuer)\<lparr>oi_ObservedGeneration := g, oi_LastReconciledTime := t\<rparr>)\<rparr>)" for g t
    using assms(2,3) by (simp add: fitting_issuer_def fitting_issuer_status_def)
  then show ?thesis
    unfolding patchOIDCIssuerStatus_def by (intro gives_bind schema_writes[OF assms(1)] schema_clusterD[OF assms(1)])
qed

lemma issuer_status_calls:
  assumes "condition_list_laws L" and "schema_cluster I (ir_Client r)" and valid: "fitting_issuer issuer"
  shows "valid_reason reason \<Longrightarrow> gives I fitting_issuer (setNotReady L r issuer reason message)"
    and "valid_resources (pd_AzureResources d) \<Longrightarrow> valid_signing_keys (pd_SigningKeys d) \<Longrightarrow> gives I fitting_issuer (setPublished r issuer d)"
    and "valid_resources (pd_AzureResources d) \<Longrightarrow> valid_signing_keys (pd_SigningKeys d) \<Longrightarrow> gives I fitting_issuer (setReady L r issuer d)"
    and "gives I fitting_issuer (capturePreviousServiceAccountIssuer r issuer u)"
proof -
  have g: "0 \<le> Generation (oi_Meta issuer)" using valid by (simp add: fitting_issuer_def)
  note patch = issuer_patch[OF assms(2,3)] and statuses = issuer_statuses_valid[OF assms(1) _ g]
  show "valid_reason reason \<Longrightarrow> gives I fitting_issuer (setNotReady L r issuer reason message)"
    and "valid_resources (pd_AzureResources d) \<Longrightarrow> valid_signing_keys (pd_SigningKeys d) \<Longrightarrow> gives I fitting_issuer (setPublished r issuer d)"
    and "valid_resources (pd_AzureResources d) \<Longrightarrow> valid_signing_keys (pd_SigningKeys d) \<Longrightarrow> gives I fitting_issuer (setReady L r issuer d)"
    and "gives I fitting_issuer (capturePreviousServiceAccountIssuer r issuer u)"
    unfolding setNotReady_def setPublished_def setReady_def capturePreviousServiceAccountIssuer_def
    by (intro patch statuses; assumption)+
qed

lemma report_valid:
  assumes "condition_list_laws L" "schema_cluster I (ir_Client r)" "fitting_issuer issuer" "valid_reason reason"
  shows "gives I P (report_failure L r issuer reason shown err)"
  unfolding report_failure_def by (intro gives_try[OF issuer_status_calls(1)[OF assms]] gives_basic)

lemma switch_valid:
  assumes laws: "condition_list_laws L" and c: "schema_cluster I (ir_Client r)" and parties: "issuer_parties_keep I r"
    and valid: "fitting_issuer issuer"
  shows "gives I fitting_issuer (reconcileOpenShiftServiceAccountIssuer L r issuer url)"
proof -
  note calls = issuer_status_calls[OF laws c] and report = report_valid[OF laws c] and now = schema_clusterD(2)[OF c]
  have keeps: "preserves I (osm_Get m)" "preserves I (osm_Set m u)" "preserves I (osm_WaitForKubeAPIServerRollout m t)"
    if "ir_OpenShift r = Some m" for m u t
    using parties that by (simp_all add: issuer_parties_keep_def)
  have capture: "gives I fitting_issuer (capture_previous L r m issuer url)" if m: "ir_OpenShift r = Some m" for m
    unfolding capture_previous_def
    by (intro gives_cases gives_bind gives_basic keeps[OF m] report calls valid own_reasons_valid; simp)
  have set: "gives I fitting_issuer (set_cluster_issuer L r m x url)"
    if m: "ir_OpenShift r = Some m" and x: "fitting_issuer x" for m x
    unfolding set_cluster_issuer_def
    by (intro gives_cases gives_bind gives_basic keeps[OF m] report now x own_reasons_valid; simp)
  show ?thesis
    unfolding reconcileOpenShiftServiceAccountIssuer_def
    by (intro gives_cases gives_try[OF capture] set calls valid) simp_all
qed

text \<open>A guard that stops a deletion names its reason.\<close>

definition guard_named :: "DeletionGuardResult \<Rightarrow> bool" where
  "guard_named g \<longleftrightarrow> guard_passes g \<or> valid_reason (dg_Reason g)"

lemma guards_named:
  "yields guard_named (CheckWorkloadIdentityDeletionBlock m n)" "yields guard_named (CheckTokenIssuerHandoff issuer tokens openshift)"
  "yields guard_named (CheckOpenShiftIssuerHandoff issuer openshift)"
  unfolding CheckWorkloadIdentityDeletionBlock_def CheckTokenIssuerHandoff_def CheckOpenShiftIssuerHandoff_def
  by (auto intro!: yields_intros simp: guard_named_def guard_passes_def guard_blocked_def guard_passed_def split: option.split)

lemma deletion_valid:
  assumes laws: "condition_list_laws L" and c: "schema_cluster I (ir_Client r)" and parties: "issuer_parties_keep I r"
    and valid: "fitting_issuer issuer"
  shows "preserves (in_ctx I) (Issuer_reconcileDelete L r issuer)"
proof -
  have tokens: "preserves I t" if "ir_ServiceAccountTokens r = Some t" for t using parties that by (simp add: issuer_parties_keep_def)
  have openshift: "preserves I t" if "map_option osm_Get (ir_OpenShift r) = Some t" for t
    using parties that by (auto simp: issuer_parties_keep_def)
  have publisher: "preserves I (pub_Delete p issuer)" if "ir_Publisher r = Some p" for p
    using parties that by (simp add: issuer_parties_keep_def)
  have release: "preserves (in_ctx I) (release_issuer L r issuer)"
    unfolding release_issuer_def by (intro preserves_result_of schema_keeps(3)[OF c]) (simp add: valid)
  have blocked: "preserves I (setNotReady L r issuer (dg_Reason g) (dg_Message g))"
    if "guard_named g" "dg_Blocked g \<or> dg_CheckFailed g" for g
    using that by (auto simp: guard_named_def guard_passes_def intro: gives_keeps issuer_status_calls(1)[OF laws c valid])
  have last: "preserves (in_ctx I) (delete_published L r issuer)"
    unfolding delete_published_def
    by (intro preserves_if preserves_option preserves_and_then publisher release preserves_failed_with)
  have openshift_checked: "preserves (in_ctx I) (check_openshift_handoff L r issuer)"
    unfolding check_openshift_handoff_def issuer_blocked_def
    by (rule and_then_keeps[OF guards_keep(3) guards_named(3)])
      (auto intro!: openshift preserves_bind preserves_SetReconcileOutcome preserves_result_of blocked last)
  have token_checked: "preserves (in_ctx I) (check_token_handoff L r issuer)"
    unfolding check_token_handoff_def issuer_blocked_def
    by (rule and_then_keeps[OF guards_keep(2) guards_named(2)])
      (auto intro!: tokens preserves_bind preserves_SetReconcileOutcome preserves_result_of preserves_and_then blocked
        openshift_checked preserves_done_with preserves_failed_with)
  show ?thesis
    unfolding Issuer_reconcileDelete_def identities_checked_def issuer_blocked_def
    by (intro preserves_if preserves_done_with, rule and_then_keeps[OF guards_keep(1) guards_named(1)])
      (auto intro!: reader_keepsD[OF schema_clusterD(1)[OF c]] preserves_bind preserves_SetReconcileOutcome preserves_result_of
        blocked token_checked)
qed

context publisher_reports
begin

lemma publish_valid:
  assumes laws: "condition_list_laws L" and c: "schema_cluster I (ir_Client r)" and parties: "issuer_parties_keep I r"
    and P: "ir_Publisher r = Some P" and lists: "listed \<le> valid_resources" and valid: "fitting_issuer issuer"
  shows "preserves (in_ctx I) (reconcile_live_issuer L r issuer)"
proof -
  have documents: "valid_resources (pd_AzureResources d)" "valid_signing_keys (pd_SigningKeys d)"
    if "run_state (pub_Publish P issuer) w = (Inr d, w')" for d w w'
    using yieldsD[OF publish_lists that] lists by auto
  have published: "preserves (in_ctx I) (and_then (setPublished r issuer d) (\<lambda>issuer.
         and_then (if shouldUpdateOpenShiftServiceAccountIssuer issuer
                   then reconcileOpenShiftServiceAccountIssuer L r issuer (pd_IssuerURL d) else io_return issuer) (\<lambda>issuer.
         and_then (setReady L r issuer d) (\<lambda>_. done_with x))))"
    if d: "valid_resources (pd_AzureResources d)" "valid_signing_keys (pd_SigningKeys d)" for d x
    by (intro keeps_and_then[OF issuer_status_calls(2)[OF laws c valid d]] keeps_and_then[where P = fitting_issuer]
        gives_cases(1) switch_valid[OF laws c parties] gives_basic(1) issuer_status_calls(3)[OF laws c _ d] preserves_done_with)
  show ?thesis
    unfolding reconcile_live_issuer_def P option.case publish_issuer_def
  proof (rule preserves_bind_result)
    show "preserves I (pub_Publish P issuer)" using parties P by (simp add: issuer_parties_keep_def)
    fix a w w' assume run: "run_state (pub_Publish P issuer) w = (a, w')"
    show "preserves (in_ctx I) (case a of
         Inl err \<Rightarrow> and_then (report_failure L r issuer ''PublishFailed'' err err) (\<lambda>_. done_with empty_Result)
       | Inr published \<Rightarrow> and_then (setPublished r issuer published) (\<lambda>issuer.
         and_then (if shouldUpdateOpenShiftServiceAccountIssuer issuer
                   then reconcileOpenShiftServiceAccountIssuer L r issuer (pd_IssuerURL published) else io_return issuer) (\<lambda>issuer.
         and_then (setReady L r issuer published) (\<lambda>_. done_with (requeue_after (oidcIssuerRefreshInterval r))))))"
    proof (cases a)
      case (Inr d)
      with run documents[of w d w'] show ?thesis by (simp add: published)
    qed (simp add: preserves_and_then gives_keeps[OF report_valid[OF laws c valid]] preserves_done_with)
  qed
qed

lemma issuer_reconcile_valid:
  assumes laws: "condition_list_laws L" and c: "schema_cluster I (ir_Client r)" and parties: "issuer_parties_keep I r"
    and P: "ir_Publisher r = Some P" and lists: "listed \<le> valid_resources"
  shows "preserves (in_ctx I) (Issuer_Reconcile L r request)"
proof -
  note live = publish_valid[OF laws c parties P lists] and delete = deletion_valid[OF laws c parties]
  have invalid: "preserves I (setNotReady L r issuer ''InvalidName'' message)" if "fitting_issuer issuer" for issuer message
    by (rule gives_keeps[OF issuer_status_calls(1)[OF laws c that]]) simp
  have existing: "preserves (in_ctx I) (reconcile_existing_issuer L r issuer)" if "fitting_issuer issuer" for issuer
    unfolding reconcile_existing_issuer_def issuer_blocked_def
    by (intro preserves_if preserves_bind preserves_SetReconcileOutcome preserves_result_of
        invalid delete live that
        keeps_and_then[OF schema_writes(3)[OF c]]) (simp_all add: that)
  show ?thesis
    unfolding Issuer_Reconcile_def
    by (rule keeps_found[OF schema_reads(2)[OF c] _ existing])
      (intro preserves_if preserves_bind preserves_SetReconcileOutcome preserves_done_with preserves_failed_with)
qed

end

end
