(* ===== verification/Schema_Identity.thy ===== *)
theory Schema_Identity
  imports Schema_Calls
begin

text \<open>
  A reconcile of a WorkloadIdentity writes only statuses its schema accepts.
\<close>

section \<open>The WorkloadIdentity reconciler\<close>

definition identity_parties_keep :: "('w \<Rightarrow> bool) \<Rightarrow> 'w WorkloadIdentityReconciler \<Rightarrow> bool" where
  "identity_parties_keep I r \<longleftrightarrow>
     (\<forall>m x u s. wr_Manager r = Some m \<longrightarrow> preserves I (im_Ensure m x u s) \<and> preserves I (im_Delete m x)) \<and>
     (\<forall>d x. wr_RecoveryDetector r = Some d \<longrightarrow> preserves I (d x)) \<and>
     (\<forall>e x t u v n. wr_Recorder r = Some e \<longrightarrow> preserves I (e x t u v n))"

lemma identity_patch:
  assumes "schema_cluster I (wr_Client r)" and "fitting_identity identity"
    and "\<And>s. fitting_identity_status s \<Longrightarrow> fitting_identity_status (f s)"
  shows "gives I fitting_identity (patchWorkloadIdentityStatus r identity f)"
proof -
  have "fitting_identity (identity\<lparr>wi_Status := f ((wi_Status identity)\<lparr>wi_ObservedGeneration := g, wi_LastReconciledTime := t\<rparr>)\<rparr>)" for g t
    using assms(2,3) by (simp add: fitting_identity_def fitting_identity_status_def)
  then show ?thesis
    unfolding patchWorkloadIdentityStatus_def by (intro gives_bind schema_writes[OF assms(1)] schema_clusterD[OF assms(1)])
qed

lemma identity_status_calls:
  assumes "condition_list_laws L" and "schema_cluster I (wr_Client r)" and valid: "fitting_identity identity"
  shows "valid_reason reason \<Longrightarrow> preserves I (setWorkloadIdentityNotReady L r identity reason message)"
    and "preserves I (setWorkloadIdentityRecoveryRequired L r identity evidence message)"
    and "valid_resources (mi_AzureResources m) \<Longrightarrow> valid_provenance p \<Longrightarrow>
      preserves I (setWorkloadIdentityReady L r identity u s sa p m)"
proof -
  have g: "0 \<le> Generation (wi_Meta identity)" using valid by (simp add: fitting_identity_def)
  note patch = identity_patch[OF assms(2,3), THEN gives_keeps] and statuses = identity_statuses_valid[OF assms(1) _ g]
  show "valid_reason reason \<Longrightarrow> preserves I (setWorkloadIdentityNotReady L r identity reason message)"
    and "preserves I (setWorkloadIdentityRecoveryRequired L r identity evidence message)"
    and "valid_resources (mi_AzureResources m) \<Longrightarrow> valid_provenance p \<Longrightarrow>
      preserves I (setWorkloadIdentityReady L r identity u s sa p m)"
    unfolding setWorkloadIdentityNotReady_def setWorkloadIdentityRecoveryRequired_def setWorkloadIdentityReady_def
    by (intro patch statuses; assumption)+
qed

lemma wait_valid:
  assumes "condition_list_laws L" "schema_cluster I (wr_Client r)" "fitting_identity identity" "valid_reason reason"
  shows "preserves (in_ctx I) (waitForOIDCIssuer L r identity reason message)"
  unfolding waitForOIDCIssuer_def Let_def by (intro preserves_intros identity_status_calls[OF assms(1-3)] assms(4))

lemma ensure_error_valid:
  assumes "condition_list_laws L" "schema_cluster I (wr_Client r)" "fitting_identity identity" "named_reasons err"
  shows "preserves (in_ctx I) (handleWorkloadIdentityEnsureError L r identity err)"
proof -
  have "valid_reason (case ConflictReason err of Some c \<Rightarrow> c | None \<Rightarrow> ''AzureEnsureFailed'')"
    using named_reasonsD(1)[OF assms(4)] by (simp split: option.split)
  then show ?thesis
    unfolding handleWorkloadIdentityEnsureError_def Let_def
    by (intro preserves_intros identity_status_calls[OF assms(1-3)]) simp_all
qed

lemma inspection_error_valid:
  assumes "condition_list_laws L" "schema_cluster I (wr_Client r)" "identity_parties_keep I r" "fitting_identity identity"
  shows "preserves (in_ctx I) (handle_inspection_error L r identity err)"
proof -
  note calls = identity_status_calls[OF assms(1,2,4)]
  have failed: "preserves (in_ctx I) (inspection_failed L r identity err)"
    unfolding inspection_failed_def by (intro preserves_intros calls) simp
  have detect: "preserves I (d identity)" if "wr_RecoveryDetector r = Some d" for d
    using assms(3) that by (simp add: identity_parties_keep_def)
  show ?thesis
    unfolding handle_inspection_error_def by (intro preserves_intros failed calls detect) simp_all
qed

text \<open>Provenances.\<close>

definition known_provenance :: "serviceAccountReconcileState \<Rightarrow> bool" where
  "known_provenance s \<longleftrightarrow> (sas_Established s \<longrightarrow> valid_provenance (sas_Provenance s))"

lemma inspect_provenance: "yields known_provenance (inspectServiceAccount L r identity)"
proof -
  have missing: "known_provenance (inspect_missing identity)"
    using persisted_provenance_cases[of identity]
    by (auto simp: inspect_missing_def known_provenance_def not_established_def valid_provenance_def split: option.split)
  have found: "known_provenance s" if "inspect_found identity sa = Inr s" for sa s
    using that persisted_provenance_cases[of identity]
    by (auto simp: inspect_found_def known_provenance_def not_established_def valid_provenance_def serviceAccountProvenanceFromLabels_def
        split: option.splits if_splits)
  show ?thesis
    unfolding inspectServiceAccount_def by (auto intro!: yields_intros yields_io_of missing found simp: yields_def split: sum.split prod.split)
qed

lemma ensure_provenance:
  assumes "known_provenance state"
  shows "yields (\<lambda>(sa, p). valid_provenance p) (ensureServiceAccount L r identity managed state)"
proof -
  have update: "yields (\<lambda>(sa, p). valid_provenance p) (update_service_account r identity managed p original)"
    if "valid_provenance p" for p original
    using that unfolding update_service_account_def Let_def by (auto intro!: yields_intros)
  show ?thesis
    unfolding ensureServiceAccount_def Let_def using assms
    by (auto intro!: yields_intros update simp: known_provenance_def split: option.split sum.split)
qed

lemma account_calls_keep:
  assumes "schema_cluster I (wr_Client r)"
  shows "preserves I (inspectServiceAccount L r identity)" "preserves I (ensureServiceAccount L r identity managed state)"
    "preserves I (deleteServiceAccountIfOwned L r identity)"
  unfolding inspectServiceAccount_def ensureServiceAccount_def update_service_account_def deleteServiceAccountIfOwned_def Let_def
  by (intro preserves_intros reader_keepsD[OF schema_clusterD(1)[OF assms]] schema_clusterD[OF assms])+

lemma identity_deletion_valid:
  assumes "schema_cluster I (wr_Client r)" and "identity_parties_keep I r" and "fitting_identity identity"
  shows "preserves (in_ctx I) (reconcileWorkloadIdentityDelete L r identity)"
proof -
  have manager: "preserves I (im_Delete m identity)" if "wr_Manager r = Some m" for m
    using assms(2) that by (simp add: identity_parties_keep_def)
  have recorder: "preserves I (e identity t u v n)" if "wr_Recorder r = Some e" for e t u v n
    using assms(2) that by (simp add: identity_parties_keep_def)
  have release: "preserves (in_ctx I) (release_identity L r identity)"
    unfolding release_identity_def by (intro preserves_result_of schema_keeps(1)[OF assms(1)]) (simp add: assms(3))
  show ?thesis
    unfolding reconcileWorkloadIdentityDelete_def emitRecoveryRequiredDeletionWarning_def
    by (intro preserves_intros manager recorder release account_calls_keep[OF assms(1)] schema_clusterD[OF assms(1)])
qed

context identity_reports
begin

lemma with_issuer_valid:
  assumes laws: "condition_list_laws L" and c: "schema_cluster I (wr_Client r)" and parties: "identity_parties_keep I r"
    and m: "wr_Manager r = Some m" "im_Ensure m = Ensure" and lists: "listed \<le> valid_resources" and valid: "fitting_identity identity"
  shows "preserves (in_ctx I) (reconcile_with_issuer L r identity issuer m)"
proof -
  note calls = identity_status_calls[OF laws c valid] and accounts = account_calls_keep[OF c]
  have manager: "preserves I (Ensure identity u s)" for u s
    using parties m by (auto simp: identity_parties_keep_def)
  have resources: "listed rs \<Longrightarrow> valid_resources rs" for rs using lists by auto
  have account: "preserves (in_ctx I) (State_Monad.bind (in_world (ensureServiceAccount L r identity managed state)) (\<lambda>sa. case sa of
       Inl err \<Rightarrow> and_then (setWorkloadIdentityNotReady L r identity
            (if isServiceAccountConflict err then ''ServiceAccountConflict'' else ''ServiceAccountEnsureFailed'') (Error err))
          (\<lambda>_. failed_with err)
     | Inr (serviceAccount, provenance) \<Rightarrow> and_then (setWorkloadIdentityReady L r identity u s (UID (sa_Meta serviceAccount)) provenance managed)
          (\<lambda>identity. done_with (requeue_after (refreshInterval r identity)))))"
    if "listed (mi_AzureResources managed)" "known_provenance state" for managed state u s
    by (rule keeps_called[OF gives_yields[OF accounts(2) ensure_provenance[OF that(2)]] fails_any])
      (auto intro!: preserves_and_then calls resources that(1) preserves_failed_with preserves_done_with)
  show ?thesis
    unfolding reconcile_with_issuer_def Let_def m(2)
    by (rule keeps_called[OF gives_yields[OF accounts(1) inspect_provenance] fails_any], rule inspection_error_valid[OF laws c parties valid],
        rule keeps_called[OF gives_yields[OF manager ensure_lists] ensure_named], rule ensure_error_valid[OF laws c valid], assumption,
        rule account)
qed

lemma identity_reconcile_valid:
  assumes laws: "condition_list_laws L" and c: "schema_cluster I (wr_Client r)" and parties: "identity_parties_keep I r"
    and m: "wr_Manager r = Some m" "im_Ensure m = Ensure" and lists: "listed \<le> valid_resources"
  shows "preserves (in_ctx I) (WorkloadIdentity_Reconcile L r request)"
proof -
  note reads = reader_keepsD[OF schema_clusterD(1)[OF c]]
  have live: "preserves (in_ctx I) (reconcile_live_identity L r identity)" if valid: "fitting_identity identity" for identity
    unfolding reconcile_live_identity_def blocked_reconcile_def
    by (intro preserves_intros reads wait_valid[OF laws c valid] identity_status_calls[OF laws c valid]
        with_issuer_valid[OF laws c parties _ _ lists valid]) (use m in simp_all)
  have existing: "preserves (in_ctx I) (reconcile_existing_identity L r identity)" if valid: "fitting_identity identity" for identity
    unfolding reconcile_existing_identity_def
    by (intro preserves_if identity_deletion_valid[OF c parties] live valid keeps_and_then[OF schema_writes(1)[OF c]]) (simp_all add: valid)
  show ?thesis
    unfolding WorkloadIdentity_Reconcile_def
    by (rule keeps_found[OF schema_reads(1)[OF c] _ existing])
      (intro preserves_if preserves_bind preserves_SetReconcileOutcome preserves_done_with preserves_failed_with)
qed

end

end
