(* ===== verification/Schema_Recovery.thy ===== *)
theory Schema_Recovery
  imports Schema_Calls
begin

text \<open>
  A reconcile of a WorkloadIdentityRecovery writes only statuses the schemas of its own kind and of its target accept.
\<close>

section \<open>The recovery reconciler\<close>

definition recovery_parties_keep :: "('w \<Rightarrow> bool) \<Rightarrow> 'w RecoveryReconciler \<Rightarrow> bool" where
  "recovery_parties_keep I r \<longleftrightarrow> schema_reader I (recoveryReader r) \<and>
     (\<forall>m x y u s p. rr_Manager r = Some m \<longrightarrow> preserves I (rm_Inspect m x y u s) \<and> preserves I (rm_MarkInProgress m x y p) \<and>
        preserves I (rm_EnsureFederatedIdentityCredential m x y p) \<and> preserves I (rm_Commit m x y p) \<and>
        preserves I (rm_Finalize m x y p))"

lemma bind_value_keeps:
  assumes "preserves I m" and "\<And>w. Q (fst (run_state m w))" and "\<And>a. Q a \<Longrightarrow> preserves I (k a)"
  shows "preserves I (State_Monad.bind m k)"
  unfolding preserves_def
proof (intro allI impI)
  fix w assume "I w"
  obtain a w' where m: "run_state m w = (a, w')" by fastforce
  with assms(1) \<open>I w\<close> have "I w'" by (rule preservesD)
  then show "I (snd (run_state (State_Monad.bind m k) w))" using m assms(2)[of w] assms(3)[of a] by (simp add: preserves_def)
qed

definition status_mutation :: "('w \<Rightarrow> bool) \<Rightarrow> (WorkloadIdentityRecoveryStatus \<Rightarrow> ('w, WorkloadIdentityRecoveryStatus) state) \<Rightarrow> bool" where
  "status_mutation I f \<longleftrightarrow> (\<forall>s. fitting_recovery_status s \<longrightarrow> preserves I (f s) \<and> (\<forall>w. fitting_recovery_status (fst (run_state (f s) w))))"

lemma recovery_patch:
  assumes c: "schema_cluster I (rr_Client r)" and f: "status_mutation I f"
  shows "preserves I (patchRecoveryStatus r recovery f)"
proof -
  have "preserves I (State_Monad.bind (f ((r_Status x)\<lparr>r_ObservedGeneration := g, r_LastAttemptTime := t\<rparr>)) (\<lambda>status.
      io_try (external (PatchWorkloadIdentityRecoveryStatus (rr_Client r) (x\<lparr>r_Status := status\<rparr>) (MergeFrom x)))
        (\<lambda>patched. io_return (recovery\<lparr>r_Status := r_Status patched\<rparr>))))" if "fitting_recovery x" for x g t
  proof (rule bind_value_keeps[where Q = fitting_recovery_status])
    have "fitting_recovery_status ((r_Status x)\<lparr>r_ObservedGeneration := g, r_LastAttemptTime := t\<rparr>)"
      using that by (simp add: fitting_recovery_def fitting_recovery_status_def)
    then show "preserves I (f ((r_Status x)\<lparr>r_ObservedGeneration := g, r_LastAttemptTime := t\<rparr>))"
      "fitting_recovery_status (fst (run_state (f ((r_Status x)\<lparr>r_ObservedGeneration := g, r_LastAttemptTime := t\<rparr>)) w))" for w
      using f by (simp_all add: status_mutation_def)
    fix status assume "fitting_recovery_status status"
    then have "fitting_recovery (x\<lparr>r_Status := status\<rparr>)" using that by (simp add: fitting_recovery_def)
    then show "preserves I (io_try (external (PatchWorkloadIdentityRecoveryStatus (rr_Client r) (x\<lparr>r_Status := status\<rparr>) (MergeFrom x)))
        (\<lambda>patched. io_return (recovery\<lparr>r_Status := r_Status patched\<rparr>)))"
      by (intro preserves_io_try schema_keeps(6)[OF c] preserves_io_return)
  qed
  note written = this
  show ?thesis
    unfolding patchRecoveryStatus_def
    by (rule try_given[OF schema_reads(3)[OF c]], rule preserves_bind[OF schema_clusterD(2)[OF c]], rule written)
qed

lemma pure_mutation:
  "(\<And>s. fitting_recovery_status s \<Longrightarrow> fitting_recovery_status (f s)) \<Longrightarrow> status_mutation I (\<lambda>s. State_Monad.return (f s))"
  by (simp add: status_mutation_def preserves_return)

lemma timed_mutation:
  "preserves I m \<Longrightarrow> (\<And>t s. fitting_recovery_status s \<Longrightarrow> fitting_recovery_status (f t s)) \<Longrightarrow>
     status_mutation I (\<lambda>s. State_Monad.bind m (\<lambda>t. State_Monad.return (f t s)))"
  by (auto simp: status_mutation_def intro: preserves_bind split: prod.split)

lemma recovery_status_calls:
  assumes laws: "condition_list_laws L" and c: "schema_cluster I (rr_Client r)" and g: "0 \<le> g"
  shows "valid_reason reason \<Longrightarrow> preserves I (patchRecoveryStatus r x (\<lambda>s. State_Monad.return (block_status L reason message g s)))"
    and "valid_reason reason \<Longrightarrow> preserves I (patchRecoveryStatus r x (\<lambda>s. State_Monad.return (fail_status L reason message g s)))"
    and "valid_plan plan \<Longrightarrow> preserves I (patchRecoveryStatus r x (\<lambda>s. State_Monad.return (preflight_status L plan g s)))"
    and "preserves I (patchRecoveryStatus r x (\<lambda>s. State_Monad.return (commit_verified_status L g s)))"
    and "preserves I (patchRecoveryStatus r x (\<lambda>s. State_Monad.bind (Now (rr_Client r)) (\<lambda>now. State_Monad.return (start_status L now g s))))"
    and "preserves I (patchRecoveryStatus r x (\<lambda>s. State_Monad.bind (Now (rr_Client r)) (\<lambda>now. State_Monad.return (complete_status L now g s))))"
  by (intro recovery_patch[OF c] pure_mutation timed_mutation schema_clusterD(2)[OF c] recovery_statuses_valid[OF laws _ g];
      assumption)+

lemma block_valid:
  assumes "condition_list_laws L" "schema_cluster I (rr_Client r)" "fitting_recovery recovery" "valid_reason reason"
  shows "preserves (in_ctx I) (block L r recovery reason message)" "preserves (in_ctx I) (fail L r recovery reason message)"
proof -
  have "0 \<le> Generation (r_Meta recovery)" using assms(3) by (simp add: fitting_recovery_def)
  note calls = recovery_status_calls[OF assms(1,2) this]
  show "preserves (in_ctx I) (block L r recovery reason message)" "preserves (in_ctx I) (fail L r recovery reason message)"
    unfolding block_def fail_def
    by (intro preserves_run_try preserves_run_done preserves_bind preserves_SetReconcileOutcome calls assms(4))+
qed

lemma recovery_error_valid:
  assumes "condition_list_laws L" "schema_cluster I (rr_Client r)" "fitting_recovery recovery" "named_reasons err"
  shows "preserves (in_ctx I) (handleRecoveryError L r recovery err)"
  unfolding handleRecoveryError_def
  by (intro preserves_option preserves_run_failed block_valid[OF assms(1-3)] named_reasonsD(2)[OF assms(4)])

lemma target_valid:
  assumes laws: "condition_list_laws L" and c: "schema_cluster I (rr_Client r)" and reader: "schema_reader I (recoveryReader r)"
    and reason: "valid_reason reason"
  shows "preserves I (patchTargetRecoveryCondition L r recovery target froms reason message)"
proof -
  have get: "gives I fitting_identity (external (GetWorkloadIdentity (recoveryReader r) target))"
    using reader by (simp add: schema_reader_def gives_fitting)
  have patched: "preserves I (external (PatchWorkloadIdentityStatus (rr_Client r) (x\<lparr>wi_Status := (wi_Status x)\<lparr>wi_Conditions :=
      SetStatusCondition L (wi_Conditions (wi_Status x)) \<lparr> c_Type = WorkloadIdentityConditionReady, c_Status = ConditionFalse,
        c_ObservedGeneration = Generation (wi_Meta x), c_Reason = reason, c_Message = message \<rparr>\<rparr>\<rparr>) p))"
    if "fitting_identity x" for x p
    using that reason
    by (intro schema_keeps(2)[OF c])
      (simp add: fitting_identity_def fitting_identity_status_def set_condition_valid[OF laws] fitting_condition_def)
  show ?thesis
    unfolding patchTargetRecoveryCondition_def
    by (rule found_keeps[OF get]) (intro preserves_if preserves_option preserves_io_try patched preserves_io_return preserves_io_fail; assumption)+
qed

section \<open>The steps of a recovery\<close>

lemma recoverable_named: "validateRecoverableServiceAccount recovery identity sa = Some e \<Longrightarrow> named_reasons e"
  by (auto simp: validateRecoverableServiceAccount_def Let_def split: if_splits option.splits)

lemma account_steps_named:
  "fails_only named_reasons (validateRecoveryServiceAccount L r recovery identity)"
  "fails_only named_reasons (transferRecoveryServiceAccount L r recovery identity plan)"
  "fails_only named_reasons (verifyRecoveryServiceAccountForCommit L reader identity plan uid)"
proof -
  have verified: "fails_only named_reasons (verify_transferred reader identity p sa)" for reader p sa
    unfolding verify_transferred_def by (intro fails_intros) simp_all
  show "fails_only named_reasons (validateRecoveryServiceAccount L r recovery identity)"
    unfolding validateRecoveryServiceAccount_def by (intro fails_intros) (auto dest: recoverable_named)
  show "fails_only named_reasons (transferRecoveryServiceAccount L r recovery identity plan)"
    unfolding transferRecoveryServiceAccount_def Let_def by (intro fails_intros verified) (auto dest: recoverable_named)
  show "fails_only named_reasons (verifyRecoveryServiceAccountForCommit L reader identity plan uid)"
    unfolding verifyRecoveryServiceAccountForCommit_def by (intro fails_intros) simp_all
qed

lemma account_steps_keep:
  assumes "schema_cluster I (rr_Client r)" and "reader_keeps I (recoveryReader r)"
  shows "preserves I (validateRecoveryServiceAccount L r recovery identity)"
    "preserves I (transferRecoveryServiceAccount L r recovery identity plan)"
    "preserves I (verifyRecoveryServiceAccountForCommit L (recoveryReader r) identity plan uid)"
    "preserves I (recoveryWinnerForSource r recovery)"
  unfolding validateRecoveryServiceAccount_def transferRecoveryServiceAccount_def verifyRecoveryServiceAccountForCommit_def
    verify_transferred_def recoveryWinnerForSource_def Let_def
  by (intro preserves_intros reader_keepsD[OF assms(2)] reader_keepsD[OF schema_clusterD(1)[OF assms(1)]]
      schema_clusterD[OF assms(1)])+

lemma remove_finalizer_valid:
  assumes "schema_cluster I (rr_Client r)"
  shows "preserves I (removeRecoveryFinalizer L r recovery)"
  unfolding removeRecoveryFinalizer_def
  by (rule found_keeps[OF schema_reads(3)[OF assms]], intro preserves_if preserves_io_return preserves_io_fail,
      intro preserves_io_try preserves_io_return schema_keeps(5)[OF assms]) simp

lemma external_named: "fails_only named_reasons (external m)"
  by (rule fails_external) simp

lemma run_called:
  assumes "preserves I m" and "fails_only E m" and "\<And>e. E e \<Longrightarrow> preserves (in_ctx I) (h e)" and "\<And>a. preserves (in_ctx I) (k a)"
  shows "preserves (in_ctx I) (run_with m h k)"
  unfolding run_with_def by (rule keeps_called[where P = "\<lambda>_. True", OF gives_yields[OF assms(1)] assms(2-4)]) (simp_all add: yields_def)

lemma run_found:
  assumes "gives I P m" and "\<And>e. preserves (in_ctx I) (h e)" and "\<And>a. P a \<Longrightarrow> preserves (in_ctx I) (k a)"
  shows "preserves (in_ctx I) (run_with m h k)"
  unfolding run_with_def by (rule keeps_called[OF assms(1) fails_any assms(2,3)])

lemma recovery_partiesD:
  assumes "recovery_parties_keep I r"
  shows "schema_reader I (recoveryReader r)" "reader_keeps I (recoveryReader r)"
    "rr_Manager r = Some m \<Longrightarrow> preserves I (rm_Inspect m x y u s)" "rr_Manager r = Some m \<Longrightarrow> preserves I (rm_MarkInProgress m x y p)"
    "rr_Manager r = Some m \<Longrightarrow> preserves I (rm_EnsureFederatedIdentityCredential m x y p)"
    "rr_Manager r = Some m \<Longrightarrow> preserves I (rm_Commit m x y p)" "rr_Manager r = Some m \<Longrightarrow> preserves I (rm_Finalize m x y p)"
    "gives I fitting_recovery (external (GetWorkloadIdentityRecovery (recoveryReader r) k))"
    "preserves I (external (GetWorkloadIdentity (recoveryReader r) n))"
  using assms by (auto simp: recovery_parties_keep_def schema_reader_def gives_fitting intro!: preserves_external reader_keepsD(1))

lemma valid_generation: "fitting_recovery x \<Longrightarrow> 0 \<le> Generation (r_Meta x)"
  by (simp add: fitting_recovery_def)

lemma start_valid:
  assumes laws: "condition_list_laws L" and c: "schema_cluster I (rr_Client r)" and parties: "recovery_parties_keep I r"
    and valid: "fitting_recovery recovery"
  shows "preserves (in_ctx I) (startRecovery L r recovery identity)"
proof -
  have "preserves I (markTargetRecoveryInProgress L r recovery identity)"
    unfolding markTargetRecoveryInProgress_def by (rule target_valid[OF laws c recovery_partiesD(1)[OF parties]]) simp
  then show ?thesis
    unfolding startRecovery_def
    by (intro preserves_run_try account_steps_keep[OF c recovery_partiesD(2)[OF parties]] preserves_option
        block_valid[OF laws c valid] recovery_status_calls[OF laws c valid_generation[OF valid]] preserves_run_done) simp_all
qed

context recovery_reports
begin

lemma preflight_valid:
  assumes laws: "condition_list_laws L" and c: "schema_cluster I (rr_Client r)" and parties: "recovery_parties_keep I r"
    and m: "rr_Manager r = Some manager" and valid: "fitting_recovery recovery"
  shows "preserves (in_ctx I) (preflightRecovery L r manager recovery identity)"
proof -
  note keep = recovery_partiesD[OF parties] and errors = recovery_error_valid[OF laws c valid]
  have issuer: "preserves I (external (GetOIDCIssuer (ClusterReader (rr_Client r)) n))" for n
    by (intro preserves_external reader_keepsD[OF schema_clusterD(1)[OF c]])
  have "preserves (in_ctx I) (run_with (rm_Inspect manager recovery identity u s) (handleRecoveryError L r recovery)
      (\<lambda>plan. run_with (validateRecoveryServiceAccount L r recovery identity) (handleRecoveryError L r recovery)
        (\<lambda>_. run_try recovery (patchRecoveryStatus r recovery
            (\<lambda>status. State_Monad.return (preflight_status L plan (Generation (r_Meta recovery)) status)))
          (\<lambda>recovery. run_done recovery requeue_now))))" for u s
    unfolding run_with_def
    by (rule keeps_called[OF gives_yields[OF keep(3)[OF m] inspect_plans] inspect_named errors], assumption,
        rule run_called[unfolded run_with_def, OF account_steps_keep(1)[OF c keep(2)] account_steps_named(1) errors])
      (auto intro!: preserves_run_try preserves_run_done recovery_status_calls(3)[OF laws c] valid_generation valid)
  note inspected = this
  show ?thesis
    unfolding preflightRecovery_def
    by (rule preserves_run_with[OF issuer]) (intro preserves_if preserves_run_failed block_valid[OF laws c valid] inspected; simp)+
qed

lemma commit_valid:
  assumes laws: "condition_list_laws L" and c: "schema_cluster I (rr_Client r)" and parties: "recovery_parties_keep I r"
    and m: "rr_Manager r = Some manager"
  shows "preserves (in_ctx I) (commitRecovery L r manager recovery identity uid)"
proof -
  note keep = recovery_partiesD[OF parties]
  have recorded: "preserves (in_ctx I) (recordRecoveryCommitVerified L r x)" if "fitting_recovery x" for x
    unfolding recordRecoveryCommitVerified_def
    by (intro preserves_run_try recovery_status_calls[OF laws c] valid_generation that preserves_run_done)
  show ?thesis
    unfolding commitRecovery_def Let_def run_try_def
    by (rule run_found[OF keep(8)], rule preserves_run_failed,
        intro preserves_if preserves_run_failed preserves_run_apart preserves_option run_called[OF keep(9) external_named]
        run_called[OF account_steps_keep(3)[OF c keep(2)] account_steps_named(3)] run_called[OF keep(6)[OF m] commit_named]
        recovery_error_valid[OF laws c] block_valid[OF laws c] recorded)
      simp_all
qed

lemma forward_valid:
  assumes laws: "condition_list_laws L" and c: "schema_cluster I (rr_Client r)" and parties: "recovery_parties_keep I r"
    and m: "rr_Manager r = Some manager" and valid: "fitting_recovery recovery"
  shows "preserves (in_ctx I) (reconcileForward L r manager recovery)"
proof -
  note keep = recovery_partiesD[OF parties] and errors = recovery_error_valid[OF laws c valid]
    and blocks = block_valid[OF laws c valid]
  have advance: "preserves (in_ctx I) (advanceRecovery L r manager recovery identity)" for identity
    unfolding advanceRecovery_def Let_def
    by (intro run_called[OF keep(4)[OF m] mark_named] run_called[OF keep(5)[OF m] credential_named]
        run_called[OF account_steps_keep(2)[OF c keep(2)] account_steps_named(2)] errors commit_valid[OF laws c parties m]; assumption)
  have finish: "preserves (in_ctx I) (finalizeRecovery L r manager recovery identity)" for identity
    unfolding finalizeRecovery_def
    by (intro run_called[OF keep(7)[OF m] finalize_named] errors preserves_run_try recovery_status_calls[OF laws c]
        valid_generation valid preserves_run_done; assumption)
  show ?thesis
    unfolding reconcileForward_def forward_from_target_def getCurrentTarget_def
    by (intro preserves_run_with preserves_external reader_keepsD[OF schema_clusterD(1)[OF c]] preserves_if preserves_option
        preserves_run_failed blocks advance finish start_valid[OF laws c parties valid] preflight_valid[OF laws c parties m valid]) simp_all
qed

lemma recovery_reconcile_valid:
  assumes laws: "condition_list_laws L" and c: "schema_cluster I (rr_Client r)" and parties: "recovery_parties_keep I r"
    and m: "rr_Manager r = Some manager"
  shows "preserves (in_ctx I) (Recovery_Reconcile L r request)"
proof -
  note keep = recovery_partiesD[OF parties] and accounts = account_steps_keep[OF c recovery_partiesD(2)[OF parties]]
  have release: "preserves I (releaseCompletedTarget L r x)" "preserves I (releaseCancelledTarget L r x)" for x
    unfolding releaseCompletedTarget_def releaseCancelledTarget_def by (rule target_valid[OF laws c keep(1)], simp)+
  have last: "preserves (in_ctx I) (run_last x n)" if "preserves I n" for x n
    unfolding run_last_def by (intro preserves_run_try preserves_run_done that)
  have deletion: "preserves (in_ctx I) (Recovery_reconcileDelete L r x)" if valid: "fitting_recovery x" for x
    unfolding Recovery_reconcileDelete_def m option.case
    by (intro preserves_intros last release accounts remove_finalizer_valid[OF c] forward_valid[OF laws c parties m valid])
  have finalizer: "preserves I (external (UpdateWorkloadIdentityRecovery (rr_Client r) (x\<lparr>r_Meta := (r_Meta x)\<lparr>Finalizers := fs\<rparr>\<rparr>)))"
    if "fitting_recovery x" for x fs
    by (rule schema_keeps(5)[OF c]) (simp add: that)
  have existing: "preserves (in_ctx I) (reconcile_existing_recovery L r x)" if valid: "fitting_recovery x" for x
    unfolding reconcile_existing_recovery_def m option.case
    by (intro preserves_if preserves_bind preserves_run_try preserves_run_done preserves_SetReconcileOutcome last release deletion
        finalizer valid forward_valid[OF laws c parties m valid])
  show ?thesis
    unfolding Recovery_Reconcile_def
    by (rule keeps_found[OF schema_reads(3)[OF c]])
      (auto intro!: preserves_intros preserves_map_state preserves_SetReconcileOutcome preserves_done_with preserves_failed_with existing)
qed

end

end
