(* ===== verification/Sim_Cloud.thy ===== *)
theory Sim_Cloud
  imports Schema_Issuer Schema_Identity Schema_Recovery
begin

text \<open>
  A cluster and a cloud for the witnesses of the schema: the in-memory cluster behind an API server that refuses objects
  outside their schemas, and a cloud that names its resources by kind and path, as Azure does.
\<close>

section \<open>The cluster\<close>

definition sim_valid :: "sim \<Rightarrow> bool" where
  "sim_valid w \<longleftrightarrow> list_all valid_identity (sim_identities w) \<and> list_all valid_issuer (sim_issuers w) \<and>
     list_all valid_recovery (sim_recoveries w)"

lemma sim_get_gives:
  assumes "\<And>w. I w \<Longrightarrow> list_all P (items w)"
  shows "gives I P (external (sim_get meta items k))"
  using assms by (fastforce simp: gives_def sim_get_def run_external list_all_iff find_Some_iff split: option.splits)

lemma list_all_written:
  assumes "list_all P xs" and "\<And>x. P x \<Longrightarrow> P (f x)"
  shows "list_all P (replace_all meta k f xs)" "list_all P (drop_gone meta k (replace_all meta k f xs))"
  using assms by (auto simp: replace_all_def drop_gone_def list_all_iff)

lemma sim_write_gives:
  assumes "\<And>w. I w \<Longrightarrow> list_all P (items w)" and "\<And>x. P x \<Longrightarrow> P (f x)" and "\<And>w. I w \<Longrightarrow> I (upd (replace_all meta k f) w)"
  shows "gives I P (external (sim_write meta items upd k f))"
  using assms by (fastforce simp: gives_def sim_write_def run_external list_all_iff find_Some_iff split: option.splits)

lemma sim_schema_reader: "schema_reader sim_valid sim_reader"
proof -
  have "reader_keeps sim_valid sim_reader"
    by (simp add: reader_keeps_def preserves_def sim_reader_def sim_get_def sim_list_def)
  moreover have "gives sim_valid valid_identity (external (sim_get wi_Meta sim_identities k))"
    "gives sim_valid valid_issuer (external (sim_get oi_Meta sim_issuers k))"
    "gives sim_valid valid_recovery (external (sim_get r_Meta sim_recoveries k))" for k
    by (rule sim_get_gives, simp add: sim_valid_def)+
  ultimately show ?thesis by (simp add: schema_reader_def sim_reader_def)
qed

text \<open>
  The API server validates: a write of an object outside its schema is refused.
\<close>

definition kube_invalid :: ext_error where
  "kube_invalid = StatusError 422 ''Invalid'' ''invalid''"

definition checked :: "('x \<Rightarrow> bool) \<Rightarrow> ('x \<Rightarrow> ('w, 'a) ext_io) \<Rightarrow> 'x \<Rightarrow> ('w, 'a) ext_io" where
  "checked P write x = (if P x then write x else State_Monad.return (Inl kube_invalid))"

definition strict_cluster :: "sim Cluster" where
  "strict_cluster = sim_cluster\<lparr>
     UpdateWorkloadIdentity := checked valid_identity (UpdateWorkloadIdentity sim_cluster),
     PatchWorkloadIdentityStatus := (\<lambda>x p. checked valid_identity (\<lambda>x. PatchWorkloadIdentityStatus sim_cluster x p) x),
     UpdateOIDCIssuer := checked valid_issuer (UpdateOIDCIssuer sim_cluster),
     PatchOIDCIssuerStatus := (\<lambda>x p. checked valid_issuer (\<lambda>x. PatchOIDCIssuerStatus sim_cluster x p) x),
     UpdateWorkloadIdentityRecovery := checked valid_recovery (UpdateWorkloadIdentityRecovery sim_cluster),
     PatchWorkloadIdentityRecoveryStatus := (\<lambda>x p. checked valid_recovery (\<lambda>x. PatchWorkloadIdentityRecoveryStatus sim_cluster x p) x)\<rparr>"

lemma strict_cluster_simps [simp]:
  "ClusterReader strict_cluster = sim_reader" "Now strict_cluster = Now sim_cluster"
  "CreateServiceAccount strict_cluster = CreateServiceAccount sim_cluster"
  "PatchServiceAccount strict_cluster = PatchServiceAccount sim_cluster"
  "DeleteServiceAccount strict_cluster = DeleteServiceAccount sim_cluster"
  by (simp_all add: strict_cluster_def) (simp add: sim_cluster_def)

lemma checked_gives:
  assumes "\<And>x. P x \<Longrightarrow> gives I Q (external (write x))"
  shows "gives I Q (external (checked P write x))"
  using assms[of x] by (auto simp: checked_def gives_def run_external)

lemma sim_schema_writes:
  "valid_identity x \<Longrightarrow> gives sim_valid valid_identity (external (UpdateWorkloadIdentity sim_cluster x))"
  "valid_identity x \<Longrightarrow> gives sim_valid valid_identity (external (PatchWorkloadIdentityStatus sim_cluster x p))"
  "valid_issuer i \<Longrightarrow> gives sim_valid valid_issuer (external (UpdateOIDCIssuer sim_cluster i))"
  "valid_issuer i \<Longrightarrow> gives sim_valid valid_issuer (external (PatchOIDCIssuerStatus sim_cluster i p'))"
  "valid_recovery y \<Longrightarrow> gives sim_valid valid_recovery (external (UpdateWorkloadIdentityRecovery sim_cluster y))"
  "valid_recovery y \<Longrightarrow> gives sim_valid valid_recovery (external (PatchWorkloadIdentityRecoveryStatus sim_cluster y p''))"
  by (auto simp: sim_cluster_def sim_valid_def valid_identity_def valid_issuer_def valid_recovery_def
      fitting_identity_def fitting_issuer_def fitting_recovery_def updated_recovery_def
      intro!: sim_write_gives list_all_written)

lemma sim_account_writes:
  "preserves sim_valid (CreateServiceAccount sim_cluster x)" "preserves sim_valid (PatchServiceAccount sim_cluster x p)"
  "preserves sim_valid (DeleteServiceAccount sim_cluster x)" "preserves sim_valid (Now sim_cluster)"
  by (auto simp: preserves_def sim_cluster_def sim_write_def sim_valid_def split: option.split)

lemma sim_schema_cluster: "schema_cluster sim_valid strict_cluster"
proof -
  have "gives sim_valid valid_identity (external (UpdateWorkloadIdentity strict_cluster x))"
    "gives sim_valid valid_identity (external (PatchWorkloadIdentityStatus strict_cluster x p))"
    "gives sim_valid valid_issuer (external (UpdateOIDCIssuer strict_cluster i))"
    "gives sim_valid valid_issuer (external (PatchOIDCIssuerStatus strict_cluster i p'))"
    "gives sim_valid valid_recovery (external (UpdateWorkloadIdentityRecovery strict_cluster y))"
    "gives sim_valid valid_recovery (external (PatchWorkloadIdentityRecoveryStatus strict_cluster y p''))" for x p i p' y p''
    by (simp_all add: strict_cluster_def checked_gives sim_schema_writes)
  then show ?thesis
    using sim_schema_reader by (simp add: schema_cluster_def cluster_keeps_def sim_account_writes schema_reader_def)
qed

section \<open>The cloud\<close>

definition path_id :: "string \<Rightarrow> string \<Rightarrow> string option" where
  "path_id kind name = Some (kind @ ''/'' @ name)"

definition path_kind :: "string \<Rightarrow> string option" where
  "path_kind s = Some (takeWhile (\<lambda>c. c \<noteq> CHR ''/'') s)"

lemma path_id_named: "CHR ''/'' \<notin> set kind \<Longrightarrow> named_id path_kind kind (path_id kind name)"
  by (auto simp: named_id_def path_id_def path_kind_def takeWhile_append)

text \<open>An answer with the ID of its path.\<close>

definition answered_with :: "('a \<Rightarrow> 'a) \<Rightarrow> ('w, 'a) ext_io \<Rightarrow> ('w, 'a) ext_io" where
  "answered_with f m = map_state (map_sum id f) m"

lemma yields_answered_with: "(\<And>a. P (f a)) \<Longrightarrow> yields P (external (answered_with f m))"
  by (auto simp: yields_def answered_with_def run_external run_map_state split: prod.splits sum.splits)

lemma preserves_answered_with: "preserves I m \<Longrightarrow> preserves I (answered_with f m)"
  unfolding answered_with_def by (rule preserves_map_state)

definition path_groups :: "'w resourceGroupsClient \<Rightarrow> 'w resourceGroupsClient" where
  "path_groups c = \<lparr>
     rg_Get = (\<lambda>n. answered_with (\<lambda>x. x\<lparr>rg_ID := path_id ''ResourceGroup'' n\<rparr>) (rg_Get c n)),
     rg_CreateOrUpdate = (\<lambda>n d. answered_with (\<lambda>x. x\<lparr>rg_ID := path_id ''ResourceGroup'' n\<rparr>) (rg_CreateOrUpdate c n d)) \<rparr>"

definition path_identities :: "'w userAssignedIdentitiesClient \<Rightarrow> 'w userAssignedIdentitiesClient" where
  "path_identities c = (let stamp = (\<lambda>n. answered_with (\<lambda>x. x\<lparr>id_ID := path_id azureResourceKindUserAssignedIdentity n\<rparr>)) in \<lparr>
     ui_Get = (\<lambda>rg n. stamp n (ui_Get c rg n)), ui_CreateOrUpdate = (\<lambda>rg n d. stamp n (ui_CreateOrUpdate c rg n d)),
     ui_Update = (\<lambda>rg n t. stamp n (ui_Update c rg n t)), ui_Delete = ui_Delete c \<rparr>)"

definition path_credentials :: "'w federatedIdentityCredentialsClient \<Rightarrow> 'w federatedIdentityCredentialsClient" where
  "path_credentials c = (let stamp = (\<lambda>n f. answered_with (\<lambda>x. x\<lparr>fic_ID := path_id azureResourceKindFederatedIdentityCredential (n @ ''/'' @ f)\<rparr>)) in \<lparr>
     fic_Get = (\<lambda>rg n f. stamp n f (fic_Get c rg n f)),
     fic_CreateOrUpdate = (\<lambda>rg n f d. stamp n f (fic_CreateOrUpdate c rg n f d)),
     fic_NewListPager = fic_NewListPager c \<rparr>)"

definition path_sdk :: "Scope \<Rightarrow> sim armSDK" where
  "path_sdk scope = \<lparr> NewResourceGroupsClient = (\<lambda>s c. Inr (path_groups (lift_groups (mem_groups scope)))),
     NewUserAssignedIdentitiesClient = (\<lambda>s c. Inr (path_identities (lift_identities (mem_identities scope)))),
     NewFederatedIdentityCredentialsClient = (\<lambda>s c. Inr (path_credentials (lift_credentials (mem_credentials scope)))) \<rparr>"

definition path_clients :: "Scope \<Rightarrow> Scope \<Rightarrow> sim identityClients" where
  "path_clients scope s = \<lparr> ic_scope = s, ic_resourceGroups = path_groups (lift_groups (mem_groups scope)),
     ic_identities = path_identities (lift_identities (mem_identities scope)),
     ic_federatedCredentials = path_credentials (lift_credentials (mem_credentials scope)) \<rparr>"

lemma path_sdk_clients: "newIdentityClients (path_sdk scope) s credential = Inr c \<Longrightarrow> c = path_clients scope s"
  by (auto simp: newIdentityClients_def path_sdk_def path_clients_def split: option.splits)

lemma path_clients_named:
  "yields (\<lambda>g. named_id path_kind azureResourceKindResourceGroup (rg_ID g)) (external (rg_Get (ic_resourceGroups (path_clients scope s)) n))"
  "yields (\<lambda>g. named_id path_kind azureResourceKindResourceGroup (rg_ID g))
     (external (rg_CreateOrUpdate (ic_resourceGroups (path_clients scope s)) n x))"
  "yields (\<lambda>i. named_id path_kind azureResourceKindUserAssignedIdentity (id_ID i)) (external (ui_Get (ic_identities (path_clients scope s)) n u))"
  "yields (\<lambda>i. named_id path_kind azureResourceKindUserAssignedIdentity (id_ID i))
     (external (ui_CreateOrUpdate (ic_identities (path_clients scope s)) n u y))"
  "yields (\<lambda>i. named_id path_kind azureResourceKindFederatedIdentityCredential (fic_ID i))
     (external (fic_Get (ic_federatedCredentials (path_clients scope s)) n u f))"
  "yields (\<lambda>i. named_id path_kind azureResourceKindFederatedIdentityCredential (fic_ID i))
     (external (fic_CreateOrUpdate (ic_federatedCredentials (path_clients scope s)) n u f z))"
  by (simp_all add: path_clients_def path_groups_def path_identities_def path_credentials_def Let_def
      yields_answered_with path_id_named const_defs)

lemma path_sdk_named: "arm_ids_named path_kind (path_sdk scope)"
  unfolding arm_ids_named_def by (auto dest!: path_sdk_clients intro!: path_clients_named)

lemma azure_keeps_valid: "preserves sim_valid (on_azure m)"
  by (rule preserves_on_azure) (simp add: sim_valid_def)

lemma path_clients_keep: "clients_keep sim_valid (path_clients scope s)"
proof -
  have "preserves sim_valid (fic_List (lift_credentials (mem_credentials scope)) a b)" for a b
    by (simp add: preserves_def sim_valid_def fic_List_def lift_credentials_def mem_credentials_def run_list_pages run_simps
        split: prod.split sum.split)
  then show ?thesis
    by (simp add: clients_keep_def path_clients_def path_identities_def path_credentials_def lift_identities_def
        lift_credentials_def fic_List_def preserves_answered_with azure_keeps_valid Let_def)
qed

lemma path_others_keep:
  "preserves sim_valid (rg_Get (ic_resourceGroups (path_clients scope s)) n)"
  "preserves sim_valid (rg_CreateOrUpdate (ic_resourceGroups (path_clients scope s)) n x)"
  "preserves sim_valid (ui_CreateOrUpdate (ic_identities (path_clients scope s)) n u y)"
  "preserves sim_valid (ui_Delete (ic_identities (path_clients scope s)) n u)"
  "preserves sim_valid (fic_Get (ic_federatedCredentials (path_clients scope s)) n u f)"
  by (simp_all add: path_clients_def path_groups_def path_identities_def path_credentials_def lift_identities_def
      lift_credentials_def lift_groups_def preserves_answered_with azure_keeps_valid Let_def)

section \<open>The managers on it\<close>

lemma path_manager_keeps:
  "preserves sim_valid (Manager_Ensure (path_sdk scope) m i u s)" "preserves sim_valid (Manager_DetectRecovery (path_sdk scope) m i)"
  "preserves sim_valid (Manager_Delete (path_sdk scope) m i)"
proof -
  note calls = clients_keepD[OF path_clients_keep] path_others_keep
  have "preserves sim_valid (ensure (path_clients scope t) i u s)" "preserves sim_valid (detectRecovery (path_clients scope t) i)"
    "preserves sim_valid (delete_identity (path_clients scope t) i)" for t
    unfolding ensure_def ensureUserAssignedIdentity_def get_or_create_identity_def ensureResourceGroup_def
      ensureFederatedIdentityCredential_def reconcile_credential_def detectRecovery_def delete_identity_def Let_def
    by (intro preserves_intros calls)+
  then show "preserves sim_valid (Manager_Ensure (path_sdk scope) m i u s)" "preserves sim_valid (Manager_DetectRecovery (path_sdk scope) m i)"
    "preserves sim_valid (Manager_Delete (path_sdk scope) m i)"
    unfolding Manager_Ensure_def Manager_DetectRecovery_def Manager_Delete_def with_clients_def
    by (auto intro!: preserves_io_fail dest!: path_sdk_clients split: sum.split)
qed

definition path_storage_sdk :: "'w storageSDK" where
  "path_storage_sdk = \<lparr>
     ss_NewResourceGroupsClient = (\<lambda>s c. Inr (path_groups \<lparr>
        rg_Get = (\<lambda>n. io_return \<lparr> rg_ID = None, rg_Location = None \<rparr>), rg_CreateOrUpdate = (\<lambda>n d. io_return d) \<rparr>)),
     ss_NewAccountsClient = (\<lambda>s c. Inr \<lparr>
        sa_GetProperties = (\<lambda>rg a. io_fail not_found),
        sa_BeginCreate = (\<lambda>rg a p. io_return (io_return \<lparr> acc_ID = path_id ''StorageAccount'' a, acc_Tags = acp_Tags p,
           acc_Properties = Some (acp_Properties p) \<rparr>)),
        sa_Update = (\<lambda>rg a t p. io_fail not_found), sa_Delete = (\<lambda>rg a. io_fail not_found) \<rparr>),
     ss_NewBlobContainersClient = (\<lambda>s c. Inr \<lparr>
        bc_Get = (\<lambda>rg a n. io_fail not_found),
        bc_Create = (\<lambda>rg a n x. io_return (x\<lparr>bc_ID := path_id ''BlobContainer'' (a @ ''/'' @ n)\<rparr>)),
        bc_Update = (\<lambda>rg a n x. io_fail not_found) \<rparr>),
     ss_NewBlobClient = (\<lambda>url c. Inr (\<lambda>container name content kind. io_return ())) \<rparr>"

end
