(* ===== verification/Schema_Properties.thy ===== *)
theory Schema_Properties
  imports Sim_Cloud
begin

text \<open>
  The reconcilers write only statuses within their schemas, up to the length of messages, with the publisher and the
  managers that main.go wires, and a concrete cluster and cloud on which they do.
\<close>

section \<open>A concrete wiring\<close>

lemma path_storage_named: "storage_ids_named path_kind path_storage_sdk"
proof -
  have returned: "yields P (external (io_return a))" if "P a" for P and a :: 'b
    using that by (auto simp: yields_def run_external io_return_def)
  have failed: "yields P (external (io_fail e))" for P :: "'b \<Rightarrow> bool" and e
    by (auto simp: yields_def run_external io_fail_def)
  show ?thesis
    by (auto simp: storage_ids_named_def newStorageClients_def path_storage_sdk_def path_groups_def
        intro!: yields_answered_with path_id_named returned failed)
qed

definition valid_publisher :: "sim BlobOIDCDocumentPublisher" where
  "valid_publisher = \<lparr> bp_Reader = Some sim_reader, bp_Credential = Some ''credential'', bp_Scope = valid_scope \<rparr>"

text \<open>What every call of the storage clients keeps, a publish and a deletion keep.\<close>

lemma storage_calls_keep:
  assumes groups: "\<And>n. preserves I (rg_Get (sc_resourceGroups c) n)" "\<And>n d. preserves I (rg_CreateOrUpdate (sc_resourceGroups c) n d)"
    and accounts: "\<And>n a. preserves I (sa_GetProperties (sc_storageAccounts c) n a)" "preserves I (create_account c issuer)"
      "\<And>n a t p. preserves I (sa_Update (sc_storageAccounts c) n a t p)" "\<And>n a. preserves I (sa_Delete (sc_storageAccounts c) n a)"
    and containers: "\<And>n a b. preserves I (bc_Get (sc_blobContainers c) n a b)" "\<And>n a b x. preserves I (bc_Create (sc_blobContainers c) n a b x)"
      "\<And>n a b x. preserves I (bc_Update (sc_blobContainers c) n a b x)"
    and blobs: "\<And>name content. preserves I (uploadJSON c issuer name content)"
    and secrets: "\<And>k. preserves I (GetSecret reader k)"
  shows "preserves I (publish_with C c reader issuer)" "preserves I (delete_with c issuer)"
proof -
  show "preserves I (publish_with C c reader issuer)"
    unfolding publish_with_def ensureStorage_def ensureResourceGroup_def get_or_create_account_def convergeStorageAccount_def
      ensureBlobContainer_def buildOIDCDocuments_def PublicKeysPEM_def Let_def
    by (intro preserves_intros preserves_read_public_keys groups accounts containers blobs secrets)
  show "preserves I (delete_with c issuer)"
    unfolding delete_with_def Let_def by (intro preserves_intros accounts)
qed

lemma path_publisher_keeps:
  "preserves sim_valid (Publisher_Publish C path_storage_sdk valid_publisher issuer)"
  "preserves sim_valid (Publisher_Delete path_storage_sdk valid_publisher issuer)"
proof -
  obtain c where c: "newStorageClients (path_storage_sdk :: sim storageSDK) valid_scope ''credential'' = Inr c"
    by (simp add: newStorageClients_def path_storage_sdk_def)
  have secret: "preserves sim_valid (GetSecret sim_reader k)" for k
    by (simp add: preserves_def sim_reader_def)
  have create: "preserves sim_valid (create_account c issuer)"
    using c by (auto simp: newStorageClients_def path_storage_sdk_def create_account_def preserves_def run_simps)
  have "preserves sim_valid (publish_with C c sim_reader issuer)" "preserves sim_valid (delete_with c issuer)"
    by (intro storage_calls_keep[where reader = sim_reader] secret create;
        use c in \<open>auto simp: newStorageClients_def path_storage_sdk_def path_groups_def uploadJSON_def
          intro!: preserves_intros preserves_answered_with\<close>)+
  then show "preserves sim_valid (Publisher_Publish C path_storage_sdk valid_publisher issuer)"
    "preserves sim_valid (Publisher_Delete path_storage_sdk valid_publisher issuer)"
    by (simp_all add: Publisher_Publish_def Publisher_Delete_def valid_publisher_def valid_scope c)
qed

section \<open>The property\<close>

text \<open>C13. The reconcilers ask the API server to store only statuses within the schemas of the CRDs, with one
  exception: the length of a condition's message, which carries the text of an error.  The CRDs declare for the three
  statuses: patterns and lengths of condition types and reasons, the condition states, one condition per type, one
  Azure resource per ID, one signing key per identifier, non-empty fields, the provenances and key states, a plan without
  repeated audiences, generations that are not negative (\<open>fitting\_issuer\<close> and its two siblings), and messages of at most
  32768 characters (\<open>valid\_issuer\<close> and its siblings, which is what the server stores and returns).  Take any predicate
  \<open>I\<close> on the world that an API server keeps when it is asked to store fitting objects only (\<open>schema_cluster\<close>), as "no
  write has been rejected but for the length of a message" is, and that the other
  parties keep.  Then a reconcile of each of the three kinds keeps it, on every path, errors and refused writes included,
  with the publisher and the managers main.go wires.
  Azure must identify resources of different kinds differently (\<open>named_id\<close>).\<close>
theorem status_writes_fit_schema:
  assumes "condition_list_laws L" and "storage_ids_named K storage" and "arm_ids_named K arm"
    and "schema_cluster I (ir_Client issuers)" and "issuer_parties_keep I issuers"
    and "ir_Publisher issuers = Some (blob_publisher C storage publisher)"
    and "schema_cluster I (wr_Client workloads)" and "identity_parties_keep I workloads"
    and "wr_Manager workloads = Some (azure_identity_manager arm manager)"
    and "schema_cluster I (rr_Client recoveries)" and "recovery_parties_keep I recoveries"
    and "rr_Manager recoveries = Some (azure_recovery_manager arm recovery_manager)" and "wrm_clientsFactory recovery_manager = None"
  shows "preserves (in_ctx I) (Issuer_Reconcile L issuers name) \<and>
    preserves (in_ctx I) (WorkloadIdentity_Reconcile L workloads identity) \<and>
    preserves (in_ctx I) (Recovery_Reconcile L recoveries recovery)"
proof (intro conjI)
  have "(\<lambda>rs. storage_ids_named K storage \<longrightarrow> valid_resources rs) \<le> valid_resources" using assms(2) by auto
  then show "preserves (in_ctx I) (Issuer_Reconcile L issuers name)"
    by (rule blob_reports.issuer_reconcile_valid[OF assms(1,4-6)])
  have "(\<lambda>rs. arm_ids_named K arm \<longrightarrow> valid_resources rs) \<le> valid_resources" using assms(3) by auto
  then show "preserves (in_ctx I) (WorkloadIdentity_Reconcile L workloads identity)"
    by (rule azure_reports.identity_reconcile_valid[OF assms(1,7-9) azure_identity_manager_simps(1)])
  have "recovery_manager\<lparr>wrm_clientsFactory := None\<rparr> = recovery_manager" using assms(13) by (cases recovery_manager) simp
  then have "rr_Manager recoveries = Some (azure_recovery_manager arm (recovery_manager\<lparr>wrm_clientsFactory := None\<rparr>))"
    using assms(12) by simp
  then show "preserves (in_ctx I) (Recovery_Reconcile L recoveries recovery)"
    by (rule azure_recovery_reports.recovery_reconcile_valid[OF assms(1,10,11)])
qed

definition path_issuers :: "sim OIDCIssuerReconciler" where
  "path_issuers = \<lparr> ir_Client = strict_cluster, ir_Publisher = Some (blob_publisher demo_crypto path_storage_sdk valid_publisher),
     ir_OpenShift = None, ir_ServiceAccountTokens = None, ir_RefreshInterval = 0 \<rparr>"

definition path_identity_reconciler :: "sim WorkloadIdentityReconciler" where
  "path_identity_reconciler = \<lparr> wr_Client = strict_cluster,
     wr_Manager = Some (azure_identity_manager (path_sdk valid_scope) demo_wim),
     wr_RecoveryDetector = Some (Manager_DetectRecovery (path_sdk valid_scope) demo_wim),
     wr_Recorder = None, wr_RefreshInterval = 0 \<rparr>"

definition path_recovery_manager :: "sim RecoveryManager" where
  "path_recovery_manager = \<lparr> wrm_Credential = Some ''credential'', wrm_Scope = valid_scope, wrm_clientsFactory = None \<rparr>"

definition path_recoveries :: "sim RecoveryReconciler" where
  "path_recoveries = \<lparr> rr_Client = strict_cluster, rr_APIReader = None,
     rr_Manager = Some (azure_recovery_manager (path_sdk valid_scope) path_recovery_manager) \<rparr>"

lemma path_recovery_keeps:
  "manager_apart sim_valid (azure_recovery_manager (path_sdk valid_scope) path_recovery_manager)"
  by (rule manager_apart_clients[OF _ path_clients_keep])
    (simp add: recovery_clients_def path_recovery_manager_def newIdentityClients_def path_sdk_def path_clients_def valid_scope)

theorem status_writes_fit_schema_witness:
  "preserves (in_ctx sim_valid) (Issuer_Reconcile std_lib path_issuers OIDCIssuerName) \<and>
   preserves (in_ctx sim_valid) (WorkloadIdentity_Reconcile std_lib path_identity_reconciler (object_key (wi_Meta demo_identity))) \<and>
   preserves (in_ctx sim_valid) (Recovery_Reconcile std_lib path_recoveries demo_recovery_key)"
proof -
  have reader: "recoveryReader path_recoveries = sim_reader" by (simp add: path_recoveries_def recoveryReader_def)
  have issuers: "issuer_parties_keep sim_valid path_issuers"
    by (simp add: issuer_parties_keep_def path_issuers_def blob_publisher_def path_publisher_keeps)
  have identities: "identity_parties_keep sim_valid path_identity_reconciler"
    by (simp add: identity_parties_keep_def path_identity_reconciler_def path_manager_keeps)
  have recoveries: "recovery_parties_keep sim_valid path_recoveries"
    using path_recovery_keeps sim_schema_reader
    by (simp add: recovery_parties_keep_def reader) (simp add: manager_apart_def path_recoveries_def)
  show ?thesis
    by (rule status_writes_fit_schema[where recovery_manager = path_recovery_manager, OF std_condition_list_laws path_storage_named
          path_sdk_named[of valid_scope] _ issuers _ _ identities _ _ recoveries])
      (simp_all add: path_issuers_def path_identity_reconciler_def path_recoveries_def path_recovery_manager_def sim_schema_cluster)
qed

section \<open>Messages without a bound\<close>

text \<open>
  The exception is real: a failure whose text has more than 32768 characters makes a status its CRD refuses, so the
  patch that should report the failure fails.  (The list operations are those of apimachinery as \<open>std_lib\<close> has them.)
\<close>

lemma std_set_in: "c \<in> set (std_set cs c)"
  by (induction cs c rule: std_set.induct) auto

lemma overlong_message_refused:
  assumes "32768 < utf8_length message"
  shows "\<not> valid_issuer (x\<lparr>oi_Status := issuer_not_ready_status std_lib g reason message s\<rparr>)"
    and "\<not> valid_identity (y\<lparr>wi_Status := not_ready_status std_lib g reason message s'\<rparr>)"
proof -
  have long: "\<not> valid_condition c" if "c_Message c = message" for c
    using assms that by (simp add: valid_condition_def)
  have stored: "\<not> list_all valid_condition (SetStatusCondition std_lib cs c)" if "c_Message c = message" for cs c
    using long[OF that] std_set_in[of c cs] by (auto simp: std_lib_def list_all_iff)
  show "\<not> valid_issuer (x\<lparr>oi_Status := issuer_not_ready_status std_lib g reason message s\<rparr>)"
    and "\<not> valid_identity (y\<lparr>wi_Status := not_ready_status std_lib g reason message s'\<rparr>)"
    by (simp_all add: valid_issuer_def valid_identity_def issuer_not_ready_status_def not_ready_status_def stored
        issuer_condition_def ready_condition_def)
qed

end
