(* ===== verification/Spec2Isabelle.thy ===== *)
theory Spec2Isabelle
  imports Identity_Properties Recovery_Lifecycle Recovery_Progress Recovery_Election Workload_Properties Admission_Properties
    Event_Predicates Token_Client Issuer_Publishing Startup_Properties Schema_Properties
begin

text \<open>
  A verification development for the Azure Workload Identity Operator, a Kubernetes operator written in Go.

  \<^bold>\<open>The program.\<close>  Three reconcilers run in one process.  The OIDCIssuer reconciler publishes an OIDC discovery document
  and a key set to a blob container in Azure Storage and may make the published URL the ServiceAccount issuer of an
  OpenShift cluster.  The WorkloadIdentity reconciler keeps a user-assigned managed identity with one federated
  credential in Azure and the labels and annotations of a ServiceAccount in the cluster.  When a WorkloadIdentity
  was deleted and created again, its managed identity still carries the UID of the old object; a
  WorkloadIdentityRecovery then hands it to the new one in four stages (not started, in progress, committed but
  fenced, complete) that are recorded in the tags of the managed identity and, after each stage, in the status of the
  recovery.  The two reconcilers synchronise only through objects: the target's Ready condition (RecoveryRequired,
  RecoveryInProgress, RecoveryCompleted) and the Azure tags that fence the identity.  Admission webhooks enforce
  what the reconcilers rely on.  Everything is wrapped by optional tracing and wired up in cmd/main.go.

  \<^bold>\<open>The model.\<close>  Prelude: a Go function with effects is a state transformer over an abstract world \<open>'w\<close>, an error is
  the left value of a sum, and the parts of strings, strconv, fmt and maps the sources use are written out.  Errors: the
  error types with their wrapping.  Api_Types (api/v1alpha1): the custom resources as records.  Kube: the interface of
  the Kubernetes clients (\<open>Reader\<close>, \<open>Cluster\<close>) and of the library functions (\<open>k8s_lib\<close>) with their laws.  A nil pointer or
  interface is \<open>None\<close>; where the code would panic on one, the model returns the error \<open>nil_dereference\<close>.  A Go map is a
  finite map, an integer with possible overflow is a word (Digest, the refresh jitter), a loop over a list is a fold,
  the pager of the SDK is a finite tree, so every function of the model is total.

  \<^bold>\<open>Theories and sources.\<close>
  \<^item> Digest, Base64, Json, Naming: SHA-256 and FNV-1a, base64url, encoding/json as far as used;
    internal/workloadidentity/naming.go and references.go.  The reader of JSON texts runs on fuel \<open>2 * length + 1\<close>,
    which is proved to be enough for every text.
  \<^item> Azure_Scope, Azure_Identity, Azure_Recovery: internal/azure/ownership.go, scope.go, scope_anchor.go,
    workload_identity.go, federated_identity_credentials.go, workload_identity_recovery.go.
  \<^item> Service_Accounts, Workload_Controller: internal/controller/workloadidentity_controller.go.
  \<^item> Recovery_Controller, Recovery_Election: internal/controller/workloadidentityrecovery_*.go.
  \<^item> Issuer_Guards, Issuer_Controller, Openshift, Token_Client: internal/oidcissuer, internal/controller/
    oidcissuer_controller.go, internal/openshift/authentication.go, internal/kubernetes/serviceaccounttoken.go.
  \<^item> Signing_Keys, Oidc_Documents, Oidc_Publisher: internal/signingkey, internal/oidc, internal/azure/oidc_publisher.go.
  \<^item> Admission: internal/webhook/v1alpha1.  Event_Predicates: internal/controller/event_predicates.go.
  \<^item> Telemetry, Telemetry_Runtime: internal/telemetry.  Startup: cmd/main.go and the \<open>SetupWithManager\<close> functions, with
    the watches, map functions and field indexes of the controllers.
  \<^item> Status_Schema: the schemas that the generated CRDs (config/crd/bases) give to the statuses of api/v1alpha1.

  \<^bold>\<open>Parameters.\<close>  Code that is not in the repository is a parameter.  Its documented behaviour is a named predicate:
  \<open>arm_laws\<close> and \<open>arm_available\<close> (Arm_Store) for the identity clients of the Azure SDK, \<open>storage_laws\<close> (Storage_Store) for
  the storage clients, \<open>k8s_lib_laws\<close> (Kube) for apimachinery and controller-runtime, \<open>recovery_store\<close> and
  \<open>recovery_environment\<close> for the API server's treatment of recoveries, \<open>poll_laws\<close> (Openshift) for wait.Poll,
  \<open>crypto_laws\<close> (Signing_Keys) for crypto/x509 and encoding/pem, \<open>condition_list_laws\<close> (Status_Schema) for the condition
  lists of apimachinery, \<open>schema_cluster\<close> (Schema_Calls) for an API server that stores valid objects, \<open>arm_ids_named\<close> and
  \<open>storage_ids_named\<close> (Schema_Contracts) for the resource IDs of Azure.  The laws allow a failing write to have been applied or
  not.  Sim_Cluster, Sim_Azure, Sim_Cloud, \<open>mem_clients\<close> and \<open>mem_storage\<close> are in-memory instances that satisfy them; the witnesses
  run on these.  The texts of JSON errors, strconv.ParseFloat, the OpenTelemetry SDK and controller-runtime's
  manager (\<open>platform\<close>) are parameters without laws.

  \<^bold>\<open>What the laws leave out.\<close>  controller-runtime's client reads from a cache that may lag behind the server.  The
  properties that speak of stored objects (\<open>recovery_store\<close>, \<open>objects_read\<close>, \<open>finalizer_store\<close>, \<open>keeps_record\<close>) assume that
  what a reconcile reads of its own object is what is stored; all others hold for any answers of the reader.  The webhook
  of OIDCIssuers reads through the uncached reader, the reconciler through the cache: their decisions are compared where
  both report the same WorkloadIdentities (\<open>agreeing\<close>).  \<open>arm_laws\<close> keys resource groups and identities by their names as
  written and echoes IDs as written, though Azure ignores case in both.

  \<^bold>\<open>What is shown.\<close>
  \<^item> Recovery in Azure (Recovery_Protocol, Recovery_Properties): the operations refine the abstract machine
    \<open>recovery_step\<close>: the stage only moves forward, whatever calls are made with whatever results; ownership changes hands
    only under the fence and with the exact credential; the sequence completes from every stage when Azure works.
  \<^item> The recovery reconciler (Recovery_Effects, Recovery_Lifecycle, Recovery_Status_Machine): which calls are made from
    which status, soundness of the stored status along its own state machine, and that a deletion waits for
    completion.  Recovery_Progress: at most five successful reconciles in a row ask to be run again at once: one
    adds the finalizer, four write the status (\<open>to_come\<close> counts the writes to come).  Recovery_Service and
    Recovery_Truth compose both sides: under the contract \<open>recovery_service\<close>, which the Azure manager honours, the
    stored status claims no more than Azure holds, unless a step of somebody else took a stage back, such as the
    deletion of the identity.  Recovery_Election: all reconciles that see the same recoveries elect the same single one.
  \<^item> The identity manager (Identity_Properties): what the ownership check accepts, that nothing foreign is touched, what
    ensure establishes and that it is idempotent, what delete removes.
  \<^item> Call_Results: triples for what the calls of the reconcilers may return, shared by the three reconcilers.
  \<^item> The WorkloadIdentity reconciler (Workload_Effects, Workload_Contracts, Workload_Properties): the bound on its writes (with
    the finalizer or while adding it),
    the pause while a recovery runs, deletion under both policies, the provenance of ServiceAccounts, failure
    containment, the bounds of the jittered interval without wrap-around.
  \<^item> The OIDCIssuer reconciler (Issuer_Properties, Issuer_Publishing): deletion only past all three guards, each run in the
    world the one before left, the previous issuer recorded first and never lost on any path, the
    switch and rollout of the cluster's issuer step by step, adopted accounts kept, and that an OIDCIssuer recorded as
    Ready is served, unless it asks for a switch that nothing can make.
  \<^item> Publishing (Oidc_Properties, Storage_Store, Storage_Properties): documents and status describe the same keys, read
    back from their JSON texts; what a publish leaves in storage.  Token_Client: the issuer claim is read back exactly.
  \<^item> Admission (Admission_Properties): admitted identities stay disjoint, webhook and reconciler decide deletions
    alike on what both read.  Event_Predicates: dropped events are irrelevant and the hand-offs of a recovery wake the
    other controller.
  \<^item> Telemetry_Runtime and Startup_Properties: tracing changes neither results nor effects; the manager starts only
    with a valid scope that the anchor file read in the same run confirms, the clients that run created, and exactly
    the intended registrations.
  \<^item> Types (Schema_Contracts, Schema_Calls, Schema_Issuer, Schema_Identity, Schema_Recovery, Schema_Properties): what the
    reconcilers ask the API server to store lies within the schemas of the CRDs (\<open>fitting_issuer\<close> and its siblings)
    but for the bound of 32768 characters on condition messages, which only what is stored satisfies (\<open>valid_issuer\<close>
    and its siblings): messages carry the texts of errors, which nothing bounds, and the server refuses a longer one.

  Interfaces are locales with an interpretation on the model: \<open>identity_source\<close> (Workload_Contracts), \<open>recovery_service\<close>
  (Recovery_Service), \<open>issuer_switch\<close> (Issuer_Properties), \<open>document_publisher\<close> with its extension
  \<open>serving_publisher\<close> (Issuer_Publishing), \<open>publisher_reports\<close>, \<open>identity_reports\<close> and \<open>recovery_reports\<close>
  (Schema_Contracts).  Effects are bounded by
  compositional rules: \<open>preserves\<close> (Prelude), \<open>leads\<close> (Kube_Effects), \<open>recovery_flow\<close> (Recovery_Effects), \<open>forwards\<close>
  (Recovery_Progress), \<open>fails_only\<close>, \<open>yields\<close> and \<open>gives\<close> (Call_Results), \<open>emits\<close> (Startup_Properties), \<open>traceable\<close> (Telemetry).

  \<^bold>\<open>Deviations from the documented behaviour\<close> that the proofs brought up are lemmas too: \<open>missing_openshift_client_reported_ready\<close>
  and \<open>rollout_awaited_once\<close> (Issuer_Properties), \<open>start_ignores_missing_target\<close> (Recovery_Lifecycle),
  \<open>nil_openshift_client_watched\<close>, \<open>nil_openshift_client_blocks_deletion\<close> and \<open>failed_run_not_flushed\<close> (Startup_Properties),
  \<open>nan_ratio_accepted\<close> (Telemetry_Runtime), \<open>overlong_message_refused\<close> (Schema_Properties).

  \<^bold>\<open>Not modelled.\<close>  Generated deep copies and the registration of the API group (values are immutable here), the client
  options that pass a tracing provider to the SDK, the parsing of command line flags (the flag values are the input of
  \<open>Startup.main\<close>), log lines, and the helpers of the end-to-end tests.  A call of a client is any function of the world, so
  another actor may act between two calls; only where a property assumes the laws of a store does nobody else write
  the objects it speaks about during a reconcile, and such properties let others act between reconciles.
\<close>

end
